(* ===== verification/Prelude.thy ===== *)
theory Prelude
  imports Main "HOL-Library.Word"
begin

text \<open>
  Shared vocabulary of the development: Go error values and \<^verbatim>\<open>errors.Is\<close>, the result type of
  fallible operations, the world an operation runs in (database, clock, scripted faults,
  randomness), and the generic lemmas and theorem collections the component theories use.

  A Go function \<open>f(args) (T, error)\<close> that touches the outside becomes a HOL function
  \<open>f args w\<close> with a result of type \<^verbatim>\<open>(gerror + 'a) \<times> world\<close>: \<open>Inl\<close> is the non-nil error, \<open>Inr\<close> the
  value returned with a nil error, and the second component is the world afterwards.
\<close>

section \<open>Go errors\<close>

text \<open>
  Sentinel errors are constructors. \<open>Wrapf m e\<close> is \<^verbatim>\<open>fmt.Errorf("m: %w", e)\<close>, an error that
  \<^verbatim>\<open>errors.Is\<close> sees through; \<open>ErrMsg m\<close> is an error built from text alone
  (\<^verbatim>\<open>errors.New\<close>, or \<^verbatim>\<open>fmt.Errorf\<close> without \<^verbatim>\<open>%w\<close>); \<open>ErrPg m\<close> is an error of the driver or of PostgreSQL.
\<close>

datatype gerror =
    ErrNotFound | ErrInvalidCredential | ErrInvalidInput | ErrCorruptCredential
  | ErrInvalidKey | ErrUnknownKeyVersion | ErrInvalidCiphertext
  | ErrInvalidCredentials | ErrInvalidConfiguration | ErrAccessDenied
  | ErrUserBlocked | ErrSourceMismatch | ErrNoSession | ErrInvalidSession
  | ErrAccountNotFound | ErrExecutorUnavailable | ErrUnsupportedProvider
  | ErrConfigNotFound
  | ErrNoRows
  | ErrPg string
  | ErrMsg string
  | Wrapf string gerror

type_synonym 'a result = "gerror + 'a"

fun errors_Is :: "gerror \<Rightarrow> gerror \<Rightarrow> bool" where
  "errors_Is (Wrapf m e) t = (Wrapf m e = t \<or> errors_Is e t)"
| "errors_Is e t = (e = t)"

lemma errors_Is_refl [simp]: "errors_Is e e"
  by (cases e) auto

definition is_ok :: "'a result \<Rightarrow> bool" where
  "is_ok r = (case r of Inl _ \<Rightarrow> False | Inr _ \<Rightarrow> True)"

lemma is_ok_simps [simp]: "is_ok (Inl e) = False" "is_ok (Inr x) = True"
  by (simp_all add: is_ok_def)

lemma is_ok_conv: "is_ok r \<longleftrightarrow> (\<exists>x. r = Inr x)"
  by (cases r) auto

section \<open>Time\<close>

text \<open>
  An instant is an \<^typ>\<open>int\<close>, nanoseconds since the Unix epoch, and a \<^verbatim>\<open>time.Duration\<close> an \<^typ>\<open>int\<close>
  of nanoseconds. The \<^verbatim>\<open>IsZero\<close> instant of Go (year 1) is \<open>zero_time\<close>.
\<close>

type_synonym instant = int
type_synonym duration = int

definition second :: duration where "second = 1000000000"
definition minute :: duration where "minute = 60 * second"
definition hour :: duration where "hour = 60 * minute"
definition zero_time :: instant where "zero_time = - (62135596800 * second)"

lemmas time_unit_defs = second_def minute_def hour_def

lemma second_pos [simp]: "0 < second"
  by (simp add: second_def)

section \<open>Lists as tables\<close>

text \<open>
  A table is the list of its rows. The lemmas below are about the three shapes every SQL
  statement of the program has: selecting rows, updating the rows that match, deleting rows.
\<close>

definition update_where :: "('r \<Rightarrow> bool) \<Rightarrow> ('r \<Rightarrow> 'r) \<Rightarrow> 'r list \<Rightarrow> 'r list" where
  "update_where p f = map (\<lambda>r. if p r then f r else r)"

definition count_where :: "('r \<Rightarrow> bool) \<Rightarrow> 'r list \<Rightarrow> int" where
  "count_where p t = int (length (filter p t))"

definition delete_where :: "('r \<Rightarrow> bool) \<Rightarrow> 'r list \<Rightarrow> 'r list" where
  "delete_where p = filter (\<lambda>r. \<not> p r)"

lemma set_update_where:
  "set (update_where p f t) = (\<lambda>r. if p r then f r else r) ` set t"
  by (simp add: update_where_def)

lemma update_where_no_match: "count_where p t = 0 \<Longrightarrow> update_where p f t = t"
  by (auto simp: count_where_def update_where_def filter_empty_conv map_idI)

lemma count_where_pos: "count_where p t \<noteq> 0 \<longleftrightarrow> (\<exists>r \<in> set t. p r)"
  by (auto simp: count_where_def filter_empty_conv)

lemma count_where_nonneg [simp]: "0 \<le> count_where p t"
  by (simp add: count_where_def)

lemma map_update_where_key:
  "(\<And>r. r \<in> set t \<Longrightarrow> p r \<Longrightarrow> k (f r) = k r) \<Longrightarrow> map k (update_where p f t) = map k t"
  by (induction t) (auto simp: update_where_def)

lemma distinct_key_eq:
  "distinct (map k t) \<Longrightarrow> r \<in> set t \<Longrightarrow> r' \<in> set t \<Longrightarrow> k r = k r' \<Longrightarrow> r = r'"
  by (auto simp: distinct_map dest: inj_onD)

lemma find_Some_set: "find p t = Some r \<Longrightarrow> r \<in> set t \<and> p r"
  by (auto simp: find_Some_iff)

lemma find_None_set: "find p t = None \<longleftrightarrow> (\<forall>r \<in> set t. \<not> p r)"
  by (auto simp: find_None_iff)

lemma find_unique_key:
  assumes "distinct (map k t)" and "r \<in> set t" and "p r"
    and "\<And>r'. r' \<in> set t \<Longrightarrow> p r' \<Longrightarrow> k r' = k r"
  shows "find p t = Some r"
proof (cases "find p t")
  case None
  with assms show ?thesis by (auto simp: find_None_set)
next
  case (Some r')
  then have "r' \<in> set t" "p r'" by (auto dest: find_Some_set)
  with assms distinct_key_eq have "r' = r" by metis
  with Some show ?thesis by simp
qed

lemma delete_where_set [simp]: "r \<in> set (delete_where p t) \<longleftrightarrow> r \<in> set t \<and> \<not> p r"
  by (auto simp: delete_where_def)

lemma distinct_delete_where: "distinct (map k t) \<Longrightarrow> distinct (map k (delete_where p t))"
  by (simp add: delete_where_def distinct_map_filter)

section \<open>Word counters\<close>

text \<open>Go \<^verbatim>\<open>uint64\<close> counters wrap around; below the limit an increment counts.\<close>

type_synonym u64 = "64 word"

lemma unat_inc: "unat c + 1 < 2 ^ 64 \<Longrightarrow> unat (c + 1) = unat c + 1" for c :: u64
  by (simp add: unat_word_ariths)

end
