(* ===== verification/Ttl_Cache.thy ===== *)
theory Ttl_Cache
  imports Prelude
begin

text \<open>
  \<^verbatim>\<open>internal/cache/ttl.go\<close>: the generic in-process cache with a fixed time to live. The state of a
  \<^verbatim>\<open>*TTL[K, V]\<close> is the record \<open>ttl\<close>; the nil pointer is \<open>None\<close>. The mutex makes every method one
  atomic step, so a method is one function on the state. Methods that call \<^verbatim>\<open>c.now()\<close> take the
  instant read as their argument \<open>now\<close>.

  The locale \<open>expiring_cache\<close> is the contract the clients (API-key repository and session
  authenticator) use; it is interpreted on the model at the end, after the equivalence of the cache
  with a specification that looks only at the history of calls.
\<close>

section \<open>The cache\<close>

record 'v ttlEntry =
  te_value :: 'v
  te_expiresAt :: instant

record Stats =
  Hits :: u64
  Misses :: u64

record ('k, 'v) ttl =
  c_ttl :: duration
  c_entries :: "'k \<Rightarrow> 'v ttlEntry option"
  c_hits :: u64
  c_misses :: u64

type_synonym ('k, 'v) TTL = "('k, 'v) ttl option"

definition NewTTL :: "duration \<Rightarrow> ('k, 'v) TTL" where
  "NewTTL d = Some \<lparr>c_ttl = d, c_entries = (\<lambda>_. None), c_hits = 0, c_misses = 0\<rparr>"

definition TTL_Get :: "instant \<Rightarrow> 'k \<Rightarrow> ('k, 'v) TTL \<Rightarrow> 'v option \<times> ('k, 'v) TTL" where
  "TTL_Get now key cp =
     (case cp of
        None \<Rightarrow> (None, None)
      | Some c \<Rightarrow>
          (if c_ttl c \<le> 0 then (None, Some c)
           else (case c_entries c key of
                   None \<Rightarrow> (None, Some (c\<lparr>c_misses := c_misses c + 1\<rparr>))
                 | Some e \<Rightarrow>
                     (if \<not> now < te_expiresAt e
                      then (None, Some (c\<lparr>c_entries := (c_entries c)(key := None),
                                          c_misses := c_misses c + 1\<rparr>))
                      else (Some (te_value e), Some (c\<lparr>c_hits := c_hits c + 1\<rparr>))))))"

definition TTL_Stats :: "('k, 'v) TTL \<Rightarrow> Stats" where
  "TTL_Stats cp =
     (case cp of None \<Rightarrow> \<lparr>Hits = 0, Misses = 0\<rparr> | Some c \<Rightarrow> \<lparr>Hits = c_hits c, Misses = c_misses c\<rparr>)"

definition TTL_Set :: "instant \<Rightarrow> 'k \<Rightarrow> 'v \<Rightarrow> ('k, 'v) TTL \<Rightarrow> ('k, 'v) TTL" where
  "TTL_Set now key v cp =
     (case cp of
        None \<Rightarrow> None
      | Some c \<Rightarrow>
          (if c_ttl c \<le> 0 then Some c
           else Some (c\<lparr>c_entries := (c_entries c)(key \<mapsto> \<lparr>te_value = v, te_expiresAt = now + c_ttl c\<rparr>)\<rparr>)))"

definition TTL_Delete :: "'k \<Rightarrow> ('k, 'v) TTL \<Rightarrow> ('k, 'v) TTL" where
  "TTL_Delete key cp =
     (case cp of None \<Rightarrow> None | Some c \<Rightarrow> Some (c\<lparr>c_entries := (c_entries c)(key := None)\<rparr>))"

text \<open>A nil \<^verbatim>\<open>match\<close> is \<open>None\<close>; the loop over the map visits every entry once.\<close>

definition TTL_DeleteWhere :: "('k \<Rightarrow> 'v \<Rightarrow> bool) option \<Rightarrow> ('k, 'v) TTL \<Rightarrow> ('k, 'v) TTL" where
  "TTL_DeleteWhere matchp cp =
     (case (cp, matchp) of
        (Some c, Some match) \<Rightarrow>
          Some (c\<lparr>c_entries :=
             (\<lambda>k. case c_entries c k of
                    None \<Rightarrow> None
                  | Some e \<Rightarrow> if match k (te_value e) then None else Some e)\<rparr>)
      | _ \<Rightarrow> cp)"

definition TTL_Clear :: "('k, 'v) TTL \<Rightarrow> ('k, 'v) TTL" where
  "TTL_Clear cp = (case cp of None \<Rightarrow> None | Some c \<Rightarrow> Some (c\<lparr>c_entries := (\<lambda>_. None)\<rparr>))"

lemmas ttl_defs = NewTTL_def TTL_Get_def TTL_Stats_def TTL_Set_def TTL_Delete_def TTL_DeleteWhere_def
  TTL_Clear_def

section \<open>What a cache holds at an instant\<close>

definition ttl_live :: "('k, 'v) TTL \<Rightarrow> instant \<Rightarrow> 'k \<Rightarrow> 'v option" where
  "ttl_live cp now key =
     (case cp of
        None \<Rightarrow> None
      | Some c \<Rightarrow>
          (if c_ttl c \<le> 0 then None
           else (case c_entries c key of
                   None \<Rightarrow> None
                 | Some e \<Rightarrow> if now < te_expiresAt e then Some (te_value e) else None)))"

text \<open>
  The contract. \<open>live c t k\<close> is what \<open>get\<close> returns for \<open>k\<close> at \<open>t\<close>. Reading never creates a value,
  writing a key changes that key only and for a bounded time, removal removes.
\<close>

locale expiring_cache =
  fixes live :: "'c \<Rightarrow> instant \<Rightarrow> 'k \<Rightarrow> 'v option"
    and get :: "instant \<Rightarrow> 'k \<Rightarrow> 'c \<Rightarrow> 'v option \<times> 'c"
    and put :: "instant \<Rightarrow> 'k \<Rightarrow> 'v \<Rightarrow> 'c \<Rightarrow> 'c"
    and del :: "'k \<Rightarrow> 'c \<Rightarrow> 'c"
    and delw :: "('k \<Rightarrow> 'v \<Rightarrow> bool) \<Rightarrow> 'c \<Rightarrow> 'c"
    and clr :: "'c \<Rightarrow> 'c"
    and life :: "'c \<Rightarrow> duration"
  assumes get_value: "fst (get t k c) = live c t k"
    and get_sub: "live (snd (get t k c)) t' k' = Some v \<Longrightarrow> live c t' k' = Some v"
    and get_keeps: "t \<le> t' \<Longrightarrow> live (snd (get t k c)) t' k' = live c t' k'"
    and put_other: "k' \<noteq> k \<Longrightarrow> live (put t k v c) t' k' = live c t' k'"
    and put_same: "live (put t k v c) t' k = (if t' < t + life c \<and> 0 < life c then Some v else None)"
    and del_live: "live (del k c) t' k' = (if k' = k then None else live c t' k')"
    and delw_live: "live (delw m c) t' k' =
          (case live c t' k' of None \<Rightarrow> None | Some v \<Rightarrow> if m k' v then None else Some v)"
    and clr_live: "live (clr c) t' k' = None"
    and live_antitone: "live c t' k = Some v \<Longrightarrow> t \<le> t' \<Longrightarrow> live c t k = Some v"
    and life_get: "life (snd (get t k c)) = life c"
    and life_put: "life (put t k v c) = life c"
    and life_del: "life (del k c) = life c"
    and life_delw: "life (delw m c) = life c"
    and life_clr: "life (clr c) = life c"
begin

lemmas life_simps = life_get life_put life_del life_delw life_clr

text \<open>\<open>all_live P c\<close>: every value the cache can still return satisfies \<open>P\<close>.\<close>

definition all_live :: "(instant \<Rightarrow> 'k \<Rightarrow> 'v \<Rightarrow> bool) \<Rightarrow> 'c \<Rightarrow> bool" where
  "all_live P c = (\<forall>t k v. live c t k = Some v \<longrightarrow> P t k v)"

lemma all_liveD: "all_live P c \<Longrightarrow> live c t k = Some v \<Longrightarrow> P t k v"
  by (simp add: all_live_def)

lemma all_live_hit: "all_live P c \<Longrightarrow> get t k c = (Some v, c') \<Longrightarrow> P t k v"
  using get_value [of t k c] by (auto simp: all_live_def)

lemma all_live_get: "all_live P c \<Longrightarrow> all_live P (snd (get t k c))"
  by (auto simp: all_live_def dest: get_sub)

lemma all_live_put:
  "all_live P c \<Longrightarrow> (\<And>t'. t' < t + life c \<Longrightarrow> P t' k v) \<Longrightarrow> all_live P (put t k v c)"
  unfolding all_live_def by (metis option.discI option.inject put_other put_same)

lemma all_live_del: "all_live P c \<Longrightarrow> all_live P (del k c)"
  by (auto simp: all_live_def del_live split: if_splits)

lemma all_live_delw:
  "(\<And>t k v. live c t k = Some v \<Longrightarrow> \<not> m k v \<Longrightarrow> P t k v) \<Longrightarrow> all_live P (delw m c)"
  by (auto simp: all_live_def delw_live split: option.splits if_splits)

lemma all_live_clr: "all_live P (clr c)"
  by (simp add: all_live_def clr_live)

lemma all_live_mono: "all_live P c \<Longrightarrow> (\<And>t k v. P t k v \<Longrightarrow> Q t k v) \<Longrightarrow> all_live Q c"
  by (auto simp: all_live_def)

end

definition ttl_life :: "('k, 'v) TTL \<Rightarrow> duration" where
  "ttl_life cp = (case cp of None \<Rightarrow> 0 | Some c \<Rightarrow> c_ttl c)"

interpretation ttlc: expiring_cache ttl_live TTL_Get TTL_Set TTL_Delete "\<lambda>m. TTL_DeleteWhere (Some m)"
  TTL_Clear ttl_life
  by unfold_locales
    (auto simp: ttl_live_def ttl_life_def ttl_defs split: option.splits if_splits)

section \<open>Equivalence with the history of calls\<close>

text \<open>
  The specification knows no entries: it looks at the calls made so far, latest first, and finds
  the last write to the key that no later call removed.
\<close>

datatype ('k, 'v) cache_call =
    CallGet instant 'k
  | CallSet instant 'k 'v
  | CallDelete 'k
  | CallDeleteWhere "'k \<Rightarrow> 'v \<Rightarrow> bool"
  | CallClear

fun call_time :: "('k, 'v) cache_call \<Rightarrow> instant option" where
  "call_time (CallGet t _) = Some t"
| "call_time (CallSet t _ _) = Some t"
| "call_time _ = None"

fun run_call :: "('k, 'v) cache_call \<Rightarrow> ('k, 'v) TTL \<Rightarrow> ('k, 'v) TTL" where
  "run_call (CallGet t k) c = snd (TTL_Get t k c)"
| "run_call (CallSet t k v) c = TTL_Set t k v c"
| "run_call (CallDelete k) c = TTL_Delete k c"
| "run_call (CallDeleteWhere m) c = TTL_DeleteWhere (Some m) c"
| "run_call CallClear c = TTL_Clear c"

fun run_history :: "duration \<Rightarrow> ('k, 'v) cache_call list \<Rightarrow> ('k, 'v) TTL" where
  "run_history d [] = NewTTL d"
| "run_history d (x # h) = run_call x (run_history d h)"

fun last_write :: "('k, 'v) cache_call list \<Rightarrow> 'k \<Rightarrow> ('v \<times> instant) option" where
  "last_write [] k = None"
| "last_write (CallGet _ _ # h) k = last_write h k"
| "last_write (CallSet t k' v # h) k = (if k' = k then Some (v, t) else last_write h k)"
| "last_write (CallDelete k' # h) k = (if k' = k then None else last_write h k)"
| "last_write (CallDeleteWhere m # h) k =
     (case last_write h k of None \<Rightarrow> None | Some (v, t) \<Rightarrow> if m k v then None else Some (v, t))"
| "last_write (CallClear # h) k = None"

definition spec_get :: "duration \<Rightarrow> ('k, 'v) cache_call list \<Rightarrow> instant \<Rightarrow> 'k \<Rightarrow> 'v option" where
  "spec_get d h now k =
     (case last_write h k of None \<Rightarrow> None | Some (v, t) \<Rightarrow> if now < t + d then Some v else None)"

text \<open>No call of the history happened after \<open>now\<close>.\<close>

definition before :: "('k, 'v) cache_call list \<Rightarrow> instant \<Rightarrow> bool" where
  "before h now = list_all (\<lambda>x. case call_time x of None \<Rightarrow> True | Some t \<Rightarrow> t \<le> now) h"

lemma life_run_history [simp]: "ttl_life (run_history d h) = d"
proof (induction h)
  case Nil
  show ?case by (simp add: ttl_life_def NewTTL_def)
next
  case (Cons x h)
  then show ?case by (cases x) (simp_all add: ttlc.life_simps)
qed

lemma run_history_live:
  assumes "0 < d" and "before h now"
  shows "ttl_live (run_history d h) now k = spec_get d h now k"
  using assms(2)
proof (induction h)
  case Nil
  show ?case by (simp add: ttl_live_def NewTTL_def spec_get_def)
next
  case (Cons x h)
  then have IH: "ttl_live (run_history d h) now k = spec_get d h now k" by (simp add: before_def)
  show ?case
  proof (cases x)
    case (CallGet t k')
    with Cons.prems have "t \<le> now" by (simp add: before_def)
    with CallGet IH show ?thesis by (simp add: ttlc.get_keeps spec_get_def)
  next
    case (CallSet t k' v)
    with IH assms(1) show ?thesis
      by (cases "k' = k") (auto simp: ttlc.put_same ttlc.put_other spec_get_def)
  next
    case (CallDelete k')
    with IH show ?thesis by (simp add: ttlc.del_live spec_get_def)
  next
    case (CallDeleteWhere m)
    with IH show ?thesis by (auto simp: ttlc.delw_live spec_get_def split: option.splits)
  next
    case CallClear
    then show ?thesis by (simp add: ttlc.clr_live spec_get_def)
  qed
qed

text \<open>
  C38. A read of the TTL cache returns exactly what the history of calls says: the value of the last
  write to that key, provided no \<open>Delete\<close>, \<open>Clear\<close> or matching \<open>DeleteWhere\<close> came after it and less
  than the time to live has passed since; otherwise a miss. Eager removal of expired entries by
  earlier reads is invisible.
\<close>

theorem ttl_get_matches_history:
  assumes "0 < d" and "before h now"
  shows "fst (TTL_Get now k (run_history d h)) = spec_get d h now k"
  by (simp add: ttlc.get_value run_history_live [OF assms])

theorem ttl_get_matches_history_witness:
  "fst (TTL_Get 12 ''b'' (run_history 10 [CallGet 11 ''a'', CallDelete ''a'', CallSet 5 ''b'' (7::int)])) = Some 7"
proof -
  have "before [CallGet 11 ''a'', CallDelete ''a'', CallSet 5 ''b'' (7::int)] 12"
    by (simp add: before_def)
  then show ?thesis
    using ttl_get_matches_history [of 10 "[CallGet 11 ''a'', CallDelete ''a'', CallSet 5 ''b'' (7::int)]" 12 "''b''"]
    by (simp add: spec_get_def)
qed

section \<open>Counters\<close>

fun count_gets :: "('k, 'v) cache_call list \<Rightarrow> nat" where
  "count_gets [] = 0"
| "count_gets (CallGet _ _ # h) = Suc (count_gets h)"
| "count_gets (_ # h) = count_gets h"

lemma run_history_Some: "\<exists>c. run_history d h = Some c \<and> c_ttl c = d"
  using life_run_history [of d h]
proof (induction h)
  case Nil
  show ?case by (simp add: NewTTL_def)
next
  case (Cons x h)
  then obtain c where "run_history d h = Some c" "c_ttl c = d" by auto
  then show ?case by (cases x) (auto simp: ttl_defs split: option.splits)
qed

text \<open>
  The hit and miss counters account for every read: their sum (as 64-bit words, so also across a
  wrap-around) is the number of \<open>Get\<close> calls made on an enabled cache.
\<close>

theorem ttl_stats_count_gets:
  assumes "0 < d"
  shows "Hits (TTL_Stats (run_history d h)) + Misses (TTL_Stats (run_history d h)) = of_nat (count_gets h)"
proof (induction h)
  case Nil
  show ?case by (simp add: ttl_defs)
next
  case (Cons x h)
  obtain c where c: "run_history d h = Some c" "c_ttl c = d" using run_history_Some by blast
  with Cons assms show ?case
    by (cases x) (auto simp: ttl_defs split: option.splits)
qed

theorem ttl_stats_count_gets_witness:
  "Hits (TTL_Stats (run_history 10 [CallGet 9 ''a'', CallGet 5 ''b'', CallSet 1 ''a'' (7::int)]))
   + Misses (TTL_Stats (run_history 10 [CallGet 9 ''a'', CallGet 5 ''b'', CallSet 1 ''a'' (7::int)])) = 2"
  using ttl_stats_count_gets [of 10 "[CallGet 9 ''a'', CallGet 5 ''b'', CallSet 1 ''a'' (7::int)]"]
  by simp

end
