(* ===== verification/Go_Strings.thy ===== *)
theory Go_Strings
  imports Prelude "HOL-Library.Sublist"
begin

text \<open>
  The parts of the Go standard library packages \<^verbatim>\<open>strings\<close> and \<^verbatim>\<open>strconv\<close> that the program uses.
  A Go string is a byte sequence, here a \<^typ>\<open>char list\<close>. \<open>TrimSpace\<close> is exact on every byte
  string: it strips the UTF-8 encodings of all code points with \<^verbatim>\<open>unicode.IsSpace\<close>. \<open>ToLower\<close> and
  \<open>EqualFold\<close> fold the ASCII letters and leave every other byte alone.
\<close>

section \<open>Trimming, prefixes, case folding\<close>

definition space_runes :: "string list" where
  "space_runes =
     [[CHR 0x09], [CHR 0x0A], [CHR 0x0B], [CHR 0x0C], [CHR 0x0D], [CHR 0x20],
      [CHR 0xC2, CHR 0x85], [CHR 0xC2, CHR 0xA0],
      [CHR 0xE1, CHR 0x9A, CHR 0x80],
      [CHR 0xE2, CHR 0x80, CHR 0x80], [CHR 0xE2, CHR 0x80, CHR 0x81],
      [CHR 0xE2, CHR 0x80, CHR 0x82], [CHR 0xE2, CHR 0x80, CHR 0x83],
      [CHR 0xE2, CHR 0x80, CHR 0x84], [CHR 0xE2, CHR 0x80, CHR 0x85],
      [CHR 0xE2, CHR 0x80, CHR 0x86], [CHR 0xE2, CHR 0x80, CHR 0x87],
      [CHR 0xE2, CHR 0x80, CHR 0x88], [CHR 0xE2, CHR 0x80, CHR 0x89],
      [CHR 0xE2, CHR 0x80, CHR 0x8A], [CHR 0xE2, CHR 0x80, CHR 0xA8],
      [CHR 0xE2, CHR 0x80, CHR 0xA9], [CHR 0xE2, CHR 0x80, CHR 0xAF],
      [CHR 0xE2, CHR 0x81, CHR 0x9F], [CHR 0xE3, CHR 0x80, CHR 0x80]]"

lemma space_runes_nonempty: "r \<in> set space_runes \<Longrightarrow> r \<noteq> []"
  by (auto simp: space_runes_def)

lemma find_space_shorter:
  assumes "find (\<lambda>r. prefix r s) space_runes = Some r"
  shows "length (drop (length r) s) < length s"
proof -
  from assms have r: "r \<in> set space_runes" "prefix r s"
    by (auto dest: find_Some_set)
  then have "r \<noteq> []" "length r \<le> length s"
    by (auto dest: space_runes_nonempty prefix_length_le)
  then show ?thesis by (cases s) auto
qed

function trim_left :: "string \<Rightarrow> string" where
  "trim_left s =
     (case find (\<lambda>r. prefix r s) space_runes of
        None \<Rightarrow> s
      | Some r \<Rightarrow> trim_left (drop (length r) s))"
  by pat_completeness auto
termination
  by (relation "measure length") (auto dest: find_space_shorter)

declare trim_left.simps [simp del]

text \<open>Stripping on the right is stripping the reversed encodings off the reversed string.\<close>

lemma find_rev_space_shorter:
  assumes "find (\<lambda>r. prefix (rev r) s) space_runes = Some r"
  shows "length (drop (length r) s) < length s"
proof -
  from assms have r: "r \<in> set space_runes" "prefix (rev r) s"
    by (auto dest: find_Some_set)
  then have "r \<noteq> []" "length r \<le> length s"
    by (auto dest: space_runes_nonempty prefix_length_le)
  then show ?thesis by (cases s) auto
qed

function trim_rev :: "string \<Rightarrow> string" where
  "trim_rev s =
     (case find (\<lambda>r. prefix (rev r) s) space_runes of
        None \<Rightarrow> s
      | Some r \<Rightarrow> trim_rev (drop (length r) s))"
  by pat_completeness auto
termination
  by (relation "measure length") (auto dest: find_rev_space_shorter)

declare trim_rev.simps [simp del]

definition TrimSpace :: "string \<Rightarrow> string" where
  "TrimSpace s = rev (trim_rev (rev (trim_left s)))"

definition HasPrefix :: "string \<Rightarrow> string \<Rightarrow> bool" where
  "HasPrefix s p = prefix p s"

definition lower_char :: "char \<Rightarrow> char" where
  "lower_char c =
     (if 65 \<le> (of_char c :: nat) \<and> (of_char c :: nat) \<le> 90 then char_of ((of_char c :: nat) + 32) else c)"

definition ToLower :: "string \<Rightarrow> string" where
  "ToLower = map lower_char"

definition EqualFold :: "string \<Rightarrow> string \<Rightarrow> bool" where
  "EqualFold a b = (ToLower a = ToLower b)"

definition Contains :: "string \<Rightarrow> string \<Rightarrow> bool" where
  "Contains s sub = sublist sub s"

text \<open>\<^verbatim>\<open>strings.Split\<close> for a one-byte separator, and \<^verbatim>\<open>strings.SplitN(s, sep, 2)\<close>.\<close>

fun Split :: "char \<Rightarrow> string \<Rightarrow> string list" where
  "Split c [] = [[]]"
| "Split c (x # xs) =
     (if x = c then [] # Split c xs
      else (case Split c xs of [] \<Rightarrow> [[x]] | p # ps \<Rightarrow> (x # p) # ps))"

fun SplitN2 :: "char \<Rightarrow> string \<Rightarrow> string list" where
  "SplitN2 c [] = [[]]"
| "SplitN2 c (x # xs) =
     (if x = c then [[], xs]
      else (case SplitN2 c xs of [] \<Rightarrow> [[x]] | p # ps \<Rightarrow> (x # p) # ps))"

lemma EqualFold_refl [simp]: "EqualFold s s"
  by (simp add: EqualFold_def)

lemma EqualFold_sym: "EqualFold a b \<longleftrightarrow> EqualFold b a"
  by (auto simp: EqualFold_def)

lemma Split_nonempty [simp]: "Split c s \<noteq> []"
  by (induction s) (auto split: list.splits)

lemma Split_no_sep: "c \<notin> set s \<Longrightarrow> Split c s = [s]"
  by (induction s) auto

lemma Split_append: "c \<notin> set a \<Longrightarrow> Split c (a @ c # b) = a # Split c b"
  by (induction a) auto

lemma SplitN2_nonempty [simp]: "SplitN2 c s \<noteq> []"
  by (induction s) (auto split: list.splits)

lemma SplitN2_append: "c \<notin> set a \<Longrightarrow> SplitN2 c (a @ c # b) = [a, b]"
  by (induction a) auto

section \<open>What trimming guarantees\<close>

lemma trim_left_head: "find (\<lambda>r. prefix r (trim_left s)) space_runes = None"
proof (induction s rule: trim_left.induct)
  case (1 s)
  then show ?case
    by (cases "find (\<lambda>r. prefix r s) space_runes") (simp_all add: trim_left.simps [of s])
qed

lemma trim_left_id: "find (\<lambda>r. prefix r s) space_runes = None \<Longrightarrow> trim_left s = s"
  by (simp add: trim_left.simps [of s])

lemma trim_left_idem [simp]: "trim_left (trim_left s) = trim_left s"
  by (rule trim_left_id) (rule trim_left_head)

lemma trim_rev_suffix: "suffix (trim_rev s) s"
proof (induction s rule: trim_rev.induct)
  case (1 s)
  show ?case
  proof (cases "find (\<lambda>r. prefix (rev r) s) space_runes")
    case None
    then show ?thesis by (simp add: trim_rev.simps [of s])
  next
    case (Some r)
    with "1.IH" have "suffix (trim_rev (drop (length r) s)) (drop (length r) s)" by simp
    with Some show ?thesis
      by (auto simp: trim_rev.simps [of s] intro: suffix_order.trans suffix_drop)
  qed
qed

lemma trim_rev_head: "find (\<lambda>r. prefix (rev r) (trim_rev s)) space_runes = None"
proof (induction s rule: trim_rev.induct)
  case (1 s)
  then show ?case
    by (cases "find (\<lambda>r. prefix (rev r) s) space_runes") (simp_all add: trim_rev.simps [of s])
qed

lemma trim_rev_id: "find (\<lambda>r. prefix (rev r) s) space_runes = None \<Longrightarrow> trim_rev s = s"
  by (simp add: trim_rev.simps [of s])

lemma TrimSpace_prefix_of_left: "prefix (TrimSpace s) (trim_left s)"
  using trim_rev_suffix [of "rev (trim_left s)"]
  by (metis TrimSpace_def rev_rev_ident suffix_to_prefix)

text \<open>Trimming twice is trimming once, so a trimmed identifier is stable.\<close>

lemma TrimSpace_idem [simp]: "TrimSpace (TrimSpace s) = TrimSpace s"
proof -
  let ?t = "TrimSpace s"
  have "find (\<lambda>r. prefix r ?t) space_runes = None"
    using trim_left_head [of s] TrimSpace_prefix_of_left [of s]
    by (auto simp: find_None_set intro: prefix_order.trans)
  then have left: "trim_left ?t = ?t" by (rule trim_left_id)
  have "find (\<lambda>r. prefix (rev r) (rev ?t)) space_runes = None"
    using trim_rev_head by (simp add: TrimSpace_def)
  then have "trim_rev (rev ?t) = rev ?t" by (rule trim_rev_id)
  with left show ?thesis by (simp add: TrimSpace_def [of ?t])
qed

lemma TrimSpace_Nil [simp]: "TrimSpace [] = []"
  by (simp add: TrimSpace_def trim_left.simps [of "[]"] trim_rev.simps [of "[]"] space_runes_def)

section \<open>Decimal integers\<close>

definition digit_char :: "nat \<Rightarrow> char" where
  "digit_char d = char_of (48 + d)"

fun nat_digits :: "nat \<Rightarrow> string" where
  "nat_digits n = (if n < 10 then [digit_char n] else nat_digits (n div 10) @ [digit_char (n mod 10)])"

declare nat_digits.simps [simp del]

text \<open>\<^verbatim>\<open>strconv.FormatInt(n, 10)\<close>, also what \<^verbatim>\<open>%d\<close> prints.\<close>

definition FormatInt :: "int \<Rightarrow> string" where
  "FormatInt n = (if n < 0 then CHR ''-'' # nat_digits (nat (- n)) else nat_digits (nat n))"

fun parse_digits :: "nat \<Rightarrow> string \<Rightarrow> nat option" where
  "parse_digits acc [] = Some acc"
| "parse_digits acc (c # cs) =
     (if 48 \<le> (of_char c :: nat) \<and> (of_char c :: nat) \<le> 57
      then parse_digits (10 * acc + (of_char c - 48)) cs else None)"

definition max_int64 :: int where "max_int64 = 2 ^ 63 - 1"
definition max_int32 :: int where "max_int32 = 2 ^ 31 - 1"

text \<open>\<^verbatim>\<open>strconv.ParseInt(s, 10, 64)\<close>: an optional sign, at least one digit, digits only, in range.\<close>

definition ParseInt64 :: "string \<Rightarrow> int option" where
  "ParseInt64 s =
     (let neg = (s \<noteq> [] \<and> hd s = CHR ''-'');
          body = (if s \<noteq> [] \<and> (hd s = CHR ''-'' \<or> hd s = CHR ''+'') then tl s else s)
      in if body = [] then None
         else (case parse_digits 0 body of
                 None \<Rightarrow> None
               | Some n \<Rightarrow>
                   (if neg then (if int n \<le> max_int64 + 1 then Some (- int n) else None)
                    else (if int n \<le> max_int64 then Some (int n) else None))))"

lemma of_digit_char: "d < 10 \<Longrightarrow> (of_char (digit_char d) :: nat) = 48 + d"
  by (simp add: digit_char_def)

lemma parse_digits_append:
  "parse_digits acc (a @ b) = (case parse_digits acc a of None \<Rightarrow> None | Some n \<Rightarrow> parse_digits n b)"
  by (induction a arbitrary: acc) auto

lemma parse_nat_digits: "parse_digits 0 (nat_digits n) = Some n"
proof (induction n rule: nat_digits.induct)
  case (1 n)
  show ?case
  proof (cases "n < 10")
    case True
    then show ?thesis by (simp add: nat_digits.simps [of n] of_digit_char)
  next
    case False
    with "1.IH" have "parse_digits 0 (nat_digits (n div 10)) = Some (n div 10)" by simp
    then show ?thesis using False
      by (simp add: nat_digits.simps [of n] parse_digits_append of_digit_char)
  qed
qed

lemma nat_digits_chars: "c \<in> set (nat_digits n) \<Longrightarrow> 48 \<le> (of_char c :: nat) \<and> (of_char c :: nat) \<le> 57"
proof (induction n rule: nat_digits.induct)
  case (1 n)
  have last: "48 \<le> (of_char (digit_char (n mod 10)) :: nat)" "(of_char (digit_char (n mod 10)) :: nat) \<le> 57"
    using of_digit_char [of "n mod 10"] by auto
  show ?case
  proof (cases "n < 10")
    case True
    with "1.prems" have "c = digit_char n" by (simp add: nat_digits.simps [of n])
    with True show ?thesis by (simp add: of_digit_char)
  next
    case False
    with "1.prems" have "c \<in> set (nat_digits (n div 10)) \<or> c = digit_char (n mod 10)"
      by (auto simp: nat_digits.simps [of n])
    with "1.IH" False last show ?thesis by auto
  qed
qed

lemma nat_digits_nonempty [simp]: "nat_digits n \<noteq> []"
  by (simp add: nat_digits.simps [of n])

lemma nat_digits_no_char:
  assumes "(of_char c :: nat) < 48 \<or> 57 < (of_char c :: nat)"
  shows "c \<notin> set (nat_digits n)"
  using assms nat_digits_chars by fastforce

lemma nat_digits_hd: "hd (nat_digits n) \<noteq> CHR ''-''" "hd (nat_digits n) \<noteq> CHR ''+''"
  using nat_digits_chars [of "hd (nat_digits n)" n] by auto

lemma FormatInt_nonneg: "0 \<le> n \<Longrightarrow> FormatInt n = nat_digits (nat n)"
  by (simp add: FormatInt_def)

lemma FormatInt_nonempty [simp]: "FormatInt n \<noteq> []"
  by (simp add: FormatInt_def)

lemma ParseInt64_FormatInt_nonneg:
  "0 \<le> n \<Longrightarrow> n \<le> max_int64 \<Longrightarrow> ParseInt64 (FormatInt n) = Some n"
  by (simp add: ParseInt64_def FormatInt_nonneg nat_digits_hd parse_nat_digits Let_def)

lemma ParseInt64_bounds: "ParseInt64 s = Some n \<Longrightarrow> - max_int64 - 1 \<le> n \<and> n \<le> max_int64"
  by (auto simp: ParseInt64_def Let_def max_int64_def split: if_splits option.splits)

end
