(* ===== verification/Database.thy ===== *)
theory Database
  imports Go_Strings "HOL-Library.List_Lexorder" "HOL-Library.Char_ord"
begin

text \<open>
  The PostgreSQL schema (\<^verbatim>\<open>internal/store/dbgen/models.go\<close>, one record per row type), the database
  value the queries of \<^verbatim>\<open>internal/store/dbgen\<close> work on, and the world in which the program runs.

  A table is the list of its rows; the identity column of a table has a counter. Nullable columns
  are options. A date is the number of a day. The world adds to the database the clock, a script of
  delays (how much time passes before each reading of the clock and before each query), a script of
  faults (whether the next round trip to the database fails) and the bytes \<^verbatim>\<open>crypto/rand\<close> will
  yield. A theorem that holds for every world holds for every timing and every pattern of failures.

  Simplifications: statements are atomic, a transaction is not interleaved with another one, and
  the identity counter of a table does not leave gaps.
\<close>

section \<open>Rows\<close>

type_synonym ip_addr = string
type_synonym date = int

record user_row =
  u_id :: int
  u_username :: string
  u_email :: "string option"
  u_role :: string
  u_status :: string
  u_created_at :: instant
  u_updated_at :: instant
  u_identity_source :: string

record api_key_row =
  k_id :: int
  k_user_id :: int
  k_key_hash :: string
  k_key_prefix :: string
  k_name :: "string option"
  k_status :: string
  k_expires_at :: "date option"
  k_scope :: "string option"
  k_last_used_at :: "instant option"
  k_created_at :: instant

record session_row =
  s_id :: int
  s_user_id :: int
  s_token_hash :: string
  s_role :: string
  s_expires_at :: instant
  s_created_ip :: "ip_addr option"
  s_created_at :: instant

record audit_row =
  al_id :: int
  al_actor_user_id :: "int option"
  al_action :: string
  al_target_type :: "string option"
  al_target_id :: "string option"
  al_details :: "string option"
  al_actor_ip :: "ip_addr option"
  al_created_at :: instant

record model_override_row =
  mo_id :: int
  mo_provider :: string
  mo_model_alias :: string
  mo_upstream_model :: string
  mo_enabled :: bool
  mo_config :: "string option"

record snapshot_row =
  ms_provider :: string
  ms_client_id :: string
  ms_models :: string
  ms_updated_at :: instant

record oauth_session_row =
  os_state :: string
  os_provider :: string
  os_flow_type :: string
  os_status :: string
  os_auth_id :: "string option"
  os_pkce_verifier :: "string option"
  os_device_code :: "string option"
  os_user_code :: "string option"
  os_error_message :: "string option"
  os_expires_at :: instant
  os_created_at :: instant
  os_updated_at :: instant

record revision_row =
  rr_name :: string
  rr_revision :: int
  rr_updated_at :: instant

record upstream_account_row =
  ua_id :: string
  ua_provider :: string
  ua_email :: string
  ua_auth_type :: string
  ua_label :: "string option"
  ua_credentials_enc :: string
  ua_enc_key_version :: int
  ua_attributes :: "string option"
  ua_status :: string
  ua_last_refreshed_at :: "instant option"
  ua_next_refresh_after :: "instant option"
  ua_created_at :: instant

record usage_event_row =
  ue_id :: int
  ue_user_id :: "int option"
  ue_api_key_id :: "int option"
  ue_upstream_account_id :: "string option"
  ue_provider :: "string option"
  ue_model :: "string option"
  ue_input_tokens :: int
  ue_output_tokens :: int
  ue_reasoning_tokens :: int
  ue_cached_tokens :: int
  ue_total_tokens :: int
  ue_status_code :: int
  ue_error :: "string option"
  ue_latency_ms :: int
  ue_ttft_ms :: int
  ue_failed :: bool
  ue_created_at :: instant

record database =
  users :: "user_row list"
  users_seq :: int
  api_keys :: "api_key_row list"
  api_keys_seq :: int
  sessions :: "session_row list"
  sessions_seq :: int
  admin_audit_log :: "audit_row list"
  audit_seq :: int
  model_overrides :: "model_override_row list"
  overrides_seq :: int
  model_registry_snapshots :: "snapshot_row list"
  oauth_sessions :: "oauth_session_row list"
  runtime_revisions :: "revision_row list"
  upstream_accounts :: "upstream_account_row list"
  usage_events :: "usage_event_row list"
  usage_seq :: int
  usage_partitions :: "(instant \<times> instant) list"

section \<open>The world\<close>

record world =
  w_db :: database
  w_clock :: instant
  w_tz :: duration
  w_delays :: "nat list"
  w_faults :: "bool list"
  w_random :: "string list"

text \<open>Time passes: the next delay of the script is added to the clock.\<close>

definition advance :: "world \<Rightarrow> world" where
  "advance w =
     (case w_delays w of
        [] \<Rightarrow> w
      | d # ds \<Rightarrow> w\<lparr>w_clock := w_clock w + int d, w_delays := ds\<rparr>)"

definition time_Now :: "world \<Rightarrow> instant \<times> world" where
  "time_Now w = (let w1 = advance w in (w_clock w1, w1))"

definition day :: duration where "day = 24 * hour"

text \<open>\<^verbatim>\<open>CURRENT_DATE\<close> in the time zone of the database session.\<close>

definition current_date :: "world \<Rightarrow> date" where
  "current_date w = (w_clock w + w_tz w) div day"

text \<open>\<^verbatim>\<open>rand.Read\<close> into a buffer of \<open>n\<close> bytes; the empty script is a failing source.\<close>

definition rand_Read :: "nat \<Rightarrow> world \<Rightarrow> string option \<times> world" where
  "rand_Read n w =
     (case w_random w of
        [] \<Rightarrow> (None, w)
      | b # bs \<Rightarrow> (Some (take n (b @ replicate n (CHR 0x00))), w\<lparr>w_random := bs\<rparr>))"

text \<open>One round trip to the database: time passes, and the connection may fail.\<close>

definition round_trip :: "world \<Rightarrow> unit result \<times> world" where
  "round_trip w =
     (let w1 = advance w in
      case w_faults w1 of
        [] \<Rightarrow> (Inr (), w1)
      | f # fs \<Rightarrow> (if f then Inl (ErrPg ''connection'') else Inr (), w1\<lparr>w_faults := fs\<rparr>))"

type_synonym 'a query = "world \<Rightarrow> database \<Rightarrow> 'a result \<times> database"

definition run_query :: "'a query \<Rightarrow> world \<Rightarrow> 'a result \<times> world" where
  "run_query q w =
     (case round_trip w of
        (Inl e, w1) \<Rightarrow> (Inl e, w1)
      | (Inr _, w1) \<Rightarrow> (case q w1 (w_db w1) of (r, d) \<Rightarrow> (r, w1\<lparr>w_db := d\<rparr>)))"

text \<open>
  \<^verbatim>\<open>Begin\<close>, \<^verbatim>\<open>Commit\<close> and \<^verbatim>\<open>Rollback\<close> of a transaction. \<open>in_tx\<close> runs a body between them the way
  \<^verbatim>\<open>defer tx.Rollback(ctx)\<close> does: an error of the body or of the commit undoes every change of the
  body. The two functions say how the caller wraps the errors of \<^verbatim>\<open>Begin\<close> and \<^verbatim>\<open>Commit\<close>.
\<close>

definition in_tx ::
  "(gerror \<Rightarrow> gerror) \<Rightarrow> (gerror \<Rightarrow> gerror) \<Rightarrow> (world \<Rightarrow> 'a result \<times> world) \<Rightarrow> world \<Rightarrow> 'a result \<times> world" where
  "in_tx wrap_begin wrap_commit body w =
     (case round_trip w of
        (Inl e, w1) \<Rightarrow> (Inl (wrap_begin e), w1)
      | (Inr _, w1) \<Rightarrow>
          (case body w1 of
             (Inl e, w2) \<Rightarrow> (Inl e, w2\<lparr>w_db := w_db w1\<rparr>)
           | (Inr x, w2) \<Rightarrow>
               (case round_trip w2 of
                  (Inl e, w3) \<Rightarrow> (Inl (wrap_commit e), w3\<lparr>w_db := w_db w1\<rparr>)
                | (Inr _, w3) \<Rightarrow> (Inr x, w3))))"

lemmas world_defs = advance_def time_Now_def rand_Read_def round_trip_def

lemma advance_frame [simp]:
  "w_db (advance w) = w_db w" "w_tz (advance w) = w_tz w" "w_faults (advance w) = w_faults w"
  "w_random (advance w) = w_random w"
  by (simp_all add: advance_def split: list.splits)

lemma advance_mono: "w_clock w \<le> w_clock (advance w)"
  by (simp add: advance_def split: list.splits)

lemma time_Now_simps [simp]:
  "snd (time_Now w) = advance w" "fst (time_Now w) = w_clock (advance w)"
  by (simp_all add: time_Now_def Let_def)

lemma rand_Read_frame [simp]:
  "w_db (snd (rand_Read n w)) = w_db w" "w_clock (snd (rand_Read n w)) = w_clock w"
  "w_tz (snd (rand_Read n w)) = w_tz w"
  by (simp_all add: rand_Read_def split: list.splits)

lemma rand_Read_length: "rand_Read n w = (Some b, w') \<Longrightarrow> length b = n"
  by (auto simp: rand_Read_def split: list.splits)

lemma round_trip_frame [simp]:
  "w_db (snd (round_trip w)) = w_db w" "w_tz (snd (round_trip w)) = w_tz w"
  "w_clock w \<le> w_clock (snd (round_trip w))"
  using advance_mono [of w] by (auto simp: round_trip_def Let_def split: list.splits)

lemma round_trip_db: "round_trip w = (r, w') \<Longrightarrow> w_db w' = w_db w \<and> w_clock w \<le> w_clock w' \<and> w_tz w' = w_tz w"
  using round_trip_frame [of w] by (metis snd_conv)

text \<open>A run of a query either failed on the way, leaving the database, or is one execution of it.\<close>

lemma run_query_cases:
  assumes "run_query q w = (r, w')"
  obtains (failed) e where "r = Inl e" "w_db w' = w_db w" "w_clock w \<le> w_clock w'" "w_tz w' = w_tz w"
  | (ran) w1 where "w_db w1 = w_db w" "w_clock w \<le> w_clock w1" "w_clock w' = w_clock w1" "w_tz w1 = w_tz w"
      "w_tz w' = w_tz w" "q w1 (w_db w) = (r, w_db w')"
proof (cases "round_trip w")
  case (Pair r1 w1)
  then have fr: "w_db w1 = w_db w" "w_clock w \<le> w_clock w1" "w_tz w1 = w_tz w"
    by (auto dest: round_trip_db)
  show thesis
  proof (cases r1)
    case (Inl e)
    with Pair assms fr show thesis by (intro failed) (auto simp: run_query_def)
  next
    case (Inr u)
    with Pair assms fr show thesis
      by (intro ran [of w1]) (auto simp: run_query_def split: prod.splits)
  qed
qed

lemma run_query_clock: "run_query q w = (r, w') \<Longrightarrow> w_clock w \<le> w_clock w' \<and> w_tz w' = w_tz w"
  by (erule run_query_cases) auto

lemma run_query_read_only:
  assumes "\<And>w1 d. snd (q w1 d) = d" and "run_query q w = (r, w')"
  shows "w_db w' = w_db w"
  using assms(2)
proof (cases rule: run_query_cases)
  case failed
  then show ?thesis by simp
next
  case (ran w1)
  then show ?thesis using assms(1) [of w1 "w_db w"] by simp
qed

lemma run_query_preserves:
  assumes "\<And>w1 d. P d \<Longrightarrow> P (snd (q w1 d))" and "P (w_db w)" and "run_query q w = (r, w')"
  shows "P (w_db w')"
  using assms(3)
proof (cases rule: run_query_cases)
  case failed
  with assms(2) show ?thesis by simp
next
  case (ran w1)
  with assms(1) [OF assms(2), of w1] show ?thesis by simp
qed

text \<open>A transaction is atomic: it either applied its body completely or left the database alone.\<close>

lemma in_tx_cases:
  assumes "in_tx f g body w = (r, w')"
  obtains (undone) e where "r = Inl e" "w_db w' = w_db w"
  | (committed) x w1 w2 where "r = Inr x" "w_db w1 = w_db w" "w_clock w \<le> w_clock w1"
      "w_tz w1 = w_tz w" "body w1 = (Inr x, w2)" "w_db w' = w_db w2" "w_clock w2 \<le> w_clock w'"
proof (cases "round_trip w")
  case (Pair r1 w1)
  then have fr: "w_db w1 = w_db w" "w_clock w \<le> w_clock w1" "w_tz w1 = w_tz w"
    by (auto dest: round_trip_db)
  show thesis
  proof (cases r1)
    case (Inl e)
    with Pair assms fr show thesis by (intro undone) (auto simp: in_tx_def)
  next
    case (Inr u)
    obtain rb w2 where b: "body w1 = (rb, w2)" by fastforce
    show thesis
    proof (cases rb)
      case (Inl e)
      with Inr Pair b assms fr show thesis by (intro undone) (auto simp: in_tx_def)
    next
      case Rb: (Inr x)
      obtain rc w3 where c: "round_trip w2 = (rc, w3)" by fastforce
      show thesis
      proof (cases rc)
        case (Inl e)
        with Inr Rb c Pair b assms fr show thesis by (intro undone) (auto simp: in_tx_def)
      next
        case (Inr u')
        with Rb c Pair b assms fr \<open>r1 = Inr u\<close> show thesis
          using round_trip_db [OF c] by (intro committed [of x w1 w2]) (auto simp: in_tx_def)
      qed
    qed
  qed
qed

lemma in_tx_preserves:
  assumes "in_tx f g body w = (r, w')" and "P (w_db w)"
    and "\<And>w1 x w2. P (w_db w1) \<Longrightarrow> body w1 = (Inr x, w2) \<Longrightarrow> P (w_db w2)"
  shows "P (w_db w')"
  using assms(1)
proof (cases rule: in_tx_cases)
  case undone
  with assms(2) show ?thesis by simp
next
  case (committed x w1 w2)
  with assms(2) have "P (w_db w1)" by simp
  with assms(3) committed have "P (w_db w2)" by blast
  with committed show ?thesis by simp
qed

section \<open>Schema constraints\<close>

text \<open>
  The constraints of \<^verbatim>\<open>db/migrations\<close>: primary keys and unique columns, check constraints, foreign
  keys, and the identity counters.
\<close>

definition namespace_ok :: "string \<Rightarrow> string \<Rightarrow> bool" where
  "namespace_ok source username =
     ((source = ''static'' \<and> HasPrefix username ''static:'') \<or>
      (source = ''ldap'' \<and> \<not> HasPrefix username ''static:''))"

definition role_ok :: "string \<Rightarrow> bool" where
  "role_ok r = (r = ''user'' \<or> r = ''admin'')"

definition status_ok :: "string \<Rightarrow> bool" where
  "status_ok s = (s = ''active'' \<or> s = ''blocked'')"

definition wf_users :: "database \<Rightarrow> bool" where
  "wf_users d =
     (distinct (map u_id (users d)) \<and> distinct (map u_username (users d)) \<and>
      (\<forall>u \<in> set (users d). 0 < u_id u \<and> u_id u \<le> users_seq d \<and> role_ok (u_role u) \<and>
         status_ok (u_status u) \<and> namespace_ok (u_identity_source u) (u_username u)) \<and>
      0 \<le> users_seq d)"

definition has_user :: "database \<Rightarrow> int \<Rightarrow> bool" where
  "has_user d i = (\<exists>u \<in> set (users d). u_id u = i)"

lemma has_user_map: "has_user d i \<longleftrightarrow> i \<in> set (map u_id (users d))"
  by (auto simp: has_user_def)

definition wf_sessions :: "database \<Rightarrow> bool" where
  "wf_sessions d =
     (distinct (map s_id (sessions d)) \<and> distinct (map s_token_hash (sessions d)) \<and>
      (\<forall>s \<in> set (sessions d). 0 < s_id s \<and> s_id s \<le> sessions_seq d \<and> role_ok (s_role s) \<and>
         has_user d (s_user_id s)) \<and>
      0 \<le> sessions_seq d)"

definition wf_api_keys :: "database \<Rightarrow> bool" where
  "wf_api_keys d =
     (distinct (map k_id (api_keys d)) \<and>
      (\<forall>k \<in> set (api_keys d). 0 < k_id k \<and> k_id k \<le> api_keys_seq d \<and>
         (k_status k = ''active'' \<or> k_status k = ''revoked'') \<and> has_user d (k_user_id k)) \<and>
      0 \<le> api_keys_seq d)"

definition wf_audit :: "database \<Rightarrow> bool" where
  "wf_audit d =
     (distinct (map al_id (admin_audit_log d)) \<and>
      (\<forall>a \<in> set (admin_audit_log d). 0 < al_id a \<and> al_id a \<le> audit_seq d) \<and> 0 \<le> audit_seq d)"

definition wf_db :: "database \<Rightarrow> bool" where
  "wf_db d = (wf_users d \<and> wf_sessions d \<and> wf_api_keys d \<and> wf_audit d)"

lemma wf_db_parts:
  assumes "wf_db d"
  shows wf_db_users: "wf_users d" and wf_db_sessions: "wf_sessions d"
    and wf_db_api_keys: "wf_api_keys d" and wf_db_audit: "wf_audit d"
  using assms by (simp_all add: wf_db_def)

lemmas wf_defs = wf_db_def wf_users_def wf_sessions_def wf_api_keys_def wf_audit_def has_user_def

text \<open>
  What each constraint reads, so that a statement on one table leaves the constraints of the others.
\<close>

lemma has_user_cong: "users d' = users d \<Longrightarrow> has_user d' i = has_user d i"
  by (simp add: has_user_def)

lemma wf_users_cong: "users d' = users d \<Longrightarrow> users_seq d' = users_seq d \<Longrightarrow> wf_users d' = wf_users d"
  by (simp add: wf_users_def)

lemma wf_sessions_cong:
  "sessions d' = sessions d \<Longrightarrow> sessions_seq d' = sessions_seq d \<Longrightarrow>
   (\<And>i. has_user d i \<Longrightarrow> has_user d' i) \<Longrightarrow> wf_sessions d \<Longrightarrow> wf_sessions d'"
  by (simp add: wf_sessions_def)

lemma wf_api_keys_cong:
  "api_keys d' = api_keys d \<Longrightarrow> api_keys_seq d' = api_keys_seq d \<Longrightarrow>
   (\<And>i. has_user d i \<Longrightarrow> has_user d' i) \<Longrightarrow> wf_api_keys d \<Longrightarrow> wf_api_keys d'"
  by (simp add: wf_api_keys_def)

lemma wf_audit_cong:
  "admin_audit_log d' = admin_audit_log d \<Longrightarrow> audit_seq d' = audit_seq d \<Longrightarrow> wf_audit d \<Longrightarrow> wf_audit d'"
  by (simp add: wf_audit_def)

lemma wf_db_users_change:
  assumes "wf_db d" and "wf_users d'" and "\<And>i. has_user d i \<Longrightarrow> has_user d' i"
    and "sessions d' = sessions d" "sessions_seq d' = sessions_seq d" "api_keys d' = api_keys d"
      "api_keys_seq d' = api_keys_seq d" "admin_audit_log d' = admin_audit_log d" "audit_seq d' = audit_seq d"
  shows "wf_db d'"
  using assms wf_sessions_cong [of d' d] wf_api_keys_cong [of d' d] wf_audit_cong [of d' d]
  by (simp add: wf_db_def)

lemma wf_db_sessions_change:
  assumes "wf_db d" and "wf_sessions d'" and "users d' = users d" "users_seq d' = users_seq d"
    "api_keys d' = api_keys d" "api_keys_seq d' = api_keys_seq d"
    "admin_audit_log d' = admin_audit_log d" "audit_seq d' = audit_seq d"
  shows "wf_db d'"
  using assms wf_users_cong [of d' d] wf_api_keys_cong [of d' d] wf_audit_cong [of d' d]
  by (simp add: wf_db_def has_user_cong [of d' d])

lemma wf_db_keys_change:
  assumes "wf_db d" and "wf_api_keys d'" and "users d' = users d" "users_seq d' = users_seq d"
    "sessions d' = sessions d" "sessions_seq d' = sessions_seq d"
    "admin_audit_log d' = admin_audit_log d" "audit_seq d' = audit_seq d"
  shows "wf_db d'"
  using assms wf_users_cong [of d' d] wf_sessions_cong [of d' d] wf_audit_cong [of d' d]
  by (simp add: wf_db_def has_user_cong [of d' d])

lemma wf_db_other_change:
  assumes "wf_db d" and "wf_audit d'" and "users d' = users d" "users_seq d' = users_seq d"
    "sessions d' = sessions d" "sessions_seq d' = sessions_seq d"
    "api_keys d' = api_keys d" "api_keys_seq d' = api_keys_seq d"
  shows "wf_db d'"
  using assms wf_users_cong [of d' d] wf_sessions_cong [of d' d] wf_api_keys_cong [of d' d]
  by (simp add: wf_db_def has_user_cong [of d' d])

lemma distinct_fresh_seq:
  fixes n :: int
  assumes "distinct (map k t)" and "\<forall>r \<in> set t. k r \<le> n" and "k r = n + 1"
  shows "distinct (map k (t @ [r]))"
  using assms by fastforce

lemma wf_users_unique_id:
  "wf_users d \<Longrightarrow> u \<in> set (users d) \<Longrightarrow> u' \<in> set (users d) \<Longrightarrow> u_id u = u_id u' \<Longrightarrow> u = u'"
  unfolding wf_users_def by (metis distinct_key_eq)

lemma wf_keys_unique_id:
  "wf_api_keys d \<Longrightarrow> k \<in> set (api_keys d) \<Longrightarrow> k' \<in> set (api_keys d) \<Longrightarrow> k_id k = k_id k' \<Longrightarrow> k = k'"
  unfolding wf_api_keys_def by (metis distinct_key_eq)

definition empty_db :: database where
  "empty_db = \<lparr>users = [], users_seq = 0, api_keys = [], api_keys_seq = 0, sessions = [], sessions_seq = 0,
     admin_audit_log = [], audit_seq = 0, model_overrides = [], overrides_seq = 0,
     model_registry_snapshots = [], oauth_sessions = [],
     runtime_revisions = [\<lparr>rr_name = ''upstream_accounts'', rr_revision = 0, rr_updated_at = 0\<rparr>],
     upstream_accounts = [], usage_events = [], usage_seq = 0, usage_partitions = []\<rparr>"

lemma wf_empty_db [simp]: "wf_db empty_db"
  by (simp add: wf_defs empty_db_def)

definition start_world :: "database \<Rightarrow> instant \<Rightarrow> world" where
  "start_world d t = \<lparr>w_db = d, w_clock = t, w_tz = 0, w_delays = [], w_faults = [], w_random = []\<rparr>"

end
