(* ===== verification/Users_Repo.thy ===== *)
theory Users_Repo
  imports Database
begin

text \<open>
  \<^verbatim>\<open>internal/store/users.go\<close>, \<^verbatim>\<open>admin_users.go\<close>, \<^verbatim>\<open>admin_audit.go\<close> and the queries they run
  (\<^verbatim>\<open>dbgen/users.sql.go\<close>, \<^verbatim>\<open>dbgen/admin_audit_log.sql.go\<close>): provisioning of users from an identity
  source, the status change with its cascade on sessions, and the admin transaction that writes the
  audit record together with the change.
\<close>

section \<open>Data\<close>

record User =
  User_ID :: int
  User_Username :: string
  User_Email :: string
  User_Role :: string
  User_Status :: string
  User_IdentitySource :: string
  User_CreatedAt :: instant
  User_UpdatedAt :: instant

record UpsertUserParams =
  up_Username :: string
  up_Email :: string
  up_Role :: string

record AdminAuditLogEntry =
  ae_ActorUserID :: int
  ae_Action :: string
  ae_TargetType :: string
  ae_TargetID :: string
  ae_Details :: string
  ae_ActorIP :: "ip_addr option"

definition validUserParams :: "UpsertUserParams \<Rightarrow> bool" where
  "validUserParams p = (up_Username p \<noteq> [] \<and> (up_Role p = ''user'' \<or> up_Role p = ''admin''))"

definition nullableText :: "string \<Rightarrow> string option" where
  "nullableText v = (if v \<noteq> [] then Some v else None)"

text \<open>The \<^verbatim>\<open>String\<close> field of a \<^verbatim>\<open>pgtype.Text\<close> is empty for NULL.\<close>

definition text_String :: "string option \<Rightarrow> string" where
  "text_String v = (case v of None \<Rightarrow> [] | Some s \<Rightarrow> s)"

lemma text_String_nullableText [simp]: "text_String (nullableText s) = s"
  by (simp add: text_String_def nullableText_def)

definition userFromValues :: "user_row \<Rightarrow> User" where
  "userFromValues r =
     \<lparr>User_ID = u_id r, User_Username = u_username r, User_Email = text_String (u_email r),
      User_Role = u_role r, User_Status = u_status r, User_IdentitySource = u_identity_source r,
      User_CreatedAt = u_created_at r, User_UpdatedAt = u_updated_at r\<rparr>"

section \<open>Queries\<close>

text \<open>
  The two upserts differ in the literal of \<open>identity_source\<close> only. Check constraints are evaluated on
  the proposed row before the conflict; a conflicting row keeps its id, status and source.
\<close>

definition upsert_user :: "string \<Rightarrow> string \<Rightarrow> string option \<Rightarrow> string \<Rightarrow> user_row query" where
  "upsert_user source username email role w d =
     (if \<not> role_ok role \<or> \<not> namespace_ok source username then (Inl (ErrPg ''check_violation''), d)
      else (case find (\<lambda>u. u_username u = username) (users d) of
              Some u \<Rightarrow>
                (let u' = u\<lparr>u_email := email, u_role := role, u_updated_at := w_clock w\<rparr>
                 in (Inr u', d\<lparr>users := update_where (\<lambda>r. u_username r = username) (\<lambda>_. u') (users d)\<rparr>))
            | None \<Rightarrow>
                (let u' = \<lparr>u_id = users_seq d + 1, u_username = username, u_email = email, u_role = role,
                           u_status = ''active'', u_created_at = w_clock w, u_updated_at = w_clock w,
                           u_identity_source = source\<rparr>
                 in (Inr u', d\<lparr>users := users d @ [u'], users_seq := users_seq d + 1\<rparr>))))"

definition UpsertUserFromLDAP :: "string \<Rightarrow> string option \<Rightarrow> string \<Rightarrow> user_row query" where
  "UpsertUserFromLDAP = upsert_user ''ldap''"

definition UpsertStaticUser :: "string \<Rightarrow> string option \<Rightarrow> string \<Rightarrow> user_row query" where
  "UpsertStaticUser = upsert_user ''static''"

definition GetUserByID :: "int \<Rightarrow> user_row query" where
  "GetUserByID i w d =
     (case find (\<lambda>u. u_id u = i) (users d) of None \<Rightarrow> (Inl ErrNoRows, d) | Some u \<Rightarrow> (Inr u, d))"

definition GetUserByUsername :: "string \<Rightarrow> user_row query" where
  "GetUserByUsername n w d =
     (case find (\<lambda>u. u_username u = n) (users d) of None \<Rightarrow> (Inl ErrNoRows, d) | Some u \<Rightarrow> (Inr u, d))"

definition ListUsers :: "user_row list query" where
  "ListUsers w d = (Inr (sort_key (\<lambda>u. - u_id u) (users d)), d)"

definition SetUserStatus :: "int \<Rightarrow> string \<Rightarrow> int query" where
  "SetUserStatus i status w d =
     (if count_where (\<lambda>u. u_id u = i) (users d) \<noteq> 0 \<and> \<not> status_ok status
      then (Inl (ErrPg ''check_violation''), d)
      else (Inr (count_where (\<lambda>u. u_id u = i) (users d)),
            d\<lparr>users := update_where (\<lambda>u. u_id u = i)
                         (\<lambda>u. u\<lparr>u_status := status, u_updated_at := w_clock w\<rparr>) (users d)\<rparr>))"

definition BlockUserAndDeleteSessions :: "int \<Rightarrow> int query" where
  "BlockUserAndDeleteSessions i w d =
     (let blocked = map u_id (filter (\<lambda>u. u_id u = i) (users d))
      in (Inr (int (length blocked)),
          d\<lparr>users := update_where (\<lambda>u. u_id u = i)
                       (\<lambda>u. u\<lparr>u_status := ''blocked'', u_updated_at := w_clock w\<rparr>) (users d),
             sessions := delete_where (\<lambda>s. s_user_id s \<in> set blocked) (sessions d)\<rparr>))"

definition InsertAdminAuditLog ::
  "int option \<Rightarrow> string \<Rightarrow> string option \<Rightarrow> string option \<Rightarrow> string option \<Rightarrow> ip_addr option \<Rightarrow> unit query" where
  "InsertAdminAuditLog actor action target_type target_id details ip w d =
     (if (case actor of None \<Rightarrow> False | Some a \<Rightarrow> \<not> has_user d a)
      then (Inl (ErrPg ''foreign_key_violation''), d)
      else (Inr (),
            d\<lparr>admin_audit_log := admin_audit_log d @
                [\<lparr>al_id = audit_seq d + 1, al_actor_user_id = actor, al_action = action,
                  al_target_type = target_type, al_target_id = target_id, al_details = details,
                  al_actor_ip = ip, al_created_at = w_clock w\<rparr>],
               audit_seq := audit_seq d + 1\<rparr>))"

section \<open>Repository operations\<close>

definition UpsertFromLDAP :: "UpsertUserParams \<Rightarrow> world \<Rightarrow> User result \<times> world" where
  "UpsertFromLDAP p w =
     (if \<not> validUserParams p \<or> HasPrefix (up_Username p) ''static:'' then (Inl ErrInvalidInput, w)
      else (case run_query (UpsertUserFromLDAP (up_Username p) (nullableText (up_Email p)) (up_Role p)) w of
              (Inl e, w1) \<Rightarrow> (Inl (Wrapf ''upsert LDAP user'' e), w1)
            | (Inr row, w1) \<Rightarrow> (Inr (userFromValues row), w1)))"

definition UpsertStatic :: "UpsertUserParams \<Rightarrow> world \<Rightarrow> User result \<times> world" where
  "UpsertStatic p w =
     (if \<not> validUserParams p \<or> \<not> HasPrefix (up_Username p) ''static:'' then (Inl ErrInvalidInput, w)
      else (case run_query (UpsertStaticUser (up_Username p) (nullableText (up_Email p)) (up_Role p)) w of
              (Inl e, w1) \<Rightarrow> (Inl (Wrapf ''upsert static user'' e), w1)
            | (Inr row, w1) \<Rightarrow> (Inr (userFromValues row), w1)))"

definition Users_GetByID :: "int \<Rightarrow> world \<Rightarrow> User result \<times> world" where
  "Users_GetByID i w =
     (case run_query (GetUserByID i) w of
        (Inl e, w1) \<Rightarrow>
          (if errors_Is e ErrNoRows then (Inl ErrNotFound, w1) else (Inl (Wrapf ''get user by id'' e), w1))
      | (Inr row, w1) \<Rightarrow> (Inr (userFromValues row), w1))"

definition Users_List :: "world \<Rightarrow> User list result \<times> world" where
  "Users_List w =
     (case run_query ListUsers w of
        (Inl e, w1) \<Rightarrow> (Inl (Wrapf ''list users'' e), w1)
      | (Inr rows, w1) \<Rightarrow> (Inr (map userFromValues rows), w1))"

definition SetStatus :: "int \<Rightarrow> string \<Rightarrow> world \<Rightarrow> unit result \<times> world" where
  "SetStatus i status w =
     (if status \<noteq> ''active'' \<and> status \<noteq> ''blocked'' then (Inl ErrInvalidInput, w)
      else (case (if status = ''blocked'' then run_query (BlockUserAndDeleteSessions i) w
                  else run_query (SetUserStatus i status) w) of
              (Inl e, w1) \<Rightarrow> (Inl (Wrapf ''set user status'' e), w1)
            | (Inr updated, w1) \<Rightarrow> (if updated = 0 then (Inl ErrNotFound, w1) else (Inr (), w1))))"

text \<open>
  \<^verbatim>\<open>json.Valid\<close> is the parameter \<open>json_valid\<close>. The details an audit record carries are JSON
  documents produced by \<^verbatim>\<open>json.Marshal\<close> of a string map; \<open>json_obj\<close> is that encoding of the pairs.
\<close>

definition Audit_Insert ::
  "(string \<Rightarrow> bool) \<Rightarrow> AdminAuditLogEntry \<Rightarrow> world \<Rightarrow> unit result \<times> world" where
  "Audit_Insert json_valid entry w =
     (if ae_ActorUserID entry \<le> 0 \<or> ae_Action entry = [] \<or> ae_TargetType entry = [] \<or>
         ae_TargetID entry = [] \<or> (0 < length (ae_Details entry) \<and> \<not> json_valid (ae_Details entry))
      then (Inl ErrInvalidInput, w)
      else (case run_query (InsertAdminAuditLog (Some (ae_ActorUserID entry)) (ae_Action entry)
                    (Some (ae_TargetType entry)) (Some (ae_TargetID entry))
                    (nullableText (ae_Details entry)) (ae_ActorIP entry)) w of
              (Inl e, w1) \<Rightarrow> (Inl (Wrapf ''insert admin audit log'' e), w1)
            | (Inr _, w1) \<Rightarrow> (Inr (), w1)))"

record json_codec =
  json_valid :: "string \<Rightarrow> bool"
  json_obj :: "(string \<times> string) list \<Rightarrow> string"

definition SetStatusWithAudit ::
  "json_codec \<Rightarrow> int \<Rightarrow> int \<Rightarrow> string \<Rightarrow> ip_addr option \<Rightarrow> world \<Rightarrow> unit result \<times> world" where
  "SetStatusWithAudit J actor target status ip w =
     (if actor \<le> 0 \<or> target \<le> 0 \<or> (status \<noteq> ''active'' \<and> status \<noteq> ''blocked'')
      then (Inl ErrInvalidInput, w)
      else in_tx (Wrapf ''begin admin user transaction'') (Wrapf ''commit admin user transaction'')
             (\<lambda>w1. case SetStatus target status w1 of
                      (Inl e, w2) \<Rightarrow> (Inl e, w2)
                    | (Inr _, w2) \<Rightarrow>
                        Audit_Insert (json_valid J)
                          \<lparr>ae_ActorUserID = actor, ae_Action = ''user.status.changed'', ae_TargetType = ''user'',
                           ae_TargetID = FormatInt target, ae_Details = json_obj J [(''status'', status)],
                           ae_ActorIP = ip\<rparr> w2) w)"

section \<open>Schema preservation\<close>

lemma has_user_update:
  "(\<And>u. p u \<Longrightarrow> u_id (f u) = u_id u) \<Longrightarrow>
   has_user (d\<lparr>users := update_where p f (users d)\<rparr>) i = has_user d i"
  by (auto simp: has_user_def set_update_where)

lemma wf_users_insert:
  assumes "wf_users d" and "u_username u \<notin> u_username ` set (users d)" and "u_id u = users_seq d + 1"
    and "role_ok (u_role u)" "status_ok (u_status u)" "namespace_ok (u_identity_source u) (u_username u)"
  shows "wf_users (d\<lparr>users := users d @ [u], users_seq := users_seq d + 1\<rparr>)"
  using assms distinct_fresh_seq [of u_id "users d" "users_seq d" u]
  by (auto simp: wf_users_def)

text \<open>The upsert rewrites the one row of that name: same id, name, source and status.\<close>

lemma upsert_row_keys:
  assumes "wf_users d" and u: "u \<in> set (users d)"
  shows "map u_id (update_where (\<lambda>r. u_username r = u_username u)
           (\<lambda>_. u\<lparr>u_email := email, u_role := role, u_updated_at := t\<rparr>) (users d)) = map u_id (users d)"
    and "map u_username (update_where (\<lambda>r. u_username r = u_username u)
           (\<lambda>_. u\<lparr>u_email := email, u_role := role, u_updated_at := t\<rparr>) (users d)) = map u_username (users d)"
proof -
  have only: "r = u" if "r \<in> set (users d)" "u_username r = u_username u" for r
    using assms(1) that u unfolding wf_users_def by (metis distinct_key_eq)
  show "map u_id (update_where (\<lambda>r. u_username r = u_username u)
           (\<lambda>_. u\<lparr>u_email := email, u_role := role, u_updated_at := t\<rparr>) (users d)) = map u_id (users d)"
    "map u_username (update_where (\<lambda>r. u_username r = u_username u)
           (\<lambda>_. u\<lparr>u_email := email, u_role := role, u_updated_at := t\<rparr>) (users d)) = map u_username (users d)"
    by (rule map_update_where_key, auto dest: only)+
qed

lemma wf_users_upsert_row:
  assumes "wf_users d" and u: "u \<in> set (users d)" and "role_ok role"
  shows "wf_users (d\<lparr>users := update_where (\<lambda>r. u_username r = u_username u)
           (\<lambda>_. u\<lparr>u_email := email, u_role := role, u_updated_at := t\<rparr>) (users d)\<rparr>)"
    (is "wf_users (d\<lparr>users := ?t\<rparr>)")
proof -
  have "\<forall>r \<in> set ?t. 0 < u_id r \<and> u_id r \<le> users_seq d \<and> role_ok (u_role r) \<and>
         status_ok (u_status r) \<and> namespace_ok (u_identity_source r) (u_username r)"
    using assms by (auto simp: wf_users_def set_update_where)
  with assms(1) upsert_row_keys [OF assms(1) u] show ?thesis by (simp add: wf_users_def)
qed

lemma has_user_upsert_row:
  assumes "wf_users d" and "u \<in> set (users d)" and "has_user d i"
  shows "has_user (d\<lparr>users := update_where (\<lambda>r. u_username r = u_username u)
           (\<lambda>_. u\<lparr>u_email := email, u_role := role, u_updated_at := t\<rparr>) (users d)\<rparr>) i"
  using assms(3) upsert_row_keys(1) [OF assms(1,2)] by (simp add: has_user_map del: set_map)

lemma upsert_user_wf:
  assumes wf: "wf_db d"
  shows "wf_db (snd (upsert_user source username email role w d))"
proof (cases "\<not> role_ok role \<or> \<not> namespace_ok source username")
  case True
  with wf show ?thesis by (simp add: upsert_user_def)
next
  case ok: False
  from wf have wfu: "wf_users d" by (simp add: wf_db_def)
  show ?thesis
  proof (cases "find (\<lambda>u. u_username u = username) (users d)")
    case None
    let ?u = "\<lparr>u_id = users_seq d + 1, u_username = username, u_email = email, u_role = role,
                u_status = ''active'', u_created_at = w_clock w, u_updated_at = w_clock w,
                u_identity_source = source\<rparr>"
    from None have fresh: "username \<notin> u_username ` set (users d)" by (auto simp: find_None_set)
    have "wf_users (d\<lparr>users := users d @ [?u], users_seq := users_seq d + 1\<rparr>)"
      using ok fresh by (intro wf_users_insert [OF wfu]) (auto simp: status_ok_def)
    with wf have "wf_db (d\<lparr>users := users d @ [?u], users_seq := users_seq d + 1\<rparr>)"
      by (rule wf_db_users_change) (auto simp: has_user_def)
    with None ok show ?thesis by (simp add: upsert_user_def Let_def)
  next
    case (Some u)
    then have u: "u \<in> set (users d)" "u_username u = username" by (auto dest: find_Some_set)
    have "wf_db (d\<lparr>users := update_where (\<lambda>r. u_username r = u_username u)
           (\<lambda>_. u\<lparr>u_email := email, u_role := role, u_updated_at := w_clock w\<rparr>) (users d)\<rparr>)"
      using wf wf_users_upsert_row [OF wfu u(1)] ok
      by (rule_tac wf_db_users_change) (auto intro: has_user_upsert_row [OF wfu u(1)])
    with Some ok u show ?thesis by (simp add: upsert_user_def Let_def)
  qed
qed

lemma wf_db_status_update:
  assumes "wf_db d" and "status_ok st"
  shows "wf_db (d\<lparr>users := update_where (\<lambda>u. u_id u = i) (\<lambda>u. u\<lparr>u_status := st, u_updated_at := t\<rparr>) (users d)\<rparr>)"
    (is "wf_db ?d")
proof -
  from assms have "wf_users ?d"
    by (auto simp: wf_db_def wf_users_def map_update_where_key set_update_where)
  with assms(1) show ?thesis
    by (rule wf_db_users_change) (simp_all add: has_user_update)
qed

lemma wf_db_delete_sessions: "wf_db d \<Longrightarrow> wf_db (d\<lparr>sessions := delete_where p (sessions d)\<rparr>)"
  by (rule wf_db_sessions_change [of d])
    (auto simp: wf_db_def wf_sessions_def has_user_def intro: distinct_delete_where)

lemma SetUserStatus_wf: "wf_db d \<Longrightarrow> wf_db (snd (SetUserStatus i st w d))"
  using wf_db_status_update [of d st i "w_clock w"]
  by (auto simp: SetUserStatus_def update_where_no_match)

lemma BlockUser_wf:
  assumes "wf_db d"
  shows "wf_db (snd (BlockUserAndDeleteSessions i w d))"
proof -
  from assms have "wf_db (d\<lparr>users := update_where (\<lambda>u. u_id u = i)
      (\<lambda>u. u\<lparr>u_status := ''blocked'', u_updated_at := w_clock w\<rparr>) (users d)\<rparr>)"
    by (rule wf_db_status_update) (simp add: status_ok_def)
  from wf_db_delete_sessions [OF this] show ?thesis
    by (simp add: BlockUserAndDeleteSessions_def Let_def)
qed

lemma wf_audit_insert:
  assumes "wf_audit d" and "al_id a = audit_seq d + 1"
  shows "wf_audit (d\<lparr>admin_audit_log := admin_audit_log d @ [a], audit_seq := audit_seq d + 1\<rparr>)"
  using assms distinct_fresh_seq [of al_id "admin_audit_log d" "audit_seq d" a]
  by (auto simp: wf_audit_def)

lemma InsertAudit_wf: "wf_db d \<Longrightarrow> wf_db (snd (InsertAdminAuditLog a b c e f g w d))"
  by (auto simp: InsertAdminAuditLog_def intro!: wf_db_other_change [of d] wf_audit_insert
        dest: wf_db_audit split: option.splits)

lemmas user_query_wf = upsert_user_wf SetUserStatus_wf BlockUser_wf InsertAudit_wf

lemma SetStatus_wf:
  assumes "wf_db (w_db w)" and "SetStatus i st w = (r, w')"
  shows "wf_db (w_db w')"
proof -
  have q: "run_query (BlockUserAndDeleteSessions i) w = (x, v) \<or> run_query (SetUserStatus i st) w = (x, v)
        \<Longrightarrow> wf_db (w_db v)" for x v
    using assms(1) user_query_wf by (blast intro: run_query_preserves [of wf_db])
  from assms(2) show ?thesis
    using assms(1) by (auto simp: SetStatus_def split: if_splits sum.splits prod.splits intro: q)
qed

lemma Audit_Insert_wf:
  assumes "wf_db (w_db w)" and "Audit_Insert jv e w = (r, w')"
  shows "wf_db (w_db w')"
  using assms run_query_preserves [of wf_db, OF InsertAudit_wf assms(1)]
  by (auto simp: Audit_Insert_def split: if_splits sum.splits prod.splits)

lemma SetStatusWithAudit_wf:
  assumes "wf_db (w_db w)" and "SetStatusWithAudit J actor target st ip w = (r, w')"
  shows "wf_db (w_db w')"
  using assms
  by (auto simp: SetStatusWithAudit_def split: if_splits sum.splits prod.splits
        elim!: in_tx_preserves [of _ _ _ _ _ _ wf_db]) (meson SetStatus_wf Audit_Insert_wf)+

end
