(* ===== verification/Sessions_Repo.thy ===== *)
theory Sessions_Repo
  imports Users_Repo
begin

text \<open>
  \<^verbatim>\<open>internal/store/sessions.go\<close> with the queries of \<^verbatim>\<open>dbgen/sessions.sql.go\<close>: opaque management
  sessions, stored under the SHA-256 of their token. The hash is the parameter \<open>sha\<close>, a function
  from the bytes of the token to the hexadecimal digest (\<^verbatim>\<open>crypto/sha256\<close> composed with
  \<^verbatim>\<open>hex.EncodeToString\<close>); theorems that compare tokens assume no collision between the tokens at hand.
\<close>

section \<open>Data\<close>

record Session =
  Session_ID :: int
  Session_UserID :: int
  Session_TokenHash :: string
  Session_Role :: string
  Session_ExpiresAt :: instant
  Session_CreatedIP :: "ip_addr option"
  Session_CreatedAt :: instant

record CreateSessionParams =
  cs_UserID :: int
  cs_Token :: string
  cs_Role :: string
  cs_ExpiresAt :: instant
  cs_CreatedIP :: "ip_addr option"

definition validIdentitySource :: "string \<Rightarrow> bool" where
  "validIdentitySource s = (s = ''ldap'' \<or> s = ''static'')"

definition sessionFromDB :: "session_row \<Rightarrow> Session" where
  "sessionFromDB r =
     \<lparr>Session_ID = s_id r, Session_UserID = s_user_id r, Session_TokenHash = s_token_hash r,
      Session_Role = s_role r, Session_ExpiresAt = s_expires_at r, Session_CreatedIP = s_created_ip r,
      Session_CreatedAt = s_created_at r\<rparr>"

definition hashSessionToken :: "(string \<Rightarrow> string) \<Rightarrow> string \<Rightarrow> string" where
  "hashSessionToken sha token = sha token"

section \<open>Queries\<close>

definition CreateSession_q ::
  "int \<Rightarrow> string \<Rightarrow> string \<Rightarrow> instant \<Rightarrow> ip_addr option \<Rightarrow> session_row query" where
  "CreateSession_q user_id token_hash role expires ip w d =
     (if \<not> role_ok role then (Inl (ErrPg ''check_violation''), d)
      else if token_hash \<in> s_token_hash ` set (sessions d) then (Inl (ErrPg ''unique_violation''), d)
      else if \<not> has_user d user_id then (Inl (ErrPg ''foreign_key_violation''), d)
      else (let s = \<lparr>s_id = sessions_seq d + 1, s_user_id = user_id, s_token_hash = token_hash, s_role = role,
                     s_expires_at = expires, s_created_ip = ip, s_created_at = w_clock w\<rparr>
            in (Inr s, d\<lparr>sessions := sessions d @ [s], sessions_seq := sessions_seq d + 1\<rparr>)))"

text \<open>The join of a session with its user; the row carries the status of the user.\<close>

definition session_join :: "database \<Rightarrow> (session_row \<times> user_row) list" where
  "session_join d = [(s, u). s \<leftarrow> sessions d, u \<leftarrow> users d, u_id u = s_user_id s]"

definition GetSessionByTokenHash :: "string \<Rightarrow> (session_row \<times> string) query" where
  "GetSessionByTokenHash h w d =
     (case find (\<lambda>(s, u). s_token_hash s = h \<and> w_clock w < s_expires_at s) (session_join d) of
        None \<Rightarrow> (Inl ErrNoRows, d)
      | Some (s, u) \<Rightarrow> (Inr (s, u_status u), d))"

definition GetSessionByTokenHashForSource :: "string \<Rightarrow> string \<Rightarrow> (session_row \<times> string) query" where
  "GetSessionByTokenHashForSource h source w d =
     (case find (\<lambda>(s, u). s_token_hash s = h \<and> u_identity_source u = source \<and> w_clock w < s_expires_at s)
             (session_join d) of
        None \<Rightarrow> (Inl ErrNoRows, d)
      | Some (s, u) \<Rightarrow> (Inr (s, u_status u), d))"

definition DeleteSessionsByUser :: "int \<Rightarrow> unit query" where
  "DeleteSessionsByUser i w d = (Inr (), d\<lparr>sessions := delete_where (\<lambda>s. s_user_id s = i) (sessions d)\<rparr>)"

definition DeleteSessionByTokenHashForSource :: "string \<Rightarrow> string \<Rightarrow> int query" where
  "DeleteSessionByTokenHashForSource h source w d =
     (let hit = (\<lambda>s. s_token_hash s = h \<and>
                     (\<exists>u \<in> set (users d). u_id u = s_user_id s \<and> u_identity_source u = source))
      in (Inr (count_where hit (sessions d)), d\<lparr>sessions := delete_where hit (sessions d)\<rparr>))"

definition DeleteExpiredSessions :: "int query" where
  "DeleteExpiredSessions w d =
     (let hit = (\<lambda>s. s_expires_at s \<le> w_clock w)
      in (Inr (count_where hit (sessions d)), d\<lparr>sessions := delete_where hit (sessions d)\<rparr>))"

section \<open>Repository operations\<close>

definition Sessions_Create ::
  "(string \<Rightarrow> string) \<Rightarrow> CreateSessionParams \<Rightarrow> world \<Rightarrow> Session result \<times> world" where
  "Sessions_Create sha p w =
     (if cs_UserID p \<le> 0 \<or> cs_Token p = [] \<or> (cs_Role p \<noteq> ''user'' \<and> cs_Role p \<noteq> ''admin'')
      then (Inl ErrInvalidInput, w)
      else (case run_query (CreateSession_q (cs_UserID p) (hashSessionToken sha (cs_Token p)) (cs_Role p)
                              (cs_ExpiresAt p) (cs_CreatedIP p)) w of
              (Inl e, w1) \<Rightarrow> (Inl (Wrapf ''create session'' e), w1)
            | (Inr row, w1) \<Rightarrow> (Inr (sessionFromDB row), w1)))"

definition GetByToken :: "(string \<Rightarrow> string) \<Rightarrow> string \<Rightarrow> world \<Rightarrow> Session result \<times> world" where
  "GetByToken sha token w =
     (if token = [] then (Inl ErrInvalidCredential, w)
      else (case run_query (GetSessionByTokenHash (hashSessionToken sha token)) w of
              (Inl e, w1) \<Rightarrow>
                (if errors_Is e ErrNoRows then (Inl ErrInvalidCredential, w1)
                 else (Inl (Wrapf ''get session by token'' e), w1))
            | (Inr (row, user_status), w1) \<Rightarrow>
                (if user_status \<noteq> ''active'' then (Inl ErrInvalidCredential, w1)
                 else (Inr (sessionFromDB row), w1))))"

definition GetByTokenForSource ::
  "(string \<Rightarrow> string) \<Rightarrow> string \<Rightarrow> string \<Rightarrow> world \<Rightarrow> Session result \<times> world" where
  "GetByTokenForSource sha token source w =
     (if token = [] \<or> \<not> validIdentitySource source then (Inl ErrInvalidCredential, w)
      else (case run_query (GetSessionByTokenHashForSource (hashSessionToken sha token) source) w of
              (Inl e, w1) \<Rightarrow>
                (if errors_Is e ErrNoRows then (Inl ErrInvalidCredential, w1)
                 else (Inl (Wrapf ''get session by token for source'' e), w1))
            | (Inr (row, user_status), w1) \<Rightarrow>
                (if user_status \<noteq> ''active'' then (Inl ErrInvalidCredential, w1)
                 else (Inr (sessionFromDB row), w1))))"

definition DeleteByUser :: "int \<Rightarrow> world \<Rightarrow> unit result \<times> world" where
  "DeleteByUser i w =
     (case run_query (DeleteSessionsByUser i) w of
        (Inl e, w1) \<Rightarrow> (Inl (Wrapf ''delete user sessions'' e), w1)
      | (Inr _, w1) \<Rightarrow> (Inr (), w1))"

definition DeleteByTokenForSource ::
  "(string \<Rightarrow> string) \<Rightarrow> string \<Rightarrow> string \<Rightarrow> world \<Rightarrow> unit result \<times> world" where
  "DeleteByTokenForSource sha token source w =
     (if token = [] \<or> \<not> validIdentitySource source then (Inl ErrInvalidCredential, w)
      else (case run_query (DeleteSessionByTokenHashForSource (hashSessionToken sha token) source) w of
              (Inl e, w1) \<Rightarrow> (Inl (Wrapf ''delete session by token'' e), w1)
            | (Inr deleted, w1) \<Rightarrow> (if deleted = 0 then (Inl ErrInvalidCredential, w1) else (Inr (), w1))))"

definition DeleteExpired :: "world \<Rightarrow> int result \<times> world" where
  "DeleteExpired w =
     (case run_query DeleteExpiredSessions w of
        (Inl e, w1) \<Rightarrow> (Inl (Wrapf ''delete expired sessions'' e), w1)
      | (Inr n, w1) \<Rightarrow> (Inr n, w1))"

section \<open>Reading a session\<close>

text \<open>What it means that the database would vouch for a token at an instant.\<close>

definition session_valid_at ::
  "(string \<Rightarrow> string) \<Rightarrow> database \<Rightarrow> instant \<Rightarrow> string \<Rightarrow> string \<Rightarrow> Session \<Rightarrow> bool" where
  "session_valid_at sha d t token source sess =
     (\<exists>s \<in> set (sessions d). \<exists>u \<in> set (users d).
        s_token_hash s = sha token \<and> u_id u = s_user_id s \<and> u_identity_source u = source \<and>
        u_status u = ''active'' \<and> t < s_expires_at s \<and> sess = sessionFromDB s)"

lemma session_join_set:
  "(s, u) \<in> set (session_join d) \<longleftrightarrow> s \<in> set (sessions d) \<and> u \<in> set (users d) \<and> u_id u = s_user_id s"
  by (auto simp: session_join_def)

lemma GetByTokenForSource_cases:
  assumes "GetByTokenForSource sha token source w = (Inr sess, w')"
  shows "\<exists>t. w_clock w \<le> t \<and> t = w_clock w' \<and> session_valid_at sha (w_db w) t token source sess \<and> w_db w' = w_db w"
proof -
  let ?q = "GetSessionByTokenHashForSource (hashSessionToken sha token) source"
  from assms obtain row where
    q: "run_query ?q w = (Inr (row, ''active''), w')" and sess: "sess = sessionFromDB row"
    by (auto simp: GetByTokenForSource_def split: if_splits sum.splits prod.splits)
  from q show ?thesis
  proof (cases rule: run_query_cases)
    case failed
    then show ?thesis by simp
  next
    case (ran w1)
    from ran(6) have db: "w_db w' = w_db w"
      by (auto simp: GetSessionByTokenHashForSource_def split: option.splits prod.splits)
    from ran(6) obtain u where
      f: "find (\<lambda>(s, u). s_token_hash s = hashSessionToken sha token \<and> u_identity_source u = source \<and>
           w_clock w1 < s_expires_at s) (session_join (w_db w)) = Some (row, u)" and st: "u_status u = ''active''"
      by (auto simp: GetSessionByTokenHashForSource_def split: option.splits prod.splits)
    from find_Some_set [OF f] st sess
    have "session_valid_at sha (w_db w) (w_clock w1) token source sess"
      by (auto simp: session_join_set session_valid_at_def hashSessionToken_def)
    with ran db show ?thesis by auto
  qed
qed

text \<open>In a well-formed database the lookup finds the one session of the token.\<close>

lemma find_session_join:
  assumes "wf_db d" and "session_valid_at sha d t token source sess" and "t = w_clock w"
  obtains s u where "find (\<lambda>(s, u). s_token_hash s = sha token \<and> u_identity_source u = source \<and>
      w_clock w < s_expires_at s) (session_join d) = Some (s, u)"
    "u_status u = ''active''" "sess = sessionFromDB s"
proof -
  from assms(2) obtain s u where su: "s \<in> set (sessions d)" "u \<in> set (users d)" "s_token_hash s = sha token"
    "u_id u = s_user_id s" "u_identity_source u = source" "u_status u = ''active''" "t < s_expires_at s"
    "sess = sessionFromDB s" by (auto simp: session_valid_at_def)
  let ?p = "\<lambda>(s, u). s_token_hash s = sha token \<and> u_identity_source u = source \<and> w_clock w < s_expires_at s"
  have only: "(s', u') = (s, u)" if "(s', u') \<in> set (session_join d)" "?p (s', u')" for s' u'
  proof -
    from that have h: "s' \<in> set (sessions d)" "u' \<in> set (users d)" "u_id u' = s_user_id s'"
      "s_token_hash s' = sha token" by (auto simp: session_join_set)
    have "distinct (map s_token_hash (sessions d))" using wf_db_sessions [OF assms(1)] by (simp add: wf_sessions_def)
    from distinct_key_eq [OF this h(1) su(1)] h su have "s' = s" by simp
    moreover from this h su wf_users_unique_id [OF wf_db_users [OF assms(1)] h(2) su(2)] have "u' = u" by simp
    ultimately show ?thesis by simp
  qed
  have "(s, u) \<in> set (session_join d)" "?p (s, u)" using su assms(3) by (auto simp: session_join_set)
  then obtain r where r: "find ?p (session_join d) = Some r" by (cases "find ?p (session_join d)") (auto simp: find_None_set)
  with find_Some_set [OF r] only have "r = (s, u)" by (cases r) auto
  with r su that show thesis by blast
qed

end
