(* ===== verification/Api_Keys.thy ===== *)
theory Api_Keys
  imports Ttl_Cache Sessions_Repo
begin

text \<open>
  \<^verbatim>\<open>internal/store/api_keys.go\<close>, \<^verbatim>\<open>internal/security/password.go\<close> and the queries of
  \<^verbatim>\<open>dbgen/api_keys.sql.go\<close>: client API keys, their bcrypt verification and the two TTL caches in front
  of the database (candidates by prefix, verified principals by digest).

  The cryptography is a parameter, the record \<open>crypto\<close>: \<open>sha256\<close> is \<^verbatim>\<open>sha256.Sum256\<close>,
  \<open>bcrypt_generate\<close> is \<^verbatim>\<open>bcrypt.GenerateFromPassword\<close> at the fixed cost with the salt made explicit,
  \<open>bcrypt_compare\<close> is \<^verbatim>\<open>bcrypt.CompareHashAndPassword(\<dots>) == nil\<close>.
\<close>

section \<open>Data\<close>

record crypto =
  sha256 :: "string \<Rightarrow> string"
  bcrypt_generate :: "string \<Rightarrow> string \<Rightarrow> string result"
  bcrypt_compare :: "string \<Rightarrow> string \<Rightarrow> bool"

record APIKey =
  APIKey_ID :: int
  APIKey_UserID :: int
  APIKey_Prefix :: string
  APIKey_Name :: string
  APIKey_Status :: string
  APIKey_ExpiresAt :: "date option"
  APIKey_Scope :: string
  APIKey_LastUsedAt :: "instant option"
  APIKey_CreatedAt :: instant

record AdminAPIKey = APIKey +
  OwnerUsername :: string
  OwnerIdentitySource :: string
  OwnerStatus :: string

record CreateAPIKeyParams =
  ck_UserID :: int
  ck_Plaintext :: string
  ck_Name :: string
  ck_ExpiresAt :: "date option"
  ck_Scope :: string

record APIKeyPrincipal =
  pr_UserID :: int
  pr_APIKeyID :: int

record apiKeyCacheKey =
  cc_prefix :: string
  cc_identitySource :: string

record apiKeyCandidate =
  cand_id :: int
  cand_userID :: int
  cand_keyHash :: string

record verifiedAPIKeyCacheKey =
  vk_digest :: string
  vk_identitySource :: string

record APIKeyRepository =
  candidatesCache :: "(apiKeyCacheKey, apiKeyCandidate list) TTL"
  verifiedCache :: "(verifiedAPIKeyCacheKey, APIKeyPrincipal) TTL"

definition APIKeyPrefixLength :: nat where "APIKeyPrefixLength = 8"
definition apiKeyCacheTTL :: duration where "apiKeyCacheTTL = 10 * second"

definition NewAPIKeyRepository :: APIKeyRepository where
  "NewAPIKeyRepository = \<lparr>candidatesCache = NewTTL apiKeyCacheTTL, verifiedCache = NewTTL apiKeyCacheTTL\<rparr>"

definition CacheStats :: "APIKeyRepository option \<Rightarrow> Stats" where
  "CacheStats rp =
     (case rp of None \<Rightarrow> \<lparr>Hits = 0, Misses = 0\<rparr> | Some r \<Rightarrow> TTL_Stats (verifiedCache r))"

definition HashSecret :: "crypto \<Rightarrow> string \<Rightarrow> world \<Rightarrow> string result \<times> world" where
  "HashSecret C secret w =
     (case rand_Read 16 w of
        (None, w1) \<Rightarrow> (Inl (ErrMsg ''rand''), w1)
      | (Some salt, w1) \<Rightarrow> (bcrypt_generate C salt secret, w1))"

definition VerifySecret :: "crypto \<Rightarrow> string \<Rightarrow> string \<Rightarrow> bool" where
  "VerifySecret C hash secret = bcrypt_compare C hash secret"

definition apiKeyFromDB :: "api_key_row \<Rightarrow> APIKey" where
  "apiKeyFromDB r =
     \<lparr>APIKey_ID = k_id r, APIKey_UserID = k_user_id r, APIKey_Prefix = k_key_prefix r,
      APIKey_Name = text_String (k_name r), APIKey_Status = k_status r, APIKey_ExpiresAt = k_expires_at r,
      APIKey_Scope = text_String (k_scope r), APIKey_LastUsedAt = k_last_used_at r,
      APIKey_CreatedAt = k_created_at r\<rparr>"

section \<open>Queries\<close>

definition CreateAPIKey_q ::
  "int \<Rightarrow> string \<Rightarrow> string \<Rightarrow> string option \<Rightarrow> date option \<Rightarrow> string option \<Rightarrow> api_key_row query" where
  "CreateAPIKey_q user_id hash pref name expires scope w d =
     (if \<not> has_user d user_id then (Inl (ErrPg ''foreign_key_violation''), d)
      else (let k = \<lparr>k_id = api_keys_seq d + 1, k_user_id = user_id, k_key_hash = hash, k_key_prefix = pref,
                     k_name = name, k_status = ''active'', k_expires_at = expires, k_scope = scope,
                     k_last_used_at = None, k_created_at = w_clock w\<rparr>
            in (Inr k, d\<lparr>api_keys := api_keys d @ [k], api_keys_seq := api_keys_seq d + 1\<rparr>)))"

definition key_join :: "database \<Rightarrow> (api_key_row \<times> user_row) list" where
  "key_join d = [(k, u). k \<leftarrow> api_keys d, u \<leftarrow> users d, u_id u = k_user_id k]"

definition key_usable :: "date \<Rightarrow> api_key_row \<Rightarrow> bool" where
  "key_usable today k =
     (k_status k = ''active'' \<and> (case k_expires_at k of None \<Rightarrow> True | Some e \<Rightarrow> today \<le> e))"

definition FindAPIKeyCandidates :: "string \<Rightarrow> (api_key_row \<times> string) list query" where
  "FindAPIKeyCandidates pref w d =
     (Inr (map (\<lambda>(k, u). (k, u_status u))
             (filter (\<lambda>(k, u). k_key_prefix k = pref \<and> key_usable (current_date w) k) (key_join d))), d)"

definition FindAPIKeyCandidatesForSource :: "string \<Rightarrow> string \<Rightarrow> (api_key_row \<times> string) list query" where
  "FindAPIKeyCandidatesForSource pref source w d =
     (Inr (map (\<lambda>(k, u). (k, u_status u))
             (filter (\<lambda>(k, u). k_key_prefix k = pref \<and> u_identity_source u = source \<and>
                               key_usable (current_date w) k) (key_join d))), d)"

definition RevokeAPIKey :: "int \<Rightarrow> int \<Rightarrow> int query" where
  "RevokeAPIKey i user_id w d =
     (let hit = (\<lambda>k. k_id k = i \<and> k_user_id k = user_id \<and> k_status k = ''active'')
      in (Inr (count_where hit (api_keys d)),
          d\<lparr>api_keys := update_where hit (\<lambda>k. k\<lparr>k_status := ''revoked''\<rparr>) (api_keys d)\<rparr>))"

definition ListAPIKeysByUser :: "int \<Rightarrow> api_key_row list query" where
  "ListAPIKeysByUser i w d =
     (Inr (sort_key (\<lambda>k. - k_id k) (filter (\<lambda>k. k_user_id k = i) (api_keys d))), d)"

definition ListAllAPIKeys :: "(api_key_row \<times> user_row) list query" where
  "ListAllAPIKeys w d = (Inr (sort_key (\<lambda>(k, u). - k_id k) (key_join d)), d)"

definition TouchAPIKeysLastUsed_q :: "int list \<Rightarrow> unit query" where
  "TouchAPIKeysLastUsed_q ids w d =
     (Inr (), d\<lparr>api_keys :=
        update_where
          (\<lambda>k. k_id k \<in> set ids \<and>
               (case k_last_used_at k of None \<Rightarrow> True | Some t \<Rightarrow> t < w_clock w - minute))
          (\<lambda>k. k\<lparr>k_last_used_at := Some (w_clock w)\<rparr>) (api_keys d)\<rparr>)"

section \<open>Repository operations\<close>

type_synonym 'a repo_res = "'a result \<times> APIKeyRepository \<times> world"

definition invalidateCandidates :: "string \<Rightarrow> APIKeyRepository \<Rightarrow> APIKeyRepository" where
  "invalidateCandidates pref r =
     (let c1 = TTL_Delete \<lparr>cc_prefix = pref, cc_identitySource = []\<rparr> (candidatesCache r);
          c2 = TTL_Delete \<lparr>cc_prefix = pref, cc_identitySource = ''ldap''\<rparr> c1;
          c3 = TTL_Delete \<lparr>cc_prefix = pref, cc_identitySource = ''static''\<rparr> c2
      in r\<lparr>candidatesCache := c3\<rparr>)"

definition Keys_Create :: "crypto \<Rightarrow> CreateAPIKeyParams \<Rightarrow> APIKeyRepository \<Rightarrow> world \<Rightarrow> APIKey repo_res" where
  "Keys_Create C p r w =
     (if ck_UserID p \<le> 0 \<or> length (ck_Plaintext p) < APIKeyPrefixLength then (Inl ErrInvalidInput, r, w)
      else (case HashSecret C (ck_Plaintext p) w of
              (Inl e, w1) \<Rightarrow> (Inl (Wrapf ''hash API-key'' e), r, w1)
            | (Inr hash, w1) \<Rightarrow>
                (case run_query (CreateAPIKey_q (ck_UserID p) hash (take APIKeyPrefixLength (ck_Plaintext p))
                         (nullableText (ck_Name p)) (ck_ExpiresAt p) (nullableText (ck_Scope p))) w1 of
                   (Inl e, w2) \<Rightarrow> (Inl (Wrapf ''create API-key'' e), r, w2)
                 | (Inr row, w2) \<Rightarrow>
                     (Inr (apiKeyFromDB row),
                      invalidateCandidates (take APIKeyPrefixLength (ck_Plaintext p)) r, w2))))"

definition candidate_of_row :: "api_key_row \<Rightarrow> apiKeyCandidate" where
  "candidate_of_row k = \<lparr>cand_id = k_id k, cand_userID = k_user_id k, cand_keyHash = k_key_hash k\<rparr>"

definition findCandidates :: "apiKeyCacheKey \<Rightarrow> APIKeyRepository \<Rightarrow> world \<Rightarrow> apiKeyCandidate list repo_res" where
  "findCandidates key r w =
     (let (now, w1) = time_Now w; (hit, cc) = TTL_Get now key (candidatesCache r);
          r1 = r\<lparr>candidatesCache := cc\<rparr>
      in case hit of
           Some cands \<Rightarrow> (Inr cands, r1, w1)
         | None \<Rightarrow>
             (case (if cc_identitySource key = []
                    then run_query (FindAPIKeyCandidates (cc_prefix key)) w1
                    else run_query (FindAPIKeyCandidatesForSource (cc_prefix key) (cc_identitySource key)) w1) of
                (Inl e, w2) \<Rightarrow> (Inl (Wrapf ''find API-key candidates'' e), r1, w2)
              | (Inr rows, w2) \<Rightarrow>
                  (let cands = map (candidate_of_row \<circ> fst) rows; (now2, w3) = time_Now w2
                   in (Inr cands, r1\<lparr>candidatesCache := TTL_Set now2 key cands (candidatesCache r1)\<rparr>, w3))))"

definition userIsActive :: "int \<Rightarrow> world \<Rightarrow> bool result \<times> world" where
  "userIsActive i w =
     (case run_query (GetUserByID i) w of
        (Inl e, w1) \<Rightarrow>
          (if errors_Is e ErrNoRows then (Inr False, w1) else (Inl (Wrapf ''get API-key user'' e), w1))
      | (Inr u, w1) \<Rightarrow> (Inr (u_status u = ''active''), w1))"

text \<open>The loop of \<open>authenticate\<close> over the candidates.\<close>

fun tryCandidates ::
  "crypto \<Rightarrow> string \<Rightarrow> verifiedAPIKeyCacheKey \<Rightarrow> apiKeyCandidate list \<Rightarrow> APIKeyRepository \<Rightarrow> world
   \<Rightarrow> APIKeyPrincipal repo_res" where
  "tryCandidates C plaintext vk [] r w = (Inl ErrInvalidCredential, r, w)"
| "tryCandidates C plaintext vk (c # cs) r w =
     (if \<not> VerifySecret C (cand_keyHash c) plaintext then tryCandidates C plaintext vk cs r w
      else (case userIsActive (cand_userID c) w of
              (Inl e, w1) \<Rightarrow> (Inl e, r, w1)
            | (Inr active, w1) \<Rightarrow>
                (if active
                 then (let p = \<lparr>pr_UserID = cand_userID c, pr_APIKeyID = cand_id c\<rparr>;
                           (now, w2) = time_Now w1
                       in (Inr p, r\<lparr>verifiedCache := TTL_Set now vk p (verifiedCache r)\<rparr>, w2))
                 else tryCandidates C plaintext vk cs r w1)))"

definition authenticate ::
  "crypto \<Rightarrow> string \<Rightarrow> string \<Rightarrow> APIKeyRepository \<Rightarrow> world \<Rightarrow> APIKeyPrincipal repo_res" where
  "authenticate C plaintext source r w =
     (let vk = \<lparr>vk_digest = sha256 C plaintext, vk_identitySource = source\<rparr>;
          (now, w1) = time_Now w; (hit, vc) = TTL_Get now vk (verifiedCache r);
          r1 = r\<lparr>verifiedCache := vc\<rparr>
      in case hit of
           Some p \<Rightarrow> (Inr p, r1, w1)
         | None \<Rightarrow>
             (case findCandidates \<lparr>cc_prefix = take APIKeyPrefixLength plaintext, cc_identitySource = source\<rparr> r1 w1 of
                (Inl e, r2, w2) \<Rightarrow> (Inl e, r2, w2)
              | (Inr cands, r2, w2) \<Rightarrow> tryCandidates C plaintext vk cands r2 w2))"

definition Authenticate :: "crypto \<Rightarrow> string \<Rightarrow> APIKeyRepository \<Rightarrow> world \<Rightarrow> APIKeyPrincipal repo_res" where
  "Authenticate C plaintext r w =
     (if length plaintext < APIKeyPrefixLength then (Inl ErrInvalidCredential, r, w)
      else authenticate C plaintext [] r w)"

definition AuthenticateForSource ::
  "crypto \<Rightarrow> string \<Rightarrow> string \<Rightarrow> APIKeyRepository \<Rightarrow> world \<Rightarrow> APIKeyPrincipal repo_res" where
  "AuthenticateForSource C plaintext source r w =
     (if length plaintext < APIKeyPrefixLength \<or> \<not> validIdentitySource source
      then (Inl ErrInvalidCredential, r, w)
      else authenticate C plaintext source r w)"

definition Keys_InvalidateUser :: "int \<Rightarrow> APIKeyRepository \<Rightarrow> APIKeyRepository" where
  "Keys_InvalidateUser i r =
     (if i \<le> 0 then r
      else r\<lparr>verifiedCache := TTL_DeleteWhere (Some (\<lambda>_ p. pr_UserID p = i)) (verifiedCache r)\<rparr>)"

definition ListByUser :: "int \<Rightarrow> world \<Rightarrow> APIKey list result \<times> world" where
  "ListByUser i w =
     (case run_query (ListAPIKeysByUser i) w of
        (Inl e, w1) \<Rightarrow> (Inl (Wrapf ''list API-keys'' e), w1)
      | (Inr rows, w1) \<Rightarrow> (Inr (map apiKeyFromDB rows), w1))"

definition ListAll :: "world \<Rightarrow> AdminAPIKey list result \<times> world" where
  "ListAll w =
     (case run_query ListAllAPIKeys w of
        (Inl e, w1) \<Rightarrow> (Inl (Wrapf ''list all API-keys'' e), w1)
      | (Inr rows, w1) \<Rightarrow>
          (Inr (map (\<lambda>(k, u). APIKey.extend (apiKeyFromDB k)
                      (AdminAPIKey.fields (u_username u) (u_identity_source u) (u_status u))) rows), w1))"

definition Revoke :: "int \<Rightarrow> int \<Rightarrow> APIKeyRepository \<Rightarrow> world \<Rightarrow> unit repo_res" where
  "Revoke userID keyID r w =
     (case run_query (RevokeAPIKey keyID userID) w of
        (Inl e, w1) \<Rightarrow> (Inl (Wrapf ''revoke API-key'' e), r, w1)
      | (Inr revoked, w1) \<Rightarrow>
          (if revoked = 0 then (Inl ErrNotFound, r, w1)
           else (Inr (), r\<lparr>candidatesCache := TTL_Clear (candidatesCache r),
                           verifiedCache := TTL_Clear (verifiedCache r)\<rparr>, w1)))"

end
