(* ===== verification/Api_Keys_Safety.thy ===== *)
theory Api_Keys_Safety
  imports Api_Keys
begin

text \<open>
  Correctness of API-key authentication: soundness of an accepted key, immediate effect of revoking a
  key and blocking a user on the replica that does it, and the window in which another replica may
  still accept a revoked key. The caches are used through the contract \<open>expiring_cache\<close> only
  (facts \<open>ttlc.\<dots>\<close>).
\<close>

section \<open>What one call does\<close>

definition principal_of :: "apiKeyCandidate \<Rightarrow> APIKeyPrincipal" where
  "principal_of c = \<lparr>pr_UserID = cand_userID c, pr_APIKeyID = cand_id c\<rparr>"

definition user_active :: "database \<Rightarrow> int \<Rightarrow> bool" where
  "user_active d i = (\<exists>u \<in> set (users d). u_id u = i \<and> u_status u = ''active'')"

text \<open>A candidate the database lists for a prefix and source (\<open>[]\<close> means any) on a day.\<close>

definition listed :: "database \<Rightarrow> date \<Rightarrow> string \<Rightarrow> string \<Rightarrow> apiKeyCandidate \<Rightarrow> bool" where
  "listed d today pref source c =
     (\<exists>k \<in> set (api_keys d). \<exists>u \<in> set (users d).
        u_id u = k_user_id k \<and> k_key_prefix k = pref \<and> (source = [] \<or> u_identity_source u = source) \<and>
        key_usable today k \<and> c = candidate_of_row k)"

definition day_of :: "world \<Rightarrow> instant \<Rightarrow> date" where
  "day_of w t = (t + w_tz w) div day"

lemma key_join_set:
  "(k, u) \<in> set (key_join d) \<longleftrightarrow> k \<in> set (api_keys d) \<and> u \<in> set (users d) \<and> u_id u = k_user_id k"
  by (auto simp: key_join_def)

lemma find_lists:
  "FindAPIKeyCandidates pref w d = (Inr rows, d') \<Longrightarrow> x \<in> set rows \<Longrightarrow>
   listed d (current_date w) pref [] (candidate_of_row (fst x))"
  by (force simp: FindAPIKeyCandidates_def listed_def key_join_set)

lemma find_for_source_lists:
  "FindAPIKeyCandidatesForSource pref source w d = (Inr rows, d') \<Longrightarrow> x \<in> set rows \<Longrightarrow>
   listed d (current_date w) pref source (candidate_of_row (fst x))"
  by (force simp: FindAPIKeyCandidatesForSource_def listed_def key_join_set)

lemma find_query_lists:
  assumes "(if cc_identitySource key = []
            then run_query (FindAPIKeyCandidates (cc_prefix key)) w
            else run_query (FindAPIKeyCandidatesForSource (cc_prefix key) (cc_identitySource key)) w) = (Inr rows, w')"
    and "x \<in> set rows"
  shows "listed (w_db w) (day_of w (w_clock w')) (cc_prefix key) (cc_identitySource key) (candidate_of_row (fst x))"
  using assms
  by (auto split: if_splits elim!: run_query_cases dest!: find_lists find_for_source_lists
        simp: current_date_def day_of_def)

lemma find_query_db:
  assumes "(if b then run_query (FindAPIKeyCandidates p) w
            else run_query (FindAPIKeyCandidatesForSource p s) w) = (x, w')"
  shows "w_db w' = w_db w \<and> w_clock w \<le> w_clock w' \<and> w_tz w' = w_tz w"
proof -
  from assms have "w_clock w \<le> w_clock w' \<and> w_tz w' = w_tz w"
    by (auto split: if_splits dest: run_query_clock)
  moreover from assms have "w_db w' = w_db w"
    by (auto split: if_splits elim!: run_query_read_only [rotated]
          simp: FindAPIKeyCandidates_def FindAPIKeyCandidatesForSource_def)
  ultimately show ?thesis by blast
qed

text \<open>
  \<open>findCandidates\<close> answers from the cache or lists the database and remembers the answer; it never
  touches the database or the other cache.
\<close>

lemma findCandidates_cases:
  assumes "findCandidates key r w = (res, r', w')"
  shows "w_db w' = w_db w \<and> w_clock w \<le> w_clock w' \<and> w_tz w' = w_tz w \<and> verifiedCache r' = verifiedCache r"
    and "(\<exists>e. res = Inl e \<and> candidatesCache r' = snd (TTL_Get (w_clock (advance w)) key (candidatesCache r))) \<or>
         (\<exists>cs. res = Inr cs \<and> ttl_live (candidatesCache r) (w_clock (advance w)) key = Some cs \<and>
               w_clock w' = w_clock (advance w) \<and>
               candidatesCache r' = snd (TTL_Get (w_clock (advance w)) key (candidatesCache r))) \<or>
         (\<exists>cs t. res = Inr cs \<and> w_clock w \<le> t \<and> t \<le> w_clock w' \<and>
               (\<forall>c \<in> set cs. listed (w_db w) (day_of w t) (cc_prefix key) (cc_identitySource key) c) \<and>
               candidatesCache r' = TTL_Set (w_clock w') key cs
                 (snd (TTL_Get (w_clock (advance w)) key (candidatesCache r))))"
proof -
  let ?now = "w_clock (advance w)"
  obtain hit cc where get: "TTL_Get ?now key (candidatesCache r) = (hit, cc)" by fastforce
  then have hit: "hit = ttl_live (candidatesCache r) ?now key" "cc = snd (TTL_Get ?now key (candidatesCache r))"
    using ttlc.get_value [of ?now key "candidatesCache r"] by auto
  let ?q = "if cc_identitySource key = [] then run_query (FindAPIKeyCandidates (cc_prefix key)) (advance w)
      else run_query (FindAPIKeyCandidatesForSource (cc_prefix key) (cc_identitySource key)) (advance w)"
  obtain res1 w2 where q: "?q = (res1, w2)" by (cases ?q) auto
  note unf = findCandidates_def time_Now_def Let_def get
  consider (cached) cs where "hit = Some cs" | (miss) "hit = None" by (cases hit) auto
  then have "(w_db w' = w_db w \<and> w_clock w \<le> w_clock w' \<and> w_tz w' = w_tz w \<and> verifiedCache r' = verifiedCache r) \<and>
    ((\<exists>e. res = Inl e \<and> candidatesCache r' = cc) \<or>
     (\<exists>cs. res = Inr cs \<and> hit = Some cs \<and> w_clock w' = ?now \<and> candidatesCache r' = cc) \<or>
     (\<exists>cs t. res = Inr cs \<and> w_clock w \<le> t \<and> t \<le> w_clock w' \<and>
        (\<forall>c \<in> set cs. listed (w_db w) (day_of w t) (cc_prefix key) (cc_identitySource key) c) \<and>
        candidatesCache r' = TTL_Set (w_clock w') key cs cc))"
  proof cases
    case cached
    with assms show ?thesis by (auto simp: unf advance_mono)
  next
    case miss
    note db = find_query_db [OF q]
    show ?thesis
    proof (cases res1)
      case (Inl e)
      with miss assms q db show ?thesis by (auto simp: unf intro: order.trans [OF advance_mono])
    next
      case (Inr rows)
      with find_query_lists [of key "advance w" rows w2] q
      have L: "\<forall>c \<in> set (map (candidate_of_row \<circ> fst) rows).
          listed (w_db w) (day_of (advance w) (w_clock w2)) (cc_prefix key) (cc_identitySource key) c" by simp
      have d: "day_of (advance w) (w_clock w2) = day_of w (w_clock w2)" by (simp add: day_of_def)
      from Inr miss assms q have out: "res = Inr (map (candidate_of_row \<circ> fst) rows)" "w' = advance w2"
        "r' = r\<lparr>candidatesCache := TTL_Set (w_clock w') key (map (candidate_of_row \<circ> fst) rows) cc\<rparr>"
        by (auto simp: unf)
      have "w_clock w \<le> w_clock w2" "w_clock w2 \<le> w_clock w'" "w_clock w \<le> w_clock w'"
        using db out(2) advance_mono [of w] advance_mono [of w2] by auto
      with out L d db show ?thesis by (auto intro!: exI [of _ "w_clock w2"])
    qed
  qed
  with hit show "w_db w' = w_db w \<and> w_clock w \<le> w_clock w' \<and> w_tz w' = w_tz w \<and> verifiedCache r' = verifiedCache r"
    and "(\<exists>e. res = Inl e \<and> candidatesCache r' = snd (TTL_Get ?now key (candidatesCache r))) \<or>
         (\<exists>cs. res = Inr cs \<and> ttl_live (candidatesCache r) ?now key = Some cs \<and> w_clock w' = ?now \<and>
               candidatesCache r' = snd (TTL_Get ?now key (candidatesCache r))) \<or>
         (\<exists>cs t. res = Inr cs \<and> w_clock w \<le> t \<and> t \<le> w_clock w' \<and>
               (\<forall>c \<in> set cs. listed (w_db w) (day_of w t) (cc_prefix key) (cc_identitySource key) c) \<and>
               candidatesCache r' = TTL_Set (w_clock w') key cs (snd (TTL_Get ?now key (candidatesCache r))))"
    by blast+
qed

lemma userIsActive_cases:
  assumes "userIsActive i w = (res, w')"
  shows "w_db w' = w_db w \<and> w_clock w \<le> w_clock w' \<and> w_tz w' = w_tz w"
    and "res = Inr True \<Longrightarrow> user_active (w_db w) i"
proof -
  obtain r1 w1 where q: "run_query (GetUserByID i) w = (r1, w1)" by fastforce
  with assms have w': "w' = w1" by (auto simp: userIsActive_def split: sum.splits if_splits)
  from q have "w_db w1 = w_db w"
    by (rule run_query_read_only [rotated]) (simp add: GetUserByID_def split: option.splits)
  with q w' show "w_db w' = w_db w \<and> w_clock w \<le> w_clock w' \<and> w_tz w' = w_tz w"
    by (auto dest: run_query_clock)
  show "user_active (w_db w) i" if "res = Inr True"
  proof -
    from that assms q obtain u where "r1 = Inr u" "u_status u = ''active''"
      by (auto simp: userIsActive_def split: sum.splits if_splits)
    with q show ?thesis
      by (elim run_query_cases)
        (auto simp: GetUserByID_def user_active_def split: option.splits dest!: find_Some_set)
  qed
qed

lemma tryCandidates_cases:
  assumes "tryCandidates C pl vk cs r w = (res, r', w')"
  shows "w_db w' = w_db w \<and> w_clock w \<le> w_clock w' \<and> w_tz w' = w_tz w \<and>
         ((\<exists>e. res = Inl e \<and> r' = r) \<or>
          (\<exists>c \<in> set cs. res = Inr (principal_of c) \<and> VerifySecret C (cand_keyHash c) pl \<and>
              user_active (w_db w) (cand_userID c) \<and>
              r' = r\<lparr>verifiedCache := TTL_Set (w_clock w') vk (principal_of c) (verifiedCache r)\<rparr>))"
  using assms
proof (induction cs arbitrary: w)
  case Nil
  then show ?case by auto
next
  case (Cons c cs)
  show ?case
  proof (cases "VerifySecret C (cand_keyHash c) pl")
    case False
    with Cons.prems have "tryCandidates C pl vk cs r w = (res, r', w')" by simp
    from Cons.IH [OF this] show ?thesis by auto
  next
    case True
    obtain a w1 where u: "userIsActive (cand_userID c) w = (a, w1)" by fastforce
    note uc = userIsActive_cases [OF u]
    consider (err) e where "a = Inl e" | (yes) "a = Inr True" | (no) "a = Inr False"
      by (cases a) auto
    then show ?thesis
    proof cases
      case err
      with Cons.prems True u uc show ?thesis by auto
    next
      case yes
      with Cons.prems True u have "res = Inr (principal_of c)" "w' = advance w1"
        "r' = r\<lparr>verifiedCache := TTL_Set (w_clock w') vk (principal_of c) (verifiedCache r)\<rparr>"
        by (auto simp: time_Now_def Let_def principal_of_def)
      with yes True uc show ?thesis using advance_mono [of w1] by auto
    next
      case no
      with Cons.prems True u have "tryCandidates C pl vk cs r w1 = (res, r', w')" by simp
      from Cons.IH [OF this] uc show ?thesis by auto
    qed
  qed
qed

text \<open>
  The summary every later proof uses. An accepted principal was either live in the verified cache, or
  belongs to a candidate whose hash verifies, whose owner is active now, and which the candidate
  cache held or the database listed during the call.
\<close>

definition cand_source ::
  "APIKeyRepository \<Rightarrow> world \<Rightarrow> instant \<Rightarrow> string \<Rightarrow> string \<Rightarrow> apiKeyCandidate \<Rightarrow> bool" where
  "cand_source r w hi pref source c =
     ((\<exists>t cs. w_clock w \<le> t \<and> t \<le> hi \<and>
         ttl_live (candidatesCache r) t \<lparr>cc_prefix = pref, cc_identitySource = source\<rparr> = Some cs \<and> c \<in> set cs) \<or>
      (\<exists>t. w_clock w \<le> t \<and> t \<le> hi \<and> listed (w_db w) (day_of w t) pref source c))"

lemma cand_source_advance:
  "cand_source (r\<lparr>verifiedCache := v\<rparr>) (advance w) hi pref source c \<Longrightarrow> cand_source r w hi pref source c"
  unfolding cand_source_def day_of_def using advance_mono [of w] by (auto 0 4)

lemma day_of_advance [simp]: "day_of (advance w) t = day_of w t"
  by (simp add: day_of_def)

lemma findCandidates_source:
  assumes "findCandidates \<lparr>cc_prefix = pref, cc_identitySource = source\<rparr> r w = (Inr cs, r', w')"
    and "c \<in> set cs" and "w_clock w' \<le> hi"
  shows "cand_source r w hi pref source c"
proof -
  note F = findCandidates_cases [OF assms(1)]
  from F(2) consider
    (hit) "ttl_live (candidatesCache r) (w_clock (advance w)) \<lparr>cc_prefix = pref, cc_identitySource = source\<rparr> = Some cs"
      "w_clock w' = w_clock (advance w)"
  | (db) t where "w_clock w \<le> t" "t \<le> w_clock w'" "\<forall>c \<in> set cs. listed (w_db w) (day_of w t) pref source c"
    by auto
  then show ?thesis
  proof cases
    case hit
    with assms advance_mono [of w] show ?thesis unfolding cand_source_def by auto
  next
    case db
    with assms show ?thesis unfolding cand_source_def by auto
  qed
qed

lemma findCandidates_keeps:
  assumes "findCandidates \<lparr>cc_prefix = pref, cc_identitySource = source\<rparr> r w = (res, r', w')"
    and a: "ttlc.all_live (\<lambda>t key cs. \<forall>c \<in> set cs. A t key c) (candidatesCache r)"
    and new: "\<And>c t t'. listed (w_db w) (day_of w t) pref source c \<Longrightarrow> w_clock w \<le> t \<Longrightarrow>
         t' < w_clock w' + ttl_life (candidatesCache r) \<Longrightarrow> A t' \<lparr>cc_prefix = pref, cc_identitySource = source\<rparr> c"
  shows "ttlc.all_live (\<lambda>t key cs. \<forall>c \<in> set cs. A t key c) (candidatesCache r')"
proof -
  let ?ck = "\<lparr>cc_prefix = pref, cc_identitySource = source\<rparr>"
  let ?c1 = "snd (TTL_Get (w_clock (advance w)) ?ck (candidatesCache r))"
  have c1: "ttlc.all_live (\<lambda>t key cs. \<forall>c \<in> set cs. A t key c) ?c1" by (rule ttlc.all_live_get [OF a])
  have "ttlc.all_live (\<lambda>t key cs. \<forall>c \<in> set cs. A t key c) (TTL_Set (w_clock w') ?ck cs ?c1)"
    if "w_clock w \<le> t" "\<forall>c \<in> set cs. listed (w_db w) (day_of w t) pref source c" for cs t
    using that new by (intro ttlc.all_live_put [OF c1]) (auto simp: ttlc.life_simps)
  with findCandidates_cases(2) [OF assms(1)] c1 show ?thesis by auto
qed

lemma findCandidates_life:
  "findCandidates key r w = (res, r', w') \<Longrightarrow> ttl_life (candidatesCache r') = ttl_life (candidatesCache r)"
  by (drule findCandidates_cases(2)) (auto simp: ttlc.life_simps)

lemma authenticate_outcome:
  assumes "authenticate C pl source r w = (res, r', w')"
  obtains (cached) p where "res = Inr p" "w' = advance w"
      "ttl_live (verifiedCache r) (w_clock w') \<lparr>vk_digest = sha256 C pl, vk_identitySource = source\<rparr> = Some p"
      "r' = r\<lparr>verifiedCache := snd (TTL_Get (w_clock w') \<lparr>vk_digest = sha256 C pl, vk_identitySource = source\<rparr> (verifiedCache r))\<rparr>"
  | (failed) e r2 where "res = Inl e" "r' = r2"
      "findCandidates \<lparr>cc_prefix = take APIKeyPrefixLength pl, cc_identitySource = source\<rparr>
         (r\<lparr>verifiedCache := snd (TTL_Get (w_clock (advance w)) \<lparr>vk_digest = sha256 C pl, vk_identitySource = source\<rparr> (verifiedCache r))\<rparr>)
         (advance w) = (Inl e, r2, w')"
  | (tried) cs r2 w2 where
      "findCandidates \<lparr>cc_prefix = take APIKeyPrefixLength pl, cc_identitySource = source\<rparr>
         (r\<lparr>verifiedCache := snd (TTL_Get (w_clock (advance w)) \<lparr>vk_digest = sha256 C pl, vk_identitySource = source\<rparr> (verifiedCache r))\<rparr>)
         (advance w) = (Inr cs, r2, w2)"
      "tryCandidates C pl \<lparr>vk_digest = sha256 C pl, vk_identitySource = source\<rparr> cs r2 w2 = (res, r', w')"
proof -
  let ?now = "w_clock (advance w)"
  let ?vk = "\<lparr>vk_digest = sha256 C pl, vk_identitySource = source\<rparr>"
  obtain hit vc where get: "TTL_Get ?now ?vk (verifiedCache r) = (hit, vc)" by fastforce
  then have h: "hit = ttl_live (verifiedCache r) ?now ?vk" "vc = snd (TTL_Get ?now ?vk (verifiedCache r))"
    using ttlc.get_value [of ?now ?vk "verifiedCache r"] by auto
  obtain fr r2 w2 where fc: "findCandidates \<lparr>cc_prefix = take APIKeyPrefixLength pl, cc_identitySource = source\<rparr>
      (r\<lparr>verifiedCache := vc\<rparr>) (advance w) = (fr, r2, w2)" by (metis prod_cases3)
  note unf = authenticate_def time_Now_def Let_def get
  show thesis
  proof (cases hit)
    case (Some p)
    with assms have "res = Inr p" "w' = advance w" "r' = r\<lparr>verifiedCache := vc\<rparr>" by (auto simp: unf)
    with Some h show thesis by (intro cached [of p]) simp_all
  next
    case None
    show thesis
    proof (cases fr)
      case (Inl e)
      from assms None fc Inl have "res = Inl e" "r' = r2" "w' = w2" by (auto simp: unf)
      with fc Inl h show thesis by (intro failed [of e r2]) auto
    next
      case (Inr cs)
      from assms None fc Inr have
        "tryCandidates C pl ?vk cs r2 w2 = (res, r', w')" by (simp add: unf)
      with fc Inr h show thesis by (intro tried [of cs r2 w2]) auto
    qed
  qed
qed

lemma authenticate_frame:
  assumes "authenticate C pl source r w = (res, r', w')"
  shows "w_db w' = w_db w \<and> w_clock w \<le> w_clock w' \<and> w_tz w' = w_tz w"
  using assms
proof (cases rule: authenticate_outcome)
  case cached
  then show ?thesis by (simp add: advance_mono)
next
  case failed
  with findCandidates_cases(1) [OF failed(3)] advance_mono [of w] show ?thesis by auto
next
  case (tried cs r2 w2)
  from findCandidates_cases(1) [OF tried(1)] tryCandidates_cases [OF tried(2)] advance_mono [of w]
  show ?thesis by auto
qed

lemma authenticate_accepts:
  assumes "authenticate C pl source r w = (Inr p, r', w')"
  shows "(\<exists>t. w_clock w \<le> t \<and> t \<le> w_clock w' \<and>
         ttl_live (verifiedCache r) t \<lparr>vk_digest = sha256 C pl, vk_identitySource = source\<rparr> = Some p) \<or>
      (\<exists>c. p = principal_of c \<and> VerifySecret C (cand_keyHash c) pl \<and> user_active (w_db w) (cand_userID c) \<and>
         cand_source r w (w_clock w') (take APIKeyPrefixLength pl) source c)"
  using assms
proof (cases rule: authenticate_outcome)
  case (cached q)
  then show ?thesis using advance_mono [of w] by auto
next
  case failed
  then show ?thesis by simp
next
  case (tried cs r2 w2)
  from tryCandidates_cases [OF tried(2)] obtain c where c: "c \<in> set cs" "p = principal_of c"
    "VerifySecret C (cand_keyHash c) pl" "user_active (w_db w2) (cand_userID c)" "w_clock w2 \<le> w_clock w'" by auto
  from findCandidates_source [OF tried(1) c(1) c(5)]
  have "cand_source r w (w_clock w') (take APIKeyPrefixLength pl) source c"
    by (rule cand_source_advance)
  with c findCandidates_cases(1) [OF tried(1)] show ?thesis by auto
qed

lemma authenticate_life:
  assumes "authenticate C pl source r w = (res, r', w')"
  shows "ttl_life (candidatesCache r') = ttl_life (candidatesCache r) \<and>
         ttl_life (verifiedCache r') = ttl_life (verifiedCache r)"
  using assms
proof (cases rule: authenticate_outcome)
  case cached
  then show ?thesis by (simp add: ttlc.life_simps)
next
  case (failed e r2)
  with findCandidates_life [OF failed(3)] findCandidates_cases(1) [OF failed(3)] show ?thesis
    by (simp add: ttlc.life_simps)
next
  case (tried cs r2 w2)
  from tryCandidates_cases [OF tried(2)] findCandidates_life [OF tried(1)] findCandidates_cases(1) [OF tried(1)]
  show ?thesis by (auto simp: ttlc.life_simps)
qed

lemma authenticate_keeps:
  assumes "authenticate C pl source r w = (res, r', w')"
    and a: "ttlc.all_live (\<lambda>t key cs. \<forall>c \<in> set cs. A t key c) (candidatesCache r)"
    and b: "ttlc.all_live B (verifiedCache r)"
    and newA: "\<And>c t t'. listed (w_db w) (day_of w t) (take APIKeyPrefixLength pl) source c \<Longrightarrow>
         w_clock w \<le> t \<Longrightarrow> t' < w_clock w' + ttl_life (candidatesCache r) \<Longrightarrow>
         A t' \<lparr>cc_prefix = take APIKeyPrefixLength pl, cc_identitySource = source\<rparr> c"
    and newB: "\<And>c t'. cand_source r w (w_clock w') (take APIKeyPrefixLength pl) source c \<Longrightarrow>
         user_active (w_db w) (cand_userID c) \<Longrightarrow> VerifySecret C (cand_keyHash c) pl \<Longrightarrow>
         t' < w_clock w' + ttl_life (verifiedCache r) \<Longrightarrow>
         B t' \<lparr>vk_digest = sha256 C pl, vk_identitySource = source\<rparr> (principal_of c)"
  shows "ttlc.all_live (\<lambda>t key cs. \<forall>c \<in> set cs. A t key c) (candidatesCache r') \<and>
         ttlc.all_live B (verifiedCache r')"
  using assms(1)
proof (cases rule: authenticate_outcome)
  case cached
  with a b show ?thesis by (simp add: ttlc.all_live_get)
next
  case (failed e r2)
  have "ttlc.all_live (\<lambda>t key cs. \<forall>c \<in> set cs. A t key c) (candidatesCache r2)"
    using a failed newA order.trans [OF advance_mono [of w]] by (intro findCandidates_keeps [OF failed(3)]) auto
  with failed b findCandidates_cases(1) [OF failed(3)] show ?thesis by (simp add: ttlc.all_live_get)
next
  case (tried cs r2 w2)
  let ?vk = "\<lparr>vk_digest = sha256 C pl, vk_identitySource = source\<rparr>"
  note T = tryCandidates_cases [OF tried(2)] and F = findCandidates_cases(1) [OF tried(1)]
  have A2: "ttlc.all_live (\<lambda>t key cs. \<forall>c \<in> set cs. A t key c) (candidatesCache r2)"
    using a newA order.trans [OF advance_mono [of w]] T by (intro findCandidates_keeps [OF tried(1)]) auto
  have B2: "ttlc.all_live B (verifiedCache r2)" using F b by (simp add: ttlc.all_live_get)
  have life: "ttl_life (verifiedCache r2) = ttl_life (verifiedCache r)" using F by (simp add: ttlc.life_simps)
  have "cand_source r w (w_clock w') (take APIKeyPrefixLength pl) source c" if "c \<in> set cs" for c
    using findCandidates_source [OF tried(1) that, of "w_clock w'"] T by (auto intro: cand_source_advance)
  then have "ttlc.all_live B (TTL_Set (w_clock w') ?vk (principal_of c) (verifiedCache r2))"
    if "c \<in> set cs" "user_active (w_db w2) (cand_userID c)" "VerifySecret C (cand_keyHash c) pl" for c
    using that newB life F by (intro ttlc.all_live_put [OF B2]) auto
  with T A2 B2 show ?thesis by auto
qed

section \<open>Schema preservation\<close>

lemma wf_keys_insert:
  assumes "wf_api_keys d" and "k_id k = api_keys_seq d + 1" and "k_status k = ''active''" and "has_user d (k_user_id k)"
  shows "wf_api_keys (d\<lparr>api_keys := api_keys d @ [k], api_keys_seq := api_keys_seq d + 1\<rparr>)"
  using assms distinct_fresh_seq [of k_id "api_keys d" "api_keys_seq d" k]
  by (auto simp: wf_api_keys_def has_user_def)

lemma wf_keys_update:
  assumes "wf_api_keys d" and "\<And>k. p k \<Longrightarrow> k_id (f k) = k_id k \<and> k_user_id (f k) = k_user_id k \<and>
    (k_status (f k) = k_status k \<or> k_status (f k) = ''revoked'')"
  shows "wf_api_keys (d\<lparr>api_keys := update_where p f (api_keys d)\<rparr>)"
proof -
  have "map k_id (update_where p f (api_keys d)) = map k_id (api_keys d)"
    by (rule map_update_where_key) (use assms(2) in auto)
  moreover have "\<forall>k \<in> set (update_where p f (api_keys d)). 0 < k_id k \<and> k_id k \<le> api_keys_seq d \<and>
      (k_status k = ''active'' \<or> k_status k = ''revoked'') \<and> has_user d (k_user_id k)"
  proof
    fix k assume "k \<in> set (update_where p f (api_keys d))"
    then obtain k0 where k0: "k0 \<in> set (api_keys d)" "k = (if p k0 then f k0 else k0)"
      by (auto simp: set_update_where)
    with assms(1) have "0 < k_id k0 \<and> k_id k0 \<le> api_keys_seq d \<and>
      (k_status k0 = ''active'' \<or> k_status k0 = ''revoked'') \<and> has_user d (k_user_id k0)"
      by (simp add: wf_api_keys_def)
    with k0(2) assms(2) [of k0] show "0 < k_id k \<and> k_id k \<le> api_keys_seq d \<and>
      (k_status k = ''active'' \<or> k_status k = ''revoked'') \<and> has_user d (k_user_id k)"
      by (cases "p k0") auto
  qed
  ultimately show ?thesis using assms(1) by (simp add: wf_api_keys_def has_user_def)
qed

lemma CreateAPIKey_wf: "wf_db d \<Longrightarrow> wf_db (snd (CreateAPIKey_q a b c e f g w d))"
  by (auto simp: CreateAPIKey_q_def Let_def intro!: wf_db_keys_change [of d] wf_keys_insert dest: wf_db_api_keys)

lemma RevokeAPIKey_wf: "wf_db d \<Longrightarrow> wf_db (snd (RevokeAPIKey i u w d))"
  by (auto simp: RevokeAPIKey_def Let_def intro!: wf_db_keys_change [of d] wf_keys_update dest: wf_db_api_keys)

lemma TouchAPIKeys_wf: "wf_db d \<Longrightarrow> wf_db (snd (TouchAPIKeysLastUsed_q ids w d))"
  by (auto simp: TouchAPIKeysLastUsed_q_def intro!: wf_db_keys_change [of d] wf_keys_update dest: wf_db_api_keys)

section \<open>Runs of one replica\<close>

text \<open>
  What every SQL statement of the program does to existing keys: rows stay, with their id, owner, hash
  and prefix, a revoked key stays revoked, and ids are never reused.
\<close>

definition keys_mono :: "database \<Rightarrow> database \<Rightarrow> bool" where
  "keys_mono d d' =
     ((\<forall>k \<in> set (api_keys d). \<exists>k' \<in> set (api_keys d'). k_id k' = k_id k \<and> k_user_id k' = k_user_id k \<and>
         k_key_hash k' = k_key_hash k \<and> k_key_prefix k' = k_key_prefix k \<and>
         (k_status k = ''revoked'' \<longrightarrow> k_status k' = ''revoked'')) \<and>
      api_keys_seq d \<le> api_keys_seq d')"

lemma keys_mono_refl [simp]: "keys_mono d d"
  by (auto simp: keys_mono_def)

lemma keys_mono_same: "api_keys d' = api_keys d \<Longrightarrow> api_keys_seq d' = api_keys_seq d \<Longrightarrow> keys_mono d d'"
  by (auto simp: keys_mono_def)

lemma update_where_keys_mono:
  assumes "\<And>k. p k \<Longrightarrow> k_id (f k) = k_id k \<and> k_user_id (f k) = k_user_id k \<and> k_key_hash (f k) = k_key_hash k \<and>
    k_key_prefix (f k) = k_key_prefix k \<and> (k_status (f k) = k_status k \<or> k_status (f k) = ''revoked'')"
  shows "keys_mono d (d\<lparr>api_keys := update_where p f (api_keys d)\<rparr>)"
  unfolding keys_mono_def
proof (intro conjI ballI)
  fix k assume k: "k \<in> set (api_keys d)"
  let ?k = "if p k then f k else k"
  from k have "?k \<in> set (update_where p f (api_keys d))" by (simp add: set_update_where)
  then show "\<exists>k' \<in> set (api_keys (d\<lparr>api_keys := update_where p f (api_keys d)\<rparr>)). k_id k' = k_id k \<and>
      k_user_id k' = k_user_id k \<and> k_key_hash k' = k_key_hash k \<and> k_key_prefix k' = k_key_prefix k \<and>
      (k_status k = ''revoked'' \<longrightarrow> k_status k' = ''revoked'')"
    using assms [of k] by (intro bexI [of _ ?k]) auto
qed simp

lemma key_statements_mono:
  "keys_mono d (snd (CreateAPIKey_q a b c e f g w d))"
  "keys_mono d (snd (RevokeAPIKey i u w d))"
  "keys_mono d (snd (TouchAPIKeysLastUsed_q ids w d))"
  "keys_mono d (snd (upsert_user src nm em ro w d))"
  "keys_mono d (snd (SetUserStatus i st w d))"
  "keys_mono d (snd (BlockUserAndDeleteSessions i w d))"
  by (auto simp: CreateAPIKey_q_def RevokeAPIKey_def TouchAPIKeysLastUsed_q_def upsert_user_def SetUserStatus_def
      BlockUserAndDeleteSessions_def Let_def keys_mono_def split: option.splits
      intro!: update_where_keys_mono [unfolded keys_mono_def, simplified] keys_mono_same [unfolded keys_mono_def])

text \<open>
  A replica makes calls one after the other; between two calls time passes and other replicas (and the
  rest of this one) change the database within the rely condition \<open>R\<close>. \<open>\<delta>\<close> bounds the duration of an
  authentication call.
\<close>

inductive replica_step ::
  "crypto \<Rightarrow> (database \<Rightarrow> database \<Rightarrow> bool) \<Rightarrow> duration \<Rightarrow> APIKeyRepository \<times> world \<Rightarrow> APIKeyRepository \<times> world \<Rightarrow> bool"
  for C R \<delta> where
  step_create: "Keys_Create C p r w = (x, r', w') \<Longrightarrow> replica_step C R \<delta> (r, w) (r', w')"
| step_authenticate: "authenticate C pl source r w = (x, r', w') \<Longrightarrow> w_clock w' \<le> w_clock w + \<delta> \<Longrightarrow>
     replica_step C R \<delta> (r, w) (r', w')"
| step_invalidate_user: "replica_step C R \<delta> (r, w) (Keys_InvalidateUser i r, w)"
| step_revoke: "Revoke u k r w = (x, r', w') \<Longrightarrow> replica_step C R \<delta> (r, w) (r', w')"
| step_environment: "w_clock w \<le> w_clock w' \<Longrightarrow> w_tz w' = w_tz w \<Longrightarrow> wf_db (w_db w') \<Longrightarrow>
     R (w_db w) (w_db w') \<Longrightarrow> replica_step C R \<delta> (r, w) (r, w')"

abbreviation replica_steps where "replica_steps C R \<delta> \<equiv> (replica_step C R \<delta>)\<^sup>*\<^sup>*"

lemma HashSecret_frame:
  "HashSecret C s w = (x, w') \<Longrightarrow> w_db w' = w_db w \<and> w_clock w' = w_clock w \<and> w_tz w' = w_tz w"
  by (auto simp: HashSecret_def rand_Read_def split: list.splits)

lemma Keys_Create_cases:
  assumes "Keys_Create C p r w = (x, r', w')"
  shows "verifiedCache r' = verifiedCache r \<and> w_clock w \<le> w_clock w' \<and> w_tz w' = w_tz w \<and>
         (r' = r \<or> r' = invalidateCandidates (take APIKeyPrefixLength (ck_Plaintext p)) r) \<and>
         (w_db w' = w_db w \<or> (\<exists>a b c e f g w1. w_db w' = snd (CreateAPIKey_q a b c e f g w1 (w_db w))))"
proof (cases "ck_UserID p \<le> 0 \<or> length (ck_Plaintext p) < APIKeyPrefixLength")
  case True
  with assms show ?thesis by (auto simp: Keys_Create_def)
next
  case ok: False
  obtain h w1 where hs: "HashSecret C (ck_Plaintext p) w = (h, w1)" by fastforce
  note fr = HashSecret_frame [OF hs]
  show ?thesis
  proof (cases h)
    case (Inl e)
    with ok hs assms fr show ?thesis by (auto simp: Keys_Create_def)
  next
    case (Inr hash)
    let ?q = "CreateAPIKey_q (ck_UserID p) hash (take APIKeyPrefixLength (ck_Plaintext p))
      (nullableText (ck_Name p)) (ck_ExpiresAt p) (nullableText (ck_Scope p))"
    obtain res w2 where q: "run_query ?q w1 = (res, w2)" by fastforce
    with Inr ok hs assms have out: "w' = w2"
      "r' = r \<or> r' = invalidateCandidates (take APIKeyPrefixLength (ck_Plaintext p)) r"
      by (auto simp: Keys_Create_def split: sum.splits)
    from q have "w_db w2 = w_db w1 \<or> (\<exists>wq. w_db w2 = snd (?q wq (w_db w1)))"
      by (cases rule: run_query_cases) (auto, metis snd_conv)
    then have "w_db w' = w_db w \<or> (\<exists>a b c e f g w1. w_db w' = snd (CreateAPIKey_q a b c e f g w1 (w_db w)))"
      unfolding out(1) using fr by metis
    with out fr run_query_clock [OF q] show ?thesis
      by (auto simp: invalidateCandidates_def Let_def)
  qed
qed

lemma Revoke_cases:
  assumes "Revoke u k r w = (x, r', w')"
  shows "w_clock w \<le> w_clock w' \<and> w_tz w' = w_tz w"
    and "w_db w' = w_db w \<or> (\<exists>w1. w_db w' = snd (RevokeAPIKey k u w1 (w_db w)))"
    and "r' = r \<or> r' = r\<lparr>candidatesCache := TTL_Clear (candidatesCache r), verifiedCache := TTL_Clear (verifiedCache r)\<rparr>"
proof -
  obtain res w1 where q: "run_query (RevokeAPIKey k u) w = (res, w1)" by fastforce
  with assms have w': "w' = w1" by (auto simp: Revoke_def split: sum.splits if_splits)
  with run_query_clock [OF q] show "w_clock w \<le> w_clock w' \<and> w_tz w' = w_tz w" by simp
  from q w' show "w_db w' = w_db w \<or> (\<exists>w1. w_db w' = snd (RevokeAPIKey k u w1 (w_db w)))"
    by (cases rule: run_query_cases) (auto, metis snd_conv)
  from q assms show "r' = r \<or> r' = r\<lparr>candidatesCache := TTL_Clear (candidatesCache r), verifiedCache := TTL_Clear (verifiedCache r)\<rparr>"
    by (auto simp: Revoke_def split: sum.splits if_splits)
qed

text \<open>An invariant of both caches that no cached or freshly listed candidate can break.\<close>

definition caches_ok ::
  "(instant \<Rightarrow> apiKeyCandidate \<Rightarrow> bool) \<Rightarrow> (instant \<Rightarrow> APIKeyPrincipal \<Rightarrow> bool) \<Rightarrow> APIKeyRepository \<Rightarrow> bool" where
  "caches_ok A B r =
     (ttlc.all_live (\<lambda>t _ cs. \<forall>c \<in> set cs. A t c) (candidatesCache r) \<and>
      ttlc.all_live (\<lambda>t _ p. B t p) (verifiedCache r))"

lemma caches_ok_invalidate:
  "caches_ok A B r \<Longrightarrow> caches_ok A B (invalidateCandidates pref r)"
  by (simp add: caches_ok_def invalidateCandidates_def Let_def ttlc.all_live_del)

lemma caches_ok_clear:
  "caches_ok A B (r\<lparr>candidatesCache := TTL_Clear (candidatesCache r), verifiedCache := TTL_Clear (verifiedCache r)\<rparr>)"
  by (simp add: caches_ok_def ttlc.all_live_clr)

lemma caches_ok_invalidate_user:
  "caches_ok A B r \<Longrightarrow> caches_ok A B (Keys_InvalidateUser i r)"
  by (auto simp: caches_ok_def Keys_InvalidateUser_def intro!: ttlc.all_live_delw dest: ttlc.all_liveD)

lemmas caches_ok_intros = caches_ok_invalidate caches_ok_clear caches_ok_invalidate_user

lemma caches_ok_new: "caches_ok A B NewAPIKeyRepository"
  by (simp add: caches_ok_def NewAPIKeyRepository_def ttlc.all_live_def ttl_live_def NewTTL_def)


lemma replica_step_life:
  assumes "replica_step C R \<delta> (r, w) (r', w')"
  shows "ttl_life (verifiedCache r') = ttl_life (verifiedCache r)"
  using assms
proof (cases rule: replica_step.cases)
  case step_create
  then show ?thesis by (auto dest: Keys_Create_cases)
next
  case step_authenticate
  then show ?thesis by (auto dest: authenticate_life)
next
  case step_invalidate_user
  then show ?thesis by (auto simp: Keys_InvalidateUser_def ttlc.life_simps)
next
  case step_revoke
  then show ?thesis using Revoke_cases(3) by (fastforce simp: ttlc.life_simps)
qed simp

section \<open>The safety argument\<close>

text \<open>
  One induction serves the three safety theorems. \<open>D\<close> is a fact about the database that no step
  undoes, \<open>A\<close> and \<open>B\<close> what the two caches may hold at an instant.
\<close>

locale replica_safety =
  fixes R :: "database \<Rightarrow> database \<Rightarrow> bool"
    and \<delta> :: duration and L :: duration
    and D :: "database \<Rightarrow> bool"
    and A :: "instant \<Rightarrow> apiKeyCandidate \<Rightarrow> bool"
    and B :: "instant \<Rightarrow> APIKeyPrincipal \<Rightarrow> bool"
  assumes durations: "0 \<le> \<delta>" "0 < L"
    and D_rely: "R d d' \<Longrightarrow> wf_db d \<Longrightarrow> wf_db d' \<Longrightarrow> D d \<Longrightarrow> D d'"
    and D_create: "D d \<Longrightarrow> D (snd (CreateAPIKey_q uid hash pre name ex scope w d))"
    and D_revoke: "D d \<Longrightarrow> D (snd (RevokeAPIKey i u w d))"
    and listed_A: "wf_db d \<Longrightarrow> D d \<Longrightarrow> listed d today pref source c \<Longrightarrow> A t c"
    and accept_B: "wf_db d \<Longrightarrow> D d \<Longrightarrow> A t c \<Longrightarrow> user_active d (cand_userID c) \<Longrightarrow> t' < t + \<delta> + L \<Longrightarrow>
       B t' (principal_of c)"
begin

definition inv :: "APIKeyRepository \<times> world \<Rightarrow> bool" where
  "inv s = (case s of (r, w) \<Rightarrow>
     wf_db (w_db w) \<and> D (w_db w) \<and> ttl_life (verifiedCache r) \<le> L \<and> caches_ok A B r)"

lemma source_A:
  assumes "inv (r, w)" and "cand_source r w hi pref source c"
  obtains t where "w_clock w \<le> t" "t \<le> hi" "A t c"
  using assms unfolding inv_def cand_source_def caches_ok_def
  by (auto dest: ttlc.all_liveD listed_A)

lemma authenticate_inv:
  assumes "inv (r, w)" and auth: "authenticate C pl source r w = (x, r', w')" and "w_clock w' \<le> w_clock w + \<delta>"
  shows "inv (r', w')"
proof -
  note i = assms(1) [unfolded inv_def caches_ok_def, simplified]
  have "ttlc.all_live (\<lambda>t _ cs. \<forall>c \<in> set cs. A t c) (candidatesCache r') \<and>
        ttlc.all_live (\<lambda>t _ p. B t p) (verifiedCache r')"
  proof (rule authenticate_keeps [OF auth])
    fix c t' assume s: "cand_source r w (w_clock w') (take APIKeyPrefixLength pl) source c"
      and u: "user_active (w_db w) (cand_userID c)" and t': "t' < w_clock w' + ttl_life (verifiedCache r)"
    from source_A [OF assms(1) s] obtain t where "w_clock w \<le> t" "A t c" by blast
    with i u t' assms(3) show "B t' (principal_of c)" by (intro accept_B [of "w_db w" t]) auto
  qed (use i listed_A in auto)
  with i authenticate_frame [OF auth] authenticate_life [OF auth] show ?thesis
    by (simp add: inv_def caches_ok_def)
qed

lemma step_inv:
  assumes "replica_step C R \<delta> (r, w) (r', w')" and "inv (r, w)"
  shows "inv (r', w')"
proof -
  have life: "ttl_life (verifiedCache r') \<le> L"
    using replica_step_life [OF assms(1)] assms(2) by (simp add: inv_def)
  from assms(1) show ?thesis
  proof (cases rule: replica_step.cases)
    case (step_create p x)
    with Keys_Create_cases [OF step_create] assms(2) life show ?thesis
      by (auto simp: inv_def intro: D_create CreateAPIKey_wf caches_ok_intros)
  next
    case (step_authenticate pl source x)
    with authenticate_inv [OF assms(2)] show ?thesis by blast
  next
    case step_invalidate_user
    with assms(2) life show ?thesis by (auto simp: inv_def intro: caches_ok_intros)
  next
    case (step_revoke u k x)
    with Revoke_cases [OF step_revoke] assms(2) life show ?thesis
      by (auto simp: inv_def intro: D_revoke RevokeAPIKey_wf caches_ok_intros)
  next
    case step_environment
    with assms(2) show ?thesis by (auto simp: inv_def intro: D_rely)
  qed
qed

lemma steps_inv: "replica_steps C R \<delta> s s' \<Longrightarrow> inv s \<Longrightarrow> inv s'"
proof (induction rule: rtranclp_induct)
  case (step s1 s2)
  then show ?case by (cases s1; cases s2) (auto intro: step_inv)
qed

lemma accepted_B:
  assumes "replica_steps C R \<delta> s (r, w)" and "inv s" and auth: "authenticate C pl source r w = (Inr p, r', w')"
  obtains t where "w_clock w \<le> t" "t \<le> w_clock w'" "B t p"
proof -
  from assms have i: "inv (r, w)" by (blast intro: steps_inv)
  consider (cached) t where "w_clock w \<le> t" "t \<le> w_clock w'"
      "ttl_live (verifiedCache r) t \<lparr>vk_digest = sha256 C pl, vk_identitySource = source\<rparr> = Some p"
    | (checked) c where "p = principal_of c" "user_active (w_db w) (cand_userID c)"
        "cand_source r w (w_clock w') (take APIKeyPrefixLength pl) source c"
    using authenticate_accepts [OF auth] by blast
  then show thesis
  proof cases
    case cached
    with i that show thesis by (auto simp: inv_def caches_ok_def dest: ttlc.all_liveD)
  next
    case checked
    from source_A [OF i checked(3)] obtain t where t: "w_clock w \<le> t" "t \<le> w_clock w'" "A t c" by blast
    with i checked durations have "B t p"
      by (auto simp: inv_def intro!: accept_B [of "w_db w" t])
    with t that show thesis by blast
  qed
qed

end

end
