(* ===== verification/Users_Theorems.thy ===== *)
theory Users_Theorems
  imports Sessions_Repo
begin

text \<open>
  Properties of users and their sessions: what the audited status change does to the database, what
  provisioning at login may change, and that sessions can be looked up exactly while they are valid.
\<close>

section \<open>Audited status change\<close>

definition audit_of :: "AdminAuditLogEntry \<Rightarrow> instant \<Rightarrow> int \<Rightarrow> audit_row" where
  "audit_of e t i =
     \<lparr>al_id = i, al_actor_user_id = Some (ae_ActorUserID e), al_action = ae_Action e,
      al_target_type = Some (ae_TargetType e), al_target_id = Some (ae_TargetID e),
      al_details = nullableText (ae_Details e), al_actor_ip = ae_ActorIP e, al_created_at = t\<rparr>"

definition with_audit :: "AdminAuditLogEntry \<Rightarrow> instant \<Rightarrow> database \<Rightarrow> database" where
  "with_audit e t d =
     d\<lparr>admin_audit_log := admin_audit_log d @ [audit_of e t (audit_seq d + 1)], audit_seq := audit_seq d + 1\<rparr>"

lemma with_audit_frame [simp]:
  "users (with_audit e t d) = users d" "sessions (with_audit e t d) = sessions d"
  "api_keys (with_audit e t d) = api_keys d" "oauth_sessions (with_audit e t d) = oauth_sessions d"
  "model_overrides (with_audit e t d) = model_overrides d"
  "admin_audit_log (with_audit e t d) = admin_audit_log d @ [audit_of e t (audit_seq d + 1)]"
  by (simp_all add: with_audit_def)

lemma run_query_ok:
  assumes "run_query q w = (Inr x, w')"
  obtains w1 where "q w1 (w_db w) = (Inr x, w_db w')" "w_db w1 = w_db w" "w_clock w' = w_clock w1" "w_clock w \<le> w_clock w1"
  using assms by (auto elim: run_query_cases)

lemma in_tx_ok:
  assumes "in_tx f g body w = (Inr x, w')"
  obtains w1 w2 where "w_db w1 = w_db w" "body w1 = (Inr x, w2)" "w_db w' = w_db w2" "w_clock w \<le> w_clock w1"
    "w_clock w2 \<le> w_clock w'"
  using assms by (cases rule: in_tx_cases) auto

lemma in_tx_error: "in_tx f g body w = (Inl e, w') \<Longrightarrow> w_db w' = w_db w"
  by (cases rule: in_tx_cases) auto

lemma Audit_Insert_ok:
  assumes "Audit_Insert v e w = (Inr x, w')"
  obtains t where "w_db w' = with_audit e t (w_db w)" "has_user (w_db w) (ae_ActorUserID e)" "w_clock w \<le> t"
proof -
  let ?q = "InsertAdminAuditLog (Some (ae_ActorUserID e)) (ae_Action e) (Some (ae_TargetType e))
      (Some (ae_TargetID e)) (nullableText (ae_Details e)) (ae_ActorIP e)"
  obtain y w1 where q: "run_query ?q w = (y, w1)" by fastforce
  with assms have "y = Inr ()" "w1 = w'"
    by (auto simp: Audit_Insert_def split: if_splits sum.splits)
  with q have "run_query ?q w = (Inr (), w')" by simp
  then obtain w2 where e: "?q w2 (w_db w) = (Inr (), w_db w')" "w_clock w \<le> w_clock w2" by (rule run_query_ok)
  show thesis
    by (rule that [of "w_clock w2"])
      (use e in \<open>auto simp: InsertAdminAuditLog_def with_audit_def audit_of_def split: if_splits\<close>)
qed

definition set_status_db :: "int \<Rightarrow> string \<Rightarrow> instant \<Rightarrow> database \<Rightarrow> database" where
  "set_status_db uid status t d =
     (let d1 = d\<lparr>users := update_where (\<lambda>u. u_id u = uid)
                           (\<lambda>u. u\<lparr>u_status := status, u_updated_at := t\<rparr>) (users d)\<rparr>
      in if status = ''blocked'' then d1\<lparr>sessions := delete_where (\<lambda>s. s_user_id s = uid) (sessions d)\<rparr> else d1)"

lemma Block_ok:
  assumes "BlockUserAndDeleteSessions uid w d = (Inr n, d')" and "n \<noteq> 0"
  shows "d' = set_status_db uid ''blocked'' (w_clock w) d \<and> has_user d uid"
proof -
  from assms have h: "has_user d uid"
    by (auto simp: BlockUserAndDeleteSessions_def Let_def filter_empty_conv has_user_def)
  then have "s_user_id s \<in> set (map u_id (filter (\<lambda>u. u_id u = uid) (users d))) \<longleftrightarrow> s_user_id s = uid" for s
    by (auto simp: has_user_def)
  then have "delete_where (\<lambda>s. s_user_id s \<in> set (map u_id (filter (\<lambda>u. u_id u = uid) (users d)))) (sessions d)
      = delete_where (\<lambda>s. s_user_id s = uid) (sessions d)"
    unfolding delete_where_def by (intro filter_cong) auto
  with assms(1) h show ?thesis
    by (auto simp: BlockUserAndDeleteSessions_def Let_def set_status_db_def)
qed

lemma SetUserStatus_ok:
  assumes "SetUserStatus uid st w d = (Inr n, d')" and "n \<noteq> 0" and "st \<noteq> ''blocked''"
  shows "d' = set_status_db uid st (w_clock w) d \<and> has_user d uid"
proof -
  from assms have "count_where (\<lambda>u. u_id u = uid) (users d) \<noteq> 0"
    by (auto simp: SetUserStatus_def split: if_splits)
  then have "has_user d uid" by (simp add: count_where_pos has_user_def)
  with assms show ?thesis by (auto simp: SetUserStatus_def set_status_db_def Let_def split: if_splits)
qed

lemma SetStatus_ok:
  assumes "SetStatus uid st w = (Inr x, w')"
  obtains t where "w_db w' = set_status_db uid st t (w_db w)" "has_user (w_db w) uid" "w_clock w \<le> t"
proof -
  let ?q = "if st = ''blocked'' then run_query (BlockUserAndDeleteSessions uid) w
            else run_query (SetUserStatus uid st) w"
  obtain y w1 where q: "?q = (y, w1)" by (cases ?q) auto
  from assms have "st = ''active'' \<or> st = ''blocked''" by (auto simp: SetStatus_def split: if_splits)
  with assms q obtain n where n: "y = Inr n" "n \<noteq> 0" "w1 = w'"
    by (auto simp: SetStatus_def split: sum.splits if_splits prod.splits)
  show thesis
  proof (cases "st = ''blocked''")
    case True
    with q n have "run_query (BlockUserAndDeleteSessions uid) w = (Inr n, w')" by simp
    then obtain w2 where "BlockUserAndDeleteSessions uid w2 (w_db w) = (Inr n, w_db w')" "w_clock w \<le> w_clock w2"
      by (rule run_query_ok)
    with Block_ok n True that show thesis by blast
  next
    case False
    with q n have "run_query (SetUserStatus uid st) w = (Inr n, w')" by simp
    then obtain w2 where "SetUserStatus uid st w2 (w_db w) = (Inr n, w_db w')" "w_clock w \<le> w_clock w2"
      by (rule run_query_ok)
    with SetUserStatus_ok n False that show thesis by blast
  qed
qed

definition status_entry :: "json_codec \<Rightarrow> int \<Rightarrow> int \<Rightarrow> string \<Rightarrow> ip_addr option \<Rightarrow> AdminAuditLogEntry" where
  "status_entry J actor target status ip =
     \<lparr>ae_ActorUserID = actor, ae_Action = ''user.status.changed'', ae_TargetType = ''user'',
      ae_TargetID = FormatInt target, ae_Details = json_obj J [(''status'', status)], ae_ActorIP = ip\<rparr>"

lemma SetStatusWithAudit_ok:
  assumes "SetStatusWithAudit J actor target st ip w = (Inr x, w')"
  obtains t t' where
    "w_db w' = with_audit (status_entry J actor target st ip) t' (set_status_db target st t (w_db w))"
    "0 < target" "0 < actor" "has_user (w_db w) target" "st = ''active'' \<or> st = ''blocked''"
    "w_clock w \<le> t"
proof -
  let ?body = "\<lambda>w1. case SetStatus target st w1 of (Inl e, w2) \<Rightarrow> (Inl e, w2)
     | (Inr _, w2) \<Rightarrow> Audit_Insert (json_valid J) (status_entry J actor target st ip) w2"
  from assms have a: "0 < target" "0 < actor" "st = ''active'' \<or> st = ''blocked''"
    by (auto simp: SetStatusWithAudit_def split: if_splits)
  have "SetStatusWithAudit J actor target st ip w =
      in_tx (Wrapf ''begin admin user transaction'') (Wrapf ''commit admin user transaction'') ?body w"
    using a unfolding SetStatusWithAudit_def status_entry_def by (subst if_not_P) (auto simp: not_le)
  with assms have "in_tx (Wrapf ''begin admin user transaction'') (Wrapf ''commit admin user transaction'') ?body w = (Inr x, w')"
    by simp
  then obtain w1 w2 where w: "w_db w1 = w_db w" "?body w1 = (Inr x, w2)" "w_db w' = w_db w2" "w_clock w \<le> w_clock w1"
    by (rule in_tx_ok)
  obtain s w3 where s: "SetStatus target st w1 = (s, w3)" by fastforce
  with w(2) obtain u where "s = Inr u" and i: "Audit_Insert (json_valid J) (status_entry J actor target st ip) w3 = (Inr x, w2)"
    by (cases s) auto
  with s have s: "SetStatus target st w1 = (Inr u, w3)" by simp
  from SetStatus_ok [OF s] obtain t where t: "w_db w3 = set_status_db target st t (w_db w1)" "has_user (w_db w1) target"
    "w_clock w1 \<le> t" .
  from Audit_Insert_ok [OF i] obtain t' where "w_db w2 = with_audit (status_entry J actor target st ip) t' (w_db w3)" .
  then show thesis by (intro that [of t' t]) (use t w a in auto)
qed

text \<open>
  C32. Changing the status of a user from the admin API is atomic and audited. On success the status of
  the target is the new one, every other user is untouched, blocking also deletes all the sessions of
  the target and nobody else's, and exactly one audit record, naming actor, target and new status, was
  appended; on any error (validation, unknown target, unknown actor, a lost connection at any of the
  round trips, a failing commit) the database is as before.
\<close>

theorem status_change_atomic_and_audited:
  "case SetStatusWithAudit J actor target st ip w of
     (Inl e, w') \<Rightarrow> w_db w' = w_db w
   | (Inr _, w') \<Rightarrow>
       \<exists>t t'. w_db w' = (w_db w)\<lparr>
           users := update_where (\<lambda>u. u_id u = target) (\<lambda>u. u\<lparr>u_status := st, u_updated_at := t\<rparr>) (users (w_db w)),
           sessions := delete_where (\<lambda>s. st = ''blocked'' \<and> s_user_id s = target) (sessions (w_db w)),
           admin_audit_log := admin_audit_log (w_db w) @ [audit_of (status_entry J actor target st ip) t' (audit_seq (w_db w) + 1)],
           audit_seq := audit_seq (w_db w) + 1\<rparr> \<and> has_user (w_db w) target"
proof -
  obtain x w' where eq: "SetStatusWithAudit J actor target st ip w = (x, w')" by fastforce
  show ?thesis
  proof (cases x)
    case (Inl e)
    with eq have "w_db w' = w_db w" by (auto simp: SetStatusWithAudit_def split: if_splits dest: in_tx_error)
    with eq Inl show ?thesis by simp
  next
    case (Inr u)
    with eq have ok: "SetStatusWithAudit J actor target st ip w = (Inr u, w')" by simp
    show ?thesis unfolding ok prod.case sum.case
      by (rule SetStatusWithAudit_ok [OF ok])
        (auto simp: with_audit_def set_status_db_def Let_def delete_where_def)
  qed
qed

section \<open>Provisioning\<close>

lemma upsert_user_ok:
  assumes "upsert_user source nm em ro w d = (Inr row, d')"
  shows "row \<in> set (users d') \<and> u_username row = nm \<and> u_role row = ro \<and> u_email row = em"
    and "namespace_ok source nm"
  using assms by (auto simp: upsert_user_def Let_def set_update_where split: if_splits option.splits
      dest!: find_Some_set intro: rev_image_eqI)

lemma upsert_user_others:
  assumes "wf_db d" and "upsert_user source nm em ro w d = (Inr row, d')" and "u \<in> set (users d)"
  shows "\<exists>u' \<in> set (users d'). u_id u' = u_id u \<and> u_username u' = u_username u \<and> u_status u' = u_status u \<and>
    u_identity_source u' = u_identity_source u \<and> u_created_at u' = u_created_at u \<and>
    (u_username u = nm \<or> u' = u)"
proof (cases "u_username u = nm")
  case False
  with assms(2,3) show ?thesis
    by (auto simp: upsert_user_def Let_def set_update_where split: if_splits option.splits intro!: bexI [of _ u] rev_image_eqI [of u])
next
  case True
  have "find (\<lambda>u. u_username u = nm) (users d) = Some u"
    using wf_db_users [OF assms(1)] assms(3) True
    by (intro find_unique_key [of u_username]) (auto simp: wf_users_def)
  with assms(2) True have d': "users d' = update_where (\<lambda>r. u_username r = nm)
      (\<lambda>_. u\<lparr>u_email := em, u_role := ro, u_updated_at := w_clock w\<rparr>) (users d)"
    by (auto simp: upsert_user_def Let_def split: if_splits)
  have "u\<lparr>u_email := em, u_role := ro, u_updated_at := w_clock w\<rparr> \<in> set (users d')"
    unfolding d' set_update_where using assms(3) True by (intro rev_image_eqI [of u]) auto
  with True show ?thesis by (intro bexI) auto
qed

lemma UpsertFromLDAP_ok:
  assumes "UpsertFromLDAP p w = (Inr usr, w')"
  obtains row w1 where "usr = userFromValues row"
    "upsert_user ''ldap'' (up_Username p) (nullableText (up_Email p)) (up_Role p) w1 (w_db w) = (Inr row, w_db w')"
proof -
  let ?q = "UpsertUserFromLDAP (up_Username p) (nullableText (up_Email p)) (up_Role p)"
  from assms obtain row where "run_query ?q w = (Inr row, w')" "usr = userFromValues row"
    by (auto simp: UpsertFromLDAP_def split: if_splits sum.splits prod.splits)
  then show thesis by (elim run_query_ok) (auto simp: UpsertUserFromLDAP_def intro: that)
qed

text \<open>
  Provisioning a user at LDAP login never changes who is allowed in: the user returned has the
  requested name, role and e-mail and belongs to the LDAP source; every user that existed before still
  exists with the same id, name, status (so a blocked user stays blocked), source and creation time; users
  with another name are untouched, in particular no static account is touched.
\<close>

theorem ldap_provisioning_keeps_status:
  assumes "wf_db (w_db w)" and "UpsertFromLDAP p w = (Inr usr, w')"
  shows "User_Username usr = up_Username p \<and> User_Role usr = up_Role p \<and> User_Email usr = up_Email p \<and>
     User_IdentitySource usr = ''ldap'' \<and> wf_db (w_db w') \<and>
     (\<forall>u \<in> set (users (w_db w)). \<exists>u' \<in> set (users (w_db w')).
        u_id u' = u_id u \<and> u_username u' = u_username u \<and> u_status u' = u_status u \<and>
        u_identity_source u' = u_identity_source u \<and> u_created_at u' = u_created_at u \<and>
        (u_username u = up_Username p \<and> u_identity_source u = ''ldap'' \<or> u' = u))"
proof -
  from UpsertFromLDAP_ok [OF assms(2)] obtain row w1 where row: "usr = userFromValues row"
    and q: "upsert_user ''ldap'' (up_Username p) (nullableText (up_Email p)) (up_Role p) w1 (w_db w) = (Inr row, w_db w')" .
  note ok = upsert_user_ok [OF q]
  have wf: "wf_db (w_db w')" using upsert_user_wf [OF assms(1)] q by (metis snd_conv)
  have src: "u_identity_source u = ''ldap''" if "u \<in> set (users d)" "u_username u = up_Username p" "wf_db d" for u d
    using that ok(2) wf_db_users [OF that(3)] by (auto simp: wf_users_def namespace_ok_def)
  have "\<exists>u' \<in> set (users (w_db w')). u_id u' = u_id u \<and> u_username u' = u_username u \<and> u_status u' = u_status u \<and>
        u_identity_source u' = u_identity_source u \<and> u_created_at u' = u_created_at u \<and>
        (u_username u = up_Username p \<and> u_identity_source u = ''ldap'' \<or> u' = u)" if "u \<in> set (users (w_db w))" for u
    using upsert_user_others [OF assms(1) q that] src [OF that _ assms(1)] by blast
  with ok src [of row "w_db w'"] wf row show ?thesis by (simp add: userFromValues_def)
qed

definition sample_user :: "int \<Rightarrow> string \<Rightarrow> string \<Rightarrow> string \<Rightarrow> user_row" where
  "sample_user i name status source =
     \<lparr>u_id = i, u_username = name, u_email = None, u_role = ''user'', u_status = status, u_created_at = 0,
      u_updated_at = 0, u_identity_source = source\<rparr>"

definition two_user_db :: database where
  "two_user_db = empty_db\<lparr>users := [sample_user 1 ''ann'' ''blocked'' ''ldap'', sample_user 2 ''static:ann'' ''active'' ''static''],
     users_seq := 2\<rparr>"

lemma wf_two_user_db: "wf_db two_user_db"
  by (simp add: two_user_db_def empty_db_def wf_defs sample_user_def role_ok_def status_ok_def namespace_ok_def HasPrefix_def)

theorem ldap_provisioning_keeps_status_witness:
  "\<exists>usr w'. UpsertFromLDAP \<lparr>up_Username = ''ann'', up_Email = ''a@x'', up_Role = ''admin''\<rparr> (start_world two_user_db 5) = (Inr usr, w') \<and>
     User_IdentitySource usr = ''ldap'' \<and> (\<exists>u' \<in> set (users (w_db w')). u_id u' = 1 \<and> u_status u' = ''blocked'')"
proof -
  let ?p = "\<lparr>up_Username = ''ann'', up_Email = ''a@x'', up_Role = ''admin''\<rparr>"
  let ?w = "start_world two_user_db 5"
  have wf: "wf_db (w_db ?w)" by (simp add: start_world_def wf_two_user_db)
  have run: "\<exists>usr w'. UpsertFromLDAP ?p ?w = (Inr usr, w')"
    by (simp add: UpsertFromLDAP_def validUserParams_def HasPrefix_def run_query_def world_defs start_world_def
        UpsertUserFromLDAP_def upsert_user_def role_ok_def namespace_ok_def two_user_db_def empty_db_def sample_user_def Let_def)
  then obtain usr w' where r: "UpsertFromLDAP ?p ?w = (Inr usr, w')" by blast
  have "sample_user 1 ''ann'' ''blocked'' ''ldap'' \<in> set (users (w_db ?w))"
    by (simp add: start_world_def two_user_db_def)
  with ldap_provisioning_keeps_status [OF wf r] have "User_IdentitySource usr = ''ldap''"
    "\<exists>u' \<in> set (users (w_db w')). u_id u' = u_id (sample_user 1 ''ann'' ''blocked'' ''ldap'') \<and>
       u_status u' = u_status (sample_user 1 ''ann'' ''blocked'' ''ldap'')"
    by blast+
  then have "User_IdentitySource usr = ''ldap''" "\<exists>u' \<in> set (users (w_db w')). u_id u' = 1 \<and> u_status u' = ''blocked''"
    by (simp_all add: sample_user_def)
  with r show ?thesis by blast
qed

section \<open>Sessions\<close>

lemma run_query_no_fault:
  "w_faults w = [] \<Longrightarrow> run_query q w = (case q (advance w) (w_db w) of (r, d) \<Rightarrow> (r, (advance w)\<lparr>w_db := d\<rparr>))"
  by (simp add: run_query_def round_trip_def Let_def)

text \<open>
  A token is accepted for an identity source exactly when the database vouches for it at the instant
  of the query: there is a session stored under the hash of the token, not expired, whose user exists,
  is active and belongs to the source. Otherwise the answer is the one uniform error
  \<open>ErrInvalidCredential\<close>; expired, unknown, foreign and blocked look alike.
\<close>

theorem session_lookup_exact:
  assumes "wf_db (w_db w)" and "w_faults w = []" and "token \<noteq> []" and "validIdentitySource source"
  shows "(fst (GetByTokenForSource sha token source w) = Inr sess \<longleftrightarrow>
           session_valid_at sha (w_db w) (w_clock (advance w)) token source sess) \<and>
         ((\<forall>s. \<not> session_valid_at sha (w_db w) (w_clock (advance w)) token source s) \<longrightarrow>
           fst (GetByTokenForSource sha token source w) = Inl ErrInvalidCredential)"
proof -
  let ?v = "session_valid_at sha (w_db w) (w_clock (advance w)) token source"
  let ?f = "find (\<lambda>(s, u). s_token_hash s = sha token \<and> u_identity_source u = source \<and>
      w_clock (advance w) < s_expires_at s) (session_join (w_db w))"
  have val: "fst (GetByTokenForSource sha token source w) =
      (case ?f of None \<Rightarrow> Inl ErrInvalidCredential
       | Some (s, u) \<Rightarrow> if u_status u \<noteq> ''active'' then Inl ErrInvalidCredential else Inr (sessionFromDB s))"
    using assms(2-4)
    by (auto simp: GetByTokenForSource_def run_query_no_fault GetSessionByTokenHashForSource_def hashSessionToken_def
        split: option.splits prod.splits)
  have sound: "?v s" if "fst (GetByTokenForSource sha token source w) = Inr s" for s
    using that unfolding val
    by (auto 0 4 simp: session_valid_at_def session_join_set split: option.splits if_splits dest!: find_Some_set)
  have complete: "fst (GetByTokenForSource sha token source w) = Inr s" if v: "?v s" for s
    by (rule find_session_join [OF assms(1) v refl]) (simp add: val)
  have "fst (GetByTokenForSource sha token source w) = Inl ErrInvalidCredential" if "\<forall>s. \<not> ?v s"
    using that sound unfolding val by (auto split: option.splits if_splits prod.splits)
  with sound complete show ?thesis by blast
qed

definition one_session_db :: database where
  "one_session_db = two_user_db\<lparr>sessions := [\<lparr>s_id = 1, s_user_id = 2, s_token_hash = ''tok'', s_role = ''user'',
     s_expires_at = 100, s_created_ip = None, s_created_at = 0\<rparr>], sessions_seq := 1\<rparr>"

lemma wf_one_session_db: "wf_db one_session_db"
  unfolding one_session_db_def
  by (rule wf_db_sessions_change [OF wf_two_user_db])
    (simp_all add: wf_sessions_def two_user_db_def empty_db_def role_ok_def has_user_def sample_user_def)

theorem session_lookup_exact_witness:
  "fst (GetByTokenForSource id ''tok'' ''ldap'' (start_world one_session_db 5)) = Inl ErrInvalidCredential"
proof -
  have v: "\<not> session_valid_at id (w_db (start_world one_session_db 5)) (w_clock (advance (start_world one_session_db 5))) ''tok'' ''ldap'' s" for s
    by (simp add: session_valid_at_def start_world_def one_session_db_def two_user_db_def sample_user_def)
  have h: "wf_db (w_db (start_world one_session_db 5))" "w_faults (start_world one_session_db 5) = []"
    "''tok'' \<noteq> []" "validIdentitySource ''ldap''"
    by (simp_all add: start_world_def wf_one_session_db validIdentitySource_def)
  from session_lookup_exact [OF h, of id] v show ?thesis by blast
qed

lemma Sessions_Create_ok:
  assumes "Sessions_Create sha p w = (Inr sess, w')"
  obtains s where "sess = sessionFromDB s" "s_token_hash s = sha (cs_Token p)" "s_user_id s = cs_UserID p"
    "s_expires_at s = cs_ExpiresAt p" "s_role s = cs_Role p" "sessions (w_db w') = sessions (w_db w) @ [s]"
    "users (w_db w') = users (w_db w)" "cs_Token p \<noteq> []"
proof -
  let ?q = "CreateSession_q (cs_UserID p) (hashSessionToken sha (cs_Token p)) (cs_Role p) (cs_ExpiresAt p) (cs_CreatedIP p)"
  from assms obtain row where q: "run_query ?q w = (Inr row, w')" and r: "sess = sessionFromDB row" "cs_Token p \<noteq> []"
    by (auto simp: Sessions_Create_def split: if_splits sum.splits prod.splits)
  from run_query_ok [OF q] obtain w1 where e: "?q w1 (w_db w) = (Inr row, w_db w')" .
  then have d: "w_db w' = snd (?q w1 (w_db w))" by simp
  from e have "sessions (w_db w') = sessions (w_db w) @ [row]" "users (w_db w') = users (w_db w)" unfolding d
    by (auto simp: CreateSession_q_def Let_def split: if_splits)
  then show thesis
    by (intro that [of row]) (use r e in \<open>auto simp: CreateSession_q_def hashSessionToken_def Let_def split: if_splits\<close>)
qed

lemma DeleteByTokenForSource_ok:
  assumes "DeleteByTokenForSource sha token source w = (Inr u, w')"
  shows "users (w_db w') = users (w_db w)"
    and "sessions (w_db w') = delete_where (\<lambda>s. s_token_hash s = sha token \<and>
      (\<exists>u \<in> set (users (w_db w)). u_id u = s_user_id s \<and> u_identity_source u = source)) (sessions (w_db w))"
proof -
  let ?q = "DeleteSessionByTokenHashForSource (hashSessionToken sha token) source"
  from assms obtain n where q: "run_query ?q w = (Inr n, w')"
    by (auto simp: DeleteByTokenForSource_def split: if_splits sum.splits prod.splits)
  from run_query_ok [OF q] obtain w1 where e: "?q w1 (w_db w) = (Inr n, w_db w')" .
  then have d: "w_db w' = snd (?q w1 (w_db w))" by simp
  show "users (w_db w') = users (w_db w)" unfolding d by (simp add: DeleteSessionByTokenHashForSource_def Let_def)
  show "sessions (w_db w') = delete_where (\<lambda>s. s_token_hash s = sha token \<and>
      (\<exists>u \<in> set (users (w_db w)). u_id u = s_user_id s \<and> u_identity_source u = source)) (sessions (w_db w))"
    unfolding d by (simp add: DeleteSessionByTokenHashForSource_def hashSessionToken_def Let_def)
qed

text \<open>
  The life of a session: once created for an active user of the source it is the one the database
  vouches for until it expires, and after logout no session is valid for the token any more, at any time,
  while the sessions of other tokens are exactly as valid as before.
\<close>

theorem session_create_then_logout:
  assumes "Sessions_Create sha p w = (Inr sess, w1)"
    and "u \<in> set (users (w_db w))" "u_id u = cs_UserID p" "u_status u = ''active''" "u_identity_source u = source"
    and "t < cs_ExpiresAt p"
    and "DeleteByTokenForSource sha (cs_Token p) source w1 = (Inr (), w2)"
  shows "session_valid_at sha (w_db w1) t (cs_Token p) source sess \<and>
     (\<forall>t' s'. \<not> session_valid_at sha (w_db w2) t' (cs_Token p) source s') \<and>
     (\<forall>tok src t' s'. sha tok \<noteq> sha (cs_Token p) \<longrightarrow>
        session_valid_at sha (w_db w2) t' tok src s' = session_valid_at sha (w_db w) t' tok src s')"
proof -
  from Sessions_Create_ok [OF assms(1)] obtain s where s: "sess = sessionFromDB s" "s_token_hash s = sha (cs_Token p)"
    "s_user_id s = cs_UserID p" "s_expires_at s = cs_ExpiresAt p" "sessions (w_db w1) = sessions (w_db w) @ [s]"
    "users (w_db w1) = users (w_db w)" .
  note del = DeleteByTokenForSource_ok [OF assms(7)]
  have "session_valid_at sha (w_db w1) t (cs_Token p) source sess"
    using s assms(2-6) unfolding session_valid_at_def by auto
  moreover have "\<not> session_valid_at sha (w_db w2) t' (cs_Token p) source s'" for t' s'
    by (auto simp: session_valid_at_def del)
  moreover have "session_valid_at sha (w_db w2) t' tok src s' = session_valid_at sha (w_db w) t' tok src s'"
    if "sha tok \<noteq> sha (cs_Token p)" for tok src t' s'
    unfolding session_valid_at_def del s using that s(2) by (intro iffI; elim bexE conjE) (auto 0 4)
  ultimately show ?thesis by blast
qed

theorem session_create_then_logout_witness:
  "\<exists>sess w1 w2. Sessions_Create id \<lparr>cs_UserID = 2, cs_Token = ''new'', cs_Role = ''user'', cs_ExpiresAt = 50, cs_CreatedIP = None\<rparr>
      (start_world one_session_db 5) = (Inr sess, w1) \<and>
    DeleteByTokenForSource id ''new'' ''static'' w1 = (Inr (), w2) \<and>
    session_valid_at id (w_db w1) 40 ''new'' ''static'' sess \<and> \<not> session_valid_at id (w_db w2) 40 ''new'' ''static'' sess"
proof -
  let ?p = "\<lparr>cs_UserID = 2, cs_Token = ''new'', cs_Role = ''user'', cs_ExpiresAt = 50, cs_CreatedIP = None\<rparr>"
  let ?w = "start_world one_session_db 5"
  note defs = run_query_def world_defs start_world_def one_session_db_def two_user_db_def empty_db_def sample_user_def
    Let_def hashSessionToken_def
  obtain sess w1 where c: "Sessions_Create id ?p ?w = (Inr sess, w1)"
    by (simp add: Sessions_Create_def CreateSession_q_def role_ok_def has_user_def defs)
  have "DeleteByTokenForSource id ''new'' ''static'' (snd (Sessions_Create id ?p ?w)) =
      (Inr (), snd (DeleteByTokenForSource id ''new'' ''static'' (snd (Sessions_Create id ?p ?w))))"
    by (simp add: Sessions_Create_def CreateSession_q_def role_ok_def has_user_def defs validIdentitySource_def
        DeleteByTokenForSource_def DeleteSessionByTokenHashForSource_def count_where_def)
  with c obtain w2 where d: "DeleteByTokenForSource id ''new'' ''static'' w1 = (Inr (), w2)" by simp
  have u: "sample_user 2 ''static:ann'' ''active'' ''static'' \<in> set (users (w_db ?w))"
    by (simp add: start_world_def one_session_db_def two_user_db_def)
  from session_create_then_logout [OF c u, of "''static''" 40 w2] d c show ?thesis
    by (auto simp: sample_user_def)
qed

end
