(* ===== verification/Api_Keys_Theorems.thy ===== *)
theory Api_Keys_Theorems
  imports Api_Keys_Safety Users_Theorems
begin

text \<open>
  The safety theorems of API-key authentication, each an instance of \<open>replica_safety\<close>: a key revoked
  through a replica is dead there at once, a user blocked through a replica is out there at once, and
  elsewhere a revoked key dies within a bounded window. Then soundness and completeness of one call.
\<close>

section \<open>Facts no step undoes\<close>

definition key_revoked :: "int \<Rightarrow> database \<Rightarrow> bool" where
  "key_revoked kid d = (\<exists>k \<in> set (api_keys d). k_id k = kid \<and> k_status k = ''revoked'')"

lemma key_revoked_mono: "keys_mono d d' \<Longrightarrow> key_revoked kid d \<Longrightarrow> key_revoked kid d'"
  unfolding keys_mono_def key_revoked_def by metis

lemma key_revoked_not_listed:
  assumes "wf_db d" and "key_revoked kid d" and "listed d today pref source c"
  shows "cand_id c \<noteq> kid"
proof
  assume "cand_id c = kid"
  with assms(3) obtain k where k: "k \<in> set (api_keys d)" "k_id k = kid" "k_status k = ''active''"
    by (auto simp: listed_def key_usable_def candidate_of_row_def)
  from assms(2) obtain k' where "k' \<in> set (api_keys d)" "k_id k' = kid" "k_status k' = ''revoked''"
    by (auto simp: key_revoked_def)
  with k wf_keys_unique_id [OF wf_db_api_keys [OF assms(1)], of k k'] show False by auto
qed

text \<open>
  The rely condition for a blocked user: nobody makes the user active again. Only \<open>SetUserStatus\<close>
  with status \<open>active\<close> could; provisioning a user at login keeps the status.
\<close>

definition stays_blocked :: "int \<Rightarrow> database \<Rightarrow> database \<Rightarrow> bool" where
  "stays_blocked uid d d' = (\<not> user_active d uid \<longrightarrow> \<not> user_active d' uid)"

lemma upsert_stays_blocked:
  assumes "wf_db d" and "has_user d uid"
  shows "stays_blocked uid d (snd (upsert_user source nm em ro w d))"
proof -
  have new: "uid \<le> users_seq d" using assms by (auto simp: wf_defs)
  show ?thesis
  proof (cases "find (\<lambda>u. u_username u = nm) (users d)")
    case None
    with new show ?thesis by (auto simp: upsert_user_def stays_blocked_def user_active_def Let_def)
  next
    case (Some u)
    then have u: "u \<in> set (users d)" by (auto dest: find_Some_set)
    with Some show ?thesis
      by (force simp: upsert_user_def stays_blocked_def user_active_def Let_def set_update_where split: if_splits)
  qed
qed

lemma Revoke_success:
  assumes "Revoke u kid r w = (Inr (), r', w')"
  shows "key_revoked kid (w_db w')" and "caches_ok A B r'"
    and "ttl_life (verifiedCache r') = ttl_life (verifiedCache r)"
    and "\<exists>w1. w_db w' = snd (RevokeAPIKey kid u w1 (w_db w))"
proof -
  obtain res w1 where q: "run_query (RevokeAPIKey kid u) w = (res, w1)" by fastforce
  with assms obtain n where n: "res = Inr n" "n \<noteq> 0" "w' = w1"
    and r': "r' = r\<lparr>candidatesCache := TTL_Clear (candidatesCache r), verifiedCache := TTL_Clear (verifiedCache r)\<rparr>"
    by (auto simp: Revoke_def split: sum.splits if_splits)
  from q n obtain w0 where e: "RevokeAPIKey kid u w0 (w_db w) = (Inr n, w_db w')"
    by (auto elim!: run_query_cases)
  with n have "\<exists>k \<in> set (api_keys (w_db w)). k_id k = kid \<and> k_user_id k = u \<and> k_status k = ''active''"
    by (auto simp: RevokeAPIKey_def Let_def count_where_pos [symmetric])
  then obtain k where k: "k \<in> set (api_keys (w_db w))" "k_id k = kid" "k_user_id k = u" "k_status k = ''active''"
    by blast
  from e have keys: "api_keys (w_db w') =
      update_where (\<lambda>k. k_id k = kid \<and> k_user_id k = u \<and> k_status k = ''active'')
        (\<lambda>k. k\<lparr>k_status := ''revoked''\<rparr>) (api_keys (w_db w))"
    by (auto simp: RevokeAPIKey_def Let_def dest: arg_cong [where f = api_keys])
  have "k\<lparr>k_status := ''revoked''\<rparr> \<in> set (api_keys (w_db w'))"
    unfolding keys set_update_where using k by (intro rev_image_eqI [of k]) auto
  with k show "key_revoked kid (w_db w')" unfolding key_revoked_def by (intro bexI) auto
  from e show "\<exists>w1. w_db w' = snd (RevokeAPIKey kid u w1 (w_db w))" by (metis snd_conv)
  show "caches_ok A B r'" unfolding r' by (rule caches_ok_clear)
  show "ttl_life (verifiedCache r') = ttl_life (verifiedCache r)" unfolding r' by (simp add: ttlc.life_simps)
qed

interpretation rv: replica_safety keys_mono "int n" "1 + \<bar>l\<bar>" "key_revoked kid"
  "\<lambda>_ c. cand_id c \<noteq> kid" "\<lambda>_ p. pr_APIKeyID p \<noteq> kid" for n l kid
  by unfold_locales
    (auto simp: principal_of_def dest: key_revoked_not_listed
      intro: key_revoked_mono [OF key_statements_mono(1)] key_revoked_mono [OF key_statements_mono(2)]
        key_revoked_mono)

text \<open>
  Once \<open>Revoke\<close> has reported success on a replica, that replica never again authenticates the
  revoked key, whatever calls it makes afterwards, whatever was cached before, whatever the timing and
  the failures, as long as the other users of the database do not resurrect revoked keys (no statement
  of the program does). The calls of the replica follow one another here; \<open>Key_Interleaving\<close> treats calls that overlap.
\<close>

theorem revoked_key_never_authenticates:
  assumes "wf_db (w_db w)" and "Revoke u kid r w = (Inr (), r1, w1)"
    and "replica_steps C keys_mono (int n) (r1, w1) (r2, w2)"
    and "authenticate C pl source r2 w2 = (Inr p, r3, w3)"
  shows "pr_APIKeyID p \<noteq> kid"
proof -
  note s = Revoke_success [OF assms(2)]
  have "wf_db (w_db w1)" using s(4) RevokeAPIKey_wf [OF assms(1)] by auto
  with s have "rv.inv (ttl_life (verifiedCache r)) kid (r1, w1)" by (simp add: rv.inv_def)
  with rv.accepted_B [OF assms(3) _ assms(4)] show ?thesis by blast
qed


section \<open>A blocked user\<close>

lemma set_status_db_inactive: "\<not> user_active (set_status_db uid ''blocked'' t d) uid"
proof
  assume "user_active (set_status_db uid ''blocked'' t d) uid"
  then obtain u where u: "u \<in> set (update_where (\<lambda>u. u_id u = uid)
      (\<lambda>u. u\<lparr>u_status := ''blocked'', u_updated_at := t\<rparr>) (users d))" "u_id u = uid" "u_status u = ''active''"
    unfolding user_active_def set_status_db_def Let_def by auto
  from u(1) obtain u0 where "u = (if u_id u0 = uid then u0\<lparr>u_status := ''blocked'', u_updated_at := t\<rparr> else u0)"
    unfolding set_update_where by blast
  with u(2,3) show False by (cases "u_id u0 = uid") simp_all
qed

lemma block_effect:
  assumes "SetStatusWithAudit J actor uid ''blocked'' ip w = (Inr (), w')"
  shows "\<not> user_active (w_db w') uid" and "0 < uid"
proof -
  from SetStatusWithAudit_ok [OF assms] obtain t t' where
    "w_db w' = with_audit (status_entry J actor uid ''blocked'' ip) t' (set_status_db uid ''blocked'' t (w_db w))"
    and pos: "0 < uid" .
  then show "\<not> user_active (w_db w') uid"
    using set_status_db_inactive [of uid t "w_db w"] by (simp add: user_active_def)
  show "0 < uid" by (rule pos)
qed

lemma key_statements_stay_blocked:
  "users (snd (CreateAPIKey_q a b c e f g w d)) = users d" "users (snd (RevokeAPIKey i u w d)) = users d"
  by (simp_all add: CreateAPIKey_q_def RevokeAPIKey_def Let_def)

interpretation bl: replica_safety "stays_blocked uid" "int n" "1 + \<bar>l\<bar>" "\<lambda>d. \<not> user_active d uid"
  "\<lambda>_ _. True" "\<lambda>_ p. pr_UserID p \<noteq> uid" for n l uid
  by unfold_locales
    (auto simp: principal_of_def stays_blocked_def user_active_def key_statements_stay_blocked)

lemma caches_ok_after_invalidate_user:
  assumes "0 < uid"
  shows "caches_ok (\<lambda>_ _. True) (\<lambda>_ p. pr_UserID p \<noteq> uid) (Keys_InvalidateUser uid r)"
proof -
  have "ttlc.all_live (\<lambda>t _ cs. \<forall>c \<in> set cs. True) (candidatesCache r)" by (simp add: ttlc.all_live_def)
  with assms show ?thesis
    by (auto simp: caches_ok_def Keys_InvalidateUser_def intro!: ttlc.all_live_delw)
qed

lemma blocked_keys_refused:
  assumes "wf_db (w_db w1)" and "\<not> user_active (w_db w1) uid" and "0 < uid"
    and "replica_steps C (stays_blocked uid) (int n) (Keys_InvalidateUser uid r, w1) (r2, w2)"
    and "authenticate C pl source r2 w2 = (Inr p, r3, w3)"
  shows "pr_UserID p \<noteq> uid"
proof -
  from assms(1-3) caches_ok_after_invalidate_user [of uid r]
  have "bl.inv (ttl_life (verifiedCache r)) uid (Keys_InvalidateUser uid r, w1)"
    by (simp add: bl.inv_def Keys_InvalidateUser_def ttlc.life_simps)
  with bl.accepted_B [OF assms(4) _ assms(5)] show ?thesis by blast
qed

text \<open>
  Blocking a user takes effect at once on the replica that does it: after a successful
  \<open>SetStatusWithAudit(\<dots>, "blocked")\<close> and the \<open>InvalidateUser\<close> that follows it, no API key of
  the user authenticates there, whatever was cached, until somebody unblocks the user.
\<close>

theorem blocked_user_never_authenticates:
  assumes "wf_db (w_db w)" and "SetStatusWithAudit J actor uid ''blocked'' ip w = (Inr (), w1)"
    and "replica_steps C (stays_blocked uid) (int n) (Keys_InvalidateUser uid r, w1) (r2, w2)"
    and "authenticate C pl source r2 w2 = (Inr p, r3, w3)"
  shows "pr_UserID p \<noteq> uid"
  using blocked_keys_refused [OF SetStatusWithAudit_wf [OF assms(1,2)] block_effect [OF assms(2)] assms(3,4)] .

section \<open>The window on another replica\<close>

text \<open>Every cached entry was written in the past, so it dies within one time to live.\<close>

definition fresh :: "APIKeyRepository \<times> world \<Rightarrow> bool" where
  "fresh s = (case s of (r, w) \<Rightarrow>
     ttl_life (candidatesCache r) = apiKeyCacheTTL \<and> ttl_life (verifiedCache r) = apiKeyCacheTTL \<and>
     caches_ok (\<lambda>t _. t < w_clock w + apiKeyCacheTTL) (\<lambda>t _. t < w_clock w + apiKeyCacheTTL) r)"

lemma caches_ok_weaken:
  "caches_ok A B r \<Longrightarrow> (\<And>t c. A t c \<Longrightarrow> A' t c) \<Longrightarrow> (\<And>t p. B t p \<Longrightarrow> B' t p) \<Longrightarrow> caches_ok A' B' r"
  unfolding caches_ok_def by (auto elim!: ttlc.all_live_mono)

lemma caches_ok_later:
  "caches_ok (\<lambda>t _. t < a) (\<lambda>t _. t < a) r \<Longrightarrow> a \<le> b \<Longrightarrow> caches_ok (\<lambda>t _. t < b) (\<lambda>t _. t < b) r"
  for a b :: int
  by (erule caches_ok_weaken) auto

lemma candidates_life_step:
  assumes "replica_step C R \<delta> (r, w) (r', w')"
  shows "ttl_life (candidatesCache r') = ttl_life (candidatesCache r)" and "w_clock w \<le> w_clock w'"
  using assms
proof (atomize (full), cases rule: replica_step.cases)
  case (step_create p x)
  then show "ttl_life (candidatesCache r') = ttl_life (candidatesCache r) \<and> w_clock w \<le> w_clock w'"
    using Keys_Create_cases [OF step_create] by (auto simp: invalidateCandidates_def Let_def ttlc.life_simps)
next
  case (step_authenticate pl source x)
  then show "ttl_life (candidatesCache r') = ttl_life (candidatesCache r) \<and> w_clock w \<le> w_clock w'"
    by (auto dest: authenticate_life authenticate_frame)
next
  case step_invalidate_user
  then show "ttl_life (candidatesCache r') = ttl_life (candidatesCache r) \<and> w_clock w \<le> w_clock w'"
    by (auto simp: Keys_InvalidateUser_def)
next
  case (step_revoke u k x)
  then show "ttl_life (candidatesCache r') = ttl_life (candidatesCache r) \<and> w_clock w \<le> w_clock w'"
    using Revoke_cases [OF step_revoke] by (auto simp: ttlc.life_simps)
qed simp

lemma fresh_step:
  assumes "replica_step C R \<delta> (r, w) (r', w')" and "fresh (r, w)"
  shows "fresh (r', w')"
proof -
  note life = replica_step_life [OF assms(1)] candidates_life_step [OF assms(1)]
  from assms(2) have old: "caches_ok (\<lambda>t _. t < w_clock w' + apiKeyCacheTTL) (\<lambda>t _. t < w_clock w' + apiKeyCacheTTL) r"
    using life(3) by (auto simp: fresh_def intro: caches_ok_later)
  from assms(1) have "caches_ok (\<lambda>t _. t < w_clock w' + apiKeyCacheTTL) (\<lambda>t _. t < w_clock w' + apiKeyCacheTTL) r'"
  proof (cases rule: replica_step.cases)
    case (step_create p x)
    with Keys_Create_cases [OF step_create] old show ?thesis by (auto intro: caches_ok_intros)
  next
    case (step_authenticate pl source x)
    with old assms(2) show ?thesis unfolding caches_ok_def fresh_def
      by (intro authenticate_keeps [OF step_authenticate(1)]) auto
  next
    case step_invalidate_user
    with old show ?thesis by (auto intro: caches_ok_intros)
  next
    case (step_revoke u k x)
    with Revoke_cases(3) [OF step_revoke] old show ?thesis by (auto intro: caches_ok_intros)
  qed (use old in simp)
  with assms(2) life show ?thesis by (simp add: fresh_def)
qed

lemma fresh_steps: "replica_steps C R \<delta> s s' \<Longrightarrow> fresh s \<Longrightarrow> fresh s'"
proof (induction rule: rtranclp_induct)
  case (step s1 s2)
  then show ?case by (cases s1; cases s2) (auto intro: fresh_step)
qed

lemma fresh_new: "fresh (NewAPIKeyRepository, w)"
  by (simp add: fresh_def caches_ok_new) (simp add: NewAPIKeyRepository_def ttl_life_def NewTTL_def)

interpretation win: replica_safety keys_mono "int n" apiKeyCacheTTL "key_revoked kid"
  "\<lambda>t c. cand_id c = kid \<longrightarrow> t < T + apiKeyCacheTTL"
  "\<lambda>t p. pr_APIKeyID p = kid \<longrightarrow> t < T + 2 * apiKeyCacheTTL + int n" for n kid T
  by unfold_locales
    (auto simp: principal_of_def apiKeyCacheTTL_def dest: key_revoked_not_listed
      intro: key_revoked_mono [OF key_statements_mono(1)] key_revoked_mono [OF key_statements_mono(2)]
        key_revoked_mono)

text \<open>
  A key revoked through another replica is refused here after a bounded time. Let a replica have
  been running since its start, let the key be revoked in the database at instant \<open>T\<close>, and let no
  authentication call of the replica take longer than \<open>\<delta>\<close>. Whatever the replica does from then
  on, it accepts the revoked key only before \<open>T + 2\<cdot>TTL + \<delta>\<close>: one time to live of the candidate
  cache, one call, one time to live of the verified cache.
\<close>

theorem revocation_reaches_other_replicas:
  assumes "replica_steps C R (int n) (NewAPIKeyRepository, w0) (r, w)"
    and "wf_db (w_db w)" and "key_revoked kid (w_db w)"
    and "replica_steps C keys_mono (int n) (r, w) (r2, w2)"
    and "authenticate C pl source r2 w2 = (Inr p, r3, w3)" and "pr_APIKeyID p = kid"
  shows "w_clock w2 < w_clock w + 2 * apiKeyCacheTTL + int n"
proof -
  have "fresh (r, w)" using fresh_steps [OF assms(1) fresh_new] .
  then have "caches_ok (\<lambda>t c. cand_id c = kid \<longrightarrow> t < w_clock w + apiKeyCacheTTL)
      (\<lambda>t p. pr_APIKeyID p = kid \<longrightarrow> t < w_clock w + 2 * apiKeyCacheTTL + int n) r"
    by (auto simp: fresh_def apiKeyCacheTTL_def second_def elim!: caches_ok_weaken)
  with assms(2,3) \<open>fresh (r, w)\<close> have "win.inv kid (w_clock w) n (r, w)"
    by (simp add: win.inv_def fresh_def)
  with win.accepted_B [OF assms(4) _ assms(5)] assms(6) show ?thesis by force
qed

section \<open>A concrete deployment\<close>

text \<open>
  A database with one active LDAP user and two keys, and a transparent instance of the cryptography
  (digests are the strings themselves), on which the theorems are exercised.
\<close>

definition plain_crypto :: crypto where
  "plain_crypto = \<lparr>sha256 = (\<lambda>s. s), bcrypt_generate = (\<lambda>salt s. Inr s), bcrypt_compare = (\<lambda>h s. h = s)\<rparr>"

definition sample_key :: "int \<Rightarrow> string \<Rightarrow> api_key_row" where
  "sample_key i secret =
     \<lparr>k_id = i, k_user_id = 1, k_key_hash = secret, k_key_prefix = take APIKeyPrefixLength secret, k_name = None,
      k_status = ''active'', k_expires_at = None, k_scope = None, k_last_used_at = None, k_created_at = 0\<rparr>"

definition key_db :: database where
  "key_db = empty_db\<lparr>users := [sample_user 1 ''ann'' ''active'' ''ldap''], users_seq := 1,
     api_keys := [sample_key 1 ''sk-aaaaa-one'', sample_key 2 ''sk-bbbbb-two''], api_keys_seq := 2\<rparr>"

lemma wf_key_db: "wf_db key_db"
  by (simp add: key_db_def empty_db_def wf_defs sample_user_def sample_key_def role_ok_def status_ok_def
      namespace_ok_def HasPrefix_def)

definition two_active_db :: database where
  "two_active_db = key_db\<lparr>users := [sample_user 1 ''ann'' ''active'' ''ldap'', sample_user 2 ''bob'' ''active'' ''ldap''],
     users_seq := 2\<rparr>"

lemma wf_two_active_db: "wf_db two_active_db"
  by (simp add: two_active_db_def key_db_def empty_db_def wf_defs sample_user_def sample_key_def role_ok_def status_ok_def
      namespace_ok_def HasPrefix_def)

lemmas key_run_defs = authenticate_def findCandidates_def time_Now_def Let_def NewAPIKeyRepository_def ttl_defs
  apiKeyCacheTTL_def second_def run_query_def round_trip_def advance_def
  FindAPIKeyCandidatesForSource_def FindAPIKeyCandidates_def key_join_def key_usable_def candidate_of_row_def
  VerifySecret_def userIsActive_def GetUserByID_def current_date_def

lemmas key_db_defs = plain_crypto_def key_db_def empty_db_def sample_user_def sample_key_def
  APIKeyPrefixLength_def start_world_def

theorem revoked_key_never_authenticates_witness:
  "\<exists>r1 w1 p r3 w3. Revoke 1 1 NewAPIKeyRepository (start_world key_db 0) = (Inr (), r1, w1) \<and>
     authenticate plain_crypto ''sk-bbbbb-two'' ''ldap'' r1 w1 = (Inr p, r3, w3) \<and> pr_APIKeyID p \<noteq> 1"
proof -
  let ?w = "start_world key_db 0"
  have wf: "wf_db (w_db ?w)" by (simp add: start_world_def wf_key_db)
  obtain r1 w1 where r: "Revoke 1 1 NewAPIKeyRepository ?w = (Inr (), r1, w1)"
    by (simp add: Revoke_def RevokeAPIKey_def count_where_def key_run_defs key_db_defs)
  have "\<exists>p r3 w3. authenticate plain_crypto ''sk-bbbbb-two'' ''ldap''
      (fst (snd (Revoke 1 1 NewAPIKeyRepository ?w))) (snd (snd (Revoke 1 1 NewAPIKeyRepository ?w))) = (Inr p, r3, w3)"
    by (simp add: Revoke_def RevokeAPIKey_def count_where_def update_where_def key_run_defs key_db_defs)
  with r obtain p r3 w3 where a: "authenticate plain_crypto ''sk-bbbbb-two'' ''ldap'' r1 w1 = (Inr p, r3, w3)" by auto
  from revoked_key_never_authenticates [OF wf r rtranclp.rtrancl_refl a] r a show ?thesis by blast
qed

theorem blocked_user_never_authenticates_witness:
  "\<exists>w1. SetStatusWithAudit \<lparr>json_valid = (\<lambda>_. True), json_obj = (\<lambda>_. ''{}'')\<rparr> 1 2 ''blocked'' None (start_world two_active_db 0) = (Inr (), w1) \<and>
     (\<exists>p r3 w3. authenticate plain_crypto ''sk-aaaaa-one'' ''ldap'' (Keys_InvalidateUser 2 NewAPIKeyRepository) w1 = (Inr p, r3, w3) \<and>
        pr_UserID p \<noteq> 2)"
proof -
  let ?J = "\<lparr>json_valid = (\<lambda>_. True), json_obj = (\<lambda>_. ''{}'')\<rparr>"
  let ?w = "start_world two_active_db 0"
  have wf: "wf_db (w_db ?w)" by (simp add: start_world_def wf_two_active_db)
  let ?s = "SetStatusWithAudit ?J 1 2 ''blocked'' None ?w"
  note defs = SetStatusWithAudit_def in_tx_def SetStatus_def BlockUserAndDeleteSessions_def Audit_Insert_def
    InsertAdminAuditLog_def two_active_db_def FormatInt_def has_user_def update_where_def key_run_defs key_db_defs
  obtain w1 where s: "?s = (Inr (), w1)"
    by (simp add: defs)
  have "\<exists>p r3 w3. authenticate plain_crypto ''sk-aaaaa-one'' ''ldap'' (Keys_InvalidateUser 2 NewAPIKeyRepository) (snd ?s) = (Inr p, r3, w3)"
    by (simp add: defs Keys_InvalidateUser_def)
  with s obtain p r3 w3 where a:
    "authenticate plain_crypto ''sk-aaaaa-one'' ''ldap'' (Keys_InvalidateUser 2 NewAPIKeyRepository) w1 = (Inr p, r3, w3)" by auto
  from blocked_user_never_authenticates [OF wf s rtranclp.rtrancl_refl a] s a show ?thesis by blast
qed

section \<open>The window is longer than one time to live\<close>

text \<open>
  A request with a wrong secret but the right prefix fills the candidate cache; the key is revoked; a
  request with the right secret within the life of the candidates is accepted and enters the verified
  cache for another whole time to live.
\<close>

definition late_candidates :: "(apiKeyCacheKey, apiKeyCandidate list) TTL" where
  "late_candidates = Some \<lparr>c_ttl = 10000000000,
     c_entries = (\<lambda>_. None)(\<lparr>cc_prefix = ''sk-aaaaa'', cc_identitySource = ''ldap''\<rparr> \<mapsto>
       \<lparr>te_value = [\<lparr>cand_id = 1, cand_userID = 1, cand_keyHash = ''sk-aaaaa-one''\<rparr>], te_expiresAt = 10000000000\<rparr>),
     c_hits = 0, c_misses = 1\<rparr>"

definition late_repo :: APIKeyRepository where
  "late_repo = \<lparr>candidatesCache = late_candidates,
     verifiedCache = Some \<lparr>c_ttl = 10000000000, c_entries = (\<lambda>_. None), c_hits = 0, c_misses = 1\<rparr>\<rparr>"

definition late_db :: database where
  "late_db = snd (RevokeAPIKey 1 1 (start_world key_db 0) key_db)"

definition late_world :: "instant \<Rightarrow> world" where
  "late_world t = start_world late_db t"

lemma late_first:
  "authenticate plain_crypto ''sk-aaaaa-guess'' ''ldap'' NewAPIKeyRepository (start_world key_db 0) =
     (Inl ErrInvalidCredential, late_repo, start_world key_db 0)"
  by (simp add: late_repo_def late_candidates_def key_run_defs key_db_defs)

lemma late_second:
  "\<exists>r2. authenticate plain_crypto ''sk-aaaaa-one'' ''ldap'' late_repo (late_world (9 * second)) =
     (Inr \<lparr>pr_UserID = 1, pr_APIKeyID = 1\<rparr>, r2, late_world (9 * second)) \<and>
     fst (authenticate plain_crypto ''sk-aaaaa-one'' ''ldap'' r2 (late_world (18 * second))) = Inr \<lparr>pr_UserID = 1, pr_APIKeyID = 1\<rparr>"
  by (simp add: late_repo_def late_candidates_def late_world_def late_db_def RevokeAPIKey_def update_where_def key_run_defs key_db_defs)

lemma late_world_facts:
  "w_clock (late_world t) = t" "w_tz (late_world t) = 0" "w_db (late_world t) = late_db"
  by (simp_all add: late_world_def start_world_def)

lemma late_db_facts: "wf_db late_db" "key_revoked 1 late_db" "keys_mono key_db late_db"
proof -
  show "wf_db late_db" by (simp add: late_db_def RevokeAPIKey_wf wf_key_db)
  show "keys_mono key_db late_db" by (simp add: late_db_def key_statements_mono)
  show "key_revoked 1 late_db"
    by (simp add: late_db_def key_revoked_def RevokeAPIKey_def Let_def update_where_def key_db_def sample_key_def)
qed

lemma late_environment:
  "t \<le> t' \<Longrightarrow> replica_step C keys_mono \<delta> (r, late_world t) (r, late_world t')"
  by (intro step_environment) (simp_all add: late_world_facts late_db_facts)

lemma late_run:
  "\<exists>r2 p r3 w3.
     replica_steps plain_crypto keys_mono (int 0) (NewAPIKeyRepository, start_world key_db 0) (late_repo, late_world second) \<and>
     replica_steps plain_crypto keys_mono (int 0) (late_repo, late_world second) (r2, late_world (18 * second)) \<and>
     authenticate plain_crypto ''sk-aaaaa-one'' ''ldap'' r2 (late_world (18 * second)) = (Inr p, r3, w3) \<and> pr_APIKeyID p = 1"
proof -
  let ?S = "replica_step plain_crypto keys_mono (int 0)"
  have 1: "?S (NewAPIKeyRepository, start_world key_db 0) (late_repo, start_world key_db 0)"
    by (rule step_authenticate [OF late_first]) simp
  have 2: "?S (late_repo, start_world key_db 0) (late_repo, late_world second)"
    by (rule step_environment) (simp_all add: start_world_def late_world_facts late_db_facts less_imp_le)
  from late_second obtain r2 where r2: "authenticate plain_crypto ''sk-aaaaa-one'' ''ldap'' late_repo (late_world (9 * second)) =
     (Inr \<lparr>pr_UserID = 1, pr_APIKeyID = 1\<rparr>, r2, late_world (9 * second))"
    "fst (authenticate plain_crypto ''sk-aaaaa-one'' ''ldap'' r2 (late_world (18 * second))) = Inr \<lparr>pr_UserID = 1, pr_APIKeyID = 1\<rparr>"
    by blast
  have 3: "?S (late_repo, late_world second) (late_repo, late_world (9 * second))"
    by (rule late_environment) (simp add: second_def)
  have 4: "?S (late_repo, late_world (9 * second)) (r2, late_world (9 * second))"
    by (rule step_authenticate [OF r2(1)]) simp
  have 5: "?S (r2, late_world (9 * second)) (r2, late_world (18 * second))"
    by (rule late_environment) (simp add: second_def)
  obtain x r3 w3 where a: "authenticate plain_crypto ''sk-aaaaa-one'' ''ldap'' r2 (late_world (18 * second)) = (x, r3, w3)"
    by (metis prod_cases3)
  with r2(2) have "x = Inr \<lparr>pr_UserID = 1, pr_APIKeyID = 1\<rparr>" by simp
  with a 1 2 3 4 5 show ?thesis
    by (intro exI [of _ r2] exI [of _ "\<lparr>pr_UserID = 1, pr_APIKeyID = 1\<rparr>"] exI [of _ r3] exI [of _ w3])
      (auto intro: rtranclp.rtrancl_into_rtrancl)
qed

theorem revocation_reaches_other_replicas_witness:
  "\<exists>r2 w2. replica_steps plain_crypto keys_mono (int 0) (late_repo, late_world second) (r2, w2) \<and>
     (\<exists>p r3 w3. authenticate plain_crypto ''sk-aaaaa-one'' ''ldap'' r2 w2 = (Inr p, r3, w3) \<and> pr_APIKeyID p = 1) \<and>
     w_clock w2 < second + 2 * apiKeyCacheTTL + int 0"
proof -
  from late_run obtain r2 p r3 w3 where
    run: "replica_steps plain_crypto keys_mono (int 0) (NewAPIKeyRepository, start_world key_db 0) (late_repo, late_world second)"
      "replica_steps plain_crypto keys_mono (int 0) (late_repo, late_world second) (r2, late_world (18 * second))"
      "authenticate plain_crypto ''sk-aaaaa-one'' ''ldap'' r2 (late_world (18 * second)) = (Inr p, r3, w3)" "pr_APIKeyID p = 1"
    by blast
  have "w_clock (late_world (18 * second)) < w_clock (late_world second) + 2 * apiKeyCacheTTL + int 0"
    by (rule revocation_reaches_other_replicas [OF run(1) _ _ run(2,3,4)]) (simp_all add: late_world_facts late_db_facts)
  with run(2,3,4) show ?thesis
    by (intro exI [of _ r2] exI [of _ "late_world (18 * second)"]) (auto simp: late_world_facts)
qed

text \<open>
  The bound of twice the time to live is really used: there is a run of a replica in which a key,
  revoked elsewhere, is still accepted 17 seconds after the revocation although the time to live of both
  caches is 10 seconds.
\<close>

theorem revoked_key_accepted_after_ttl:
  "\<exists>r w r2 w2 p r3 w3.
     replica_steps plain_crypto keys_mono (int 0) (NewAPIKeyRepository, start_world key_db 0) (r, w) \<and>
     wf_db (w_db w) \<and> key_revoked 1 (w_db w) \<and>
     replica_steps plain_crypto keys_mono (int 0) (r, w) (r2, w2) \<and>
     authenticate plain_crypto ''sk-aaaaa-one'' ''ldap'' r2 w2 = (Inr p, r3, w3) \<and> pr_APIKeyID p = 1 \<and>
     w_clock w2 = w_clock w + apiKeyCacheTTL + 7 * second"
proof -
  have "w_clock (late_world (18 * second)) = w_clock (late_world second) + apiKeyCacheTTL + 7 * second"
    by (simp add: late_world_facts apiKeyCacheTTL_def)
  moreover have "wf_db (w_db (late_world second))" "key_revoked 1 (w_db (late_world second))"
    by (simp_all add: late_world_facts late_db_facts)
  moreover note late_run
  ultimately show ?thesis by blast
qed

section \<open>One call\<close>

text \<open>
  Soundness without the caches: what a freshly started repository accepts for an identity source is
  a key of the database that is active, not past its expiry day at some instant of the call, stored
  under the prefix of the presented secret, with a bcrypt hash that verifies the secret, and owned by a
  user of that source who is active. The principal carries exactly that key and that user, and the
  call leaves the database as it was.
\<close>

theorem authenticate_sound:
  assumes "wf_db (w_db w)" and "AuthenticateForSource C pl source NewAPIKeyRepository w = (Inr p, r', w')"
  shows "\<exists>k u t. k \<in> set (api_keys (w_db w)) \<and> u \<in> set (users (w_db w)) \<and> w_clock w \<le> t \<and> t \<le> w_clock w' \<and>
     p = \<lparr>pr_UserID = u_id u, pr_APIKeyID = k_id k\<rparr> \<and> k_user_id k = u_id u \<and>
     k_key_prefix k = take APIKeyPrefixLength pl \<and> key_usable (day_of w t) k \<and>
     VerifySecret C (k_key_hash k) pl \<and> u_status u = ''active'' \<and> u_identity_source u = source \<and>
     w_db w' = w_db w"
proof -
  from assms(2) have a: "authenticate C pl source NewAPIKeyRepository w = (Inr p, r', w')" and src: "source \<noteq> []"
    by (auto simp: AuthenticateForSource_def validIdentitySource_def split: if_splits)
  have none: "ttl_live (verifiedCache NewAPIKeyRepository) t vk = None" "ttl_live (candidatesCache NewAPIKeyRepository) t ck = None"
    for t vk ck by (simp_all add: NewAPIKeyRepository_def NewTTL_def ttl_live_def)
  from authenticate_accepts [OF a] obtain c t where c: "p = principal_of c" "VerifySecret C (cand_keyHash c) pl"
    "user_active (w_db w) (cand_userID c)" "w_clock w \<le> t" "t \<le> w_clock w'"
    "listed (w_db w) (day_of w t) (take APIKeyPrefixLength pl) source c"
    by (auto simp: none cand_source_def)
  from c(6) src obtain k u where k: "k \<in> set (api_keys (w_db w))" "u \<in> set (users (w_db w))" "u_id u = k_user_id k"
    "k_key_prefix k = take APIKeyPrefixLength pl" "u_identity_source u = source" "key_usable (day_of w t) k"
    "c = candidate_of_row k"
    by (auto simp: listed_def)
  from c(3) k obtain u' where u': "u' \<in> set (users (w_db w))" "u_id u' = u_id u" "u_status u' = ''active''"
    by (auto simp: user_active_def candidate_of_row_def)
  with wf_users_unique_id [OF wf_db_users [OF assms(1)] u'(1) k(2)] have "u_status u = ''active''" by simp
  with c k authenticate_frame [OF a] show ?thesis
    by (intro exI [of _ k] exI [of _ u] exI [of _ t]) (simp add: principal_of_def candidate_of_row_def)
qed

theorem authenticate_sound_witness:
  "\<exists>p r' w'. AuthenticateForSource plain_crypto ''sk-aaaaa-one'' ''ldap'' NewAPIKeyRepository (start_world key_db 0) = (Inr p, r', w') \<and>
     (\<exists>k \<in> set (api_keys key_db). pr_APIKeyID p = k_id k \<and> VerifySecret plain_crypto (k_key_hash k) ''sk-aaaaa-one'')"
proof -
  have wf: "wf_db (w_db (start_world key_db 0))" by (simp add: start_world_def wf_key_db)
  obtain p r' w' where a:
    "AuthenticateForSource plain_crypto ''sk-aaaaa-one'' ''ldap'' NewAPIKeyRepository (start_world key_db 0) = (Inr p, r', w')"
    by (simp add: AuthenticateForSource_def validIdentitySource_def key_run_defs key_db_defs)
  from authenticate_sound [OF wf a] a show ?thesis by (force simp: start_world_def)
qed

lemma userIsActive_no_fault:
  assumes "w_faults w = []" and "wf_db (w_db w)"
  shows "userIsActive i w = (Inr (user_active (w_db w) i), advance w)"
proof (cases "find (\<lambda>u. u_id u = i) (users (w_db w))")
  case None
  then have "\<not> user_active (w_db w) i" by (auto simp: user_active_def find_None_set)
  with None assms(1) show ?thesis
    by (auto simp: userIsActive_def run_query_no_fault GetUserByID_def)
next
  case (Some u)
  then have "user_active (w_db w) i \<longleftrightarrow> u_status u = ''active''"
    using find_Some_set [OF Some] wf_users_unique_id [OF wf_db_users [OF assms(2)], of u]
    unfolding user_active_def by metis
  with Some assms(1) show ?thesis
    by (auto simp: userIsActive_def run_query_no_fault GetUserByID_def)
qed

lemma tryCandidates_complete:
  assumes "w_faults w = []" and "wf_db (w_db w)" and "c \<in> set cs" and "VerifySecret C (cand_keyHash c) pl"
    and "user_active (w_db w) (cand_userID c)"
  shows "is_ok (fst (tryCandidates C pl vk cs r w))"
  using assms
proof (induction cs arbitrary: w)
  case (Cons b cs)
  show ?case
  proof (cases "VerifySecret C (cand_keyHash b) pl")
    case False
    with Cons show ?thesis by auto
  next
    case True
    show ?thesis
    proof (cases "user_active (w_db w) (cand_userID b)")
      case yes: True
      with True Cons.prems show ?thesis by (simp add: userIsActive_no_fault time_Now_def Let_def)
    next
      case no: False
      with Cons.prems have "c \<in> set cs" by auto
      with no True Cons show ?thesis by (simp add: userIsActive_no_fault)
    qed
  qed
qed simp

lemma find_query_no_fault:
  assumes "w_faults w = []" and "k \<in> set (api_keys (w_db w))" and "u \<in> set (users (w_db w))" and "u_id u = k_user_id k"
    and "k_key_prefix k = pref" and "u_identity_source u = source" and "key_usable (current_date (advance w)) k"
  obtains rows where "run_query (FindAPIKeyCandidatesForSource pref source) w = (Inr rows, advance w)"
    "candidate_of_row k \<in> set (map (candidate_of_row \<circ> fst) rows)"
proof -
  let ?rows = "map (\<lambda>(k, u). (k, u_status u)) (filter (\<lambda>(k, u). k_key_prefix k = pref \<and> u_identity_source u = source \<and>
      key_usable (current_date (advance w)) k) (key_join (w_db w)))"
  have "run_query (FindAPIKeyCandidatesForSource pref source) w = (Inr ?rows, advance w)"
    using assms(1) by (simp add: run_query_no_fault FindAPIKeyCandidatesForSource_def)
  moreover have "(k, u) \<in> set (key_join (w_db w))" using assms by (simp add: key_join_set)
  with assms(5-7) have "(k, u_status u) \<in> set ?rows" by force
  then have "candidate_of_row k \<in> set (map (candidate_of_row \<circ> fst) ?rows)" by force
  ultimately show thesis by (rule that)
qed

lemma authenticate_complete:
  assumes "w_faults w = []" and "wf_db (w_db w)" and "source \<noteq> []"
    and miss: "ttl_live (candidatesCache r) (w_clock (advance (advance w)))
           \<lparr>cc_prefix = take APIKeyPrefixLength pl, cc_identitySource = source\<rparr> = None"
    and key: "k \<in> set (api_keys (w_db w))" "u \<in> set (users (w_db w))" "u_id u = k_user_id k"
      "k_key_prefix k = take APIKeyPrefixLength pl" "u_identity_source u = source" "u_status u = ''active''"
      "key_usable (current_date (advance (advance (advance w)))) k" "VerifySecret C (k_key_hash k) pl"
  shows "is_ok (fst (authenticate C pl source r w))"
proof -
  let ?ck = "\<lparr>cc_prefix = take APIKeyPrefixLength pl, cc_identitySource = source\<rparr>"
  let ?vk = "\<lparr>vk_digest = sha256 C pl, vk_identitySource = source\<rparr>"
  obtain hit vc where v: "TTL_Get (w_clock (advance w)) ?vk (verifiedCache r) = (hit, vc)" by fastforce
  obtain hit2 cc where c: "TTL_Get (w_clock (advance (advance w))) ?ck (candidatesCache r) = (hit2, cc)" by fastforce
  with ttlc.get_value [of "w_clock (advance (advance w))" ?ck "candidatesCache r"] miss have hit2: "hit2 = None" by simp
  obtain rows where q: "run_query (FindAPIKeyCandidatesForSource (take APIKeyPrefixLength pl) source) (advance (advance w)) =
      (Inr rows, advance (advance (advance w)))" "candidate_of_row k \<in> set (map (candidate_of_row \<circ> fst) rows)"
    using find_query_no_fault [of "advance (advance w)" k u "take APIKeyPrefixLength pl" source] assms(1) key by auto
  have act: "user_active (w_db w) (cand_userID (candidate_of_row k))"
    using key by (auto simp: user_active_def candidate_of_row_def)
  let ?r = "r\<lparr>verifiedCache := vc, candidatesCache := TTL_Set (w_clock (advance (advance (advance (advance w))))) ?ck
      (map (candidate_of_row \<circ> fst) rows) cc\<rparr>"
  have "is_ok (fst (tryCandidates C pl ?vk (map (candidate_of_row \<circ> fst) rows) ?r (advance (advance (advance (advance w))))))"
    using assms(1,2) act key(8) by (intro tryCandidates_complete [OF _ _ q(2)]) (simp_all add: candidate_of_row_def)
  with v c hit2 q(1) assms(3) show ?thesis
    by (cases hit) (simp_all add: authenticate_def findCandidates_def time_Now_def Let_def)
qed

lemma CreateAPIKey_ok:
  assumes "CreateAPIKey_q uid hash pref name ex scope w d = (Inr k, d')"
  shows "k \<in> set (api_keys d') \<and> users d' = users d \<and> k_user_id k = uid \<and> k_key_prefix k = pref \<and> k_key_hash k = hash \<and>
    k_status k = ''active'' \<and> k_expires_at k = ex"
  using assms by (auto simp: CreateAPIKey_q_def Let_def split: if_splits)

lemma Keys_Create_ok:
  assumes "Keys_Create C p r w = (Inr key, r', w')"
  obtains k salt where "k \<in> set (api_keys (w_db w'))" "k_user_id k = ck_UserID p"
    "k_key_prefix k = take APIKeyPrefixLength (ck_Plaintext p)" "bcrypt_generate C salt (ck_Plaintext p) = Inr (k_key_hash k)"
    "k_status k = ''active''" "k_expires_at k = ck_ExpiresAt p" "key = apiKeyFromDB k" "users (w_db w') = users (w_db w)"
    "r' = invalidateCandidates (take APIKeyPrefixLength (ck_Plaintext p)) r"
    "APIKeyPrefixLength \<le> length (ck_Plaintext p)" "wf_db (w_db w) \<longrightarrow> wf_db (w_db w')"
proof -
  have ok: "\<not> (ck_UserID p \<le> 0 \<or> length (ck_Plaintext p) < APIKeyPrefixLength)"
    using assms by (auto simp: Keys_Create_def split: if_splits)
  obtain h w1 where hs: "HashSecret C (ck_Plaintext p) w = (h, w1)" by fastforce
  with ok assms obtain hash where h: "h = Inr hash" by (cases h) (auto simp: Keys_Create_def)
  let ?q = "CreateAPIKey_q (ck_UserID p) hash (take APIKeyPrefixLength (ck_Plaintext p))
      (nullableText (ck_Name p)) (ck_ExpiresAt p) (nullableText (ck_Scope p))"
  obtain x w2 where q: "run_query ?q w1 = (x, w2)" by fastforce
  with ok h hs assms obtain k where k: "x = Inr k" "w' = w2" "key = apiKeyFromDB k"
    "r' = invalidateCandidates (take APIKeyPrefixLength (ck_Plaintext p)) r"
    by (cases x) (auto simp: Keys_Create_def)
  with q have "run_query ?q w1 = (Inr k, w')" by simp
  then obtain w3 where e: "?q w3 (w_db w1) = (Inr k, w_db w')" by (rule run_query_ok)
  have fr: "w_db w1 = w_db w" using HashSecret_frame [OF hs] by simp
  obtain salt where salt: "bcrypt_generate C salt (ck_Plaintext p) = Inr hash"
    using hs h by (auto simp: HashSecret_def split: prod.splits option.splits)
  note kf = CreateAPIKey_ok [OF e [unfolded fr]]
  have wf: "wf_db (w_db w) \<longrightarrow> wf_db (w_db w')" using e fr CreateAPIKey_wf by (metis snd_conv)
  show thesis
    by (rule that [of k salt]) (use kf k salt ok wf in simp_all)
qed

lemma invalidated_miss:
  "validIdentitySource source \<Longrightarrow>
   ttl_live (candidatesCache (invalidateCandidates pref r)) t \<lparr>cc_prefix = pref, cc_identitySource = source\<rparr> = None"
  by (auto simp: invalidateCandidates_def Let_def ttlc.del_live validIdentitySource_def)

text \<open>
  A key works as soon as it has been created: when \<open>Create\<close> reports success for an active user of
  the identity source, the next authentication with the plaintext on that replica succeeds (database
  reachable, key not past its expiry day), even if a failed attempt with the same prefix was cached
  just before. The only fact used about bcrypt is that a generated hash verifies its secret.
\<close>

theorem created_key_authenticates:
  assumes "wf_db (w_db w)" and "Keys_Create C p r w = (Inr key, r', w')"
    and "\<forall>salt s h. bcrypt_generate C salt s = Inr h \<longrightarrow> bcrypt_compare C h s"
    and "u \<in> set (users (w_db w))" "u_id u = ck_UserID p" "u_status u = ''active''" "u_identity_source u = source"
    and "validIdentitySource source" and "w_faults w' = []"
    and "\<forall>e. ck_ExpiresAt p = Some e \<longrightarrow> current_date (advance (advance (advance w'))) \<le> e"
  shows "is_ok (fst (AuthenticateForSource C (ck_Plaintext p) source r' w'))"
proof -
  from Keys_Create_ok [OF assms(2)] obtain k salt where k: "k \<in> set (api_keys (w_db w'))" "k_user_id k = ck_UserID p"
    "k_key_prefix k = take APIKeyPrefixLength (ck_Plaintext p)" "bcrypt_generate C salt (ck_Plaintext p) = Inr (k_key_hash k)"
    "k_status k = ''active''" "k_expires_at k = ck_ExpiresAt p" "users (w_db w') = users (w_db w)"
    "r' = invalidateCandidates (take APIKeyPrefixLength (ck_Plaintext p)) r"
    "APIKeyPrefixLength \<le> length (ck_Plaintext p)" "wf_db (w_db w) \<longrightarrow> wf_db (w_db w')" .
  have "is_ok (fst (authenticate C (ck_Plaintext p) source r' w'))"
  proof (rule authenticate_complete)
    show "ttl_live (candidatesCache r') (w_clock (advance (advance w')))
        \<lparr>cc_prefix = take APIKeyPrefixLength (ck_Plaintext p), cc_identitySource = source\<rparr> = None"
      unfolding k(8) by (rule invalidated_miss [OF assms(8)])
    show "key_usable (current_date (advance (advance (advance w')))) k"
      using k assms(10) by (auto simp: key_usable_def split: option.splits)
    show "VerifySecret C (k_key_hash k) (ck_Plaintext p)" using k(4) assms(3) by (auto simp: VerifySecret_def)
    show "source \<noteq> []" using assms(8) by (auto simp: validIdentitySource_def)
  qed (use assms k in auto)
  with k(9) assms(8) show ?thesis by (simp add: AuthenticateForSource_def)
qed

theorem created_key_authenticates_witness:
  "\<exists>key r' w'. Keys_Create plain_crypto \<lparr>ck_UserID = 1, ck_Plaintext = ''sk-ccccc-new'', ck_Name = [], ck_ExpiresAt = None, ck_Scope = []\<rparr>
       NewAPIKeyRepository ((start_world key_db 0)\<lparr>w_random := [''salt'']\<rparr>) = (Inr key, r', w') \<and>
     is_ok (fst (AuthenticateForSource plain_crypto ''sk-ccccc-new'' ''ldap'' r' w'))"
proof -
  let ?p = "\<lparr>ck_UserID = 1, ck_Plaintext = ''sk-ccccc-new'', ck_Name = [], ck_ExpiresAt = None, ck_Scope = []\<rparr>"
  let ?w = "(start_world key_db 0)\<lparr>w_random := [''salt'']\<rparr>"
  let ?c = "Keys_Create plain_crypto ?p NewAPIKeyRepository ?w"
  note defs = Keys_Create_def HashSecret_def rand_Read_def CreateAPIKey_q_def has_user_def key_run_defs key_db_defs
  obtain key r' w' where c: "?c = (Inr key, r', w')" by (simp add: defs)
  have "w_faults (snd (snd ?c)) = []" by (simp add: defs)
  with c have f: "w_faults w' = []" by simp
  have wf: "wf_db (w_db ?w)" by (simp add: start_world_def wf_key_db)
  have b: "\<forall>salt s h. bcrypt_generate plain_crypto salt s = Inr h \<longrightarrow> bcrypt_compare plain_crypto h s"
    by (simp add: plain_crypto_def)
  have u: "sample_user 1 ''ann'' ''active'' ''ldap'' \<in> set (users (w_db ?w))" by (simp add: start_world_def key_db_def)
  have "is_ok (fst (AuthenticateForSource plain_crypto (ck_Plaintext ?p) ''ldap'' r' w'))"
    by (rule created_key_authenticates [OF wf c b u]) (simp_all add: sample_user_def validIdentitySource_def f)
  with c show ?thesis by simp
qed

end
