(* ===== verification/Api_Keys_Genuine.thy ===== *)
theory Api_Keys_Genuine
  imports Api_Keys_Theorems
begin

text \<open>
  Caching never forges a principal. Whatever a running replica has cached, an accepted secret belongs to
  a key row of the database whose hash verifies that secret and whose owner is the user of the principal
  and of the requested identity source. Only the status of the key may be stale (see the window
  theorems); its identity never is.
\<close>

definition genuine :: "crypto \<Rightarrow> database \<Rightarrow> string \<Rightarrow> string \<Rightarrow> APIKeyPrincipal \<Rightarrow> bool" where
  "genuine C d source pl p =
     (\<exists>k \<in> set (api_keys d). \<exists>u \<in> set (users d).
        pr_APIKeyID p = k_id k \<and> pr_UserID p = u_id u \<and> k_user_id k = u_id u \<and>
        k_key_prefix k = take APIKeyPrefixLength pl \<and> VerifySecret C (k_key_hash k) pl \<and>
        (source = [] \<or> u_identity_source u = source))"

definition genuine_candidate :: "database \<Rightarrow> apiKeyCacheKey \<Rightarrow> apiKeyCandidate \<Rightarrow> bool" where
  "genuine_candidate d key c =
     (\<exists>k \<in> set (api_keys d). \<exists>u \<in> set (users d).
        c = candidate_of_row k \<and> k_user_id k = u_id u \<and> k_key_prefix k = cc_prefix key \<and>
        (cc_identitySource key = [] \<or> u_identity_source u = cc_identitySource key))"

definition genuine_verified :: "crypto \<Rightarrow> database \<Rightarrow> verifiedAPIKeyCacheKey \<Rightarrow> APIKeyPrincipal \<Rightarrow> bool" where
  "genuine_verified C d vk p = (\<exists>pl. sha256 C pl = vk_digest vk \<and> genuine C d (vk_identitySource vk) pl p)"

text \<open>Users are never deleted and never change their id or identity source.\<close>

definition users_mono :: "database \<Rightarrow> database \<Rightarrow> bool" where
  "users_mono d d' = (\<forall>u \<in> set (users d). \<exists>u' \<in> set (users d'). u_id u' = u_id u \<and> u_identity_source u' = u_identity_source u)"

definition keys_users_mono :: "database \<Rightarrow> database \<Rightarrow> bool" where
  "keys_users_mono d d' = (keys_mono d d' \<and> users_mono d d')"

lemma keys_users_mono_refl [simp]: "keys_users_mono d d"
  by (auto simp: keys_users_mono_def users_mono_def)

lemma users_mono_update:
  assumes "\<And>u. p u \<Longrightarrow> u_id (f u) = u_id u \<and> u_identity_source (f u) = u_identity_source u"
    and "users d' = update_where p f (users d)"
  shows "users_mono d d'"
  unfolding users_mono_def
proof
  fix u assume "u \<in> set (users d)"
  then have "(if p u then f u else u) \<in> set (users d')" by (simp add: assms(2) set_update_where)
  then show "\<exists>u' \<in> set (users d'). u_id u' = u_id u \<and> u_identity_source u' = u_identity_source u"
    using assms(1) [of u] by (intro bexI [of _ "if p u then f u else u"]) auto
qed

lemma program_statements_mono:
  "keys_users_mono d (snd (CreateAPIKey_q a b c e f g w d))"
  "keys_users_mono d (snd (RevokeAPIKey i u w d))"
  "keys_users_mono d (snd (TouchAPIKeysLastUsed_q ids w d))"
  "keys_users_mono d (snd (SetUserStatus i st w d))"
  "keys_users_mono d (snd (BlockUserAndDeleteSessions i w d))"
proof -
  have same: "users_mono d d'" if "users d' = users d" for d'
    using that by (auto simp: users_mono_def)
  have touch: "users (snd (TouchAPIKeysLastUsed_q ids w d)) = users d" by (simp add: TouchAPIKeysLastUsed_q_def)
  show "keys_users_mono d (snd (CreateAPIKey_q a b c e f g w d))" "keys_users_mono d (snd (RevokeAPIKey i u w d))"
    "keys_users_mono d (snd (TouchAPIKeysLastUsed_q ids w d))"
    unfolding keys_users_mono_def
    by (intro conjI key_statements_mono same key_statements_stay_blocked touch)+
  have "users_mono d (snd (SetUserStatus i st w d))"
  proof (cases "count_where (\<lambda>u. u_id u = i) (users d) \<noteq> 0 \<and> \<not> status_ok st")
    case True
    then show ?thesis by (intro same) (simp add: SetUserStatus_def)
  next
    case False
    then show ?thesis
      by (intro users_mono_update [of "\<lambda>u. u_id u = i" "\<lambda>u. u\<lparr>u_status := st, u_updated_at := w_clock w\<rparr>"])
        (auto simp: SetUserStatus_def)
  qed
  moreover have "users_mono d (snd (BlockUserAndDeleteSessions i w d))"
    by (rule users_mono_update [of "\<lambda>u. u_id u = i" "\<lambda>u. u\<lparr>u_status := ''blocked'', u_updated_at := w_clock w\<rparr>"])
      (simp_all add: BlockUserAndDeleteSessions_def Let_def)
  ultimately show "keys_users_mono d (snd (SetUserStatus i st w d))" "keys_users_mono d (snd (BlockUserAndDeleteSessions i w d))"
    by (simp_all add: keys_users_mono_def key_statements_mono)
qed

text \<open>What was genuine stays genuine.\<close>

lemma mono_key:
  assumes "keys_users_mono d d'" and "k \<in> set (api_keys d)" and "u \<in> set (users d)"
  obtains k' u' where "k' \<in> set (api_keys d')" "u' \<in> set (users d')" "k_id k' = k_id k" "k_user_id k' = k_user_id k"
    "k_key_hash k' = k_key_hash k" "k_key_prefix k' = k_key_prefix k" "u_id u' = u_id u"
    "u_identity_source u' = u_identity_source u"
  using assms unfolding keys_users_mono_def keys_mono_def users_mono_def by metis

lemma genuine_mono:
  assumes "keys_users_mono d d'" and "genuine C d source pl p"
  shows "genuine C d' source pl p"
proof -
  from assms(2) obtain k u where ku: "k \<in> set (api_keys d)" "u \<in> set (users d)"
    "pr_APIKeyID p = k_id k" "pr_UserID p = u_id u" "k_user_id k = u_id u" "k_key_prefix k = take APIKeyPrefixLength pl"
    "VerifySecret C (k_key_hash k) pl" "source = [] \<or> u_identity_source u = source"
    by (auto simp: genuine_def)
  from mono_key [OF assms(1) ku(1,2)] obtain k' u' where "k' \<in> set (api_keys d')" "u' \<in> set (users d')"
    "k_id k' = k_id k" "k_user_id k' = k_user_id k" "k_key_hash k' = k_key_hash k" "k_key_prefix k' = k_key_prefix k"
    "u_id u' = u_id u" "u_identity_source u' = u_identity_source u" .
  with ku show ?thesis unfolding genuine_def by (intro bexI [of _ k'] bexI [of _ u']) auto
qed

lemma genuine_candidate_mono:
  assumes "keys_users_mono d d'" and "genuine_candidate d key c"
  shows "genuine_candidate d' key c"
proof -
  from assms(2) obtain k u where ku: "k \<in> set (api_keys d)" "u \<in> set (users d)"
    "c = candidate_of_row k" "k_user_id k = u_id u" "k_key_prefix k = cc_prefix key"
    "cc_identitySource key = [] \<or> u_identity_source u = cc_identitySource key"
    by (auto simp: genuine_candidate_def)
  from mono_key [OF assms(1) ku(1,2)] obtain k' u' where "k' \<in> set (api_keys d')" "u' \<in> set (users d')"
    "k_id k' = k_id k" "k_user_id k' = k_user_id k" "k_key_hash k' = k_key_hash k" "k_key_prefix k' = k_key_prefix k"
    "u_id u' = u_id u" "u_identity_source u' = u_identity_source u" .
  with ku show ?thesis unfolding genuine_candidate_def
    by (intro bexI [of _ k'] bexI [of _ u']) (auto simp: candidate_of_row_def)
qed

lemma genuine_verified_mono: "keys_users_mono d d' \<Longrightarrow> genuine_verified C d vk p \<Longrightarrow> genuine_verified C d' vk p"
  unfolding genuine_verified_def by (blast intro: genuine_mono)

lemma listed_genuine:
  "listed d today pref source c \<Longrightarrow> genuine_candidate d \<lparr>cc_prefix = pref, cc_identitySource = source\<rparr> c"
  unfolding listed_def genuine_candidate_def by (elim bexE, intro bexI) auto

lemma candidate_principal_genuine:
  "genuine_candidate d \<lparr>cc_prefix = take APIKeyPrefixLength pl, cc_identitySource = source\<rparr> c \<Longrightarrow>
   VerifySecret C (cand_keyHash c) pl \<Longrightarrow> genuine C d source pl (principal_of c)"
  unfolding genuine_candidate_def genuine_def
  by (auto simp: candidate_of_row_def principal_of_def) blast+

section \<open>The invariant\<close>

definition caches_genuine :: "crypto \<Rightarrow> APIKeyRepository \<times> world \<Rightarrow> bool" where
  "caches_genuine C s = (case s of (r, w) \<Rightarrow>
     ttlc.all_live (\<lambda>_ key cs. \<forall>c \<in> set cs. genuine_candidate (w_db w) key c) (candidatesCache r) \<and>
     ttlc.all_live (\<lambda>_. genuine_verified C (w_db w)) (verifiedCache r))"

lemma caches_genuine_mono:
  assumes "caches_genuine C (r, w)" and "keys_users_mono (w_db w) (w_db w')"
  shows "caches_genuine C (r, w')"
  using assms unfolding caches_genuine_def
  by (auto elim!: ttlc.all_live_mono intro: genuine_candidate_mono genuine_verified_mono)

lemma caches_genuine_new: "caches_genuine C (NewAPIKeyRepository, w)"
  by (simp add: caches_genuine_def NewAPIKeyRepository_def ttlc.all_live_def ttl_live_def NewTTL_def)

lemma caches_genuine_drop:
  "caches_genuine C (r, w) \<Longrightarrow> caches_genuine C (invalidateCandidates pref r, w)"
  "caches_genuine C (r, w) \<Longrightarrow> caches_genuine C (Keys_InvalidateUser i r, w)"
  "caches_genuine C (r\<lparr>candidatesCache := TTL_Clear (candidatesCache r), verifiedCache := TTL_Clear (verifiedCache r)\<rparr>, w)"
  by (auto simp: caches_genuine_def invalidateCandidates_def Keys_InvalidateUser_def Let_def ttlc.all_live_del
      ttlc.all_live_clr intro!: ttlc.all_live_delw dest: ttlc.all_liveD)

lemma source_genuine:
  assumes "caches_genuine C (r, w)" and "cand_source r w hi pref source c"
  shows "genuine_candidate (w_db w) \<lparr>cc_prefix = pref, cc_identitySource = source\<rparr> c"
  using assms unfolding caches_genuine_def cand_source_def
  by (auto dest: ttlc.all_liveD listed_genuine)

lemma authenticate_caches_genuine:
  assumes "caches_genuine C (r, w)" and "authenticate C pl source r w = (x, r', w')"
  shows "caches_genuine C (r', w')"
proof -
  have "ttlc.all_live (\<lambda>_ key cs. \<forall>c \<in> set cs. genuine_candidate (w_db w) key c) (candidatesCache r') \<and>
        ttlc.all_live (\<lambda>_. genuine_verified C (w_db w)) (verifiedCache r')"
  proof (rule authenticate_keeps [OF assms(2)])
    fix c t' assume "cand_source r w (w_clock w') (take APIKeyPrefixLength pl) source c" "VerifySecret C (cand_keyHash c) pl"
    with source_genuine [OF assms(1)] show "genuine_verified C (w_db w) \<lparr>vk_digest = sha256 C pl, vk_identitySource = source\<rparr> (principal_of c)"
      unfolding genuine_verified_def by (auto intro!: exI [of _ pl] candidate_principal_genuine)
  qed (use assms(1) listed_genuine in \<open>auto simp: caches_genuine_def\<close>)
  with authenticate_frame [OF assms(2)] show ?thesis by (simp add: caches_genuine_def)
qed

lemma step_caches_genuine:
  assumes "replica_step C keys_users_mono \<delta> (r, w) (r', w')" and "caches_genuine C (r, w)"
  shows "caches_genuine C (r', w')"
  using assms(1)
proof (cases rule: replica_step.cases)
  case (step_create p x)
  from Keys_Create_cases [OF step_create] have m: "keys_users_mono (w_db w) (w_db w')"
    using program_statements_mono(1) [of "w_db w"] by auto
  have "caches_genuine C (r', w)"
    using Keys_Create_cases [OF step_create] assms(2) by (auto intro: caches_genuine_drop)
  then show ?thesis by (rule caches_genuine_mono [OF _ m])
next
  case (step_authenticate pl source x)
  with assms(2) show ?thesis by (blast intro: authenticate_caches_genuine)
next
  case step_invalidate_user
  with assms(2) show ?thesis by (auto intro: caches_genuine_drop)
next
  case (step_revoke u k x)
  from Revoke_cases(2) [OF step_revoke] have m: "keys_users_mono (w_db w) (w_db w')"
    using program_statements_mono(2) [of "w_db w"] by auto
  have "caches_genuine C (r', w)"
    using Revoke_cases(3) [OF step_revoke] assms(2) by (auto intro: caches_genuine_drop)
  then show ?thesis by (rule caches_genuine_mono [OF _ m])
next
  case step_environment
  with assms(2) show ?thesis by (auto intro: caches_genuine_mono)
qed

lemma steps_caches_genuine:
  "replica_steps C keys_users_mono \<delta> s s' \<Longrightarrow> caches_genuine C s \<Longrightarrow> caches_genuine C s'"
proof (induction rule: rtranclp_induct)
  case (step s1 s2)
  then show ?case by (cases s1; cases s2) (auto intro: step_caches_genuine)
qed

lemma authenticate_genuine:
  assumes "caches_genuine C (r, w)" and "authenticate C pl source r w = (Inr p, r', w')" and "inj (sha256 C)"
  shows "genuine C (w_db w) source pl p"
  using authenticate_accepts [OF assms(2)]
proof
  assume "\<exists>t. w_clock w \<le> t \<and> t \<le> w_clock w' \<and>
      ttl_live (verifiedCache r) t \<lparr>vk_digest = sha256 C pl, vk_identitySource = source\<rparr> = Some p"
  with assms(1) have "genuine_verified C (w_db w) \<lparr>vk_digest = sha256 C pl, vk_identitySource = source\<rparr> p"
    by (auto simp: caches_genuine_def dest: ttlc.all_liveD)
  with assms(3) show ?thesis by (auto simp: genuine_verified_def dest: injD)
next
  assume "\<exists>c. p = principal_of c \<and> VerifySecret C (cand_keyHash c) pl \<and> user_active (w_db w) (cand_userID c) \<and>
      cand_source r w (w_clock w') (take APIKeyPrefixLength pl) source c"
  with source_genuine [OF assms(1)] show ?thesis by (auto intro: candidate_principal_genuine)
qed

text \<open>
  Genuineness under caching: in every state a replica can reach from its start, interleaved with
  any changes by others that keep keys and users (as all statements of the program do), a secret that is
  accepted for an identity source belongs to a key row with that prefix and a bcrypt hash verifying that
  very secret, the principal names that key and its owner, and the owner is of that source. In
  particular an entry cached for one source or secret is never served for another. SHA-256 is assumed
  free of collisions.
\<close>

theorem accepted_key_is_genuine:
  assumes "replica_steps C keys_users_mono (int n) (NewAPIKeyRepository, w0) (r, w)"
    and "authenticate C pl source r w = (Inr p, r', w')" and "inj (sha256 C)"
  shows "\<exists>k \<in> set (api_keys (w_db w)). \<exists>u \<in> set (users (w_db w)).
     pr_APIKeyID p = k_id k \<and> pr_UserID p = u_id u \<and> k_user_id k = u_id u \<and>
     k_key_prefix k = take APIKeyPrefixLength pl \<and> VerifySecret C (k_key_hash k) pl \<and>
     (source = [] \<or> u_identity_source u = source)"
  using authenticate_genuine [OF steps_caches_genuine [OF assms(1) caches_genuine_new] assms(2,3)]
  unfolding genuine_def .

theorem accepted_key_is_genuine_witness:
  "\<exists>p r' w'. authenticate plain_crypto ''sk-aaaaa-one'' ''ldap'' late_repo (start_world key_db 0) = (Inr p, r', w') \<and>
     (\<exists>k \<in> set (api_keys key_db). pr_APIKeyID p = k_id k \<and> VerifySecret plain_crypto (k_key_hash k) ''sk-aaaaa-one'')"
proof -
  have run: "replica_steps plain_crypto keys_users_mono (int 0) (NewAPIKeyRepository, start_world key_db 0)
      (late_repo, start_world key_db 0)"
    by (rule r_into_rtranclp, rule step_authenticate [OF late_first]) simp
  obtain p r' w' where a: "authenticate plain_crypto ''sk-aaaaa-one'' ''ldap'' late_repo (start_world key_db 0) = (Inr p, r', w')"
    by (simp add: late_repo_def late_candidates_def key_run_defs key_db_defs)
  have "inj (sha256 plain_crypto)" by (simp add: plain_crypto_def inj_on_def)
  from accepted_key_is_genuine [OF run a this] a show ?thesis by (force simp: start_world_def)
qed

end
