(* ===== verification/Access_Provider.thy ===== *)
theory Access_Provider
  imports Api_Keys_Genuine
begin

text \<open>
  \<^verbatim>\<open>internal/access/principal.go\<close> and \<^verbatim>\<open>internal/access/provider.go\<close>: the text form in which the user
  and key of a request travel through the proxy SDK, and the SDK access provider that authenticates a
  proxied request from its headers and query parameters. The trace span is not modelled; the SDK result
  types are the record \<open>Result\<close> and the datatype \<open>AuthError\<close> (one constructor per constructor
  function of \<^verbatim>\<open>sdkaccess\<close> that is used).
\<close>

section \<open>Principals as text\<close>

record Principal =
  Principal_UserID :: int
  Principal_APIKeyID :: "int option"

definition principalPrefix :: string where "principalPrefix = ''cliproxy:v1:''"

definition EncodePrincipal :: "int \<Rightarrow> int \<Rightarrow> string" where
  "EncodePrincipal userID apiKeyID = principalPrefix @ FormatInt userID @ '':'' @ FormatInt apiKeyID"

definition positiveID :: "string \<Rightarrow> int result" where
  "positiveID v =
     (case ParseInt64 v of
        None \<Rightarrow> Inl (ErrMsg ''invalid principal'')
      | Some i \<Rightarrow> if i \<le> 0 then Inl (ErrMsg ''invalid principal'') else Inr i)"

definition DecodePrincipal :: "string \<Rightarrow> Principal result" where
  "DecodePrincipal v =
     (if HasPrefix v principalPrefix then
        (case Split CHR '':'' (drop (length principalPrefix) v) of
           [a, b] \<Rightarrow>
             (case positiveID a of
                Inl e \<Rightarrow> Inl e
              | Inr userID \<Rightarrow>
                  (case positiveID b of
                     Inl e \<Rightarrow> Inl e
                   | Inr apiKeyID \<Rightarrow> Inr \<lparr>Principal_UserID = userID, Principal_APIKeyID = Some apiKeyID\<rparr>))
         | _ \<Rightarrow> Inl (ErrMsg ''invalid principal''))
      else
        (case positiveID v of
           Inl e \<Rightarrow> Inl e
         | Inr userID \<Rightarrow> Inr \<lparr>Principal_UserID = userID, Principal_APIKeyID = None\<rparr>))"

lemma positiveID_FormatInt: "0 < i \<Longrightarrow> i \<le> max_int64 \<Longrightarrow> positiveID (FormatInt i) = Inr i"
  by (simp add: positiveID_def ParseInt64_FormatInt_nonneg)

lemma positiveID_range: "positiveID v = Inr i \<Longrightarrow> 0 < i \<and> i \<le> max_int64"
  by (auto simp: positiveID_def split: option.splits if_splits dest: ParseInt64_bounds)

lemma FormatInt_no_colon: "0 \<le> i \<Longrightarrow> CHR '':'' \<notin> set (FormatInt i)"
  by (simp add: FormatInt_nonneg nat_digits_no_char)

lemma decode_encode:
  assumes "0 < u" "u \<le> max_int64" "0 < k" "k \<le> max_int64"
  shows "DecodePrincipal (EncodePrincipal u k) = Inr \<lparr>Principal_UserID = u, Principal_APIKeyID = Some k\<rparr>"
proof -
  have "Split CHR '':'' (FormatInt u @ CHR '':'' # FormatInt k) = [FormatInt u, FormatInt k]"
    using assms by (simp add: Split_append Split_no_sep FormatInt_no_colon)
  with assms show ?thesis
    by (simp add: DecodePrincipal_def EncodePrincipal_def HasPrefix_def positiveID_FormatInt)
qed

text \<open>
  The text form of a principal round-trips: decoding what was encoded for two positive 64-bit ids
  gives back exactly these ids, and whatever text decodes at all (also the legacy form, a bare user id)
  decodes to positive 64-bit ids, so usage is never booked on id 0 or a negative id.
\<close>

theorem principal_roundtrip:
  assumes "0 < u" "u \<le> max_int64" "0 < k" "k \<le> max_int64"
  shows "DecodePrincipal (EncodePrincipal u k) = Inr \<lparr>Principal_UserID = u, Principal_APIKeyID = Some k\<rparr> \<and>
    DecodePrincipal (FormatInt u) = Inr \<lparr>Principal_UserID = u, Principal_APIKeyID = None\<rparr> \<and>
    (\<forall>v p. DecodePrincipal v = Inr p \<longrightarrow> 0 < Principal_UserID p \<and> Principal_UserID p \<le> max_int64 \<and>
       (\<forall>i. Principal_APIKeyID p = Some i \<longrightarrow> 0 < i \<and> i \<le> max_int64))"
proof -
  have "\<not> HasPrefix (FormatInt u) principalPrefix"
  proof
    assume "HasPrefix (FormatInt u) principalPrefix"
    then obtain r where "FormatInt u = principalPrefix @ r" by (auto simp: HasPrefix_def prefix_def)
    then have "CHR '':'' \<in> set (FormatInt u)" by (simp add: principalPrefix_def)
    with FormatInt_no_colon [of u] assms show False by simp
  qed
  with assms have "DecodePrincipal (FormatInt u) = Inr \<lparr>Principal_UserID = u, Principal_APIKeyID = None\<rparr>"
    by (simp add: DecodePrincipal_def positiveID_FormatInt)
  moreover have "0 < Principal_UserID p \<and> Principal_UserID p \<le> max_int64 \<and>
      (\<forall>i. Principal_APIKeyID p = Some i \<longrightarrow> 0 < i \<and> i \<le> max_int64)" if "DecodePrincipal v = Inr p" for v p
    using that by (auto simp: DecodePrincipal_def split: if_splits sum.splits list.splits dest!: positiveID_range)
  ultimately show ?thesis using decode_encode [OF assms] by blast
qed

theorem principal_roundtrip_witness:
  "DecodePrincipal (EncodePrincipal 7 42) = Inr \<lparr>Principal_UserID = 7, Principal_APIKeyID = Some 42\<rparr>"
  using principal_roundtrip [of 7 42] by (simp add: max_int64_def)

section \<open>Requests\<close>

text \<open>
  The parts of an \<^verbatim>\<open>*http.Request\<close> the program reads. Header names are canonical, \<^verbatim>\<open>Get\<close> returns the
  first value or the empty string; \<open>rq_URL\<close> is the query of the URL, absent for a nil URL.
\<close>

record Request =
  rq_Method :: string
  rq_Path :: string
  rq_Header :: "(string \<times> string) list"
  rq_URL :: "(string \<times> string) list option"
  rq_Cookies :: "(string \<times> string) list"
  rq_RemoteAddr :: string
  rq_Body :: string

definition Values_Get :: "(string \<times> string) list \<Rightarrow> string \<Rightarrow> string" where
  "Values_Get vs name = (case map_of vs name of None \<Rightarrow> [] | Some v \<Rightarrow> v)"

definition extractBearerToken :: "string \<Rightarrow> string" where
  "extractBearerToken header =
     (case SplitN2 CHR '' '' header of
        [a, b] \<Rightarrow> if \<not> EqualFold a ''bearer'' then TrimSpace header else TrimSpace b
      | _ \<Rightarrow> TrimSpace header)"

definition requestCredentials :: "Request option \<Rightarrow> string list \<times> bool" where
  "requestCredentials rp =
     (case rp of
        None \<Rightarrow> ([], False)
      | Some request \<Rightarrow>
          (let authorization = Values_Get (rq_Header request) ''Authorization'';
               googleAPIKey = Values_Get (rq_Header request) ''X-Goog-Api-Key'';
               anthropicAPIKey = Values_Get (rq_Header request) ''X-Api-Key'';
               queryKey = (case rq_URL request of None \<Rightarrow> [] | Some q \<Rightarrow> Values_Get q ''key'');
               queryAuthToken = (case rq_URL request of None \<Rightarrow> [] | Some q \<Rightarrow> Values_Get q ''auth_token'');
               supplied = (authorization \<noteq> [] \<or> googleAPIKey \<noteq> [] \<or> anthropicAPIKey \<noteq> [] \<or> queryKey \<noteq> [] \<or>
                           queryAuthToken \<noteq> [])
           in ([extractBearerToken authorization, googleAPIKey, anthropicAPIKey, queryKey, queryAuthToken], supplied)))"

section \<open>The provider\<close>

text \<open>The repository is an interface: a function on a state of its own (nil is \<open>None\<close>).\<close>

type_synonym 's key_backend = "string \<Rightarrow> string \<Rightarrow> 's \<Rightarrow> APIKeyPrincipal result \<times> 's"

record 's Provider =
  repository :: "'s key_backend option"
  identitySource :: string

record Result =
  Result_Provider :: string
  Result_Principal :: string
  Result_Metadata :: "(string \<times> string) list"

datatype AuthError = NoCredentialsError | InvalidCredentialError | InternalAuthError string "gerror option"

definition ProviderIdentifier :: string where "ProviderIdentifier = ''db-apikey''"

text \<open>The loop over the credentials.\<close>

fun tryCredentials :: "'s key_backend \<Rightarrow> string \<Rightarrow> string list \<Rightarrow> 's \<Rightarrow> (AuthError + Result) \<times> 's" where
  "tryCredentials auth source [] s = (Inl InvalidCredentialError, s)"
| "tryCredentials auth source (c # cs) s =
     (if c = [] then tryCredentials auth source cs s
      else (case auth c source s of
              (Inr pr, s1) \<Rightarrow>
                (Inr \<lparr>Result_Provider = ProviderIdentifier,
                      Result_Principal = EncodePrincipal (pr_UserID pr) (pr_APIKeyID pr),
                      Result_Metadata = [(''api_key_id'', FormatInt (pr_APIKeyID pr))]\<rparr>, s1)
            | (Inl e, s1) \<Rightarrow>
                (if \<not> errors_Is e ErrInvalidCredential
                 then (Inl (InternalAuthError ''API key authentication failed'' (Some e)), s1)
                 else tryCredentials auth source cs s1)))"

definition Provider_Authenticate ::
  "'s Provider option \<Rightarrow> Request option \<Rightarrow> 's \<Rightarrow> (AuthError + Result) \<times> 's" where
  "Provider_Authenticate pp request s =
     (case pp of
        None \<Rightarrow> (Inl (InternalAuthError ''API key authentication is unavailable'' None), s)
      | Some p \<Rightarrow>
          (case repository p of
             None \<Rightarrow> (Inl (InternalAuthError ''API key authentication is unavailable'' None), s)
           | Some auth \<Rightarrow>
               (let (credentials, supplied) = requestCredentials request
                in if \<not> supplied then (Inl NoCredentialsError, s)
                   else tryCredentials auth (identitySource p) credentials s)))"

section \<open>What the provider needs from the repository\<close>

text \<open>
  \<open>inv\<close> is kept by every call and \<open>good\<close> holds of every accepted credential. \<open>refused\<close> is the set of
  runs in which a credential was refused.
\<close>

locale key_authenticator =
  fixes auth :: "'s key_backend"
    and inv :: "'s \<Rightarrow> bool"
    and good :: "string \<Rightarrow> string \<Rightarrow> APIKeyPrincipal \<Rightarrow> bool"
  assumes keeps: "inv s \<Longrightarrow> auth c src s = (x, s') \<Longrightarrow> inv s'"
    and accepts: "inv s \<Longrightarrow> auth c src s = (Inr p, s') \<Longrightarrow> good c src p"
begin

lemma tryCredentials_sound:
  assumes "inv s" and "tryCredentials auth src cs s = (Inr res, s')"
  shows "\<exists>c \<in> set cs. \<exists>p. c \<noteq> [] \<and> good c src p \<and> Result_Provider res = ProviderIdentifier \<and>
     Result_Principal res = EncodePrincipal (pr_UserID p) (pr_APIKeyID p) \<and>
     Result_Metadata res = [(''api_key_id'', FormatInt (pr_APIKeyID p))]"
  using assms
proof (induction cs arbitrary: s)
  case (Cons c cs)
  obtain x s1 where a: "auth c src s = (x, s1)" by fastforce
  show ?case
  proof (cases "c = []")
    case True
    with Cons show ?thesis by fastforce
  next
    case False
    show ?thesis
    proof (cases x)
      case (Inl e)
      with Cons.prems a False have "tryCredentials auth src cs s1 = (Inr res, s')" by (auto split: if_splits)
      with Cons.IH [of s1] keeps [OF Cons.prems(1) a] show ?thesis by auto
    next
      case (Inr p)
      with Cons.prems a False accepts [of s c src p s1] show ?thesis by auto
    qed
  qed
qed simp

lemma provider_sound:
  assumes "inv s" and "Provider_Authenticate (Some \<lparr>repository = Some auth, identitySource = src\<rparr>) (Some req) s = (Inr res, s')"
  shows "\<exists>c \<in> set (fst (requestCredentials (Some req))). \<exists>p. c \<noteq> [] \<and> good c src p \<and>
     Result_Principal res = EncodePrincipal (pr_UserID p) (pr_APIKeyID p)"
  using assms tryCredentials_sound [OF assms(1), of src "fst (requestCredentials (Some req))" res s']
  by (auto simp: Provider_Authenticate_def split: prod.splits if_splits)

end

definition api_key_backend :: "crypto \<Rightarrow> (APIKeyRepository \<times> world) key_backend" where
  "api_key_backend C plaintext source s =
     (case s of (r, w) \<Rightarrow> case AuthenticateForSource C plaintext source r w of (x, r', w') \<Rightarrow> (x, (r', w')))"

definition backend_inv :: "crypto \<Rightarrow> database \<Rightarrow> APIKeyRepository \<times> world \<Rightarrow> bool" where
  "backend_inv C d s = (inj (sha256 C) \<and> caches_genuine C s \<and> w_db (snd s) = d)"

lemma backend_keeps:
  assumes "backend_inv C d s" and "api_key_backend C c src s = (x, s')"
  shows "backend_inv C d s'"
proof -
  obtain r w r' w' where s: "s = (r, w)" "s' = (r', w')" by (metis surj_pair)
  show ?thesis
  proof (cases "length c < APIKeyPrefixLength \<or> \<not> validIdentitySource src")
    case True
    with assms s show ?thesis by (auto simp: api_key_backend_def AuthenticateForSource_def)
  next
    case False
    with assms s have a: "authenticate C c src r w = (x, r', w')"
      by (auto simp: api_key_backend_def AuthenticateForSource_def split: prod.splits)
    with assms(1) s authenticate_frame [OF a] show ?thesis
      by (auto simp: backend_inv_def intro: authenticate_caches_genuine)
  qed
qed

lemma backend_accepts:
  assumes "backend_inv C d s" and "api_key_backend C c src s = (Inr p, s')"
  shows "genuine C d src c p \<and> validIdentitySource src"
proof -
  obtain r w r' w' where s: "s = (r, w)" "s' = (r', w')" by (metis surj_pair)
  from assms s have a: "authenticate C c src r w = (Inr p, r', w')" "validIdentitySource src"
    by (auto simp: api_key_backend_def AuthenticateForSource_def split: prod.splits if_splits)
  with assms(1) s authenticate_genuine [OF _ a(1)] show ?thesis by (auto simp: backend_inv_def)
qed

interpretation prov: key_authenticator "api_key_backend C" "backend_inv C d"
  "\<lambda>c src p. genuine C d src c p \<and> validIdentitySource src" for C d
  by unfold_locales (rule backend_keeps backend_accepts; assumption)+

text \<open>
  C13. A proxied request is let through only with a genuine client key. In any reachable state of the
  replica, if the access provider accepts a request then one of the five places a client may put its key
  (bearer token, the two vendor headers, the two query parameters) holds a secret whose key row verifies
  it, whose owner belongs to the active identity source, and the principal handed to the SDK decodes
  to exactly that user and that key.
\<close>

theorem provider_accepts_only_genuine_keys:
  assumes "replica_steps C keys_users_mono (int n) (NewAPIKeyRepository, w0) (r, w)" and "inj (sha256 C)"
    and "wf_db (w_db w)" and "users_seq (w_db w) \<le> max_int64" and "api_keys_seq (w_db w) \<le> max_int64"
    and "Provider_Authenticate (Some \<lparr>repository = Some (api_key_backend C), identitySource = source\<rparr>) (Some req) (r, w) = (Inr res, s')"
  shows "\<exists>c \<in> set (fst (requestCredentials (Some req))).
     \<exists>k \<in> set (api_keys (w_db w)). \<exists>u \<in> set (users (w_db w)).
       VerifySecret C (k_key_hash k) c \<and> k_user_id k = u_id u \<and> u_identity_source u = source \<and>
       DecodePrincipal (Result_Principal res) = Inr \<lparr>Principal_UserID = u_id u, Principal_APIKeyID = Some (k_id k)\<rparr>"
proof -
  have "backend_inv C (w_db w) (r, w)"
    using steps_caches_genuine [OF assms(1) caches_genuine_new] assms(2) by (simp add: backend_inv_def)
  from prov.provider_sound [OF this assms(6)] obtain c p where c: "c \<in> set (fst (requestCredentials (Some req)))"
    "genuine C (w_db w) source c p" "validIdentitySource source"
    "Result_Principal res = EncodePrincipal (pr_UserID p) (pr_APIKeyID p)" by blast
  from c(2,3) obtain k u where ku: "k \<in> set (api_keys (w_db w))" "u \<in> set (users (w_db w))" "pr_APIKeyID p = k_id k"
    "pr_UserID p = u_id u" "k_user_id k = u_id u" "VerifySecret C (k_key_hash k) c" "u_identity_source u = source"
    by (auto simp: genuine_def validIdentitySource_def)
  have "0 < u_id u \<and> u_id u \<le> max_int64 \<and> 0 < k_id k \<and> k_id k \<le> max_int64"
    using ku assms(3-5) by (fastforce simp: wf_db_def wf_users_def wf_api_keys_def)
  with c(4) ku have "DecodePrincipal (Result_Principal res) = Inr \<lparr>Principal_UserID = u_id u, Principal_APIKeyID = Some (k_id k)\<rparr>"
    by (simp add: decode_encode)
  with c(1) ku show ?thesis by blast
qed

definition bearer_request :: "string \<Rightarrow> Request" where
  "bearer_request token = \<lparr>rq_Method = ''POST'', rq_Path = ''/v1/messages'', rq_Header = [(''Authorization'', ''Bearer '' @ token)],
     rq_URL = Some [], rq_Cookies = [], rq_RemoteAddr = [], rq_Body = []\<rparr>"

theorem provider_accepts_only_genuine_keys_witness:
  "\<exists>res s'. Provider_Authenticate (Some \<lparr>repository = Some (api_key_backend plain_crypto), identitySource = ''ldap''\<rparr>)
       (Some (bearer_request ''sk-aaaaa-one'')) (NewAPIKeyRepository, start_world key_db 0) = (Inr res, s') \<and>
     (\<exists>k \<in> set (api_keys key_db). \<exists>u \<in> set (users key_db).
        DecodePrincipal (Result_Principal res) = Inr \<lparr>Principal_UserID = u_id u, Principal_APIKeyID = Some (k_id k)\<rparr>)"
proof -
  have tok: "extractBearerToken ''Bearer sk-aaaaa-one'' = ''sk-aaaaa-one''"
    by code_simp
  obtain res s' where a: "Provider_Authenticate (Some \<lparr>repository = Some (api_key_backend plain_crypto), identitySource = ''ldap''\<rparr>)
       (Some (bearer_request ''sk-aaaaa-one'')) (NewAPIKeyRepository, start_world key_db 0) = (Inr res, s')"
    by (simp add: Provider_Authenticate_def requestCredentials_def bearer_request_def Values_Get_def tok api_key_backend_def
        AuthenticateForSource_def validIdentitySource_def key_run_defs key_db_defs)
  have i: "inj (sha256 plain_crypto)" by (simp add: plain_crypto_def inj_on_def)
  have wf: "wf_db (w_db (start_world key_db 0))" "users_seq (w_db (start_world key_db 0)) \<le> max_int64"
    "api_keys_seq (w_db (start_world key_db 0)) \<le> max_int64"
    by (simp_all add: start_world_def wf_key_db) (simp_all add: key_db_def max_int64_def)
  from provider_accepts_only_genuine_keys [OF rtranclp.rtrancl_refl [where ?r = "replica_step plain_crypto keys_users_mono (int 0)"] i wf a] a
  show ?thesis by (auto simp: start_world_def)
qed

section \<open>Classification of refusals\<close>

text \<open>\<open>refusals auth src cs s s'\<close>: every non-empty credential was tried in order and refused as invalid.\<close>

fun refusals :: "'s key_backend \<Rightarrow> string \<Rightarrow> string list \<Rightarrow> 's \<Rightarrow> 's option" where
  "refusals auth src [] s = Some s"
| "refusals auth src (c # cs) s =
     (if c = [] then refusals auth src cs s
      else (case auth c src s of
              (Inl e, s1) \<Rightarrow> if errors_Is e ErrInvalidCredential then refusals auth src cs s1 else None
            | (Inr _, s1) \<Rightarrow> None))"

lemma tryCredentials_append:
  "refusals auth src cs s = Some s1 \<Longrightarrow> tryCredentials auth src (cs @ ds) s = tryCredentials auth src ds s1"
  by (induction cs arbitrary: s) (auto split: if_splits prod.splits sum.splits)

lemma refusals_split:
  assumes "refusals auth src cs s = None"
  shows "\<exists>as c bs s1. cs = as @ c # bs \<and> c \<noteq> [] \<and> refusals auth src as s = Some s1 \<and>
     (\<forall>e s2. auth c src s1 = (Inl e, s2) \<longrightarrow> \<not> errors_Is e ErrInvalidCredential)"
  using assms
proof (induction cs arbitrary: s)
  case (Cons c cs)
  obtain x s1 where a: "auth c src s = (x, s1)" by fastforce
  show ?case
  proof (cases "c = [] \<or> (\<exists>e. x = Inl e \<and> errors_Is e ErrInvalidCredential)")
    case True
    then obtain s2 where s2: "refusals auth src cs s2 = None"
      "\<And>as. refusals auth src (c # as) s = refusals auth src as s2"
      using Cons.prems a by (cases "c = []") auto
    from Cons.IH [OF s2(1)] obtain as c' bs s3 where "cs = as @ c' # bs" "c' \<noteq> []" "refusals auth src as s2 = Some s3"
      "\<forall>e s2. auth c' src s3 = (Inl e, s2) \<longrightarrow> \<not> errors_Is e ErrInvalidCredential" by blast
    then show ?thesis using s2(2) by (intro exI [of _ "c # as"] exI [of _ c'] exI [of _ bs] exI [of _ s3]) simp
  next
    case False
    then show ?thesis using a by (intro exI [of _ "[]"] exI [of _ c] exI [of _ cs] exI [of _ s]) auto
  qed
qed simp

lemma tryCredentials_stop:
  assumes "cs = as @ c # bs" "c \<noteq> []" "refusals auth src as s = Some s1"
    "auth c src s1 = (x, s2)" "\<And>e. x = Inl e \<Longrightarrow> \<not> errors_Is e ErrInvalidCredential"
  shows "tryCredentials auth src cs s =
     (case x of
        Inl e \<Rightarrow> (Inl (InternalAuthError ''API key authentication failed'' (Some e)), s2)
      | Inr p \<Rightarrow> (Inr \<lparr>Result_Provider = ProviderIdentifier, Result_Principal = EncodePrincipal (pr_UserID p) (pr_APIKeyID p),
          Result_Metadata = [(''api_key_id'', FormatInt (pr_APIKeyID p))]\<rparr>, s2))"
  using tryCredentials_append [OF assms(3), of "c # bs"] assms by (cases x) auto

text \<open>
  A failure is never mistaken for a bad key, nor a bad key for a missing one. The provider
  answers "no credentials", without touching the repository, exactly when all five places are empty;
  it answers "invalid credential" exactly when every supplied credential was tried, in order, and
  refused as invalid; in every other case the first credential not refused as invalid decides alone:
  accepted, or an internal error carrying the repository's error.
\<close>

theorem provider_classification:
  "\<exists>creds supplied. requestCredentials (Some req) = (creds, supplied) \<and>
     (case Provider_Authenticate (Some \<lparr>repository = Some auth, identitySource = src\<rparr>) (Some req) s of
        (Inl NoCredentialsError, s') \<Rightarrow> \<not> supplied \<and> s' = s
      | (Inl InvalidCredentialError, s') \<Rightarrow> supplied \<and> refusals auth src creds s = Some s'
      | (Inl (InternalAuthError _ eo), s') \<Rightarrow> supplied \<and> (\<exists>as c bs s1 e. creds = as @ c # bs \<and> refusals auth src as s = Some s1 \<and>
            auth c src s1 = (Inl e, s') \<and> \<not> errors_Is e ErrInvalidCredential \<and> eo = Some e)
      | (Inr res, s') \<Rightarrow> supplied \<and> (\<exists>as c bs s1 p. creds = as @ c # bs \<and> refusals auth src as s = Some s1 \<and>
            auth c src s1 = (Inr p, s') \<and> Result_Principal res = EncodePrincipal (pr_UserID p) (pr_APIKeyID p)))"
proof -
  obtain creds supplied where rc: "requestCredentials (Some req) = (creds, supplied)" by fastforce
  let ?P = "Provider_Authenticate (Some \<lparr>repository = Some auth, identitySource = src\<rparr>) (Some req) s"
  consider (none) "\<not> supplied" | (all) s' where "supplied" "refusals auth src creds s = Some s'"
    | (stop) "supplied" "refusals auth src creds s = None" by fastforce
  then show ?thesis
  proof cases
    case none
    with rc show ?thesis
      by (intro exI [of _ creds] exI [of _ supplied]) (simp add: Provider_Authenticate_def)
  next
    case all
    with rc tryCredentials_append [OF all(2), of "[]"] show ?thesis
      by (intro exI [of _ creds] exI [of _ supplied]) (simp add: Provider_Authenticate_def)
  next
    case stop
    from refusals_split [OF stop(2)] obtain as c bs s1 where d: "creds = as @ c # bs" "c \<noteq> []" "refusals auth src as s = Some s1"
      "\<forall>e s2. auth c src s1 = (Inl e, s2) \<longrightarrow> \<not> errors_Is e ErrInvalidCredential" by blast
    obtain x s2 where x: "auth c src s1 = (x, s2)" by fastforce
    from stop(1) rc have P: "?P = tryCredentials auth src creds s" by (simp add: Provider_Authenticate_def)
    show ?thesis
    proof (cases x)
      case (Inl e)
      with d x P tryCredentials_stop [OF d(1-3) x] have p: "?P = (Inl (InternalAuthError ''API key authentication failed'' (Some e)), s2)"
        by simp
      from Inl d x stop(1) rc show ?thesis unfolding p by auto
    next
      case (Inr q)
      with d x P tryCredentials_stop [OF d(1-3) x] have p: "?P = (Inr \<lparr>Result_Provider = ProviderIdentifier,
          Result_Principal = EncodePrincipal (pr_UserID q) (pr_APIKeyID q),
          Result_Metadata = [(''api_key_id'', FormatInt (pr_APIKeyID q))]\<rparr>, s2)" by simp
      from Inr d x stop(1) rc show ?thesis unfolding p by auto
    qed
  qed
qed

end
