(* ===== verification/Base64.thy ===== *)
theory Base64
  imports Go_Strings
begin

text \<open>
  The parts of \<^verbatim>\<open>encoding/base64\<close> the program uses, on strings as byte lists: \<^verbatim>\<open>RawURLEncoding\<close> for session
  tokens, API-key plaintexts and OAuth states, \<^verbatim>\<open>StdEncoding\<close> for configured encryption keys.
\<close>

definition alphabet_std :: string where
  "alphabet_std = ''ABCDEFGHIJKLMNOPQRSTUVWXYZabcdefghijklmnopqrstuvwxyz0123456789+/''"

definition alphabet_url :: string where
  "alphabet_url = ''ABCDEFGHIJKLMNOPQRSTUVWXYZabcdefghijklmnopqrstuvwxyz0123456789-_''"

definition byte_of :: "char \<Rightarrow> nat" where "byte_of c = of_char c"

text \<open>Sextets of a byte string, three bytes at a time, a short tail padded with zero bits.\<close>

fun sextets :: "nat list \<Rightarrow> nat list" where
  "sextets (a # b # c # xs) =
     (a div 4) # ((a mod 4) * 16 + b div 16) # ((b mod 16) * 4 + c div 64) # (c mod 64) # sextets xs"
| "sextets [a, b] = [a div 4, (a mod 4) * 16 + b div 16, (b mod 16) * 4]"
| "sextets [a] = [a div 4, (a mod 4) * 16]"
| "sextets [] = []"

definition RawURLEncode :: "string \<Rightarrow> string" where
  "RawURLEncode s = map (\<lambda>i. alphabet_url ! i) (sextets (map byte_of s))"

text \<open>
  \<^verbatim>\<open>StdEncoding.DecodeString\<close>: carriage returns and line feeds are skipped, the rest is groups of four
  symbols, the last one padded with \<open>=\<close>; trailing bits of a padded group are not checked.
\<close>

definition sextet_of :: "char \<Rightarrow> nat option" where
  "sextet_of c =
     (case find (\<lambda>i. alphabet_std ! i = c) [0..<64] of None \<Rightarrow> None | Some i \<Rightarrow> Some i)"

fun decode_groups :: "string \<Rightarrow> nat list option" where
  "decode_groups [] = Some []"
| "decode_groups (a # b # c # d # rest) =
     (case (sextet_of a, sextet_of b) of
        (Some x, Some y) \<Rightarrow>
          (if c = CHR ''='' then
             (if d = CHR ''='' \<and> rest = [] then Some [x * 4 + y div 16] else None)
           else (case sextet_of c of
                   None \<Rightarrow> None
                 | Some z \<Rightarrow>
                     (if d = CHR ''='' then
                        (if rest = [] then Some [x * 4 + y div 16, (y mod 16) * 16 + z div 4] else None)
                      else (case (sextet_of d, decode_groups rest) of
                              (Some u, Some bs) \<Rightarrow>
                                Some ((x * 4 + y div 16) # ((y mod 16) * 16 + z div 4) # ((z mod 4) * 64 + u) # bs)
                            | _ \<Rightarrow> None))))
      | _ \<Rightarrow> None)"
| "decode_groups _ = None"

definition StdDecodeString :: "string \<Rightarrow> string option" where
  "StdDecodeString s =
     (case decode_groups (filter (\<lambda>c. c \<noteq> CHR 0x0A \<and> c \<noteq> CHR 0x0D) s) of
        None \<Rightarrow> None
      | Some bs \<Rightarrow> Some (map char_of bs))"

lemma byte_of_lt: "byte_of c < 256"
  by (simp add: byte_of_def)

lemma inj_byte_of: "inj byte_of"
  by (rule injI) (simp add: byte_of_def)

lemma byte_bounds:
  fixes a :: nat assumes "a < 256"
  shows "a div 4 < 64" "a div 16 < 16" "a div 64 < 4"
  using assms by (simp_all add: less_mult_imp_div_less)

lemma two_digits: "y < m \<Longrightarrow> y' < m \<Longrightarrow> x * m + y = x' * m + y' \<Longrightarrow> x = x' \<and> y = y'" for x y x' y' m :: nat
proof -
  assume y: "y < m" "y' < m" and e: "x * m + y = x' * m + y'"
  have "x = (x * m + y) div m" "y = (x * m + y) mod m" using y by simp_all
  moreover have "x' = (x' * m + y') div m" "y' = (x' * m + y') mod m" using y by simp_all
  ultimately show "x = x' \<and> y = y'" using e by simp
qed

lemma div_mod_eqI: "a div m = b div m \<Longrightarrow> a mod m = b mod m \<Longrightarrow> a = b" for a b m :: nat
  by (metis div_mult_mod_eq)

lemma sextet_bounds:
  fixes a b c :: nat
  shows "a < 256 \<Longrightarrow> a div 4 < 64" "b < 256 \<Longrightarrow> (a mod 4) * 16 + b div 16 < 64"
    "c < 256 \<Longrightarrow> (b mod 16) * 4 + c div 64 < 64" "(b mod 16) * 4 < 64" "(a mod 4) * 16 < 64"
proof -
  have m: "a mod 4 < 4" "b mod 16 < 16" by simp_all
  show "b < 256 \<Longrightarrow> (a mod 4) * 16 + b div 16 < 64" using m byte_bounds(2) [of b] by linarith
  show "c < 256 \<Longrightarrow> (b mod 16) * 4 + c div 64 < 64" using m byte_bounds(3) [of c] by linarith
  show "(b mod 16) * 4 < 64" "(a mod 4) * 16 < 64" using m by linarith+
qed (simp add: byte_bounds)

lemma sextets_lt: "\<forall>x \<in> set xs. x < 256 \<Longrightarrow> \<forall>y \<in> set (sextets xs). y < 64"
  by (induction xs rule: sextets.induct) (simp_all add: sextet_bounds)

lemma length_sextets: "length (sextets xs) = (4 * length xs + 2) div 3"
  by (induction xs rule: sextets.induct) auto

lemma sextets_inj:
  assumes "length xs = length ys" and "\<forall>x \<in> set xs. x < 256" and "\<forall>y \<in> set ys. y < 256" and "sextets xs = sextets ys"
  shows "xs = ys"
  using assms
proof (induction xs arbitrary: ys rule: sextets.induct)
  case (1 a b c xs)
  then obtain a' b' c' ys' where ys: "ys = a' # b' # c' # ys'"
    by (auto simp: length_Suc_conv Suc_length_conv)
  with 1 have e: "a div 4 = a' div 4" "(a mod 4) * 16 + b div 16 = (a' mod 4) * 16 + b' div 16"
    "(b mod 16) * 4 + c div 64 = (b' mod 16) * 4 + c' div 64" "c mod 64 = c' mod 64" "xs = ys'"
    "a < 256" "b < 256" "c < 256" "a' < 256" "b' < 256" "c' < 256" by simp_all
  from two_digits [OF _ _ e(2)] two_digits [OF _ _ e(3)] e(6-) have "a mod 4 = a' mod 4" "b div 16 = b' div 16"
    "b mod 16 = b' mod 16" "c div 64 = c' div 64" by (simp_all add: byte_bounds)
  with e have "a = a'" "b = b'" "c = c'" by (blast intro: div_mod_eqI)+
  with ys e show ?case by simp
next
  case (2 a b)
  then obtain a' b' where ys: "ys = [a', b']" by (auto simp: length_Suc_conv Suc_length_conv)
  with 2 have e: "a div 4 = a' div 4" "(a mod 4) * 16 + b div 16 = (a' mod 4) * 16 + b' div 16"
    "b mod 16 = b' mod 16" "a < 256" "b < 256" "a' < 256" "b' < 256" by simp_all
  from two_digits [OF _ _ e(2)] e(4-) have "a mod 4 = a' mod 4" "b div 16 = b' div 16"
    by (simp_all add: byte_bounds)
  with e have "a = a'" "b = b'" by (blast intro: div_mod_eqI)+
  with ys show ?case by simp
next
  case (3 a)
  then obtain a' where ys: "ys = [a']" by (auto simp: length_Suc_conv Suc_length_conv)
  with 3 have "a div 4 = a' div 4" "a mod 4 = a' mod 4" by simp_all
  then have "a = a'" by (blast intro: div_mod_eqI)
  with ys show ?case by simp
qed simp

lemma alphabet_url_inj: "i < 64 \<Longrightarrow> j < 64 \<Longrightarrow> alphabet_url ! i = alphabet_url ! j \<Longrightarrow> i = j"
proof -
  have "distinct alphabet_url" "length alphabet_url = 64" by (simp_all add: alphabet_url_def)
  then show "i < 64 \<Longrightarrow> j < 64 \<Longrightarrow> alphabet_url ! i = alphabet_url ! j \<Longrightarrow> i = j"
    by (simp add: nth_eq_iff_index_eq)
qed

lemma map_inj_on_eq: "(\<And>x y. x \<in> A \<Longrightarrow> y \<in> A \<Longrightarrow> f x = f y \<Longrightarrow> x = y) \<Longrightarrow> set xs \<subseteq> A \<Longrightarrow> set ys \<subseteq> A \<Longrightarrow>
   map f xs = map f ys \<Longrightarrow> xs = ys"
  by (rule map_inj_on [of f]) (auto simp: inj_on_def)

lemma length_RawURLEncode: "length (RawURLEncode s) = (4 * length s + 2) div 3"
  by (simp add: RawURLEncode_def length_sextets)

text \<open>Distinct random bytes of the same length give distinct texts.\<close>

lemma RawURLEncode_inj:
  assumes "length s = length t" and "RawURLEncode s = RawURLEncode t"
  shows "s = t"
proof -
  have lt: "\<forall>x \<in> set (map byte_of u). x < 256" for u by (simp add: byte_of_lt)
  have "sextets (map byte_of s) = sextets (map byte_of t)"
    using assms(2) sextets_lt [OF lt, of s] sextets_lt [OF lt, of t] unfolding RawURLEncode_def
    by (intro map_inj_on_eq [of "{..<64}" "\<lambda>i. alphabet_url ! i"]) (auto intro: alphabet_url_inj)
  then have "map byte_of s = map byte_of t" using sextets_inj assms(1) lt by (metis length_map)
  then show ?thesis using inj_byte_of by (simp add: inj_map_eq_map)
qed

end
