(* ===== verification/Identity.thy ===== *)
theory Identity
  imports Access_Provider Base64
begin

text \<open>
  \<^verbatim>\<open>internal/auth/identity\<close> and \<^verbatim>\<open>internal/auth/ldap\<close>: the two identity providers (static and LDAP), the
  login service that provisions the user and issues a session, and the authenticator of session cookies
  with its TTL cache. Interfaces of the Go code are fields of function type; a nil interface is \<open>None\<close>.

  The LDAP server and \<^verbatim>\<open>go-ldap\<close> are the parameter \<open>directory\<close>; \<^verbatim>\<open>net/url\<close> is the parameter
  \<open>url_Parse\<close>, which yields scheme and host of a URL it can parse. A cancelled context is a non-empty
  \<open>dir_ctx_err\<close>.
\<close>

section \<open>Identities\<close>

record Identity =
  Id_Username :: string
  Id_Email :: string
  Id_Role :: string
  Id_Source :: string

definition SourceLDAP :: string where "SourceLDAP = ''ldap''"
definition SourceStatic :: string where "SourceStatic = ''static''"
definition RoleUser :: string where "RoleUser = ''user''"
definition RoleAdmin :: string where "RoleAdmin = ''admin''"
definition staticUsernamePrefix :: string where "staticUsernamePrefix = ''static:''"

lemmas identity_consts = SourceLDAP_def SourceStatic_def RoleUser_def RoleAdmin_def staticUsernamePrefix_def

section \<open>The static provider\<close>

record StaticProvider =
  sp_username :: string
  sp_usernameDigest :: string
  sp_passwordDigest :: string
  sp_role :: string

definition NewStaticProvider :: "(string \<Rightarrow> string) \<Rightarrow> string \<Rightarrow> string \<Rightarrow> string \<Rightarrow> StaticProvider result" where
  "NewStaticProvider sha username0 password role =
     (let username = TrimSpace username0
      in if username = [] \<or> password = [] \<or> HasPrefix username staticUsernamePrefix then Inl ErrInvalidConfiguration
         else if role \<noteq> RoleUser \<and> role \<noteq> RoleAdmin then Inl (Wrapf ''unknown role'' ErrInvalidConfiguration)
         else Inr \<lparr>sp_username = username, sp_usernameDigest = sha username, sp_passwordDigest = sha password, sp_role = role\<rparr>)"

definition Static_Authenticate ::
  "(string \<Rightarrow> string) \<Rightarrow> StaticProvider option \<Rightarrow> string \<Rightarrow> string \<Rightarrow> Identity result" where
  "Static_Authenticate sha pp username password =
     (case pp of
        None \<Rightarrow> Inl ErrInvalidCredentials
      | Some p \<Rightarrow>
          (if \<not> (sp_usernameDigest p = sha username \<and> sp_passwordDigest p = sha password) then Inl ErrInvalidCredentials
           else Inr \<lparr>Id_Username = staticUsernamePrefix @ sp_username p, Id_Email = [], Id_Role = sp_role p,
                     Id_Source = SourceStatic\<rparr>))"

section \<open>The LDAP provider\<close>

record ldap_Config =
  lc_URL :: string
  lc_BindDN :: string
  lc_BindPassword :: string
  lc_UserBase :: string
  lc_UserFilter :: string
  lc_UserGroupDN :: string
  lc_AdminGroupDN :: string

record ldap_Entry =
  en_DN :: string
  en_mail :: string
  en_memberOf :: "string list"

text \<open>
  \<open>dir_search base filter\<close> is the answer to a whole-subtree search with size limit 2: an error, or
  the entries (a nil result is \<open>None\<close>).
\<close>

record directory =
  dir_dial :: "string \<Rightarrow> gerror option"
  dir_bind :: "string \<Rightarrow> string \<Rightarrow> gerror option"
  dir_search :: "string \<Rightarrow> string \<Rightarrow> ldap_Entry list option result"
  dir_escape :: "string \<Rightarrow> string"
  dir_ctx_err :: "gerror option"

record parsed_url =
  url_Scheme :: string
  url_Host :: string

text \<open>\<^verbatim>\<open>strings.Count\<close> for a non-empty needle (non-overlapping) and \<^verbatim>\<open>strings.Replace(\<dots>, 1)\<close>.\<close>

function strings_Count :: "string \<Rightarrow> string \<Rightarrow> nat" where
  "strings_Count s sub =
     (if sub = [] \<or> s = [] then 0
      else if prefix sub s then Suc (strings_Count (drop (length sub) s) sub)
      else strings_Count (tl s) sub)"
  by pat_completeness auto
termination by (relation "measure (\<lambda>(s, _). length s)") auto

declare strings_Count.simps [simp del]

fun strings_Replace1 :: "string \<Rightarrow> string \<Rightarrow> string \<Rightarrow> string" where
  "strings_Replace1 [] old new = []"
| "strings_Replace1 (c # s) old new =
     (if prefix old (c # s) then new @ drop (length old) (c # s) else c # strings_Replace1 s old new)"

definition validateConfig :: "(string \<Rightarrow> parsed_url option) \<Rightarrow> ldap_Config \<Rightarrow> unit result" where
  "validateConfig url_Parse config =
     (case url_Parse (lc_URL config) of
        None \<Rightarrow> Inl (Wrapf ''ldap.url must use ldaps://'' ErrInvalidConfiguration)
      | Some u \<Rightarrow>
          (if url_Scheme u \<noteq> ''ldaps'' \<or> url_Host u = []
           then Inl (Wrapf ''ldap.url must use ldaps://'' ErrInvalidConfiguration)
           else if TrimSpace (lc_BindDN config) = [] \<or> lc_BindPassword config = [] \<or>
                   TrimSpace (lc_UserBase config) = [] \<or> strings_Count (lc_UserFilter config) ''{username}'' \<noteq> 1 \<or>
                   TrimSpace (lc_UserGroupDN config) = [] \<or> TrimSpace (lc_AdminGroupDN config) = []
           then Inl ErrInvalidConfiguration
           else Inr ()))"

record ldap_Provider =
  lp_config :: ldap_Config
  lp_dialer :: "directory option"

definition ldap_NewProvider ::
  "(string \<Rightarrow> parsed_url option) \<Rightarrow> directory \<Rightarrow> ldap_Config \<Rightarrow> directory option \<Rightarrow> ldap_Provider result" where
  "ldap_NewProvider url_Parse networkDialer config customDialer =
     (case validateConfig url_Parse config of
        Inl e \<Rightarrow> Inl e
      | Inr _ \<Rightarrow> Inr \<lparr>lp_config = config,
                     lp_dialer = Some (case customDialer of None \<Rightarrow> networkDialer | Some d \<Rightarrow> d)\<rparr>)"

definition includesDN :: "string list \<Rightarrow> string \<Rightarrow> bool" where
  "includesDN groups wanted = list_ex (\<lambda>g. EqualFold (TrimSpace g) (TrimSpace wanted)) groups"

definition roleForGroups :: "ldap_Config \<Rightarrow> string list \<Rightarrow> string result" where
  "roleForGroups config groups =
     (if includesDN groups (lc_AdminGroupDN config) then Inr RoleAdmin
      else if includesDN groups (lc_UserGroupDN config) then Inr RoleUser
      else Inl ErrAccessDenied)"

definition findUser :: "directory \<Rightarrow> ldap_Config \<Rightarrow> string \<Rightarrow> ldap_Entry result" where
  "findUser D config username =
     (case dir_ctx_err D of
        Some e \<Rightarrow> Inl e
      | None \<Rightarrow>
          (let flt = strings_Replace1 (lc_UserFilter config) ''{username}'' (dir_escape D username)
           in case dir_search D (lc_UserBase config) flt of
                Inl e \<Rightarrow> Inl (Wrapf ''search LDAP user'' e)
              | Inr None \<Rightarrow> Inl ErrInvalidCredentials
              | Inr (Some [entry]) \<Rightarrow> Inr entry
              | Inr (Some _) \<Rightarrow> Inl ErrInvalidCredentials))"

definition ldap_Authenticate :: "ldap_Provider option \<Rightarrow> string \<Rightarrow> string \<Rightarrow> Identity result" where
  "ldap_Authenticate pp username0 password =
     (case pp of
        None \<Rightarrow> Inl (ErrMsg ''LDAP provider is not configured'')
      | Some p \<Rightarrow>
          (case lp_dialer p of
             None \<Rightarrow> Inl (ErrMsg ''LDAP provider is not configured'')
           | Some D \<Rightarrow>
               (let username = TrimSpace username0; config = lp_config p
                in if username = [] \<or> password = [] \<or> HasPrefix username staticUsernamePrefix then Inl ErrInvalidCredentials
                   else (case dir_dial D (lc_URL config) of
                           Some e \<Rightarrow> Inl (Wrapf ''dial LDAP'' e)
                         | None \<Rightarrow>
                             (case dir_bind D (lc_BindDN config) (lc_BindPassword config) of
                                Some e \<Rightarrow> Inl (Wrapf ''LDAP service bind'' e)
                              | None \<Rightarrow>
                                  (case findUser D config username of
                                     Inl e \<Rightarrow> Inl e
                                   | Inr entry \<Rightarrow>
                                       (case dir_bind D (en_DN entry) password of
                                          Some _ \<Rightarrow> Inl ErrInvalidCredentials
                                        | None \<Rightarrow>
                                            (case roleForGroups config (en_memberOf entry) of
                                               Inl e \<Rightarrow> Inl e
                                             | Inr role \<Rightarrow>
                                                 Inr \<lparr>Id_Username = username, Id_Email = en_mail entry, Id_Role = role,
                                                      Id_Source = SourceLDAP\<rparr>))))))))"

section \<open>Login\<close>

definition userSessionTTL :: duration where "userSessionTTL = 5 * minute"
definition adminSessionTTL :: duration where "adminSessionTTL = 10 * hour"

definition sessionTTL :: "string \<Rightarrow> duration" where
  "sessionTTL role = (if role = RoleAdmin then adminSessionTTL else userSessionTTL)"

definition newSessionToken :: "world \<Rightarrow> string result \<times> world" where
  "newSessionToken w =
     (case rand_Read 32 w of
        (None, w1) \<Rightarrow> (Inl (ErrMsg ''rand''), w1)
      | (Some raw, w1) \<Rightarrow> (Inr (RawURLEncode raw), w1))"

record LoginResult =
  lr_UserID :: int
  lr_Role :: string
  lr_Token :: string
  lr_ExpiresAt :: instant

record UserProvisioner =
  prov_UpsertStatic :: "UpsertUserParams \<Rightarrow> world \<Rightarrow> User result \<times> world"
  prov_UpsertFromLDAP :: "UpsertUserParams \<Rightarrow> world \<Rightarrow> User result \<times> world"

record LoginService =
  ls_provider :: "(string \<Rightarrow> string \<Rightarrow> world \<Rightarrow> Identity result \<times> world) option"
  ls_identitySource :: string
  ls_users :: "UserProvisioner option"
  ls_sessions :: "(CreateSessionParams \<Rightarrow> world \<Rightarrow> Session result \<times> world) option"

definition NewLoginService where
  "NewLoginService provider source us ss =
     \<lparr>ls_provider = provider, ls_identitySource = source, ls_users = us, ls_sessions = ss\<rparr>"

definition provision :: "UserProvisioner \<Rightarrow> Identity \<Rightarrow> world \<Rightarrow> User result \<times> world" where
  "provision us identity w =
     (let params = \<lparr>up_Username = Id_Username identity, up_Email = Id_Email identity, up_Role = Id_Role identity\<rparr>;
          wrap = (\<lambda>(r, w1). (case r of Inl e \<Rightarrow> Inl (Wrapf ''provision user'' e) | Inr u \<Rightarrow> Inr u, w1))
      in if Id_Source identity = SourceStatic then wrap (prov_UpsertStatic us params w)
         else if Id_Source identity = SourceLDAP then wrap (prov_UpsertFromLDAP us params w)
         else (Inl ErrSourceMismatch, w))"

definition Login :: "LoginService option \<Rightarrow> string \<Rightarrow> string \<Rightarrow> world \<Rightarrow> LoginResult result \<times> world" where
  "Login sp username password w =
     (case sp of
        None \<Rightarrow> (Inl (ErrMsg ''login service is not configured''), w)
      | Some s \<Rightarrow>
          (case (ls_provider s, ls_users s, ls_sessions s) of
             (Some provider, Some us, Some create) \<Rightarrow>
               (case provider username password w of
                  (Inl e, w1) \<Rightarrow> (Inl e, w1)
                | (Inr identity, w1) \<Rightarrow>
                    (if Id_Source identity \<noteq> ls_identitySource s then (Inl ErrSourceMismatch, w1)
                     else if Id_Role identity \<noteq> RoleUser \<and> Id_Role identity \<noteq> RoleAdmin
                     then (Inl (ErrMsg ''identity has invalid role''), w1)
                     else (case provision us identity w1 of
                             (Inl e, w2) \<Rightarrow> (Inl e, w2)
                           | (Inr user, w2) \<Rightarrow>
                               (if User_Status user \<noteq> ''active'' then (Inl ErrUserBlocked, w2)
                                else (case newSessionToken w2 of
                                        (Inl e, w3) \<Rightarrow> (Inl (Wrapf ''generate session token'' e), w3)
                                      | (Inr token, w3) \<Rightarrow>
                                          (let (now, w4) = time_Now w3; expiresAt = now + sessionTTL (Id_Role identity)
                                           in case create \<lparr>cs_UserID = User_ID user, cs_Token = token,
                                                           cs_Role = Id_Role identity, cs_ExpiresAt = expiresAt,
                                                           cs_CreatedIP = None\<rparr> w4 of
                                                (Inl e, w5) \<Rightarrow> (Inl (Wrapf ''create session'' e), w5)
                                              | (Inr _, w5) \<Rightarrow>
                                                  (Inr \<lparr>lr_UserID = User_ID user, lr_Role = Id_Role identity,
                                                        lr_Token = token, lr_ExpiresAt = expiresAt\<rparr>, w5)))))))
           | _ \<Rightarrow> (Inl (ErrMsg ''login service is not configured''), w)))"

section \<open>Session cookies\<close>

record SessionPrincipal =
  sn_UserID :: int
  sn_Role :: string

record SessionAuthenticator =
  sa_lookup :: "(string \<Rightarrow> string \<Rightarrow> world \<Rightarrow> Session result \<times> world) option"
  sa_identitySource :: string
  sa_cache :: "(string, Session) TTL"

definition SessionCookieName :: string where "SessionCookieName = ''cliproxy_session''"

definition NewSessionAuthenticator where
  "NewSessionAuthenticator lookup source = \<lparr>sa_lookup = lookup, sa_identitySource = source, sa_cache = None\<rparr>"

definition NewCachedSessionAuthenticator where
  "NewCachedSessionAuthenticator lookup source ttl =
     (NewSessionAuthenticator lookup source)\<lparr>sa_cache := NewTTL ttl\<rparr>"

definition sessionCacheKey :: "(string \<Rightarrow> string) \<Rightarrow> string \<Rightarrow> string \<Rightarrow> string" where
  "sessionCacheKey sha source token = sha (source @ [CHR 0x00] @ token)"

definition Session_CacheStats :: "SessionAuthenticator option \<Rightarrow> Stats" where
  "Session_CacheStats ap =
     (case ap of None \<Rightarrow> \<lparr>Hits = 0, Misses = 0\<rparr> | Some a \<Rightarrow> TTL_Stats (sa_cache a))"

definition Session_InvalidateUser :: "int \<Rightarrow> SessionAuthenticator option \<Rightarrow> SessionAuthenticator option" where
  "Session_InvalidateUser userID ap =
     (case ap of
        None \<Rightarrow> None
      | Some a \<Rightarrow>
          (if sa_cache a = None \<or> userID \<le> 0 then Some a
           else Some (a\<lparr>sa_cache := TTL_DeleteWhere (Some (\<lambda>_ s. Session_UserID s = userID)) (sa_cache a)\<rparr>)))"

definition InvalidateToken ::
  "(string \<Rightarrow> string) \<Rightarrow> string \<Rightarrow> SessionAuthenticator option \<Rightarrow> SessionAuthenticator option" where
  "InvalidateToken sha token ap =
     (case ap of
        None \<Rightarrow> None
      | Some a \<Rightarrow>
          (if sa_cache a = None \<or> token = [] then Some a
           else Some (a\<lparr>sa_cache := TTL_Delete (sessionCacheKey sha (sa_identitySource a) token) (sa_cache a)\<rparr>)))"

definition session_principal :: "Session \<Rightarrow> SessionPrincipal" where
  "session_principal s = \<lparr>sn_UserID = Session_UserID s, sn_Role = Session_Role s\<rparr>"

definition AuthenticateRequest ::
  "(string \<Rightarrow> string) \<Rightarrow> Request option \<Rightarrow> SessionAuthenticator option \<Rightarrow> world
   \<Rightarrow> SessionPrincipal result \<times> SessionAuthenticator option \<times> world" where
  "AuthenticateRequest sha request ap w =
     (case ap of
        None \<Rightarrow> (Inl ErrInvalidSession, None, w)
      | Some a \<Rightarrow>
          (case sa_lookup a of
             None \<Rightarrow> (Inl ErrInvalidSession, Some a, w)
           | Some lookup \<Rightarrow>
               (case request of
                  None \<Rightarrow> (Inl ErrNoSession, Some a, w)
                | Some rq \<Rightarrow>
                    (case map_of (rq_Cookies rq) SessionCookieName of
                       None \<Rightarrow> (Inl ErrNoSession, Some a, w)
                     | Some token \<Rightarrow>
                         (if token = [] then (Inl ErrNoSession, Some a, w)
                          else (let key = sessionCacheKey sha (sa_identitySource a) token;
                                    (hit, a1, w1) = (case sa_cache a of
                                        None \<Rightarrow> (None, a, w)
                                      | Some _ \<Rightarrow>
                                          (let (now, w0) = time_Now w; (h, c) = TTL_Get now key (sa_cache a)
                                           in (h, a\<lparr>sa_cache := c\<rparr>, w0)))
                                in case hit of
                                     Some s \<Rightarrow> (Inr (session_principal s), Some a1, w1)
                                   | None \<Rightarrow>
                                       (case lookup token (sa_identitySource a) w1 of
                                          (Inl _, w2) \<Rightarrow> (Inl ErrInvalidSession, Some a1, w2)
                                        | (Inr s, w2) \<Rightarrow>
                                            (case sa_cache a1 of
                                               None \<Rightarrow> (Inr (session_principal s), Some a1, w2)
                                             | Some _ \<Rightarrow>
                                                 (let (now, w3) = time_Now w2
                                                  in (Inr (session_principal s),
                                                      Some (a1\<lparr>sa_cache := TTL_Set now key s (sa_cache a1)\<rparr>), w3))))))))))"

end
