(* ===== verification/Session_Cookies.thy ===== *)
theory Session_Cookies
  imports Identity
begin

text \<open>
  Correctness of the cached session-cookie check of the management API
  (\<^verbatim>\<open>internal/auth/identity/session.go\<close> over \<^verbatim>\<open>internal/store/sessions.go\<close>): blocking a user and logging
  out take effect at once on the replica that does it, and elsewhere a cookie outlives its session by
  at most one time to live.
\<close>

section \<open>One request\<close>

definition cookie_of :: "Request \<Rightarrow> string option" where
  "cookie_of rq = map_of (rq_Cookies rq) SessionCookieName"

definition store_authenticator ::
  "(string \<Rightarrow> string) \<Rightarrow> string \<Rightarrow> (string, Session) TTL \<Rightarrow> SessionAuthenticator" where
  "store_authenticator sha source cache =
     \<lparr>sa_lookup = Some (GetByTokenForSource sha), sa_identitySource = source, sa_cache = cache\<rparr>"

lemma GetByTokenForSource_frame:
  assumes "GetByTokenForSource sha token source w = (x, w')"
  shows "w_db w' = w_db w \<and> w_clock w \<le> w_clock w' \<and> w_tz w' = w_tz w"
proof (cases "token = [] \<or> \<not> validIdentitySource source")
  case True
  with assms show ?thesis by (auto simp: GetByTokenForSource_def)
next
  case False
  let ?q = "GetSessionByTokenHashForSource (hashSessionToken sha token) source"
  obtain y w1 where q: "run_query ?q w = (y, w1)" by fastforce
  with False assms have "w' = w1"
    by (auto simp: GetByTokenForSource_def split: sum.splits if_splits prod.splits)
  moreover have "w_db w1 = w_db w"
    using q by (rule run_query_read_only [rotated]) (auto simp: GetSessionByTokenHashForSource_def split: option.splits)
  ultimately show ?thesis using run_query_clock [OF q] by simp
qed

text \<open>
  The summary the proofs below use: the answer comes from the cache, or is what the database vouches
  for at an instant of the call and is then remembered.
\<close>

lemma AuthenticateRequest_outcome:
  assumes "AuthenticateRequest sha (Some rq) (Some (store_authenticator sha src c)) w = (x, a', w')"
  obtains (refused) e c' where "x = Inl e" "a' = Some (store_authenticator sha src c')"
      "c' = c \<or> (\<exists>t k. c' = snd (TTL_Get t k c))" "w_db w' = w_db w" "w_clock w \<le> w_clock w'"
  | (cached) token s t where "cookie_of rq = Some token" "token \<noteq> []" "x = Inr (session_principal s)"
      "ttl_live c t (sessionCacheKey sha src token) = Some s"
      "a' = Some (store_authenticator sha src (snd (TTL_Get t (sessionCacheKey sha src token) c)))"
      "t = w_clock w'" "w_clock w \<le> w_clock w'" "w_db w' = w_db w"
  | (looked) token s t t0 c' where "cookie_of rq = Some token" "token \<noteq> []" "x = Inr (session_principal s)"
      "session_valid_at sha (w_db w) t token src s" "w_clock w \<le> t" "t \<le> w_clock w'" "w_db w' = w_db w"
      "a' = Some (store_authenticator sha src c')"
      "c' = c \<or> c' = TTL_Set (w_clock w') (sessionCacheKey sha src token) s (snd (TTL_Get t0 (sessionCacheKey sha src token) c))"
proof (cases "cookie_of rq = None \<or> cookie_of rq = Some []")
  case True
  with assms show thesis
    by (intro refused [of ErrNoSession c]) (auto simp: AuthenticateRequest_def store_authenticator_def cookie_of_def)
next
  case False
  then obtain token where tok: "cookie_of rq = Some token" "token \<noteq> []" by auto
  note unf = AuthenticateRequest_def store_authenticator_def tok [unfolded cookie_of_def] time_Now_def Let_def
  let ?k = "sessionCacheKey sha src token"
  show thesis
  proof (cases c)
    case None
    obtain y w2 where l: "GetByTokenForSource sha token src w = (y, w2)" by fastforce
    note fr = GetByTokenForSource_frame [OF l]
    show thesis
    proof (cases y)
      case (Inl e)
      with assms None l fr tok show thesis by (intro refused [of ErrInvalidSession c]) (auto simp: unf)
    next
      case (Inr s)
      from GetByTokenForSource_cases [OF l [unfolded Inr]] have v: "session_valid_at sha (w_db w) (w_clock w2) token src s" by auto
      from assms None l Inr tok have "x = Inr (session_principal s)" "w' = w2" "a' = Some (store_authenticator sha src c)"
        by (auto simp: unf)
      with v fr tok show thesis by (intro looked [of token s "w_clock w2"]) auto
    qed
  next
    case (Some cc)
    let ?now = "w_clock (advance w)"
    obtain hit c1 where g: "TTL_Get ?now ?k c = (hit, c1)" by fastforce
    then have hit: "hit = ttl_live c ?now ?k" "c1 = snd (TTL_Get ?now ?k c)" using ttlc.get_value [of ?now ?k c] by auto
    have c1: "c1 \<noteq> None" using g Some by (auto simp: TTL_Get_def split: if_splits option.splits)
    show thesis
    proof (cases hit)
      case hs: (Some s)
      with assms Some g have "x = Inr (session_principal s)" "w' = advance w" "a' = Some (store_authenticator sha src c1)"
        by (auto simp: unf)
      with hs hit tok advance_mono [of w] show thesis by (intro cached [of token s ?now]) auto
    next
      case miss: None
      obtain y w2 where l: "GetByTokenForSource sha token src (advance w) = (y, w2)" by fastforce
      note fr = GetByTokenForSource_frame [OF l]
      show thesis
      proof (cases y)
        case (Inl e)
        with assms Some g miss l have "x = Inl ErrInvalidSession" "w' = w2" "a' = Some (store_authenticator sha src c1)"
          by (auto simp: unf)
        with fr hit advance_mono [of w] show thesis by (intro refused [of ErrInvalidSession c1]) auto
      next
        case (Inr s)
        from GetByTokenForSource_cases [OF l [unfolded Inr]] have v: "session_valid_at sha (w_db w) (w_clock w2) token src s" by auto
        from assms Some g miss l Inr c1 have "x = Inr (session_principal s)" "w' = advance w2"
          "a' = Some (store_authenticator sha src (TTL_Set (w_clock w') ?k s c1))"
          by (auto simp: unf)
        with v fr tok hit advance_mono [of w] advance_mono [of w2] show thesis
          by (intro looked [of token s "w_clock w2" _ ?now]) auto
      qed
    qed
  qed
qed

section \<open>Runs of one replica\<close>

inductive cookie_step ::
  "(string \<Rightarrow> string) \<Rightarrow> string \<Rightarrow> (database \<Rightarrow> database \<Rightarrow> bool) \<Rightarrow> duration \<Rightarrow>
   (string, Session) TTL \<times> world \<Rightarrow> (string, Session) TTL \<times> world \<Rightarrow> bool"
  for sha src R \<delta> where
  cookie_request: "AuthenticateRequest sha (Some rq) (Some (store_authenticator sha src c)) w =
       (x, Some (store_authenticator sha src c'), w') \<Longrightarrow> w_clock w' \<le> w_clock w + \<delta> \<Longrightarrow>
     cookie_step sha src R \<delta> (c, w) (c', w')"
| cookie_invalidate_user: "Session_InvalidateUser i (Some (store_authenticator sha src c)) =
       Some (store_authenticator sha src c') \<Longrightarrow> cookie_step sha src R \<delta> (c, w) (c', w)"
| cookie_invalidate_token: "InvalidateToken sha token (Some (store_authenticator sha src c)) =
       Some (store_authenticator sha src c') \<Longrightarrow> cookie_step sha src R \<delta> (c, w) (c', w)"
| cookie_environment: "w_clock w \<le> w_clock w' \<Longrightarrow> R (w_db w) (w_db w') \<Longrightarrow> cookie_step sha src R \<delta> (c, w) (c, w')"

abbreviation cookie_steps where "cookie_steps sha src R \<delta> \<equiv> (cookie_step sha src R \<delta>)\<^sup>*\<^sup>*"

lemma store_authenticator_eq [simp]:
  "store_authenticator sha src c = store_authenticator sha src c' \<longleftrightarrow> c = c'"
  by (simp add: store_authenticator_def)

lemma Session_InvalidateUser_store:
  "Session_InvalidateUser i (Some (store_authenticator sha src c)) =
   Some (store_authenticator sha src (if i \<le> 0 then c else TTL_DeleteWhere (Some (\<lambda>_ s. Session_UserID s = i)) c))"
  by (auto simp: Session_InvalidateUser_def store_authenticator_def TTL_DeleteWhere_def)

lemma InvalidateToken_store:
  "InvalidateToken sha token (Some (store_authenticator sha src c)) =
   Some (store_authenticator sha src (if token = [] then c else TTL_Delete (sessionCacheKey sha src token) c))"
  by (auto simp: InvalidateToken_def store_authenticator_def TTL_Delete_def)

text \<open>The argument shared by the theorems: \<open>D\<close> is a fact about the database, \<open>B\<close> what may be cached.\<close>

locale cookie_safety =
  fixes sha :: "string \<Rightarrow> string" and src :: string
    and R :: "database \<Rightarrow> database \<Rightarrow> bool" and \<delta> :: duration and L :: duration
    and D :: "database \<Rightarrow> bool" and B :: "instant \<Rightarrow> string \<Rightarrow> Session \<Rightarrow> bool"
  assumes durations: "0 \<le> \<delta>" "0 < L"
    and D_rely: "R d d' \<Longrightarrow> D d \<Longrightarrow> D d'"
    and valid_B: "D d \<Longrightarrow> session_valid_at sha d t token src s \<Longrightarrow> t' < t + \<delta> + L \<Longrightarrow>
       B t' (sessionCacheKey sha src token) s"
begin

definition inv :: "(string, Session) TTL \<times> world \<Rightarrow> bool" where
  "inv st = (case st of (c, w) \<Rightarrow> D (w_db w) \<and> ttl_life c \<le> L \<and> ttlc.all_live B c)"

lemma request_inv:
  assumes "inv (c, w)" and a: "AuthenticateRequest sha (Some rq) (Some (store_authenticator sha src c)) w =
      (x, Some (store_authenticator sha src c'), w')" and "w_clock w' \<le> w_clock w + \<delta>"
  shows "inv (c', w')"
  using a
proof (cases rule: AuthenticateRequest_outcome)
  case (refused e c1)
  with assms(1) show ?thesis by (auto simp: inv_def ttlc.life_simps ttlc.all_live_get)
next
  case (cached token s t)
  with assms(1) show ?thesis by (auto simp: inv_def ttlc.life_simps ttlc.all_live_get)
next
  case (looked token s t t0 c1)
  let ?k = "sessionCacheKey sha src token"
  let ?g = "snd (TTL_Get t0 ?k c)"
  have g: "ttlc.all_live B ?g" "ttl_life ?g \<le> L" using assms(1) by (auto simp: inv_def ttlc.all_live_get ttlc.life_simps)
  have "B t' ?k s" if "t' < w_clock w' + ttl_life ?g" for t'
    using that looked assms(1,3) g(2) by (intro valid_B [of "w_db w" t]) (auto simp: inv_def)
  then have "ttlc.all_live B (TTL_Set (w_clock w') ?k s ?g)" by (intro ttlc.all_live_put [OF g(1)]) auto
  with looked assms(1) g show ?thesis by (auto simp: inv_def ttlc.life_simps)
qed

lemma step_inv:
  assumes "cookie_step sha src R \<delta> (c, w) (c', w')" and i: "inv (c, w)"
  shows "inv (c', w')"
  using assms(1)
proof (cases rule: cookie_step.cases)
  case (cookie_request rq x)
  with i show ?thesis by (blast intro: request_inv)
next
  case (cookie_invalidate_user u)
  with i show ?thesis
    by (auto simp: inv_def Session_InvalidateUser_store ttlc.life_simps intro!: ttlc.all_live_delw dest: ttlc.all_liveD)
next
  case (cookie_invalidate_token token)
  with i show ?thesis by (auto simp: inv_def InvalidateToken_store ttlc.life_simps ttlc.all_live_del)
next
  case cookie_environment
  with i show ?thesis by (auto simp: inv_def intro: D_rely)
qed

lemma steps_inv: "cookie_steps sha src R \<delta> s s' \<Longrightarrow> inv s \<Longrightarrow> inv s'"
proof (induction rule: rtranclp_induct)
  case (step s1 s2)
  then show ?case by (cases s1; cases s2) (auto intro: step_inv)
qed

lemma accepted_B:
  assumes "cookie_steps sha src R \<delta> st (c, w)" and "inv st"
    and a: "AuthenticateRequest sha (Some rq) (Some (store_authenticator sha src c)) w = (Inr p, a', w')"
  obtains token s t where "cookie_of rq = Some token" "token \<noteq> []" "p = session_principal s" "w_clock w \<le> t"
    "t \<le> w_clock w'" "B t (sessionCacheKey sha src token) s"
proof -
  from assms have i: "inv (c, w)" by (blast intro: steps_inv)
  from a show thesis
  proof (cases rule: AuthenticateRequest_outcome)
    case refused
    then show thesis by simp
  next
    case (cached token s t)
    with i that [of token s t] show thesis by (auto simp: inv_def dest: ttlc.all_liveD)
  next
    case (looked token s t)
    with i durations have "B t (sessionCacheKey sha src token) s" by (intro valid_B [of "w_db w" t]) (auto simp: inv_def)
    with looked that [of token s t] show thesis by auto
  qed
qed

end


section \<open>Blocked users, logout, expiry\<close>

lemma valid_active: "session_valid_at sha d t token src s \<Longrightarrow> user_active d (Session_UserID s)"
  by (auto simp: session_valid_at_def user_active_def sessionFromDB_def)

interpretation cb: cookie_safety sha src "stays_blocked uid" "int n" "1 + \<bar>l\<bar>" "\<lambda>d. \<not> user_active d uid"
  "\<lambda>_ _ s. Session_UserID s \<noteq> uid" for sha src n l uid
  by unfold_locales (auto simp: stays_blocked_def dest: valid_active)

lemma blocked_cookies_refused:
  assumes "\<not> user_active (w_db w1) uid" and "0 < uid"
    and "Session_InvalidateUser uid (Some (store_authenticator sha src c)) = Some (store_authenticator sha src c1)"
    and "cookie_steps sha src (stays_blocked uid) (int n) (c1, w1) (c2, w2)"
    and "AuthenticateRequest sha (Some rq) (Some (store_authenticator sha src c2)) w2 = (Inr p, a', w3)"
  shows "sn_UserID p \<noteq> uid"
proof -
  from assms(2,3) have "c1 = TTL_DeleteWhere (Some (\<lambda>_ s. Session_UserID s = uid)) c"
    by (simp add: Session_InvalidateUser_store)
  moreover have "ttlc.all_live (\<lambda>_ _ s. Session_UserID s \<noteq> uid) (TTL_DeleteWhere (Some (\<lambda>_ s. Session_UserID s = uid)) c)"
    by (rule ttlc.all_live_delw)
  ultimately have "cb.inv (ttl_life c) uid (c1, w1)"
    unfolding cb.inv_def using assms(1) by (simp add: ttlc.life_simps)
  from cb.accepted_B [OF assms(4) this assms(5)] obtain s where "p = session_principal s" "Session_UserID s \<noteq> uid" .
  then show ?thesis by (simp add: session_principal_def)
qed

text \<open>
  Blocking a user ends the user's management sessions at once on the replica that does it: after a
  successful \<open>SetStatusWithAudit(\<dots>, "blocked")\<close> and the \<open>InvalidateUser\<close> that follows it, no cookie is
  accepted as that user, whatever was cached, until somebody unblocks the user.
\<close>

theorem blocked_user_cookie_refused:
  assumes "SetStatusWithAudit J actor uid ''blocked'' ip w = (Inr (), w1)"
    and "Session_InvalidateUser uid (Some (store_authenticator sha src c)) = Some (store_authenticator sha src c1)"
    and "cookie_steps sha src (stays_blocked uid) (int n) (c1, w1) (c2, w2)"
    and "AuthenticateRequest sha (Some rq) (Some (store_authenticator sha src c2)) w2 = (Inr p, a', w3)"
  shows "sn_UserID p \<noteq> uid"
  using blocked_cookies_refused [OF block_effect [OF assms(1)] assms(2-4)] .

text \<open>The rely condition for logout: nobody stores a new session under the hash of this token.\<close>

definition no_new_session :: "string \<Rightarrow> database \<Rightarrow> database \<Rightarrow> bool" where
  "no_new_session h d d' =
     (\<forall>s' \<in> set (sessions d'). s_token_hash s' = h \<longrightarrow>
        (\<exists>s \<in> set (sessions d). s_token_hash s = h \<and> s_user_id s = s_user_id s') \<and>
        (\<forall>u' \<in> set (users d'). u_id u' = s_user_id s' \<longrightarrow>
           (\<exists>u \<in> set (users d). u_id u = u_id u' \<and> u_identity_source u = u_identity_source u')))"

definition logged_out :: "(string \<Rightarrow> string) \<Rightarrow> string \<Rightarrow> string \<Rightarrow> database \<Rightarrow> bool" where
  "logged_out sha token src d =
     (\<forall>s \<in> set (sessions d). \<forall>u \<in> set (users d). \<not> (s_token_hash s = sha token \<and> u_id u = s_user_id s \<and> u_identity_source u = src))"

lemma logged_out_stays: "no_new_session (sha token) d d' \<Longrightarrow> logged_out sha token src d \<Longrightarrow> logged_out sha token src d'"
  unfolding no_new_session_def logged_out_def by metis

lemma logged_out_invalid: "logged_out sha token src d \<Longrightarrow> \<not> session_valid_at sha d t token src s"
  by (auto simp: logged_out_def session_valid_at_def)

lemma valid_key_other:
  assumes "inj sha" and "logged_out sha token src d" and "session_valid_at sha d t tok src s"
  shows "sessionCacheKey sha src tok \<noteq> sessionCacheKey sha src token"
proof
  assume "sessionCacheKey sha src tok = sessionCacheKey sha src token"
  with assms(1) have "tok = token" by (auto simp: sessionCacheKey_def dest: injD)
  with assms(2,3) logged_out_invalid show False by blast
qed

interpretation co: cookie_safety sha src "no_new_session (sha token)" "int n" "1 + \<bar>l\<bar>"
  "\<lambda>d. inj sha \<and> logged_out sha token src d" "\<lambda>_ k _. k \<noteq> sessionCacheKey sha src token" for sha src token n l
  by unfold_locales (auto intro: logged_out_stays dest: valid_key_other)

text \<open>
  Logging out takes effect at once on the replica that does it: after a successful
  \<open>DeleteByTokenForSource\<close> and the \<open>InvalidateToken\<close> that follows it, the cookie is refused for good,
  whatever was cached, as long as no session is created under the same token hash. SHA-256 is assumed
  free of collisions. The calls of the replica follow one another here; \<open>Cookie_Interleaving\<close> treats calls that overlap.
\<close>

theorem logged_out_cookie_refused:
  assumes "inj sha" and "DeleteByTokenForSource sha token src w = (Inr (), w1)"
    and "InvalidateToken sha token (Some (store_authenticator sha src c)) = Some (store_authenticator sha src c1)"
    and "cookie_steps sha src (no_new_session (sha token)) (int n) (c1, w1) (c2, w2)"
    and "cookie_of rq = Some token"
    and "AuthenticateRequest sha (Some rq) (Some (store_authenticator sha src c2)) w2 = (x, a', w3)"
  shows "\<not> is_ok x"
proof
  assume "is_ok x"
  then obtain p where x: "x = Inr p" by (auto simp: is_ok_conv)
  have tok: "token \<noteq> []" using assms(2) by (auto simp: DeleteByTokenForSource_def)
  note del = DeleteByTokenForSource_ok [OF assms(2)]
  have "logged_out sha token src (w_db w1)" by (auto simp: logged_out_def del)
  moreover from assms(3) tok have "c1 = TTL_Delete (sessionCacheKey sha src token) c" by (simp add: InvalidateToken_store)
  ultimately have "co.inv (ttl_life c) sha token src (c1, w1)"
    unfolding co.inv_def using assms(1) by (auto simp: ttlc.life_simps ttlc.all_live_def ttlc.del_live split: if_splits)
  from co.accepted_B [OF assms(4) this assms(6) [unfolded x]] assms(5) show False by auto
qed

interpretation ce: cookie_safety sha src "\<lambda>_ _. True" "int n" "int (Suc m)" "\<lambda>_. True"
  "\<lambda>t _ s. t < Session_ExpiresAt s + int n + int (Suc m)" for sha src n m
  by unfold_locales (auto simp: session_valid_at_def sessionFromDB_def)

text \<open>
  A cookie outlives its session only briefly. Whatever the replica and the rest of the system do,
  a request that is accepted is accepted in the name of a session that was not yet expired one time to
  live of the cache plus the duration of one call before the request.
\<close>

theorem cookie_expiry_bound:
  assumes "0 < ttl"
    and "cookie_steps sha src (\<lambda>_ _. True) (int n) (NewTTL ttl, w) (c2, w2)"
    and "AuthenticateRequest sha (Some rq) (Some (store_authenticator sha src c2)) w2 = (Inr p, a', w3)"
  shows "\<exists>s. p = session_principal s \<and> w_clock w2 < Session_ExpiresAt s + int n + ttl"
proof -
  from assms(1) obtain m where m: "ttl = int (Suc m)" using zero_less_imp_eq_int [of ttl] by (metis Suc_pred)
  have "ce.inv m n (NewTTL ttl, w)"
    unfolding ce.inv_def using m by (simp add: ttl_life_def NewTTL_def ttlc.all_live_def ttl_live_def)
  from ce.accepted_B [OF assms(2) this assms(3)] obtain s t where "p = session_principal s" "w_clock w2 \<le> t"
    "t < Session_ExpiresAt s + int n + int (Suc m)" .
  with m show ?thesis by (intro exI [of _ s]) simp
qed

section \<open>Concrete runs\<close>

definition cookie_request_of :: "string \<Rightarrow> Request" where
  "cookie_request_of token = \<lparr>rq_Method = ''GET'', rq_Path = ''/api/v1/me'', rq_Header = [], rq_URL = Some [],
     rq_Cookies = [(SessionCookieName, token)], rq_RemoteAddr = [], rq_Body = []\<rparr>"

lemma cookie_of_request [simp]: "cookie_of (cookie_request_of token) = Some token"
  by (simp add: cookie_of_def cookie_request_of_def)

lemmas cookie_run_defs = AuthenticateRequest_def store_authenticator_def cookie_request_of_def SessionCookieName_def
  time_Now_def Let_def ttl_defs run_query_def round_trip_def advance_def GetByTokenForSource_def
  GetSessionByTokenHashForSource_def session_join_def hashSessionToken_def validIdentitySource_def
  start_world_def one_session_db_def two_user_db_def empty_db_def sample_user_def

theorem blocked_user_cookie_refused_witness:
  "\<exists>w1 p a' w3. SetStatusWithAudit \<lparr>json_valid = (\<lambda>_. True), json_obj = (\<lambda>_. ''{}'')\<rparr> 2 1 ''blocked'' None (start_world one_session_db 5) = (Inr (), w1) \<and>
     AuthenticateRequest id (Some (cookie_request_of ''tok'')) (Some (store_authenticator id ''static'' (TTL_DeleteWhere (Some (\<lambda>_ s. Session_UserID s = 1)) (NewTTL 10)))) w1 = (Inr p, a', w3) \<and>
     sn_UserID p \<noteq> 1"
proof -
  let ?J = "\<lparr>json_valid = (\<lambda>_. True), json_obj = (\<lambda>_. ''{}'')\<rparr>"
  let ?s = "SetStatusWithAudit ?J 2 1 ''blocked'' None (start_world one_session_db 5)"
  let ?c = "TTL_DeleteWhere (Some (\<lambda>_ s. Session_UserID s = 1)) (NewTTL 10)"
  note defs = SetStatusWithAudit_def in_tx_def SetStatus_def BlockUserAndDeleteSessions_def Audit_Insert_def
    InsertAdminAuditLog_def FormatInt_def has_user_def update_where_def delete_where_def cookie_run_defs
  obtain w1 where s: "?s = (Inr (), w1)" by (simp add: defs)
  have "\<exists>p a' w3. AuthenticateRequest id (Some (cookie_request_of ''tok'')) (Some (store_authenticator id ''static'' ?c)) (snd ?s) = (Inr p, a', w3)"
    by (auto simp: defs)
  with s obtain p a' w3 where a:
    "AuthenticateRequest id (Some (cookie_request_of ''tok'')) (Some (store_authenticator id ''static'' ?c)) w1 = (Inr p, a', w3)" by auto
  have i: "Session_InvalidateUser 1 (Some (store_authenticator id ''static'' (NewTTL 10))) = Some (store_authenticator id ''static'' ?c)"
    by (simp add: Session_InvalidateUser_store)
  from blocked_user_cookie_refused [OF s i rtranclp.rtrancl_refl a] s a show ?thesis by blast
qed

theorem logged_out_cookie_refused_witness:
  "\<exists>w1. DeleteByTokenForSource id ''tok'' ''static'' (start_world one_session_db 5) = (Inr (), w1) \<and>
     \<not> is_ok (fst (AuthenticateRequest id (Some (cookie_request_of ''tok''))
       (Some (store_authenticator id ''static'' (TTL_Delete (sessionCacheKey id ''static'' ''tok'') (NewTTL 10)))) w1))"
proof -
  let ?c = "TTL_Delete (sessionCacheKey id ''static'' ''tok'') (NewTTL 10)"
  obtain w1 where d: "DeleteByTokenForSource id ''tok'' ''static'' (start_world one_session_db 5) = (Inr (), w1)"
    by (simp add: DeleteByTokenForSource_def DeleteSessionByTokenHashForSource_def count_where_def cookie_run_defs)
  have i: "InvalidateToken id ''tok'' (Some (store_authenticator id ''static'' (NewTTL 10))) = Some (store_authenticator id ''static'' ?c)"
    by (simp add: InvalidateToken_store)
  obtain x a' w3 where a: "AuthenticateRequest id (Some (cookie_request_of ''tok'')) (Some (store_authenticator id ''static'' ?c)) w1 = (x, a', w3)"
    by (metis prod_cases3)
  from logged_out_cookie_refused [OF inj_on_id d i rtranclp.rtrancl_refl cookie_of_request a] d a show ?thesis by simp
qed

theorem cookie_expiry_bound_witness:
  "\<exists>p a' w3 s. AuthenticateRequest id (Some (cookie_request_of ''tok'')) (Some (store_authenticator id ''static'' (NewTTL 10))) (start_world one_session_db 5) = (Inr p, a', w3) \<and>
     p = session_principal s \<and> 5 < Session_ExpiresAt s + int 0 + 10"
proof -
  obtain p a' w3 where a: "AuthenticateRequest id (Some (cookie_request_of ''tok'')) (Some (store_authenticator id ''static'' (NewTTL 10))) (start_world one_session_db 5) = (Inr p, a', w3)"
    by (simp add: cookie_run_defs)
  have pos: "0 < (10 :: int)" by simp
  from cookie_expiry_bound [OF pos rtranclp.rtrancl_refl [where ?r = "cookie_step id ''static'' (\<lambda>_ _. True) (int 0)"] a]
  obtain s where "p = session_principal s" "w_clock (start_world one_session_db 5) < Session_ExpiresAt s + int 0 + 10" by blast
  with a show ?thesis by (auto simp: start_world_def)
qed

end
