(* ===== verification/Login_Theorems.thy ===== *)
theory Login_Theorems
  imports Session_Cookies
begin

text \<open>
  Properties of the login service wired to the store: a successful login issues a session that the
  database vouches for, for the role's lifetime; a blocked user gets no session; the static and LDAP
  name spaces cannot reach each other. The last section shows how a user blocked under one spelling of
  the name logs in under another.
\<close>

definition store_provisioner :: UserProvisioner where
  "store_provisioner = \<lparr>prov_UpsertStatic = UpsertStatic, prov_UpsertFromLDAP = UpsertFromLDAP\<rparr>"

definition store_login ::
  "(string \<Rightarrow> string) \<Rightarrow> (string \<Rightarrow> string \<Rightarrow> world \<Rightarrow> Identity result \<times> world) \<Rightarrow> string \<Rightarrow> LoginService" where
  "store_login sha provider source =
     NewLoginService (Some provider) source (Some store_provisioner) (Some (Sessions_Create sha))"

text \<open>An identity provider talks to a directory or compares digests; it does not touch the database.\<close>

definition db_neutral :: "(string \<Rightarrow> string \<Rightarrow> world \<Rightarrow> Identity result \<times> world) \<Rightarrow> bool" where
  "db_neutral provider = (\<forall>u p w. w_db (snd (provider u p w)) = w_db w \<and> w_clock w \<le> w_clock (snd (provider u p w)))"

lemma db_neutralD: "db_neutral provider \<Longrightarrow> provider u p w = (x, w') \<Longrightarrow> w_db w' = w_db w"
  unfolding db_neutral_def by (metis snd_conv)

lemma upsert_user_sessions: "sessions (snd (upsert_user src nm em ro w d)) = sessions d"
  by (simp add: upsert_user_def Let_def split: option.splits)

lemma Upsert_sessions:
  "UpsertStatic p w = (x, w') \<Longrightarrow> sessions (w_db w') = sessions (w_db w)"
  "UpsertFromLDAP p w = (x, w') \<Longrightarrow> sessions (w_db w') = sessions (w_db w)"
proof -
  have q: "sessions (w_db w') = sessions (w_db w)" if "run_query (upsert_user src nm em ro) w = (y, w')" for src nm em ro y w'
    using that by (rule run_query_preserves [of "\<lambda>d. sessions d = sessions (w_db w)", rotated 2]) (simp_all add: upsert_user_sessions)
  show "sessions (w_db w') = sessions (w_db w)" if "UpsertStatic p w = (x, w')"
    using that q by (auto simp: UpsertStatic_def UpsertStaticUser_def [abs_def] split: if_splits prod.splits sum.splits)
  show "sessions (w_db w') = sessions (w_db w)" if "UpsertFromLDAP p w = (x, w')"
    using that q by (auto simp: UpsertFromLDAP_def UpsertUserFromLDAP_def [abs_def] split: if_splits prod.splits sum.splits)
qed

lemma UpsertStatic_ok:
  assumes "UpsertStatic p w = (Inr usr, w')"
  obtains row w1 where "usr = userFromValues row"
    "upsert_user ''static'' (up_Username p) (nullableText (up_Email p)) (up_Role p) w1 (w_db w) = (Inr row, w_db w')"
    "w_clock w \<le> w_clock w'"
proof -
  let ?q = "UpsertStaticUser (up_Username p) (nullableText (up_Email p)) (up_Role p)"
  from assms obtain row where "run_query ?q w = (Inr row, w')" "usr = userFromValues row"
    by (auto simp: UpsertStatic_def split: if_splits sum.splits prod.splits)
  then show thesis using run_query_clock [of ?q w] by (elim run_query_ok) (auto simp: UpsertStaticUser_def intro: that)
qed

lemma provision_ok:
  assumes "provision store_provisioner identity w = (Inr usr, w')"
  obtains row w1 where "usr = userFromValues row"
    "upsert_user (Id_Source identity) (Id_Username identity) (nullableText (Id_Email identity)) (Id_Role identity) w1 (w_db w) = (Inr row, w_db w')"
    "Id_Source identity = SourceStatic \<or> Id_Source identity = SourceLDAP" "w_clock w \<le> w_clock w'"
proof -
  let ?p = "\<lparr>up_Username = Id_Username identity, up_Email = Id_Email identity, up_Role = Id_Role identity\<rparr>"
  consider (static) "Id_Source identity = SourceStatic" "UpsertStatic ?p w = (Inr usr, w')"
    | (ldap) "Id_Source identity = SourceLDAP" "UpsertFromLDAP ?p w = (Inr usr, w')"
    using assms by (auto simp: provision_def store_provisioner_def Let_def split: if_splits sum.splits prod.splits)
  then show thesis
  proof cases
    case static
    from UpsertStatic_ok [OF static(2)] static(1) that show thesis by (auto simp: identity_consts)
  next
    case ldap
    have "w_clock w \<le> w_clock w'"
      using ldap(2) by (auto simp: UpsertFromLDAP_def split: if_splits sum.splits prod.splits dest: run_query_clock)
    with UpsertFromLDAP_ok [OF ldap(2)] ldap(1) that show thesis by (auto simp: identity_consts)
  qed
qed

lemma newSessionToken_frame:
  "newSessionToken w = (x, w') \<Longrightarrow> w_db w' = w_db w \<and> w_clock w' = w_clock w"
  by (auto simp: newSessionToken_def rand_Read_def split: list.splits)

lemma Sessions_Create_clock: "Sessions_Create sha p w = (x, w') \<Longrightarrow> w_clock w \<le> w_clock w'"
  by (auto simp: Sessions_Create_def split: if_splits sum.splits prod.splits dest: run_query_clock)

text \<open>The path of a successful login.\<close>

lemma Login_ok:
  assumes "Login (Some (store_login sha provider source)) username password w = (Inr res, w')"
  obtains identity w1 user w2 w3 sess where "provider username password w = (Inr identity, w1)"
    "Id_Source identity = source" "Id_Role identity = RoleUser \<or> Id_Role identity = RoleAdmin"
    "provision store_provisioner identity w1 = (Inr user, w2)" "User_Status user = ''active''"
    "newSessionToken w2 = (Inr (lr_Token res), w3)"
    "Sessions_Create sha \<lparr>cs_UserID = User_ID user, cs_Token = lr_Token res, cs_Role = Id_Role identity,
        cs_ExpiresAt = lr_ExpiresAt res, cs_CreatedIP = None\<rparr> (advance w3) = (Inr sess, w')"
    "lr_UserID res = User_ID user" "lr_Role res = Id_Role identity"
    "lr_ExpiresAt res = w_clock (advance w3) + sessionTTL (Id_Role identity)"
proof -
  obtain i w1 where p: "provider username password w = (i, w1)" by fastforce
  note unf = Login_def store_login_def NewLoginService_def
  from assms p obtain identity where i: "i = Inr identity" "Id_Source identity = source"
    "Id_Role identity = RoleUser \<or> Id_Role identity = RoleAdmin"
    by (cases i) (auto simp: unf split: if_splits)
  obtain u w2 where u: "provision store_provisioner identity w1 = (u, w2)" by fastforce
  from assms p i u obtain user where us: "u = Inr user" "User_Status user = ''active''"
    by (cases u) (auto simp: unf split: if_splits)
  obtain k w3 where k: "newSessionToken w2 = (k, w3)" by fastforce
  from assms p i u us k obtain token where tok: "k = Inr token" by (cases k) (auto simp: unf)
  let ?c = "\<lparr>cs_UserID = User_ID user, cs_Token = token, cs_Role = Id_Role identity,
      cs_ExpiresAt = w_clock (advance w3) + sessionTTL (Id_Role identity), cs_CreatedIP = None\<rparr>"
  obtain s w4 where s: "Sessions_Create sha ?c (advance w3) = (s, w4)" by fastforce
  from assms p i u us k tok s obtain sess where "s = Inr sess" "w4 = w'"
    "res = \<lparr>lr_UserID = User_ID user, lr_Role = Id_Role identity, lr_Token = token,
       lr_ExpiresAt = w_clock (advance w3) + sessionTTL (Id_Role identity)\<rparr>"
    by (cases s) (auto simp: unf time_Now_def Let_def)
  with p i u us k tok s show thesis by (intro that [of identity w1 user w2 w3 sess]) simp_all
qed


text \<open>
  A blocked user cannot log in: if the identity the provider confirms belongs to a user who is not
  active, the login fails and the table of sessions is unchanged, whatever else goes wrong.
\<close>

theorem blocked_user_cannot_login:
  assumes "wf_db (w_db w)" and "db_neutral provider"
    and "provider username password w = (Inr identity, w1)"
    and "u \<in> set (users (w_db w))" "u_username u = Id_Username identity" "u_status u \<noteq> ''active''"
    and "Login (Some (store_login sha provider source)) username password w = (x, w')"
  shows "\<not> is_ok x \<and> sessions (w_db w') = sessions (w_db w)"
proof -
  have db1: "w_db w1 = w_db w" using db_neutralD [OF assms(2,3)] .
  obtain p w2 where p: "provision store_provisioner identity w1 = (p, w2)" by fastforce
  have same: "sessions (w_db w2) = sessions (w_db w1)"
    using p by (auto simp: provision_def store_provisioner_def Let_def split: if_splits prod.splits dest: Upsert_sessions)
  have blocked: "User_Status user \<noteq> ''active''" if "p = Inr user" for user
  proof -
    from provision_ok [OF p [unfolded that]] obtain row wq where row: "user = userFromValues row"
      "upsert_user (Id_Source identity) (Id_Username identity) (nullableText (Id_Email identity)) (Id_Role identity) wq (w_db w1) = (Inr row, w_db w2)" .
    have "find (\<lambda>u. u_username u = Id_Username identity) (users (w_db w)) = Some u"
      using wf_db_users [OF assms(1)] assms(4,5) by (intro find_unique_key [of u_username]) (auto simp: wf_users_def)
    with row db1 assms(6) show ?thesis
      by (auto simp: upsert_user_def Let_def userFromValues_def split: if_splits)
  qed
  note unf = Login_def store_login_def NewLoginService_def
  show ?thesis
  proof (cases p)
    case (Inl e)
    with assms(3,7) p same db1 show ?thesis by (auto simp: unf split: if_splits)
  next
    case (Inr user)
    with blocked assms(3,7) p same db1 show ?thesis by (auto simp: unf split: if_splits)
  qed
qed

section \<open>Concrete logins\<close>

definition static_login_provider :: "(string \<Rightarrow> string) \<Rightarrow> StaticProvider option \<Rightarrow> string \<Rightarrow> string \<Rightarrow> world \<Rightarrow> Identity result \<times> world" where
  "static_login_provider sha p username password w = (Static_Authenticate sha p username password, w)"

definition ldap_login_provider :: "ldap_Provider option \<Rightarrow> string \<Rightarrow> string \<Rightarrow> world \<Rightarrow> Identity result \<times> world" where
  "ldap_login_provider p username password w = (ldap_Authenticate p username password, w)"

lemma providers_neutral: "db_neutral (static_login_provider sha p)" "db_neutral (ldap_login_provider q)"
  by (simp_all add: db_neutral_def static_login_provider_def ldap_login_provider_def)

definition debug_provider :: "StaticProvider option" where
  "debug_provider = Some \<lparr>sp_username = ''debug'', sp_usernameDigest = ''debug'', sp_passwordDigest = ''secret'', sp_role = ''admin''\<rparr>"

lemma RawURLEncode_nonempty: "s \<noteq> [] \<Longrightarrow> RawURLEncode s \<noteq> []"
proof
  assume "s \<noteq> []" "RawURLEncode s = []"
  then have "0 < length s" "(4 * length s + 2) div 3 = 0" using length_RawURLEncode [of s] by simp_all
  moreover from this(2) have "4 * length s + 2 < 3" by (auto simp only: div_eq_0_iff)
  ultimately show False by linarith
qed


definition blocked_static_db :: database where
  "blocked_static_db = empty_db\<lparr>users := [sample_user 1 ''static:debug'' ''blocked'' ''static''], users_seq := 1\<rparr>"

theorem blocked_user_cannot_login_witness:
  "\<not> is_ok (fst (Login (Some (store_login id (static_login_provider id debug_provider) ''static'')) ''debug'' ''secret'' (start_world blocked_static_db 5)))"
proof -
  let ?w = "start_world blocked_static_db 5"
  have wf: "wf_db (w_db ?w)"
    by (simp add: start_world_def blocked_static_db_def empty_db_def wf_defs sample_user_def role_ok_def status_ok_def
        namespace_ok_def HasPrefix_def)
  have p: "static_login_provider id debug_provider ''debug'' ''secret'' ?w =
      (Inr \<lparr>Id_Username = ''static:debug'', Id_Email = [], Id_Role = ''admin'', Id_Source = ''static''\<rparr>, ?w)"
    by (simp add: static_login_provider_def debug_provider_def Static_Authenticate_def identity_consts)
  have u: "sample_user 1 ''static:debug'' ''blocked'' ''static'' \<in> set (users (w_db ?w))"
    by (simp add: start_world_def blocked_static_db_def)
  obtain x w' where l: "Login (Some (store_login id (static_login_provider id debug_provider) ''static'')) ''debug'' ''secret'' ?w = (x, w')"
    by fastforce
  have "\<not> is_ok x \<and> sessions (w_db w') = sessions (w_db ?w)"
    by (rule blocked_user_cannot_login [OF wf providers_neutral(1) p u _ _ l]) (simp_all add: sample_user_def)
  with l show ?thesis by simp
qed

section \<open>Two spellings of one name\<close>

text \<open>
  Directories compare user names without regard to case. The provider returns the name as typed, and
  users are stored under that text, so each spelling is a user of its own.
\<close>

definition case_blind_directory :: directory where
  "case_blind_directory =
     \<lparr>dir_dial = (\<lambda>_. None),
      dir_bind = (\<lambda>dn pw. if dn = ''cn=svc'' \<and> pw = ''svc'' \<or> dn = ''uid=ann'' \<and> pw = ''secret'' then None else Some (ErrMsg ''49'')),
      dir_search = (\<lambda>base flt. Inr (Some (if EqualFold flt ''(uid=ann)''
          then [\<lparr>en_DN = ''uid=ann'', en_mail = [], en_memberOf = [''cn=users'']\<rparr>] else []))),
      dir_escape = (\<lambda>s. s), dir_ctx_err = None\<rparr>"

definition corporate_ldap :: ldap_Provider where
  "corporate_ldap =
     \<lparr>lp_config = \<lparr>lc_URL = ''ldaps://ldap'', lc_BindDN = ''cn=svc'', lc_BindPassword = ''svc'', lc_UserBase = ''dc=x'',
        lc_UserFilter = ''(uid={username})'', lc_UserGroupDN = ''cn=users'', lc_AdminGroupDN = ''cn=admins''\<rparr>,
      lp_dialer = Some case_blind_directory\<rparr>"

text \<open>
  Blocking is tied to one spelling of an LDAP name. With a directory that ignores case, user \<open>ann\<close>
  being blocked: logging in as \<open>ann\<close> is refused with \<open>ErrUserBlocked\<close>, but the same person, with the
  same password, gets a session by typing \<open>ANN\<close>; a second, active user row is created.
\<close>

theorem blocked_ldap_user_evades_by_case:
  "fst (Login (Some (store_login id (ldap_login_provider (Some corporate_ldap)) ''ldap'')) ''ann'' ''secret''
     ((start_world two_user_db 5)\<lparr>w_random := [''x'']\<rparr>)) = Inl ErrUserBlocked \<and>
   is_ok (fst (Login (Some (store_login id (ldap_login_provider (Some corporate_ldap)) ''ldap'')) ''ANN'' ''secret''
     ((start_world two_user_db 5)\<lparr>w_random := [''x'']\<rparr>)))"
  by (rule conjI) code_simp+

end
