(* ===== verification/Oauth_Sessions.thy ===== *)
theory Oauth_Sessions
  imports Users_Theorems
begin

text \<open>
  \<^verbatim>\<open>internal/store/oauth_sessions.go\<close> with \<^verbatim>\<open>dbgen/oauth_sessions.sql.go\<close>: sign-in flows of upstream
  accounts, shared by all replicas through the table \<open>oauth_sessions\<close>. A flow is a state machine:
  \<open>pending\<close> goes to \<open>completed\<close>, \<open>error\<close> or \<open>cancelled\<close>, and stays there.
\<close>

section \<open>Data\<close>

record OAuthSession =
  oa_State :: string
  oa_Provider :: string
  oa_FlowType :: string
  oa_Status :: string
  oa_AuthID :: string
  oa_PKCEVerifier :: string
  oa_DeviceCode :: string
  oa_UserCode :: string
  oa_ErrorMessage :: string
  oa_ExpiresAt :: instant
  oa_CreatedAt :: instant
  oa_UpdatedAt :: instant

record CreateOAuthSessionParams =
  co_State :: string
  co_Provider :: string
  co_FlowType :: string
  co_PKCEVerifier :: string
  co_DeviceCode :: string
  co_UserCode :: string
  co_ExpiresAt :: instant

definition oauthSessionFromDB :: "oauth_session_row \<Rightarrow> OAuthSession" where
  "oauthSessionFromDB row =
     \<lparr>oa_State = os_state row, oa_Provider = os_provider row, oa_FlowType = os_flow_type row, oa_Status = os_status row,
      oa_AuthID = text_String (os_auth_id row), oa_PKCEVerifier = text_String (os_pkce_verifier row),
      oa_DeviceCode = text_String (os_device_code row), oa_UserCode = text_String (os_user_code row),
      oa_ErrorMessage = text_String (os_error_message row), oa_ExpiresAt = os_expires_at row,
      oa_CreatedAt = os_created_at row, oa_UpdatedAt = os_updated_at row\<rparr>"

section \<open>Queries\<close>

definition CancelOAuthSession :: "string \<Rightarrow> int query" where
  "CancelOAuthSession state w d =
     (let hit = (\<lambda>s. os_state s = state \<and> os_status s = ''pending'')
      in (Inr (count_where hit (oauth_sessions d)),
          d\<lparr>oauth_sessions := update_where hit (\<lambda>s. s\<lparr>os_status := ''cancelled'', os_updated_at := w_clock w\<rparr>) (oauth_sessions d)\<rparr>))"

text \<open>The foreign key of \<open>auth_id\<close> is checked when a row is updated.\<close>

definition CompleteOAuthSession :: "string \<Rightarrow> string option \<Rightarrow> int query" where
  "CompleteOAuthSession state auth_id w d =
     (let hit = (\<lambda>s. os_state s = state \<and> os_status s = ''pending'')
      in if count_where hit (oauth_sessions d) \<noteq> 0 \<and>
            (case auth_id of None \<Rightarrow> False | Some a \<Rightarrow> a \<notin> ua_id ` set (upstream_accounts d))
         then (Inl (ErrPg ''foreign_key_violation''), d)
         else (Inr (count_where hit (oauth_sessions d)),
               d\<lparr>oauth_sessions := update_where hit
                   (\<lambda>s. s\<lparr>os_status := ''completed'', os_auth_id := auth_id, os_error_message := None, os_updated_at := w_clock w\<rparr>)
                   (oauth_sessions d)\<rparr>))"

definition CreateOAuthSession ::
  "string \<Rightarrow> string \<Rightarrow> string \<Rightarrow> instant \<Rightarrow> string option \<Rightarrow> string option \<Rightarrow> string option \<Rightarrow> unit query" where
  "CreateOAuthSession state provider flow_type expires_at pkce_verifier device_code user_code w d =
     (if flow_type \<noteq> ''callback'' \<and> flow_type \<noteq> ''device'' then (Inl (ErrPg ''check_violation''), d)
      else if state \<in> os_state ` set (oauth_sessions d) then (Inl (ErrPg ''unique_violation''), d)
      else (Inr (),
            d\<lparr>oauth_sessions := oauth_sessions d @
               [\<lparr>os_state = state, os_provider = provider, os_flow_type = flow_type, os_status = ''pending'',
                 os_auth_id = None, os_pkce_verifier = pkce_verifier, os_device_code = device_code,
                 os_user_code = user_code, os_error_message = None, os_expires_at = expires_at,
                 os_created_at = w_clock w, os_updated_at = w_clock w\<rparr>]\<rparr>))"

definition FailOAuthSession :: "string \<Rightarrow> string option \<Rightarrow> int query" where
  "FailOAuthSession state msg w d =
     (let hit = (\<lambda>s. os_state s = state \<and> os_status s = ''pending'')
      in (Inr (count_where hit (oauth_sessions d)),
          d\<lparr>oauth_sessions := update_where hit
              (\<lambda>s. s\<lparr>os_status := ''error'', os_error_message := msg, os_updated_at := w_clock w\<rparr>) (oauth_sessions d)\<rparr>))"

definition GetOAuthSession :: "string \<Rightarrow> oauth_session_row query" where
  "GetOAuthSession state w d =
     (case find (\<lambda>s. os_state s = state) (oauth_sessions d) of
        None \<Rightarrow> (Inl ErrNoRows, d)
      | Some s \<Rightarrow> (Inr s, d))"

definition ListPendingOAuthSessions :: "oauth_session_row list query" where
  "ListPendingOAuthSessions w d =
     (Inr (sort_key (\<lambda>s. - os_created_at s) (filter (\<lambda>s. os_status s = ''pending'') (oauth_sessions d))), d)"

section \<open>Repository operations\<close>

definition Oauth_Create :: "CreateOAuthSessionParams \<Rightarrow> world \<Rightarrow> unit result \<times> world" where
  "Oauth_Create p w =
     (if co_State p = [] \<or> co_Provider p = [] \<or> (co_FlowType p \<noteq> ''callback'' \<and> co_FlowType p \<noteq> ''device'') \<or>
         co_ExpiresAt p = zero_time
      then (Inl ErrInvalidInput, w)
      else (case run_query (CreateOAuthSession (co_State p) (co_Provider p) (co_FlowType p) (co_ExpiresAt p)
                    (nullableText (co_PKCEVerifier p)) (nullableText (co_DeviceCode p)) (nullableText (co_UserCode p))) w of
              (Inl e, w1) \<Rightarrow> (Inl (Wrapf ''create OAuth session'' e), w1)
            | (Inr _, w1) \<Rightarrow> (Inr (), w1)))"

definition Oauth_Get :: "string \<Rightarrow> world \<Rightarrow> OAuthSession result \<times> world" where
  "Oauth_Get state w =
     (case run_query (GetOAuthSession state) w of
        (Inl e, w1) \<Rightarrow>
          (if errors_Is e ErrNoRows then (Inl ErrNotFound, w1) else (Inl (Wrapf ''get OAuth session'' e), w1))
      | (Inr row, w1) \<Rightarrow> (Inr (oauthSessionFromDB row), w1))"

definition ListPending :: "world \<Rightarrow> OAuthSession list result \<times> world" where
  "ListPending w =
     (case run_query ListPendingOAuthSessions w of
        (Inl e, w1) \<Rightarrow> (Inl (Wrapf ''list pending OAuth sessions'' e), w1)
      | (Inr rows, w1) \<Rightarrow> (Inr (map oauthSessionFromDB rows), w1))"

text \<open>The three settling operations share their shape: no row updated is \<open>ErrNotFound\<close>.\<close>

definition settle :: "string \<Rightarrow> int query \<Rightarrow> world \<Rightarrow> unit result \<times> world" where
  "settle msg q w =
     (case run_query q w of
        (Inl e, w1) \<Rightarrow> (Inl (Wrapf msg e), w1)
      | (Inr n, w1) \<Rightarrow> (if n = 0 then (Inl ErrNotFound, w1) else (Inr (), w1)))"

definition Cancel :: "string \<Rightarrow> world \<Rightarrow> unit result \<times> world" where
  "Cancel state = settle ''cancel OAuth session'' (CancelOAuthSession state)"

definition Complete :: "string \<Rightarrow> string \<Rightarrow> world \<Rightarrow> unit result \<times> world" where
  "Complete state authID = settle ''complete OAuth session'' (CompleteOAuthSession state (nullableText authID))"

definition Fail :: "string \<Rightarrow> string \<Rightarrow> world \<Rightarrow> unit result \<times> world" where
  "Fail state message = settle ''fail OAuth session'' (FailOAuthSession state (nullableText message))"

definition CancelWithAudit ::
  "json_codec \<Rightarrow> int \<Rightarrow> string \<Rightarrow> ip_addr option \<Rightarrow> world \<Rightarrow> unit result \<times> world" where
  "CancelWithAudit J actor state ip w =
     (if actor \<le> 0 \<or> state = [] then (Inl ErrInvalidInput, w)
      else in_tx (Wrapf ''begin OAuth cancel transaction'') (Wrapf ''commit OAuth cancel transaction'')
             (\<lambda>w1. case Cancel state w1 of
                      (Inl e, w2) \<Rightarrow> (Inl e, w2)
                    | (Inr _, w2) \<Rightarrow>
                        Audit_Insert (json_valid J)
                          \<lparr>ae_ActorUserID = actor, ae_Action = ''oauth.session.cancelled'', ae_TargetType = ''oauth_session'',
                           ae_TargetID = state, ae_Details = json_obj J [(''status'', ''cancelled'')], ae_ActorIP = ip\<rparr> w2) w)"

section \<open>The state machine\<close>

definition wf_oauth :: "database \<Rightarrow> bool" where
  "wf_oauth d = distinct (map os_state (oauth_sessions d))"

definition pending :: "database \<Rightarrow> string \<Rightarrow> bool" where
  "pending d state = (\<exists>s \<in> set (oauth_sessions d). os_state s = state \<and> os_status s = ''pending'')"

text \<open>What any statement may do: keep settled rows as they are, add rows with new states.\<close>

definition oauth_mono :: "database \<Rightarrow> database \<Rightarrow> bool" where
  "oauth_mono d d' =
     ((\<forall>s \<in> set (oauth_sessions d). os_status s \<noteq> ''pending'' \<longrightarrow> s \<in> set (oauth_sessions d')) \<and>
      os_state ` set (oauth_sessions d) \<subseteq> os_state ` set (oauth_sessions d'))"

lemma oauth_mono_refl [simp]: "oauth_mono d d"
  by (simp add: oauth_mono_def)

lemma oauth_mono_trans:
  assumes "oauth_mono a b" and "oauth_mono b c"
  shows "oauth_mono a c"
proof -
  have "s \<in> set (oauth_sessions c)" if "s \<in> set (oauth_sessions a)" "os_status s \<noteq> ''pending''" for s
    using that assms unfolding oauth_mono_def by simp
  moreover have "os_state ` set (oauth_sessions a) \<subseteq> os_state ` set (oauth_sessions c)"
    using assms unfolding oauth_mono_def by (elim conjE) (rule subset_trans)
  ultimately show ?thesis by (simp add: oauth_mono_def)
qed

definition settles :: "string \<Rightarrow> database \<Rightarrow> database \<Rightarrow> bool" where
  "settles state d d' = (pending d state \<and> \<not> pending d' state \<and> state \<in> os_state ` set (oauth_sessions d'))"

lemma hit_update_mono:
  assumes "\<And>s. os_state (f s) = os_state s"
  shows "oauth_mono d (d\<lparr>oauth_sessions := update_where (\<lambda>s. os_state s = state \<and> os_status s = ''pending'') f (oauth_sessions d)\<rparr>)"
proof -
  let ?p = "\<lambda>s. os_state s = state \<and> os_status s = ''pending''"
  have "s \<in> set (update_where ?p f (oauth_sessions d))" if "s \<in> set (oauth_sessions d)" "os_status s \<noteq> ''pending''" for s
    unfolding set_update_where using that by (intro rev_image_eqI [of s]) auto
  moreover have "os_state s \<in> os_state ` set (update_where ?p f (oauth_sessions d))" if "s \<in> set (oauth_sessions d)" for s
    unfolding set_update_where image_image using that assms by (intro rev_image_eqI [of s]) auto
  ultimately show ?thesis by (auto simp: oauth_mono_def)
qed

lemma hit_update_wf:
  "(\<And>s. os_state (f s) = os_state s) \<Longrightarrow> wf_oauth d \<Longrightarrow> wf_oauth (d\<lparr>oauth_sessions := update_where p f (oauth_sessions d)\<rparr>)"
  by (simp add: wf_oauth_def map_update_where_key)

lemma hit_update_settles:
  assumes "\<And>s. os_state (f s) = os_state s" and "\<And>s. os_status (f s) \<noteq> ''pending''"
    and "count_where (\<lambda>s. os_state s = state \<and> os_status s = ''pending'') (oauth_sessions d) \<noteq> 0"
  shows "settles state d (d\<lparr>oauth_sessions := update_where (\<lambda>s. os_state s = state \<and> os_status s = ''pending'') f (oauth_sessions d)\<rparr>)"
proof -
  let ?p = "\<lambda>s. os_state s = state \<and> os_status s = ''pending''"
  let ?d = "d\<lparr>oauth_sessions := update_where ?p f (oauth_sessions d)\<rparr>"
  from assms(3) obtain s where s: "s \<in> set (oauth_sessions d)" "?p s" by (auto simp: count_where_pos)
  then have "state \<in> os_state ` set (oauth_sessions ?d)"
    using hit_update_mono [of f d state, OF assms(1)] by (auto simp: oauth_mono_def)
  moreover have "\<not> pending ?d state"
  proof
    assume "pending ?d state"
    then obtain t where t: "t \<in> set (oauth_sessions d)" "?p (if ?p t then f t else t)"
      by (auto simp: pending_def set_update_where)
    then show False using assms(2) [of t] by (cases "?p t") auto
  qed
  ultimately show ?thesis using s by (auto simp: settles_def pending_def)
qed

lemma settle_cases:
  assumes "settle msg q w = (x, w')"
    and q: "\<And>w1 n d'. q w1 (w_db w) = (Inr n, d') \<Longrightarrow> n = 0 \<Longrightarrow> d' = w_db w"
    and qe: "\<And>w1 e d'. q w1 (w_db w) = (Inl e, d') \<Longrightarrow> d' = w_db w"
  shows "(\<not> is_ok x \<and> w_db w' = w_db w) \<or> (is_ok x \<and> (\<exists>w1 n. n \<noteq> 0 \<and> q w1 (w_db w) = (Inr n, w_db w')))"
proof -
  obtain y w1 where r: "run_query q w = (y, w1)" by fastforce
  from r show ?thesis
  proof (cases rule: run_query_cases)
    case failed
    with r assms(1) show ?thesis by (auto simp: settle_def)
  next
    case (ran w0)
    show ?thesis
    proof (cases y)
      case (Inl e)
      with r ran assms(1) qe [of w0 e] show ?thesis by (auto simp: settle_def)
    next
      case (Inr n)
      with r ran assms(1) q [of w0 n] show ?thesis by (auto simp: settle_def split: if_splits)
    qed
  qed
qed

text \<open>The contract of a settling statement, shared by cancel, complete and fail.\<close>

locale settling =
  fixes q :: "string \<Rightarrow> int query"
  assumes q_error: "q state w d = (Inl e, d') \<Longrightarrow> d' = d"
    and q_none: "q state w d = (Inr 0, d') \<Longrightarrow> d' = d"
    and q_some: "q state w d = (Inr n, d') \<Longrightarrow> n \<noteq> 0 \<Longrightarrow> settles state d d' \<and> oauth_mono d d' \<and> (wf_oauth d \<longrightarrow> wf_oauth d')"
begin

lemma settle_step:
  assumes "settle msg (q state) w = (x, w')"
  shows "(\<not> is_ok x \<and> w_db w' = w_db w) \<or>
     (is_ok x \<and> settles state (w_db w) (w_db w') \<and> oauth_mono (w_db w) (w_db w') \<and> (wf_oauth (w_db w) \<longrightarrow> wf_oauth (w_db w')))"
  using settle_cases [OF assms] q_error q_none q_some by blast

end

interpretation cancel_q: settling CancelOAuthSession
proof
  fix state w d n d' assume "CancelOAuthSession state w d = (Inr n, d')" "n \<noteq> 0"
  then show "settles state d d' \<and> oauth_mono d d' \<and> (wf_oauth d \<longrightarrow> wf_oauth d')"
    by (auto simp: CancelOAuthSession_def Let_def intro!: hit_update_settles hit_update_mono hit_update_wf)
qed (auto simp: CancelOAuthSession_def Let_def update_where_no_match)

interpretation fail_q: settling "\<lambda>state. FailOAuthSession state m" for m
proof
  fix state w d n d' assume "FailOAuthSession state m w d = (Inr n, d')" "n \<noteq> 0"
  then show "settles state d d' \<and> oauth_mono d d' \<and> (wf_oauth d \<longrightarrow> wf_oauth d')"
    by (auto simp: FailOAuthSession_def Let_def intro!: hit_update_settles hit_update_mono hit_update_wf)
qed (auto simp: FailOAuthSession_def Let_def update_where_no_match)

interpretation complete_q: settling "\<lambda>state. CompleteOAuthSession state a" for a
proof
  fix state w d n d' assume "CompleteOAuthSession state a w d = (Inr n, d')" "n \<noteq> 0"
  then show "settles state d d' \<and> oauth_mono d d' \<and> (wf_oauth d \<longrightarrow> wf_oauth d')"
    by (auto simp: CompleteOAuthSession_def Let_def split: if_splits intro!: hit_update_settles hit_update_mono hit_update_wf)
qed (auto simp: CompleteOAuthSession_def Let_def update_where_no_match split: if_splits)

section \<open>Any sequence of operations\<close>

datatype oauth_op =
    OpCreate CreateOAuthSessionParams
  | OpCancel string
  | OpCancelAudited int string "ip_addr option"
  | OpComplete string string
  | OpFail string string

fun exec_op :: "json_codec \<Rightarrow> oauth_op \<Rightarrow> world \<Rightarrow> unit result \<times> world" where
  "exec_op J (OpCreate p) w = Oauth_Create p w"
| "exec_op J (OpCancel s) w = Cancel s w"
| "exec_op J (OpCancelAudited actor s ip) w = CancelWithAudit J actor s ip w"
| "exec_op J (OpComplete s a) w = Complete s a w"
| "exec_op J (OpFail s m) w = Fail s m w"

fun settles_op :: "string \<Rightarrow> oauth_op \<Rightarrow> bool" where
  "settles_op st (OpCreate p) = False"
| "settles_op st (OpCancel s) = (s = st)"
| "settles_op st (OpCancelAudited actor s ip) = (s = st)"
| "settles_op st (OpComplete s a) = (s = st)"
| "settles_op st (OpFail s m) = (s = st)"

fun run_ops :: "json_codec \<Rightarrow> oauth_op list \<Rightarrow> world \<Rightarrow> (oauth_op \<times> unit result) list \<times> world" where
  "run_ops J [] w = ([], w)"
| "run_ops J (op # ops) w =
     (let (x, w1) = exec_op J op w; (log, w2) = run_ops J ops w1 in ((op, x) # log, w2))"

definition successes :: "string \<Rightarrow> (oauth_op \<times> unit result) list \<Rightarrow> nat" where
  "successes state log = length (filter (\<lambda>(op, x). settles_op state op \<and> is_ok x) log)"

definition settled :: "database \<Rightarrow> string \<Rightarrow> bool" where
  "settled d state = (state \<in> os_state ` set (oauth_sessions d) \<and> \<not> pending d state)"

lemma settled_stays:
  assumes "settled d state" and "oauth_mono d d'" and "wf_oauth d'"
  shows "settled d' state"
proof -
  from assms(1) obtain s where s: "s \<in> set (oauth_sessions d)" "os_state s = state" "os_status s \<noteq> ''pending''"
    by (auto simp: settled_def pending_def)
  with assms(2) have s': "s \<in> set (oauth_sessions d')" by (auto simp: oauth_mono_def)
  have uniq: "t = s" if "t \<in> set (oauth_sessions d')" "os_state t = state" for t
    using that s s' assms(3) distinct_key_eq [of os_state "oauth_sessions d'" t s] by (simp add: wf_oauth_def)
  have "\<not> pending d' state" unfolding pending_def using uniq s(3) by metis
  moreover have "state \<in> os_state ` set (oauth_sessions d')" using s(2) s' by auto
  ultimately show ?thesis by (simp add: settled_def)
qed

lemma create_step:
  assumes "Oauth_Create p w = (x, w')"
  shows "oauth_mono (w_db w) (w_db w') \<and> (wf_oauth (w_db w) \<longrightarrow> wf_oauth (w_db w'))"
proof -
  let ?q = "CreateOAuthSession (co_State p) (co_Provider p) (co_FlowType p) (co_ExpiresAt p)
      (nullableText (co_PKCEVerifier p)) (nullableText (co_DeviceCode p)) (nullableText (co_UserCode p))"
  have step: "oauth_mono d (snd (?q w1 d)) \<and> (wf_oauth d \<longrightarrow> wf_oauth (snd (?q w1 d)))" for w1 d
    by (auto simp: CreateOAuthSession_def oauth_mono_def wf_oauth_def)
  obtain y w1 where q: "run_query ?q w = (y, w1)" by fastforce
  from q have "oauth_mono (w_db w) (w_db w1) \<and> (wf_oauth (w_db w) \<longrightarrow> wf_oauth (w_db w1))"
  proof (cases rule: run_query_cases)
    case failed
    then show ?thesis by simp
  next
    case (ran w0)
    with step [of "w_db w" w0] show ?thesis by simp
  qed
  moreover from q assms have "w' = w1 \<or> w' = w" by (auto simp: Oauth_Create_def split: if_splits sum.splits)
  ultimately show ?thesis by auto
qed

lemma cancel_audited_step:
  assumes "CancelWithAudit J actor state ip w = (x, w')"
  shows "(\<not> is_ok x \<and> w_db w' = w_db w) \<or>
     (is_ok x \<and> settles state (w_db w) (w_db w') \<and> oauth_mono (w_db w) (w_db w') \<and> (wf_oauth (w_db w) \<longrightarrow> wf_oauth (w_db w')))"
proof (cases "actor \<le> 0 \<or> state = []")
  case True
  with assms show ?thesis by (auto simp: CancelWithAudit_def)
next
  case False
  let ?e = "\<lparr>ae_ActorUserID = actor, ae_Action = ''oauth.session.cancelled'', ae_TargetType = ''oauth_session'',
     ae_TargetID = state, ae_Details = json_obj J [(''status'', ''cancelled'')], ae_ActorIP = ip\<rparr>"
  let ?body = "\<lambda>w1. case Cancel state w1 of (Inl e, w2) \<Rightarrow> (Inl e, w2) | (Inr _, w2) \<Rightarrow> Audit_Insert (json_valid J) ?e w2"
  from False assms have tx: "in_tx (Wrapf ''begin OAuth cancel transaction'') (Wrapf ''commit OAuth cancel transaction'') ?body w = (x, w')"
    unfolding CancelWithAudit_def by (subst (asm) if_not_P) auto
  show ?thesis
  proof (cases x)
    case (Inl e)
    with tx in_tx_error show ?thesis by auto
  next
    case (Inr u)
    with tx have "in_tx (Wrapf ''begin OAuth cancel transaction'') (Wrapf ''commit OAuth cancel transaction'') ?body w = (Inr u, w')" by simp
    then obtain w1 w2 where w: "w_db w1 = w_db w" "?body w1 = (Inr u, w2)" "w_db w' = w_db w2" by (rule in_tx_ok)
    obtain y w3 where c: "Cancel state w1 = (y, w3)" by fastforce
    with w(2) obtain v where y: "y = Inr v" and a: "Audit_Insert (json_valid J) ?e w3 = (Inr u, w2)" by (cases y) auto
    from Audit_Insert_ok [OF a] obtain t where "w_db w2 = with_audit ?e t (w_db w3)" .
    then have same: "oauth_sessions (w_db w') = oauth_sessions (w_db w3)" using w(3) by simp
    from cancel_q.settle_step [OF c [unfolded Cancel_def]] y w(1) same Inr show ?thesis
      by (simp add: settles_def pending_def oauth_mono_def wf_oauth_def)
  qed
qed

lemma exec_op_step:
  assumes "exec_op J op w = (x, w')"
  shows "oauth_mono (w_db w) (w_db w') \<and> (wf_oauth (w_db w) \<longrightarrow> wf_oauth (w_db w')) \<and>
     (settles_op state op \<and> is_ok x \<longrightarrow> settles state (w_db w) (w_db w'))"
proof (cases op)
  case (OpCreate p)
  with assms create_step show ?thesis by auto
next
  case (OpCancel s)
  with assms have "settle ''cancel OAuth session'' (CancelOAuthSession s) w = (x, w')" by (simp add: Cancel_def)
  from cancel_q.settle_step [OF this] OpCancel show ?thesis by auto
next
  case (OpCancelAudited actor s ip)
  with assms cancel_audited_step [of J actor s ip w x w'] show ?thesis by auto
next
  case (OpComplete s a)
  with assms have "settle ''complete OAuth session'' (CompleteOAuthSession s (nullableText a)) w = (x, w')"
    by (simp add: Complete_def)
  from complete_q.settle_step [OF this] OpComplete show ?thesis by auto
next
  case (OpFail s m)
  with assms have "settle ''fail OAuth session'' (FailOAuthSession s (nullableText m)) w = (x, w')"
    by (simp add: Fail_def)
  from fail_q.settle_step [OF this] OpFail show ?thesis by auto
qed

lemma run_ops_settled:
  assumes "wf_oauth (w_db w)" and "settled (w_db w) state" and "run_ops J ops w = (log, w')"
  shows "successes state log = 0 \<and> settled (w_db w') state"
  using assms
proof (induction ops arbitrary: w log w')
  case Nil
  then show ?case by (simp add: successes_def)
next
  case (Cons op ops)
  obtain x w1 where e: "exec_op J op w = (x, w1)" by fastforce
  obtain log1 w2 where r: "run_ops J ops w1 = (log1, w2)" by fastforce
  note st = exec_op_step [OF e, of state]
  have wf: "wf_oauth (w_db w1)" using st Cons.prems by blast
  have "settled (w_db w1) state" using settled_stays [OF Cons.prems(2)] st wf by blast
  from Cons.IH [OF wf this r] have IH: "successes state log1 = 0" "settled (w_db w2) state" by auto
  have "\<not> (settles_op state op \<and> is_ok x)" using st Cons.prems(2) by (auto simp: settles_def settled_def)
  with IH Cons.prems(3) e r show ?case by (auto simp: successes_def)
qed

text \<open>
  C37. A sign-in flow is settled at most once. Whatever sequence of create, cancel (audited or not),
  complete and fail calls the replicas make, with whatever failures of the database in between, at most
  one call that settles a given flow reports success.
\<close>

theorem oauth_flow_settles_once:
  assumes "wf_oauth (w_db w)" and "run_ops J ops w = (log, w')"
  shows "successes state log \<le> 1 \<and> wf_oauth (w_db w')"
  using assms
proof (induction ops arbitrary: w log)
  case Nil
  then show ?case by (simp add: successes_def)
next
  case (Cons op ops)
  obtain x w1 where e: "exec_op J op w = (x, w1)" by fastforce
  obtain log1 w2 where r: "run_ops J ops w1 = (log1, w2)" by fastforce
  note st = exec_op_step [OF e, of state]
  have wf: "wf_oauth (w_db w1)" using st Cons.prems by blast
  from Cons.prems(2) e r have log: "log = (op, x) # log1" "w' = w2" by auto
  from Cons.IH [OF wf] r log have IH: "successes state log1 \<le> 1" "wf_oauth (w_db w2)" by auto
  show ?case
  proof (cases "settles_op state op \<and> is_ok x")
    case True
    with st have "settled (w_db w1) state" by (auto simp: settles_def settled_def)
    from run_ops_settled [OF wf this r] IH log True show ?thesis by (simp add: successes_def)
  next
    case False
    then have "successes state log = successes state log1" by (auto simp: successes_def log)
    with IH log show ?thesis by simp
  qed
qed

definition pending_flow_db :: database where
  "pending_flow_db = two_user_db\<lparr>oauth_sessions := [\<lparr>os_state = ''st'', os_provider = ''codex'', os_flow_type = ''callback'',
     os_status = ''pending'', os_auth_id = None, os_pkce_verifier = None, os_device_code = None, os_user_code = None,
     os_error_message = None, os_expires_at = 100, os_created_at = 0, os_updated_at = 0\<rparr>]\<rparr>"

theorem oauth_flow_settles_once_witness:
  "\<exists>log w'. run_ops \<lparr>json_valid = (\<lambda>_. True), json_obj = (\<lambda>_. ''{}'')\<rparr> [OpCancel ''st'', OpFail ''st'' ''late'']
      (start_world pending_flow_db 1) = (log, w') \<and> map (is_ok \<circ> snd) log = [True, False] \<and> successes ''st'' log \<le> 1"
proof -
  let ?r = "run_ops \<lparr>json_valid = (\<lambda>_. True), json_obj = (\<lambda>_. ''{}'')\<rparr> [OpCancel ''st'', OpFail ''st'' ''late''] (start_world pending_flow_db 1)"
  have wf: "wf_oauth (w_db (start_world pending_flow_db 1))" by (simp add: start_world_def pending_flow_db_def wf_oauth_def)
  obtain log w' where r: "?r = (log, w')" by fastforce
  have "map (is_ok \<circ> snd) (fst ?r) = [True, False]"
    by (simp add: Cancel_def Fail_def settle_def CancelOAuthSession_def FailOAuthSession_def run_query_def world_defs Let_def
        start_world_def pending_flow_db_def count_where_def update_where_def)
  with r oauth_flow_settles_once [OF wf r, of "''st''"] show ?thesis by simp
qed

end
