(* ===== verification/Model_Overrides.thy ===== *)
theory Model_Overrides
  imports Users_Theorems
begin

text \<open>
  \<^verbatim>\<open>internal/store/model_overrides.go\<close>, \<^verbatim>\<open>admin_models.go\<close>, \<^verbatim>\<open>model_registry_snapshots.go\<close>,
  \<^verbatim>\<open>internal/modelregistry/hook.go\<close> and their queries: the allow-list of client models, its audited
  administration, and the mirror of the SDK model registry. A JSON column holds the text it was given
  (the normalisation \<^verbatim>\<open>jsonb\<close> applies to white space and key order is not modelled); \<open>json_valid\<close> is
  \<^verbatim>\<open>json.Valid\<close>. A nil byte slice is \<open>None\<close>.
\<close>

section \<open>Model overrides\<close>

record ModelOverride =
  ov_ID :: int
  ov_Provider :: string
  ov_ModelAlias :: string
  ov_UpstreamModel :: string
  ov_Enabled :: bool
  ov_Config :: "string option"

record UpsertModelOverrideParams =
  om_Provider :: string
  om_ModelAlias :: string
  om_UpstreamModel :: string
  om_Enabled :: bool
  om_Config :: "string option"

definition bytes_len :: "string option \<Rightarrow> nat" where
  "bytes_len b = (case b of None \<Rightarrow> 0 | Some s \<Rightarrow> length s)"

definition validModelOverrideParams :: "(string \<Rightarrow> bool) \<Rightarrow> UpsertModelOverrideParams \<Rightarrow> bool" where
  "validModelOverrideParams valid p =
     (om_Provider p \<noteq> [] \<and> om_ModelAlias p \<noteq> [] \<and> om_UpstreamModel p \<noteq> [] \<and>
      (bytes_len (om_Config p) = 0 \<or> valid (text_String (om_Config p))))"

text \<open>\<^verbatim>\<open>append([]byte(nil), row.Config...)\<close> of an empty slice is nil.\<close>

definition copy_bytes :: "string option \<Rightarrow> string option" where
  "copy_bytes b = (if bytes_len b = 0 then None else b)"

definition modelOverrideFromDB :: "model_override_row \<Rightarrow> ModelOverride" where
  "modelOverrideFromDB r =
     \<lparr>ov_ID = mo_id r, ov_Provider = mo_provider r, ov_ModelAlias = mo_model_alias r,
      ov_UpstreamModel = mo_upstream_model r, ov_Enabled = mo_enabled r, ov_Config = copy_bytes (mo_config r)\<rparr>"

definition DeleteModelOverride :: "string \<Rightarrow> int query" where
  "DeleteModelOverride alias w d =
     (let hit = (\<lambda>m. mo_model_alias m = alias)
      in (Inr (count_where hit (model_overrides d)), d\<lparr>model_overrides := delete_where hit (model_overrides d)\<rparr>))"

definition ListModelOverrides :: "model_override_row list query" where
  "ListModelOverrides w d = (Inr (sort_key mo_model_alias (model_overrides d)), d)"

text \<open>The insertion takes a value of the identity column also when it turns into an update.\<close>

definition UpsertModelOverride ::
  "string \<Rightarrow> string \<Rightarrow> string \<Rightarrow> bool \<Rightarrow> string option \<Rightarrow> model_override_row query" where
  "UpsertModelOverride provider alias upstream enabled config w d =
     (if config = Some [] then (Inl (ErrPg ''invalid_text_representation''), d)
      else (case find (\<lambda>m. mo_model_alias m = alias) (model_overrides d) of
              Some m \<Rightarrow>
                (let m' = m\<lparr>mo_provider := provider, mo_upstream_model := upstream, mo_enabled := enabled, mo_config := config\<rparr>
                 in (Inr m', d\<lparr>model_overrides := update_where (\<lambda>r. mo_model_alias r = alias) (\<lambda>_. m') (model_overrides d),
                               overrides_seq := overrides_seq d + 1\<rparr>))
            | None \<Rightarrow>
                (let m' = \<lparr>mo_id = overrides_seq d + 1, mo_provider = provider, mo_model_alias = alias,
                           mo_upstream_model = upstream, mo_enabled = enabled, mo_config = config\<rparr>
                 in (Inr m', d\<lparr>model_overrides := model_overrides d @ [m'], overrides_seq := overrides_seq d + 1\<rparr>))))"

definition Overrides_Upsert ::
  "(string \<Rightarrow> bool) \<Rightarrow> UpsertModelOverrideParams \<Rightarrow> world \<Rightarrow> ModelOverride result \<times> world" where
  "Overrides_Upsert valid p w =
     (if \<not> validModelOverrideParams valid p then (Inl ErrInvalidInput, w)
      else (case run_query (UpsertModelOverride (om_Provider p) (om_ModelAlias p) (om_UpstreamModel p) (om_Enabled p) (om_Config p)) w of
              (Inl e, w1) \<Rightarrow> (Inl (Wrapf ''upsert model override'' e), w1)
            | (Inr row, w1) \<Rightarrow> (Inr (modelOverrideFromDB row), w1)))"

definition Overrides_List :: "world \<Rightarrow> ModelOverride list result \<times> world" where
  "Overrides_List w =
     (case run_query ListModelOverrides w of
        (Inl e, w1) \<Rightarrow> (Inl (Wrapf ''list model overrides'' e), w1)
      | (Inr rows, w1) \<Rightarrow> (Inr (map modelOverrideFromDB rows), w1))"

definition Overrides_Delete :: "string \<Rightarrow> world \<Rightarrow> unit result \<times> world" where
  "Overrides_Delete alias w =
     (if alias = [] then (Inl ErrInvalidInput, w)
      else (case run_query (DeleteModelOverride alias) w of
              (Inl e, w1) \<Rightarrow> (Inl (Wrapf ''delete model override'' e), w1)
            | (Inr deleted, w1) \<Rightarrow> (if deleted = 0 then (Inl ErrNotFound, w1) else (Inr (), w1))))"

section \<open>Audited administration\<close>

definition upsert_entry :: "json_codec \<Rightarrow> int \<Rightarrow> UpsertModelOverrideParams \<Rightarrow> ip_addr option \<Rightarrow> AdminAuditLogEntry" where
  "upsert_entry J actor p ip =
     \<lparr>ae_ActorUserID = actor, ae_Action = ''model_override.upserted'', ae_TargetType = ''model_override'',
      ae_TargetID = om_ModelAlias p,
      ae_Details = json_obj J [(''provider'', om_Provider p), (''upstream_model'', om_UpstreamModel p)], ae_ActorIP = ip\<rparr>"

definition delete_entry :: "int \<Rightarrow> string \<Rightarrow> ip_addr option \<Rightarrow> AdminAuditLogEntry" where
  "delete_entry actor alias ip =
     \<lparr>ae_ActorUserID = actor, ae_Action = ''model_override.deleted'', ae_TargetType = ''model_override'',
      ae_TargetID = alias, ae_Details = [], ae_ActorIP = ip\<rparr>"

definition UpsertWithAudit ::
  "json_codec \<Rightarrow> int \<Rightarrow> UpsertModelOverrideParams \<Rightarrow> ip_addr option \<Rightarrow> world \<Rightarrow> ModelOverride result \<times> world" where
  "UpsertWithAudit J actor p ip w =
     (if actor \<le> 0 \<or> \<not> validModelOverrideParams (json_valid J) p then (Inl ErrInvalidInput, w)
      else in_tx (\<lambda>e. e) (\<lambda>e. e)
             (\<lambda>w1. case Overrides_Upsert (json_valid J) p w1 of
                      (Inl e, w2) \<Rightarrow> (Inl e, w2)
                    | (Inr v, w2) \<Rightarrow>
                        (case Audit_Insert (json_valid J) (upsert_entry J actor p ip) w2 of
                           (Inl e, w3) \<Rightarrow> (Inl e, w3)
                         | (Inr _, w3) \<Rightarrow> (Inr v, w3))) w)"

definition DeleteWithAudit ::
  "(string \<Rightarrow> bool) \<Rightarrow> int \<Rightarrow> string \<Rightarrow> ip_addr option \<Rightarrow> world \<Rightarrow> unit result \<times> world" where
  "DeleteWithAudit valid actor alias ip w =
     (if actor \<le> 0 \<or> alias = [] then (Inl ErrInvalidInput, w)
      else in_tx (\<lambda>e. e) (\<lambda>e. e)
             (\<lambda>w1. case Overrides_Delete alias w1 of
                      (Inl e, w2) \<Rightarrow> (Inl e, w2)
                    | (Inr _, w2) \<Rightarrow>
                        (case Audit_Insert valid (delete_entry actor alias ip) w2 of
                           (Inl e, w3) \<Rightarrow> (Inl e, w3)
                         | (Inr _, w3) \<Rightarrow> (Inr (), w3))) w)"

section \<open>Registry snapshots\<close>

record ModelRegistrySnapshot =
  sn_Provider :: string
  sn_ClientID :: string
  sn_Models :: string
  sn_UpdatedAt :: instant

text \<open>\<open>is_array\<close> is the check constraint \<^verbatim>\<open>jsonb_typeof(models) = 'array'\<close>.\<close>

definition UpsertModelRegistrySnapshot :: "(string \<Rightarrow> bool) \<Rightarrow> string \<Rightarrow> string \<Rightarrow> string \<Rightarrow> unit query" where
  "UpsertModelRegistrySnapshot is_array provider client_id models w d =
     (if \<not> is_array models then (Inl (ErrPg ''check_violation''), d)
      else (let hit = (\<lambda>s. ms_provider s = provider \<and> ms_client_id s = client_id)
            in if count_where hit (model_registry_snapshots d) \<noteq> 0
               then (Inr (), d\<lparr>model_registry_snapshots := update_where hit
                        (\<lambda>s. s\<lparr>ms_models := models, ms_updated_at := w_clock w\<rparr>) (model_registry_snapshots d)\<rparr>)
               else (Inr (), d\<lparr>model_registry_snapshots := model_registry_snapshots d @
                        [\<lparr>ms_provider = provider, ms_client_id = client_id, ms_models = models, ms_updated_at = w_clock w\<rparr>]\<rparr>)))"

definition ListModelRegistrySnapshots :: "snapshot_row list query" where
  "ListModelRegistrySnapshots w d =
     (Inr (sort_key ms_provider (sort_key ms_client_id (model_registry_snapshots d))), d)"

definition DeleteModelRegistrySnapshot :: "string \<Rightarrow> string \<Rightarrow> int query" where
  "DeleteModelRegistrySnapshot provider client_id w d =
     (let hit = (\<lambda>s. ms_provider s = provider \<and> ms_client_id s = client_id)
      in (Inr (count_where hit (model_registry_snapshots d)),
          d\<lparr>model_registry_snapshots := delete_where hit (model_registry_snapshots d)\<rparr>))"

definition Snapshots_Replace ::
  "(string \<Rightarrow> bool) \<Rightarrow> (string \<Rightarrow> bool) \<Rightarrow> string \<Rightarrow> string \<Rightarrow> string \<Rightarrow> world \<Rightarrow> unit result \<times> world" where
  "Snapshots_Replace valid is_array provider clientID models w =
     (if provider = [] \<or> clientID = [] \<or> \<not> valid models then (Inl ErrInvalidInput, w)
      else (case run_query (UpsertModelRegistrySnapshot is_array provider clientID models) w of
              (Inl e, w1) \<Rightarrow> (Inl (Wrapf ''upsert model registry snapshot'' e), w1)
            | (Inr _, w1) \<Rightarrow> (Inr (), w1)))"

definition Snapshots_List :: "world \<Rightarrow> ModelRegistrySnapshot list result \<times> world" where
  "Snapshots_List w =
     (case run_query ListModelRegistrySnapshots w of
        (Inl e, w1) \<Rightarrow> (Inl (Wrapf ''list model registry snapshots'' e), w1)
      | (Inr rows, w1) \<Rightarrow>
          (Inr (map (\<lambda>r. \<lparr>sn_Provider = ms_provider r, sn_ClientID = ms_client_id r, sn_Models = ms_models r,
                          sn_UpdatedAt = ms_updated_at r\<rparr>) rows), w1))"

definition Snapshots_Delete :: "string \<Rightarrow> string \<Rightarrow> world \<Rightarrow> unit result \<times> world" where
  "Snapshots_Delete provider clientID w =
     (if provider = [] \<or> clientID = [] then (Inl ErrInvalidInput, w)
      else (case run_query (DeleteModelRegistrySnapshot provider clientID) w of
              (Inl e, w1) \<Rightarrow> (Inl (Wrapf ''delete model registry snapshot'' e), w1)
            | (Inr deleted, w1) \<Rightarrow> (if deleted = 0 then (Inl ErrNotFound, w1) else (Inr (), w1))))"

text \<open>
  The hook of the SDK registry. Errors are logged only. \<open>marshal\<close> is \<^verbatim>\<open>json.Marshal\<close> of the list of
  model descriptions; \<open>has_store\<close> is false for a nil store.
\<close>

definition hook_validIdentity :: "string \<Rightarrow> string \<Rightarrow> bool" where
  "hook_validIdentity provider clientID = (provider \<noteq> [] \<and> clientID \<noteq> [])"

definition OnModelsRegistered ::
  "(string \<Rightarrow> bool) \<Rightarrow> (string \<Rightarrow> bool) \<Rightarrow> ('m list \<Rightarrow> string option) \<Rightarrow> bool \<Rightarrow> string \<Rightarrow> string \<Rightarrow> 'm list \<Rightarrow> world \<Rightarrow> world" where
  "OnModelsRegistered valid is_array marshal has_store provider clientID models w =
     (if \<not> hook_validIdentity provider clientID \<or> \<not> has_store then w
      else (case marshal models of
              None \<Rightarrow> w
            | Some snapshot \<Rightarrow> snd (Snapshots_Replace valid is_array provider clientID snapshot w)))"

definition OnModelsUnregistered :: "bool \<Rightarrow> string \<Rightarrow> string \<Rightarrow> world \<Rightarrow> world" where
  "OnModelsUnregistered has_store provider clientID w =
     (if \<not> hook_validIdentity provider clientID \<or> \<not> has_store then w
      else snd (Snapshots_Delete provider clientID w))"

section \<open>Properties\<close>

definition wf_overrides :: "database \<Rightarrow> bool" where
  "wf_overrides d = (distinct (map mo_model_alias (model_overrides d)))"

text \<open>The allow-list a client sees: what an alias maps to.\<close>

definition override_of :: "database \<Rightarrow> string \<Rightarrow> model_override_row option" where
  "override_of d alias = find (\<lambda>m. mo_model_alias m = alias) (model_overrides d)"

lemma find_update_where_other:
  "(\<And>r. p r \<Longrightarrow> k (f r) = k r) \<Longrightarrow> (\<And>r. p r \<Longrightarrow> k r \<noteq> a) \<Longrightarrow>
   find (\<lambda>r. k r = a) (update_where p f t) = find (\<lambda>r. k r = a) t"
  by (induction t) (auto simp: update_where_def)

lemma find_delete_where:
  "find (\<lambda>r. k r = a) (delete_where (\<lambda>r. k r = b) t) = (if a = b then None else find (\<lambda>r. k r = a) t)"
  by (induction t) (auto simp: delete_where_def)

lemma find_update_where_same:
  "find (\<lambda>r. k r = a) t = Some r0 \<Longrightarrow> k r1 = a \<Longrightarrow> find (\<lambda>r. k r = a) (update_where (\<lambda>r. k r = a) (\<lambda>_. r1) t) = Some r1"
  by (induction t) (auto simp: update_where_def split: if_splits)

lemma find_snoc: "find p (t @ [r]) = (case find p t of None \<Rightarrow> if p r then Some r else None | Some x \<Rightarrow> Some x)"
  by (induction t) auto

lemma UpsertModelOverride_ok:
  assumes "UpsertModelOverride provider alias upstream enabled config w d = (Inr row, d')"
  shows "override_of d' alias = Some row \<and> mo_provider row = provider \<and> mo_model_alias row = alias \<and>
     mo_upstream_model row = upstream \<and> mo_enabled row = enabled \<and> mo_config row = config"
    and "a \<noteq> alias \<Longrightarrow> override_of d' a = override_of d a"
    and "wf_overrides d \<Longrightarrow> wf_overrides d'"
proof (atomize (full), cases "find (\<lambda>m. mo_model_alias m = alias) (model_overrides d)")
  case None
  with assms have d': "model_overrides d' = model_overrides d @ [row]" "mo_provider row = provider \<and> mo_model_alias row = alias \<and>
     mo_upstream_model row = upstream \<and> mo_enabled row = enabled \<and> mo_config row = config"
    by (auto simp: UpsertModelOverride_def Let_def split: if_splits)
  have "alias \<notin> mo_model_alias ` set (model_overrides d)" using None by (auto simp: find_None_set)
  then show "(override_of d' alias = Some row \<and> mo_provider row = provider \<and> mo_model_alias row = alias \<and>
     mo_upstream_model row = upstream \<and> mo_enabled row = enabled \<and> mo_config row = config) \<and>
    (a \<noteq> alias \<longrightarrow> override_of d' a = override_of d a) \<and> (wf_overrides d \<longrightarrow> wf_overrides d')"
    using None d' by (auto simp: override_of_def find_snoc wf_overrides_def split: option.splits)
next
  case (Some m)
  let ?m = "m\<lparr>mo_provider := provider, mo_upstream_model := upstream, mo_enabled := enabled, mo_config := config\<rparr>"
  have al: "mo_model_alias m = alias" using find_Some_set [OF Some] by simp
  from Some assms have d': "model_overrides d' = update_where (\<lambda>r. mo_model_alias r = alias) (\<lambda>_. ?m) (model_overrides d)" "row = ?m"
    by (auto simp: UpsertModelOverride_def Let_def split: if_splits)
  have "map mo_model_alias (update_where (\<lambda>r. mo_model_alias r = alias) (\<lambda>_. ?m) (model_overrides d)) = map mo_model_alias (model_overrides d)"
    using al by (intro map_update_where_key) simp
  then show "(override_of d' alias = Some row \<and> mo_provider row = provider \<and> mo_model_alias row = alias \<and>
     mo_upstream_model row = upstream \<and> mo_enabled row = enabled \<and> mo_config row = config) \<and>
    (a \<noteq> alias \<longrightarrow> override_of d' a = override_of d a) \<and> (wf_overrides d \<longrightarrow> wf_overrides d')"
    using al Some unfolding override_of_def wf_overrides_def d'
    by (auto simp: find_update_where_same find_update_where_other)
qed


lemma UpsertModelOverride_audit: "admin_audit_log (snd (UpsertModelOverride a b c e f w d)) = admin_audit_log d \<and>
    audit_seq (snd (UpsertModelOverride a b c e f w d)) = audit_seq d"
  by (simp add: UpsertModelOverride_def Let_def split: option.splits)

lemma Overrides_Upsert_ok:
  assumes "Overrides_Upsert valid p w = (Inr v, w')"
  obtains row where "v = modelOverrideFromDB row" "override_of (w_db w') (om_ModelAlias p) = Some row"
    "mo_provider row = om_Provider p" "mo_upstream_model row = om_UpstreamModel p" "mo_enabled row = om_Enabled p"
    "mo_config row = om_Config p" "\<forall>a. a \<noteq> om_ModelAlias p \<longrightarrow> override_of (w_db w') a = override_of (w_db w) a"
    "admin_audit_log (w_db w') = admin_audit_log (w_db w)" "audit_seq (w_db w') = audit_seq (w_db w)"
proof -
  let ?q = "UpsertModelOverride (om_Provider p) (om_ModelAlias p) (om_UpstreamModel p) (om_Enabled p) (om_Config p)"
  obtain y w1 where q: "run_query ?q w = (y, w1)" by fastforce
  with assms obtain row where "y = Inr row" "w1 = w'" and v: "v = modelOverrideFromDB row"
    by (auto simp: Overrides_Upsert_def split: if_splits sum.splits)
  with q have "run_query ?q w = (Inr row, w')" by simp
  then obtain w2 where e: "?q w2 (w_db w) = (Inr row, w_db w')" by (rule run_query_ok)
  note ok = UpsertModelOverride_ok [OF e]
  have "admin_audit_log (w_db w') = admin_audit_log (w_db w) \<and> audit_seq (w_db w') = audit_seq (w_db w)"
    using UpsertModelOverride_audit [of "om_Provider p" "om_ModelAlias p" "om_UpstreamModel p" "om_Enabled p" "om_Config p" w2 "w_db w"] e
    by simp
  with v ok show thesis by (intro that [of row]) auto
qed

text \<open>
  Editing the model allow-list from the admin API is atomic and audited. On success the alias maps to
  exactly the submitted provider, upstream model, state and configuration, every other alias is as before,
  and one audit record naming actor and alias was appended; on any error nothing changed.
\<close>

theorem model_upsert_atomic_and_audited:
  "case UpsertWithAudit J actor p ip w of
     (Inl e, w') \<Rightarrow> w_db w' = w_db w
   | (Inr v, w') \<Rightarrow>
       (\<exists>row. v = modelOverrideFromDB row \<and> override_of (w_db w') (om_ModelAlias p) = Some row \<and>
          mo_provider row = om_Provider p \<and> mo_upstream_model row = om_UpstreamModel p \<and> mo_enabled row = om_Enabled p \<and>
          mo_config row = om_Config p) \<and>
       (\<forall>a. a = om_ModelAlias p \<or> override_of (w_db w') a = override_of (w_db w) a) \<and>
       (\<exists>t. admin_audit_log (w_db w') = admin_audit_log (w_db w) @ [audit_of (upsert_entry J actor p ip) t (audit_seq (w_db w) + 1)])"
proof -
  obtain x w' where eq: "UpsertWithAudit J actor p ip w = (x, w')" by fastforce
  let ?body = "\<lambda>w1. case Overrides_Upsert (json_valid J) p w1 of (Inl e, w2) \<Rightarrow> (Inl e, w2)
     | (Inr v, w2) \<Rightarrow> (case Audit_Insert (json_valid J) (upsert_entry J actor p ip) w2 of
         (Inl e, w3) \<Rightarrow> (Inl e, w3) | (Inr _, w3) \<Rightarrow> (Inr v, w3))"
  show ?thesis
  proof (cases x)
    case (Inl e)
    with eq have "w_db w' = w_db w" by (auto simp: UpsertWithAudit_def split: if_splits dest: in_tx_error)
    with eq Inl show ?thesis by simp
  next
    case (Inr v)
    with eq have "in_tx (\<lambda>e. e) (\<lambda>e. e) ?body w = (Inr v, w')" by (auto simp: UpsertWithAudit_def split: if_splits)
    then obtain w1 w2 where w: "w_db w1 = w_db w" "?body w1 = (Inr v, w2)" "w_db w' = w_db w2" by (rule in_tx_ok)
    obtain y w3 where u: "Overrides_Upsert (json_valid J) p w1 = (y, w3)" by fastforce
    obtain z w4 where a: "Audit_Insert (json_valid J) (upsert_entry J actor p ip) w3 = (z, w4)" by fastforce
    from w(2) u a have y: "y = Inr v" by (cases y; cases z) auto
    from w(2) u a y obtain z' where z: "z = Inr z'" "w4 = w2" by (cases z) auto
    from Overrides_Upsert_ok [OF u [unfolded y]] obtain row where row: "v = modelOverrideFromDB row"
      "override_of (w_db w3) (om_ModelAlias p) = Some row" "mo_provider row = om_Provider p"
      "mo_upstream_model row = om_UpstreamModel p" "mo_enabled row = om_Enabled p" "mo_config row = om_Config p"
      "\<forall>a. a \<noteq> om_ModelAlias p \<longrightarrow> override_of (w_db w3) a = override_of (w_db w1) a"
      "admin_audit_log (w_db w3) = admin_audit_log (w_db w1)" "audit_seq (w_db w3) = audit_seq (w_db w1)" .
    from Audit_Insert_ok [OF a [unfolded z]] obtain t where t: "w_db w2 = with_audit (upsert_entry J actor p ip) t (w_db w3)" .
    have same: "override_of (w_db w') a = override_of (w_db w3) a" for a
      using w(3) t by (simp add: override_of_def)
    have "a = om_ModelAlias p \<or> override_of (w_db w') a = override_of (w_db w) a" for a
      using row(7) same w(1) by metis
    moreover have "admin_audit_log (w_db w') = admin_audit_log (w_db w) @ [audit_of (upsert_entry J actor p ip) t (audit_seq (w_db w) + 1)]"
      using w t row(8,9) by simp
    ultimately show ?thesis unfolding eq Inr using row(1-6) same by auto
  qed
qed

end
