(* ===== verification/Usage_Events.thy ===== *)
theory Usage_Events
  imports Access_Provider "HOL-Library.Multiset"
begin

text \<open>
  \<^verbatim>\<open>internal/store/usage_events.go\<close> and its queries (\<^verbatim>\<open>dbgen/usage_events.sql.go\<close>, \<^verbatim>\<open>dbgen/batch.go\<close>): the
  table of usage events, single and batch insertion, and the personal statistics.

  A pgx batch runs in one implicit transaction, so that an error of one statement undoes all of them;
  \<^verbatim>\<open>now()\<close> is the time of that transaction. The sums of the statistics are \<^typ>\<open>int\<close>: they are
  \<^verbatim>\<open>bigint\<close> sums of \<^verbatim>\<open>integer\<close> columns, which stay in range below \<open>2 ^ 32\<close> rows.
\<close>

section \<open>Data\<close>

record UsageEvent =
  ev_UserID :: "int option"
  ev_APIKeyID :: "int option"
  ev_UpstreamAccountID :: string
  ev_Provider :: string
  ev_Model :: string
  ev_InputTokens :: int
  ev_OutputTokens :: int
  ev_ReasoningTokens :: int
  ev_CachedTokens :: int
  ev_TotalTokens :: int
  ev_StatusCode :: int
  ev_Error :: string
  ev_LatencyMS :: int
  ev_TTFTMS :: int
  ev_Failed :: bool

record UsageModelSummary =
  ms_Model :: string
  ms_RequestCount :: int
  ms_FailedRequestCount :: int
  ms_TotalTokens :: int

record UsageAPIKeySummary =
  ks_APIKeyID :: int
  ks_RequestCount :: int
  ks_FailedRequestCount :: int
  ks_TotalTokens :: int

record UsageSummary =
  us_RequestCount :: int
  us_FailedRequestCount :: int
  us_InputTokens :: int
  us_OutputTokens :: int
  us_ReasoningTokens :: int
  us_CachedTokens :: int
  us_TotalTokens :: int
  us_ByModel :: "UsageModelSummary list"
  us_ByAPIKey :: "UsageAPIKeySummary list"

record InsertUsageEventParams =
  ip_UserID :: "int option"
  ip_ApiKeyID :: "int option"
  ip_UpstreamAccountID :: "string option"
  ip_Provider :: "string option"
  ip_Model :: "string option"
  ip_InputTokens :: int
  ip_OutputTokens :: int
  ip_ReasoningTokens :: int
  ip_CachedTokens :: int
  ip_TotalTokens :: int
  ip_StatusCode :: int
  ip_Error :: "string option"
  ip_LatencyMs :: int
  ip_TtftMs :: int
  ip_Failed :: bool

section \<open>Queries\<close>

definition usage_row :: "InsertUsageEventParams \<Rightarrow> int \<Rightarrow> instant \<Rightarrow> usage_event_row" where
  "usage_row p i t =
     \<lparr>ue_id = i, ue_user_id = ip_UserID p, ue_api_key_id = ip_ApiKeyID p, ue_upstream_account_id = ip_UpstreamAccountID p,
      ue_provider = ip_Provider p, ue_model = ip_Model p, ue_input_tokens = ip_InputTokens p, ue_output_tokens = ip_OutputTokens p,
      ue_reasoning_tokens = ip_ReasoningTokens p, ue_cached_tokens = ip_CachedTokens p, ue_total_tokens = ip_TotalTokens p,
      ue_status_code = ip_StatusCode p, ue_error = ip_Error p, ue_latency_ms = ip_LatencyMs p, ue_ttft_ms = ip_TtftMs p,
      ue_failed = ip_Failed p, ue_created_at = t\<rparr>"

text \<open>The foreign keys of a new row, and the partition its time falls into.\<close>

definition references_ok :: "InsertUsageEventParams \<Rightarrow> database \<Rightarrow> bool" where
  "references_ok p d =
     ((case ip_UserID p of None \<Rightarrow> True | Some u \<Rightarrow> list_ex (\<lambda>r. u_id r = u) (users d)) \<and>
      (case ip_ApiKeyID p of None \<Rightarrow> True | Some k \<Rightarrow> list_ex (\<lambda>r. k_id r = k) (api_keys d)) \<and>
      (case ip_UpstreamAccountID p of None \<Rightarrow> True | Some a \<Rightarrow> list_ex (\<lambda>r. ua_id r = a) (upstream_accounts d)))"

definition has_partition :: "instant \<Rightarrow> database \<Rightarrow> bool" where
  "has_partition t d = list_ex (\<lambda>(a, b). a \<le> t \<and> t < b) (usage_partitions d)"

definition InsertUsageEvent :: "InsertUsageEventParams \<Rightarrow> unit query" where
  "InsertUsageEvent p w d =
     (if \<not> has_partition (w_clock w) d then (Inl (ErrPg ''no partition of relation found for row''), d)
      else if \<not> references_ok p d then (Inl (ErrPg ''foreign_key_violation''), d)
      else (Inr (), d\<lparr>usage_events := usage_events d @ [usage_row p (usage_seq d + 1) (w_clock w)],
                      usage_seq := usage_seq d + 1\<rparr>))"

text \<open>The statements of a batch one after the other; the first error ends the implicit transaction.\<close>

fun batch_statements :: "InsertUsageEventParams list \<Rightarrow> unit query" where
  "batch_statements [] w d = (Inr (), d)"
| "batch_statements (p # ps) w d =
     (case InsertUsageEvent p w d of
        (Inl e, d1) \<Rightarrow> (Inl e, d1)
      | (Inr _, d1) \<Rightarrow> batch_statements ps w d1)"

definition InsertUsageEvents :: "InsertUsageEventParams list \<Rightarrow> unit query" where
  "InsertUsageEvents ps w d =
     (case batch_statements ps w d of
        (Inl e, _) \<Rightarrow> (Inl e, d)
      | (Inr _, d1) \<Rightarrow> (Inr (), d1))"

definition in_window :: "int \<Rightarrow> instant \<Rightarrow> instant \<Rightarrow> usage_event_row \<Rightarrow> bool" where
  "in_window userID from to e = (ue_user_id e = Some userID \<and> from \<le> ue_created_at e \<and> ue_created_at e < to)"

definition sum_col :: "('r \<Rightarrow> int) \<Rightarrow> 'r list \<Rightarrow> int" where
  "sum_col f rows = sum_list (map f rows)"

definition GetUsageSummaryByUser :: "int \<Rightarrow> instant \<Rightarrow> instant \<Rightarrow> (int \<times> int \<times> int \<times> int \<times> int \<times> int \<times> int) query" where
  "GetUsageSummaryByUser userID from to w d =
     (let rows = filter (in_window userID from to) (usage_events d)
      in (Inr (int (length rows), count_where ue_failed rows, sum_col ue_input_tokens rows, sum_col ue_output_tokens rows,
               sum_col ue_reasoning_tokens rows, sum_col ue_cached_tokens rows, sum_col ue_total_tokens rows), d))"

text \<open>\<^verbatim>\<open>GROUP BY\<close> a column, each group with its count, its failures and its tokens.\<close>

definition group_rows :: "('r \<Rightarrow> 'k) \<Rightarrow> 'r list \<Rightarrow> ('k \<times> 'r list) list" where
  "group_rows k rows = map (\<lambda>x. (x, filter (\<lambda>r. k r = x) rows)) (remdups (map k rows))"

definition group_counts :: "usage_event_row list \<Rightarrow> int \<times> int \<times> int" where
  "group_counts rows = (int (length rows), count_where ue_failed rows, sum_col ue_total_tokens rows)"

definition ListUsageByModelForUser :: "int \<Rightarrow> instant \<Rightarrow> instant \<Rightarrow> (string \<times> int \<times> int \<times> int) list query" where
  "ListUsageByModelForUser userID from to w d =
     (let rows = filter (\<lambda>e. in_window userID from to e \<and> ue_model e \<noteq> None \<and> ue_model e \<noteq> Some []) (usage_events d);
          groups = map (\<lambda>(m, rs). (m, group_counts rs)) (group_rows (\<lambda>e. the (ue_model e)) rows)
      in (Inr (sort_key (\<lambda>(_, _, _, total). - total) (sort_key fst groups)), d))"

definition ListUsageByAPIKeyForUser :: "int \<Rightarrow> instant \<Rightarrow> instant \<Rightarrow> (int \<times> int \<times> int \<times> int) list query" where
  "ListUsageByAPIKeyForUser userID from to w d =
     (let rows = filter (\<lambda>e. in_window userID from to e \<and> ue_api_key_id e \<noteq> None) (usage_events d);
          groups = map (\<lambda>(k, rs). (k, group_counts rs)) (group_rows (\<lambda>e. the (ue_api_key_id e)) rows)
      in (Inr (sort_key (\<lambda>(_, _, _, total). - total) (sort_key fst groups)), d))"

section \<open>Repository\<close>

definition usageEventParams :: "UsageEvent \<Rightarrow> InsertUsageEventParams result" where
  "usageEventParams ev =
     (if ev_StatusCode ev < 0 \<or> ev_LatencyMS ev < 0 \<or> ev_TTFTMS ev < 0 then Inl ErrInvalidInput
      else if list_ex (\<lambda>v. v < 0 \<or> v > max_int32)
           [ev_InputTokens ev, ev_OutputTokens ev, ev_ReasoningTokens ev, ev_CachedTokens ev, ev_TotalTokens ev,
            ev_LatencyMS ev, ev_TTFTMS ev] then Inl ErrInvalidInput
      else if ev_StatusCode ev > max_int32 then Inl ErrInvalidInput
      else Inr \<lparr>ip_UserID = ev_UserID ev, ip_ApiKeyID = ev_APIKeyID ev,
                ip_UpstreamAccountID = nullableText (ev_UpstreamAccountID ev), ip_Provider = nullableText (ev_Provider ev),
                ip_Model = nullableText (ev_Model ev), ip_InputTokens = ev_InputTokens ev, ip_OutputTokens = ev_OutputTokens ev,
                ip_ReasoningTokens = ev_ReasoningTokens ev, ip_CachedTokens = ev_CachedTokens ev,
                ip_TotalTokens = ev_TotalTokens ev, ip_StatusCode = ev_StatusCode ev, ip_Error = nullableText (ev_Error ev),
                ip_LatencyMs = ev_LatencyMS ev, ip_TtftMs = ev_TTFTMS ev, ip_Failed = ev_Failed ev\<rparr>)"

definition Usage_Insert :: "UsageEvent \<Rightarrow> world \<Rightarrow> unit result \<times> world" where
  "Usage_Insert ev w =
     (case usageEventParams ev of
        Inl e \<Rightarrow> (Inl e, w)
      | Inr params \<Rightarrow>
          (case run_query (InsertUsageEvent params) w of
             (Inl e, w1) \<Rightarrow> (Inl (Wrapf ''insert usage event'' e), w1)
           | (Inr _, w1) \<Rightarrow> (Inr (), w1)))"

text \<open>The loop that converts the events and stops at the first invalid one.\<close>

fun batchParams :: "UsageEvent list \<Rightarrow> InsertUsageEventParams list result" where
  "batchParams [] = Inr []"
| "batchParams (ev # evs) =
     (case usageEventParams ev of
        Inl e \<Rightarrow> Inl e
      | Inr p \<Rightarrow> (case batchParams evs of Inl e \<Rightarrow> Inl e | Inr ps \<Rightarrow> Inr (p # ps)))"

definition InsertBatch :: "UsageEvent list \<Rightarrow> world \<Rightarrow> unit result \<times> world" where
  "InsertBatch evs w =
     (if evs = [] then (Inr (), w)
      else (case batchParams evs of
              Inl e \<Rightarrow> (Inl e, w)
            | Inr params \<Rightarrow>
                (case run_query (InsertUsageEvents params) w of
                   (Inl e, w1) \<Rightarrow> (Inl (Wrapf ''insert usage event batch'' e), w1)
                 | (Inr _, w1) \<Rightarrow> (Inr (), w1))))"

definition TouchAPIKeysLastUsed :: "int list \<Rightarrow> world \<Rightarrow> unit result \<times> world" where
  "TouchAPIKeysLastUsed ids w =
     (if ids = [] then (Inr (), w)
      else (case run_query (TouchAPIKeysLastUsed_q ids) w of
              (Inl e, w1) \<Rightarrow> (Inl (Wrapf ''touch API keys last used'' e), w1)
            | (Inr _, w1) \<Rightarrow> (Inr (), w1)))"

definition GetSummaryByUser :: "int \<Rightarrow> instant \<Rightarrow> instant \<Rightarrow> world \<Rightarrow> UsageSummary result \<times> world" where
  "GetSummaryByUser userID from to w =
     (if userID \<le> 0 \<or> \<not> from < to then (Inl ErrInvalidInput, w)
      else (case run_query (GetUsageSummaryByUser userID from to) w of
              (Inl e, w1) \<Rightarrow> (Inl (Wrapf ''get usage summary'' e), w1)
            | (Inr (n, failed, it, ot, rt, ct, tt), w1) \<Rightarrow>
                (case run_query (ListUsageByModelForUser userID from to) w1 of
                   (Inl e, w2) \<Rightarrow> (Inl (Wrapf ''list usage by model'' e), w2)
                 | (Inr models, w2) \<Rightarrow>
                     (case run_query (ListUsageByAPIKeyForUser userID from to) w2 of
                        (Inl e, w3) \<Rightarrow> (Inl (Wrapf ''list usage by API-key'' e), w3)
                      | (Inr key_rows, w3) \<Rightarrow>
                          (Inr \<lparr>us_RequestCount = n, us_FailedRequestCount = failed, us_InputTokens = it, us_OutputTokens = ot,
                                us_ReasoningTokens = rt, us_CachedTokens = ct, us_TotalTokens = tt,
                                us_ByModel = map (\<lambda>(m, c, f, t). \<lparr>ms_Model = m, ms_RequestCount = c, ms_FailedRequestCount = f,
                                                                  ms_TotalTokens = t\<rparr>) models,
                                us_ByAPIKey = map (\<lambda>(k, c, f, t). \<lparr>ks_APIKeyID = k, ks_RequestCount = c, ks_FailedRequestCount = f,
                                                                  ks_TotalTokens = t\<rparr>) key_rows\<rparr>, w3)))))"

section \<open>Insertion\<close>

text \<open>The event a row stands for.\<close>

definition row_event :: "usage_event_row \<Rightarrow> UsageEvent" where
  "row_event r =
     \<lparr>ev_UserID = ue_user_id r, ev_APIKeyID = ue_api_key_id r, ev_UpstreamAccountID = text_String (ue_upstream_account_id r),
      ev_Provider = text_String (ue_provider r), ev_Model = text_String (ue_model r), ev_InputTokens = ue_input_tokens r,
      ev_OutputTokens = ue_output_tokens r, ev_ReasoningTokens = ue_reasoning_tokens r, ev_CachedTokens = ue_cached_tokens r,
      ev_TotalTokens = ue_total_tokens r, ev_StatusCode = ue_status_code r, ev_Error = text_String (ue_error r),
      ev_LatencyMS = ue_latency_ms r, ev_TTFTMS = ue_ttft_ms r, ev_Failed = ue_failed r\<rparr>"

definition batch_rows :: "InsertUsageEventParams list \<Rightarrow> int \<Rightarrow> instant \<Rightarrow> usage_event_row list" where
  "batch_rows ps n t = map (\<lambda>(i, p). usage_row p (n + int i + 1) t) (enumerate 0 ps)"

lemma batch_rows_simps [simp]:
  "batch_rows [] n t = []"
  "batch_rows (p # ps) n t = usage_row p (n + 1) t # batch_rows ps (n + 1) t"
proof -
  have "map (\<lambda>(i, p). usage_row p (n + int i + 1) t) (enumerate (Suc 0) ps)
      = map (\<lambda>(i, p). usage_row p (n + 1 + int i + 1) t) (enumerate 0 ps)"
    by (rule nth_equalityI) (auto simp: nth_enumerate_eq algebra_simps)
  then show "batch_rows (p # ps) n t = usage_row p (n + 1) t # batch_rows ps (n + 1) t"
    by (simp add: batch_rows_def)
qed (simp add: batch_rows_def)

lemma row_event_usage_row: "usageEventParams ev = Inr p \<Longrightarrow> row_event (usage_row p i t) = ev"
  by (auto simp: usageEventParams_def row_event_def usage_row_def split: if_splits)

lemma usage_row_simps [simp]: "ue_created_at (usage_row p i t) = t" "ue_id (usage_row p i t) = i"
  by (simp_all add: usage_row_def)

definition insertable :: "InsertUsageEventParams list \<Rightarrow> instant \<Rightarrow> database \<Rightarrow> bool" where
  "insertable ps t d = (list_all (\<lambda>p. references_ok p d) ps \<and> (ps = [] \<or> has_partition t d))"

lemma references_ok_cong:
  "users d' = users d \<Longrightarrow> map k_id (api_keys d') = map k_id (api_keys d) \<Longrightarrow> upstream_accounts d' = upstream_accounts d \<Longrightarrow>
   references_ok p d' = references_ok p d"
proof -
  assume a: "users d' = users d" "map k_id (api_keys d') = map k_id (api_keys d)" "upstream_accounts d' = upstream_accounts d"
  have "list_ex (\<lambda>r. k_id r = k) t \<longleftrightarrow> k \<in> set (map k_id t)" for k t by (auto simp: list_ex_iff)
  with a have "list_ex (\<lambda>r. k_id r = k) (api_keys d') = list_ex (\<lambda>r. k_id r = k) (api_keys d)" for k by metis
  with a show ?thesis by (simp add: references_ok_def split: option.splits)
qed

lemma InsertUsageEvents_eq:
  "InsertUsageEvents ps w d =
     (if insertable ps (w_clock w) d
      then (Inr (), d\<lparr>usage_events := usage_events d @ batch_rows ps (usage_seq d) (w_clock w),
                      usage_seq := usage_seq d + int (length ps)\<rparr>)
      else (fst (InsertUsageEvents ps w d), d)) \<and>
   (\<not> insertable ps (w_clock w) d \<longrightarrow> (\<exists>e. fst (InsertUsageEvents ps w d) = Inl e))"
proof -
  have "if insertable ps (w_clock w) d
      then batch_statements ps w d = (Inr (), d\<lparr>usage_events := usage_events d @ batch_rows ps (usage_seq d) (w_clock w),
                      usage_seq := usage_seq d + int (length ps)\<rparr>)
      else (\<exists>e. fst (batch_statements ps w d) = Inl e)"
  proof (induction ps arbitrary: d)
    case (Cons p ps)
    let ?d1 = "d\<lparr>usage_events := usage_events d @ [usage_row p (usage_seq d + 1) (w_clock w)], usage_seq := usage_seq d + 1\<rparr>"
    have refs: "references_ok q ?d1 = references_ok q d" for q by (rule references_ok_cong) simp_all
    have parts: "has_partition t ?d1 = has_partition t d" for t by (simp add: has_partition_def)
    from Cons [of ?d1] show ?case
      by (auto simp: InsertUsageEvent_def insertable_def refs parts list.pred_set)
  qed (simp add: insertable_def)
  then show ?thesis by (auto simp: InsertUsageEvents_def split: if_splits prod.splits sum.splits)
qed

lemma batchParams_ok: "batchParams evs = Inr ps \<Longrightarrow> length ps = length evs \<and> map row_event (batch_rows ps n t) = evs"
proof (induction evs arbitrary: ps n)
  case (Cons ev evs)
  then obtain p qs where p: "usageEventParams ev = Inr p" "batchParams evs = Inr qs" "ps = p # qs"
    by (auto split: sum.splits)
  with Cons.IH [OF p(2), of "n + 1"] show ?case by (simp add: row_event_usage_row)
qed simp

lemma batch_rows_frame:
  "map ue_created_at (batch_rows ps n t) = replicate (length ps) t"
  "map ue_id (batch_rows ps n t) = map (\<lambda>i. n + int i + 1) [0..<length ps]"
proof -
  show "map ue_created_at (batch_rows ps n t) = replicate (length ps) t" by (induction ps arbitrary: n) simp_all
  show "map ue_id (batch_rows ps n t) = map (\<lambda>i. n + int i + 1) [0..<length ps]"
    by (rule nth_equalityI) (auto simp: batch_rows_def nth_enumerate_eq)
qed

text \<open>
  Inserting a batch of usage events is all or nothing. On an error (an invalid event, a broken
  reference, a missing partition, a lost connection) the database is unchanged; on success the table has
  grown by one row per event, in the order of the batch, with consecutive ids and the time of the
  transaction, each row stands for its event, and no other table changed.
\<close>

theorem insert_batch_all_or_nothing:
  "case InsertBatch evs w of
     (Inl e, w') \<Rightarrow> w_db w' = w_db w
   | (Inr u, w') \<Rightarrow>
       (\<exists>new t. w_db w' = (w_db w)\<lparr>usage_events := usage_events (w_db w) @ new, usage_seq := usage_seq (w_db w) + int (length evs)\<rparr> \<and>
          map row_event new = evs \<and> map ue_created_at new = replicate (length evs) t \<and> w_clock w \<le> t \<and> t \<le> w_clock w' \<and>
          map ue_id new = map (\<lambda>i. usage_seq (w_db w) + int i + 1) [0..<length evs])"
proof (cases "evs = []")
  case True
  then show ?thesis by (auto simp: InsertBatch_def intro: exI [of _ "w_clock w"])
next
  case False
  show ?thesis
  proof (cases "batchParams evs")
    case (Inl e)
    with False show ?thesis by (simp add: InsertBatch_def)
  next
    case (Inr ps)
    obtain r w1 where q: "run_query (InsertUsageEvents ps) w = (r, w1)" by fastforce
    from q show ?thesis
    proof (cases rule: run_query_cases)
      case (failed e)
      with False Inr q show ?thesis by (simp add: InsertBatch_def)
    next
      case (ran w2)
      show ?thesis
      proof (cases "insertable ps (w_clock w2) (w_db w)")
        case True
        with ran(6) InsertUsageEvents_eq [of ps w2 "w_db w"] have r: "r = Inr ()" and
          d: "w_db w1 = (w_db w)\<lparr>usage_events := usage_events (w_db w) @ batch_rows ps (usage_seq (w_db w)) (w_clock w2),
                usage_seq := usage_seq (w_db w) + int (length ps)\<rparr>" by auto
        from False Inr q r have "InsertBatch evs w = (Inr (), w1)" by (simp add: InsertBatch_def)
        with d ran batchParams_ok [OF Inr] batch_rows_frame [of ps "usage_seq (w_db w)" "w_clock w2"] show ?thesis
          by (auto intro!: exI [of _ "batch_rows ps (usage_seq (w_db w)) (w_clock w2)"] exI [of _ "w_clock w2"])
      next
        case no: False
        with ran(6) InsertUsageEvents_eq [of ps w2 "w_db w"] have "\<exists>e. r = Inl e" "w_db w1 = w_db w" by auto
        with False Inr q show ?thesis by (auto simp: InsertBatch_def)
      qed
    qed
  qed
qed

section \<open>Statistics\<close>

text \<open>Generic facts: grouping loses no row, and the two stable sorts order by both keys.\<close>

lemma sum_groups:
  fixes g :: "'r \<Rightarrow> int"
  assumes "distinct xs" and "k ` set rows \<subseteq> set xs"
  shows "sum_list (map (\<lambda>x. sum_list (map g (filter (\<lambda>r. k r = x) rows))) xs) = sum_list (map g rows)"
  using assms(2)
proof (induction rows)
  case (Cons r rows)
  have "sum_list (map g (filter (\<lambda>q. k q = x) (r # rows)))
      = (if x = k r then g r else 0) + sum_list (map g (filter (\<lambda>q. k q = x) rows))" for x by simp
  moreover have "sum_list (map (\<lambda>x. if x = k r then g r else 0) xs) = g r"
    using Cons.prems by (simp add: sum_list_distinct_conv_sum_set [OF assms(1)])
  ultimately show ?case using Cons by (simp add: sum_list_addf)
qed simp

lemma sum_list_sort_key: "sum_list (map (h :: 'a \<Rightarrow> int) (sort_key f xs)) = sum_list (map h xs)"
  by (metis mset_map mset_sort sum_mset_sum_list)

lemma insort_key_two:
  assumes "sorted_wrt (\<lambda>a b. f a < f b \<or> f a = f b \<and> g a < g b) ys" and "\<forall>y \<in> set ys. g x < g y"
  shows "sorted_wrt (\<lambda>a b. f a < f b \<or> f a = f b \<and> g a < g b) (insort_key f x ys)"
  using assms by (induction ys) (auto simp: set_insort_key)

lemma sort_key_two:
  assumes "sorted_wrt (\<lambda>a b. g a < g b) xs"
  shows "sorted_wrt (\<lambda>a b. f a < f b \<or> f a = f b \<and> g a < g b) (sort_key f xs)"
  using assms by (induction xs) (auto simp: insort_key_two)

lemma sort_key_strict: "distinct (map g xs) \<Longrightarrow> sorted_wrt (\<lambda>a b. g a < g b) (sort_key g xs)"
proof -
  assume d: "distinct (map g xs)"
  have "sorted (map g (sort_key g xs))" by simp
  moreover have "distinct (map g (sort_key g xs))" using d by (simp add: distinct_map)
  ultimately show ?thesis by (simp add: strict_sorted_iff flip: sorted_wrt_map)
qed

lemma sum_col_split: "sum_col f t = sum_col f (filter P t) + sum_col f (filter (\<lambda>r. \<not> P r) t)"
  by (induction t) (auto simp: sum_col_def)

definition grouped :: "('k :: linorder \<Rightarrow> int \<times> int \<times> int \<Rightarrow> 's) \<Rightarrow> (usage_event_row \<Rightarrow> 'k) \<Rightarrow> usage_event_row list \<Rightarrow> 's list" where
  "grouped mk k rows = map (\<lambda>(x, c). mk x c)
     (sort_key (\<lambda>(_, _, _, total). - total) (sort_key fst (map (\<lambda>(x, rs). (x, group_counts rs)) (group_rows k rows))))"

text \<open>
  What the rows of a statistic promise: one row per key that occurs, with its exact counts, by
  decreasing tokens and then by key, and the rows add up.
\<close>

definition statistic_ok :: "('s \<Rightarrow> 'k :: linorder) \<Rightarrow> ('s \<Rightarrow> int) \<Rightarrow> ('s \<Rightarrow> int) \<Rightarrow> ('s \<Rightarrow> int) \<Rightarrow> (usage_event_row \<Rightarrow> 'k)
    \<Rightarrow> usage_event_row list \<Rightarrow> 's list \<Rightarrow> bool" where
  "statistic_ok key cnt failed toks k rows stats =
     (set (map key stats) = k ` set rows \<and>
      list_all (\<lambda>s. (cnt s, failed s, toks s) = group_counts (filter (\<lambda>r. k r = key s) rows)) stats \<and>
      sorted_wrt (\<lambda>a b. toks a > toks b \<or> toks a = toks b \<and> key a < key b) stats \<and>
      sum_list (map cnt stats) = int (length rows) \<and>
      sum_list (map failed stats) = count_where ue_failed rows \<and>
      sum_list (map toks stats) = sum_col ue_total_tokens rows)"

lemma grouped_ok:
  assumes mk: "\<And>x c f t. key (mk x (c, f, t)) = x" "\<And>x c f t. cnt (mk x (c, f, t)) = c"
    "\<And>x c f t. failed (mk x (c, f, t)) = f" "\<And>x c f t. toks (mk x (c, f, t)) = t"
  shows "statistic_ok key cnt failed toks k rows (grouped mk k rows)"
proof -
  let ?gs = "map (\<lambda>(x, rs). (x, group_counts rs)) (group_rows k rows)"
  let ?s = "sort_key (\<lambda>(_, _, _, total). - total) (sort_key fst ?gs)"
  have gs: "?gs = map (\<lambda>x. (x, group_counts (filter (\<lambda>r. k r = x) rows))) (remdups (map k rows))"
    by (simp add: group_rows_def)
  then have fst_gs: "map fst ?gs = remdups (map k rows)" by (simp add: comp_def)
  have ord: "sorted_wrt (\<lambda>a b. (case a of (_, _, _, t) \<Rightarrow> - t) < (case b of (_, _, _, t) \<Rightarrow> - t) \<or>
      (case a of (_, _, _, t) \<Rightarrow> - t) = (case b of (_, _, _, t) \<Rightarrow> - t) \<and> fst a < fst b) ?s"
    by (rule sort_key_two, rule sort_key_strict) (simp only: fst_gs distinct_remdups)
  have sums: "sum_list (map (\<lambda>(x, c). h c) ?s) = sum_list (map g rows)"
    if "\<And>rs. h (group_counts rs) = sum_list (map g rs)" for h :: "int \<times> int \<times> int \<Rightarrow> int" and g
  proof -
    have "sum_list (map (\<lambda>(x, c). h c) ?s) = sum_list (map (\<lambda>(x, c). h c) ?gs)" by (simp add: sum_list_sort_key)
    also have "\<dots> = sum_list (map (\<lambda>x. sum_list (map g (filter (\<lambda>r. k r = x) rows))) (remdups (map k rows)))"
      unfolding gs by (simp add: comp_def that)
    also have "\<dots> = sum_list (map g rows)" by (rule sum_groups) simp_all
    finally show ?thesis .
  qed
  have ones: "int (length rs) = sum_list (map (\<lambda>_. 1) rs)"
    "count_where ue_failed rs = sum_list (map (\<lambda>r. if ue_failed r then 1 else 0) rs)" for rs :: "usage_event_row list"
    by (induction rs) (simp_all add: count_where_def)
  have mk': "key (mk x c) = x" "cnt (mk x c) = fst c" "failed (mk x c) = fst (snd c)" "toks (mk x c) = snd (snd c)" for x c
    using mk by (cases c, simp)+
  have "sum_list (map cnt (grouped mk k rows)) = int (length rows)"
    using sums [of fst "\<lambda>_. 1"] by (simp add: grouped_def comp_def case_prod_beta' group_counts_def ones(1) mk')
  moreover have "sum_list (map failed (grouped mk k rows)) = count_where ue_failed rows"
    using sums [of "\<lambda>c. fst (snd c)" "\<lambda>r. if ue_failed r then 1 else 0"]
    by (simp add: grouped_def comp_def case_prod_beta' group_counts_def ones(2) mk')
  moreover have "sum_list (map toks (grouped mk k rows)) = sum_col ue_total_tokens rows"
    using sums [of "\<lambda>c. snd (snd c)" ue_total_tokens]
    by (simp add: grouped_def comp_def case_prod_beta' group_counts_def sum_col_def mk')
  moreover have "sorted_wrt (\<lambda>a b. toks a > toks b \<or> toks a = toks b \<and> key a < key b) (grouped mk k rows)"
    using ord by (simp add: grouped_def sorted_wrt_map case_prod_beta' mk')
  moreover have "set (map key (grouped mk k rows)) = k ` set rows"
    using arg_cong [OF fst_gs, of set] by (simp add: grouped_def image_image case_prod_beta' mk')
  moreover have "list_all (\<lambda>s. (cnt s, failed s, toks s) = group_counts (filter (\<lambda>r. k r = key s) rows)) (grouped mk k rows)"
    by (simp add: grouped_def list_all_iff group_rows_def mk' case_prod_beta')
  ultimately show ?thesis by (simp add: statistic_ok_def)
qed

definition window_rows :: "database \<Rightarrow> int \<Rightarrow> instant \<Rightarrow> instant \<Rightarrow> usage_event_row list" where
  "window_rows d userID from to = filter (in_window userID from to) (usage_events d)"

lemma GetSummaryByUser_ok:
  assumes "GetSummaryByUser userID from to w = (Inr s, w')"
  shows "w_db w' = w_db w \<and> 0 < userID \<and> from < to \<and>
    (let rows = window_rows (w_db w) userID from to in
       s = \<lparr>us_RequestCount = int (length rows), us_FailedRequestCount = count_where ue_failed rows,
            us_InputTokens = sum_col ue_input_tokens rows, us_OutputTokens = sum_col ue_output_tokens rows,
            us_ReasoningTokens = sum_col ue_reasoning_tokens rows, us_CachedTokens = sum_col ue_cached_tokens rows,
            us_TotalTokens = sum_col ue_total_tokens rows,
            us_ByModel = grouped (\<lambda>m (c, f, t). \<lparr>ms_Model = m, ms_RequestCount = c, ms_FailedRequestCount = f, ms_TotalTokens = t\<rparr>)
              (\<lambda>e. the (ue_model e)) (filter (\<lambda>e. ue_model e \<noteq> None \<and> ue_model e \<noteq> Some []) rows),
            us_ByAPIKey = grouped (\<lambda>k (c, f, t). \<lparr>ks_APIKeyID = k, ks_RequestCount = c, ks_FailedRequestCount = f, ks_TotalTokens = t\<rparr>)
              (\<lambda>e. the (ue_api_key_id e)) (filter (\<lambda>e. ue_api_key_id e \<noteq> None) rows)\<rparr>)"
proof -
  let ?q1 = "GetUsageSummaryByUser userID from to" and ?q2 = "ListUsageByModelForUser userID from to"
    and ?q3 = "ListUsageByAPIKeyForUser userID from to"
  obtain r1 w1 where r1: "run_query ?q1 w = (r1, w1)" by fastforce
  obtain r2 w2 where r2: "run_query ?q2 w1 = (r2, w2)" by fastforce
  obtain r3 w3 where r3: "run_query ?q3 w2 = (r3, w3)" by fastforce
  have ro: "snd (?q1 v d) = d" "snd (?q2 v d) = d" "snd (?q3 v d) = d" for v d
    by (simp_all add: GetUsageSummaryByUser_def ListUsageByModelForUser_def ListUsageByAPIKeyForUser_def Let_def)
  note db = run_query_read_only [OF ro(1) r1] run_query_read_only [OF ro(2) r2] run_query_read_only [OF ro(3) r3]
  from assms r1 r2 r3 obtain x1 x2 x3 where x: "r1 = Inr x1" "r2 = Inr x2" "r3 = Inr x3"
    by (auto simp: GetSummaryByUser_def split: if_splits sum.splits prod.splits)
  from run_query_ok [OF r1 [unfolded x]] obtain v1 where "?q1 v1 (w_db w) = (Inr x1, w_db w1)" .
  then have x1: "(Inr x1, w_db w) = ?q1 v1 (w_db w)" using db by simp
  from run_query_ok [OF r2 [unfolded x]] obtain v2 where "?q2 v2 (w_db w1) = (Inr x2, w_db w2)" .
  then have x2: "(Inr x2, w_db w) = ?q2 v2 (w_db w)" using db by simp
  from run_query_ok [OF r3 [unfolded x]] obtain v3 where "?q3 v3 (w_db w2) = (Inr x3, w_db w3)" .
  then have x3: "(Inr x3, w_db w) = ?q3 v3 (w_db w)" using db by simp
  note q = x1 [unfolded GetUsageSummaryByUser_def Let_def prod.inject sum.inject]
    x2 [unfolded ListUsageByModelForUser_def Let_def prod.inject sum.inject]
    x3 [unfolded ListUsageByAPIKeyForUser_def Let_def prod.inject sum.inject]
  have p: "0 < userID" "from < to" using assms by (auto simp: GetSummaryByUser_def split: if_splits)
  obtain n f it ot rt ct tt where t: "x1 = (n, f, it, ot, rt, ct, tt)" by (cases x1)
  from assms r1 r2 r3 p x t have s: "w' = w3"
    "s = \<lparr>us_RequestCount = n, us_FailedRequestCount = f, us_InputTokens = it, us_OutputTokens = ot,
          us_ReasoningTokens = rt, us_CachedTokens = ct, us_TotalTokens = tt,
          us_ByModel = map (\<lambda>(m, c, f, t). \<lparr>ms_Model = m, ms_RequestCount = c, ms_FailedRequestCount = f, ms_TotalTokens = t\<rparr>) x2,
          us_ByAPIKey = map (\<lambda>(k, c, f, t). \<lparr>ks_APIKeyID = k, ks_RequestCount = c, ks_FailedRequestCount = f, ks_TotalTokens = t\<rparr>) x3\<rparr>"
    by (auto simp: GetSummaryByUser_def)
  show ?thesis using p db q(1) t unfolding s q(2,3) [THEN conjunct1]
    by (simp add: window_rows_def grouped_def Let_def split_def)
qed

text \<open>
  The personal statistics are exact and consistent. For a valid period the totals are the counts and
  sums of the user's events in the half-open period; the rows per model and per key list every model
  (key) that occurs exactly once, with its own exact counts, by decreasing tokens; and they add up: what
  is missing from the totals are precisely the events without a model (without a key).
\<close>

theorem usage_summary_exact:
  assumes "GetSummaryByUser userID from to w = (Inr s, w')"
  shows "let rows = window_rows (w_db w) userID from to;
             with_model = filter (\<lambda>e. ue_model e \<noteq> None \<and> ue_model e \<noteq> Some []) rows;
             with_key = filter (\<lambda>e. ue_api_key_id e \<noteq> None) rows
    in w_db w' = w_db w \<and> us_RequestCount s = int (length rows) \<and> us_FailedRequestCount s = count_where ue_failed rows \<and>
       us_InputTokens s = sum_col ue_input_tokens rows \<and> us_OutputTokens s = sum_col ue_output_tokens rows \<and>
       us_ReasoningTokens s = sum_col ue_reasoning_tokens rows \<and> us_CachedTokens s = sum_col ue_cached_tokens rows \<and>
       us_TotalTokens s = sum_col ue_total_tokens rows \<and>
       statistic_ok ms_Model ms_RequestCount ms_FailedRequestCount ms_TotalTokens (\<lambda>e. the (ue_model e)) with_model (us_ByModel s) \<and>
       statistic_ok ks_APIKeyID ks_RequestCount ks_FailedRequestCount ks_TotalTokens (\<lambda>e. the (ue_api_key_id e)) with_key (us_ByAPIKey s) \<and>
       us_TotalTokens s - sum_list (map ms_TotalTokens (us_ByModel s))
         = sum_col ue_total_tokens (filter (\<lambda>e. ue_model e = None \<or> ue_model e = Some []) rows)"
proof -
  let ?rows = "window_rows (w_db w) userID from to"
  let ?wm = "filter (\<lambda>e. ue_model e \<noteq> None \<and> ue_model e \<noteq> Some []) ?rows"
  let ?mm = "\<lambda>m (c, f, t). \<lparr>ms_Model = m, ms_RequestCount = c, ms_FailedRequestCount = f, ms_TotalTokens = t\<rparr>"
  let ?mk = "\<lambda>k (c, f, t). \<lparr>ks_APIKeyID = k, ks_RequestCount = c, ks_FailedRequestCount = f, ks_TotalTokens = t\<rparr>"
  have m: "statistic_ok ms_Model ms_RequestCount ms_FailedRequestCount ms_TotalTokens k rows (grouped ?mm k rows)" for k rows
    by (rule grouped_ok) simp_all
  have k: "statistic_ok ks_APIKeyID ks_RequestCount ks_FailedRequestCount ks_TotalTokens k rows (grouped ?mk k rows)" for k rows
    by (rule grouped_ok) simp_all
  have "sum_col ue_total_tokens ?rows = sum_col ue_total_tokens ?wm
      + sum_col ue_total_tokens (filter (\<lambda>e. ue_model e = None \<or> ue_model e = Some []) ?rows)"
    using sum_col_split [of ue_total_tokens ?rows "\<lambda>e. ue_model e \<noteq> None \<and> ue_model e \<noteq> Some []"] by (simp add: disj_commute)
  moreover have "sum_list (map ms_TotalTokens (grouped ?mm (\<lambda>e. the (ue_model e)) ?wm)) = sum_col ue_total_tokens ?wm"
    using m [of "\<lambda>e. the (ue_model e)" ?wm] by (simp add: statistic_ok_def)
  ultimately show ?thesis using GetSummaryByUser_ok [OF assms] m k by (simp add: Let_def)
qed

definition sample_event :: "string \<Rightarrow> int \<Rightarrow> UsageEvent" where
  "sample_event model tokens =
     \<lparr>ev_UserID = Some 1, ev_APIKeyID = None, ev_UpstreamAccountID = [], ev_Provider = ''codex'', ev_Model = model,
      ev_InputTokens = tokens, ev_OutputTokens = 0, ev_ReasoningTokens = 0, ev_CachedTokens = 0, ev_TotalTokens = tokens,
      ev_StatusCode = 200, ev_Error = [], ev_LatencyMS = 3, ev_TTFTMS = 1, ev_Failed = False\<rparr>"

definition usage_world :: world where
  "usage_world = start_world (key_db\<lparr>usage_partitions := [(0, 1000)]\<rparr>) 5"

theorem usage_summary_exact_witness:
  "\<exists>s w'. GetSummaryByUser 1 0 100 (snd (InsertBatch [sample_event ''a'' 3, sample_event [] 4] usage_world)) = (Inr s, w') \<and>
     us_RequestCount s = 2 \<and> us_TotalTokens s - sum_list (map ms_TotalTokens (us_ByModel s)) = 4"
proof -
  let ?w = "snd (InsertBatch [sample_event ''a'' 3, sample_event [] 4] usage_world)"
  have "is_ok (fst (GetSummaryByUser 1 0 100 ?w))" by code_simp
  then obtain s w' where s: "GetSummaryByUser 1 0 100 ?w = (Inr s, w')" by (metis is_ok_conv prod.collapse)
  have "int (length (window_rows (w_db ?w) 1 0 100)) = 2"
    "sum_col ue_total_tokens (filter (\<lambda>e. ue_model e = None \<or> ue_model e = Some []) (window_rows (w_db ?w) 1 0 100)) = 4"
    by code_simp+
  with usage_summary_exact [OF s] s show ?thesis unfolding Let_def by metis
qed

end
