(* ===== verification/Http_Api.thy ===== *)
theory Http_Api
  imports Login_Theorems Oauth_Sessions Model_Overrides Usage_Events
begin

text \<open>
  \<^verbatim>\<open>internal/httpapi\<close>: the management API. A handler is a function of the Gin context, the state of the
  replica (the API key repository with its caches, the session authenticator with its cache) and the
  world. The JSON binding of Gin, the parser of times, and the address of the client are parameters
  (\<open>http_env\<close>); which route a request matches is Gin's business too, so that the results below hold for
  every route that \<open>RouterConfigurator\<close> registers. Log lines and tracing are in \<open>Observability\<close>.
\<close>

section \<open>Requests, responses, handlers\<close>

record apiKeyResponse =
  kr_ID :: int
  kr_Prefix :: string
  kr_Name :: string
  kr_Status :: string
  kr_ExpiresAt :: "date option"
  kr_Scope :: string
  kr_LastUsedAt :: "instant option"
  kr_CreatedAt :: instant

record adminAPIKeyResponse = apiKeyResponse +
  akr_UserID :: int
  akr_OwnerUsername :: string
  akr_OwnerIdentitySource :: string
  akr_OwnerStatus :: string

record oauthSessionResponse =
  or_State :: string
  or_Provider :: string
  or_FlowType :: string
  or_Status :: string
  or_AuthID :: string
  or_ErrorMessage :: string
  or_UserCode :: string
  or_ExpiresAt :: instant
  or_CreatedAt :: instant
  or_UpdatedAt :: instant

record loginResponse =
  lg_UserID :: int
  lg_Role :: string
  lg_ExpiresAt :: instant

datatype http_body =
    Body_none
  | Body_error string
  | Body_login loginResponse
  | Body_me int "string option"
  | Body_keys "apiKeyResponse list"
  | Body_created_key apiKeyResponse string
  | Body_usage instant instant UsageSummary
  | Body_users "User list"
  | Body_admin_keys "adminAPIKeyResponse list"
  | Body_oauth_session oauthSessionResponse
  | Body_oauth_sessions "oauthSessionResponse list"
  | Body_model ModelOverride
  | Body_models "ModelOverride list"
  | Body_other string

record cookie =
  co_Name :: string
  co_Value :: string
  co_Expires :: "instant option"
  co_MaxAge :: int
  co_HttpOnly :: bool
  co_Secure :: bool

record response =
  rs_status :: int
  rs_body :: http_body
  rs_cookie :: "cookie option"

record gin_context =
  gc_request :: Request
  gc_params :: "(string \<times> string) list"
  gc_user :: "int option"
  gc_role :: "string option"

record app =
  app_keys :: APIKeyRepository
  app_sessions :: "SessionAuthenticator option"

type_synonym handler = "gin_context \<Rightarrow> app \<Rightarrow> world \<Rightarrow> response \<times> app \<times> world"

text \<open>The stores a handler is built with; a nil one makes the handler answer 500.\<close>

datatype service = Key_store | Usage_reader | User_store | Admin_key_store | Oauth_store | Model_store | Session_deleter

record http_env =
  he_has :: "service \<Rightarrow> bool"
  he_crypto :: crypto
  he_sha :: "string \<Rightarrow> string"
  he_codec :: json_codec
  he_client_ip :: "Request \<Rightarrow> ip_addr option"
  he_parse_time :: "string \<Rightarrow> instant option"
  he_bind_login :: "string \<Rightarrow> (string \<times> string) option"
  he_bind_key :: "string \<Rightarrow> (string \<times> date option \<times> string) option"
  he_bind_status :: "string \<Rightarrow> string option"
  he_bind_model :: "string \<Rightarrow> (string \<times> string \<times> bool \<times> string option) option"

definition reply :: "int \<Rightarrow> http_body \<Rightarrow> response" where
  "reply status body = \<lparr>rs_status = status, rs_body = body, rs_cookie = None\<rparr>"

definition writeError :: "int \<Rightarrow> string \<Rightarrow> response" where
  "writeError status message = reply status (Body_error message)"

definition gin_Param :: "gin_context \<Rightarrow> string \<Rightarrow> string" where
  "gin_Param c name = Values_Get (gc_params c) name"

definition gin_Query :: "gin_context \<Rightarrow> string \<Rightarrow> string" where
  "gin_Query c name = (case rq_URL (gc_request c) of None \<Rightarrow> [] | Some q \<Rightarrow> Values_Get q name)"

section \<open>Middleware\<close>

definition SessionMiddleware :: "http_env \<Rightarrow> handler \<Rightarrow> handler" where
  "SessionMiddleware E h c a w =
     (case AuthenticateRequest (he_sha E) (Some (gc_request c)) (app_sessions a) w of
        (Inl _, sess, w1) \<Rightarrow> (writeError 401 ''unauthorized'', a\<lparr>app_sessions := sess\<rparr>, w1)
      | (Inr p, sess, w1) \<Rightarrow>
          h (c\<lparr>gc_user := Some (sn_UserID p), gc_role := Some (sn_Role p)\<rparr>) (a\<lparr>app_sessions := sess\<rparr>) w1)"

definition allowedRole :: "string \<Rightarrow> string list \<Rightarrow> bool" where
  "allowedRole role allowed = list_ex (\<lambda>candidate. role = candidate) allowed"

definition RequireRole :: "string list \<Rightarrow> handler \<Rightarrow> handler" where
  "RequireRole roles h c a w =
     (case gc_role c of
        None \<Rightarrow> (writeError 401 ''unauthorized'', a, w)
      | Some role \<Rightarrow> if \<not> allowedRole role roles then (writeError 403 ''access denied'', a, w) else h c a w)"

definition currentUserID :: "gin_context \<Rightarrow> response + int" where
  "currentUserID c =
     (case gc_user c of
        None \<Rightarrow> Inl (writeError 401 ''unauthorized'')
      | Some i \<Rightarrow> if i \<le> 0 then Inl (writeError 500 ''invalid session principal'') else Inr i)"

text \<open>A handler that begins with \<open>currentUserID\<close>.\<close>

definition with_user :: "(int \<Rightarrow> handler) \<Rightarrow> handler" where
  "with_user h c a w = (case currentUserID c of Inl rs \<Rightarrow> (rs, a, w) | Inr i \<Rightarrow> h i c a w)"

text \<open>A handler that goes on with the test that its store is there.\<close>

definition needs :: "http_env \<Rightarrow> service \<Rightarrow> string \<Rightarrow> handler \<Rightarrow> handler" where
  "needs E sv message h c a w =
     (if \<not> he_has E sv then (writeError 500 (message @ '' is unavailable''), a, w) else h c a w)"

section \<open>Login, logout, current user\<close>

definition session_cookie :: "bool \<Rightarrow> LoginResult \<Rightarrow> cookie" where
  "session_cookie secure r =
     \<lparr>co_Name = SessionCookieName, co_Value = lr_Token r, co_Expires = Some (lr_ExpiresAt r), co_MaxAge = 0,
      co_HttpOnly = True, co_Secure = secure\<rparr>"

definition Login_Handle :: "http_env \<Rightarrow> LoginService option \<Rightarrow> bool \<Rightarrow> handler" where
  "Login_Handle E service secureCookie c a w =
     (case service of
        None \<Rightarrow> (writeError 500 ''authentication service is unavailable'', a, w)
      | Some s \<Rightarrow>
          (case he_bind_login E (rq_Body (gc_request c)) of
             None \<Rightarrow> (writeError 400 ''username and password are required'', a, w)
           | Some (username, password) \<Rightarrow>
               (if username = [] \<or> password = [] then (writeError 400 ''username and password are required'', a, w)
                else (case Login (Some s) username password w of
                        (Inl e, w1) \<Rightarrow>
                          (if errors_Is e ErrInvalidCredentials then writeError 401 ''invalid credentials''
                           else if errors_Is e ErrUserBlocked \<or> errors_Is e ErrAccessDenied then writeError 403 ''access denied''
                           else writeError 500 ''authentication failed'', a, w1)
                      | (Inr r, w1) \<Rightarrow>
                          (\<lparr>rs_status = 200,
                            rs_body = Body_login \<lparr>lg_UserID = lr_UserID r, lg_Role = lr_Role r, lg_ExpiresAt = lr_ExpiresAt r\<rparr>,
                            rs_cookie = Some (session_cookie secureCookie r)\<rparr>, a, w1)))))"

definition LogoutHandler :: "http_env \<Rightarrow> string \<Rightarrow> handler" where
  "LogoutHandler E source c a w =
     (let cleared = \<lparr>co_Name = SessionCookieName, co_Value = [], co_Expires = None, co_MaxAge = -1, co_HttpOnly = True, co_Secure = False\<rparr>;
          done_rs = \<lparr>rs_status = 204, rs_body = Body_none, rs_cookie = Some cleared\<rparr>
      in case map_of (rq_Cookies (gc_request c)) SessionCookieName of
           None \<Rightarrow> (done_rs, a, w)
         | Some token \<Rightarrow>
             (case if he_has E Session_deleter then DeleteByTokenForSource (he_sha E) token source w else (Inr (), w) of
                (_, w1) \<Rightarrow> (done_rs, a\<lparr>app_sessions := InvalidateToken (he_sha E) token (app_sessions a)\<rparr>, w1)))"

definition CurrentUserHandler :: handler where
  "CurrentUserHandler c a w =
     (case gc_user c of
        None \<Rightarrow> (writeError 401 ''unauthorized'', a, w)
      | Some i \<Rightarrow> (reply 200 (Body_me i (gc_role c)), a, w))"

section \<open>API keys of the current user\<close>

definition newAPIKeyResponse :: "'x APIKey_scheme \<Rightarrow> apiKeyResponse" where
  "newAPIKeyResponse k =
     \<lparr>kr_ID = APIKey_ID k, kr_Prefix = APIKey_Prefix k, kr_Name = APIKey_Name k, kr_Status = APIKey_Status k,
      kr_ExpiresAt = APIKey_ExpiresAt k, kr_Scope = APIKey_Scope k, kr_LastUsedAt = APIKey_LastUsedAt k,
      kr_CreatedAt = APIKey_CreatedAt k\<rparr>"

definition validAPIKeyScope :: "(string \<Rightarrow> bool) \<Rightarrow> string \<Rightarrow> bool" where
  "validAPIKeyScope valid scope =
     (if scope = [] then True
      else (let s = TrimSpace scope
            in valid s \<and> (s = ''null'' \<or> (s \<noteq> [] \<and> (hd s = CHR ''{'' \<or> hd s = CHR ''['')))))"

definition generateAPIKey :: "world \<Rightarrow> string result \<times> world" where
  "generateAPIKey w =
     (case rand_Read 32 w of
        (None, w1) \<Rightarrow> (Inl (ErrMsg ''rand''), w1)
      | (Some raw, w1) \<Rightarrow> (Inr (''cpn_'' @ RawURLEncode raw), w1))"

definition Keys_List_Handler :: "http_env \<Rightarrow> handler" where
  "Keys_List_Handler E c a w =
     (case gc_user c of
        None \<Rightarrow> (writeError 401 ''unauthorized'', a, w)
      | Some i \<Rightarrow>
          (if \<not> he_has E Key_store then (writeError 500 ''API key service is unavailable'', a, w)
           else (case ListByUser i w of
                   (Inl _, w1) \<Rightarrow> (writeError 500 ''list API keys failed'', a, w1)
                 | (Inr ks, w1) \<Rightarrow> (reply 200 (Body_keys (map newAPIKeyResponse ks)), a, w1))))"

definition Keys_Create_Handler :: "http_env \<Rightarrow> handler" where
  "Keys_Create_Handler E = with_user (\<lambda>userID. needs E Key_store ''API key service'' (\<lambda>c a w.
     case he_bind_key E (rq_Body (gc_request c)) of
       None \<Rightarrow> (writeError 400 ''invalid API key request'', a, w)
     | Some (name, expiresAt, scope) \<Rightarrow>
         (if \<not> validAPIKeyScope (json_valid (he_codec E)) scope then (writeError 400 ''invalid API key request'', a, w)
          else (case generateAPIKey w of
                  (Inl _, w1) \<Rightarrow> (writeError 500 ''generate API key failed'', a, w1)
                | (Inr plaintext, w1) \<Rightarrow>
                    (case Keys_Create (he_crypto E) \<lparr>ck_UserID = userID, ck_Plaintext = plaintext, ck_Name = name,
                            ck_ExpiresAt = expiresAt, ck_Scope = scope\<rparr> (app_keys a) w1 of
                       (Inl _, r, w2) \<Rightarrow> (writeError 500 ''create API key failed'', a\<lparr>app_keys := r\<rparr>, w2)
                     | (Inr key, r, w2) \<Rightarrow>
                         (reply 201 (Body_created_key (newAPIKeyResponse key) plaintext), a\<lparr>app_keys := r\<rparr>, w2))))))"

definition Keys_Revoke_Handler :: "http_env \<Rightarrow> handler" where
  "Keys_Revoke_Handler E = with_user (\<lambda>userID. needs E Key_store ''API key service'' (\<lambda>c a w.
     case ParseInt64 (gin_Param c ''keyID'') of
       None \<Rightarrow> (writeError 400 ''invalid API key ID'', a, w)
     | Some keyID \<Rightarrow>
         (if keyID \<le> 0 then (writeError 400 ''invalid API key ID'', a, w)
          else (case Revoke userID keyID (app_keys a) w of
                  (Inl e, r, w1) \<Rightarrow>
                    (if errors_Is e ErrNotFound then writeError 404 ''API key not found''
                     else writeError 500 ''revoke API key failed'', a\<lparr>app_keys := r\<rparr>, w1)
                | (Inr _, r, w1) \<Rightarrow> (reply 204 Body_none, a\<lparr>app_keys := r\<rparr>, w1)))))"

section \<open>Usage of the current user\<close>

definition defaultUsagePeriod :: duration where "defaultUsagePeriod = 30 * 24 * hour"

definition parseUsageTime :: "http_env \<Rightarrow> string \<Rightarrow> instant \<Rightarrow> instant result" where
  "parseUsageTime E raw defaultValue =
     (if raw = [] then Inr defaultValue
      else (case he_parse_time E raw of None \<Rightarrow> Inl (ErrMsg ''parse time'') | Some t \<Rightarrow> Inr t))"

definition usageRange :: "http_env \<Rightarrow> gin_context \<Rightarrow> instant \<Rightarrow> (instant \<times> instant) result" where
  "usageRange E c now =
     (case parseUsageTime E (gin_Query c ''to'') now of
        Inl e \<Rightarrow> Inl e
      | Inr to \<Rightarrow>
          (case parseUsageTime E (gin_Query c ''from'') (to - defaultUsagePeriod) of
             Inl _ \<Rightarrow> Inl ErrInvalidInput
           | Inr from \<Rightarrow> if \<not> from < to then Inl ErrInvalidInput else Inr (from, to)))"

text \<open>The response repeats the fields of the summary.\<close>

definition Usage_Get_Handler :: "http_env \<Rightarrow> handler" where
  "Usage_Get_Handler E = with_user (\<lambda>userID. needs E Usage_reader ''usage service'' (\<lambda>c a w.
     case time_Now w of
       (now, w1) \<Rightarrow>
         (case usageRange E c now of
            Inl _ \<Rightarrow> (writeError 400 ''invalid usage interval'', a, w1)
          | Inr (from, to) \<Rightarrow>
              (case GetSummaryByUser userID from to w1 of
                 (Inl _, w2) \<Rightarrow> (writeError 500 ''get usage failed'', a, w2)
               | (Inr summary, w2) \<Rightarrow> (reply 200 (Body_usage from to summary), a, w2)))))"

section \<open>Administration\<close>

definition AdminUsers_List :: "http_env \<Rightarrow> handler" where
  "AdminUsers_List E = needs E User_store ''admin user service'' (\<lambda>c a w.
     case Users_List w of
        (Inl _, w1) \<Rightarrow> (writeError 500 ''list users failed'', a, w1)
      | (Inr us, w1) \<Rightarrow> (reply 200 (Body_users us), a, w1))"

text \<open>The invalidators that \<^verbatim>\<open>main\<close> installs: the session authenticator and the API key repository.\<close>

definition invalidate_user :: "int \<Rightarrow> app \<Rightarrow> app" where
  "invalidate_user i a = a\<lparr>app_sessions := Session_InvalidateUser i (app_sessions a), app_keys := Keys_InvalidateUser i (app_keys a)\<rparr>"

definition AdminUsers_SetStatus :: "http_env \<Rightarrow> handler" where
  "AdminUsers_SetStatus E = with_user (\<lambda>actor. needs E User_store ''admin user service'' (\<lambda>c a w.
     case ParseInt64 (gin_Param c ''userID'') of
       None \<Rightarrow> (writeError 400 ''invalid user ID'', a, w)
     | Some target \<Rightarrow>
         (if target \<le> 0 then (writeError 400 ''invalid user ID'', a, w)
          else (case he_bind_status E (rq_Body (gc_request c)) of
                  None \<Rightarrow> (writeError 400 ''invalid user status'', a, w)
                | Some status \<Rightarrow>
                    (if status \<noteq> ''active'' \<and> status \<noteq> ''blocked'' then (writeError 400 ''invalid user status'', a, w)
                     else (case SetStatusWithAudit (he_codec E) actor target status (he_client_ip E (gc_request c)) w of
                             (Inl e, w1) \<Rightarrow>
                               (if errors_Is e ErrNotFound then writeError 404 ''user not found''
                                else if errors_Is e ErrInvalidInput then writeError 400 ''invalid user status''
                                else writeError 500 ''set user status failed'', a, w1)
                           | (Inr _, w1) \<Rightarrow> (reply 204 Body_none, invalidate_user target a, w1)))))))"

definition adminKeyResponse :: "AdminAPIKey \<Rightarrow> adminAPIKeyResponse" where
  "adminKeyResponse k =
     \<lparr>kr_ID = APIKey_ID k, kr_Prefix = APIKey_Prefix k, kr_Name = APIKey_Name k, kr_Status = APIKey_Status k,
      kr_ExpiresAt = APIKey_ExpiresAt k, kr_Scope = APIKey_Scope k, kr_LastUsedAt = APIKey_LastUsedAt k,
      kr_CreatedAt = APIKey_CreatedAt k, akr_UserID = APIKey_UserID k, akr_OwnerUsername = OwnerUsername k,
      akr_OwnerIdentitySource = OwnerIdentitySource k, akr_OwnerStatus = OwnerStatus k\<rparr>"

definition AdminKeys_List :: "http_env \<Rightarrow> handler" where
  "AdminKeys_List E = needs E Admin_key_store ''admin API key service'' (\<lambda>c a w.
     case ListAll w of
        (Inl _, w1) \<Rightarrow> (writeError 500 ''list API keys failed'', a, w1)
      | (Inr ks, w1) \<Rightarrow> (reply 200 (Body_admin_keys (map adminKeyResponse ks)), a, w1))"

definition newOAuthSessionResponse :: "OAuthSession \<Rightarrow> oauthSessionResponse" where
  "newOAuthSessionResponse s =
     \<lparr>or_State = oa_State s, or_Provider = oa_Provider s, or_FlowType = oa_FlowType s, or_Status = oa_Status s,
      or_AuthID = oa_AuthID s, or_ErrorMessage = oa_ErrorMessage s, or_UserCode = oa_UserCode s,
      or_ExpiresAt = oa_ExpiresAt s, or_CreatedAt = oa_CreatedAt s, or_UpdatedAt = oa_UpdatedAt s\<rparr>"

definition AdminOAuth_ListPending :: "http_env \<Rightarrow> handler" where
  "AdminOAuth_ListPending E = needs E Oauth_store ''OAuth session service'' (\<lambda>c a w.
     case ListPending w of
        (Inl _, w1) \<Rightarrow> (writeError 500 ''list OAuth sessions failed'', a, w1)
      | (Inr ss, w1) \<Rightarrow> (reply 200 (Body_oauth_sessions (map newOAuthSessionResponse ss)), a, w1))"

definition AdminOAuth_Get :: "http_env \<Rightarrow> handler" where
  "AdminOAuth_Get E = needs E Oauth_store ''OAuth session service'' (\<lambda>c a w.
     case Oauth_Get (gin_Param c ''state'') w of
        (Inl e, w1) \<Rightarrow>
          (if errors_Is e ErrNotFound then writeError 404 ''OAuth session not found''
           else writeError 500 ''get OAuth session failed'', a, w1)
      | (Inr s, w1) \<Rightarrow> (reply 200 (Body_oauth_session (newOAuthSessionResponse s)), a, w1))"

definition AdminOAuth_Cancel :: "http_env \<Rightarrow> handler" where
  "AdminOAuth_Cancel E = with_user (\<lambda>actor. needs E Oauth_store ''OAuth session service'' (\<lambda>c a w.
     let state = gin_Param c ''state''
     in if state = [] then (writeError 400 ''invalid OAuth state'', a, w)
        else (case CancelWithAudit (he_codec E) actor state (he_client_ip E (gc_request c)) w of
                (Inl e, w1) \<Rightarrow>
                  (if errors_Is e ErrNotFound then writeError 404 ''OAuth session not found''
                   else writeError 500 ''cancel OAuth session failed'', a, w1)
              | (Inr _, w1) \<Rightarrow> (reply 204 Body_none, a, w1))))"

definition AdminModels_Upsert :: "http_env \<Rightarrow> handler" where
  "AdminModels_Upsert E = with_user (\<lambda>actor. needs E Model_store ''model override service'' (\<lambda>c a w.
     case he_bind_model E (rq_Body (gc_request c)) of
       None \<Rightarrow> (writeError 400 ''invalid model override'', a, w)
     | Some (provider, upstream, enabled, config) \<Rightarrow>
         (case UpsertWithAudit (he_codec E) actor
                 \<lparr>om_Provider = provider, om_ModelAlias = gin_Param c ''modelAlias'', om_UpstreamModel = upstream,
                  om_Enabled = enabled, om_Config = config\<rparr> (he_client_ip E (gc_request c)) w of
            (Inl _, w1) \<Rightarrow> (writeError 400 ''invalid model override'', a, w1)
          | (Inr v, w1) \<Rightarrow> (reply 200 (Body_model v), a, w1))))"

definition AdminModels_Delete :: "http_env \<Rightarrow> handler" where
  "AdminModels_Delete E = with_user (\<lambda>actor. needs E Model_store ''model override service'' (\<lambda>c a w.
     case DeleteWithAudit (json_valid (he_codec E)) actor (gin_Param c ''modelAlias'') (he_client_ip E (gc_request c)) w of
       (Inl e, w1) \<Rightarrow>
         (if errors_Is e ErrNotFound then writeError 404 ''model override not found''
          else writeError 400 ''invalid model override'', a, w1)
     | (Inr _, w1) \<Rightarrow> (reply 204 Body_none, a, w1)))"

definition AdminModels_List :: "http_env \<Rightarrow> handler" where
  "AdminModels_List E = needs E Model_store ''model override service'' (\<lambda>c a w.
     case Overrides_List w of
        (Inl _, w1) \<Rightarrow> (writeError 500 ''list model overrides failed'', a, w1)
      | (Inr rows, w1) \<Rightarrow> (reply 200 (Body_models rows), a, w1))"

section \<open>Routes\<close>

text \<open>The handlers that \<open>RouterConfigurator\<close> is given; a nil one is not mounted. The group of a handler is a tuple in the order of registration.\<close>

record mounts =
  m_login :: "handler option"
  m_logout :: "handler option"
  m_sessions :: bool
  m_keys :: "(handler \<times> handler \<times> handler) option"
  m_usage :: "handler option"
  m_adminUsers :: "(handler \<times> handler) option"
  m_adminKeys :: "handler option"
  m_oauthSessions :: "(handler \<times> handler \<times> handler) option"
  m_providerKeys :: "handler option"
  m_accountTest :: "handler option"
  m_quota :: "handler option"
  m_oauthCredentials :: "(handler \<times> handler) option"
  m_models :: "(handler \<times> handler \<times> handler) option"

datatype middleware = Session_mw | Role_mw "string list"

record route =
  rt_method :: string
  rt_pattern :: string
  rt_chain :: "middleware list"
  rt_handler :: handler

definition mount1 :: "middleware list \<Rightarrow> string \<Rightarrow> string \<Rightarrow> handler option \<Rightarrow> route list" where
  "mount1 chain method pattern h =
     (case h of None \<Rightarrow> [] | Some f \<Rightarrow> [\<lparr>rt_method = method, rt_pattern = pattern, rt_chain = chain, rt_handler = f\<rparr>])"

definition RouterConfigurator :: "mounts \<Rightarrow> route list" where
  "RouterConfigurator m =
     (let management = [Session_mw];
          admin = [Session_mw, Role_mw [RoleAdmin]];
          p = (\<lambda>path. ''/api/v1'' @ path);
          q = (\<lambda>path. ''/api/v1/admin'' @ path)
      in mount1 [] ''POST'' (p ''/login'') (m_login m) @
         mount1 [] ''POST'' (p ''/logout'') (m_logout m) @
         (if \<not> m_sessions m then []
          else
            mount1 management ''GET'' (p ''/me'') (Some CurrentUserHandler) @
            mount1 management ''GET'' (p ''/me/keys'') (map_option fst (m_keys m)) @
            mount1 management ''POST'' (p ''/me/keys'') (map_option (\<lambda>t. fst (snd t)) (m_keys m)) @
            mount1 management ''DELETE'' (p ''/me/keys/:keyID'') (map_option (\<lambda>t. snd (snd t)) (m_keys m)) @
            mount1 management ''GET'' (p ''/me/usage'') (m_usage m) @
            mount1 admin ''GET'' (q ''/users'') (map_option fst (m_adminUsers m)) @
            mount1 admin ''PATCH'' (q ''/users/:userID'') (map_option snd (m_adminUsers m)) @
            mount1 admin ''GET'' (q ''/keys'') (m_adminKeys m) @
            mount1 admin ''GET'' (q ''/oauth/sessions'') (map_option fst (m_oauthSessions m)) @
            mount1 admin ''GET'' (q ''/oauth/sessions/:state'') (map_option (\<lambda>t. fst (snd t)) (m_oauthSessions m)) @
            mount1 admin ''DELETE'' (q ''/oauth/sessions/:state'') (map_option (\<lambda>t. snd (snd t)) (m_oauthSessions m)) @
            mount1 admin ''POST'' (q ''/providers/keys'') (m_providerKeys m) @
            mount1 admin ''POST'' (q ''/accounts/:accountID/test'') (m_accountTest m) @
            mount1 admin ''GET'' (q ''/accounts/:accountID/quota'') (m_quota m) @
            mount1 admin ''GET'' (q ''/oauth/accounts/:accountID/export'') (map_option fst (m_oauthCredentials m)) @
            mount1 admin ''POST'' (q ''/oauth/import'') (map_option snd (m_oauthCredentials m)) @
            mount1 admin ''PUT'' (q ''/models/:modelAlias'') (map_option fst (m_models m)) @
            mount1 admin ''DELETE'' (q ''/models/:modelAlias'') (map_option (\<lambda>t. fst (snd t)) (m_models m)) @
            mount1 admin ''GET'' (q ''/models'') (map_option (\<lambda>t. snd (snd t)) (m_models m))))"

fun run_chain :: "http_env \<Rightarrow> middleware list \<Rightarrow> handler \<Rightarrow> handler" where
  "run_chain E [] h = h"
| "run_chain E (Session_mw # ms) h = SessionMiddleware E (run_chain E ms h)"
| "run_chain E (Role_mw roles # ms) h = RequireRole roles (run_chain E ms h)"

text \<open>A request that Gin matched to a route, with the parameters of the path; the context starts without a principal.\<close>

definition serve :: "http_env \<Rightarrow> route \<Rightarrow> Request \<Rightarrow> (string \<times> string) list \<Rightarrow> app \<Rightarrow> world \<Rightarrow> response \<times> app \<times> world" where
  "serve E rt rq params a w =
     run_chain E (rt_chain rt) (rt_handler rt) \<lparr>gc_request = rq, gc_params = params, gc_user = None, gc_role = None\<rparr> a w"

text \<open>The handlers that \<^verbatim>\<open>main\<close> mounts; the four that front the account manager of the SDK are parameters.\<close>

definition main_mounts ::
  "http_env \<Rightarrow> LoginService \<Rightarrow> bool \<Rightarrow> string \<Rightarrow> handler \<Rightarrow> handler \<Rightarrow> handler \<Rightarrow> handler \<times> handler \<Rightarrow> mounts" where
  "main_mounts E login secure source providerKeys accountTest quota oauthCredentials =
     \<lparr>m_login = Some (Login_Handle E (Some login) secure), m_logout = Some (LogoutHandler E source), m_sessions = True,
      m_keys = Some (Keys_List_Handler E, Keys_Create_Handler E, Keys_Revoke_Handler E), m_usage = Some (Usage_Get_Handler E),
      m_adminUsers = Some (AdminUsers_List E, AdminUsers_SetStatus E), m_adminKeys = Some (AdminKeys_List E),
      m_oauthSessions = Some (AdminOAuth_ListPending E, AdminOAuth_Get E, AdminOAuth_Cancel E),
      m_providerKeys = Some providerKeys, m_accountTest = Some accountTest, m_quota = Some quota,
      m_oauthCredentials = Some oauthCredentials,
      m_models = Some (AdminModels_Upsert E, AdminModels_Delete E, AdminModels_List E)\<rparr>"

end
