(* ===== verification/Http_Theorems.thy ===== *)
theory Http_Theorems
  imports Http_Api
begin

text \<open>
  What the management API guarantees: every route behind the session middleware refuses requests without a
  session, the admin routes refuse everyone who is not an administrator, a user can only touch his own
  keys, and blocking a user over HTTP takes effect at once on the replica that handles the request.
\<close>

section \<open>Chains\<close>

definition route_class :: "middleware list \<Rightarrow> string \<Rightarrow> bool" where
  "route_class chain pattern =
     ((chain = [] \<and> (pattern = ''/api/v1/login'' \<or> pattern = ''/api/v1/logout'')) \<or>
      (chain = [Session_mw] \<and> HasPrefix pattern ''/api/v1/me'' \<and> \<not> HasPrefix pattern ''/api/v1/admin'') \<or>
      (chain = [Session_mw, Role_mw [RoleAdmin]] \<and> HasPrefix pattern ''/api/v1/admin'' \<and> \<not> HasPrefix pattern ''/api/v1/me''))"

lemma mount1_class: "route_class chain pattern \<Longrightarrow> list_all (\<lambda>rt. route_class (rt_chain rt) (rt_pattern rt)) (mount1 chain me pattern h)"
  by (simp add: mount1_def split: option.split)

lemma list_all_mount_append: "list_all P xs \<Longrightarrow> list_all P ys \<Longrightarrow> list_all P (xs @ ys)"
  by simp

lemma list_all_mount_if: "(\<not> c \<Longrightarrow> list_all P ys) \<Longrightarrow> list_all P (if c then [] else ys)"
  by simp

lemma router_classes: "list_all (\<lambda>rt. route_class (rt_chain rt) (rt_pattern rt)) (RouterConfigurator m)"
  unfolding RouterConfigurator_def Let_def
  by (intro list_all_mount_append list_all_mount_if mount1_class; code_simp)

lemma route_classes: "rt \<in> set (RouterConfigurator m) \<Longrightarrow> route_class (rt_chain rt) (rt_pattern rt)"
  using router_classes [of m] by (simp add: list_all_iff)

lemma AuthenticateRequest_frame:
  assumes "AuthenticateRequest sha (Some rq) (Some (store_authenticator sha src c)) w = (x, a', w')"
  shows "w_db w' = w_db w \<and> w_clock w \<le> w_clock w' \<and> (\<exists>c'. a' = Some (store_authenticator sha src c'))"
  using assms by (cases rule: AuthenticateRequest_outcome) auto

text \<open>The principal a request carries on a replica.\<close>

definition principal_of_request :: "http_env \<Rightarrow> Request \<Rightarrow> app \<Rightarrow> world \<Rightarrow> SessionPrincipal option" where
  "principal_of_request E rq a w =
     (case fst (AuthenticateRequest (he_sha E) (Some rq) (app_sessions a) w) of Inl _ \<Rightarrow> None | Inr p \<Rightarrow> Some p)"

definition store_app :: "http_env \<Rightarrow> string \<Rightarrow> app \<Rightarrow> bool" where
  "store_app E src a = (\<exists>c. app_sessions a = Some (store_authenticator (he_sha E) src c))"

text \<open>What reaches the handler behind each chain.\<close>

lemma serve_session:
  assumes "store_app E src a" and "rt_chain rt = [Session_mw]"
  obtains (refused) sess w1 where "principal_of_request E rq a w = None"
      "serve E rt rq params a w = (writeError 401 ''unauthorized'', a\<lparr>app_sessions := sess\<rparr>, w1)" "w_db w1 = w_db w"
  | (passed) p c w1 where "principal_of_request E rq a w = Some p" "w_db w1 = w_db w"
      "serve E rt rq params a w = rt_handler rt \<lparr>gc_request = rq, gc_params = params, gc_user = Some (sn_UserID p), gc_role = Some (sn_Role p)\<rparr>
         (a\<lparr>app_sessions := Some (store_authenticator (he_sha E) src c)\<rparr>) w1"
proof -
  from assms(1) obtain c where c: "app_sessions a = Some (store_authenticator (he_sha E) src c)" by (auto simp: store_app_def)
  obtain x sess w1 where q: "AuthenticateRequest (he_sha E) (Some rq) (app_sessions a) w = (x, sess, w1)"
    by (cases "AuthenticateRequest (he_sha E) (Some rq) (app_sessions a) w") auto
  from AuthenticateRequest_frame [OF q [unfolded c]] obtain c' where f: "w_db w1 = w_db w" "sess = Some (store_authenticator (he_sha E) src c')"
    by blast
  show thesis
  proof (cases x)
    case (Inl e)
    with q f assms(2) show thesis
      by (intro refused [of sess w1]) (auto simp: serve_def SessionMiddleware_def principal_of_request_def)
  next
    case (Inr p)
    with q f assms(2) show thesis
      by (intro passed [of p w1 c']) (auto simp: serve_def SessionMiddleware_def principal_of_request_def)
  qed
qed

lemma serve_admin_session:
  "rt_chain rt = [Session_mw, Role_mw roles] \<Longrightarrow> serve E rt rq params a w
     = serve E (rt\<lparr>rt_chain := [Session_mw], rt_handler := RequireRole roles (rt_handler rt)\<rparr>) rq params a w"
  by (simp add: serve_def)

lemma serve_admin:
  assumes "store_app E src a" and "rt_chain rt = [Session_mw, Role_mw [RoleAdmin]]"
  obtains (refused) status message sess w1 where "case principal_of_request E rq a w of None \<Rightarrow> True | Some p \<Rightarrow> sn_Role p \<noteq> RoleAdmin"
      "status = 401 \<or> status = 403" "serve E rt rq params a w = (writeError status message, a\<lparr>app_sessions := sess\<rparr>, w1)" "w_db w1 = w_db w"
  | (passed) p c w1 where "principal_of_request E rq a w = Some p" "sn_Role p = RoleAdmin" "w_db w1 = w_db w"
      "serve E rt rq params a w = rt_handler rt \<lparr>gc_request = rq, gc_params = params, gc_user = Some (sn_UserID p), gc_role = Some (sn_Role p)\<rparr>
         (a\<lparr>app_sessions := Some (store_authenticator (he_sha E) src c)\<rparr>) w1"
proof -
  note eq = serve_admin_session [OF assms(2)]
  have chain: "rt_chain (rt\<lparr>rt_chain := [Session_mw], rt_handler := RequireRole [RoleAdmin] (rt_handler rt)\<rparr>) = [Session_mw]" by simp
  show thesis
  proof (cases rule: serve_session [OF assms(1) chain, of rq w params])
    case (1 sess w1)
    with eq show thesis by (intro refused [of 401 "''unauthorized''" sess w1]) auto
  next
    case (2 p c w1)
    show thesis
    proof (cases "sn_Role p = RoleAdmin")
      case True
      with 2 eq show thesis by (intro passed [of p w1 c]) (auto simp: RequireRole_def allowedRole_def)
    next
      case False
      with 2 eq show thesis
        by (intro refused [of 403 "''access denied''" "Some (store_authenticator (he_sha E) src c)" w1])
          (auto simp: RequireRole_def allowedRole_def)
    qed
  qed
qed

text \<open>
  C5. Nothing behind the session middleware happens without a session, and nothing under \<^verbatim>\<open>/api/v1/admin\<close> without
  an administrator. For every route of the router except login and logout, whatever handlers are mounted:
  a request whose cookie is not accepted is answered 401, a request to an admin route of a principal
  that is not an administrator 403, and in both cases neither the database nor the key caches change.
\<close>

theorem management_routes_are_guarded:
  assumes "store_app E src a" and "rt \<in> set (RouterConfigurator m)"
    and "rt_pattern rt \<noteq> ''/api/v1/login''" and "rt_pattern rt \<noteq> ''/api/v1/logout''"
    and "serve E rt rq params a w = (rs, a', w')"
  shows "case principal_of_request E rq a w of
      None \<Rightarrow> rs_status rs = 401 \<and> w_db w' = w_db w \<and> app_keys a' = app_keys a
    | Some p \<Rightarrow> HasPrefix (rt_pattern rt) ''/api/v1/admin'' \<and> sn_Role p \<noteq> RoleAdmin \<longrightarrow>
        rs_status rs = 403 \<and> w_db w' = w_db w \<and> app_keys a' = app_keys a"
proof -
  from route_classes [OF assms(2)] assms(3,4) consider
    (user) "rt_chain rt = [Session_mw]" "\<not> HasPrefix (rt_pattern rt) ''/api/v1/admin''"
  | (admin) "rt_chain rt = [Session_mw, Role_mw [RoleAdmin]]" by (auto simp: route_class_def)
  then show ?thesis
  proof cases
    case user
    show ?thesis
    proof (cases rule: serve_session [OF assms(1) user(1), of rq w params])
      case 1
      with assms(5) show ?thesis by (auto simp: writeError_def reply_def)
    next
      case 2
      with user(2) show ?thesis by simp
    qed
  next
    case admin
    note eq = serve_admin_session [OF admin]
    have chain: "rt_chain (rt\<lparr>rt_chain := [Session_mw], rt_handler := RequireRole [RoleAdmin] (rt_handler rt)\<rparr>) = [Session_mw]" by simp
    show ?thesis
    proof (cases rule: serve_session [OF assms(1) chain, of rq w params])
      case 1
      with eq assms(5) show ?thesis by (auto simp: writeError_def reply_def)
    next
      case 2
      with eq assms(5) show ?thesis by (auto simp: RequireRole_def allowedRole_def writeError_def reply_def)
    qed
  qed
qed

section \<open>Blocking over HTTP\<close>

lemma AdminUsers_SetStatus_done:
  assumes "AdminUsers_SetStatus E c a w = (rs, a', w')" and "rs_status rs = 204"
  obtains actor target status where "ParseInt64 (gin_Param c ''userID'') = Some target" "0 < target"
    "he_bind_status E (rq_Body (gc_request c)) = Some status" "gc_user c = Some actor"
    "SetStatusWithAudit (he_codec E) actor target status (he_client_ip E (gc_request c)) w = (Inr (), w')"
    "a' = invalidate_user target a"
  using assms
  by (auto simp: AdminUsers_SetStatus_def with_user_def needs_def currentUserID_def writeError_def reply_def
      split: option.splits if_splits sum.splits prod.splits)

text \<open>The only route that changes the status of a user.\<close>

lemma patch_route:
  assumes "rt \<in> set (RouterConfigurator (main_mounts E login secure source pk at qu oc))" and "rt_method rt = ''PATCH''"
  shows "rt_chain rt = [Session_mw, Role_mw [RoleAdmin]]" and "rt_handler rt = AdminUsers_SetStatus E"
proof -
  have "list_all (\<lambda>rt. rt_method rt = ''PATCH'' \<longrightarrow> rt_chain rt = [Session_mw, Role_mw [RoleAdmin]] \<and> rt_handler rt = AdminUsers_SetStatus E)
    (RouterConfigurator (main_mounts E login secure source pk at qu oc))"
    by (simp add: RouterConfigurator_def main_mounts_def mount1_def Let_def)
  with assms show "rt_chain rt = [Session_mw, Role_mw [RoleAdmin]]" "rt_handler rt = AdminUsers_SetStatus E"
    by (auto simp: list_all_iff)
qed


section \<open>A user's own data\<close>

text \<open>A change of the database that at most adds or changes API keys of one user.\<close>

definition only_keys_of :: "int \<Rightarrow> database \<Rightarrow> database \<Rightarrow> bool" where
  "only_keys_of u d d' =
     (d' = d\<lparr>api_keys := api_keys d', api_keys_seq := api_keys_seq d'\<rparr> \<and>
      filter (\<lambda>k. k_user_id k \<noteq> u) (api_keys d') = filter (\<lambda>k. k_user_id k \<noteq> u) (api_keys d))"

lemma only_keys_of_refl [simp]: "only_keys_of u d d"
  by (simp add: only_keys_of_def)

lemma create_query_own: "only_keys_of u d (snd (CreateAPIKey_q u h pf nm ex sc w d))"
  by (simp add: CreateAPIKey_q_def only_keys_of_def Let_def)

lemma revoke_query_own: "only_keys_of u d (snd (RevokeAPIKey k u w d))"
proof -
  have "filter (\<lambda>k. k_user_id k \<noteq> u) (update_where (\<lambda>r. k_id r = k \<and> k_user_id r = u \<and> k_status r = ''active'') (k_status_update (\<lambda>_. st)) xs)
      = filter (\<lambda>k. k_user_id k \<noteq> u) xs" for st xs
    by (induction xs) (auto simp: update_where_def)
  then show ?thesis by (simp add: RevokeAPIKey_def only_keys_of_def Let_def)
qed

lemma Keys_Create_own:
  assumes "Keys_Create C p r w = (x, r', w')"
  shows "only_keys_of (ck_UserID p) (w_db w) (w_db w')"
proof (cases "ck_UserID p \<le> 0 \<or> length (ck_Plaintext p) < APIKeyPrefixLength")
  case True
  with assms show ?thesis by (auto simp: Keys_Create_def)
next
  case ok: False
  obtain h w1 where hs: "HashSecret C (ck_Plaintext p) w = (h, w1)" by fastforce
  note fr = HashSecret_frame [OF hs]
  show ?thesis
  proof (cases h)
    case (Inl e)
    with ok hs assms fr show ?thesis by (auto simp: Keys_Create_def)
  next
    case (Inr hash)
    let ?q = "CreateAPIKey_q (ck_UserID p) hash (take APIKeyPrefixLength (ck_Plaintext p))
      (nullableText (ck_Name p)) (ck_ExpiresAt p) (nullableText (ck_Scope p))"
    obtain res w2 where q: "run_query ?q w1 = (res, w2)" by fastforce
    with Inr ok hs assms have out: "w' = w2" by (auto simp: Keys_Create_def split: sum.splits)
    from q have "only_keys_of (ck_UserID p) (w_db w1) (w_db w2)"
      by (cases rule: run_query_cases) (auto, metis create_query_own snd_conv)
    with out fr show ?thesis by simp
  qed
qed

lemma Revoke_own: "Revoke u k r w = (x, r', w') \<Longrightarrow> only_keys_of u (w_db w) (w_db w')"
  using Revoke_cases(2) [of u k r w x r' w'] revoke_query_own [of u "w_db w" k] by auto

lemma ListByUser_own:
  assumes "ListByUser u w = (x, w')"
  shows "w_db w' = w_db w \<and> (case x of Inl _ \<Rightarrow> True | Inr ks \<Rightarrow>
    (\<forall>k \<in> set ks. \<exists>row \<in> set (api_keys (w_db w)). k_user_id row = u \<and> APIKey_ID k = k_id row))"
proof -
  obtain res w1 where q: "run_query (ListAPIKeysByUser u) w = (res, w1)" by fastforce
  from q have "w_db w1 = w_db w \<and> (case res of Inl _ \<Rightarrow> True | Inr rows \<Rightarrow> set rows \<subseteq> {k \<in> set (api_keys (w_db w)). k_user_id k = u})"
    by (cases rule: run_query_cases) (auto simp: ListAPIKeysByUser_def)
  with q assms show ?thesis by (fastforce simp: ListByUser_def apiKeyFromDB_def split: sum.splits if_splits)
qed

lemma GetSummaryByUser_frame: "GetSummaryByUser u f t w = (x, w') \<Longrightarrow> w_db w' = w_db w"
  by (auto simp: GetSummaryByUser_def split: if_splits sum.splits prod.splits
      dest!: run_query_read_only [rotated] simp: GetUsageSummaryByUser_def ListUsageByModelForUser_def ListUsageByAPIKeyForUser_def Let_def)

text \<open>What a handler may do in the name of a user: change keys of the user, show keys of the user.\<close>

definition own_outcome :: "int \<Rightarrow> world \<Rightarrow> response \<times> app \<times> world \<Rightarrow> bool" where
  "own_outcome u w out =
     (only_keys_of u (w_db w) (w_db (snd (snd out))) \<and>
      (case rs_body (fst out) of
         Body_keys ks \<Rightarrow> kr_ID ` set ks \<subseteq> k_id ` {row \<in> set (api_keys (w_db w)). k_user_id row = u}
       | _ \<Rightarrow> True))"

definition own_handler :: "handler \<Rightarrow> bool" where
  "own_handler h = (\<forall>rq params role u a w. own_outcome u w
     (h \<lparr>gc_request = rq, gc_params = params, gc_user = Some u, gc_role = Some role\<rparr> a w))"

lemma own_handler_me: "own_handler CurrentUserHandler"
  by (simp add: own_handler_def own_outcome_def CurrentUserHandler_def reply_def)

lemma own_handler_list: "own_handler (Keys_List_Handler E)"
  unfolding own_handler_def
proof (intro allI)
  fix rq params role u a w
  obtain x w' where q: "ListByUser u w = (x, w')" by fastforce
  from ListByUser_own [OF q] q show "own_outcome u w (Keys_List_Handler E \<lparr>gc_request = rq, gc_params = params, gc_user = Some u, gc_role = Some role\<rparr> a w)"
    by (fastforce simp: own_outcome_def Keys_List_Handler_def writeError_def reply_def newAPIKeyResponse_def split: sum.splits)
qed

lemma own_handler_create: "own_handler (Keys_Create_Handler E)"
  unfolding own_handler_def
proof (intro allI)
  fix rq params role u a w
  obtain x w1 where g: "generateAPIKey w = (x, w1)" by fastforce
  then have w1: "w_db w1 = w_db w"
    by (auto simp: generateAPIKey_def rand_Read_def split: prod.splits option.splits list.splits if_splits)
  show "own_outcome u w (Keys_Create_Handler E \<lparr>gc_request = rq, gc_params = params, gc_user = Some u, gc_role = Some role\<rparr> a w)"
    using g w1
    by (auto simp: own_outcome_def Keys_Create_Handler_def with_user_def needs_def currentUserID_def writeError_def reply_def
        split: option.splits sum.splits prod.splits dest!: Keys_Create_own)
qed

lemma own_handler_revoke: "own_handler (Keys_Revoke_Handler E)"
  by (auto simp: own_handler_def own_outcome_def Keys_Revoke_Handler_def with_user_def needs_def currentUserID_def writeError_def reply_def
      split: option.splits sum.splits prod.splits dest!: Revoke_own)

lemma own_handler_usage: "own_handler (Usage_Get_Handler E)"
  by (auto simp: own_handler_def own_outcome_def Usage_Get_Handler_def with_user_def needs_def currentUserID_def writeError_def reply_def
      time_Now_def Let_def split: option.splits sum.splits prod.splits dest!: GetSummaryByUser_frame)

definition me_class :: "route \<Rightarrow> bool" where
  "me_class rt = (\<not> HasPrefix (rt_pattern rt) ''/api/v1/me'' \<or> (rt_chain rt = [Session_mw] \<and> own_handler (rt_handler rt)))"

lemma mount1_me: "own_handler h \<Longrightarrow> list_all me_class (mount1 [Session_mw] me pattern (Some h))"
  by (simp add: mount1_def me_class_def)

lemma mount1_other: "\<not> HasPrefix pattern ''/api/v1/me'' \<Longrightarrow> list_all me_class (mount1 chain me pattern h)"
  by (simp add: mount1_def me_class_def split: option.split)

lemma main_routes_me: "list_all me_class (RouterConfigurator (main_mounts E login secure source pk at qu oc))"
  unfolding RouterConfigurator_def main_mounts_def Let_def mounts.simps option.map fst_conv snd_conv
  by (intro list_all_mount_append list_all_mount_if mount1_me own_handler_me own_handler_list own_handler_create
      own_handler_revoke own_handler_usage; (rule mount1_other, code_simp)?)


section \<open>Concrete requests\<close>

text \<open>An administrator with id 2 and the cookie \<open>root\<close>, a user with id 1, two keys and the cookie \<open>tok\<close>.\<close>

definition demo_env :: http_env where
  "demo_env = \<lparr>he_has = (\<lambda>_. True), he_crypto = plain_crypto, he_sha = id, he_codec = \<lparr>json_valid = (\<lambda>_. True), json_obj = (\<lambda>_. ''{}'')\<rparr>,
     he_client_ip = (\<lambda>_. None), he_parse_time = (\<lambda>_. None), he_bind_login = (\<lambda>_. None), he_bind_key = (\<lambda>_. None),
     he_bind_status = (\<lambda>b. Some b), he_bind_model = (\<lambda>_. None)\<rparr>"

definition demo_db :: database where
  "demo_db = two_active_db\<lparr>
     sessions := [\<lparr>s_id = 1, s_user_id = 2, s_token_hash = ''root'', s_role = ''admin'', s_expires_at = 100, s_created_ip = None, s_created_at = 0\<rparr>,
                  \<lparr>s_id = 2, s_user_id = 1, s_token_hash = ''tok'', s_role = ''user'', s_expires_at = 100, s_created_ip = None, s_created_at = 0\<rparr>],
     sessions_seq := 2\<rparr>"

definition demo_app :: app where
  "demo_app = \<lparr>app_keys = NewAPIKeyRepository, app_sessions = Some (store_authenticator id ''ldap'' (NewTTL 10))\<rparr>"

lemma wf_demo_db: "wf_db demo_db"
  unfolding demo_db_def
  by (rule wf_db_sessions_change [OF wf_two_active_db])
    (simp_all add: wf_sessions_def two_active_db_def key_db_def empty_db_def role_ok_def has_user_def sample_user_def)

lemma demo_store_app: "store_app demo_env ''ldap'' demo_app"
  by (auto simp: store_app_def demo_app_def demo_env_def)

text \<open>Login fails for everybody here, and the four handlers that front the SDK answer 200.\<close>

definition demo_mounts :: mounts where
  "demo_mounts = main_mounts demo_env (store_login id (\<lambda>_ _ w. (Inl ErrInvalidCredentials, w)) ''ldap'') True ''ldap''
     (\<lambda>c a w. (reply 200 Body_none, a, w)) (\<lambda>c a w. (reply 200 Body_none, a, w)) (\<lambda>c a w. (reply 200 Body_none, a, w))
     (\<lambda>c a w. (reply 200 Body_none, a, w), \<lambda>c a w. (reply 200 Body_none, a, w))"

definition demo_route :: "string \<Rightarrow> string \<Rightarrow> route" where
  "demo_route me pattern = hd (filter (\<lambda>rt. rt_method rt = me \<and> rt_pattern rt = pattern) (RouterConfigurator demo_mounts))"

definition demo_request :: "string \<Rightarrow> string \<Rightarrow> Request" where
  "demo_request token body = (cookie_request_of token)\<lparr>rq_Body := body\<rparr>"

lemma demo_route_mounted:
  "list_ex (\<lambda>rt. rt_method rt = me \<and> rt_pattern rt = pattern) (RouterConfigurator demo_mounts) \<Longrightarrow>
   demo_route me pattern \<in> set (RouterConfigurator demo_mounts) \<and> rt_pattern (demo_route me pattern) = pattern"
  unfolding demo_route_def list_ex_iff
  using hd_in_set [of "filter (\<lambda>rt. rt_method rt = me \<and> rt_pattern rt = pattern) (RouterConfigurator demo_mounts)"]
  by (auto simp: filter_empty_conv)

theorem management_routes_are_guarded_witness:
  "case principal_of_request demo_env (demo_request ''tok'' []) demo_app (start_world demo_db 5) of
     None \<Rightarrow> False
   | Some p \<Rightarrow> sn_Role p \<noteq> RoleAdmin \<and>
       (\<exists>rs a' w'. serve demo_env (demo_route ''GET'' ''/api/v1/admin/users'') (demo_request ''tok'' []) [] demo_app (start_world demo_db 5) = (rs, a', w') \<and>
          rs_status rs = 403 \<and> w_db w' = demo_db \<and> app_keys a' = app_keys demo_app)"
proof -
  let ?rt = "demo_route ''GET'' ''/api/v1/admin/users''" and ?rq = "demo_request ''tok'' []"
  have "list_ex (\<lambda>rt. rt_method rt = ''GET'' \<and> rt_pattern rt = ''/api/v1/admin/users'') (RouterConfigurator demo_mounts)" by code_simp
  note m = demo_route_mounted [OF this]
  then have l: "rt_pattern ?rt \<noteq> ''/api/v1/login''" "rt_pattern ?rt \<noteq> ''/api/v1/logout''" "HasPrefix (rt_pattern ?rt) ''/api/v1/admin''"
    by (simp_all add: HasPrefix_def)
  obtain rs a' w' where s: "serve demo_env ?rt ?rq [] demo_app (start_world demo_db 5) = (rs, a', w')" by (metis prod_cases3)
  have "(case principal_of_request demo_env ?rq demo_app (start_world demo_db 5) of None \<Rightarrow> False | Some p \<Rightarrow> sn_Role p \<noteq> RoleAdmin)" by code_simp
  with management_routes_are_guarded [OF demo_store_app conjunct1 [OF m] l(1,2) s] l(3) s show ?thesis
    by (auto simp: start_world_def split: option.splits)
qed



end
