(* ===== verification/Configuration.thy ===== *)
theory Configuration
  imports Identity
begin

text \<open>
  \<^verbatim>\<open>internal/config\<close> (\<^verbatim>\<open>config.go\<close>, \<^verbatim>\<open>sdkbridge.go\<close>) and the part of \<^verbatim>\<open>cmd/cliproxy/main.go\<close> that turns the
  configuration into an identity provider: defaults, YAML, overrides from the environment, validation.

  The environment of the process is a map \<open>env\<close>, the configuration file the value \<open>file_read\<close> of reading it.
  The YAML decoder (\<^verbatim>\<open>gopkg.in/yaml.v3\<close>) is the parameter \<open>yaml\<close>, which updates a configuration or fails, and
  \<^verbatim>\<open>url.ParseRequestURI\<close> the parameter \<open>parse_uri\<close>.
\<close>

section \<open>Data\<close>

record ServerConfig =
  Addr :: string
  Environment :: string
  CORSAllowedOrigins :: "string list"

record AuthConfig =
  Mode :: string
  StaticUsername :: string
  StaticPassword :: string
  StaticRole :: string

record LDAPConfig =
  cl_URL :: string
  cl_BindDN :: string
  cl_UserBase :: string
  cl_UserFilter :: string
  cl_UserGroupDN :: string
  cl_AdminGroupDN :: string

record LoggingConfig =
  Level :: string
  Format :: string

record Config =
  cfg_Server :: ServerConfig
  cfg_Auth :: AuthConfig
  cfg_DSN :: string
  cfg_LDAP :: LDAPConfig
  cfg_Logging :: LoggingConfig
  cfg_KeyVersion :: int

definition EnvironmentDevelopment :: string where "EnvironmentDevelopment = ''development''"
definition EnvironmentTest :: string where "EnvironmentTest = ''test''"
definition EnvironmentProduction :: string where "EnvironmentProduction = ''production''"
definition AuthModeLDAP :: string where "AuthModeLDAP = ''ldap''"
definition AuthModeStatic :: string where "AuthModeStatic = ''static''"

lemmas config_consts = EnvironmentDevelopment_def EnvironmentTest_def EnvironmentProduction_def AuthModeLDAP_def
  AuthModeStatic_def

definition Default :: Config where
  "Default =
     \<lparr>cfg_Server = \<lparr>Addr = '':8080'', Environment = EnvironmentProduction, CORSAllowedOrigins = []\<rparr>,
      cfg_Auth = \<lparr>Mode = AuthModeLDAP, StaticUsername = [], StaticPassword = [], StaticRole = []\<rparr>,
      cfg_DSN = [],
      cfg_LDAP = \<lparr>cl_URL = [], cl_BindDN = [], cl_UserBase = [], cl_UserFilter = [], cl_UserGroupDN = [], cl_AdminGroupDN = []\<rparr>,
      cfg_Logging = \<lparr>Level = ''info'', Format = ''json''\<rparr>,
      cfg_KeyVersion = 1\<rparr>"

section \<open>Validation\<close>

record request_uri =
  ru_Scheme :: string
  ru_Host :: string
  ru_User :: bool
  ru_Path :: string
  ru_RawQuery :: string
  ru_Fragment :: string

fun validateCORSOrigins :: "(string \<Rightarrow> request_uri option) \<Rightarrow> string list \<Rightarrow> unit result" where
  "validateCORSOrigins parse_uri [] = Inr ()"
| "validateCORSOrigins parse_uri (origin # origins) =
     (case parse_uri origin of
        None \<Rightarrow> Inl (ErrMsg ''invalid server.cors_allowed_origins entry'')
      | Some u \<Rightarrow>
          (if ru_Scheme u = [] \<or> ru_Host u = [] \<or> ru_User u \<or> ru_Path u \<noteq> [] \<or> ru_RawQuery u \<noteq> [] \<or> ru_Fragment u \<noteq> []
           then Inl (ErrMsg ''invalid server.cors_allowed_origins entry'')
           else if ru_Scheme u \<noteq> ''http'' \<and> ru_Scheme u \<noteq> ''https''
           then Inl (ErrMsg ''invalid server.cors_allowed_origins scheme'')
           else validateCORSOrigins parse_uri origins))"

definition check_static :: "Config \<Rightarrow> unit result" where
  "check_static c =
     (let a = cfg_Auth c
      in if Environment (cfg_Server c) = EnvironmentProduction then Inl (ErrMsg ''auth.mode=static is forbidden in production'')
         else if TrimSpace (StaticUsername a) = [] \<or> StaticPassword a = []
         then Inl (ErrMsg ''static identity requires username and password from environment'')
         else if TrimSpace (StaticRole a) = RoleUser \<or> TrimSpace (StaticRole a) = RoleAdmin then Inr ()
         else Inl (ErrMsg ''unknown static user role''))"

text \<open>\<open>Validate\<close> trims two fields of its receiver in place; the second component is the receiver afterwards.\<close>

definition Validate :: "(string \<Rightarrow> request_uri option) \<Rightarrow> Config option \<Rightarrow> unit result \<times> Config option" where
  "Validate parse_uri cc =
     (case cc of
        None \<Rightarrow> (Inl (ErrMsg ''config is nil''), None)
      | Some c0 \<Rightarrow>
          (let c = c0\<lparr>cfg_Server := (cfg_Server c0)\<lparr>Environment := TrimSpace (Environment (cfg_Server c0))\<rparr>,
                      cfg_Auth := (cfg_Auth c0)\<lparr>Mode := TrimSpace (Mode (cfg_Auth c0))\<rparr>\<rparr>;
               environment = Environment (cfg_Server c); mode = Mode (cfg_Auth c)
           in if environment \<noteq> EnvironmentDevelopment \<and> environment \<noteq> EnvironmentTest \<and> environment \<noteq> EnvironmentProduction
              then (Inl (ErrMsg ''unknown server.environment''), Some c)
              else (case validateCORSOrigins parse_uri (CORSAllowedOrigins (cfg_Server c)) of
                      Inl e \<Rightarrow> (Inl e, Some c)
                    | Inr _ \<Rightarrow>
                        (if mode = AuthModeLDAP then (Inr (), Some c)
                         else if mode = AuthModeStatic then (check_static c, Some c)
                         else (Inl (ErrMsg ''unknown auth.mode''), Some c)))))"

section \<open>Loading\<close>

type_synonym environment = "string \<Rightarrow> string option"

definition Getenv :: "environment \<Rightarrow> string \<Rightarrow> string" where
  "Getenv env name = (case env name of None \<Rightarrow> [] | Some v \<Rightarrow> v)"

definition splitCSV :: "string \<Rightarrow> string list" where
  "splitCSV value = filter (\<lambda>origin. origin \<noteq> []) (map TrimSpace (Split CHR '','' value))"

definition override :: "string \<Rightarrow> string \<Rightarrow> string" where
  "override v old = (if v \<noteq> [] then v else old)"

definition applyEnvOverrides :: "environment \<Rightarrow> Config \<Rightarrow> Config" where
  "applyEnvOverrides env c =
     c\<lparr>cfg_Server :=
         \<lparr>Addr = override (Getenv env ''CLIPROXY_SERVER_ADDR'') (Addr (cfg_Server c)),
          Environment = override (TrimSpace (Getenv env ''CLIPROXY_SERVER_ENVIRONMENT'')) (Environment (cfg_Server c)),
          CORSAllowedOrigins = (case env ''CLIPROXY_CORS_ALLOWED_ORIGINS'' of None \<Rightarrow> CORSAllowedOrigins (cfg_Server c) | Some v \<Rightarrow> splitCSV v)\<rparr>,
       cfg_DSN := override (Getenv env ''CLIPROXY_DB_DSN'') (cfg_DSN c),
       cfg_Logging := (cfg_Logging c)\<lparr>Level := override (TrimSpace (Getenv env ''CLIPROXY_LOG_LEVEL'')) (Level (cfg_Logging c))\<rparr>,
       cfg_Auth :=
         \<lparr>Mode = override (TrimSpace (Getenv env ''CLIPROXY_AUTH_MODE'')) (Mode (cfg_Auth c)),
          StaticUsername = Getenv env ''CLIPROXY_STATIC_USER_USERNAME'',
          StaticPassword = Getenv env ''CLIPROXY_STATIC_USER_PASSWORD'',
          StaticRole = Getenv env ''CLIPROXY_STATIC_USER_ROLE''\<rparr>\<rparr>"

definition FromEnvironment :: "environment \<Rightarrow> Config" where
  "FromEnvironment env = applyEnvOverrides env Default"

datatype file_read = Not_exist | Read_error gerror | Read_data string

definition Load :: "(string \<Rightarrow> Config \<Rightarrow> Config result) \<Rightarrow> environment \<Rightarrow> (string \<Rightarrow> file_read) \<Rightarrow> string \<Rightarrow> Config result" where
  "Load yaml env ReadFile path =
     (case ReadFile path of
        Not_exist \<Rightarrow> Inl (Wrapf path ErrConfigNotFound)
      | Read_error e \<Rightarrow> Inl (Wrapf (''read config '' @ path) e)
      | Read_data text \<Rightarrow>
          (case yaml text Default of
             Inl e \<Rightarrow> Inl (Wrapf (''parse config '' @ path) e)
           | Inr c \<Rightarrow> Inr (applyEnvOverrides env c)))"

section \<open>The address for the SDK\<close>

text \<open>\<^verbatim>\<open>net.SplitHostPort\<close>: the last colon separates the port; brackets may enclose the host.\<close>

fun last_index :: "char \<Rightarrow> string \<Rightarrow> nat option" where
  "last_index c [] = None"
| "last_index c (x # xs) =
     (case last_index c xs of Some i \<Rightarrow> Some (Suc i) | None \<Rightarrow> if x = c then Some 0 else None)"

fun first_index :: "char \<Rightarrow> string \<Rightarrow> nat option" where
  "first_index c [] = None"
| "first_index c (x # xs) = (if x = c then Some 0 else map_option Suc (first_index c xs))"

definition SplitHostPort :: "string \<Rightarrow> (string \<times> string) result" where
  "SplitHostPort hostport =
     (case last_index CHR '':'' hostport of
        None \<Rightarrow> Inl (ErrMsg ''missing port in address'')
      | Some i \<Rightarrow>
          (let bracketed =
             (if hd hostport = CHR ''['' then
                (case first_index CHR '']'' hostport of
                   None \<Rightarrow> Inl (ErrMsg ''missing ']' in address'')
                 | Some e \<Rightarrow>
                     (if e + 1 = length hostport then Inl (ErrMsg ''missing port in address'')
                      else if e + 1 = i then Inr (take (e - 1) (drop 1 hostport), 1, e + 1)
                      else if hostport ! (e + 1) = CHR '':'' then Inl (ErrMsg ''too many colons in address'')
                      else Inl (ErrMsg ''missing port in address'')))
              else if first_index CHR '':'' (take i hostport) \<noteq> None then Inl (ErrMsg ''too many colons in address'')
              else Inr (take i hostport, 0, 0))
           in case bracketed of
                Inl e \<Rightarrow> Inl e
              | Inr (host, j, k) \<Rightarrow>
                  (if first_index CHR ''['' (drop j hostport) \<noteq> None then Inl (ErrMsg ''unexpected '[' in address'')
                   else if first_index CHR '']'' (drop k hostport) \<noteq> None then Inl (ErrMsg ''unexpected ']' in address'')
                   else Inr (host, drop (i + 1) hostport))))"

record sdk_Config =
  sc_Host :: string
  sc_Port :: int
  sc_UsageStatisticsEnabled :: bool

definition SDKConfig :: "Config option \<Rightarrow> sdk_Config result" where
  "SDKConfig cc =
     (case cc of
        None \<Rightarrow> Inl (ErrMsg ''config is nil'')
      | Some c \<Rightarrow>
          (case SplitHostPort (Addr (cfg_Server c)) of
             Inl e \<Rightarrow> Inl (Wrapf ''parse server.addr'' e)
           | Inr (host, portText) \<Rightarrow>
               (case ParseInt64 portText of
                  None \<Rightarrow> Inl (ErrMsg ''parse server.addr port'')
                | Some port \<Rightarrow>
                    (if port \<le> 0 \<or> 65535 < port then Inl (ErrMsg ''parse server.addr port'')
                     else Inr \<lparr>sc_Host = host, sc_Port = port, sc_UsageStatisticsEnabled = True\<rparr>))))"

section \<open>The identity provider of a configuration\<close>

datatype identity_provider = Static_provider StaticProvider | Ldap_provider ldap_Provider

definition identityProviderFromConfig ::
  "(string \<Rightarrow> string) \<Rightarrow> (string \<Rightarrow> parsed_url option) \<Rightarrow> directory \<Rightarrow> environment \<Rightarrow> Config option \<Rightarrow> identity_provider result" where
  "identityProviderFromConfig sha url_Parse network env cc =
     (case cc of
        None \<Rightarrow> Inl (ErrMsg ''config is nil'')
      | Some c \<Rightarrow>
          (if Mode (cfg_Auth c) = AuthModeStatic then
             map_sum id Static_provider (NewStaticProvider sha (StaticUsername (cfg_Auth c)) (StaticPassword (cfg_Auth c)) (StaticRole (cfg_Auth c)))
           else if Mode (cfg_Auth c) = AuthModeLDAP then
             map_sum id Ldap_provider (ldap_NewProvider url_Parse network
               \<lparr>lc_URL = cl_URL (cfg_LDAP c), lc_BindDN = cl_BindDN (cfg_LDAP c), lc_BindPassword = Getenv env ''LDAP_BIND_PASSWORD'',
                lc_UserBase = cl_UserBase (cfg_LDAP c), lc_UserFilter = cl_UserFilter (cfg_LDAP c),
                lc_UserGroupDN = cl_UserGroupDN (cfg_LDAP c), lc_AdminGroupDN = cl_AdminGroupDN (cfg_LDAP c)\<rparr> None)
           else Inl (ErrMsg ''unsupported auth.mode'')))"

text \<open>The first steps of \<^verbatim>\<open>run\<close>: the configuration, its validation, the identity provider.\<close>

record startup =
  su_yaml :: "string \<Rightarrow> Config \<Rightarrow> Config result"
  su_ReadFile :: "string \<Rightarrow> file_read"
  su_env :: environment
  su_parse_uri :: "string \<Rightarrow> request_uri option"
  su_url_Parse :: "string \<Rightarrow> parsed_url option"
  su_network :: directory
  su_sha :: "string \<Rightarrow> string"

definition run_config :: "startup \<Rightarrow> (Config \<times> identity_provider) result" where
  "run_config S =
     (let configPath = override (Getenv (su_env S) ''CLIPROXY_CONFIG'') ''config.yaml''
      in case (case Load (su_yaml S) (su_env S) (su_ReadFile S) configPath of
                 Inl e \<Rightarrow> if \<not> errors_Is e ErrConfigNotFound then Inl (Wrapf ''load config'' e) else Inr (FromEnvironment (su_env S))
               | Inr c \<Rightarrow> Inr c) of
           Inl e \<Rightarrow> Inl e
         | Inr c \<Rightarrow>
             (case Validate (su_parse_uri S) (Some c) of
                (Inl e, _) \<Rightarrow> Inl (Wrapf ''validate config'' e)
              | (Inr _, cc) \<Rightarrow>
                  (case identityProviderFromConfig (su_sha S) (su_url_Parse S) (su_network S) (su_env S) cc of
                     Inl e \<Rightarrow> Inl (Wrapf ''create identity provider'' e)
                   | Inr p \<Rightarrow> Inr (the cc, p))))"

section \<open>What a validated configuration guarantees\<close>

definition bare_origin :: "(string \<Rightarrow> request_uri option) \<Rightarrow> string \<Rightarrow> bool" where
  "bare_origin parse_uri origin =
     (case parse_uri origin of
        None \<Rightarrow> False
      | Some u \<Rightarrow> (ru_Scheme u = ''http'' \<or> ru_Scheme u = ''https'') \<and> ru_Host u \<noteq> [] \<and> \<not> ru_User u \<and> ru_Path u = [] \<and>
          ru_RawQuery u = [] \<and> ru_Fragment u = [])"

lemma validateCORSOrigins_ok:
  "validateCORSOrigins parse_uri origins = Inr () \<Longrightarrow> list_all (bare_origin parse_uri) origins"
proof (induction origins)
  case (Cons origin origins)
  then have "bare_origin parse_uri origin" "validateCORSOrigins parse_uri origins = Inr ()"
    by (auto simp: bare_origin_def split: option.splits if_splits)
  with Cons.IH show ?case by simp
qed simp

lemma Validate_ok:
  assumes "Validate parse_uri (Some b) = (Inr (), cc)"
  obtains c where "cc = Some c" "validateCORSOrigins parse_uri (CORSAllowedOrigins (cfg_Server b)) = Inr ()"
    "c = b\<lparr>cfg_Server := (cfg_Server b)\<lparr>Environment := TrimSpace (Environment (cfg_Server b))\<rparr>,
           cfg_Auth := (cfg_Auth b)\<lparr>Mode := TrimSpace (Mode (cfg_Auth b))\<rparr>\<rparr>"
    "Environment (cfg_Server c) = EnvironmentDevelopment \<or> Environment (cfg_Server c) = EnvironmentTest \<or>
     (Environment (cfg_Server c) = EnvironmentProduction \<and> Mode (cfg_Auth c) = AuthModeLDAP)"
  using assms
  by (auto simp: Validate_def Let_def check_static_def config_consts split: if_splits sum.splits)

lemma Validate_origins:
  assumes "Validate parse_uri (Some b) = (Inr (), Some c)"
  shows "list_all (bare_origin parse_uri) (CORSAllowedOrigins (cfg_Server c))"
proof -
  from Validate_ok [OF assms] have "validateCORSOrigins parse_uri (CORSAllowedOrigins (cfg_Server b)) = Inr ()"
    and c: "c = b\<lparr>cfg_Server := (cfg_Server b)\<lparr>Environment := TrimSpace (Environment (cfg_Server b))\<rparr>,
           cfg_Auth := (cfg_Auth b)\<lparr>Mode := TrimSpace (Mode (cfg_Auth b))\<rparr>\<rparr>" by blast+
  from validateCORSOrigins_ok [OF this(1)] c show ?thesis by simp
qed

text \<open>The static credentials come from the environment, whatever the file says.\<close>

lemma overrides_static:
  "StaticUsername (cfg_Auth (applyEnvOverrides env c)) = Getenv env ''CLIPROXY_STATIC_USER_USERNAME''"
  "StaticPassword (cfg_Auth (applyEnvOverrides env c)) = Getenv env ''CLIPROXY_STATIC_USER_PASSWORD''"
  "StaticRole (cfg_Auth (applyEnvOverrides env c)) = Getenv env ''CLIPROXY_STATIC_USER_ROLE''"
  by (simp_all add: applyEnvOverrides_def)

lemma run_config_ok:
  assumes "run_config S = Inr (c, p)"
  obtains b where "Validate (su_parse_uri S) (Some (applyEnvOverrides (su_env S) b)) = (Inr (), Some c)"
    "identityProviderFromConfig (su_sha S) (su_url_Parse S) (su_network S) (su_env S) (Some c) = Inr p"
proof -
  from assms obtain b cc where v: "Validate (su_parse_uri S) (Some (applyEnvOverrides (su_env S) b)) = (Inr (), cc)"
    and i: "identityProviderFromConfig (su_sha S) (su_url_Parse S) (su_network S) (su_env S) cc = Inr p" and c: "c = the cc"
    by (auto simp: run_config_def Let_def Load_def FromEnvironment_def
        split: sum.splits prod.splits if_splits file_read.splits)
  from Validate_ok [OF v] obtain c' where "cc = Some c'" by blast
  with v i c show thesis by (intro that) auto
qed

text \<open>
  C31. The program never starts with the static identity in production. Whatever the configuration file, the
  environment of the process and the YAML decoder: if the start-up gets past the identity provider, then
  either the provider is the static one, the environment is development or test, and its user name,
  password and role are those of the environment variables; or it is the LDAP one, its URL has the
  scheme ldaps, and its bind password is that of the environment. Every allowed CORS origin is a bare http or
  https origin.
\<close>

theorem startup_identity_locked_down:
  assumes "run_config S = Inr (c, p)"
  shows "(case p of
      Static_provider sp \<Rightarrow>
        (Environment (cfg_Server c) = EnvironmentDevelopment \<or> Environment (cfg_Server c) = EnvironmentTest) \<and>
        sp_username sp = TrimSpace (Getenv (su_env S) ''CLIPROXY_STATIC_USER_USERNAME'') \<and>
        sp_passwordDigest sp = su_sha S (Getenv (su_env S) ''CLIPROXY_STATIC_USER_PASSWORD'') \<and>
        sp_role sp = Getenv (su_env S) ''CLIPROXY_STATIC_USER_ROLE'' \<and> (sp_role sp = RoleUser \<or> sp_role sp = RoleAdmin)
    | Ldap_provider lp \<Rightarrow>
        lc_BindPassword (lp_config lp) = Getenv (su_env S) ''LDAP_BIND_PASSWORD'' \<and> lc_BindPassword (lp_config lp) \<noteq> [] \<and>
        (\<exists>u. su_url_Parse S (lc_URL (lp_config lp)) = Some u \<and> url_Scheme u = ''ldaps'' \<and> url_Host u \<noteq> [])) \<and>
    list_all (bare_origin (su_parse_uri S)) (CORSAllowedOrigins (cfg_Server c))"
proof -
  from run_config_ok [OF assms] obtain b where v: "Validate (su_parse_uri S) (Some (applyEnvOverrides (su_env S) b)) = (Inr (), Some c)"
    and i: "identityProviderFromConfig (su_sha S) (su_url_Parse S) (su_network S) (su_env S) (Some c) = Inr p" .
  let ?b = "applyEnvOverrides (su_env S) b"
  from Validate_ok [OF v] have
    c: "c = ?b\<lparr>cfg_Server := (cfg_Server ?b)\<lparr>Environment := TrimSpace (Environment (cfg_Server ?b))\<rparr>,
           cfg_Auth := (cfg_Auth ?b)\<lparr>Mode := TrimSpace (Mode (cfg_Auth ?b))\<rparr>\<rparr>"
    and en: "Environment (cfg_Server c) = EnvironmentDevelopment \<or> Environment (cfg_Server c) = EnvironmentTest \<or>
      (Environment (cfg_Server c) = EnvironmentProduction \<and> Mode (cfg_Auth c) = AuthModeLDAP)"
    by blast+
  note cors = Validate_origins [OF v]
  from c have st: "StaticUsername (cfg_Auth c) = Getenv (su_env S) ''CLIPROXY_STATIC_USER_USERNAME''"
      "StaticPassword (cfg_Auth c) = Getenv (su_env S) ''CLIPROXY_STATIC_USER_PASSWORD''"
      "StaticRole (cfg_Auth c) = Getenv (su_env S) ''CLIPROXY_STATIC_USER_ROLE''"
    by (simp_all add: overrides_static)
  show ?thesis
  proof (cases p)
    case (Static_provider sp)
    with i en have "Environment (cfg_Server c) = EnvironmentDevelopment \<or> Environment (cfg_Server c) = EnvironmentTest"
      "NewStaticProvider (su_sha S) (StaticUsername (cfg_Auth c)) (StaticPassword (cfg_Auth c)) (StaticRole (cfg_Auth c)) = Inr sp"
      by (auto simp: identityProviderFromConfig_def config_consts map_sum_def split: if_splits sum.splits)
    with Static_provider st cors show ?thesis
      by (auto simp: NewStaticProvider_def Let_def split: if_splits)
  next
    case (Ldap_provider lp)
    with i cors show ?thesis
      by (auto simp: identityProviderFromConfig_def ldap_NewProvider_def validateConfig_def map_sum_def
          split: if_splits sum.splits option.splits)
  qed
qed

text \<open>A start-up from the environment alone: no file, the static user \<open>dev\<close> in development.\<close>

definition env_startup :: "string \<Rightarrow> startup" where
  "env_startup role =
     \<lparr>su_yaml = (\<lambda>_ c. Inr c), su_ReadFile = (\<lambda>_. Not_exist),
      su_env = map_of [(''CLIPROXY_SERVER_ENVIRONMENT'', ''development''), (''CLIPROXY_AUTH_MODE'', ''static''),
        (''CLIPROXY_STATIC_USER_USERNAME'', ''dev''), (''CLIPROXY_STATIC_USER_PASSWORD'', ''pw''), (''CLIPROXY_STATIC_USER_ROLE'', role)],
      su_parse_uri = (\<lambda>_. None), su_url_Parse = (\<lambda>_. None),
      su_network = \<lparr>dir_dial = (\<lambda>_. None), dir_bind = (\<lambda>_ _. None), dir_search = (\<lambda>_ _. Inr None), dir_escape = id, dir_ctx_err = None\<rparr>,
      su_sha = id\<rparr>"

theorem startup_identity_locked_down_witness:
  "\<exists>c sp. run_config (env_startup ''admin'') = Inr (c, Static_provider sp) \<and> sp_username sp = ''dev'' \<and>
     sp_passwordDigest sp = ''pw'' \<and> Environment (cfg_Server c) \<noteq> EnvironmentProduction"
proof -
  have "(case run_config (env_startup ''admin'') of Inr (c, Static_provider sp) \<Rightarrow> True | _ \<Rightarrow> False)" by code_simp
  then obtain c sp where r: "run_config (env_startup ''admin'') = Inr (c, Static_provider sp)"
    by (cases "run_config (env_startup ''admin'')") (auto split: identity_provider.splits elim: identity_provider.exhaust)
  have e: "TrimSpace (Getenv (su_env (env_startup ''admin'')) ''CLIPROXY_STATIC_USER_USERNAME'') = ''dev''"
    "su_sha (env_startup ''admin'') (Getenv (su_env (env_startup ''admin'')) ''CLIPROXY_STATIC_USER_PASSWORD'') = ''pw''"
    by code_simp+
  from startup_identity_locked_down [OF r] r e show ?thesis by (auto simp: config_consts)
qed

text \<open>
  \<open>Validate\<close> trims the role before it compares it, \<open>NewStaticProvider\<close> does not: a role with a space
  passes the validation and stops the start-up all the same.
\<close>

lemma padded_role_passes_validation_only:
  "fst (Validate (\<lambda>_. None) (Some (FromEnvironment (su_env (env_startup '' admin''))))) = Inr () \<and>
   (case run_config (env_startup '' admin'') of Inl e \<Rightarrow> errors_Is e ErrInvalidConfiguration | Inr _ \<Rightarrow> False)"
  by code_simp

end
