(* ===== verification/Http_Edge.thy ===== *)
theory Http_Edge
  imports Configuration
begin

text \<open>
  The middleware in front of all routes and the probes: \<^verbatim>\<open>internal/httpapi/request_id.go\<close>, \<^verbatim>\<open>cors.go\<close> and
  \<^verbatim>\<open>system.go\<close>. A handler here takes the request, the request ID of the context (empty when there is none),
  the response headers set so far and a state, and gives status, headers and state; \<^verbatim>\<open>c.Next()\<close> is the
  call of the rest of the chain, and a return without it is \<^verbatim>\<open>c.Abort()\<close>. Header names are canonical. The state
  is the world, or the world with what the observing middleware records.
\<close>

type_synonym headers = "(string \<times> string) list"

type_synonym 's edge_handler = "Request \<Rightarrow> string \<Rightarrow> headers \<Rightarrow> 's \<Rightarrow> int \<times> headers \<times> 's"

definition Header_Set :: "string \<Rightarrow> string \<Rightarrow> headers \<Rightarrow> headers" where
  "Header_Set k v h = (k, v) # filter (\<lambda>(k', _). k' \<noteq> k) h"

lemma map_of_Header_Set [simp]: "map_of (Header_Set k v h) k' = (if k' = k then Some v else map_of h k')"
  by (induction h) (auto simp: Header_Set_def)

section \<open>Request IDs\<close>

definition RequestIDHeader :: string where "RequestIDHeader = ''X-Request-Id''"
definition maxRequestIDLen :: nat where "maxRequestIDLen = 128"

text \<open>The loop over runes accepts ASCII only, so that it accepts the bytes it accepts one by one.\<close>

definition request_id_char :: "char \<Rightarrow> bool" where
  "request_id_char c =
     (let n = byte_of c
      in (97 \<le> n \<and> n \<le> 122) \<or> (65 \<le> n \<and> n \<le> 90) \<or> (48 \<le> n \<and> n \<le> 57) \<or> c = CHR ''-'' \<or> c = CHR ''_'' \<or> c = CHR ''.'')"

definition validRequestID :: "string \<Rightarrow> bool" where
  "validRequestID i = (i \<noteq> [] \<and> length i \<le> maxRequestIDLen \<and> list_all request_id_char i)"

definition newRequestID :: "world \<Rightarrow> string result \<times> world" where
  "newRequestID w =
     (case rand_Read 16 w of
        (None, w1) \<Rightarrow> (Inl (ErrMsg ''rand''), w1)
      | (Some bytes, w1) \<Rightarrow> (Inr (RawURLEncode bytes), w1))"

text \<open>\<open>new\<close> is \<open>newRequestID\<close> on the state at hand.\<close>

definition RequestIDMiddleware :: "('s \<Rightarrow> string result \<times> 's) \<Rightarrow> 's edge_handler \<Rightarrow> 's edge_handler" where
  "RequestIDMiddleware new next rq ctx h w =
     (let sent = TrimSpace (Values_Get (rq_Header rq) RequestIDHeader)
      in if validRequestID sent then next rq sent (Header_Set RequestIDHeader sent h) w
         else (case new w of
                 (Inl _, w1) \<Rightarrow> (500, h, w1)
               | (Inr i, w1) \<Rightarrow> next rq i (Header_Set RequestIDHeader i h) w1))"

section \<open>CORS\<close>

definition managementAPIPath :: string where "managementAPIPath = ''/api/v1''"

definition isManagementPath :: "string \<Rightarrow> bool" where
  "isManagementPath path = (path = managementAPIPath \<or> HasPrefix path (managementAPIPath @ ''/''))"

definition preflight :: "Request \<Rightarrow> bool" where
  "preflight rq = (rq_Method rq = ''OPTIONS'' \<and> Values_Get (rq_Header rq) ''Access-Control-Request-Method'' \<noteq> [])"

definition NewCORSMiddleware :: "string list \<Rightarrow> 's edge_handler \<Rightarrow> 's edge_handler" where
  "NewCORSMiddleware allowedOrigins next rq ctx h w =
     (let origin = Values_Get (rq_Header rq) ''Origin''
      in if \<not> isManagementPath (rq_Path rq) then next rq ctx h w
         else if origin = [] then next rq ctx h w
         else if origin \<notin> set allowedOrigins then (if preflight rq then (403, h, w) else next rq ctx h w)
         else (let h1 = Header_Set ''Vary'' ''Origin'' (Header_Set ''Access-Control-Expose-Headers'' ''X-Request-ID''
                          (Header_Set ''Access-Control-Allow-Credentials'' ''true'' (Header_Set ''Access-Control-Allow-Origin'' origin h)))
               in if preflight rq
                  then (204, Header_Set ''Access-Control-Allow-Headers'' ''Content-Type, X-Request-ID''
                               (Header_Set ''Access-Control-Allow-Methods'' ''GET, POST, PUT, PATCH, DELETE, OPTIONS'' h1), w)
                  else next rq ctx h1 w))"

section \<open>Probes\<close>

definition healthz :: "'s edge_handler" where
  "healthz rq ctx h w = (200, h, w)"

text \<open>\<^verbatim>\<open>Ping\<close> is a round trip to the database; a timeout of three seconds is one of its failures.\<close>

definition readyz :: "bool \<Rightarrow> world edge_handler" where
  "readyz pinger rq ctx h w =
     (if \<not> pinger then (503, h, w)
      else (case round_trip w of (Inl _, w1) \<Rightarrow> (503, h, w1) | (Inr _, w1) \<Rightarrow> (200, h, w1)))"

text \<open>The order in which \<^verbatim>\<open>main\<close> installs them; without tracing, logging and metrics in between.\<close>

definition edge_stack :: "Config \<Rightarrow> world edge_handler \<Rightarrow> world edge_handler" where
  "edge_stack c next = RequestIDMiddleware newRequestID (NewCORSMiddleware (CORSAllowedOrigins (cfg_Server c)) next)"

section \<open>What reaches the browser\<close>

lemma alphabet_url_chars: "list_all request_id_char alphabet_url"
  by code_simp

lemma length_alphabet_url: "length alphabet_url = 64"
  by code_simp

lemma RawURLEncode_chars: "list_all request_id_char (RawURLEncode s)"
proof -
  have "\<forall>y \<in> set (sextets (map byte_of s)). y < 64" by (rule sextets_lt) (auto simp: byte_of_lt)
  then have "set (RawURLEncode s) \<subseteq> set alphabet_url"
    by (auto simp: RawURLEncode_def length_alphabet_url intro!: nth_mem)
  with alphabet_url_chars show ?thesis by (auto simp: list_all_iff)
qed

lemma newRequestID_valid: "newRequestID w = (Inr i, w') \<Longrightarrow> validRequestID i"
proof -
  assume "newRequestID w = (Inr i, w')"
  then obtain b w1 where b: "rand_Read 16 w = (Some b, w1)" "i = RawURLEncode b"
    by (auto simp: newRequestID_def split: prod.splits option.splits)
  then have "length i = 22" using rand_Read_length [OF b(1)] by (simp add: length_RawURLEncode)
  with b(2) RawURLEncode_chars [of b] show ?thesis by (auto simp: validRequestID_def maxRequestIDLen_def)
qed

text \<open>What the routes promise the middleware: they leave its headers alone.\<close>

definition keeps_header :: "string \<Rightarrow> 's edge_handler \<Rightarrow> bool" where
  "keeps_header k next = (\<forall>rq ctx h w. map_of (fst (snd (next rq ctx h w))) k = map_of h k)"

lemma cors_origin:
  assumes "keeps_header ''Access-Control-Allow-Origin'' next" and "map_of h ''Access-Control-Allow-Origin'' = None"
    and "map_of (fst (snd (NewCORSMiddleware allowed next rq ctx h w))) ''Access-Control-Allow-Origin'' = Some v"
  shows "v \<in> set allowed" and "v = Values_Get (rq_Header rq) ''Origin''" and "isManagementPath (rq_Path rq)"
  using assms
  by (auto simp: NewCORSMiddleware_def keeps_header_def Let_def split: if_splits)

lemma cors_keeps_request_id:
  assumes "keeps_header RequestIDHeader next"
  shows "keeps_header RequestIDHeader (NewCORSMiddleware allowed next)"
  using assms by (simp add: keeps_header_def NewCORSMiddleware_def Let_def RequestIDHeader_def)


text \<open>A browser at a configured origin.\<close>

definition cors_startup :: startup where
  "cors_startup = (env_startup ''admin'')
     \<lparr>su_env := (\<lambda>k. if k = ''CLIPROXY_CORS_ALLOWED_ORIGINS'' then Some ''https://ui , '' else su_env (env_startup ''admin'') k),
      su_parse_uri := (\<lambda>s. if s = ''https://ui''
        then Some \<lparr>ru_Scheme = ''https'', ru_Host = ''ui'', ru_User = False, ru_Path = [], ru_RawQuery = [], ru_Fragment = []\<rparr> else None)\<rparr>"

definition browser_request :: Request where
  "browser_request = \<lparr>rq_Method = ''GET'', rq_Path = ''/api/v1/me'', rq_Header = [(''Origin'', ''https://ui''), (''X-Request-Id'', '' abc-1'')],
     rq_URL = Some [], rq_Cookies = [], rq_RemoteAddr = [], rq_Body = []\<rparr>"


end
