(* ===== verification/Keyring.thy ===== *)
theory Keyring
  imports Database Base64
begin

text \<open>
  \<^verbatim>\<open>internal/security/keyring.go\<close>: the versioned master keys that encrypt upstream credentials.

  AES-256-GCM is the parameter \<open>aead\<close>: \<open>seal key nonce plaintext aad\<close> and \<open>open_gcm key nonce
  ciphertext aad\<close> of \<^verbatim>\<open>cipher.AEAD\<close>, with nonce size 12 and overhead 16. What the theorems assume of it
  is \<open>gcm_contract\<close>: opening what was sealed gives the plaintext back, sealing adds the overhead, and
  a ciphertext that opens is the sealing of its plaintext (the tag is recomputed and compared).
  JSON decoding of the previous keys is the parameter \<open>unmarshal\<close> (a map as its list of entries in the
  order the loop visits them).
\<close>

section \<open>Data\<close>

definition AES256KeySize :: nat where "AES256KeySize = 32"
definition NonceSize :: nat where "NonceSize = 12"
definition Overhead :: nat where "Overhead = 16"

record aead =
  seal :: "string \<Rightarrow> string \<Rightarrow> string \<Rightarrow> string \<Rightarrow> string"
  open_gcm :: "string \<Rightarrow> string \<Rightarrow> string \<Rightarrow> string \<Rightarrow> string option"

record EncryptedValue =
  KeyVersion :: int
  Ciphertext :: string

record Keyring =
  activeVersion :: int
  keys :: "(int \<times> string) list"

section \<open>Operations\<close>

text \<open>
  The loop of \<^verbatim>\<open>NewKeyring\<close> copies the keys; a copy of an immutable value is the value.
\<close>

definition NewKeyring :: "int \<Rightarrow> (int \<times> string) list \<Rightarrow> Keyring result" where
  "NewKeyring active ks =
     (if active \<le> 0 then Inl (Wrapf ''active version'' ErrInvalidKey)
      else if map_of ks active = None then Inl (Wrapf ''active version'' ErrUnknownKeyVersion)
      else if list_ex (\<lambda>(version, key). version \<le> 0 \<or> length key \<noteq> AES256KeySize) ks
      then Inl (Wrapf ''key size'' ErrInvalidKey)
      else Inr \<lparr>activeVersion = active, keys = ks\<rparr>)"

definition ParseBase64Key :: "string \<Rightarrow> string result" where
  "ParseBase64Key encoded =
     (case StdDecodeString (TrimSpace encoded) of
        None \<Rightarrow> Inl (Wrapf ''base64'' ErrInvalidKey)
      | Some key \<Rightarrow> if length key \<noteq> AES256KeySize then Inl (Wrapf ''key size'' ErrInvalidKey) else Inr key)"

fun addPreviousKeys :: "(string \<times> string) list \<Rightarrow> (int \<times> string) list \<Rightarrow> (int \<times> string) list result" where
  "addPreviousKeys [] ks = Inr ks"
| "addPreviousKeys ((rawVersion, encoded) # rest) ks =
     (case ParseInt64 (TrimSpace rawVersion) of
        None \<Rightarrow> Inl (Wrapf ''previous version'' ErrInvalidKey)
      | Some version \<Rightarrow>
          (if version \<le> 0 \<or> version > max_int32 then Inl (Wrapf ''previous version'' ErrInvalidKey)
           else if map_of ks version \<noteq> None then Inl (Wrapf ''duplicate version'' ErrInvalidKey)
           else (case ParseBase64Key encoded of
                   Inl e \<Rightarrow> Inl (Wrapf ''previous key version'' e)
                 | Inr key \<Rightarrow> addPreviousKeys rest (ks @ [(version, key)]))))"

definition NewKeyringFromBase64 ::
  "(string \<Rightarrow> (string \<times> string) list option) \<Rightarrow> int \<Rightarrow> string \<Rightarrow> string \<Rightarrow> Keyring result" where
  "NewKeyringFromBase64 unmarshal active activeEncoded previousJSON0 =
     (if active \<le> 0 \<or> active > max_int32 then Inl (Wrapf ''active version'' ErrInvalidKey)
      else (case ParseBase64Key activeEncoded of
              Inl e \<Rightarrow> Inl e
            | Inr activeKey \<Rightarrow>
                (let ks = [(active, activeKey)]; previousJSON = TrimSpace previousJSON0
                 in if previousJSON = [] then NewKeyring active ks
                    else (case unmarshal previousJSON of
                            None \<Rightarrow> Inl (Wrapf ''previous keys JSON'' ErrInvalidKey)
                          | Some encodedKeys \<Rightarrow>
                              (case addPreviousKeys encodedKeys ks of
                                 Inl e \<Rightarrow> Inl e
                               | Inr all \<Rightarrow> NewKeyring active all)))))"

text \<open>\<^verbatim>\<open>binary.BigEndian.PutUint64\<close> of \<^verbatim>\<open>uint64(version)\<close>.\<close>

fun be_bytes :: "nat \<Rightarrow> nat \<Rightarrow> string" where
  "be_bytes 0 n = []"
| "be_bytes (Suc k) n = be_bytes k (n div 256) @ [char_of (n mod 256)]"

definition keyVersionAAD :: "int \<Rightarrow> string" where
  "keyVersionAAD version = be_bytes 8 (nat (version mod 2 ^ 64))"

text \<open>
  \<^verbatim>\<open>aes.NewCipher\<close> fails exactly for a key that is not 16, 24 or 32 bytes long; \<^verbatim>\<open>cipher.NewGCM\<close> does not
  fail on an AES block cipher.
\<close>

definition gcm_key :: "Keyring \<Rightarrow> int \<Rightarrow> string result" where
  "gcm_key k version =
     (case map_of (keys k) version of
        None \<Rightarrow> Inl (Wrapf ''key version'' ErrUnknownKeyVersion)
      | Some key \<Rightarrow>
          (if length key = 16 \<or> length key = 24 \<or> length key = 32 then Inr key
           else Inl (ErrMsg ''create AES cipher'')))"

definition Encrypt :: "aead \<Rightarrow> Keyring \<Rightarrow> string \<Rightarrow> world \<Rightarrow> EncryptedValue result \<times> world" where
  "Encrypt G k plaintext w =
     (case gcm_key k (activeVersion k) of
        Inl e \<Rightarrow> (Inl e, w)
      | Inr key \<Rightarrow>
          (case rand_Read NonceSize w of
             (None, w1) \<Rightarrow> (Inl (ErrMsg ''create nonce''), w1)
           | (Some nonce, w1) \<Rightarrow>
               (Inr \<lparr>KeyVersion = activeVersion k,
                     Ciphertext = nonce @ seal G key nonce plaintext (keyVersionAAD (activeVersion k))\<rparr>, w1)))"

definition Decrypt :: "aead \<Rightarrow> Keyring \<Rightarrow> EncryptedValue \<Rightarrow> string result" where
  "Decrypt G k v =
     (case gcm_key k (KeyVersion v) of
        Inl e \<Rightarrow> Inl e
      | Inr key \<Rightarrow>
          (if length (Ciphertext v) < NonceSize + Overhead then Inl ErrInvalidCiphertext
           else (case open_gcm G key (take NonceSize (Ciphertext v)) (drop NonceSize (Ciphertext v)) (keyVersionAAD (KeyVersion v)) of
                   None \<Rightarrow> Inl (Wrapf ''open'' ErrInvalidCiphertext)
                 | Some plaintext \<Rightarrow> Inr plaintext)))"

section \<open>Invariant\<close>

definition wf_keyring :: "Keyring \<Rightarrow> bool" where
  "wf_keyring k =
     (0 < activeVersion k \<and> map_of (keys k) (activeVersion k) \<noteq> None \<and>
      (\<forall>(v, key) \<in> set (keys k). 0 < v \<and> length key = AES256KeySize))"

lemma NewKeyring_wf: "NewKeyring a ks = Inr k \<Longrightarrow> wf_keyring k \<and> activeVersion k = a \<and> keys k = ks"
  by (fastforce simp: NewKeyring_def wf_keyring_def list_ex_iff split: if_splits)

lemma wf_keyring_key: "wf_keyring k \<Longrightarrow> map_of (keys k) v = Some key \<Longrightarrow> gcm_key k v = Inr key"
  by (auto simp: wf_keyring_def gcm_key_def AES256KeySize_def dest!: map_of_SomeD)

lemma addPreviousKeys_ok:
  assumes "addPreviousKeys ps ks = Inr all" and "distinct (map fst ks)"
    and "\<forall>(v, key) \<in> set ks. 0 < v \<and> v \<le> max_int32 \<and> length key = AES256KeySize"
  shows "distinct (map fst all) \<and> (\<forall>(v, key) \<in> set all. 0 < v \<and> v \<le> max_int32 \<and> length key = AES256KeySize) \<and>
    (\<forall>v key. map_of ks v = Some key \<longrightarrow> map_of all v = Some key) \<and> length all = length ks + length ps"
  using assms
proof (induction ps ks arbitrary: all rule: addPreviousKeys.induct)
  case (2 raw encoded rest ks)
  from 2(2) obtain version key where v: "ParseInt64 (TrimSpace raw) = Some version" "0 < version" "version \<le> max_int32"
    "map_of ks version = None" "ParseBase64Key encoded = Inr key" "addPreviousKeys rest (ks @ [(version, key)]) = Inr all"
    by (auto split: option.splits if_splits sum.splits)
  have len: "length key = AES256KeySize" using v(5) by (auto simp: ParseBase64Key_def split: option.splits if_splits)
  have "version \<notin> fst ` set ks" using v(4) by (simp add: map_of_eq_None_iff)
  then have "distinct (map fst (ks @ [(version, key)]))" using 2(3) by auto
  with 2(1) [OF v(1) _ _ v(5,6)] v 2(4) len
  have r: "distinct (map fst all)" "\<forall>(v, key) \<in> set all. 0 < v \<and> v \<le> max_int32 \<and> length key = AES256KeySize"
    "\<forall>v' k'. map_of (ks @ [(version, key)]) v' = Some k' \<longrightarrow> map_of all v' = Some k'"
    "length all = length (ks @ [(version, key)]) + length rest" by auto
  then show ?case by (auto simp: map_add_def)
qed auto

lemma be_bytes_inj: "n < 256 ^ k \<Longrightarrow> m < 256 ^ k \<Longrightarrow> be_bytes k n = be_bytes k m \<Longrightarrow> n = m"
proof (induction k arbitrary: n m)
  case (Suc k)
  from Suc.prems(3) have "be_bytes k (n div 256) = be_bytes k (m div 256)" and
    c: "(char_of (n mod 256) :: char) = char_of (m mod 256)" by auto
  moreover have "n div 256 < 256 ^ k" "m div 256 < 256 ^ k" using Suc.prems by (simp_all add: less_mult_imp_div_less mult.commute)
  ultimately have "n div 256 = m div 256" using Suc.IH by blast
  moreover have "(of_char (char_of (n mod 256) :: char) :: nat) = of_char (char_of (m mod 256) :: char)" using c by simp
  then have "n mod 256 = m mod 256" by simp
  ultimately show ?case by (rule div_mod_eqI)
qed simp

lemma keyVersionAAD_inj:
  assumes "0 \<le> a" "a < 2 ^ 64" "0 \<le> b" "b < 2 ^ 64" "keyVersionAAD a = keyVersionAAD b"
  shows "a = b"
proof -
  have "nat a = nat b"
    using assms be_bytes_inj [of "nat a" 8 "nat b"] by (simp add: keyVersionAAD_def nat_less_iff)
  with assms show ?thesis by simp
qed


section \<open>Theorems\<close>

definition gcm_contract :: "aead \<Rightarrow> bool" where
  "gcm_contract G =
     ((\<forall>key nonce pt aad. open_gcm G key nonce (seal G key nonce pt aad) aad = Some pt) \<and>
      (\<forall>key nonce pt aad. length (seal G key nonce pt aad) = length pt + Overhead) \<and>
      (\<forall>key nonce ct aad pt. open_gcm G key nonce ct aad = Some pt \<longrightarrow> ct = seal G key nonce pt aad))"

lemma Encrypt_ok:
  assumes "Encrypt G k pt w = (Inr v, w')"
  obtains key nonce where "gcm_key k (activeVersion k) = Inr key" "rand_Read NonceSize w = (Some nonce, w')"
    "v = \<lparr>KeyVersion = activeVersion k, Ciphertext = nonce @ seal G key nonce pt (keyVersionAAD (activeVersion k))\<rparr>"
  using assms by (auto simp: Encrypt_def split: sum.splits option.splits prod.splits)

lemma keyring_roundtrip:
  assumes "gcm_contract G" and "wf_keyring k" and "Encrypt G k pt w = (Inr v, w')"
  shows "\<forall>k'. wf_keyring k' \<and> map_of (keys k') (activeVersion k) = map_of (keys k) (activeVersion k) \<longrightarrow> Decrypt G k' v = Inr pt"
proof -
  from Encrypt_ok [OF assms(3)] obtain key nonce where e: "gcm_key k (activeVersion k) = Inr key"
    "rand_Read NonceSize w = (Some nonce, w')"
    "v = \<lparr>KeyVersion = activeVersion k, Ciphertext = nonce @ seal G key nonce pt (keyVersionAAD (activeVersion k))\<rparr>" .
  have len: "length nonce = NonceSize" using rand_Read_length [OF e(2)] .
  have key: "map_of (keys k) (activeVersion k) = Some key" using e(1) by (auto simp: gcm_key_def split: option.splits if_splits)
  show ?thesis
    using key len assms(1) wf_keyring_key [of _ "activeVersion k" key] by (simp add: Decrypt_def e(3) gcm_contract_def)
qed

text \<open>
  C25. Rotation never loses credentials. What a keyring encrypts can be decrypted by every later keyring
  that still holds the key of that version, whichever version is active by then; the value records the
  version that was active and starts with the 12 random bytes of the nonce. A keyring without that
  version refuses with \<open>ErrUnknownKeyVersion\<close>.
\<close>

theorem keyring_rotation_roundtrip:
  assumes "gcm_contract G" and "wf_keyring k" and "Encrypt G k pt w = (Inr v, w')"
  shows "KeyVersion v = activeVersion k \<and> rand_Read NonceSize w = (Some (take NonceSize (Ciphertext v)), w') \<and>
    (\<forall>k'. wf_keyring k' \<and> map_of (keys k') (activeVersion k) = map_of (keys k) (activeVersion k) \<longrightarrow> Decrypt G k' v = Inr pt) \<and>
    (\<forall>k'. map_of (keys k') (activeVersion k) = None \<longrightarrow> (\<exists>e. Decrypt G k' v = Inl e \<and> errors_Is e ErrUnknownKeyVersion))"
proof -
  from Encrypt_ok [OF assms(3)] obtain key nonce where e: "gcm_key k (activeVersion k) = Inr key"
    "rand_Read NonceSize w = (Some nonce, w')"
    "v = \<lparr>KeyVersion = activeVersion k, Ciphertext = nonce @ seal G key nonce pt (keyVersionAAD (activeVersion k))\<rparr>" .
  have len: "length nonce = NonceSize" using rand_Read_length [OF e(2)] .
  have "\<exists>e. Decrypt G k' v = Inl e \<and> errors_Is e ErrUnknownKeyVersion" if "map_of (keys k') (activeVersion k) = None" for k'
    using that by (simp add: Decrypt_def gcm_key_def e(3))
  then show ?thesis using keyring_roundtrip [OF assms] e len by simp
qed

definition toy_tag :: "string \<Rightarrow> string \<Rightarrow> string" where
  "toy_tag key aad = take 16 (aad @ key @ replicate 16 (CHR ''0''))"

definition toy_aead :: aead where
  "toy_aead =
     \<lparr>seal = (\<lambda>key nonce pt aad. pt @ toy_tag key aad),
      open_gcm = (\<lambda>key nonce ct aad. if 16 \<le> length ct \<and> drop (length ct - 16) ct = toy_tag key aad
                                     then Some (take (length ct - 16) ct) else None)\<rparr>"

lemma toy_aead_contract: "gcm_contract toy_aead"
proof -
  have len: "length (toy_tag key aad) = 16" for key aad by (simp add: toy_tag_def)
  have "ct = take (length ct - 16) ct @ toy_tag key aad" if "drop (length ct - 16) ct = toy_tag key aad" for ct key aad
    using append_take_drop_id [of "length ct - 16" ct] unfolding that by simp
  with len show ?thesis
    unfolding gcm_contract_def toy_aead_def Overhead_def by (simp split: if_splits)
qed

definition old_ring :: Keyring where
  "old_ring = \<lparr>activeVersion = 1, keys = [(1, replicate 32 (CHR ''a''))]\<rparr>"

definition rotated_ring :: Keyring where
  "rotated_ring = \<lparr>activeVersion = 2, keys = [(2, replicate 32 (CHR ''b'')), (1, replicate 32 (CHR ''a''))]\<rparr>"

lemma rings_wf: "wf_keyring old_ring" "wf_keyring rotated_ring"
  by (simp_all add: wf_keyring_def old_ring_def rotated_ring_def AES256KeySize_def)

theorem keyring_rotation_roundtrip_witness:
  "\<exists>v w'. Encrypt toy_aead old_ring ''secret'' ((start_world empty_db 0)\<lparr>w_random := [''n'']\<rparr>) = (Inr v, w') \<and>
     Decrypt toy_aead rotated_ring v = Inr ''secret''"
proof -
  obtain v w' where e: "Encrypt toy_aead old_ring ''secret'' ((start_world empty_db 0)\<lparr>w_random := [''n'']\<rparr>) = (Inr v, w')"
    by (simp add: Encrypt_def gcm_key_def old_ring_def rand_Read_def start_world_def)
  have "map_of (keys rotated_ring) (activeVersion old_ring) = map_of (keys old_ring) (activeVersion old_ring)"
    by (simp add: old_ring_def rotated_ring_def)
  with keyring_rotation_roundtrip [OF toy_aead_contract rings_wf(1) e] rings_wf(2) e show ?thesis by blast
qed

text \<open>
  C26. A value that decrypts is genuine: it was produced by sealing exactly the returned plaintext under
  the key of the recorded version, with the nonce it starts with and with that version as additional
  data. In particular, a value whose version column was changed in the database decrypts only if it is
  also a sealing under the other version's key and associated data, and these data differ for
  different versions.
\<close>

theorem decrypt_only_sealed:
  assumes "gcm_contract G" and "Decrypt G k v = Inr pt"
  shows "\<exists>key. map_of (keys k) (KeyVersion v) = Some key \<and> NonceSize + Overhead \<le> length (Ciphertext v) \<and>
     Ciphertext v = take NonceSize (Ciphertext v) @ seal G key (take NonceSize (Ciphertext v)) pt (keyVersionAAD (KeyVersion v)) \<and>
     (\<forall>a b. 0 \<le> a \<and> a < 2 ^ 64 \<and> 0 \<le> b \<and> b < 2 ^ 64 \<and> keyVersionAAD a = keyVersionAAD b \<longrightarrow> a = b)"
proof -
  from assms(2) obtain key where key: "gcm_key k (KeyVersion v) = Inr key" "NonceSize + Overhead \<le> length (Ciphertext v)"
    "open_gcm G key (take NonceSize (Ciphertext v)) (drop NonceSize (Ciphertext v)) (keyVersionAAD (KeyVersion v)) = Some pt"
    by (auto simp: Decrypt_def split: sum.splits if_splits option.splits)
  then have "drop NonceSize (Ciphertext v) = seal G key (take NonceSize (Ciphertext v)) pt (keyVersionAAD (KeyVersion v))"
    using assms(1) by (auto simp: gcm_contract_def)
  moreover have "map_of (keys k) (KeyVersion v) = Some key"
    using key(1) by (auto simp: gcm_key_def split: option.splits if_splits)
  ultimately show ?thesis using key(2) keyVersionAAD_inj by (metis append_take_drop_id)
qed

theorem decrypt_only_sealed_witness:
  "\<exists>v key. Decrypt toy_aead old_ring v = Inr ''x'' \<and> map_of (keys old_ring) (KeyVersion v) = Some key"
proof -
  let ?v = "\<lparr>KeyVersion = 1, Ciphertext = replicate 12 (CHR ''n'') @ ''x'' @ toy_tag (replicate 32 (CHR ''a'')) (keyVersionAAD 1)\<rparr>"
  have "length (toy_tag key aad) = 16" for key aad by (simp add: toy_tag_def)
  then have d: "Decrypt toy_aead old_ring ?v = Inr ''x''"
    by (simp add: Decrypt_def gcm_key_def old_ring_def toy_aead_def NonceSize_def Overhead_def)
  from decrypt_only_sealed [OF toy_aead_contract d] d show ?thesis by blast
qed

text \<open>
  A keyring built from the configuration is well formed: the active version is the configured one
  and its key is the decoded one, no version occurs twice, every version fits a PostgreSQL integer and
  every key has 32 bytes, so that every later \<open>Encrypt\<close> and \<open>Decrypt\<close> finds a usable AES key.
\<close>

theorem configured_keyring_wf:
  assumes "NewKeyringFromBase64 unmarshal active enc prev = Inr k"
  shows "wf_keyring k \<and> activeVersion k = active \<and> active \<le> max_int32 \<and> distinct (map fst (keys k)) \<and>
    (\<exists>key. ParseBase64Key enc = Inr key \<and> gcm_key k active = Inr key) \<and>
    (\<forall>(v, key) \<in> set (keys k). 0 < v \<and> v \<le> max_int32 \<and> length key = AES256KeySize)"
proof -
  from assms obtain key where a: "0 < active" "active \<le> max_int32" "ParseBase64Key enc = Inr key"
    by (auto simp: NewKeyringFromBase64_def split: if_splits sum.splits)
  have len: "length key = AES256KeySize" using a(3) by (auto simp: ParseBase64Key_def split: option.splits if_splits)
  let ?one = "[(active, key)]"
  obtain all where all: "NewKeyring active all = Inr k" "distinct (map fst all)"
    "\<forall>(v, key) \<in> set all. 0 < v \<and> v \<le> max_int32 \<and> length key = AES256KeySize" "map_of all active = Some key"
  proof (cases "TrimSpace prev = []")
    case True
    with assms a len show thesis by (intro that [of ?one]) (auto simp: NewKeyringFromBase64_def Let_def)
  next
    case False
    with assms a obtain ps all where "addPreviousKeys ps ?one = Inr all" "NewKeyring active all = Inr k"
      by (auto simp: NewKeyringFromBase64_def Let_def split: option.splits sum.splits)
    with addPreviousKeys_ok [of ps ?one all] a len show thesis by (intro that [of all]) auto
  qed
  from NewKeyring_wf [OF all(1)] have wf: "wf_keyring k" "activeVersion k = active" "keys k = all" by auto
  with wf_keyring_key [of k active key] all a show ?thesis by auto
qed

definition sample_key_b64 :: string where
  "sample_key_b64 = ''YWFhYWFhYWFhYWFhYWFhYWFhYWFhYWFhYWFhYWFhYWE=''"

lemma sample_sextets:
  "sextet_of CHR ''Y'' = Some 24" "sextet_of CHR ''W'' = Some 22" "sextet_of CHR ''F'' = Some 5" "sextet_of CHR ''h'' = Some 33"
  "sextet_of CHR ''E'' = Some 4"
  by code_simp+

lemma sample_group:
  "decode_groups (CHR ''Y'' # CHR ''W'' # CHR ''F'' # CHR ''h'' # rest) = map_option (\<lambda>bs. 97 # 97 # 97 # bs) (decode_groups rest)"
  by (simp add: sample_sextets split: option.split)

lemma sample_tail: "decode_groups [CHR ''Y'', CHR ''W'', CHR ''E'', CHR ''=''] = Some [97, 97]"
  by (simp add: sample_sextets)

lemma sample_key_bytes: "StdDecodeString sample_key_b64 = Some (replicate 32 (CHR ''a''))"
proof -
  have "filter (\<lambda>c. c \<noteq> CHR 0x0A \<and> c \<noteq> CHR 0x0D) sample_key_b64 = sample_key_b64" by code_simp
  moreover have "decode_groups sample_key_b64 = Some (replicate 32 97)"
    unfolding sample_key_b64_def sample_group sample_tail by code_simp
  ultimately show ?thesis unfolding StdDecodeString_def by simp code_simp
qed

lemma sample_trim: "TrimSpace sample_key_b64 = sample_key_b64"
  by code_simp

theorem configured_keyring_wf_witness:
  "\<exists>k. NewKeyringFromBase64 (\<lambda>_. Some [(''1'', sample_key_b64)]) 2 sample_key_b64 ''{}'' = Inr k \<and> wf_keyring k"
proof -
  have "NewKeyringFromBase64 (\<lambda>_. Some [(''1'', sample_key_b64)]) 2 sample_key_b64 ''{}'' =
      Inr \<lparr>activeVersion = 2, keys = [(2, replicate 32 (CHR ''a'')), (1, replicate 32 (CHR ''a''))]\<rparr>"
    unfolding NewKeyringFromBase64_def addPreviousKeys.simps ParseBase64Key_def sample_trim sample_key_bytes by code_simp
  from configured_keyring_wf [OF this] this show ?thesis by blast
qed

end
