(* ===== verification/Hidden_State.thy ===== *)
theory Hidden_State
  imports Prelude
begin

text \<open>
  The scan of \<^verbatim>\<open>internal/store/coreauth_store.go\<close> for state of a token storage that its JSON would lose
  (\<open>tokenStorageHasHiddenState\<close>). Values are those of \<^verbatim>\<open>reflect\<close>: references carry an address, and the heap maps the
  type and the address of a reference to what it refers to: the value of a pointer, the values of a map, or the
  elements of an array from that address on, of which a slice sees a prefix. The heap is a finite list, and
  values may be shared and cyclic.
\<close>

section \<open>Values\<close>

type_synonym gtype = string
type_synonym addr = int

datatype gvalue =
    GInvalid
  | GScalar gtype bool
  | GIface "gvalue option"
  | GStruct gtype "(bool \<times> gvalue) list"
  | GArray gtype "gvalue list"
  | GRef gtype "(addr \<times> nat) option"

text \<open>
  What the scan asks about types: which reference types are maps, and which types or pointers to them implement
  \<^verbatim>\<open>json.Marshaler\<close> or \<^verbatim>\<open>encoding.TextMarshaler\<close>. The flag of a scalar says whether it is the zero value, the flag
  of a field whether JSON ignores it: it is not exported, or its tag is a dash.
\<close>

record type_info =
  ti_maps :: "gtype list"
  ti_marshals :: "gtype list"
  ti_pointer_marshals :: "gtype list"

type_synonym gheap = "((gtype \<times> addr) \<times> gvalue list) list"

fun IsZero :: "gvalue \<Rightarrow> bool" where
  "IsZero GInvalid = True"
| "IsZero (GScalar _ z) = z"
| "IsZero (GIface x) = (x = None)"
| "IsZero (GStruct _ fs) = list_all (\<lambda>f. IsZero (snd f)) fs"
| "IsZero (GArray _ vs) = list_all IsZero vs"
| "IsZero (GRef _ r) = (r = None)"

fun value_type :: "gvalue \<Rightarrow> gtype option" where
  "value_type (GScalar t _) = Some t"
| "value_type (GStruct t _) = Some t"
| "value_type (GArray t _) = Some t"
| "value_type (GRef t _) = Some t"
| "value_type _ = None"

text \<open>\<open>addressable\<close> is \<^verbatim>\<open>CanAddr\<close>; the scan only reaches values for which \<^verbatim>\<open>CanInterface\<close> holds.\<close>

definition valueSupportsJSON :: "type_info \<Rightarrow> bool \<Rightarrow> gvalue \<Rightarrow> bool" where
  "valueSupportsJSON T addressable v =
     (case value_type v of None \<Rightarrow> False | Some t \<Rightarrow> t \<in> set (ti_marshals T) \<or> (addressable \<and> t \<in> set (ti_pointer_marshals T)))"

definition ref_elements :: "gheap \<Rightarrow> gtype \<Rightarrow> addr \<times> nat \<Rightarrow> gvalue list" where
  "ref_elements h t r = (case map_of h (t, fst r) of None \<Rightarrow> [] | Some vs \<Rightarrow> take (snd r) vs)"

definition elements_addressable :: "type_info \<Rightarrow> gtype \<Rightarrow> bool" where
  "elements_addressable T t = (t \<notin> set (ti_maps T))"

text \<open>Go has no dangling references; one that is not in the heap has no elements.\<close>

definition in_heap :: "gheap \<Rightarrow> gtype \<times> addr \<Rightarrow> bool" where
  "in_heap h k = (k \<in> set (map fst h))"

section \<open>The scan\<close>

type_synonym visits = "(gtype \<times> addr) list"

text \<open>The unvisited references of the heap and the size of what is left to scan bound the depth of the scan.\<close>

definition fields_size :: "(bool \<times> gvalue) list \<Rightarrow> nat" where
  "fields_size fs = sum_list (map (\<lambda>f. Suc (size (snd f))) fs)"

definition unvisited :: "gheap \<Rightarrow> visits \<Rightarrow> nat" where
  "unvisited h vis = card (set (map fst h) - set vis)"

lemma unvisited_antimono: "set vis \<subseteq> set vis' \<Longrightarrow> unvisited h vis' \<le> unvisited h vis"
  unfolding unvisited_def by (intro card_mono) auto

lemma unvisited_visit: "in_heap h k \<Longrightarrow> k \<notin> set vis \<Longrightarrow> unvisited h (k # vis) < unvisited h vis"
  unfolding unvisited_def in_heap_def by (intro psubset_card_mono) auto

lemma fields_size_struct: "fields_size fs < size (GStruct t fs)"
  by (induction fs) (auto simp: fields_size_def)

lemma fields_size_array: "fields_size (map (Pair False) vs) < size (GArray t vs)"
  by (induction vs) (auto simp: fields_size_def)

lemma fields_size_Cons: "size v < fields_size ((b, v) # fs)" "fields_size fs < fields_size ((b, v) # fs)"
  by (simp_all add: fields_size_def)

definition scan_order where
  "scan_order = inv_image (less_than <*lex*> less_than)
     (\<lambda>x. case x of Inl (T :: type_info, h, ad :: bool, v, vis) \<Rightarrow> (unvisited h vis, size v)
        | Inr (T :: type_info, h, ad :: bool, fs, vis) \<Rightarrow> (unvisited h vis, fields_size fs))"

function jsonValueHasHiddenState :: "type_info \<Rightarrow> gheap \<Rightarrow> bool \<Rightarrow> gvalue \<Rightarrow> visits \<Rightarrow> bool \<times> visits"
  and scan_fields :: "type_info \<Rightarrow> gheap \<Rightarrow> bool \<Rightarrow> (bool \<times> gvalue) list \<Rightarrow> visits \<Rightarrow> bool \<times> visits" where
  "jsonValueHasHiddenState T h ad GInvalid vis = (False, vis)"
| "jsonValueHasHiddenState T h ad (GIface x) vis =
     (case x of None \<Rightarrow> (False, vis) | Some v \<Rightarrow> jsonValueHasHiddenState T h False v vis)"
| "jsonValueHasHiddenState T h ad (GScalar t z) vis = (False, vis)"
| "jsonValueHasHiddenState T h ad (GStruct t fs) vis =
     (if valueSupportsJSON T ad (GStruct t fs) then (False, vis) else scan_fields T h ad fs vis)"
| "jsonValueHasHiddenState T h ad (GArray t vs) vis =
     (if valueSupportsJSON T ad (GArray t vs) then (False, vis) else scan_fields T h ad (map (Pair False) vs) vis)"
| "jsonValueHasHiddenState T h ad (GRef t r) vis =
     (if valueSupportsJSON T ad (GRef t r) then (False, vis)
      else (case r of
              None \<Rightarrow> (False, vis)
            | Some p \<Rightarrow>
                (if (t, fst p) \<in> set vis \<or> \<not> in_heap h (t, fst p) then (False, vis)
                 else scan_fields T h (elements_addressable T t) (map (Pair False) (ref_elements h t p)) ((t, fst p) # vis))))"
| "scan_fields T h ad [] vis = (False, vis)"
| "scan_fields T h ad ((ignored, v) # fs) vis =
     (if ignored then (if \<not> IsZero v then (True, vis) else scan_fields T h ad fs vis)
      else (case jsonValueHasHiddenState T h ad v vis of
              (True, vis1) \<Rightarrow> (True, vis1)
            | (False, vis1) \<Rightarrow> scan_fields T h ad fs vis1))"
  by pat_completeness auto
termination
proof -
  have remembers:
    "jsonValueHasHiddenState_scan_fields_dom (Inl (T, h, ad, v, vis)) \<Longrightarrow> set vis \<subseteq> set (snd (jsonValueHasHiddenState T h ad v vis))"
    "jsonValueHasHiddenState_scan_fields_dom (Inr (T, h, ad, fs, vis)) \<Longrightarrow> set vis \<subseteq> set (snd (scan_fields T h ad fs vis))"
    for T h ad v fs vis
  proof (induction T h ad v vis and T h ad fs vis rule: jsonValueHasHiddenState_scan_fields.pinduct)
    case (6 T h ad t r vis)
    show ?case
    proof (cases r)
      case None
      with 6(1) show ?thesis by (simp add: jsonValueHasHiddenState.psimps)
    next
      case (Some p)
      with 6 show ?thesis by (cases "valueSupportsJSON T ad (GRef t r)"; cases "(t, fst p) \<in> set vis \<or> \<not> in_heap h (t, fst p)")
        (simp_all add: jsonValueHasHiddenState.psimps)
    qed
  next
    case (8 T h ad ignored v fs vis)
    then show ?case
      by (cases "jsonValueHasHiddenState T h ad v vis") (auto simp: jsonValueHasHiddenState.psimps scan_fields.psimps split: bool.splits)
  qed (auto simp: jsonValueHasHiddenState.psimps scan_fields.psimps split: option.split)
  have fewer: "unvisited h vis1 \<le> unvisited h vis"
    if "jsonValueHasHiddenState_scan_fields_dom (Inl (T, h, ad, v, vis))" and "(b, vis1) = jsonValueHasHiddenState T h ad v vis"
    for T h ad v vis b vis1
    using remembers(1) [OF that(1)] unfolding that(2) [symmetric] by (intro unvisited_antimono) simp
  show ?thesis
    by (relation scan_order)
      (auto simp: scan_order_def unvisited_visit fields_size_struct [simplified] fields_size_array [simplified] fields_size_Cons
        dest: fewer)
qed

definition tokenStorageHasHiddenState :: "type_info \<Rightarrow> gheap \<Rightarrow> gvalue \<Rightarrow> bool" where
  "tokenStorageHasHiddenState T h storage = fst (jsonValueHasHiddenState T h False storage [])"

section \<open>What JSON sees and what it hides\<close>

text \<open>The values that the encoding of a value contains, with their addressability.\<close>

fun json_children :: "type_info \<Rightarrow> gheap \<Rightarrow> bool \<times> gvalue \<Rightarrow> (bool \<times> gvalue) list" where
  "json_children T h (ad, GIface (Some v)) = [(False, v)]"
| "json_children T h (ad, GStruct t fs) =
     (if valueSupportsJSON T ad (GStruct t fs) then [] else map (\<lambda>f. (ad, snd f)) (filter (\<lambda>f. \<not> fst f) fs))"
| "json_children T h (ad, GArray t vs) = (if valueSupportsJSON T ad (GArray t vs) then [] else map (Pair ad) vs)"
| "json_children T h (ad, GRef t (Some p)) =
     (if valueSupportsJSON T ad (GRef t (Some p)) then [] else map (Pair (elements_addressable T t)) (ref_elements h t p))"
| "json_children T h _ = []"

definition json_reaches :: "type_info \<Rightarrow> gheap \<Rightarrow> bool \<times> gvalue \<Rightarrow> bool \<times> gvalue \<Rightarrow> bool" where
  "json_reaches T h = (\<lambda>x y. y \<in> set (json_children T h x))\<^sup>*\<^sup>*"

text \<open>A struct that does not encode itself and has a non-zero field that JSON ignores.\<close>

fun hides :: "type_info \<Rightarrow> bool \<times> gvalue \<Rightarrow> bool" where
  "hides T (ad, GStruct t fs) = (\<not> valueSupportsJSON T ad (GStruct t fs) \<and> list_ex (\<lambda>f. fst f \<and> \<not> IsZero (snd f)) fs)"
| "hides T _ = False"

lemma json_reaches_refl [simp]: "json_reaches T h x x"
  by (simp add: json_reaches_def)

lemma json_reaches_child: "y \<in> set (json_children T h x) \<Longrightarrow> json_reaches T h y z \<Longrightarrow> json_reaches T h x z"
  unfolding json_reaches_def by (rule converse_rtranclp_into_rtranclp)

definition hidden_in :: "type_info \<Rightarrow> gheap \<Rightarrow> bool \<times> gvalue \<Rightarrow> bool" where
  "hidden_in T h x = (\<exists>y. json_reaches T h x y \<and> hides T y)"

lemma hidden_child: "hidden_in T h y \<Longrightarrow> y \<in> set (json_children T h x) \<Longrightarrow> hidden_in T h x"
  by (auto simp: hidden_in_def intro: json_reaches_child)

lemma hidden_here: "hides T x \<Longrightarrow> hidden_in T h x"
  unfolding hidden_in_def by (intro exI [of _ x]) simp

lemma scan_sound:
  "fst (jsonValueHasHiddenState T h ad v vis) \<Longrightarrow> hidden_in T h (ad, v)"
  "fst (scan_fields T h ad fs vis) \<Longrightarrow> (\<exists>f \<in> set fs. fst f \<and> \<not> IsZero (snd f)) \<or> (\<exists>f \<in> set fs. \<not> fst f \<and> hidden_in T h (ad, snd f))"
proof (induction T h ad v vis and T h ad fs vis rule: jsonValueHasHiddenState_scan_fields.induct)
  case (2 T h ad x vis)
  then show ?case by (auto split: option.splits elim: hidden_child)
next
  case (4 T h ad t fs vis)
  then have ns: "\<not> valueSupportsJSON T ad (GStruct t fs)" by (auto split: if_splits)
  with 4 consider f where "f \<in> set fs" "fst f" "\<not> IsZero (snd f)" | f where "f \<in> set fs" "\<not> fst f" "hidden_in T h (ad, snd f)" by auto
  then show ?case
  proof cases
    case 1
    with ns show ?thesis by (intro hidden_here) (auto simp: list_ex_iff)
  next
    case 2
    have "(ad, snd f) \<in> set (json_children T h (ad, GStruct t fs))" using 2 ns by (auto intro: image_eqI)
    with 2(3) show ?thesis by (rule hidden_child)
  qed
next
  case (5 T h ad t vs vis)
  then have ns: "\<not> valueSupportsJSON T ad (GArray t vs)" by (auto split: if_splits)
  with 5 obtain v where "v \<in> set vs" "hidden_in T h (ad, v)" by auto
  with ns show ?case by - (rule hidden_child [of T h "(ad, v)"], simp_all)
next
  case (6 T h ad t r vis)
  then have ns: "\<not> valueSupportsJSON T ad (GRef t r)" by (auto split: if_splits)
  with 6(2) obtain p where r: "r = Some p" and new: "\<not> ((t, fst p) \<in> set vis \<or> \<not> in_heap h (t, fst p))"
    by (cases r) (auto split: if_splits)
  with 6(2) ns have "fst (scan_fields T h (elements_addressable T t) (map (Pair False) (ref_elements h t p)) ((t, fst p) # vis))" by simp
  from 6(1) [OF ns r new this] obtain v where "v \<in> set (ref_elements h t p)" "hidden_in T h (elements_addressable T t, v)" by auto
  with r ns show ?case by - (rule hidden_child [of T h "(elements_addressable T t, v)"], simp_all)
next
  case (8 T h ad ignored v fs vis)
  then show ?case
    by (cases "jsonValueHasHiddenState T h ad v vis") (auto split: bool.splits if_splits)
qed auto

text \<open>What a finished scan has checked: everything down to the references that it visited.\<close>

fun covered :: "type_info \<Rightarrow> gheap \<Rightarrow> visits \<Rightarrow> bool \<Rightarrow> gvalue \<Rightarrow> bool" where
  "covered T h V ad (GIface x) = (case x of None \<Rightarrow> True | Some v \<Rightarrow> covered T h V False v)"
| "covered T h V ad (GStruct t fs) =
     (valueSupportsJSON T ad (GStruct t fs) \<or> (\<forall>f \<in> set fs. if fst f then IsZero (snd f) else covered T h V ad (snd f)))"
| "covered T h V ad (GArray t vs) = (valueSupportsJSON T ad (GArray t vs) \<or> (\<forall>v \<in> set vs. covered T h V ad v))"
| "covered T h V ad (GRef t r) =
     (valueSupportsJSON T ad (GRef t r) \<or> (case r of None \<Rightarrow> True | Some p \<Rightarrow> (t, fst p) \<in> set V \<or> \<not> in_heap h (t, fst p)))"
| "covered T h V ad _ = True"

definition closed_visit :: "type_info \<Rightarrow> gheap \<Rightarrow> visits \<Rightarrow> gtype \<times> addr \<Rightarrow> bool" where
  "closed_visit T h V k =
     (\<forall>e \<in> set (case map_of h k of None \<Rightarrow> [] | Some vs \<Rightarrow> vs). covered T h V (elements_addressable T (fst k)) e)"

lemma covered_mono: "covered T h V ad v \<Longrightarrow> set V \<subseteq> set W \<Longrightarrow> covered T h W ad v"
proof (induction T h V ad v rule: covered.induct)
  case (2 T h V ad t fs)
  then show ?case by (auto split: if_splits)
qed (auto simp: image_iff split: option.splits)

lemma closed_visit_mono: "closed_visit T h V k \<Longrightarrow> set V \<subseteq> set W \<Longrightarrow> closed_visit T h W k"
  by (auto simp: closed_visit_def intro: covered_mono)

lemma scan_keeps_visits:
  "set vis \<subseteq> set (snd (jsonValueHasHiddenState T h ad v vis))" "set vis \<subseteq> set (snd (scan_fields T h ad fs vis))"
proof (induction T h ad v vis and T h ad fs vis rule: jsonValueHasHiddenState_scan_fields.induct)
  case (8 T h ad ignored v fs vis)
  then show ?case by (cases "jsonValueHasHiddenState T h ad v vis") (auto split: bool.splits)
next
  case (6 T h ad t r vis)
  show ?case
  proof (cases r)
    case None
    then show ?thesis by simp
  next
    case (Some p)
    with 6 show ?thesis by (cases "valueSupportsJSON T ad (GRef t r)"; cases "(t, fst p) \<in> set vis \<or> \<not> in_heap h (t, fst p)") simp_all
  qed
qed (auto split: option.splits)

text \<open>No slice is shorter than another one on the same array.\<close>

definition whole :: "gheap \<Rightarrow> bool \<times> gvalue \<Rightarrow> bool" where
  "whole h x = (case snd x of GRef t (Some p) \<Rightarrow> (case map_of h (t, fst p) of None \<Rightarrow> True | Some vs \<Rightarrow> length vs \<le> snd p) | _ \<Rightarrow> True)"

lemma whole_elements: "whole h (ad, GRef t (Some p)) \<Longrightarrow> ref_elements h t p = (case map_of h (t, fst p) of None \<Rightarrow> [] | Some vs \<Rightarrow> vs)"
  by (auto simp: whole_def ref_elements_def split: option.splits)

text \<open>A scan that found nothing covered what it scanned and closed what it visited.\<close>

definition scanned :: "type_info \<Rightarrow> gheap \<Rightarrow> visits \<Rightarrow> visits \<Rightarrow> bool" where
  "scanned T h vis vis' = (set vis \<subseteq> set vis' \<and> (\<forall>k \<in> set vis' - set vis. closed_visit T h vis' k))"

lemma scanned_refl [simp]: "scanned T h vis vis"
  by (simp add: scanned_def)

lemma scanned_trans: "scanned T h vis vis1 \<Longrightarrow> scanned T h vis1 vis2 \<Longrightarrow> scanned T h vis vis2"
  unfolding scanned_def by (blast intro: closed_visit_mono)

lemma scan_complete:
  "(\<And>x. json_reaches T h (ad, v) x \<Longrightarrow> whole h x) \<Longrightarrow> jsonValueHasHiddenState T h ad v vis = (False, vis') \<Longrightarrow>
     scanned T h vis vis' \<and> covered T h vis' ad v"
  "(\<And>f x. f \<in> set fs \<Longrightarrow> \<not> fst f \<Longrightarrow> json_reaches T h (ad, snd f) x \<Longrightarrow> whole h x) \<Longrightarrow> scan_fields T h ad fs vis = (False, vis') \<Longrightarrow>
     scanned T h vis vis' \<and> (\<forall>f \<in> set fs. if fst f then IsZero (snd f) else covered T h vis' ad (snd f))"
proof (induction T h ad v vis and T h ad fs vis arbitrary: vis' and vis' rule: jsonValueHasHiddenState_scan_fields.induct)
  case (2 T h ad x vis)
  show ?case
  proof (cases x)
    case None
    with 2(3) show ?thesis by simp
  next
    case (Some v)
    have w: "whole h y" if "json_reaches T h (False, v) y" for y
      using that Some by (intro 2(2) json_reaches_child [of "(False, v)" T h "(ad, GIface x)" y]) simp_all
    have "scanned T h vis vis' \<and> covered T h vis' False v" by (rule 2(1) [OF Some w]) (use 2(3) Some in simp_all)
    with Some show ?thesis by simp
  qed
next
  case (4 T h ad t fs vis)
  show ?case
  proof (cases "valueSupportsJSON T ad (GStruct t fs)")
    case True
    with 4(3) show ?thesis by simp
  next
    case False
    have w: "whole h y" if "f \<in> set fs" "\<not> fst f" "json_reaches T h (ad, snd f) y" for f y
      using that False by (intro 4(2) json_reaches_child [of "(ad, snd f)" T h "(ad, GStruct t fs)" y]) (auto intro: image_eqI)
    have "scanned T h vis vis' \<and> (\<forall>f \<in> set fs. if fst f then IsZero (snd f) else covered T h vis' ad (snd f))"
      by (rule 4(1) [OF False w]) (use 4(3) False in simp_all)
    then show ?thesis by simp
  qed
next
  case (5 T h ad t vs vis)
  show ?case
  proof (cases "valueSupportsJSON T ad (GArray t vs)")
    case True
    with 5(3) show ?thesis by simp
  next
    case False
    have w: "whole h y" if "f \<in> set (map (Pair False) vs)" "\<not> fst f" "json_reaches T h (ad, snd f) y" for f y
      using that False by (intro 5(2) json_reaches_child [of "(ad, snd f)" T h "(ad, GArray t vs)" y]) auto
    have "scanned T h vis vis' \<and> (\<forall>f \<in> set (map (Pair False) vs). if fst f then IsZero (snd f) else covered T h vis' ad (snd f))"
      by (rule 5(1) [OF False w]) (use 5(3) False in simp_all)
    then show ?thesis by simp
  qed
next
  case (6 T h ad t r vis)
  show ?case
  proof (cases "valueSupportsJSON T ad (GRef t r) \<or> r = None")
    case True
    with 6(3) show ?thesis by (auto split: if_splits)
  next
    case False
    then obtain p where ns: "\<not> valueSupportsJSON T ad (GRef t r)" and r: "r = Some p" by auto
    let ?k = "(t, fst p)"
    show ?thesis
    proof (cases "?k \<in> set vis \<or> \<not> in_heap h ?k")
      case True
      with 6(3) ns r show ?thesis by auto
    next
      case new: False
      have el: "ref_elements h t p = (case map_of h ?k of None \<Rightarrow> [] | Some vs \<Rightarrow> vs)"
        using 6(2) [of "(ad, GRef t r)"] r by (intro whole_elements [of h ad]) simp
      have w: "whole h y" if "f \<in> set (map (Pair False) (ref_elements h t p))" "\<not> fst f"
        "json_reaches T h (elements_addressable T t, snd f) y" for f y
        using that ns r by (intro 6(2) json_reaches_child [of "(elements_addressable T t, snd f)" T h "(ad, GRef t r)" y]) auto
      have "scanned T h (?k # vis) vis' \<and> (\<forall>f \<in> set (map (Pair False) (ref_elements h t p)).
          if fst f then IsZero (snd f) else covered T h vis' (elements_addressable T t) (snd f))"
        by (rule 6(1) [OF ns r new w]) (use 6(3) ns r new in simp_all)
      then have s: "scanned T h (?k # vis) vis'" "\<forall>e \<in> set (ref_elements h t p). covered T h vis' (elements_addressable T t) e"
        by simp_all
      then have "closed_visit T h vis' ?k" by (simp add: closed_visit_def el)
      with s(1) r show ?thesis by (auto simp: scanned_def)
    qed
  qed
next
  case (8 T h ad ignored v fs vis)
  have rest: "whole h y" if "f \<in> set fs" "\<not> fst f" "json_reaches T h (ad, snd f) y" for f y
    using that by (intro 8(4)) simp_all
  show ?case
  proof (cases ignored)
    case True
    with 8(5) have z: "IsZero v" "scan_fields T h ad fs vis = (False, vis')" by (auto split: if_splits)
    have "scanned T h vis vis' \<and> (\<forall>f \<in> set fs. if fst f then IsZero (snd f) else covered T h vis' ad (snd f))"
      by (rule 8(1) [OF True _ rest]) (use z in simp_all)
    with z True show ?thesis by simp
  next
    case False
    obtain b vis1 where v: "jsonValueHasHiddenState T h ad v vis = (b, vis1)" by fastforce
    with False 8(5) have b: "b = False" and f: "scan_fields T h ad fs vis1 = (False, vis')" by (auto split: bool.splits)
    have w: "whole h y" if "json_reaches T h (ad, v) y" for y using 8(4) [of "(ignored, v)" y] False that by simp
    have one: "scanned T h vis vis1 \<and> covered T h vis1 ad v" by (rule 8(2) [OF False w]) (use v b in simp_all)
    have two: "scanned T h vis1 vis' \<and> (\<forall>f \<in> set fs. if fst f then IsZero (snd f) else covered T h vis' ad (snd f))"
      by (rule 8(3) [OF False v [symmetric] _ rest]) (use b f in simp_all)
    from one two have "scanned T h vis vis'" by (blast intro: scanned_trans)
    moreover from one two have "covered T h vis' ad v" by (auto simp: scanned_def intro: covered_mono)
    ultimately show ?thesis using two False by simp
  qed
qed auto

lemma covered_child:
  assumes "covered T h V ad v" and "(ad', v') \<in> set (json_children T h (ad, v))" and closed: "\<And>k. k \<in> set V \<Longrightarrow> closed_visit T h V k"
  shows "covered T h V ad' v'"
proof (cases v)
  case (GIface x)
  with assms(1,2) show ?thesis by (cases x) auto
next
  case (GStruct t fs)
  with assms(1,2) show ?thesis by (auto split: if_splits)
next
  case (GArray t vs)
  with assms(1,2) show ?thesis by (auto split: if_splits)
next
  case (GRef t r)
  with assms(2) obtain p where r: "r = Some p" and e: "ad' = elements_addressable T t" "v' \<in> set (ref_elements h t p)"
    and ns: "\<not> valueSupportsJSON T ad (GRef t r)" by (cases r) (auto split: if_splits)
  from e(2) obtain vs where vs: "map_of h (t, fst p) = Some vs" "v' \<in> set vs"
    by (cases "map_of h (t, fst p)") (auto simp: ref_elements_def dest: in_set_takeD)
  then have "in_heap h (t, fst p)" by (force simp: in_heap_def dest: map_of_SomeD)
  with assms(1) GRef r ns have "(t, fst p) \<in> set V" by simp
  from closed [OF this] vs e(1) show ?thesis by (simp add: closed_visit_def)
qed (use assms(2) in auto)

lemma covered_not_hides: "covered T h V ad v \<Longrightarrow> \<not> hides T (ad, v)"
  by (cases v) (auto simp: list_ex_iff)


text \<open>A storage with a cycle and a secret behind it.\<close>

definition plain_types :: type_info where
  "plain_types = \<lparr>ti_maps = [], ti_marshals = [], ti_pointer_marshals = []\<rparr>"

definition cyclic_heap :: gheap where
  "cyclic_heap = [((''*T'', 1), [GStruct ''T'' [(False, GRef ''*T'' (Some (1, 1))), (False, GRef ''*T'' (Some (2, 1)))]]),
     ((''*T'', 2), [GStruct ''T'' [(True, GScalar ''string'' False)]])]"


text \<open>
  The condition on slices is needed: the scan remembers a slice by its first element only, so that a longer slice that
  begins at the same element as a shorter one scanned before is taken for visited, and what it hides is missed.
\<close>

lemma longer_slice_is_missed:
  "\<not> tokenStorageHasHiddenState plain_types
      [((''[]T'', 1), [GStruct ''T'' [], GStruct ''T'' [(True, GScalar ''string'' False)]])]
      (GStruct ''S'' [(False, GRef ''[]T'' (Some (1, 1))), (False, GRef ''[]T'' (Some (1, 2)))])"
  "tokenStorageHasHiddenState plain_types
      [((''[]T'', 1), [GStruct ''T'' [], GStruct ''T'' [(True, GScalar ''string'' False)]])]
      (GStruct ''S'' [(False, GRef ''[]T'' (Some (1, 2))), (False, GRef ''[]T'' (Some (1, 1)))])"
  by code_simp+

end
