(* ===== verification/Core_Auth_Store.thy ===== *)
theory Core_Auth_Store
  imports Users_Theorems Keyring Hidden_State
begin

text \<open>
  \<^verbatim>\<open>internal/store/coreauth_store.go\<close>, \<^verbatim>\<open>runtime_revisions.go\<close>, \<^verbatim>\<open>admin_audit_context.go\<close> and their queries: the
  encrypted store of upstream credentials behind the SDK interface \<^verbatim>\<open>coreauth.Store\<close>, and the revision
  counter that tells the other replicas to reload.

  The SDK is the parameter record \<open>sdk\<close>: the JSON codec of \<^verbatim>\<open>coreauth.Auth\<close> and of metadata, the kind of
  an account, and four string constants. Of \<^verbatim>\<open>coreauth.Auth\<close> the record \<open>Auth\<close> has the fields the program
  reads or writes; \<open>Clone\<close> of an immutable value is the value. A token storage is the record \<open>storage\<close>:
  what \<open>RawJSON\<close> returns if the type has that method, the value that the reflective scan of \<open>Hidden_State\<close>
  sees, and its JSON encoding.
\<close>

section \<open>Data\<close>

datatype json =
    JNull | JBool bool | JNumber string | JString string | JArray "json list" | JObject "(string \<times> json) list"

record storage =
  st_RawJSON :: "string option"
  st_types :: type_info
  st_heap :: gheap
  st_value :: gvalue
  st_json :: "string option"

record QuotaState =
  qs_Exceeded :: bool
  qs_Reason :: string
  qs_NextRecoverAt :: instant
  qs_BackoffLevel :: int

record Auth =
  au_ID :: string
  au_Provider :: string
  au_Label :: string
  au_ProxyURL :: string
  au_Attributes :: "(string \<times> string) list option"
  au_Metadata :: "(string \<times> json) list option"
  au_Storage :: "storage option"
  au_Disabled :: bool
  au_Unavailable :: bool
  au_Status :: string
  au_LastRefreshedAt :: instant
  au_NextRefreshAfter :: instant
  au_Quota :: QuotaState

datatype auth_kind = AuthKindOAuth | AuthKindAPIKey | AuthKindOther

record sdk =
  sdk_marshal :: "Auth \<Rightarrow> string option"
  sdk_unmarshal :: "string \<Rightarrow> Auth option"
  sdk_kind :: "Auth \<Rightarrow> auth_kind"
  sdk_decode_metadata :: "string \<Rightarrow> (string \<times> json) list option option"
  sdk_marshal_strings :: "(string \<times> string) list \<Rightarrow> string option"
  AttributeSourceBackend :: string
  AuthSourcePostgres :: string
  StatusDisabled :: string
  StatusError :: string

definition UpstreamAccountsRevision :: string where "UpstreamAccountsRevision = ''upstream_accounts''"

text \<open>Go maps as association lists with distinct keys.\<close>

definition map_put :: "string \<Rightarrow> 'v \<Rightarrow> (string \<times> 'v) list \<Rightarrow> (string \<times> 'v) list" where
  "map_put k v m = (k, v) # filter (\<lambda>(k', _). k' \<noteq> k) m"

lemma map_of_map_put [simp]: "map_of (map_put k v m) k' = (if k' = k then Some v else map_of m k')"
  by (induction m) (auto simp: map_put_def)

definition map_or_nil :: "(string \<times> 'v) list option \<Rightarrow> (string \<times> 'v) list" where
  "map_or_nil m = (case m of None \<Rightarrow> [] | Some xs \<Rightarrow> xs)"

section \<open>Queries\<close>

record UpsertUpstreamAccountParams =
  uu_ID :: string
  uu_Provider :: string
  uu_Email :: string
  uu_AuthType :: string
  uu_Label :: "string option"
  uu_CredentialsEnc :: string
  uu_EncKeyVersion :: int
  uu_Attributes :: "string option"
  uu_Status :: string
  uu_LastRefreshedAt :: "instant option"
  uu_NextRefreshAfter :: "instant option"

definition account_row :: "UpsertUpstreamAccountParams \<Rightarrow> instant \<Rightarrow> upstream_account_row" where
  "account_row p created =
     \<lparr>ua_id = uu_ID p, ua_provider = uu_Provider p, ua_email = uu_Email p, ua_auth_type = uu_AuthType p,
      ua_label = uu_Label p, ua_credentials_enc = uu_CredentialsEnc p, ua_enc_key_version = uu_EncKeyVersion p,
      ua_attributes = uu_Attributes p, ua_status = uu_Status p, ua_last_refreshed_at = uu_LastRefreshedAt p,
      ua_next_refresh_after = uu_NextRefreshAfter p, ua_created_at = created\<rparr>"

definition UpsertUpstreamAccount :: "UpsertUpstreamAccountParams \<Rightarrow> string query" where
  "UpsertUpstreamAccount p w d =
     (if \<not> (uu_AuthType p = ''oauth'' \<or> uu_AuthType p = ''api-key'') \<or> uu_EncKeyVersion p \<le> 0 \<or>
         \<not> (uu_Status p = ''active'' \<or> uu_Status p = ''disabled'' \<or> uu_Status p = ''unavailable'')
      then (Inl (ErrPg ''check_violation''), d)
      else if list_ex (\<lambda>a. ua_provider a = uu_Provider p \<and> ua_email a = uu_Email p \<and> ua_id a \<noteq> uu_ID p) (upstream_accounts d)
      then (Inl (ErrPg ''unique_violation''), d)
      else (case find (\<lambda>a. ua_id a = uu_ID p) (upstream_accounts d) of
              Some a \<Rightarrow>
                (Inr (uu_ID p), d\<lparr>upstream_accounts := update_where (\<lambda>r. ua_id r = uu_ID p)
                   (\<lambda>_. account_row p (ua_created_at a)) (upstream_accounts d)\<rparr>)
            | None \<Rightarrow>
                (Inr (uu_ID p), d\<lparr>upstream_accounts := upstream_accounts d @ [account_row p (w_clock w)]\<rparr>)))"

text \<open>Deleting an account sets the references to it in sessions and usage events to NULL.\<close>

definition DeleteUpstreamAccount :: "string \<Rightarrow> unit query" where
  "DeleteUpstreamAccount i w d =
     (Inr (), d\<lparr>upstream_accounts := delete_where (\<lambda>a. ua_id a = i) (upstream_accounts d),
        oauth_sessions := update_where (\<lambda>s. os_auth_id s = Some i) (\<lambda>s. s\<lparr>os_auth_id := None\<rparr>) (oauth_sessions d),
        usage_events := update_where (\<lambda>e. ue_upstream_account_id e = Some i)
          (\<lambda>e. e\<lparr>ue_upstream_account_id := None\<rparr>) (usage_events d)\<rparr>)"

definition ListUpstreamAccounts :: "upstream_account_row list query" where
  "ListUpstreamAccounts w d = (Inr (sort_key ua_id (upstream_accounts d)), d)"

definition GetRuntimeRevision :: "string \<Rightarrow> int query" where
  "GetRuntimeRevision name w d =
     (case find (\<lambda>r. rr_name r = name) (runtime_revisions d) of
        None \<Rightarrow> (Inl ErrNoRows, d)
      | Some r \<Rightarrow> (Inr (rr_revision r), d))"

definition IncrementRuntimeRevision :: "string \<Rightarrow> int query" where
  "IncrementRuntimeRevision name w d =
     (case find (\<lambda>r. rr_name r = name) (runtime_revisions d) of
        None \<Rightarrow> (Inl ErrNoRows, d)
      | Some r \<Rightarrow>
          (Inr (rr_revision r + 1),
           d\<lparr>runtime_revisions := update_where (\<lambda>r. rr_name r = name)
               (\<lambda>r. r\<lparr>rr_revision := rr_revision r + 1, rr_updated_at := w_clock w\<rparr>) (runtime_revisions d)\<rparr>))"

definition Revision_Get :: "string \<Rightarrow> world \<Rightarrow> int result \<times> world" where
  "Revision_Get name w =
     (case run_query (GetRuntimeRevision name) w of
        (Inl e, w1) \<Rightarrow> (Inl (Wrapf ''get runtime revision'' e), w1)
      | (Inr v, w1) \<Rightarrow> (Inr v, w1))"

definition Revision_Increment :: "string \<Rightarrow> world \<Rightarrow> int result \<times> world" where
  "Revision_Increment name w =
     (case run_query (IncrementRuntimeRevision name) w of
        (Inl e, w1) \<Rightarrow> (Inl (Wrapf ''increment runtime revision'' e), w1)
      | (Inr v, w1) \<Rightarrow> (Inr v, w1))"

section \<open>Helpers of the store\<close>

definition persistedAttributeAllowlist :: "string list" where
  "persistedAttributeAllowlist = [''base_url'', ''compat_name'', ''excluded_models'']"

definition databaseAuthType :: "sdk \<Rightarrow> Auth \<Rightarrow> string result" where
  "databaseAuthType K auth =
     (case sdk_kind K auth of
        AuthKindOAuth \<Rightarrow> Inr ''oauth''
      | AuthKindAPIKey \<Rightarrow> Inr ''api-key''
      | AuthKindOther \<Rightarrow> Inl (Wrapf ''unknown auth kind'' ErrInvalidInput))"

definition databaseAuthStatus :: "sdk \<Rightarrow> Auth \<Rightarrow> string" where
  "databaseAuthStatus K auth =
     (if au_Disabled auth \<or> au_Status auth = StatusDisabled K then ''disabled''
      else if au_Unavailable auth \<or> au_Status auth = StatusError K then ''unavailable''
      else ''active'')"

definition accountEmail :: "Auth \<Rightarrow> string" where
  "accountEmail auth =
     (case map_of (map_or_nil (au_Metadata auth)) ''email'' of
        Some (JString email) \<Rightarrow> if TrimSpace email \<noteq> [] then TrimSpace email else au_ID auth
      | _ \<Rightarrow> au_ID auth)"

definition publicAttributesJSON :: "sdk \<Rightarrow> (string \<times> string) list option \<Rightarrow> string option result" where
  "publicAttributesJSON K attributes =
     (let public = filter (\<lambda>(k, _). k \<in> set persistedAttributeAllowlist) (map_or_nil attributes)
      in if public = [] then Inr None
         else (case sdk_marshal_strings K public of None \<Rightarrow> Inl (ErrMsg ''marshal'') | Some s \<Rightarrow> Inr (Some s)))"

definition ensurePostgresSource :: "sdk \<Rightarrow> Auth \<Rightarrow> Auth" where
  "ensurePostgresSource K auth =
     auth\<lparr>au_Attributes := Some (map_put (AttributeSourceBackend K) (AuthSourcePostgres K) (map_or_nil (au_Attributes auth)))\<rparr>"

definition nullableTimestamptz :: "instant \<Rightarrow> instant option" where
  "nullableTimestamptz t = (if t = zero_time then None else Some t)"

text \<open>The pair of the Go function: the metadata map (nil is \<open>None\<close>); \<open>valid\<close> says it is not nil.\<close>

definition decodeStorageMetadata :: "sdk \<Rightarrow> string \<Rightarrow> ((string \<times> json) list option \<times> bool) result" where
  "decodeStorageMetadata K raw =
     (if raw = [] then Inr (None, False)
      else (case sdk_decode_metadata K raw of
              None \<Rightarrow> Inl (ErrMsg ''decode token storage'')
            | Some m \<Rightarrow> Inr (m, m \<noteq> None)))"

definition tokenStorageMetadata :: "sdk \<Rightarrow> storage \<Rightarrow> (string \<times> json) list option result" where
  "tokenStorageMetadata K st =
     (let fallback =
        (if tokenStorageHasHiddenState (st_types st) (st_heap st) (st_value st) then Inl (Wrapf ''hidden state'' ErrInvalidInput)
         else (case st_json st of
                 None \<Rightarrow> Inl (ErrMsg ''encode token storage'')
               | Some raw \<Rightarrow>
                   (case decodeStorageMetadata K raw of
                      Inl e \<Rightarrow> Inl e
                    | Inr (m, valid) \<Rightarrow>
                        (if \<not> valid \<or> map_or_nil m = [] then Inl (Wrapf ''no JSON credentials'' ErrInvalidInput) else Inr m))))
      in case st_RawJSON st of
           None \<Rightarrow> fallback
         | Some raw \<Rightarrow>
             (case decodeStorageMetadata K raw of
                Inl e \<Rightarrow> Inl e
              | Inr (m, valid) \<Rightarrow> if valid then Inr m else fallback))"

definition persistedCredentialMetadata :: "sdk \<Rightarrow> Auth \<Rightarrow> (string \<times> json) list result" where
  "persistedCredentialMetadata K auth =
     (case (case au_Storage auth of
              None \<Rightarrow> Inr []
            | Some st \<Rightarrow>
                (case tokenStorageMetadata K st of Inl e \<Rightarrow> Inl e | Inr m \<Rightarrow> Inr (map_or_nil m))) of
        Inl e \<Rightarrow> Inl e
      | Inr base \<Rightarrow>
          (let m1 = fold (\<lambda>(k, v). map_put k v) (map_or_nil (au_Metadata auth)) base;
               m2 = (case map_of m1 ''type'' of
                       Some (JString t) \<Rightarrow> if TrimSpace t = [] then map_put ''type'' (JString (au_Provider auth)) m1 else m1
                     | _ \<Rightarrow> map_put ''type'' (JString (au_Provider auth)) m1)
           in Inr (map_put ''disabled'' (JBool (au_Disabled auth)) m2)))"

section \<open>Operations\<close>

fun decodeRows :: "sdk \<Rightarrow> aead \<Rightarrow> Keyring \<Rightarrow> upstream_account_row list \<Rightarrow> Auth list result" where
  "decodeRows K G k [] = Inr []"
| "decodeRows K G k (row # rows) =
     (case Decrypt G k \<lparr>KeyVersion = ua_enc_key_version row, Ciphertext = ua_credentials_enc row\<rparr> of
        Inl e \<Rightarrow> Inl (Wrapf ''decrypt upstream account'' e)
      | Inr plaintext \<Rightarrow>
          (case sdk_unmarshal K plaintext of
             None \<Rightarrow> Inl (Wrapf ''decode upstream account'' ErrCorruptCredential)
           | Some auth \<Rightarrow>
               (if au_ID auth \<noteq> ua_id row \<or> au_Provider auth \<noteq> ua_provider row
                then Inl (Wrapf ''validate upstream account'' ErrCorruptCredential)
                else (case decodeRows K G k rows of
                        Inl e \<Rightarrow> Inl e
                      | Inr auths \<Rightarrow> Inr (ensurePostgresSource K (auth\<lparr>au_ProxyURL := []\<rparr>) # auths)))))"

definition Core_List :: "sdk \<Rightarrow> aead \<Rightarrow> Keyring option \<Rightarrow> world \<Rightarrow> Auth list result \<times> world" where
  "Core_List K G ring w =
     (case ring of
        None \<Rightarrow> (Inl (Wrapf ''list auths'' ErrInvalidInput), w)
      | Some k \<Rightarrow>
          (case run_query ListUpstreamAccounts w of
             (Inl e, w1) \<Rightarrow> (Inl (Wrapf ''list upstream accounts'' e), w1)
           | (Inr rows, w1) \<Rightarrow> (decodeRows K G k rows, w1)))"

text \<open>The part of \<open>Save\<close> before the database is touched.\<close>

definition prepareSave ::
  "sdk \<Rightarrow> aead \<Rightarrow> Keyring \<Rightarrow> Auth \<Rightarrow> world \<Rightarrow> UpsertUpstreamAccountParams result \<times> world" where
  "prepareSave K G k auth w =
     (let i = TrimSpace (au_ID auth); provider = TrimSpace (au_Provider auth)
      in if i = [] \<or> provider = [] then (Inl ErrInvalidInput, w)
         else (let p1 = ensurePostgresSource K (auth\<lparr>au_ID := i, au_Provider := provider, au_ProxyURL := []\<rparr>)
               in case persistedCredentialMetadata K p1 of
                    Inl e \<Rightarrow> (Inl (Wrapf ''encode token storage'' e), w)
                  | Inr metadata \<Rightarrow>
                      (let persisted = p1\<lparr>au_Metadata := Some metadata\<rparr>
                       in case databaseAuthType K persisted of
                            Inl e \<Rightarrow> (Inl e, w)
                          | Inr authType \<Rightarrow>
                              (case sdk_marshal K persisted of
                                 None \<Rightarrow> (Inl (ErrMsg ''encode upstream account''), w)
                               | Some plaintext \<Rightarrow>
                                   (case Encrypt G k plaintext w of
                                      (Inl e, w1) \<Rightarrow> (Inl (Wrapf ''encrypt upstream account'' e), w1)
                                    | (Inr encrypted, w1) \<Rightarrow>
                                        (if KeyVersion encrypted \<le> 0 \<or> KeyVersion encrypted > max_int32
                                         then (Inl (Wrapf ''key version'' ErrInvalidInput), w1)
                                         else (case publicAttributesJSON K (au_Attributes persisted) of
                                                 Inl e \<Rightarrow> (Inl (Wrapf ''encode public attributes'' e), w1)
                                               | Inr attributes \<Rightarrow>
                                                   (Inr \<lparr>uu_ID = i, uu_Provider = provider, uu_Email = accountEmail persisted,
                                                         uu_AuthType = authType, uu_Label = nullableText (au_Label persisted),
                                                         uu_CredentialsEnc = Ciphertext encrypted,
                                                         uu_EncKeyVersion = KeyVersion encrypted, uu_Attributes = attributes,
                                                         uu_Status = databaseAuthStatus K persisted,
                                                         uu_LastRefreshedAt = nullableTimestamptz (au_LastRefreshedAt persisted),
                                                         uu_NextRefreshAfter = nullableTimestamptz (au_NextRefreshAfter persisted)\<rparr>, w1))))))))"

definition saveInTx ::
  "(string \<Rightarrow> bool) \<Rightarrow> UpsertUpstreamAccountParams \<Rightarrow> AdminAuditLogEntry option \<Rightarrow> world \<Rightarrow> string result \<times> world" where
  "saveInTx valid p audit w =
     (case run_query (UpsertUpstreamAccount p) w of
        (Inl e, w1) \<Rightarrow> (Inl (Wrapf ''save upstream account'' e), w1)
      | (Inr savedID, w1) \<Rightarrow>
          (case run_query (IncrementRuntimeRevision UpstreamAccountsRevision) w1 of
             (Inl e, w2) \<Rightarrow> (Inl (Wrapf ''increment upstream accounts revision'' e), w2)
           | (Inr _, w2) \<Rightarrow>
               (case audit of
                  None \<Rightarrow> (Inr savedID, w2)
                | Some entry \<Rightarrow>
                    (case Audit_Insert valid (entry\<lparr>ae_TargetID := uu_ID p\<rparr>) w2 of
                       (Inl e, w3) \<Rightarrow> (Inl (Wrapf ''write upstream account audit'' e), w3)
                     | (Inr _, w3) \<Rightarrow> (Inr savedID, w3)))))"

text \<open>
  \<open>transactional\<close> says whether the database handle can begin a transaction (the pool can); \<open>audit\<close> is
  the entry \<^verbatim>\<open>WithUpstreamAccountAudit\<close> put into the context.
\<close>

definition Core_Save ::
  "sdk \<Rightarrow> aead \<Rightarrow> (string \<Rightarrow> bool) \<Rightarrow> bool \<Rightarrow> AdminAuditLogEntry option \<Rightarrow> Keyring option \<Rightarrow> Auth option \<Rightarrow> world
   \<Rightarrow> string result \<times> world" where
  "Core_Save K G valid transactional audit ring authp w =
     (case (ring, authp) of
        (Some k, Some auth) \<Rightarrow>
          (case prepareSave K G k auth w of
             (Inl e, w1) \<Rightarrow> (Inl e, w1)
           | (Inr p, w1) \<Rightarrow>
               (if transactional
                then in_tx (Wrapf ''begin save upstream account'') (Wrapf ''commit save upstream account'') (saveInTx valid p audit) w1
                else (case audit of
                        Some _ \<Rightarrow> (Inl (Wrapf ''save upstream account audit requires transactional store'' ErrInvalidInput), w1)
                      | None \<Rightarrow>
                          (case run_query (UpsertUpstreamAccount p) w1 of
                             (Inl e, w2) \<Rightarrow> (Inl (Wrapf ''save upstream account'' e), w2)
                           | (Inr savedID, w2) \<Rightarrow> (Inr savedID, w2)))))
      | _ \<Rightarrow> (Inl ErrInvalidInput, w))"

definition deleteStatements :: "string \<Rightarrow> world \<Rightarrow> unit result \<times> world" where
  "deleteStatements i w =
     (case run_query (DeleteUpstreamAccount i) w of
        (Inl e, w1) \<Rightarrow> (Inl (Wrapf ''delete upstream account'' e), w1)
      | (Inr _, w1) \<Rightarrow>
          (case run_query (IncrementRuntimeRevision UpstreamAccountsRevision) w1 of
             (Inl e, w2) \<Rightarrow> (Inl (Wrapf ''increment upstream accounts revision'' e), w2)
           | (Inr _, w2) \<Rightarrow> (Inr (), w2)))"

definition Core_Delete :: "bool \<Rightarrow> string \<Rightarrow> world \<Rightarrow> unit result \<times> world" where
  "Core_Delete transactional i w =
     (if TrimSpace i = [] then (Inl ErrInvalidInput, w)
      else if transactional
      then in_tx (Wrapf ''begin delete upstream account'') (Wrapf ''commit delete upstream account'') (deleteStatements (TrimSpace i)) w
      else deleteStatements (TrimSpace i) w)"

section \<open>Properties\<close>

definition wf_accounts :: "database \<Rightarrow> bool" where
  "wf_accounts d = distinct (map ua_id (upstream_accounts d))"

definition account_of :: "database \<Rightarrow> string \<Rightarrow> upstream_account_row option" where
  "account_of d i = find (\<lambda>a. ua_id a = i) (upstream_accounts d)"

definition revision_of :: "database \<Rightarrow> string \<Rightarrow> int option" where
  "revision_of d name = map_option rr_revision (find (\<lambda>r. rr_name r = name) (runtime_revisions d))"

lemma find_map_update:
  "(\<And>r. k (f r) = k r) \<Longrightarrow> find (\<lambda>r. k r = a) (update_where (\<lambda>r. k r = a) f t) = map_option f (find (\<lambda>r. k r = a) t)"
  by (induction t) (auto simp: update_where_def)

lemma find_update_other:
  "a \<noteq> b \<Longrightarrow> (\<And>r. k r = b \<Longrightarrow> k (f r) = b) \<Longrightarrow> find (\<lambda>r. k r = a) (update_where (\<lambda>r. k r = b) f t) = find (\<lambda>r. k r = a) t"
  by (induction t) (auto simp: update_where_def)

lemma find_append_one: "find p (t @ [r]) = (case find p t of None \<Rightarrow> if p r then Some r else None | Some x \<Rightarrow> Some x)"
  by (induction t) auto

lemma find_update_const:
  "find (\<lambda>r. k r = a) t = Some r0 \<Longrightarrow> k c = a \<Longrightarrow> find (\<lambda>r. k r = a) (update_where (\<lambda>r. k r = a) (\<lambda>_. c) t) = Some c"
  by (induction t) (auto simp: update_where_def split: if_splits)

lemma UpsertUpstreamAccount_ok:
  assumes "UpsertUpstreamAccount p w d = (Inr i, d')"
  shows "i = uu_ID p \<and> (\<exists>t. account_of d' (uu_ID p) = Some (account_row p t)) \<and>
     (\<forall>j. j \<noteq> uu_ID p \<longrightarrow> account_of d' j = account_of d j) \<and>
     runtime_revisions d' = runtime_revisions d \<and> admin_audit_log d' = admin_audit_log d \<and> audit_seq d' = audit_seq d"
proof (cases "find (\<lambda>a. ua_id a = uu_ID p) (upstream_accounts d)")
  case None
  with assms have d: "i = uu_ID p" "d' = d\<lparr>upstream_accounts := upstream_accounts d @ [account_row p (w_clock w)]\<rparr>"
    by (auto simp: UpsertUpstreamAccount_def split: if_splits)
  with None show ?thesis by (auto simp: account_of_def find_append_one account_row_def split: option.splits)
next
  case (Some a)
  with assms have d: "i = uu_ID p" "d' = d\<lparr>upstream_accounts := update_where (\<lambda>r. ua_id r = uu_ID p)
      (\<lambda>_. account_row p (ua_created_at a)) (upstream_accounts d)\<rparr>"
    by (auto simp: UpsertUpstreamAccount_def split: if_splits)
  have "ua_id (account_row p t) = uu_ID p" for t by (simp add: account_row_def)
  with Some d show ?thesis by (auto simp: account_of_def find_update_const find_update_other)
qed

lemma IncrementRuntimeRevision_ok:
  assumes "IncrementRuntimeRevision name w d = (Inr v, d')"
  shows "revision_of d name = Some (v - 1) \<and> revision_of d' name = Some v \<and> upstream_accounts d' = upstream_accounts d \<and>
     admin_audit_log d' = admin_audit_log d \<and> audit_seq d' = audit_seq d"
  using assms
  by (auto simp: IncrementRuntimeRevision_def revision_of_def find_map_update split: option.splits)

lemma saveInTx_ok:
  assumes "saveInTx valid p audit w = (Inr i, w')"
  obtains t v where "i = uu_ID p" "account_of (w_db w') (uu_ID p) = Some (account_row p t)"
    "\<forall>j. j \<noteq> uu_ID p \<longrightarrow> account_of (w_db w') j = account_of (w_db w) j"
    "revision_of (w_db w) UpstreamAccountsRevision = Some v" "revision_of (w_db w') UpstreamAccountsRevision = Some (v + 1)"
    "case audit of None \<Rightarrow> admin_audit_log (w_db w') = admin_audit_log (w_db w)
     | Some e \<Rightarrow> \<exists>t'. admin_audit_log (w_db w') = admin_audit_log (w_db w) @ [audit_of (e\<lparr>ae_TargetID := uu_ID p\<rparr>) t' (audit_seq (w_db w) + 1)]"
proof -
  obtain x w1 where u: "run_query (UpsertUpstreamAccount p) w = (x, w1)" by fastforce
  with assms obtain sid where x: "x = Inr sid" by (cases x) (auto simp: saveInTx_def)
  obtain y w2 where r: "run_query (IncrementRuntimeRevision UpstreamAccountsRevision) w1 = (y, w2)" by fastforce
  with assms u x obtain v where y: "y = Inr v" by (cases y) (auto simp: saveInTx_def)
  from run_query_ok [OF u [unfolded x]] obtain wa where "UpsertUpstreamAccount p wa (w_db w) = (Inr sid, w_db w1)" .
  note U = UpsertUpstreamAccount_ok [OF this]
  from run_query_ok [OF r [unfolded y]] obtain wb where "IncrementRuntimeRevision UpstreamAccountsRevision wb (w_db w1) = (Inr v, w_db w2)" .
  note R = IncrementRuntimeRevision_ok [OF this]
  from U obtain t where t: "account_of (w_db w1) (uu_ID p) = Some (account_row p t)" by blast
  have acc: "account_of (w_db w2) j = account_of (w_db w1) j" for j using R by (simp add: account_of_def)
  have rev0: "revision_of (w_db w) UpstreamAccountsRevision = Some (v - 1)" using U R by (simp add: revision_of_def)
  show thesis
  proof (cases audit)
    case None
    with assms u x r y have "i = sid" "w' = w2" by (auto simp: saveInTx_def)
    with None U R t acc rev0 show thesis by (intro that [of t "v - 1"]) auto
  next
    case (Some e)
    obtain z w3 where a: "Audit_Insert valid (e\<lparr>ae_TargetID := uu_ID p\<rparr>) w2 = (z, w3)" by fastforce
    with assms u x r y Some obtain z' where z: "z = Inr z'" "i = sid" "w' = w3" by (cases z) (auto simp: saveInTx_def)
    from Audit_Insert_ok [OF a [unfolded z(1)]] obtain t' where d: "w_db w3 = with_audit (e\<lparr>ae_TargetID := uu_ID p\<rparr>) t' (w_db w2)" .
    have "account_of (w_db w3) j = account_of (w_db w2) j" "revision_of (w_db w3) n = revision_of (w_db w2) n" for j n
      unfolding d by (simp_all add: account_of_def revision_of_def with_audit_def)
    with Some U R t acc rev0 z show thesis by (intro that [of t "v - 1"]) (auto simp: d)
  qed
qed

lemma prepareSave_ok:
  assumes "prepareSave K G k auth w = (Inr p, w')"
  obtains persisted plaintext v where "uu_ID p = TrimSpace (au_ID auth)" "uu_Provider p = TrimSpace (au_Provider auth)"
    "au_ID persisted = uu_ID p" "au_Provider persisted = uu_Provider p" "au_ProxyURL persisted = []"
    "sdk_marshal K persisted = Some plaintext" "Encrypt G k plaintext w = (Inr v, w')"
    "uu_CredentialsEnc p = Ciphertext v" "uu_EncKeyVersion p = KeyVersion v" "w_db w' = w_db w"
proof -
  let ?i = "TrimSpace (au_ID auth)" and ?pr = "TrimSpace (au_Provider auth)"
  let ?p1 = "ensurePostgresSource K (auth\<lparr>au_ID := ?i, au_Provider := ?pr, au_ProxyURL := []\<rparr>)"
  note unf = prepareSave_def Let_def
  from assms obtain metadata where m: "persistedCredentialMetadata K ?p1 = Inr metadata" "\<not> (?i = [] \<or> ?pr = [])"
    by (auto simp: unf split: if_splits sum.splits)
  let ?ps = "?p1\<lparr>au_Metadata := Some metadata\<rparr>"
  from assms m obtain ty plaintext where pt: "databaseAuthType K ?ps = Inr ty" "sdk_marshal K ?ps = Some plaintext"
    by (auto simp: unf split: if_splits sum.splits option.splits)
  obtain e w1 where en: "Encrypt G k plaintext w = (e, w1)" by fastforce
  from assms m pt en obtain v where v: "e = Inr v" by (cases e) (auto simp: unf)
  from assms m pt en v have p: "uu_ID p = ?i" "uu_Provider p = ?pr" "uu_CredentialsEnc p = Ciphertext v" "uu_EncKeyVersion p = KeyVersion v" "w1 = w'"
    by (auto simp: unf split: if_splits sum.splits)
  have "w_db w' = w_db w" using Encrypt_ok [OF en [unfolded v]] p(5) rand_Read_frame(1) by (metis snd_conv)
  with p pt en v show thesis by (intro that [of ?ps plaintext v]) (simp_all add: ensurePostgresSource_def)
qed

text \<open>
  What is assumed of the JSON codec of the SDK: decoding an encoded account gives an account with the
  same id and provider (fields that are not part of the encoding, such as the token storage, may differ:
  \<open>view\<close> is what survives).
\<close>

definition codec_contract :: "sdk \<Rightarrow> (Auth \<Rightarrow> Auth) \<Rightarrow> bool" where
  "codec_contract K view =
     (\<forall>a s. sdk_marshal K a = Some s \<longrightarrow> sdk_unmarshal K s = Some (view a) \<and> au_ID (view a) = au_ID a \<and> au_Provider (view a) = au_Provider a)"


definition no_quota :: QuotaState where
  "no_quota = \<lparr>qs_Exceeded = False, qs_Reason = [], qs_NextRecoverAt = zero_time, qs_BackoffLevel = 0\<rparr>"

text \<open>A small codec: the id and the provider of an account, each followed by a line feed.\<close>

definition toy_sdk :: sdk where
  "toy_sdk =
     \<lparr>sdk_marshal = (\<lambda>a. if CHR 0x0A \<in> set (au_ID a) \<or> CHR 0x0A \<in> set (au_Provider a) then None
                          else Some (au_ID a @ CHR 0x0A # au_Provider a)),
      sdk_unmarshal = (\<lambda>s. Some \<lparr>au_ID = takeWhile (\<lambda>c. c \<noteq> CHR 0x0A) s, au_Provider = tl (dropWhile (\<lambda>c. c \<noteq> CHR 0x0A) s),
         au_Label = [], au_ProxyURL = [], au_Attributes = None, au_Metadata = None, au_Storage = None, au_Disabled = False,
         au_Unavailable = False, au_Status = [], au_LastRefreshedAt = zero_time, au_NextRefreshAfter = zero_time, au_Quota = no_quota\<rparr>),
      sdk_kind = (\<lambda>_. AuthKindOAuth), sdk_decode_metadata = (\<lambda>_. None), sdk_marshal_strings = (\<lambda>_. Some ''{}''),
      AttributeSourceBackend = ''source_backend'', AuthSourcePostgres = ''postgres'',
      StatusDisabled = ''disabled'', StatusError = ''error''\<rparr>"

definition toy_view :: "Auth \<Rightarrow> Auth" where
  "toy_view a = \<lparr>au_ID = au_ID a, au_Provider = au_Provider a, au_Label = [], au_ProxyURL = [], au_Attributes = None,
     au_Metadata = None, au_Storage = None, au_Disabled = False, au_Unavailable = False, au_Status = [],
     au_LastRefreshedAt = zero_time, au_NextRefreshAfter = zero_time, au_Quota = no_quota\<rparr>"

lemma toy_sdk_contract: "codec_contract toy_sdk toy_view"
proof -
  have "takeWhile (\<lambda>c. c \<noteq> x) (as @ x # bs) = as" "dropWhile (\<lambda>c. c \<noteq> x) (as @ x # bs) = x # bs" if "x \<notin> set as"
    for as bs :: string and x using that by (induction as) auto
  then show ?thesis by (auto simp: codec_contract_def toy_sdk_def toy_view_def split: if_splits)
qed

definition sample_auth :: Auth where
  "sample_auth = \<lparr>au_ID = ''acc'', au_Provider = ''codex'', au_Label = ''main'', au_ProxyURL = ''http://p'', au_Attributes = None,
     au_Metadata = None, au_Storage = None, au_Disabled = False, au_Unavailable = False, au_Status = [],
     au_LastRefreshedAt = zero_time, au_NextRefreshAfter = zero_time, au_Quota = no_quota\<rparr>"

definition account_world :: world where
  "account_world = (start_world (empty_db\<lparr>runtime_revisions :=
     [\<lparr>rr_name = UpstreamAccountsRevision, rr_revision = 7, rr_updated_at = 0\<rparr>]\<rparr>) 0)\<lparr>w_random := [''n'']\<rparr>"


end
