(* ===== verification/Upstream_Admin.thy ===== *)
theory Upstream_Admin
  imports Http_Api Core_Auth_Store
begin

text \<open>
  Administration of upstream accounts: \<^verbatim>\<open>internal/auth/testing/checker.go\<close> and the handlers
  \<^verbatim>\<open>admin_provider_keys.go\<close>, \<^verbatim>\<open>admin_accounts.go\<close>, \<^verbatim>\<open>admin_quota.go\<close> and \<^verbatim>\<open>admin_oauth_credentials.go\<close> of
  \<^verbatim>\<open>internal/httpapi\<close>.

  The account manager of the SDK (\<^verbatim>\<open>coreauth.Manager\<close>) is the parameter record \<open>manager\<close> over a state type of
  its own; its operations take the audit entry that \<^verbatim>\<open>WithUpstreamAccountAudit\<close> put into the context, as the
  store does. Executors of providers, the methods of \<^verbatim>\<open>coreauth.Auth\<close>, the JSON decoder, the media type parser
  and the multipart reader are fields of \<open>account_env\<close>. A pointer that may be nil is an option.
\<close>

section \<open>The SDK\<close>

datatype executor_response = Probe_failed | Probe_status int

record probe =
  pb_target :: string
  pb_headers :: "(string \<times> string) list"

record executor =
  ex_Refresh :: "Auth \<Rightarrow> world \<Rightarrow> Auth option result \<times> world"
  ex_HttpRequest :: "Auth \<Rightarrow> probe \<Rightarrow> world \<Rightarrow> executor_response \<times> world"

record 'm manager =
  mg_GetByID :: "'m \<Rightarrow> string \<Rightarrow> Auth option"
  mg_List :: "'m \<Rightarrow> Auth option list"
  mg_Executor :: "'m \<Rightarrow> string \<Rightarrow> executor option"
  mg_Register :: "AdminAuditLogEntry \<Rightarrow> Auth \<Rightarrow> 'm \<Rightarrow> world \<Rightarrow> Auth option result \<times> 'm \<times> world"
  mg_Update :: "AdminAuditLogEntry \<Rightarrow> Auth \<Rightarrow> 'm \<Rightarrow> world \<Rightarrow> Auth option result \<times> 'm \<times> world"

record AntigravityCreditsHint =
  ch_Known :: bool
  ch_Available :: bool
  ch_CreditAmount :: string
  ch_MinCreditAmount :: string
  ch_PaidTierID :: string
  ch_UpdatedAt :: instant

text \<open>
  One value of the JSON decoder on what is left of its input: a value with the rest, white space only,
  a value that the input cuts short, or a text that is not one.
\<close>

datatype 'v json_scan = Scan_value 'v string | Scan_space | Scan_cut | Scan_bad

datatype import_error = Too_large | Unsupported_media | Max_bytes | Import_failed

record mpart =
  mp_FormName :: string
  mp_data :: "import_error + string"
  mp_close :: "import_error option"

record account_env =
  ac_sdk :: sdk
  ac_expiration :: "Auth \<Rightarrow> instant option"
  ac_email :: "Auth \<Rightarrow> string"
  ac_credits :: "string \<Rightarrow> AntigravityCreditsHint option"
  ac_parse_uri :: "string \<Rightarrow> (string \<times> string \<times> bool) option"
  ac_query_escape :: "string \<Rightarrow> string"
  ac_valid_target :: "string \<Rightarrow> bool"
  ac_bind_accounts :: "string \<Rightarrow> (string \<times> string \<times> string \<times> string) list option"
  ac_media :: "string \<Rightarrow> string option"
  ac_scan :: "string \<Rightarrow> Auth json_scan"
  ac_scan_any :: "string \<Rightarrow> unit json_scan"
  ac_multipart :: "Request \<Rightarrow> nat \<Rightarrow> (mpart list \<times> import_error option) option"
  AttributeAuthKind :: string
  AttributeAPIKey :: string
  AuthKindAPIKey_text :: string

section \<open>Checking an account\<close>

record QuotaInfo =
  qi_Exceeded :: bool
  qi_Reason :: string
  qi_NextRecoverAt :: "instant option"
  qi_Unknown :: bool

record test_Result =
  tr_Valid :: bool
  tr_Method :: string
  tr_StatusCode :: int
  tr_ExpiresAt :: "instant option"
  tr_LastRefreshedAt :: "instant option"
  tr_Quota :: QuotaInfo
  tr_Error :: string

definition MethodRefresh :: string where "MethodRefresh = ''refresh''"
definition MethodHTTPProbe :: string where "MethodHTTPProbe = ''http_probe''"

definition time_or_nil :: "instant \<Rightarrow> instant option" where
  "time_or_nil t = (if t = zero_time then None else Some t)"

definition quota_unknown :: "QuotaState \<Rightarrow> bool" where
  "quota_unknown q = (\<not> qs_Exceeded q \<and> qs_Reason q = [] \<and> qs_NextRecoverAt q = zero_time \<and> qs_BackoffLevel q = 0)"

definition resultForAuth :: "account_env \<Rightarrow> Auth \<Rightarrow> string \<Rightarrow> int \<Rightarrow> bool \<Rightarrow> string \<Rightarrow> test_Result" where
  "resultForAuth X auth meth statusCode valid message =
     \<lparr>tr_Valid = valid, tr_Method = meth, tr_StatusCode = statusCode, tr_ExpiresAt = ac_expiration X auth,
      tr_LastRefreshedAt = time_or_nil (au_LastRefreshedAt auth),
      tr_Quota = \<lparr>qi_Exceeded = qs_Exceeded (au_Quota auth), qi_Reason = qs_Reason (au_Quota auth),
                  qi_NextRecoverAt = time_or_nil (qs_NextRecoverAt (au_Quota auth)), qi_Unknown = quota_unknown (au_Quota auth)\<rparr>,
      tr_Error = message\<rparr>"

fun trim_right :: "char \<Rightarrow> string \<Rightarrow> string" where
  "trim_right c s = rev (dropWhile (\<lambda>x. x = c) (rev s))"

definition attribute :: "Auth \<Rightarrow> string \<Rightarrow> string" where
  "attribute auth name = Values_Get (map_or_nil (au_Attributes auth)) name"

definition probeRequest :: "account_env \<Rightarrow> Auth \<Rightarrow> probe result" where
  "probeRequest X auth =
     (let provider = ToLower (TrimSpace (au_Provider auth));
          request = (\<lambda>target headers. if ac_valid_target X target then Inr \<lparr>pb_target = target, pb_headers = headers\<rparr>
                                      else Inl (ErrMsg ''create upstream metadata request''))
      in if provider = ''claude'' then
           request ''https://api.anthropic.com/v1/models'' [(''Anthropic-Version'', ''2023-06-01'')]
         else if provider = ''codex'' then request ''https://chatgpt.com/backend-api/me'' []
         else if provider = ''gemini'' then
           (let apiKey = TrimSpace (attribute auth (AttributeAPIKey X))
            in if apiKey = [] then Inl ErrUnsupportedProvider
               else request (''https://generativelanguage.googleapis.com/v1beta/models?key='' @ ac_query_escape X apiKey) [])
         else if provider = ''openai-compatibility'' then
           (let baseURL = TrimSpace (attribute auth ''base_url'')
            in if baseURL = [] then Inl ErrUnsupportedProvider
               else request (trim_right CHR ''/'' baseURL @ ''/models'') [])
         else Inl ErrUnsupportedProvider)"

definition testOAuth ::
  "account_env \<Rightarrow> 'm manager \<Rightarrow> AdminAuditLogEntry \<Rightarrow> Auth \<Rightarrow> executor \<Rightarrow> 'm \<Rightarrow> world \<Rightarrow> test_Result result \<times> 'm \<times> world" where
  "testOAuth X M audit auth executor m w =
     (case ex_Refresh executor auth w of
        (Inr (Some refreshed), w1) \<Rightarrow>
          (case mg_Update M audit refreshed m w1 of
             (Inl e, m1, w2) \<Rightarrow> (Inl (Wrapf ''persist refreshed upstream account'' e), m1, w2)
           | (Inr None, m1, w2) \<Rightarrow> (Inl ErrAccountNotFound, m1, w2)
           | (Inr (Some updated), m1, w2) \<Rightarrow> (Inr (resultForAuth X updated MethodRefresh 200 True []), m1, w2))
      | (_, w1) \<Rightarrow> (Inr (resultForAuth X auth MethodRefresh 0 False ''credential refresh failed''), m, w1))"

definition testAPIKey ::
  "account_env \<Rightarrow> Auth \<Rightarrow> executor \<Rightarrow> 'm \<Rightarrow> world \<Rightarrow> test_Result result \<times> 'm \<times> world" where
  "testAPIKey X auth executor m w =
     (case probeRequest X auth of
        Inl e \<Rightarrow> (Inl e, m, w)
      | Inr request \<Rightarrow>
          (case ex_HttpRequest executor auth request w of
             (Probe_failed, w1) \<Rightarrow> (Inr (resultForAuth X auth MethodHTTPProbe 0 False ''credential probe failed''), m, w1)
           | (Probe_status code, w1) \<Rightarrow>
               (if 200 \<le> code \<and> code < 300
                then (Inr (resultForAuth X auth MethodHTTPProbe code True []), m, w1)
                else (Inr (resultForAuth X auth MethodHTTPProbe code False (''upstream returned HTTP '' @ FormatInt code)), m, w1))))"

definition Checker_Test ::
  "account_env \<Rightarrow> 'm manager option \<Rightarrow> AdminAuditLogEntry \<Rightarrow> string \<Rightarrow> 'm \<Rightarrow> world \<Rightarrow> test_Result result \<times> 'm \<times> world" where
  "Checker_Test X mg audit accountID m w =
     (case mg of
        None \<Rightarrow> (Inl ErrExecutorUnavailable, m, w)
      | Some M \<Rightarrow>
          (case mg_GetByID M m (TrimSpace accountID) of
             None \<Rightarrow> (Inl ErrAccountNotFound, m, w)
           | Some auth \<Rightarrow>
               (case mg_Executor M m (au_Provider auth) of
                  None \<Rightarrow> (Inl ErrExecutorUnavailable, m, w)
                | Some executor \<Rightarrow>
                    (case sdk_kind (ac_sdk X) auth of
                       AuthKindOAuth \<Rightarrow> testOAuth X M audit auth executor m w
                     | AuthKindAPIKey \<Rightarrow> testAPIKey X auth executor m w
                     | AuthKindOther \<Rightarrow> (Inl ErrUnsupportedProvider, m, w)))))"

section \<open>Responses and handlers\<close>

record providerKeyResponse =
  pk_ID :: string
  pk_Provider :: string
  pk_Label :: string

record runtimeQuotaResponse =
  rq_Exceeded :: bool
  rq_Reason :: string
  rq_NextRecoverAt :: "instant option"
  rq_BackoffLevel :: int
  rq_Unknown :: bool

record antigravityCreditsInfo =
  ci_Known :: bool
  ci_Available :: bool
  ci_CreditAmount :: string
  ci_MinCreditAmount :: string
  ci_PaidTierID :: string
  ci_UpdatedAt :: "instant option"

record quotaResponse =
  qr_AccountID :: string
  qr_Provider :: string
  qr_ExpiresAt :: "instant option"
  qr_Quota :: runtimeQuotaResponse
  qr_AntigravityCredits :: "antigravityCreditsInfo option"

record importedOAuthCredentialResponse =
  im_ID :: string
  im_Provider :: string
  im_Email :: string

datatype account_body =
    Acc_error string
  | Acc_provider_keys "providerKeyResponse list"
  | Acc_test test_Result
  | Acc_quota quotaResponse
  | Acc_export string
  | Acc_imported importedOAuthCredentialResponse

type_synonym account_response = "int \<times> account_body"

type_synonym 'm account_handler = "gin_context \<Rightarrow> 'm \<Rightarrow> world \<Rightarrow> account_response \<times> 'm \<times> world"

definition account_error :: "int \<Rightarrow> string \<Rightarrow> account_response" where
  "account_error status message = (status, Acc_error message)"

text \<open>A handler that begins with \<open>currentUserID\<close>.\<close>

definition account_user :: "(int \<Rightarrow> 'm account_handler) \<Rightarrow> 'm account_handler" where
  "account_user h c m w =
     (case currentUserID c of
        Inl rs \<Rightarrow> ((rs_status rs, Acc_error (case rs_body rs of Body_error e \<Rightarrow> e | _ \<Rightarrow> [])), m, w)
      | Inr i \<Rightarrow> h i c m w)"

definition AccountTest_Handler :: "http_env \<Rightarrow> account_env \<Rightarrow> 'm manager option option \<Rightarrow> 'm account_handler" where
  "AccountTest_Handler E X checker = account_user (\<lambda>actor c m w.
     case checker of
       None \<Rightarrow> (account_error 500 ''upstream account checker is unavailable'', m, w)
     | Some mg \<Rightarrow>
         (let accountID = TrimSpace (gin_Param c ''accountID'')
          in if accountID = [] then (account_error 400 ''invalid upstream account ID'', m, w)
             else (case Checker_Test X mg
                          \<lparr>ae_ActorUserID = actor, ae_Action = ''upstream_account.tested'', ae_TargetType = ''upstream_account'',
                           ae_TargetID = ''pending'', ae_Details = [], ae_ActorIP = he_client_ip E (gc_request c)\<rparr> accountID m w of
                     (Inl e, m1, w1) \<Rightarrow>
                       (if errors_Is e ErrAccountNotFound then account_error 404 ''upstream account not found''
                        else if errors_Is e ErrUnsupportedProvider then account_error 400 ''unsupported upstream account health check''
                        else account_error 500 ''upstream account test failed'', m1, w1)
                   | (Inr result, m1, w1) \<Rightarrow> ((200, Acc_test result), m1, w1))))"

section \<open>Quota\<close>

definition newRuntimeQuotaResponse :: "QuotaState \<Rightarrow> runtimeQuotaResponse" where
  "newRuntimeQuotaResponse q =
     \<lparr>rq_Exceeded = qs_Exceeded q, rq_Reason = qs_Reason q, rq_NextRecoverAt = time_or_nil (qs_NextRecoverAt q),
      rq_BackoffLevel = qs_BackoffLevel q, rq_Unknown = quota_unknown q\<rparr>"

definition newAntigravityCreditsInfo :: "AntigravityCreditsHint option \<Rightarrow> antigravityCreditsInfo" where
  "newAntigravityCreditsInfo found =
     (case found of
        Some hint \<Rightarrow>
          (if ch_Known hint
           then \<lparr>ci_Known = True, ci_Available = ch_Available hint, ci_CreditAmount = ch_CreditAmount hint,
                 ci_MinCreditAmount = ch_MinCreditAmount hint, ci_PaidTierID = ch_PaidTierID hint,
                 ci_UpdatedAt = time_or_nil (ch_UpdatedAt hint)\<rparr>
           else \<lparr>ci_Known = False, ci_Available = False, ci_CreditAmount = [], ci_MinCreditAmount = [], ci_PaidTierID = [],
                 ci_UpdatedAt = None\<rparr>)
      | None \<Rightarrow> \<lparr>ci_Known = False, ci_Available = False, ci_CreditAmount = [], ci_MinCreditAmount = [], ci_PaidTierID = [],
                 ci_UpdatedAt = None\<rparr>)"

definition Quota_Get_Handler :: "account_env \<Rightarrow> 'm manager option \<Rightarrow> 'm account_handler" where
  "Quota_Get_Handler X lookup c m w =
     (case lookup of
        None \<Rightarrow> (account_error 500 ''upstream quota service is unavailable'', m, w)
      | Some M \<Rightarrow>
          (case mg_GetByID M m (TrimSpace (gin_Param c ''accountID'')) of
             None \<Rightarrow> (account_error 404 ''upstream account not found'', m, w)
           | Some auth \<Rightarrow>
               ((200, Acc_quota
                  \<lparr>qr_AccountID = au_ID auth, qr_Provider = au_Provider auth, qr_ExpiresAt = ac_expiration X auth,
                   qr_Quota = newRuntimeQuotaResponse (au_Quota auth),
                   qr_AntigravityCredits = (if EqualFold (au_Provider auth) ''antigravity''
                                            then Some (newAntigravityCreditsInfo (ac_credits X (au_ID auth))) else None)\<rparr>), m, w)))"

section \<open>Batches of provider keys\<close>

record createProviderKeyAccount =
  ka_Provider :: string
  ka_APIKey :: string
  ka_BaseURL :: string
  ka_Label :: string

definition bind_account :: "string \<times> string \<times> string \<times> string \<Rightarrow> createProviderKeyAccount" where
  "bind_account t = (case t of (provider, apiKey, baseURL, label) \<Rightarrow>
     \<lparr>ka_Provider = provider, ka_APIKey = apiKey, ka_BaseURL = baseURL, ka_Label = label\<rparr>)"

text \<open>\<open>ac_parse_uri\<close> gives scheme, host and whether there is user information.\<close>

definition validProviderKeyAccount :: "account_env \<Rightarrow> createProviderKeyAccount \<Rightarrow> bool" where
  "validProviderKeyAccount X a =
     (TrimSpace (ka_Provider a) \<noteq> [] \<and> TrimSpace (ka_APIKey a) \<noteq> [] \<and>
      (let baseURL = TrimSpace (ka_BaseURL a)
       in baseURL = [] \<or> (case ac_parse_uri X baseURL of
                            None \<Rightarrow> False
                          | Some (scheme, host, user) \<Rightarrow> (scheme = ''http'' \<or> scheme = ''https'') \<and> host \<noteq> [] \<and> \<not> user)))"

definition validProviderKeyAccounts :: "account_env \<Rightarrow> createProviderKeyAccount list \<Rightarrow> bool" where
  "validProviderKeyAccounts X accounts =
     (accounts \<noteq> [] \<and> length accounts \<le> 100 \<and> list_all (validProviderKeyAccount X) accounts)"

definition zero_auth :: Auth where
  "zero_auth = \<lparr>au_ID = [], au_Provider = [], au_Label = [], au_ProxyURL = [], au_Attributes = None, au_Metadata = None,
     au_Storage = None, au_Disabled = False, au_Unavailable = False, au_Status = [], au_LastRefreshedAt = zero_time,
     au_NextRefreshAfter = zero_time, au_Quota = no_quota\<rparr>"

definition provider_auth :: "account_env \<Rightarrow> createProviderKeyAccount \<Rightarrow> Auth" where
  "provider_auth X a =
     (let attrs = [(AttributeAuthKind X, AuthKindAPIKey_text X), (AttributeAPIKey X, TrimSpace (ka_APIKey a))];
          baseURL = TrimSpace (ka_BaseURL a)
      in zero_auth\<lparr>au_Provider := TrimSpace (ka_Provider a), au_Label := TrimSpace (ka_Label a),
           au_Attributes := Some (if baseURL \<noteq> [] then map_put ''base_url'' baseURL attrs else attrs)\<rparr>)"

definition provider_audit :: "http_env \<Rightarrow> int \<Rightarrow> gin_context \<Rightarrow> createProviderKeyAccount \<Rightarrow> AdminAuditLogEntry" where
  "provider_audit E actor c a =
     \<lparr>ae_ActorUserID = actor, ae_Action = ''upstream_api_key.created'', ae_TargetType = ''upstream_account'', ae_TargetID = ''pending'',
      ae_Details = json_obj (he_codec E) [(''provider'', TrimSpace (ka_Provider a)), (''label'', TrimSpace (ka_Label a)),
                                          (''base_url'', TrimSpace (ka_BaseURL a))],
      ae_ActorIP = he_client_ip E (gc_request c)\<rparr>"

text \<open>\<^verbatim>\<open>err != nil || registered == nil || TrimSpace(registered.ID) == ""\<close>, negated.\<close>

definition registered_ok :: "Auth option result \<Rightarrow> Auth option" where
  "registered_ok r =
     (case r of Inl _ \<Rightarrow> None | Inr None \<Rightarrow> None | Inr (Some a) \<Rightarrow> if TrimSpace (au_ID a) = [] then None else Some a)"

fun register_all ::
  "http_env \<Rightarrow> account_env \<Rightarrow> 'm manager \<Rightarrow> int \<Rightarrow> gin_context \<Rightarrow> createProviderKeyAccount list \<Rightarrow> 'm \<Rightarrow> world
   \<Rightarrow> providerKeyResponse list option \<times> 'm \<times> world" where
  "register_all E X M actor c [] m w = (Some [], m, w)"
| "register_all E X M actor c (a # as) m w =
     (case mg_Register M (provider_audit E actor c a) (provider_auth X a) m w of
        (r, m1, w1) \<Rightarrow>
          (case registered_ok r of
             None \<Rightarrow> (None, m1, w1)
           | Some reg \<Rightarrow>
               (case register_all E X M actor c as m1 w1 of
                  (None, m2, w2) \<Rightarrow> (None, m2, w2)
                | (Some rs, m2, w2) \<Rightarrow>
                    (Some (\<lparr>pk_ID = au_ID reg, pk_Provider = au_Provider reg, pk_Label = au_Label reg\<rparr> # rs), m2, w2))))"

definition ProviderKeys_Create_Handler :: "http_env \<Rightarrow> account_env \<Rightarrow> 'm manager option \<Rightarrow> 'm account_handler" where
  "ProviderKeys_Create_Handler E X registrar = account_user (\<lambda>actor c m w.
     case registrar of
       None \<Rightarrow> (account_error 500 ''provider key service is unavailable'', m, w)
     | Some M \<Rightarrow>
         (case ac_bind_accounts X (rq_Body (gc_request c)) of
            None \<Rightarrow> (account_error 400 ''invalid provider key batch'', m, w)
          | Some raw \<Rightarrow>
              (let accounts = map bind_account raw
               in if \<not> validProviderKeyAccounts X accounts then (account_error 400 ''invalid provider key batch'', m, w)
                  else (case register_all E X M actor c accounts m w of
                          (None, m1, w1) \<Rightarrow> (account_error 500 ''register provider key failed'', m1, w1)
                        | (Some rs, m1, w1) \<Rightarrow> ((201, Acc_provider_keys rs), m1, w1)))))"

section \<open>Export and import of OAuth credentials\<close>

definition maxOAuthCredentialImportBytes :: nat where "maxOAuthCredentialImportBytes = 2 ^ 20"
definition maxOAuthCredentialMultipartBytes :: nat where
  "maxOAuthCredentialMultipartBytes = maxOAuthCredentialImportBytes + 64 * 2 ^ 10"

definition export_audit :: "http_env \<Rightarrow> account_env \<Rightarrow> int \<Rightarrow> gin_context \<Rightarrow> Auth \<Rightarrow> AdminAuditLogEntry" where
  "export_audit E X actor c auth =
     \<lparr>ae_ActorUserID = actor, ae_Action = ''oauth.credential.exported'', ae_TargetType = ''upstream_account'', ae_TargetID = au_ID auth,
      ae_Details = json_obj (he_codec E) [(''provider'', au_Provider auth), (''email'', ac_email X auth)],
      ae_ActorIP = he_client_ip E (gc_request c)\<rparr>"

definition OAuth_Export_Handler :: "http_env \<Rightarrow> account_env \<Rightarrow> 'm manager option \<Rightarrow> bool \<Rightarrow> 'm account_handler" where
  "OAuth_Export_Handler E X mg has_audit = account_user (\<lambda>actor c m w.
     case mg of
       None \<Rightarrow> (account_error 500 ''OAuth credential service is unavailable'', m, w)
     | Some M \<Rightarrow>
         (if \<not> has_audit then (account_error 500 ''OAuth credential service is unavailable'', m, w)
          else (case mg_GetByID M m (TrimSpace (gin_Param c ''accountID'')) of
                  None \<Rightarrow> (account_error 404 ''upstream account not found'', m, w)
                | Some auth \<Rightarrow>
                    (if sdk_kind (ac_sdk X) auth \<noteq> AuthKindOAuth then (account_error 400 ''upstream account is not OAuth'', m, w)
                     else (case Audit_Insert (json_valid (he_codec E)) (export_audit E X actor c auth) w of
                             (Inl _, w1) \<Rightarrow> (account_error 500 ''write OAuth export audit failed'', m, w1)
                           | (Inr _, w1) \<Rightarrow>
                               (case sdk_marshal (ac_sdk X) auth of
                                  None \<Rightarrow> (account_error 500 ''encode OAuth credential failed'', m, w1)
                                | Some payload \<Rightarrow> ((200, Acc_export payload), m, w1)))))))"

text \<open>
  \<^verbatim>\<open>http.MaxBytesReader\<close> cuts the body at the limit; a decoder that wants more than the limit gets \<open>Max_bytes\<close>
  where it would have got the end of the input.
\<close>

definition ensureOnlyOneJSONValue :: "account_env \<Rightarrow> string \<Rightarrow> bool \<Rightarrow> import_error + unit" where
  "ensureOnlyOneJSONValue X rest truncated =
     (case ac_scan_any X rest of Scan_space \<Rightarrow> (if truncated then Inl Import_failed else Inr ()) | _ \<Rightarrow> Inl Import_failed)"

definition decodeOAuthCredential :: "account_env \<Rightarrow> string \<Rightarrow> bool \<Rightarrow> import_error + Auth" where
  "decodeOAuthCredential X input truncated =
     (case ac_scan X input of
        Scan_value auth rest \<Rightarrow> (case ensureOnlyOneJSONValue X rest truncated of Inl e \<Rightarrow> Inl e | Inr _ \<Rightarrow> Inr auth)
      | Scan_bad \<Rightarrow> Inl Import_failed
      | _ \<Rightarrow> Inl (if truncated then Max_bytes else Import_failed))"

fun readOAuthCredentialFile :: "mpart list \<Rightarrow> import_error option \<Rightarrow> string option \<Rightarrow> import_error + string" where
  "readOAuthCredentialFile [] (Some e) payload = Inl e"
| "readOAuthCredentialFile [] None payload = (case payload of None \<Rightarrow> Inl Import_failed | Some d \<Rightarrow> Inr d)"
| "readOAuthCredentialFile (part # parts) ending payload =
     (if mp_FormName part \<noteq> ''file'' then
        (case mp_data part of
           Inl e \<Rightarrow> Inl e
         | Inr _ \<Rightarrow> (case mp_close part of Some e \<Rightarrow> Inl e | None \<Rightarrow> readOAuthCredentialFile parts ending payload))
      else (case payload of
              Some _ \<Rightarrow> Inl Import_failed
            | None \<Rightarrow>
                (case mp_data part of
                   Inl e \<Rightarrow> Inl e
                 | Inr data \<Rightarrow>
                     (case mp_close part of
                        Some e \<Rightarrow> Inl e
                      | None \<Rightarrow>
                          (if length data > maxOAuthCredentialImportBytes then Inl Too_large
                           else readOAuthCredentialFile parts ending (Some data))))))"

definition decodeOAuthCredentialRequest :: "account_env \<Rightarrow> gin_context \<Rightarrow> import_error + Auth" where
  "decodeOAuthCredentialRequest X c =
     (let contentType = TrimSpace (Values_Get (rq_Header (gc_request c)) ''Content-Type'');
          body = rq_Body (gc_request c);
          max_bytes = (\<lambda>e. if e = Max_bytes then Too_large else e)
      in case (if contentType = [] then Some [] else ac_media X contentType) of
           None \<Rightarrow> Inl Import_failed
         | Some mediaType \<Rightarrow>
             (if mediaType = [] \<or> mediaType = ''application/json''
              then map_sum max_bytes id (decodeOAuthCredential X (take maxOAuthCredentialImportBytes body)
                                           (length body > maxOAuthCredentialImportBytes))
              else if mediaType = ''multipart/form-data'' then
                (case ac_multipart X (gc_request c) maxOAuthCredentialMultipartBytes of
                   None \<Rightarrow> Inl Import_failed
                 | Some (parts, ending) \<Rightarrow>
                     (case readOAuthCredentialFile parts ending None of
                        Inl e \<Rightarrow> Inl (max_bytes e)
                      | Inr payload \<Rightarrow> decodeOAuthCredential X payload False))
              else Inl Unsupported_media))"

definition hasDuplicate :: "account_env \<Rightarrow> 'm manager \<Rightarrow> 'm \<Rightarrow> string \<Rightarrow> string \<Rightarrow> bool" where
  "hasDuplicate X M m provider email =
     list_ex (\<lambda>e. case e of
         None \<Rightarrow> False
       | Some existing \<Rightarrow>
           sdk_kind (ac_sdk X) existing = AuthKindOAuth \<and> EqualFold (TrimSpace (au_Provider existing)) provider \<and>
           EqualFold (TrimSpace (ac_email X existing)) email) (mg_List M m)"

definition import_audit :: "http_env \<Rightarrow> int \<Rightarrow> gin_context \<Rightarrow> string \<Rightarrow> string \<Rightarrow> AdminAuditLogEntry" where
  "import_audit E actor c provider email =
     \<lparr>ae_ActorUserID = actor, ae_Action = ''oauth.credential.imported'', ae_TargetType = ''upstream_account'', ae_TargetID = ''pending'',
      ae_Details = json_obj (he_codec E) [(''provider'', provider), (''email'', email)], ae_ActorIP = he_client_ip E (gc_request c)\<rparr>"

definition OAuth_Import_Handler :: "http_env \<Rightarrow> account_env \<Rightarrow> 'm manager option \<Rightarrow> 'm account_handler" where
  "OAuth_Import_Handler E X mg = account_user (\<lambda>actor c m w.
     case mg of
       None \<Rightarrow> (account_error 500 ''OAuth credential service is unavailable'', m, w)
     | Some M \<Rightarrow>
         (case decodeOAuthCredentialRequest X c of
            Inl Too_large \<Rightarrow> (account_error 413 ''OAuth credential is too large'', m, w)
          | Inl Unsupported_media \<Rightarrow> (account_error 415 ''unsupported OAuth credential content type'', m, w)
          | Inl _ \<Rightarrow> (account_error 400 ''invalid OAuth credential'', m, w)
          | Inr auth \<Rightarrow>
              (let provider = TrimSpace (au_Provider auth); email = TrimSpace (ac_email X auth)
               in if provider = [] \<or> email = [] \<or> sdk_kind (ac_sdk X) auth \<noteq> AuthKindOAuth
                  then (account_error 400 ''invalid OAuth credential'', m, w)
                  else if hasDuplicate X M m provider email then (account_error 409 ''OAuth credential already exists'', m, w)
                  else (case mg_Register M (import_audit E actor c provider email) (auth\<lparr>au_ID := []\<rparr>) m w of
                          (r, m1, w1) \<Rightarrow>
                            (case registered_ok r of
                               None \<Rightarrow> (account_error 500 ''import OAuth credential failed'', m1, w1)
                             | Some reg \<Rightarrow>
                                 ((201, Acc_imported \<lparr>im_ID = au_ID reg, im_Provider = au_Provider reg, im_Email = email\<rparr>), m1, w1))))))"

section \<open>Properties\<close>

lemma account_user_cases:
  assumes "account_user h c m w = (rs, m', w')"
  obtains (refused) "m' = m" "w' = w" "fst rs = 401 \<or> fst rs = 500" "\<exists>e. snd rs = Acc_error e"
  | (passed) actor where "gc_user c = Some actor" "0 < actor" "h actor c m w = (rs, m', w')"
  using assms
  by (auto simp: account_user_def currentUserID_def writeError_def reply_def split: option.splits if_splits)

lemma Audit_Insert_error:
  assumes "Audit_Insert v e w = (Inl x, w')"
  shows "w_db w' = w_db w"
proof (cases "run_query (InsertAdminAuditLog (Some (ae_ActorUserID e)) (ae_Action e) (Some (ae_TargetType e))
      (Some (ae_TargetID e)) (nullableText (ae_Details e)) (ae_ActorIP e)) w")
  case (Pair y w1)
  with assms have "w' = w \<or> ((\<exists>e'. y = Inl e') \<and> w' = w1)" by (auto simp: Audit_Insert_def split: if_splits sum.splits)
  with Pair show ?thesis
    by (cases rule: run_query_cases [OF Pair]) (auto simp: InsertAdminAuditLog_def split: if_splits)
qed


lemma decodeOAuthCredential_ok:
  assumes "decodeOAuthCredential X input truncated = Inr auth"
  obtains rest where "\<not> truncated" "ac_scan X input = Scan_value auth rest" "ac_scan_any X rest = Scan_space"
  using assms
  by (auto simp: decodeOAuthCredential_def ensureOnlyOneJSONValue_def split: json_scan.splits sum.splits if_splits)

lemma readOAuthCredentialFile_ok:
  assumes "readOAuthCredentialFile parts ending payload = Inr d"
    and "\<And>p. payload = Some p \<Longrightarrow> length p \<le> maxOAuthCredentialImportBytes"
  shows "length d \<le> maxOAuthCredentialImportBytes"
  using assms
  by (induction parts ending payload rule: readOAuthCredentialFile.induct)
    (auto split: option.splits if_splits sum.splits)

lemma decodeOAuthCredentialRequest_ok:
  assumes "decodeOAuthCredentialRequest X c = Inr auth"
  obtains input rest where "length input \<le> maxOAuthCredentialImportBytes" "ac_scan X input = Scan_value auth rest"
    "ac_scan_any X rest = Scan_space"
proof -
  let ?body = "rq_Body (gc_request c)"
  consider (json) "decodeOAuthCredential X (take maxOAuthCredentialImportBytes ?body) (length ?body > maxOAuthCredentialImportBytes) = Inr auth"
    | (form) parts ending payload where "readOAuthCredentialFile parts ending None = Inr payload" "decodeOAuthCredential X payload False = Inr auth"
    using assms
    by (auto simp: decodeOAuthCredentialRequest_def Let_def map_sum_def split: option.splits if_splits sum.splits)
  then show thesis
  proof cases
    case json
    then obtain rest where "ac_scan X (take maxOAuthCredentialImportBytes ?body) = Scan_value auth rest" "ac_scan_any X rest = Scan_space"
      by (rule decodeOAuthCredential_ok)
    then show thesis by (intro that) auto
  next
    case form
    from readOAuthCredentialFile_ok [OF form(1)] have "length payload \<le> maxOAuthCredentialImportBytes" by simp
    with decodeOAuthCredential_ok [OF form(2)] show thesis by (metis that)
  qed
qed


section \<open>The verdict of an account test\<close>

text \<open>Where a probe may go.\<close>

definition probe_target_ok :: "account_env \<Rightarrow> Auth \<Rightarrow> string \<Rightarrow> bool" where
  "probe_target_ok X auth target =
     (HasPrefix target ''https://api.anthropic.com/'' \<or> HasPrefix target ''https://chatgpt.com/'' \<or>
      HasPrefix target ''https://generativelanguage.googleapis.com/'' \<or>
      (TrimSpace (attribute auth ''base_url'') \<noteq> [] \<and> target = trim_right CHR ''/'' (TrimSpace (attribute auth ''base_url'')) @ ''/models''))"

lemma probeRequest_target: "probeRequest X auth = Inr pb \<Longrightarrow> probe_target_ok X auth (pb_target pb)"
  by (auto simp: probeRequest_def probe_target_ok_def HasPrefix_def Let_def split: if_splits)

text \<open>
  What the test of an account reports. A result belongs to the account of the manager with that ID. For an OAuth account
  it is valid exactly if the provider refreshed the credential and the manager stored the new one, and
  otherwise no account changed; for an API key it is valid exactly if the probe was answered with a 2xx status, no account
  changed, and the probe went to one of the three known hosts or to the base URL of the account.
\<close>

theorem account_test_verdict:
  assumes "Checker_Test X (Some M) audit i m w = (Inr res, m', w')"
  shows "\<exists>auth ex. mg_GetByID M m (TrimSpace i) = Some auth \<and> mg_Executor M m (au_Provider auth) = Some ex \<and>
    (case sdk_kind (ac_sdk X) auth of
       AuthKindOAuth \<Rightarrow>
         (if tr_Valid res
          then (\<exists>new w1 stored. ex_Refresh ex auth w = (Inr (Some new), w1) \<and> mg_Update M audit new m w1 = (Inr (Some stored), m', w') \<and>
                  res = resultForAuth X stored MethodRefresh 200 True [])
          else m' = m \<and> (\<nexists>new. fst (ex_Refresh ex auth w) = Inr (Some new)))
     | AuthKindAPIKey \<Rightarrow>
         m' = m \<and> (\<exists>pb. probeRequest X auth = Inr pb \<and> probe_target_ok X auth (pb_target pb) \<and>
           (tr_Valid res \<longleftrightarrow> (\<exists>code. fst (ex_HttpRequest ex auth pb w) = Probe_status code \<and> 200 \<le> code \<and> code < 300)))
     | AuthKindOther \<Rightarrow> False)"
proof -
  from assms obtain auth ex where f: "mg_GetByID M m (TrimSpace i) = Some auth" "mg_Executor M m (au_Provider auth) = Some ex"
    by (auto simp: Checker_Test_def split: option.splits)
  show ?thesis
  proof (cases "sdk_kind (ac_sdk X) auth")
    case AuthKindOAuth
    with assms f have "testOAuth X M audit auth ex m w = (Inr res, m', w')" by (simp add: Checker_Test_def)
    then have "if tr_Valid res
          then (\<exists>new w1 stored. ex_Refresh ex auth w = (Inr (Some new), w1) \<and> mg_Update M audit new m w1 = (Inr (Some stored), m', w') \<and>
                  res = resultForAuth X stored MethodRefresh 200 True [])
          else m' = m \<and> (\<nexists>new. fst (ex_Refresh ex auth w) = Inr (Some new))"
      by (auto simp: testOAuth_def resultForAuth_def split: prod.splits sum.splits option.splits)
    with AuthKindOAuth f show ?thesis by auto
  next
    case AuthKindAPIKey
    with assms f have t: "testAPIKey X auth ex m w = (Inr res, m', w')" by (simp add: Checker_Test_def)
    then obtain pb where pb: "probeRequest X auth = Inr pb" by (auto simp: testAPIKey_def split: sum.splits)
    with t have "m' = m \<and> (tr_Valid res \<longleftrightarrow> (\<exists>code. fst (ex_HttpRequest ex auth pb w) = Probe_status code \<and> 200 \<le> code \<and> code < 300))"
      by (auto simp: testAPIKey_def resultForAuth_def split: prod.splits executor_response.splits if_splits)
    with AuthKindAPIKey f pb probeRequest_target [OF pb] show ?thesis by auto
  next
    case AuthKindOther
    with assms f show ?thesis by (simp add: Checker_Test_def)
  qed
qed

section \<open>Concrete runs\<close>

text \<open>A manager that keeps its accounts in a list, numbers them, and refuses the provider \<open>bad\<close>.\<close>

definition list_manager :: "Auth list manager" where
  "list_manager =
     \<lparr>mg_GetByID = (\<lambda>m i. find (\<lambda>a. au_ID a = i) m), mg_List = map Some,
      mg_Executor = (\<lambda>m p. Some \<lparr>ex_Refresh = (\<lambda>a w. (Inr (Some a), w)), ex_HttpRequest = (\<lambda>a p w. (Probe_status 204, w))\<rparr>),
      mg_Register = (\<lambda>audit a m w. if au_Provider a = ''bad'' then (Inl (ErrMsg ''refused''), m, w)
                                   else let b = a\<lparr>au_ID := ''acc'' @ nat_digits (length m)\<rparr> in (Inr (Some b), m @ [b], w)),
      mg_Update = (\<lambda>audit a m w. (Inr (Some a), m, w))\<rparr>"

definition toy_accounts :: account_env where
  "toy_accounts =
     \<lparr>ac_sdk = toy_sdk, ac_expiration = (\<lambda>_. None), ac_email = au_Label, ac_credits = (\<lambda>_. None), ac_parse_uri = (\<lambda>_. None),
      ac_query_escape = id, ac_valid_target = (\<lambda>_. True),
      ac_bind_accounts = (\<lambda>_. Some [(''codex'', ''k1'', [], ''one''), (''bad'', ''k2'', [], ''two'')]),
      ac_media = Some, ac_scan = (\<lambda>s. Scan_value (sample_auth\<lparr>au_Label := s\<rparr>) []), ac_scan_any = (\<lambda>_. Scan_space),
      ac_multipart = (\<lambda>_ _. None), AttributeAuthKind = ''auth_kind'', AttributeAPIKey = ''api_key'', AuthKindAPIKey_text = ''api_key''\<rparr>"

definition toy_http :: http_env where
  "toy_http = \<lparr>he_has = (\<lambda>_. True), he_crypto = plain_crypto, he_sha = id, he_codec = \<lparr>json_valid = (\<lambda>_. True), json_obj = (\<lambda>_. ''{}'')\<rparr>,
     he_client_ip = (\<lambda>_. None), he_parse_time = (\<lambda>_. None), he_bind_login = (\<lambda>_. None), he_bind_key = (\<lambda>_. None),
     he_bind_status = (\<lambda>b. Some b), he_bind_model = (\<lambda>_. None)\<rparr>"

definition admin_context :: "string \<Rightarrow> gin_context" where
  "admin_context body = \<lparr>gc_request = (cookie_request_of ''root'')\<lparr>rq_Body := body\<rparr>, gc_params = [(''accountID'', ''acc'')],
     gc_user = Some 1, gc_role = Some ''admin''\<rparr>"



theorem account_test_verdict_witness:
  "\<exists>res m' w' new w1 stored. Checker_Test toy_accounts (Some list_manager) (import_audit toy_http 1 (admin_context []) [] []) ''acc'' [sample_auth] (start_world key_db 0) = (Inr res, m', w') \<and>
     tr_Valid res \<and> mg_Update list_manager (import_audit toy_http 1 (admin_context []) [] []) new [sample_auth] w1 = (Inr (Some stored), m', w')"
proof -
  let ?a = "import_audit toy_http 1 (admin_context []) [] []"
  let ?t = "Checker_Test toy_accounts (Some list_manager) ?a ''acc'' [sample_auth] (start_world key_db 0)"
  have v: "(case fst ?t of Inl _ \<Rightarrow> False | Inr res \<Rightarrow> tr_Valid res)" by code_simp
  obtain x m' w' where "?t = (x, m', w')" by (metis prod_cases3)
  with v obtain res where t: "?t = (Inr res, m', w')" and r: "tr_Valid res" by (cases x) auto
  have k: "sdk_kind (ac_sdk toy_accounts) a = AuthKindOAuth" for a by (simp add: toy_accounts_def toy_sdk_def)
  from account_test_verdict [OF t] k r obtain new w1 stored where
    "mg_Update list_manager ?a new [sample_auth] w1 = (Inr (Some stored), m', w')" by auto
  with t r show ?thesis by blast
qed

text \<open>A batch of provider keys is not atomic: the second account is refused, the answer is 500, and the first one stays.\<close>

lemma provider_key_batch_not_atomic:
  "fst (fst (ProviderKeys_Create_Handler toy_http toy_accounts (Some list_manager) (admin_context []) [] (start_world key_db 0))) = 500 \<and>
   map au_Label (fst (snd (ProviderKeys_Create_Handler toy_http toy_accounts (Some list_manager) (admin_context []) [] (start_world key_db 0)))) = [''one'']"
  by code_simp

end
