(* ===== verification/Interleaving.thy ===== *)
theory Interleaving
  imports Database Ttl_Cache
begin

text \<open>
  Concurrent calls on several replicas, for any part of the program that keeps state in a replica. A service says how
  a call goes on: its steps are what is atomic in the program, one operation on the memory of the replica under its
  mutex or one SQL statement. A cluster has any number of replicas and of calls in flight; their steps interleave with one
  another and with the rest of the system. The locale \<open>interleaving\<close> proves once that what every step keeps holds in
  every state of every execution.
\<close>

text \<open>The memory of a replica is caches: what a read gives and keeps.\<close>

lemma TTL_Get_keeps:
  assumes "TTL_Get t k c = (hit, c')"
  shows "ttl_life c' = ttl_life c" and "ttlc.all_live P c \<Longrightarrow> ttlc.all_live P c'"
    and "ttlc.all_live P c \<Longrightarrow> hit = Some v \<Longrightarrow> P t k v"
  using assms ttlc.life_get [of t k c] ttlc.all_live_get [of P c t k] ttlc.all_live_hit [of P c t k v c'] by auto

section \<open>Services and clusters\<close>

record ('r, 'c) service =
  sv_step :: "'c \<Rightarrow> 'r \<Rightarrow> world \<Rightarrow> 'c \<times> 'r \<times> world"
  sv_done :: "'c \<Rightarrow> bool"
  sv_start :: "'c \<Rightarrow> bool"
  sv_timed :: "'c \<Rightarrow> bool"
  sv_new :: 'r

record 'c goroutine =
  go_replica :: nat
  go_started :: instant
  go_call :: 'c

record ('r, 'c) cluster =
  cl_replicas :: "nat \<Rightarrow> 'r"
  cl_calls :: "'c goroutine list"
  cl_world :: world

text \<open>One step of the \<open>i\<close>-th goroutine; a timed call takes its steps within \<open>\<delta>\<close> after it started.\<close>

definition goes :: "('r, 'c) service \<Rightarrow> duration \<Rightarrow> nat \<Rightarrow> 'c \<Rightarrow> ('r, 'c) cluster \<Rightarrow> ('r, 'c) cluster \<Rightarrow> bool" where
  "goes S \<delta> i pc' s s' =
     (i < length (cl_calls s) \<and>
      (let g = cl_calls s ! i; j = go_replica g
       in case sv_step S (go_call g) (cl_replicas s j) (cl_world s) of
            (pc1, r1, w1) \<Rightarrow>
              \<not> sv_done S (go_call g) \<and> pc' = pc1 \<and> (sv_timed S (go_call g) \<longrightarrow> w_clock w1 \<le> go_started g + \<delta>) \<and>
              s' = \<lparr>cl_replicas = (cl_replicas s)(j := r1), cl_calls = (cl_calls s)[i := g\<lparr>go_call := pc1\<rparr>], cl_world = w1\<rparr>))"

lemma goesE:
  assumes "goes S \<delta> i pc' s s'"
  obtains g r' w' where "i < length (cl_calls s)" "g = cl_calls s ! i" "g \<in> set (cl_calls s)" "\<not> sv_done S (go_call g)"
    "sv_step S (go_call g) (cl_replicas s (go_replica g)) (cl_world s) = (pc', r', w')"
    "sv_timed S (go_call g) \<longrightarrow> w_clock w' \<le> go_started g + \<delta>"
    "s' = \<lparr>cl_replicas = (cl_replicas s)(go_replica g := r'), cl_calls = (cl_calls s)[i := g\<lparr>go_call := pc'\<rparr>], cl_world = w'\<rparr>"
  using assms by (auto simp: goes_def Let_def split: prod.splits)

text \<open>
  Calls start on any replica at any time, goroutines take steps in any order, replicas crash and restart with
  fresh memory, and meanwhile time passes and everything else changes the database within \<open>R\<close>.
\<close>

inductive cluster_step :: "('r, 'c) service \<Rightarrow> (database \<Rightarrow> database \<Rightarrow> bool) \<Rightarrow> duration \<Rightarrow> ('r, 'c) cluster \<Rightarrow> ('r, 'c) cluster \<Rightarrow> bool"
  for S R \<delta> where
  cluster_call: "sv_start S pc \<Longrightarrow>
     cluster_step S R \<delta> s (s\<lparr>cl_calls := cl_calls s @ [\<lparr>go_replica = j, go_started = w_clock (cl_world s), go_call = pc\<rparr>]\<rparr>)"
| cluster_go: "goes S \<delta> i pc s s' \<Longrightarrow> cluster_step S R \<delta> s s'"
| cluster_restart: "cluster_step S R \<delta> s
     (s\<lparr>cl_replicas := (cl_replicas s)(j := sv_new S), cl_calls := filter (\<lambda>g. go_replica g \<noteq> j) (cl_calls s)\<rparr>)"
| cluster_environment: "w_clock (cl_world s) \<le> w_clock w' \<Longrightarrow> w_tz w' = w_tz (cl_world s) \<Longrightarrow> wf_db (w_db w') \<Longrightarrow>
     R (w_db (cl_world s)) (w_db w') \<Longrightarrow> cluster_step S R \<delta> s (s\<lparr>cl_world := w'\<rparr>)"

abbreviation cluster_steps where "cluster_steps S R \<delta> \<equiv> (cluster_step S R \<delta>)\<^sup>*\<^sup>*"

definition new_cluster :: "('r, 'c) service \<Rightarrow> world \<Rightarrow> ('r, 'c) cluster" where
  "new_cluster S w = \<lparr>cl_replicas = (\<lambda>_. sv_new S), cl_calls = [], cl_world = w\<rparr>"

lemma cluster_step_any: "cluster_step S R \<delta> s s' \<Longrightarrow> cluster_step S (\<lambda>_ _. True) \<delta> s s'"
  by (induction rule: cluster_step.induct) (auto intro: cluster_step.intros)

lemma cluster_steps_any: "cluster_steps S R \<delta> s s' \<Longrightarrow> cluster_steps S (\<lambda>_ _. True) \<delta> s s'"
  by (induction rule: rtranclp_induct) (auto intro: cluster_step_any rtranclp.rtrancl_into_rtrancl)

section \<open>Invariants\<close>

text \<open>What a step may do to the world.\<close>

definition passes :: "(database \<Rightarrow> database \<Rightarrow> bool) \<Rightarrow> world \<Rightarrow> world \<Rightarrow> bool" where
  "passes R w w' = (w_clock w \<le> w_clock w' \<and> (w_db w' = w_db w \<or> R (w_db w) (w_db w')))"

text \<open>
  \<open>G\<close> is a fact about the world, \<open>I\<close> about the memory of a replica, and \<open>J\<close> about a call that started at an instant.
\<close>

locale interleaving =
  fixes S :: "('r, 'c) service" and R :: "database \<Rightarrow> database \<Rightarrow> bool" and \<delta> :: duration
    and G :: "world \<Rightarrow> bool" and I :: "world \<Rightarrow> 'r \<Rightarrow> bool" and J :: "world \<Rightarrow> instant \<Rightarrow> 'c \<Rightarrow> bool"
  assumes call_step: "sv_step S pc r w = (pc', r', w') \<Longrightarrow> G w \<Longrightarrow> I w r \<Longrightarrow> J w t0 pc \<Longrightarrow> t0 \<le> w_clock w \<Longrightarrow>
       (sv_timed S pc \<longrightarrow> w_clock w' \<le> t0 + \<delta>) \<Longrightarrow> G w' \<and> I w' r' \<and> J w' t0 pc' \<and> passes R w w'"
    and world_passes: "passes R w w' \<Longrightarrow> wf_db (w_db w') \<Longrightarrow> G w \<Longrightarrow> G w'"
    and replica_passes: "passes R w w' \<Longrightarrow> I w r \<Longrightarrow> I w' r"
    and call_passes: "passes R w w' \<Longrightarrow> J w t0 pc \<Longrightarrow> J w' t0 pc"
    and call_starts: "sv_start S pc \<Longrightarrow> J w (w_clock w) pc"
    and replica_new: "I w (sv_new S)"
begin

definition inv :: "('r, 'c) cluster \<Rightarrow> bool" where
  "inv s =
     (G (cl_world s) \<and> (\<forall>j. I (cl_world s) (cl_replicas s j)) \<and>
      (\<forall>g \<in> set (cl_calls s). go_started g \<le> w_clock (cl_world s) \<and> J (cl_world s) (go_started g) (go_call g)))"

lemma invD:
  assumes "inv s"
  shows "G (cl_world s)" "I (cl_world s) (cl_replicas s j)"
    and "g \<in> set (cl_calls s) \<Longrightarrow> go_started g \<le> w_clock (cl_world s)" "g \<in> set (cl_calls s) \<Longrightarrow> J (cl_world s) (go_started g) (go_call g)"
  using assms by (auto simp: inv_def)

lemma goes_inv:
  assumes "goes S \<delta> i pc' s s'" and "inv s"
  shows "inv s'"
  using assms(1)
proof (cases rule: goesE)
  case (1 g r' w')
  note old = invD [OF assms(2)]
  note k = call_step [OF 1(5) old(1,2) old(4) [OF 1(3)] old(3) [OF 1(3)] 1(6)]
  then have p: "passes R (cl_world s) w'" by simp
  have "go_started h \<le> w_clock w' \<and> J w' (go_started h) (go_call h)" if "h \<in> set (cl_calls s')" for h
  proof (cases "h \<in> set (cl_calls s)")
    case True
    with p old(3,4) call_passes [OF p] show ?thesis by (auto simp: passes_def intro: order_trans)
  next
    case False
    with that 1(7) set_update_subset_insert [of "cl_calls s" i] have "h = g\<lparr>go_call := pc'\<rparr>" by auto
    with k old(3) [OF 1(3)] p show ?thesis by (auto simp: passes_def)
  qed
  with k old(2) replica_passes [OF p] show ?thesis by (auto simp: inv_def 1(7))
qed

lemma step_inv: "cluster_step S R \<delta> s s' \<Longrightarrow> inv s \<Longrightarrow> inv s'"
proof (induction rule: cluster_step.induct)
  case (cluster_call pc s j)
  then show ?case by (auto simp: inv_def call_starts)
next
  case (cluster_go i pc s s')
  then show ?case by (rule goes_inv)
next
  case (cluster_restart s j)
  then show ?case by (auto simp: inv_def replica_new)
next
  case (cluster_environment s w')
  then have p: "passes R (cl_world s) w'" by (simp add: passes_def)
  with cluster_environment show ?case
    by (auto simp: inv_def intro: world_passes [OF p] replica_passes [OF p] call_passes [OF p] order_trans)
qed

lemma steps_inv: "cluster_steps S R \<delta> s s' \<Longrightarrow> inv s \<Longrightarrow> inv s'"
  by (induction rule: rtranclp_induct) (auto intro: step_inv)

lemma inv_new: "G w \<Longrightarrow> inv (new_cluster S w)"
  by (simp add: inv_def new_cluster_def replica_new)

end

section \<open>Schedules\<close>

text \<open>A schedule is a list of actions; running it gives an execution.\<close>

datatype 'c action = Call nat 'c | Go nat | Wait nat

fun run_actions :: "('r, 'c) service \<Rightarrow> duration \<Rightarrow> 'c action list \<Rightarrow> ('r, 'c) cluster \<Rightarrow> ('r, 'c) cluster option" where
  "run_actions S \<delta> [] s = Some s"
| "run_actions S \<delta> (Call j pc # as) s =
     (if sv_start S pc
      then run_actions S \<delta> as (s\<lparr>cl_calls := cl_calls s @ [\<lparr>go_replica = j, go_started = w_clock (cl_world s), go_call = pc\<rparr>]\<rparr>)
      else None)"
| "run_actions S \<delta> (Go i # as) s =
     (if i < length (cl_calls s) \<and> \<not> sv_done S (go_call (cl_calls s ! i))
      then (let g = cl_calls s ! i; j = go_replica g
            in case sv_step S (go_call g) (cl_replicas s j) (cl_world s) of
                 (pc1, r1, w1) \<Rightarrow>
                   if w_clock w1 \<le> go_started g + \<delta>
                   then run_actions S \<delta> as \<lparr>cl_replicas = (cl_replicas s)(j := r1),
                          cl_calls = (cl_calls s)[i := g\<lparr>go_call := pc1\<rparr>], cl_world = w1\<rparr>
                   else None)
      else None)"
| "run_actions S \<delta> (Wait t # as) s =
     (if wf_db (w_db (cl_world s))
      then run_actions S \<delta> as (s\<lparr>cl_world := (cl_world s)\<lparr>w_clock := w_clock (cl_world s) + int t\<rparr>\<rparr>) else None)"

lemma run_actions_steps:
  assumes "\<And>d. R d d" and "run_actions S \<delta> as s = Some s'"
  shows "cluster_steps S R \<delta> s s'"
  using assms(2)
proof (induction S \<delta> as s rule: run_actions.induct)
  case (2 S \<delta> j pc as s)
  then show ?case by (auto split: if_splits intro: converse_rtranclp_into_rtranclp [of "cluster_step S R \<delta>", OF cluster_call])
next
  case (3 S \<delta> i as s)
  let ?g = "cl_calls s ! i"
  obtain pc1 r1 w1 where k: "sv_step S (go_call ?g) (cl_replicas s (go_replica ?g)) (cl_world s) = (pc1, r1, w1)"
    by (metis prod_cases3)
  let ?s = "\<lparr>cl_replicas = (cl_replicas s)(go_replica ?g := r1), cl_calls = (cl_calls s)[i := ?g\<lparr>go_call := pc1\<rparr>], cl_world = w1\<rparr>"
  from 3(2) k have c: "i < length (cl_calls s) \<and> \<not> sv_done S (go_call ?g)" "w_clock w1 \<le> go_started ?g + \<delta>"
    "run_actions S \<delta> as ?s = Some s'" by (simp_all add: Let_def split: if_splits)
  then have "goes S \<delta> i pc1 s ?s" by (simp add: goes_def k Let_def)
  then have "cluster_step S R \<delta> s ?s" by (rule cluster_go)
  moreover have "cluster_steps S R \<delta> ?s s'" by (rule 3(1) [OF c(1) refl refl k [symmetric] refl c(2,3)])
  ultimately show ?case by (rule converse_rtranclp_into_rtranclp)
next
  case (4 S \<delta> t as s)
  let ?w = "(cl_world s)\<lparr>w_clock := w_clock (cl_world s) + int t\<rparr>"
  from 4(2) have wf: "wf_db (w_db (cl_world s))" and rest: "run_actions S \<delta> as (s\<lparr>cl_world := ?w\<rparr>) = Some s'"
    by (simp_all split: if_splits)
  have "cluster_step S R \<delta> s (s\<lparr>cl_world := ?w\<rparr>)" by (rule cluster_environment) (use wf assms(1) in simp_all)
  then show ?case using 4(1) [OF wf rest] by (rule converse_rtranclp_into_rtranclp)
qed simp

end
