(* ===== verification/Key_Interleaving.thy ===== *)
theory Key_Interleaving
  imports Api_Keys_Genuine Interleaving
begin

text \<open>
  The API key repository under concurrency. Each call of \<open>authenticate\<close>, \<open>Create\<close>, \<open>Revoke\<close> and \<open>InvalidateUser\<close> is
  broken up into the steps that are atomic in the program: an operation of a cache under its mutex, or one
  SQL statement. The guarantees of a cluster hold for every interleaving of these steps.
\<close>

section \<open>One call, step by step\<close>

text \<open>Where a goroutine stands; the constructors are named after the action that comes next.\<close>

datatype key_call =
    Verified_Get string string
  | Candidates_Get string string
  | Candidates_Query string string
  | Candidates_Set string string "apiKeyCandidate list"
  | Candidate_Try string string "apiKeyCandidate list"
  | Verified_Set string string APIKeyPrincipal
  | Authenticated "APIKeyPrincipal result"
  | Revoke_Statement int int
  | Clear_Candidates
  | Clear_Verified
  | Revoked "unit result"
  | Drop_User int
  | Dropped
  | Create_Hash CreateAPIKeyParams
  | Create_Insert CreateAPIKeyParams string
  | Delete_Candidates string "string list" api_key_row
  | Created "APIKey result"

abbreviation ckey :: "string \<Rightarrow> string \<Rightarrow> apiKeyCacheKey" where
  "ckey pl source \<equiv> \<lparr>cc_prefix = take APIKeyPrefixLength pl, cc_identitySource = source\<rparr>"

abbreviation vkey :: "crypto \<Rightarrow> string \<Rightarrow> string \<Rightarrow> verifiedAPIKeyCacheKey" where
  "vkey C pl source \<equiv> \<lparr>vk_digest = sha256 C pl, vk_identitySource = source\<rparr>"

text \<open>The query of \<open>findCandidates\<close>.\<close>

definition candidates_query :: "apiKeyCacheKey \<Rightarrow> world \<Rightarrow> (api_key_row \<times> string) list result \<times> world" where
  "candidates_query key w =
     (if cc_identitySource key = [] then run_query (FindAPIKeyCandidates (cc_prefix key)) w
      else run_query (FindAPIKeyCandidatesForSource (cc_prefix key) (cc_identitySource key)) w)"

fun key_step :: "crypto \<Rightarrow> key_call \<Rightarrow> APIKeyRepository \<Rightarrow> world \<Rightarrow> key_call \<times> APIKeyRepository \<times> world" where
  "key_step C (Verified_Get pl source) r w =
     (let (now, w1) = time_Now w; (hit, vc) = TTL_Get now (vkey C pl source) (verifiedCache r)
      in (case hit of Some p \<Rightarrow> Authenticated (Inr p) | None \<Rightarrow> Candidates_Get pl source, r\<lparr>verifiedCache := vc\<rparr>, w1))"
| "key_step C (Candidates_Get pl source) r w =
     (let (now, w1) = time_Now w; (hit, cc) = TTL_Get now (ckey pl source) (candidatesCache r)
      in (case hit of Some cs \<Rightarrow> Candidate_Try pl source cs | None \<Rightarrow> Candidates_Query pl source, r\<lparr>candidatesCache := cc\<rparr>, w1))"
| "key_step C (Candidates_Query pl source) r w =
     (case candidates_query (ckey pl source) w of
        (Inl e, w1) \<Rightarrow> (Authenticated (Inl (Wrapf ''find API-key candidates'' e)), r, w1)
      | (Inr rows, w1) \<Rightarrow> (Candidates_Set pl source (map (candidate_of_row \<circ> fst) rows), r, w1))"
| "key_step C (Candidates_Set pl source cs) r w =
     (let (now, w1) = time_Now w
      in (Candidate_Try pl source cs, r\<lparr>candidatesCache := TTL_Set now (ckey pl source) cs (candidatesCache r)\<rparr>, w1))"
| "key_step C (Candidate_Try pl source []) r w = (Authenticated (Inl ErrInvalidCredential), r, w)"
| "key_step C (Candidate_Try pl source (c # cs)) r w =
     (if \<not> VerifySecret C (cand_keyHash c) pl then (Candidate_Try pl source cs, r, w)
      else (case userIsActive (cand_userID c) w of
              (Inl e, w1) \<Rightarrow> (Authenticated (Inl e), r, w1)
            | (Inr active, w1) \<Rightarrow>
                (if active then Verified_Set pl source \<lparr>pr_UserID = cand_userID c, pr_APIKeyID = cand_id c\<rparr>
                 else Candidate_Try pl source cs, r, w1)))"
| "key_step C (Verified_Set pl source p) r w =
     (let (now, w1) = time_Now w
      in (Authenticated (Inr p), r\<lparr>verifiedCache := TTL_Set now (vkey C pl source) p (verifiedCache r)\<rparr>, w1))"
| "key_step C (Revoke_Statement userID keyID) r w =
     (case run_query (RevokeAPIKey keyID userID) w of
        (Inl e, w1) \<Rightarrow> (Revoked (Inl (Wrapf ''revoke API-key'' e)), r, w1)
      | (Inr revoked, w1) \<Rightarrow> (if revoked = 0 then Revoked (Inl ErrNotFound) else Clear_Candidates, r, w1))"
| "key_step C Clear_Candidates r w = (Clear_Verified, r\<lparr>candidatesCache := TTL_Clear (candidatesCache r)\<rparr>, w)"
| "key_step C Clear_Verified r w = (Revoked (Inr ()), r\<lparr>verifiedCache := TTL_Clear (verifiedCache r)\<rparr>, w)"
| "key_step C (Drop_User i) r w = (Dropped, Keys_InvalidateUser i r, w)"
| "key_step C (Authenticated x) r w = (Authenticated x, r, w)"
| "key_step C (Revoked x) r w = (Revoked x, r, w)"
| "key_step C Dropped r w = (Dropped, r, w)"
| "key_step C (Create_Hash p) r w =
     (if ck_UserID p \<le> 0 \<or> length (ck_Plaintext p) < APIKeyPrefixLength then (Created (Inl ErrInvalidInput), r, w)
      else (case HashSecret C (ck_Plaintext p) w of
              (Inl e, w1) \<Rightarrow> (Created (Inl (Wrapf ''hash API-key'' e)), r, w1)
            | (Inr hash, w1) \<Rightarrow> (Create_Insert p hash, r, w1)))"
| "key_step C (Create_Insert p hash) r w =
     (case run_query (CreateAPIKey_q (ck_UserID p) hash (take APIKeyPrefixLength (ck_Plaintext p))
             (nullableText (ck_Name p)) (ck_ExpiresAt p) (nullableText (ck_Scope p))) w of
        (Inl e, w1) \<Rightarrow> (Created (Inl (Wrapf ''create API-key'' e)), r, w1)
      | (Inr row, w1) \<Rightarrow> (Delete_Candidates (take APIKeyPrefixLength (ck_Plaintext p)) [[], ''ldap'', ''static''] row, r, w1))"
| "key_step C (Delete_Candidates pref [] row) r w = (Created (Inr (apiKeyFromDB row)), r, w)"
| "key_step C (Delete_Candidates pref (source # sources) row) r w =
     (Delete_Candidates pref sources row,
      r\<lparr>candidatesCache := TTL_Delete \<lparr>cc_prefix = pref, cc_identitySource = source\<rparr> (candidatesCache r)\<rparr>, w)"
| "key_step C (Created x) r w = (Created x, r, w)"

fun call_done :: "key_call \<Rightarrow> bool" where
  "call_done (Authenticated _) = True"
| "call_done (Revoked _) = True"
| "call_done Dropped = True"
| "call_done (Created _) = True"
| "call_done _ = False"

text \<open>How far a call still has to go.\<close>

fun call_rank :: "key_call \<Rightarrow> nat \<times> nat" where
  "call_rank (Verified_Get _ _) = (5, 0)"
| "call_rank (Candidates_Get _ _) = (4, 0)"
| "call_rank (Candidates_Query _ _) = (3, 0)"
| "call_rank (Candidates_Set _ _ _) = (2, 0)"
| "call_rank (Candidate_Try _ _ cs) = (1, Suc (length cs))"
| "call_rank (Verified_Set _ _ _) = (1, 0)"
| "call_rank (Revoke_Statement _ _) = (3, 0)"
| "call_rank Clear_Candidates = (2, 0)"
| "call_rank Clear_Verified = (1, 0)"
| "call_rank (Drop_User _) = (1, 0)"
| "call_rank (Create_Hash _) = (3, 0)"
| "call_rank (Create_Insert _ _) = (2, 0)"
| "call_rank (Delete_Candidates _ sources _) = (1, Suc (length sources))"
| "call_rank _ = (0, 0)"

lemma key_step_rank:
  "\<not> call_done pc \<Longrightarrow> key_step C pc r w = (pc', r', w') \<Longrightarrow> (call_rank pc', call_rank pc) \<in> less_than <*lex*> less_than"
  by (cases "(C, pc, r, w)" rule: key_step.cases)
    (auto simp: Let_def split: prod.splits option.splits sum.splits if_splits)

text \<open>A call that nobody disturbs.\<close>

function run_call :: "crypto \<Rightarrow> key_call \<Rightarrow> APIKeyRepository \<Rightarrow> world \<Rightarrow> key_call \<times> APIKeyRepository \<times> world" where
  "run_call C pc r w =
     (if call_done pc then (pc, r, w) else (case key_step C pc r w of (pc1, r1, w1) \<Rightarrow> run_call C pc1 r1 w1))"
  by pat_completeness auto
termination
  by (relation "inv_image (less_than <*lex*> less_than) (\<lambda>(_, pc, _, _). call_rank pc)")
    (auto simp del: in_lex_prod dest!: sym [of "(_, _, _)"] intro: key_step_rank)

declare run_call.simps [simp del]

lemma run_call_done: "call_done pc \<Longrightarrow> run_call C pc r w = (pc, r, w)"
  by (simp add: run_call.simps)

lemma run_call_step: "\<not> call_done pc \<Longrightarrow> key_step C pc r w = (pc1, r1, w1) \<Longrightarrow> run_call C pc r w = run_call C pc1 r1 w1"
  by (simp add: run_call.simps [of C pc])

lemma run_tryCandidates:
  "run_call C (Candidate_Try pl source cs) r w =
   (case tryCandidates C pl (vkey C pl source) cs r w of (x, r', w') \<Rightarrow> (Authenticated x, r', w'))"
proof (induction cs arbitrary: w)
  case Nil
  show ?case by (simp add: run_call_step run_call_done)
next
  case (Cons c cs)
  show ?case
    by (cases "VerifySecret C (cand_keyHash c) pl"; cases "userIsActive (cand_userID c) w")
      (auto simp: run_call_step run_call_done Cons.IH time_Now_def Let_def split: sum.splits)
qed


section \<open>The service\<close>

fun call_start :: "key_call \<Rightarrow> bool" where
  "call_start (Verified_Get _ _) = True"
| "call_start (Revoke_Statement _ _) = True"
| "call_start (Drop_User _) = True"
| "call_start (Create_Hash _) = True"
| "call_start _ = False"

text \<open>The secret and the source that a running authentication is about.\<close>

fun call_request :: "key_call \<Rightarrow> (string \<times> string) option" where
  "call_request (Verified_Get pl source) = Some (pl, source)"
| "call_request (Candidates_Get pl source) = Some (pl, source)"
| "call_request (Candidates_Query pl source) = Some (pl, source)"
| "call_request (Candidates_Set pl source _) = Some (pl, source)"
| "call_request (Candidate_Try pl source _) = Some (pl, source)"
| "call_request (Verified_Set pl source _) = Some (pl, source)"
| "call_request _ = None"

definition key_service :: "crypto \<Rightarrow> (APIKeyRepository, key_call) service" where
  "key_service C = \<lparr>sv_step = key_step C, sv_done = call_done, sv_start = call_start,
     sv_timed = (\<lambda>pc. call_request pc \<noteq> None), sv_new = NewAPIKeyRepository\<rparr>"

lemma key_service_simps [simp]:
  "sv_step (key_service C) = key_step C" "sv_done (key_service C) = call_done" "sv_start (key_service C) = call_start"
  "sv_timed (key_service C) pc \<longleftrightarrow> call_request pc \<noteq> None" "sv_new (key_service C) = NewAPIKeyRepository"
  by (simp_all add: key_service_def)

type_synonym key_cluster = "(APIKeyRepository, key_call) cluster"

lemma candidates_query_frame:
  "candidates_query key w = (x, w') \<Longrightarrow> w_db w' = w_db w \<and> w_clock w \<le> w_clock w' \<and> w_tz w' = w_tz w"
  unfolding candidates_query_def by (rule find_query_db)

lemma candidates_query_lists:
  "candidates_query key w = (Inr rows, w') \<Longrightarrow> c \<in> set (map (candidate_of_row \<circ> fst) rows) \<Longrightarrow>
   listed (w_db w) (day_of w (w_clock w')) (cc_prefix key) (cc_identitySource key) c"
  unfolding candidates_query_def by (auto dest: find_query_lists)

lemma key_step_clock:
  assumes "key_step C pc r w = (pc', r', w')"
  shows "w_clock w \<le> w_clock w' \<and> w_tz w' = w_tz w"
  using assms advance_mono [of w]
  by (cases "(C, pc, r, w)" rule: key_step.cases)
    (auto simp: time_Now_def Let_def split: prod.splits sum.splits if_splits
      dest!: candidates_query_frame userIsActive_cases(1) run_query_clock HashSecret_frame)

lemma key_step_life:
  assumes "key_step C pc r w = (pc', r', w')"
  shows "ttl_life (candidatesCache r') = ttl_life (candidatesCache r) \<and> ttl_life (verifiedCache r') = ttl_life (verifiedCache r)"
  using assms
  by (cases "(C, pc, r, w)" rule: key_step.cases)
    (auto simp: time_Now_def Let_def ttlc.life_simps Keys_InvalidateUser_def TTL_Get_keeps(1)
      split: prod.splits sum.splits if_splits)

section \<open>The safety argument\<close>

text \<open>
  \<open>D\<close> is a fact about the database that the system keeps; \<open>A\<close> and \<open>B\<close> say what the two caches may hold at an
  instant; \<open>H\<close>, \<open>K\<close> and \<open>M\<close> what a call that started at an instant may carry: candidates just read from the
  database, candidates to try, and the principal it is about to remember.
\<close>

locale interleaved_keys =
  fixes C :: crypto and R :: "database \<Rightarrow> database \<Rightarrow> bool" and \<delta> :: duration
    and D :: "database \<Rightarrow> bool"
    and H K :: "database \<Rightarrow> instant \<Rightarrow> string \<Rightarrow> string \<Rightarrow> apiKeyCandidate \<Rightarrow> bool"
    and A :: "database \<Rightarrow> instant \<Rightarrow> apiKeyCacheKey \<Rightarrow> apiKeyCandidate \<Rightarrow> bool"
    and M :: "database \<Rightarrow> instant \<Rightarrow> string \<Rightarrow> string \<Rightarrow> APIKeyPrincipal \<Rightarrow> bool"
    and B :: "database \<Rightarrow> instant \<Rightarrow> verifiedAPIKeyCacheKey \<Rightarrow> APIKeyPrincipal \<Rightarrow> bool"
  assumes R_revoke: "R d (snd (RevokeAPIKey i u w d))"
    and R_create: "R d (snd (CreateAPIKey_q i hash pref nm ex sc w d))"
    and D_rely: "R d d' \<Longrightarrow> wf_db d \<Longrightarrow> wf_db d' \<Longrightarrow> D d \<Longrightarrow> D d'"
    and H_rely: "R d d' \<Longrightarrow> H d t0 pl src c \<Longrightarrow> H d' t0 pl src c"
    and K_rely: "R d d' \<Longrightarrow> K d t0 pl src c \<Longrightarrow> K d' t0 pl src c"
    and M_rely: "R d d' \<Longrightarrow> M d t0 pl src p \<Longrightarrow> M d' t0 pl src p"
    and A_rely: "R d d' \<Longrightarrow> A d t k c \<Longrightarrow> A d' t k c"
    and B_rely: "R d d' \<Longrightarrow> B d t vk p \<Longrightarrow> B d' t vk p"
    and query_H: "wf_db d \<Longrightarrow> D d \<Longrightarrow> listed d today (take APIKeyPrefixLength pl) src c \<Longrightarrow> H d t0 pl src c"
    and H_A: "H d t0 pl src c \<Longrightarrow> t < t0 + \<delta> + apiKeyCacheTTL \<Longrightarrow> A d t (ckey pl src) c"
    and H_K: "H d t0 pl src c \<Longrightarrow> K d t0 pl src c"
    and A_K: "A d t (ckey pl src) c \<Longrightarrow> t0 \<le> t \<Longrightarrow> K d t0 pl src c"
    and K_M: "wf_db d \<Longrightarrow> D d \<Longrightarrow> K d t0 pl src c \<Longrightarrow> user_active d (cand_userID c) \<Longrightarrow>
       VerifySecret C (cand_keyHash c) pl \<Longrightarrow> M d t0 pl src (principal_of c)"
    and M_B: "M d t0 pl src p \<Longrightarrow> t < t0 + \<delta> + apiKeyCacheTTL \<Longrightarrow> B d t (vkey C pl src) p"
begin

definition call_inv :: "database \<Rightarrow> instant \<Rightarrow> key_call \<Rightarrow> bool" where
  "call_inv d t0 pc =
     (case pc of
        Candidates_Set pl src cs \<Rightarrow> \<forall>c \<in> set cs. H d t0 pl src c
      | Candidate_Try pl src cs \<Rightarrow> \<forall>c \<in> set cs. K d t0 pl src c
      | Verified_Set pl src p \<Rightarrow> M d t0 pl src p
      | _ \<Rightarrow> True)"

definition repo_inv :: "database \<Rightarrow> APIKeyRepository \<Rightarrow> bool" where
  "repo_inv d r =
     (ttl_life (candidatesCache r) = apiKeyCacheTTL \<and> ttl_life (verifiedCache r) = apiKeyCacheTTL \<and>
      ttlc.all_live (\<lambda>t k cs. \<forall>c \<in> set cs. A d t k c) (candidatesCache r) \<and> ttlc.all_live (B d) (verifiedCache r))"

lemma call_inv_rely: "R d d' \<Longrightarrow> call_inv d t0 pc \<Longrightarrow> call_inv d' t0 pc"
  by (auto simp: call_inv_def intro: H_rely K_rely M_rely split: key_call.splits)

lemma repo_inv_rely: "R d d' \<Longrightarrow> repo_inv d r \<Longrightarrow> repo_inv d' r"
  by (auto simp: repo_inv_def intro: A_rely B_rely elim!: ttlc.all_live_mono)

lemma repo_inv_new: "repo_inv d NewAPIKeyRepository"
  by (simp add: repo_inv_def NewAPIKeyRepository_def ttlc.all_live_def ttl_live_def NewTTL_def ttl_life_def)

lemma repo_inv_drop: "repo_inv d r \<Longrightarrow> repo_inv d (Keys_InvalidateUser i r)"
  by (auto simp: repo_inv_def Keys_InvalidateUser_def ttlc.life_simps intro!: ttlc.all_live_delw dest: ttlc.all_liveD)

lemma repo_inv_delete: "repo_inv d r \<Longrightarrow> repo_inv d (r\<lparr>candidatesCache := TTL_Delete k (candidatesCache r)\<rparr>)"
  by (auto simp: repo_inv_def ttlc.life_simps ttlc.all_live_del)

lemma statement_inv:
  assumes "run_query q w = (x, w1)" and "wf_db (w_db w)" and "repo_inv (w_db w) r"
    and "\<And>w0. wf_db (snd (q w0 (w_db w))) \<and> R (w_db w) (snd (q w0 (w_db w)))"
  shows "repo_inv (w_db w1) r \<and> wf_db (w_db w1) \<and> (w_db w1 = w_db w \<or> R (w_db w) (w_db w1))"
proof -
  from assms(1) have "w_db w1 = w_db w \<or> (\<exists>w0. w_db w1 = snd (q w0 (w_db w)))"
    by (cases rule: run_query_cases) (auto, metis snd_conv)
  then have "wf_db (w_db w1) \<and> (w_db w1 = w_db w \<or> R (w_db w) (w_db w1))" using assms(2,4) by metis
  with assms(3) show ?thesis by (auto intro: repo_inv_rely)
qed

lemma repo_inv_clear:
  "repo_inv d r \<Longrightarrow> repo_inv d (r\<lparr>candidatesCache := TTL_Clear (candidatesCache r)\<rparr>)"
  "repo_inv d r \<Longrightarrow> repo_inv d (r\<lparr>verifiedCache := TTL_Clear (verifiedCache r)\<rparr>)"
  by (auto simp: repo_inv_def ttlc.life_simps ttlc.all_live_clr)

lemma key_step_inv:
  assumes st: "key_step C pc r w = (pc', r', w')" and wf: "wf_db (w_db w)" and D: "D (w_db w)"
    and ri: "repo_inv (w_db w) r" and ci: "call_inv (w_db w) t0 pc" and t0: "t0 \<le> w_clock w"
    and dl: "call_request pc \<noteq> None \<longrightarrow> w_clock w' \<le> t0 + \<delta>"
  shows "repo_inv (w_db w') r' \<and> call_inv (w_db w') t0 pc' \<and> wf_db (w_db w') \<and> (w_db w' = w_db w \<or> R (w_db w) (w_db w'))"
proof (cases pc)
  case (Verified_Get pl src)
  with st ri show ?thesis
    by (auto simp: time_Now_def Let_def repo_inv_def call_inv_def wf TTL_Get_keeps split: prod.splits option.splits)
next
  case (Candidates_Get pl src)
  let ?now = "w_clock (advance w)"
  obtain hit cc where g: "TTL_Get ?now (ckey pl src) (candidatesCache r) = (hit, cc)" by fastforce
  have all: "ttlc.all_live (\<lambda>t k cs. \<forall>c \<in> set cs. A (w_db w) t k c) (candidatesCache r)" using ri by (simp add: repo_inv_def)
  have "K (w_db w) t0 pl src c" if "hit = Some cs" "c \<in> set cs" for cs c
    using TTL_Get_keeps(3) [OF g all that(1)] that(2) t0 advance_mono [of w] by (intro A_K [of _ ?now]) auto
  with Candidates_Get st g ri TTL_Get_keeps(1) [OF g] TTL_Get_keeps(2) [OF g all] show ?thesis
    by (auto simp: time_Now_def Let_def repo_inv_def call_inv_def wf split: option.splits)
next
  case (Candidates_Query pl src)
  obtain x w1 where q: "candidates_query (ckey pl src) w = (x, w1)" by fastforce
  note fr = candidates_query_frame [OF q]
  have "H (w_db w) t0 pl src c" if "x = Inr rows" "c \<in> set (map (candidate_of_row \<circ> fst) rows)" for rows c
    using candidates_query_lists [OF q [unfolded that(1)] that(2)] by (intro query_H [OF wf D]) simp
  with Candidates_Query st q fr ri wf show ?thesis by (auto simp: call_inv_def split: sum.splits)
next
  case (Candidates_Set pl src cs)
  with ci have h: "\<forall>c \<in> set cs. H (w_db w) t0 pl src c" by (simp add: call_inv_def)
  moreover from h have "\<forall>c \<in> set cs. K (w_db w) t0 pl src c" by (blast intro: H_K)
  moreover from h Candidates_Set st dl ri
  have "ttlc.all_live (\<lambda>t k cs. \<forall>c \<in> set cs. A (w_db w) t k c) (TTL_Set (w_clock w') (ckey pl src) cs (candidatesCache r))"
    by (intro ttlc.all_live_put) (auto simp: repo_inv_def intro: H_A)
  ultimately show ?thesis using Candidates_Set st ri wf
    by (auto simp: time_Now_def Let_def repo_inv_def call_inv_def ttlc.life_simps)
next
  case (Candidate_Try pl src cs)
  show ?thesis
  proof (cases cs)
    case Nil
    with Candidate_Try st ri wf show ?thesis by (auto simp: call_inv_def)
  next
    case (Cons c cs')
    obtain x w1 where u: "userIsActive (cand_userID c) w = (x, w1)" by fastforce
    note uc = userIsActive_cases [OF u]
    have k: "K (w_db w) t0 pl src c" "\<forall>c \<in> set cs'. K (w_db w) t0 pl src c"
      using ci Candidate_Try Cons by (auto simp: call_inv_def)
    have "M (w_db w) t0 pl src (principal_of c)" if "x = Inr True" "VerifySecret C (cand_keyHash c) pl"
      using uc(2) that k by (intro K_M [OF wf D])
    with Candidate_Try Cons st u uc(1) k ri wf show ?thesis
      by (auto simp: call_inv_def principal_of_def split: sum.splits if_splits)
  qed
next
  case (Verified_Set pl src p)
  with ci have "M (w_db w) t0 pl src p" by (simp add: call_inv_def)
  with Verified_Set st dl ri have "ttlc.all_live (B (w_db w)) (TTL_Set (w_clock w') (vkey C pl src) p (verifiedCache r))"
    by (intro ttlc.all_live_put) (auto simp: repo_inv_def intro: M_B)
  with Verified_Set st ri wf show ?thesis
    by (auto simp: time_Now_def Let_def repo_inv_def call_inv_def ttlc.life_simps)
next
  case (Revoke_Statement u k)
  obtain x w1 where q: "run_query (RevokeAPIKey k u) w = (x, w1)" by fastforce
  from statement_inv [OF q wf ri] RevokeAPIKey_wf [OF wf] R_revoke Revoke_Statement st q show ?thesis
    by (auto simp: call_inv_def split: sum.splits if_splits)
next
  case (Create_Hash p)
  obtain x w1 where h: "HashSecret C (ck_Plaintext p) w = (x, w1)" by fastforce
  with HashSecret_frame [OF h] Create_Hash st ri wf show ?thesis by (auto simp: call_inv_def split: sum.splits if_splits)
next
  case (Create_Insert p hash)
  let ?q = "CreateAPIKey_q (ck_UserID p) hash (take APIKeyPrefixLength (ck_Plaintext p))
    (nullableText (ck_Name p)) (ck_ExpiresAt p) (nullableText (ck_Scope p))"
  obtain x w1 where q: "run_query ?q w = (x, w1)" by fastforce
  from statement_inv [OF q wf ri] CreateAPIKey_wf [OF wf] R_create Create_Insert st q show ?thesis
    by (auto simp: call_inv_def split: sum.splits if_splits)
next
  case (Delete_Candidates pref sources row)
  with st ri wf show ?thesis by (cases sources) (auto simp: call_inv_def repo_inv_delete)
next
  case (Drop_User i)
  with st ri wf show ?thesis by (auto simp: call_inv_def repo_inv_drop)
qed (use st ri wf ci in \<open>auto simp: repo_inv_clear call_inv_def\<close>)

lemma accepted_B:
  assumes st: "key_step C pc r w = (Authenticated (Inr p), r', w')" and "call_request pc = Some (pl, src)"
    and "repo_inv (w_db w) r" and "call_inv (w_db w) t0 pc" and "w_clock w' \<le> t0 + \<delta>"
  shows "B (w_db w) (w_clock w') (vkey C pl src) p"
  using assms(2)
proof (cases pc)
  case (Verified_Get pl' src')
  obtain hit vc where g: "TTL_Get (w_clock (advance w)) (vkey C pl' src') (verifiedCache r) = (hit, vc)" by fastforce
  with Verified_Get st have "hit = Some p" "w' = advance w" by (auto simp: time_Now_def Let_def split: option.splits)
  with Verified_Get assms(2,3) TTL_Get_keeps(3) [OF g] show ?thesis by (auto simp: repo_inv_def)
next
  case (Verified_Set pl' src' q)
  with st assms(2,4,5) show ?thesis
    by (auto simp: call_inv_def time_Now_def Let_def apiKeyCacheTTL_def second_def intro!: M_B)
next
  case (Candidate_Try pl' src' cs)
  with st show ?thesis by (cases cs) (auto split: prod.splits sum.splits if_splits)
qed (use st in \<open>auto simp: time_Now_def Let_def split: prod.splits sum.splits option.splits\<close>)

lemma key_step_kept:
  assumes "key_step C pc r w = (pc', r', w')" and "wf_db (w_db w) \<and> D (w_db w)" and "repo_inv (w_db w) r"
    and "call_inv (w_db w) t0 pc" and "t0 \<le> w_clock w" and "call_request pc \<noteq> None \<longrightarrow> w_clock w' \<le> t0 + \<delta>"
  shows "(wf_db (w_db w') \<and> D (w_db w')) \<and> repo_inv (w_db w') r' \<and> call_inv (w_db w') t0 pc' \<and> passes R w w'"
  using key_step_inv [OF assms(1) _ _ assms(3-6)] key_step_clock [OF assms(1)] assms(2)
  by (auto simp: passes_def intro: D_rely)

lemma call_inv_start: "call_start pc \<Longrightarrow> call_inv d t0 pc"
  by (cases pc) (auto simp: call_inv_def)

end

sublocale interleaved_keys \<subseteq> cl: interleaving "key_service C" R \<delta> "\<lambda>w. wf_db (w_db w) \<and> D (w_db w)"
  "\<lambda>w. repo_inv (w_db w)" "\<lambda>w. call_inv (w_db w)"
proof unfold_locales
  fix pc r w pc' r' w' t0
  assume "sv_step (key_service C) pc r w = (pc', r', w')" and "wf_db (w_db w) \<and> D (w_db w)" and "repo_inv (w_db w) r"
    and "call_inv (w_db w) t0 pc" and "t0 \<le> w_clock w" and "sv_timed (key_service C) pc \<longrightarrow> w_clock w' \<le> t0 + \<delta>"
  then show "(wf_db (w_db w') \<and> D (w_db w')) \<and> repo_inv (w_db w') r' \<and> call_inv (w_db w') t0 pc' \<and> passes R w w'"
    unfolding key_service_simps by (rule key_step_kept)
qed (auto simp: passes_def repo_inv_new call_inv_start intro: D_rely repo_inv_rely call_inv_rely)

context interleaved_keys begin

lemma goes_accepted:
  assumes "goes (key_service C) \<delta> i (Authenticated (Inr p)) s s'" and "cl.inv s"
    and "call_request (go_call (cl_calls s ! i)) = Some (pl, src)"
  shows "B (w_db (cl_world s)) (w_clock (cl_world s')) (vkey C pl src) p"
  using assms(1)
proof (cases rule: goesE)
  case (1 g r' w')
  with assms(3) cl.invD [OF assms(2)] show ?thesis by (intro accepted_B) auto
qed

end

section \<open>Age\<close>

lemma fresh_later: "fresh (r, w) \<Longrightarrow> w_clock w \<le> w_clock w' \<Longrightarrow> fresh (r, w')"
  by (auto simp: fresh_def intro: caches_ok_later)

lemma key_step_fresh:
  assumes "key_step C pc r w = (pc', r', w')" and "fresh (r, w)"
  shows "fresh (r', w')"
proof -
  note cl = key_step_clock [OF assms(1)] and life = key_step_life [OF assms(1)]
  let ?a = "\<lambda>t _ cs. \<forall>c \<in> set cs. t < w_clock w' + apiKeyCacheTTL" and ?b = "\<lambda>t _ _. t < w_clock w' + apiKeyCacheTTL"
  from fresh_later [OF assms(2), of w'] cl have old: "ttl_life (candidatesCache r) = apiKeyCacheTTL" "ttl_life (verifiedCache r) = apiKeyCacheTTL"
    "ttlc.all_live ?a (candidatesCache r)" "ttlc.all_live ?b (verifiedCache r)" by (auto simp: fresh_def caches_ok_def)
  have "ttlc.all_live ?a (candidatesCache r') \<and> ttlc.all_live ?b (verifiedCache r')"
    using assms(1) old
    by (cases "(C, pc, r, w)" rule: key_step.cases)
      (auto simp: time_Now_def Let_def TTL_Get_keeps(2) Keys_InvalidateUser_def ttlc.all_live_clr ttlc.all_live_del
        intro!: ttlc.all_live_put ttlc.all_live_delw dest: ttlc.all_liveD split: prod.splits sum.splits if_splits)
  with life old show ?thesis by (simp add: fresh_def caches_ok_def)
qed

text \<open>What a running cluster has cached was written in the past, and its calls started in the past.\<close>

interpretation young: interleaving "key_service C" "\<lambda>_ _. True" \<delta> "\<lambda>_. True" "\<lambda>w r. fresh (r, w)" "\<lambda>_ _ _. True" for C \<delta>
  by unfold_locales (auto simp: passes_def fresh_new intro: fresh_later key_step_fresh dest: key_step_clock)

lemma young_reached: "cluster_steps (key_service C) R \<delta> (new_cluster (key_service C) w) s \<Longrightarrow> young.inv s"
  by (rule young.steps_inv [OF cluster_steps_any]) (auto intro: young.inv_new)

lemma young_replica:
  assumes "young.inv s"
  shows "ttl_life (candidatesCache (cl_replicas s j)) = apiKeyCacheTTL" "ttl_life (verifiedCache (cl_replicas s j)) = apiKeyCacheTTL"
    and "ttlc.all_live (\<lambda>t _ cs. \<forall>c \<in> set cs. t < w_clock (cl_world s) + apiKeyCacheTTL) (candidatesCache (cl_replicas s j))"
    and "ttlc.all_live (\<lambda>t _ _. t < w_clock (cl_world s) + apiKeyCacheTTL) (verifiedCache (cl_replicas s j))"
  using assms unfolding young.inv_def by (auto simp: fresh_def caches_ok_def)

lemma accepts_request:
  assumes "goes (key_service C) \<delta> i (Authenticated (Inr p)) s s'"
  obtains pl source where "call_request (go_call (cl_calls s ! i)) = Some (pl, source)"
proof -
  let ?pc = "go_call (cl_calls s ! i)"
  from assms obtain r r' w' where "key_step C ?pc r (cl_world s) = (Authenticated (Inr p), r', w')" "\<not> call_done ?pc"
    by (auto simp: goes_def Let_def split: prod.splits)
  then show thesis using that
    by (cases "(C, ?pc, r, cl_world s)" rule: key_step.cases) (auto split: prod.splits sum.splits if_splits)
qed

section \<open>Revoked keys and blocked users in a cluster\<close>

interpretation ik: interleaved_keys C keys_mono "int n" "key_revoked kid"
  "\<lambda>_ t0 _ _ c. cand_id c = kid \<longrightarrow> t0 \<le> T" "\<lambda>_ t0 _ _ c. cand_id c = kid \<longrightarrow> t0 < T + int n + apiKeyCacheTTL"
  "\<lambda>_ t _ c. cand_id c = kid \<longrightarrow> t < T + int n + apiKeyCacheTTL"
  "\<lambda>_ t0 _ _ p. pr_APIKeyID p = kid \<longrightarrow> t0 < T + int n + apiKeyCacheTTL"
  "\<lambda>_ t _ p. pr_APIKeyID p = kid \<longrightarrow> t < T + 2 * (apiKeyCacheTTL + int n)" for C n kid T
  by unfold_locales
    (auto simp: principal_of_def apiKeyCacheTTL_def second_def key_statements_mono
      dest: key_revoked_not_listed intro: key_revoked_mono)

lemma young_revoked:
  assumes "young.inv s" and "wf_db (w_db (cl_world s))" and "key_revoked kid (w_db (cl_world s))"
  shows "ik.cl.inv kid (w_clock (cl_world s)) n s"
proof -
  note yr = young_replica [OF assms(1)]
  have "ik.call_inv kid (w_clock (cl_world s)) n d (go_started g) (go_call g)" if "g \<in> set (cl_calls s)" for g d
    using assms(1) that unfolding young.inv_def ik.call_inv_def by (auto simp: apiKeyCacheTTL_def second_def split: key_call.splits)
  moreover have "ik.repo_inv kid (w_clock (cl_world s)) n d (cl_replicas s j)" for d j
    unfolding ik.repo_inv_def
    by (intro conjI yr(1,2) ttlc.all_live_mono [OF yr(3)] ttlc.all_live_mono [OF yr(4)]) (auto simp: apiKeyCacheTTL_def second_def)
  ultimately show ?thesis unfolding ik.cl.inv_def using assms by (auto simp: young.inv_def)
qed

text \<open>
  C1. A revoked key dies in the whole cluster, whatever the interleaving. Take any execution of a cluster from its
  start: any number of replicas, each serving any number of calls at the same time whose cache operations and SQL
  statements interleave in any way, with replicas crashing and restarting. Let key \<open>kid\<close> be revoked in the
  database in some state. If no authentication takes longer than \<open>\<delta>\<close>, then no replica accepts the key once
  \<open>2 \<cdot> (TTL + \<delta>)\<close> have passed: a call that had read the key before can still fill the candidate cache within
  \<open>\<delta>\<close>, and a call that finds it there can still fill the cache of verified keys within another \<open>\<delta>\<close>.
\<close>

theorem revoked_key_dies_in_the_cluster:
  assumes "cluster_steps (key_service C) R (int n) (new_cluster (key_service C) w0) s" and "wf_db (w_db (cl_world s))" and "key_revoked kid (w_db (cl_world s))"
    and "cluster_steps (key_service C) keys_mono (int n) s s1" and "goes (key_service C) (int n) i (Authenticated (Inr p)) s1 s2" and "pr_APIKeyID p = kid"
  shows "w_clock (cl_world s2) < w_clock (cl_world s) + 2 * (apiKeyCacheTTL + int n)"
proof -
  from young_reached [OF assms(1)] assms(2,3) have "ik.cl.inv kid (w_clock (cl_world s)) n s" by (rule young_revoked)
  with assms(4) have i: "ik.cl.inv kid (w_clock (cl_world s)) n s1" by (blast intro: ik.cl.steps_inv)
  from accepts_request [OF assms(5)] obtain pl source where "call_request (go_call (cl_calls s1 ! i)) = Some (pl, source)" .
  from ik.goes_accepted [OF assms(5) i this] assms(6) show ?thesis by simp
qed

interpretation iu: interleaved_keys C "stays_blocked uid" "int n" "\<lambda>d. \<not> user_active d uid"
  "\<lambda>_ _ _ _ _. True" "\<lambda>_ _ _ _ _. True" "\<lambda>_ _ _ _. True"
  "\<lambda>_ t0 _ _ p. pr_UserID p = uid \<longrightarrow> t0 \<le> T" "\<lambda>_ t _ p. pr_UserID p = uid \<longrightarrow> t < T + apiKeyCacheTTL + int n" for C n uid T
  by unfold_locales (auto simp: principal_of_def stays_blocked_def user_active_def key_statements_stay_blocked)

lemma young_blocked:
  assumes "young.inv s" and "wf_db (w_db (cl_world s))" and "\<not> user_active (w_db (cl_world s)) uid"
  shows "iu.cl.inv uid (w_clock (cl_world s)) n s"
proof -
  note yr = young_replica [OF assms(1)]
  have "iu.call_inv uid (w_clock (cl_world s)) d (go_started g) (go_call g)" if "g \<in> set (cl_calls s)" for g d
    using assms(1) that by (auto simp: young.inv_def iu.call_inv_def split: key_call.splits)
  moreover have "iu.repo_inv uid (w_clock (cl_world s)) n d (cl_replicas s j)" for d j
    unfolding iu.repo_inv_def
    by (intro conjI yr(1,2) ttlc.all_live_mono [OF yr(3)] ttlc.all_live_mono [OF yr(4)]) (auto simp: apiKeyCacheTTL_def second_def)
  ultimately show ?thesis unfolding iu.cl.inv_def using assms by (auto simp: young.inv_def)
qed

text \<open>
  C2. The keys of a blocked user die in the whole cluster, whatever the interleaving: once the user is not active
  in the database, and as long as nobody makes the user active again, no replica accepts a key of the user after
  one time to live and the longest duration of a call.
\<close>

theorem blocked_user_is_out_of_the_cluster:
  assumes "cluster_steps (key_service C) R (int n) (new_cluster (key_service C) w0) s" and "wf_db (w_db (cl_world s))" and "\<not> user_active (w_db (cl_world s)) uid"
    and "cluster_steps (key_service C) (stays_blocked uid) (int n) s s1" and "goes (key_service C) (int n) i (Authenticated (Inr p)) s1 s2" and "pr_UserID p = uid"
  shows "w_clock (cl_world s2) < w_clock (cl_world s) + apiKeyCacheTTL + int n"
proof -
  from young_reached [OF assms(1)] assms(2,3) have "iu.cl.inv uid (w_clock (cl_world s)) n s" by (rule young_blocked)
  with assms(4) have i: "iu.cl.inv uid (w_clock (cl_world s)) n s1" by (blast intro: iu.cl.steps_inv)
  from accepts_request [OF assms(5)] obtain pl source where "call_request (go_call (cl_calls s1 ! i)) = Some (pl, source)" .
  from iu.goes_accepted [OF assms(5) i this] assms(6) show ?thesis by simp
qed

interpretation ig: interleaved_keys C keys_users_mono "int n" "\<lambda>_. True"
  "\<lambda>d _ pl src. genuine_candidate d (ckey pl src)" "\<lambda>d _ pl src. genuine_candidate d (ckey pl src)" "\<lambda>d _. genuine_candidate d"
  "\<lambda>d _ pl src. genuine C d src pl" "\<lambda>d _. genuine_verified C d" for C n
  by unfold_locales
    (auto simp: program_statements_mono genuine_verified_def dest: listed_genuine
      intro: genuine_candidate_mono genuine_mono genuine_verified_mono candidate_principal_genuine)

text \<open>
  C3. Genuineness under concurrency: whatever the interleaving, a secret that any replica accepts for an identity
  source belongs to a key row of the database with that prefix and a bcrypt hash that verifies this secret, the
  principal names that key and its owner, and the owner is of that source. SHA-256 is assumed free of collisions.
\<close>

theorem cluster_accepts_only_genuine_keys:
  assumes "cluster_steps (key_service C) keys_users_mono (int n) (new_cluster (key_service C) w0) s" and "wf_db (w_db w0)"
    and "goes (key_service C) (int n) i (Authenticated (Inr p)) s s'" and "call_request (go_call (cl_calls s ! i)) = Some (pl, source)"
    and "inj (sha256 C)"
  shows "\<exists>k \<in> set (api_keys (w_db (cl_world s))). \<exists>u \<in> set (users (w_db (cl_world s))).
     pr_APIKeyID p = k_id k \<and> pr_UserID p = u_id u \<and> k_user_id k = u_id u \<and>
     k_key_prefix k = take APIKeyPrefixLength pl \<and> VerifySecret C (k_key_hash k) pl \<and>
     (source = [] \<or> u_identity_source u = source)"
proof -
  have "ig.cl.inv C (new_cluster (key_service C) w0)" using assms(2) by (intro ig.cl.inv_new) simp
  with assms(1) have i: "ig.cl.inv C s" by (blast intro: ig.cl.steps_inv)
  from ig.goes_accepted [OF assms(3) i assms(4)] assms(5) have "genuine C (w_db (cl_world s)) source pl p"
    by (auto simp: genuine_verified_def dest: injD)
  then show ?thesis unfolding genuine_def .
qed

section \<open>Schedules\<close>

text \<open>
  A schedule on one replica: an authentication reads the candidates, then \<open>Revoke\<close> runs from beginning to end, then
  the authentication goes on; after nine seconds the key is presented again.
\<close>

definition overtaken :: "key_call action list" where
  "overtaken = [Call 0 (Verified_Get ''sk-aaaaa-one'' ''ldap''), Go 0, Go 0, Go 0, Call 0 (Revoke_Statement 1 1), Go 1, Go 1, Go 1]"

definition afterwards :: "key_call action list" where
  "afterwards = [Go 0, Go 0, Go 0, Wait (nat (9 * second)), Call 0 (Verified_Get ''sk-aaaaa-one'' ''ldap'')]"

lemmas schedule_defs = candidates_query_def RevokeAPIKey_def count_where_def update_where_def new_cluster_def key_run_defs key_db_defs

definition revoked_db :: database where
  "revoked_db = key_db\<lparr>api_keys := [(sample_key 1 ''sk-aaaaa-one'')\<lparr>k_status := ''revoked''\<rparr>, sample_key 2 ''sk-bbbbb-two'']\<rparr>"

lemma wf_revoked_db: "wf_db revoked_db"
  by (simp add: revoked_db_def key_db_def empty_db_def wf_defs sample_user_def sample_key_def role_ok_def status_ok_def
      namespace_ok_def HasPrefix_def)

lemma revoked_users: "users revoked_db = [sample_user 1 ''ann'' ''active'' ''ldap'']"
  by (simp add: revoked_db_def key_db_def)

definition overtaken_cluster :: key_cluster where
  "overtaken_cluster = \<lparr>cl_replicas = (\<lambda>_. NewAPIKeyRepository)(0 := NewAPIKeyRepository\<lparr>
       candidatesCache := Some \<lparr>c_ttl = apiKeyCacheTTL, c_entries = (\<lambda>_. None), c_hits = 0, c_misses = 1\<rparr>,
       verifiedCache := Some \<lparr>c_ttl = apiKeyCacheTTL, c_entries = (\<lambda>_. None), c_hits = 0, c_misses = 1\<rparr>\<rparr>),
     cl_calls = [\<lparr>go_replica = 0, go_started = 0,
         go_call = Candidates_Set ''sk-aaaaa-one'' ''ldap'' [candidate_of_row (sample_key 1 ''sk-aaaaa-one'')]\<rparr>,
       \<lparr>go_replica = 0, go_started = 0, go_call = Revoked (Inr ())\<rparr>],
     cl_world = start_world revoked_db 0\<rparr>"

lemma overtaken_run: "run_actions (key_service plain_crypto) 0 overtaken (new_cluster (key_service plain_crypto) (start_world key_db 0)) = Some overtaken_cluster"
  by (simp add: overtaken_def overtaken_cluster_def revoked_db_def schedule_defs)

definition late_cluster :: key_cluster where
  "late_cluster = the (run_actions (key_service plain_crypto) 0 afterwards overtaken_cluster)"

lemma afterwards_run:
  "run_actions (key_service plain_crypto) 0 afterwards overtaken_cluster = Some late_cluster"
  "cl_calls late_cluster ! 2 = \<lparr>go_replica = 0, go_started = 9 * second, go_call = Verified_Get ''sk-aaaaa-one'' ''ldap''\<rparr>"
  "\<exists>s. goes (key_service plain_crypto) 0 2 (Authenticated (Inr \<lparr>pr_UserID = 1, pr_APIKeyID = 1\<rparr>)) late_cluster s \<and> w_clock (cl_world s) = 9 * second"
  by (simp_all add: late_cluster_def afterwards_def overtaken_cluster_def wf_revoked_db revoked_users goes_def schedule_defs)


theorem revoked_key_dies_in_the_cluster_witness:
  "\<exists>s s1 s2 p. key_revoked 1 (w_db (cl_world s)) \<and> cluster_steps (key_service plain_crypto) keys_mono 0 s s1 \<and>
     goes (key_service plain_crypto) 0 2 (Authenticated (Inr p)) s1 s2 \<and> pr_APIKeyID p = 1 \<and>
     w_clock (cl_world s2) < w_clock (cl_world s) + 2 * apiKeyCacheTTL"
proof -
  have run: "cluster_steps (key_service plain_crypto) keys_mono (int 0) (new_cluster (key_service plain_crypto) (start_world key_db 0)) overtaken_cluster"
    "cluster_steps (key_service plain_crypto) keys_mono (int 0) overtaken_cluster late_cluster"
    using run_actions_steps [OF _ overtaken_run, of keys_mono] run_actions_steps [OF _ afterwards_run(1), of keys_mono] by simp_all
  have wf: "wf_db (w_db (cl_world overtaken_cluster))" and k: "key_revoked 1 (w_db (cl_world overtaken_cluster))"
    by (simp_all add: overtaken_cluster_def start_world_def wf_revoked_db)
      (simp add: revoked_db_def key_revoked_def sample_key_def)
  obtain s where g: "goes (key_service plain_crypto) (int 0) 2 (Authenticated (Inr \<lparr>pr_UserID = 1, pr_APIKeyID = 1\<rparr>)) late_cluster s"
    using afterwards_run(3) by auto
  from revoked_key_dies_in_the_cluster [OF run(1) wf k run(2) g] k run(2) g show ?thesis by (auto intro!: exI)
qed

definition warm_up :: "key_call action list" where
  "warm_up = [Call 0 (Verified_Get ''sk-aaaaa-one'' ''ldap''), Go 0, Go 0, Go 0, Go 0, Go 0]"

definition warm_cluster :: key_cluster where
  "warm_cluster = the (run_actions (key_service plain_crypto) 0 warm_up (new_cluster (key_service plain_crypto) (start_world key_db 0)))"

definition blocked_cluster :: key_cluster where
  "blocked_cluster = (the (run_actions (key_service plain_crypto) 0 [Go 0] warm_cluster))
     \<lparr>cl_world := start_world (key_db\<lparr>users := [sample_user 1 ''ann'' ''blocked'' ''ldap'']\<rparr>) 0\<rparr>"

lemma warm_run:
  "run_actions (key_service plain_crypto) 0 warm_up (new_cluster (key_service plain_crypto) (start_world key_db 0)) = Some warm_cluster"
  "call_request (go_call (cl_calls warm_cluster ! 0)) = Some (''sk-aaaaa-one'', ''ldap'')"
  "\<exists>s. goes (key_service plain_crypto) 0 0 (Authenticated (Inr \<lparr>pr_UserID = 1, pr_APIKeyID = 1\<rparr>)) warm_cluster s"
  "cl_world warm_cluster = start_world key_db 0"
  by (simp_all add: warm_cluster_def warm_up_def goes_def schedule_defs)

lemma blocked_run:
  "run_actions (key_service plain_crypto) 0 [Go 0] warm_cluster = Some (blocked_cluster\<lparr>cl_world := start_world key_db 0\<rparr>)"
  "\<exists>s. goes (key_service plain_crypto) 0 1 (Authenticated (Inr \<lparr>pr_UserID = 1, pr_APIKeyID = 1\<rparr>))
       (blocked_cluster\<lparr>cl_calls := cl_calls blocked_cluster @ [\<lparr>go_replica = 0, go_started = 0, go_call = Verified_Get ''sk-aaaaa-one'' ''ldap''\<rparr>]\<rparr>) s"
  by (simp_all add: blocked_cluster_def warm_cluster_def warm_up_def goes_def schedule_defs)

theorem cluster_accepts_only_genuine_keys_witness:
  "\<exists>s i p s'. goes (key_service plain_crypto) 0 i (Authenticated (Inr p)) s s' \<and>
     (\<exists>k \<in> set (api_keys (w_db (cl_world s))). pr_APIKeyID p = k_id k \<and> VerifySecret plain_crypto (k_key_hash k) ''sk-aaaaa-one'')"
proof -
  have run: "cluster_steps (key_service plain_crypto) keys_users_mono (int 0) (new_cluster (key_service plain_crypto) (start_world key_db 0)) warm_cluster"
    using run_actions_steps [OF _ warm_run(1), of keys_users_mono] by simp
  have wf: "wf_db (w_db (start_world key_db 0))" by (simp add: start_world_def wf_key_db)
  obtain s where g: "goes (key_service plain_crypto) (int 0) 0 (Authenticated (Inr \<lparr>pr_UserID = 1, pr_APIKeyID = 1\<rparr>)) warm_cluster s"
    using warm_run(3) by auto
  have "inj (sha256 plain_crypto)" by (simp add: plain_crypto_def inj_on_def)
  from cluster_accepts_only_genuine_keys [OF run wf g warm_run(2) this] g show ?thesis by fastforce
qed

theorem blocked_user_is_out_of_the_cluster_witness:
  "\<exists>s s1 s2 p. \<not> user_active (w_db (cl_world s)) 1 \<and> cluster_steps (key_service plain_crypto) (stays_blocked 1) 0 s s1 \<and>
     goes (key_service plain_crypto) 0 1 (Authenticated (Inr p)) s1 s2 \<and> pr_UserID p = 1 \<and>
     w_clock (cl_world s2) < w_clock (cl_world s) + apiKeyCacheTTL"
proof -
  let ?R = "\<lambda>_ _. True" and ?s = blocked_cluster
  let ?s1 = "?s\<lparr>cl_calls := cl_calls ?s @ [\<lparr>go_replica = 0, go_started = 0, go_call = Verified_Get ''sk-aaaaa-one'' ''ldap''\<rparr>]\<rparr>"
  have w: "cl_world ?s = start_world (key_db\<lparr>users := [sample_user 1 ''ann'' ''blocked'' ''ldap'']\<rparr>) 0" by (simp add: blocked_cluster_def)
  have wf: "wf_db (w_db (cl_world ?s))" and b: "\<not> user_active (w_db (cl_world ?s)) 1"
    by (simp_all add: w start_world_def key_db_def empty_db_def wf_defs sample_user_def sample_key_def role_ok_def status_ok_def
        namespace_ok_def HasPrefix_def user_active_def)
  have warm: "cluster_steps (key_service plain_crypto) ?R (int 0) (new_cluster (key_service plain_crypto) (start_world key_db 0)) warm_cluster"
    "cluster_steps (key_service plain_crypto) ?R (int 0) warm_cluster (?s\<lparr>cl_world := start_world key_db 0\<rparr>)"
    using run_actions_steps [OF _ warm_run(1), of ?R] run_actions_steps [OF _ blocked_run(1), of ?R] by simp_all
  have "cluster_step (key_service plain_crypto) ?R (int 0) (?s\<lparr>cl_world := start_world key_db 0\<rparr>) (?s\<lparr>cl_world := start_world key_db 0\<rparr>\<lparr>cl_world := cl_world ?s\<rparr>)"
    by (rule cluster_environment) (use wf in \<open>simp_all add: w start_world_def\<close>)
  then have "cluster_step (key_service plain_crypto) ?R (int 0) (?s\<lparr>cl_world := start_world key_db 0\<rparr>) ?s" by simp
  with rtranclp_trans [OF warm] have run: "cluster_steps (key_service plain_crypto) ?R (int 0) (new_cluster (key_service plain_crypto) (start_world key_db 0)) ?s"
    by (rule rtranclp.rtrancl_into_rtrancl)
  have run1: "cluster_steps (key_service plain_crypto) (stays_blocked 1) (int 0) ?s ?s1"
    using cluster_call [of "key_service plain_crypto" "Verified_Get ''sk-aaaaa-one'' ''ldap''" "stays_blocked 1" "int 0" ?s 0]
    by (simp add: w start_world_def r_into_rtranclp)
  obtain s2 where g: "goes (key_service plain_crypto) (int 0) 1 (Authenticated (Inr \<lparr>pr_UserID = 1, pr_APIKeyID = 1\<rparr>)) ?s1 s2"
    using blocked_run(2) by auto
  from blocked_user_is_out_of_the_cluster [OF run wf b run1 g] b run1 g show ?thesis by (auto intro!: exI)
qed

end
