(* ===== verification/Cookie_Interleaving.thy ===== *)
theory Cookie_Interleaving
  imports Session_Cookies Interleaving
begin

text \<open>
  The session authenticator under concurrency: \<open>AuthenticateRequest\<close>, the logout handler's pair of
  \<open>DeleteByTokenForSource\<close> and \<open>InvalidateToken\<close>, and \<open>InvalidateUser\<close> as steps that interleave with one another on any number
  of replicas. A replica keeps the cache of sessions.
\<close>

section \<open>One call, step by step\<close>

datatype cookie_call =
    Cookie_Get Request
  | Cookie_Lookup string
  | Cookie_Set string Session
  | Checked "SessionPrincipal result"
  | Logout_Delete string
  | Logout_Drop string "unit result"
  | Logged_Out "unit result"
  | Sessions_Drop int
  | Sessions_Dropped

fun check_step ::
  "(string \<Rightarrow> string) \<Rightarrow> string \<Rightarrow> cookie_call \<Rightarrow> (string, Session) TTL \<Rightarrow> world \<Rightarrow> cookie_call \<times> (string, Session) TTL \<times> world" where
  "check_step sha src (Cookie_Get rq) c w =
     (case map_of (rq_Cookies rq) SessionCookieName of
        None \<Rightarrow> (Checked (Inl ErrNoSession), c, w)
      | Some token \<Rightarrow>
          (if token = [] then (Checked (Inl ErrNoSession), c, w)
           else (let (now, w1) = time_Now w; (hit, c1) = TTL_Get now (sessionCacheKey sha src token) c
                 in (case hit of Some s \<Rightarrow> Checked (Inr (session_principal s)) | None \<Rightarrow> Cookie_Lookup token, c1, w1))))"
| "check_step sha src (Cookie_Lookup token) c w =
     (case GetByTokenForSource sha token src w of
        (Inl _, w1) \<Rightarrow> (Checked (Inl ErrInvalidSession), c, w1)
      | (Inr s, w1) \<Rightarrow> (Cookie_Set token s, c, w1))"
| "check_step sha src (Cookie_Set token s) c w =
     (let (now, w1) = time_Now w
      in (Checked (Inr (session_principal s)), TTL_Set now (sessionCacheKey sha src token) s c, w1))"
| "check_step sha src (Logout_Delete token) c w =
     (case DeleteByTokenForSource sha token src w of (x, w1) \<Rightarrow> (Logout_Drop token x, c, w1))"
| "check_step sha src (Logout_Drop token x) c w =
     (Logged_Out x, if token = [] then c else TTL_Delete (sessionCacheKey sha src token) c, w)"
| "check_step sha src (Sessions_Drop i) c w =
     (Sessions_Dropped, if i \<le> 0 then c else TTL_DeleteWhere (Some (\<lambda>_ s. Session_UserID s = i)) c, w)"
| "check_step sha src (Checked x) c w = (Checked x, c, w)"
| "check_step sha src (Logged_Out x) c w = (Logged_Out x, c, w)"
| "check_step sha src Sessions_Dropped c w = (Sessions_Dropped, c, w)"

fun check_done :: "cookie_call \<Rightarrow> bool" where
  "check_done (Checked _) = True"
| "check_done (Logged_Out _) = True"
| "check_done Sessions_Dropped = True"
| "check_done _ = False"

fun check_start :: "cookie_call \<Rightarrow> bool" where
  "check_start (Cookie_Get _) = True"
| "check_start (Logout_Delete _) = True"
| "check_start (Sessions_Drop _) = True"
| "check_start _ = False"

text \<open>The token that a running check is about.\<close>

fun check_token :: "cookie_call \<Rightarrow> string option" where
  "check_token (Cookie_Get rq) = cookie_of rq"
| "check_token (Cookie_Lookup token) = Some token"
| "check_token (Cookie_Set token _) = Some token"
| "check_token _ = None"

definition cookie_service :: "(string \<Rightarrow> string) \<Rightarrow> string \<Rightarrow> duration \<Rightarrow> ((string, Session) TTL, cookie_call) service" where
  "cookie_service sha src ttl = \<lparr>sv_step = check_step sha src, sv_done = check_done, sv_start = check_start,
     sv_timed = (\<lambda>pc. check_token pc \<noteq> None), sv_new = NewTTL ttl\<rparr>"

lemma cookie_service_simps [simp]:
  "sv_step (cookie_service sha src ttl) = check_step sha src" "sv_done (cookie_service sha src ttl) = check_done"
  "sv_start (cookie_service sha src ttl) = check_start" "sv_timed (cookie_service sha src ttl) pc \<longleftrightarrow> check_token pc \<noteq> None"
  "sv_new (cookie_service sha src ttl) = NewTTL ttl"
  by (simp_all add: cookie_service_def)

text \<open>A call that nobody disturbs: at most three steps.\<close>

fun check_steps :: "nat \<Rightarrow> (string \<Rightarrow> string) \<Rightarrow> string \<Rightarrow> cookie_call \<times> (string, Session) TTL \<times> world \<Rightarrow> cookie_call \<times> (string, Session) TTL \<times> world" where
  "check_steps 0 sha src st = st"
| "check_steps (Suc n) sha src (pc, c, w) = check_steps n sha src (check_step sha src pc c w)"

text \<open>
  Undisturbed, the steps compute what the definitions of the calls say: the check of a cookie, and the two calls of
  the logout handler.
\<close>

lemma checks_are_their_steps:
  assumes "c \<noteq> None"
  shows "check_steps 3 sha src (Cookie_Get rq, c, w) =
     (case AuthenticateRequest sha (Some rq) (Some (store_authenticator sha src c)) w of
        (x, a, w') \<Rightarrow> (Checked x, sa_cache (the a), w'))"
    and "check_steps 2 sha src (Logout_Delete token, c, w) =
     (case DeleteByTokenForSource sha token src w of
        (x, w') \<Rightarrow> (Logged_Out x, sa_cache (the (InvalidateToken sha token (Some (store_authenticator sha src c)))), w'))"
    and "check_steps 1 sha src (Sessions_Drop i, c, w) =
     (Sessions_Dropped, sa_cache (the (Session_InvalidateUser i (Some (store_authenticator sha src c)))), w)"
proof -
  obtain cc where c: "c = Some cc" using assms by auto
  note steps = numeral_3_eq_3 numeral_2_eq_2
  show "check_steps 3 sha src (Cookie_Get rq, c, w) =
     (case AuthenticateRequest sha (Some rq) (Some (store_authenticator sha src c)) w of
        (x, a, w') \<Rightarrow> (Checked x, sa_cache (the a), w'))"
  proof (cases "cookie_of rq")
    case None
    then show ?thesis by (simp add: steps AuthenticateRequest_def store_authenticator_def cookie_of_def)
  next
    case (Some token)
    obtain hit c1 where g: "TTL_Get (w_clock (advance w)) (sessionCacheKey sha src token) c = (hit, c1)" by fastforce
    then have c1: "c1 \<noteq> None" using c by (auto simp: TTL_Get_def split: if_splits option.splits)
    obtain y w2 where l: "GetByTokenForSource sha token src (advance w) = (y, w2)" by fastforce
    from Some g c c1 l show ?thesis
      by (cases hit; cases y) (auto simp: steps AuthenticateRequest_def store_authenticator_def cookie_of_def time_Now_def Let_def)
  qed
  show "check_steps 2 sha src (Logout_Delete token, c, w) =
     (case DeleteByTokenForSource sha token src w of
        (x, w') \<Rightarrow> (Logged_Out x, sa_cache (the (InvalidateToken sha token (Some (store_authenticator sha src c)))), w'))"
    by (cases "DeleteByTokenForSource sha token src w") (simp add: steps InvalidateToken_store, simp add: store_authenticator_def)
  show "check_steps 1 sha src (Sessions_Drop i, c, w) =
     (Sessions_Dropped, sa_cache (the (Session_InvalidateUser i (Some (store_authenticator sha src c)))), w)"
    by (simp add: Session_InvalidateUser_store, simp add: store_authenticator_def)
qed

section \<open>The safety argument\<close>

lemma DeleteByTokenForSource_frame:
  assumes "DeleteByTokenForSource sha token src w = (x, w')"
  shows "w_clock w \<le> w_clock w'"
    and "w_db w' = w_db w \<or> (\<exists>h w0. w_db w' = snd (DeleteSessionByTokenHashForSource h src w0 (w_db w)))"
proof -
  obtain y w1 where q: "run_query (DeleteSessionByTokenHashForSource (hashSessionToken sha token) src) w = (y, w1)" by fastforce
  then have "w_db w1 = w_db w \<or> (\<exists>w0. w_db w1 = snd (DeleteSessionByTokenHashForSource (hashSessionToken sha token) src w0 (w_db w)))"
    by (cases rule: run_query_cases) (auto, metis snd_conv)
  with assms q run_query_clock [OF q]
  show "w_clock w \<le> w_clock w'" "w_db w' = w_db w \<or> (\<exists>h w0. w_db w' = snd (DeleteSessionByTokenHashForSource h src w0 (w_db w)))"
    by (auto simp: DeleteByTokenForSource_def split: if_splits sum.splits)
qed

lemma check_step_clock: "check_step sha src pc c w = (pc', c', w') \<Longrightarrow> w_clock w \<le> w_clock w'"
  using advance_mono [of w]
  by (cases "(sha, src, pc, c, w)" rule: check_step.cases)
    (auto simp: time_Now_def Let_def split: option.splits if_splits prod.splits sum.splits
      dest: GetByTokenForSource_frame DeleteByTokenForSource_frame(1))

lemma check_step_life: "check_step sha src pc c w = (pc', c', w') \<Longrightarrow> ttl_life c' = ttl_life c"
  by (cases "(sha, src, pc, c, w)" rule: check_step.cases)
    (auto simp: Let_def ttlc.life_simps TTL_Get_keeps(1) split: option.splits if_splits prod.splits sum.splits)

text \<open>
  \<open>D\<close> is a fact about the database, \<open>H\<close> what a check that started at an instant may carry, \<open>B\<close> what may be cached.
\<close>

locale interleaved_cookies =
  fixes sha :: "string \<Rightarrow> string" and src :: string and ttl :: duration
    and R :: "database \<Rightarrow> database \<Rightarrow> bool" and \<delta> :: duration
    and D :: "database \<Rightarrow> bool" and H :: "instant \<Rightarrow> string \<Rightarrow> Session \<Rightarrow> bool" and B :: "instant \<Rightarrow> string \<Rightarrow> Session \<Rightarrow> bool"
  assumes ttl_pos: "0 < ttl"
    and R_delete: "R d (snd (DeleteSessionByTokenHashForSource h src w d))"
    and D_rely: "R d d' \<Longrightarrow> D d \<Longrightarrow> D d'"
    and valid_H: "D d \<Longrightarrow> session_valid_at sha d t token src s \<Longrightarrow> t0 \<le> t \<Longrightarrow> H t0 token s"
    and H_B: "H t0 token s \<Longrightarrow> t < t0 + \<delta> + ttl \<Longrightarrow> B t (sessionCacheKey sha src token) s"
begin

definition check_inv :: "instant \<Rightarrow> cookie_call \<Rightarrow> bool" where
  "check_inv t0 pc = (case pc of Cookie_Set token s \<Rightarrow> H t0 token s | _ \<Rightarrow> True)"

definition cache_inv :: "(string, Session) TTL \<Rightarrow> bool" where
  "cache_inv c = (ttl_life c = ttl \<and> ttlc.all_live B c)"

lemma check_step_kept:
  assumes st: "check_step sha src pc c w = (pc', c', w')" and D: "D (w_db w)" and c: "cache_inv c" and j: "check_inv t0 pc"
    and t0: "t0 \<le> w_clock w" and dl: "check_token pc \<noteq> None \<longrightarrow> w_clock w' \<le> t0 + \<delta>"
  shows "D (w_db w') \<and> cache_inv c' \<and> check_inv t0 pc' \<and> passes R w w'"
proof (cases pc)
  case (Cookie_Get rq)
  with st D c j check_step_clock [OF st] show ?thesis
    by (auto simp: time_Now_def Let_def cache_inv_def check_inv_def passes_def TTL_Get_keeps split: option.splits if_splits prod.splits)
next
  case (Cookie_Lookup token)
  obtain y w1 where l: "GetByTokenForSource sha token src w = (y, w1)" by fastforce
  note fr = GetByTokenForSource_frame [OF l]
  have "H t0 token s" if "y = Inr s" for s
    using GetByTokenForSource_cases [OF l [unfolded that]] t0 by (auto intro: valid_H [OF D])
  with Cookie_Lookup st l fr c D show ?thesis by (auto simp: check_inv_def passes_def split: sum.splits)
next
  case (Cookie_Set token s)
  have "B t (sessionCacheKey sha src token) s" if "t < w_clock w' + ttl" for t
    using that j Cookie_Set dl by (intro H_B [of t0]) (auto simp: check_inv_def)
  then have "ttlc.all_live B (TTL_Set (w_clock w') (sessionCacheKey sha src token) s c)"
    using c by (intro ttlc.all_live_put) (auto simp: cache_inv_def)
  with Cookie_Set st c D check_step_clock [OF st] show ?thesis
    by (auto simp: time_Now_def Let_def check_inv_def cache_inv_def passes_def ttlc.life_simps)
next
  case (Logout_Delete token)
  obtain y w1 where d: "DeleteByTokenForSource sha token src w = (y, w1)" by fastforce
  note fr = DeleteByTokenForSource_frame [OF d]
  then have "w_db w1 = w_db w \<or> R (w_db w) (w_db w1)" using R_delete by metis
  with Logout_Delete st d fr(1) c D show ?thesis by (auto simp: check_inv_def passes_def intro: D_rely)
qed (use st c D j in \<open>auto simp: check_inv_def cache_inv_def passes_def ttlc.life_simps ttlc.all_live_del
  intro!: ttlc.all_live_delw dest: ttlc.all_liveD\<close>)

lemma accepted_B:
  assumes st: "check_step sha src pc c w = (Checked (Inr p), c', w')" and "check_token pc = Some token"
    and c: "cache_inv c" and j: "check_inv t0 pc" and "w_clock w' \<le> t0 + \<delta>"
  shows "\<exists>s. p = session_principal s \<and> B (w_clock w') (sessionCacheKey sha src token) s"
proof (cases pc)
  case (Cookie_Get rq)
  with assms(2) have tok: "map_of (rq_Cookies rq) SessionCookieName = Some token" by (simp add: cookie_of_def)
  obtain hit c1 where g: "TTL_Get (w_clock (advance w)) (sessionCacheKey sha src token) c = (hit, c1)" by fastforce
  with Cookie_Get tok st obtain s where s: "hit = Some s" "p = session_principal s" "w' = advance w"
    by (auto simp: time_Now_def Let_def split: if_splits option.splits)
  have "ttlc.all_live B c" using c by (simp add: cache_inv_def)
  from TTL_Get_keeps(3) [OF g this s(1)] s(2,3) show ?thesis by auto
next
  case (Cookie_Set token' s)
  with st j assms(2,5) ttl_pos show ?thesis
    by (auto simp: check_inv_def time_Now_def Let_def intro!: exI [of _ s] H_B)
qed (use st assms(2) in \<open>auto split: prod.splits sum.splits\<close>)

lemma check_inv_start: "check_start pc \<Longrightarrow> check_inv t0 pc"
  by (cases pc) (auto simp: check_inv_def)

lemma cache_inv_new: "cache_inv (NewTTL ttl)"
  by (simp add: cache_inv_def ttlc.all_live_def ttl_live_def NewTTL_def ttl_life_def)

end

sublocale interleaved_cookies \<subseteq> cl: interleaving "cookie_service sha src ttl" R \<delta> "\<lambda>w. D (w_db w)" "\<lambda>_. cache_inv" "\<lambda>_. check_inv"
proof unfold_locales
  fix pc r w pc' r' w' t0
  assume "sv_step (cookie_service sha src ttl) pc r w = (pc', r', w')" and "D (w_db w)" and "cache_inv r"
    and "check_inv t0 pc" and "t0 \<le> w_clock w" and "sv_timed (cookie_service sha src ttl) pc \<longrightarrow> w_clock w' \<le> t0 + \<delta>"
  then show "D (w_db w') \<and> cache_inv r' \<and> check_inv t0 pc' \<and> passes R w w'"
    unfolding cookie_service_simps by (rule check_step_kept)
qed (auto simp: passes_def cache_inv_new check_inv_start intro: D_rely)

context interleaved_cookies begin

lemma goes_accepted:
  assumes "goes (cookie_service sha src ttl) \<delta> i (Checked (Inr p)) s s'" and "cl.inv s"
    and "check_token (go_call (cl_calls s ! i)) = Some token"
  shows "\<exists>x. p = session_principal x \<and> B (w_clock (cl_world s')) (sessionCacheKey sha src token) x"
  using assms(1)
proof (cases rule: goesE)
  case (1 g r' w')
  with assms(3) cl.invD [OF assms(2)] accepted_B [of "go_call g" "cl_replicas s (go_replica g)" "cl_world s" p r' w' token "go_started g"]
  show ?thesis by auto
qed

end

section \<open>Logout, blocking and expiry in a cluster\<close>

text \<open>The time to live that \<^verbatim>\<open>main.go\<close> gives the cache.\<close>

definition sessionCacheTTL :: duration where
  "sessionCacheTTL = 10 * second"

abbreviation main_cookies where
  "main_cookies sha src \<equiv> cookie_service sha src sessionCacheTTL"

lemma sessionCacheTTL_pos: "0 < sessionCacheTTL"
  by (simp add: sessionCacheTTL_def second_def)

definition cache_young :: "world \<Rightarrow> (string, Session) TTL \<Rightarrow> bool" where
  "cache_young w c = (ttl_life c = sessionCacheTTL \<and> ttlc.all_live (\<lambda>t _ _. t < w_clock w + sessionCacheTTL) c)"

lemma cache_young_later: "cache_young w c \<Longrightarrow> w_clock w \<le> w_clock w' \<Longrightarrow> cache_young w' c"
  by (auto simp: cache_young_def elim!: ttlc.all_live_mono)

lemma cache_young_step:
  assumes "check_step sha src pc c w = (pc', c', w')" and "cache_young w c"
  shows "cache_young w' c'"
proof -
  from cache_young_later [OF assms(2) check_step_clock [OF assms(1)]] have old: "cache_young w' c" .
  have "ttlc.all_live (\<lambda>t _ _. t < w_clock w' + sessionCacheTTL) c'"
    using assms(1) old
    by (cases "(sha, src, pc, c, w)" rule: check_step.cases)
      (auto simp: cache_young_def time_Now_def Let_def TTL_Get_keeps(2) ttlc.all_live_del
        intro!: ttlc.all_live_put ttlc.all_live_delw dest: ttlc.all_liveD split: option.splits if_splits prod.splits sum.splits)
  with check_step_life [OF assms(1)] old show ?thesis by (simp add: cache_young_def)
qed

lemma cache_young_new: "cache_young w (NewTTL sessionCacheTTL)"
  by (simp add: cache_young_def ttlc.all_live_def ttl_live_def NewTTL_def ttl_life_def)

interpretation yc: interleaving "main_cookies sha src" "\<lambda>_ _. True" \<delta> "\<lambda>_. True" cache_young "\<lambda>_ _ _. True" for sha src \<delta>
  by unfold_locales (auto simp: passes_def cache_young_new intro: cache_young_later cache_young_step dest: check_step_clock)

lemma young_cookies:
  assumes "cluster_steps (main_cookies sha src) R \<delta> (new_cluster (main_cookies sha src) w0) s"
  shows "cache_young (cl_world s) (cl_replicas s j)" and "g \<in> set (cl_calls s) \<Longrightarrow> go_started g \<le> w_clock (cl_world s)"
proof -
  from assms have "yc.inv s" by (rule yc.steps_inv [OF cluster_steps_any]) (auto intro: yc.inv_new)
  then show "cache_young (cl_world s) (cl_replicas s j)" "g \<in> set (cl_calls s) \<Longrightarrow> go_started g \<le> w_clock (cl_world s)"
    unfolding yc.inv_def by auto
qed

lemma accepted_token:
  assumes "goes (cookie_service sha src ttl) \<delta> i (Checked (Inr p)) s s'"
  obtains token where "check_token (go_call (cl_calls s ! i)) = Some token"
  using assms
proof (cases rule: goesE)
  case (1 g r' w')
  then show thesis using that
    by (cases "(sha, src, go_call g, cl_replicas s (go_replica g), cl_world s)" rule: check_step.cases)
      (auto simp: cookie_of_def split: option.splits prod.splits sum.splits)
qed

lemma delete_statement:
  "no_new_session h' d (snd (DeleteSessionByTokenHashForSource h src w d))"
  "stays_blocked uid d (snd (DeleteSessionByTokenHashForSource h src w d))"
  by (auto simp: DeleteSessionByTokenHashForSource_def Let_def no_new_session_def delete_where_def stays_blocked_def user_active_def)

interpretation lo: interleaved_cookies sha src sessionCacheTTL "no_new_session (sha token)" "int n"
  "\<lambda>d. inj sha \<and> logged_out sha token src d"
  "\<lambda>t0 tok _. sessionCacheKey sha src tok = sessionCacheKey sha src token \<longrightarrow> t0 \<le> T"
  "\<lambda>t k _. k = sessionCacheKey sha src token \<longrightarrow> t < T + sessionCacheTTL + int n" for sha src token n T
  by unfold_locales (auto simp: sessionCacheTTL_pos delete_statement intro: logged_out_stays dest: valid_key_other)

text \<open>
  C8. A session that is logged out dies in the whole cluster, whatever the interleaving. Take any execution of a cluster
  from its start, and a state in which the database holds no session of the token any more. If no check of a cookie
  takes longer than \<open>\<delta>\<close> and nobody stores a new session under this token, no replica accepts the cookie
  once the time to live of the cache and \<open>\<delta>\<close> have passed. SHA-256 is assumed free of collisions.
\<close>

theorem logged_out_cookie_dies_in_the_cluster:
  assumes "inj sha" and "cluster_steps (main_cookies sha src) R (int n) (new_cluster (main_cookies sha src) w0) s"
    and "logged_out sha token src (w_db (cl_world s))"
    and "cluster_steps (main_cookies sha src) (no_new_session (sha token)) (int n) s s1"
    and "goes (main_cookies sha src) (int n) i (Checked (Inr p)) s1 s2"
    and "check_token (go_call (cl_calls s1 ! i)) = Some token"
  shows "w_clock (cl_world s2) < w_clock (cl_world s) + sessionCacheTTL + int n"
proof -
  note y = young_cookies [OF assms(2)]
  have "lo.check_inv sha src token (w_clock (cl_world s)) (go_started g) (go_call g)" if "g \<in> set (cl_calls s)" for g
    using y(2) [OF that] unfolding lo.check_inv_def by (auto split: cookie_call.splits)
  moreover have "lo.cache_inv sha src token (w_clock (cl_world s)) n (cl_replicas s j)" for j
    using y(1) [of j] unfolding lo.cache_inv_def cache_young_def by (auto elim!: ttlc.all_live_mono)
  ultimately have "lo.cl.inv sha token src (w_clock (cl_world s)) n s"
    unfolding lo.cl.inv_def using assms(1,3) y(2) by auto
  with assms(4) have "lo.cl.inv sha token src (w_clock (cl_world s)) n s1" by (blast intro: lo.cl.steps_inv)
  from lo.goes_accepted [OF assms(5) this assms(6)] show ?thesis by auto
qed

interpretation bu: interleaved_cookies sha src sessionCacheTTL "stays_blocked uid" "int n" "\<lambda>d. \<not> user_active d uid"
  "\<lambda>t0 _ x. Session_UserID x = uid \<longrightarrow> t0 \<le> T" "\<lambda>t _ x. Session_UserID x = uid \<longrightarrow> t < T + sessionCacheTTL + int n" for sha src n uid T
  by unfold_locales (auto simp: sessionCacheTTL_pos delete_statement dest: valid_active stays_blocked_def [THEN iffD1])

text \<open>The cookies of a blocked user die in the whole cluster within one time to live and the duration of one check.\<close>

lemma blocked_cookie_dies_in_the_cluster:
  assumes "cluster_steps (main_cookies sha src) R (int n) (new_cluster (main_cookies sha src) w0) s"
    and "\<not> user_active (w_db (cl_world s)) uid"
    and "cluster_steps (main_cookies sha src) (stays_blocked uid) (int n) s s1"
    and "goes (main_cookies sha src) (int n) i (Checked (Inr p)) s1 s2" and "sn_UserID p = uid"
  shows "w_clock (cl_world s2) < w_clock (cl_world s) + sessionCacheTTL + int n"
proof -
  note y = young_cookies [OF assms(1)]
  have "bu.check_inv uid (w_clock (cl_world s)) (go_started g) (go_call g)" if "g \<in> set (cl_calls s)" for g
    using y(2) [OF that] unfolding bu.check_inv_def by (auto split: cookie_call.splits)
  moreover have "bu.cache_inv uid (w_clock (cl_world s)) n (cl_replicas s j)" for j
    using y(1) [of j] unfolding bu.cache_inv_def cache_young_def by (auto elim!: ttlc.all_live_mono)
  ultimately have "bu.cl.inv uid (w_clock (cl_world s)) n s" unfolding bu.cl.inv_def using assms(2) y(2) by auto
  with assms(3) have i: "bu.cl.inv uid (w_clock (cl_world s)) n s1" by (blast intro: bu.cl.steps_inv)
  from accepted_token [OF assms(4)] obtain token where "check_token (go_call (cl_calls s1 ! i)) = Some token" .
  from bu.goes_accepted [OF assms(4) i this] assms(5) show ?thesis by (auto simp: session_principal_def)
qed

interpretation ex: interleaved_cookies sha src sessionCacheTTL "\<lambda>_ _. True" "int n" "\<lambda>_. True"
  "\<lambda>t0 _ x. t0 < Session_ExpiresAt x" "\<lambda>t _ x. t < Session_ExpiresAt x + sessionCacheTTL + int n" for sha src n
  by unfold_locales (auto simp: sessionCacheTTL_pos session_valid_at_def sessionFromDB_def)

text \<open>
  A cookie outlives its session only briefly, whatever the interleaving: whatever the replicas and the rest of the system do,
  a request that a replica accepts is accepted in the name of a session that expires less than one time to live of
  the cache and the duration of one check before that moment.
\<close>

theorem cookie_expires_in_the_cluster:
  assumes "cluster_steps (main_cookies sha src) R (int n) (new_cluster (main_cookies sha src) w0) s"
    and "goes (main_cookies sha src) (int n) i (Checked (Inr p)) s s'"
  shows "\<exists>x. p = session_principal x \<and> w_clock (cl_world s') < Session_ExpiresAt x + sessionCacheTTL + int n"
proof -
  have "ex.cl.inv n (new_cluster (main_cookies sha src) w0)" by (rule ex.cl.inv_new) simp
  with cluster_steps_any [OF assms(1)] have i: "ex.cl.inv n s" by (blast intro: ex.cl.steps_inv)
  from accepted_token [OF assms(2)] obtain token where "check_token (go_call (cl_calls s ! i)) = Some token" .
  from ex.goes_accepted [OF assms(2) i this] show ?thesis .
qed

section \<open>A logout that overtakes a check\<close>

definition hour_db :: database where
  "hour_db = two_user_db\<lparr>sessions := [\<lparr>s_id = 1, s_user_id = 2, s_token_hash = ''tok'', s_role = ''user'',
     s_expires_at = 3600 * second, s_created_ip = None, s_created_at = 0\<rparr>], sessions_seq := 1\<rparr>"

definition gone_db :: database where
  "gone_db = hour_db\<lparr>sessions := []\<rparr>"

lemma wf_gone_db: "wf_db gone_db"
  unfolding gone_db_def hour_db_def
  by (rule wf_db_sessions_change [OF wf_two_user_db]) (simp_all add: wf_sessions_def two_user_db_def empty_db_def)

definition logout_race :: "cookie_call action list" where
  "logout_race = [Call 0 (Cookie_Get (cookie_request_of ''tok'')), Go 0, Go 0, Call 0 (Logout_Delete ''tok''), Go 1, Go 1]"

definition after_logout :: "cookie_call action list" where
  "after_logout = [Go 0, Wait (nat (9 * second)), Call 0 (Cookie_Get (cookie_request_of ''tok''))]"

definition hour_session :: Session where
  "hour_session = sessionFromDB (hd (sessions hour_db))"

definition raced :: "((string, Session) TTL, cookie_call) cluster" where
  "raced = \<lparr>cl_replicas = (\<lambda>_. NewTTL sessionCacheTTL)(0 := Some \<lparr>c_ttl = sessionCacheTTL, c_entries = (\<lambda>_. None), c_hits = 0, c_misses = 1\<rparr>),
     cl_calls = [\<lparr>go_replica = 0, go_started = 0, go_call = Cookie_Set ''tok'' hour_session\<rparr>,
       \<lparr>go_replica = 0, go_started = 0, go_call = Logged_Out (Inr ())\<rparr>],
     cl_world = start_world gone_db 0\<rparr>"

lemmas race_defs = cookie_run_defs hour_db_def gone_db_def hour_session_def DeleteByTokenForSource_def DeleteSessionByTokenHashForSource_def
  count_where_def delete_where_def new_cluster_def sessionCacheTTL_def second_def

lemma race_run: "run_actions (main_cookies id ''static'') 0 logout_race (new_cluster (main_cookies id ''static'') (start_world hour_db 0)) = Some raced"
  by (simp add: logout_race_def raced_def race_defs)

definition late_check :: "((string, Session) TTL, cookie_call) cluster" where
  "late_check = the (run_actions (main_cookies id ''static'') 0 after_logout raced)"

lemma late_check_run:
  "run_actions (main_cookies id ''static'') 0 after_logout raced = Some late_check"
  "cl_calls late_check ! 2 = \<lparr>go_replica = 0, go_started = 9 * second, go_call = Cookie_Get (cookie_request_of ''tok'')\<rparr>"
  "\<exists>s. goes (main_cookies id ''static'') 0 2 (Checked (Inr (session_principal hour_session))) late_check s"
  by (simp_all add: late_check_def after_logout_def raced_def goes_def wf_gone_db cookie_run_defs sessionCacheTTL_def second_def)

lemma race_steps:
  "cluster_steps (main_cookies id ''static'') (no_new_session ''tok'') 0 (new_cluster (main_cookies id ''static'') (start_world hour_db 0)) raced"
  "cluster_steps (main_cookies id ''static'') (no_new_session ''tok'') 0 raced late_check"
  by (rule run_actions_steps [OF _ race_run], simp add: no_new_session_def, blast)
    (rule run_actions_steps [OF _ late_check_run(1)], simp add: no_new_session_def, blast)

lemma raced_simps:
  "logged_out id ''tok'' ''static'' (w_db (cl_world raced))" "w_clock (cl_world raced) = 0"
  "cl_calls raced ! 1 = \<lparr>go_replica = 0, go_started = 0, go_call = Logged_Out (Inr ())\<rparr>"
  by (simp_all add: raced_def start_world_def gone_db_def logged_out_def)

text \<open>
  A logout that overtakes a check of the same cookie does not take effect at once, even on its own replica: here the session is
  deleted and its cache entry dropped with success, and nine seconds later the same replica accepts the cookie for a
  request that arrived long after. The check had read the session before, and writes it into the cache afterwards.
\<close>

theorem overtaken_logout_is_delayed:
  "\<exists>s1 s2 s3 p. cluster_steps (main_cookies id ''static'') (no_new_session ''tok'') 0
       (new_cluster (main_cookies id ''static'') (start_world hour_db 0)) s1 \<and>
     cl_calls s1 ! 1 = \<lparr>go_replica = 0, go_started = 0, go_call = Logged_Out (Inr ())\<rparr> \<and> logged_out id ''tok'' ''static'' (w_db (cl_world s1)) \<and>
     cluster_steps (main_cookies id ''static'') (no_new_session ''tok'') 0 s1 s2 \<and>
     cl_calls s2 ! 2 = \<lparr>go_replica = 0, go_started = w_clock (cl_world s1) + 9 * second, go_call = Cookie_Get (cookie_request_of ''tok'')\<rparr> \<and>
     goes (main_cookies id ''static'') 0 2 (Checked (Inr p)) s2 s3"
  using race_steps raced_simps late_check_run(2,3) by (metis add_0)

theorem logged_out_cookie_dies_in_the_cluster_witness:
  "\<exists>s s1 s2 p. logged_out id ''tok'' ''static'' (w_db (cl_world s)) \<and> cluster_steps (main_cookies id ''static'') (no_new_session ''tok'') 0 s s1 \<and>
     goes (main_cookies id ''static'') 0 2 (Checked (Inr p)) s1 s2 \<and> w_clock (cl_world s2) < w_clock (cl_world s) + sessionCacheTTL"
proof -
  have run: "cluster_steps (main_cookies id ''static'') (no_new_session (id ''tok'')) (int 0) (new_cluster (main_cookies id ''static'') (start_world hour_db 0)) raced"
    "cluster_steps (main_cookies id ''static'') (no_new_session (id ''tok'')) (int 0) raced late_check" using race_steps by simp_all
  note l = raced_simps(1)
  obtain s p where g: "goes (main_cookies id ''static'') (int 0) 2 (Checked (Inr p)) late_check s" using late_check_run(3) by auto
  have t: "check_token (go_call (cl_calls late_check ! 2)) = Some ''tok''" by (simp add: late_check_run(2))
  from logged_out_cookie_dies_in_the_cluster [OF inj_on_id run(1) l run(2) g t] l run(2) g show ?thesis by auto
qed

theorem cookie_expires_in_the_cluster_witness:
  "\<exists>s s' p x. goes (main_cookies id ''static'') 0 2 (Checked (Inr p)) s s' \<and> p = session_principal x \<and>
     w_clock (cl_world s') < Session_ExpiresAt x + sessionCacheTTL"
proof -
  have "cluster_steps (main_cookies id ''static'') (no_new_session ''tok'') (int 0)
      (new_cluster (main_cookies id ''static'') (start_world hour_db 0)) late_check"
    using rtranclp_trans [OF race_steps] by simp
  moreover obtain s p where "goes (main_cookies id ''static'') (int 0) 2 (Checked (Inr p)) late_check s" using late_check_run(3) by auto
  ultimately show ?thesis using cookie_expires_in_the_cluster [of id "''static''" "no_new_session ''tok''" 0] by fastforce
qed

end
