(* ===== verification/Usage_Buffer.thy ===== *)
theory Usage_Buffer
  imports Usage_Events
begin

text \<open>
  \<^verbatim>\<open>internal/usage\<close>: the plugin that turns finished upstream calls into usage events. \<open>BufferedPlugin\<close> is a
  bounded queue between the request goroutines and one writer goroutine; \<open>Plugin\<close> is the direct form;
  \<open>Hook\<close> counts lifecycle events.

  The state of the buffered plugin is the channel, the two flags, and the local variable \<open>batch\<close> of the
  writer goroutine. Its steps are the calls of the request goroutines (\<open>HandleUsage\<close>, under the read
  lock), of the shutdown (\<open>Close\<close>, under the write lock), and the two branches of the \<^verbatim>\<open>select\<close> of the
  writer loop. Runs are arbitrary interleavings of these steps. A flush runs inside its step: it touches
  only the batch of the writer and the database. Log lines are not modelled.
\<close>

section \<open>Records of the SDK\<close>

record sdk_Record =
  rc_APIKey :: string
  rc_AuthID :: string
  rc_Provider :: string
  rc_Model :: string
  rc_Alias :: string
  rc_InputTokens :: int
  rc_OutputTokens :: int
  rc_ReasoningTokens :: int
  rc_CachedTokens :: int
  rc_TotalTokens :: int
  rc_FailStatusCode :: int
  rc_FailBody :: string
  rc_Failed :: bool
  rc_Latency :: duration
  rc_TTFT :: duration

text \<open>\<^verbatim>\<open>Duration.Milliseconds\<close> divides towards zero.\<close>

definition Milliseconds :: "duration \<Rightarrow> int" where
  "Milliseconds d = sgn d * (\<bar>d\<bar> div 1000000)"

definition usageEventFromRecord :: "sdk_Record \<Rightarrow> UsageEvent result" where
  "usageEventFromRecord r =
     (case DecodePrincipal (rc_APIKey r) of
        Inl e \<Rightarrow> Inl e
      | Inr pr \<Rightarrow>
          Inr \<lparr>ev_UserID = Some (Principal_UserID pr), ev_APIKeyID = Principal_APIKeyID pr,
               ev_UpstreamAccountID = rc_AuthID r, ev_Provider = rc_Provider r,
               ev_Model = (if rc_Alias r \<noteq> [] then rc_Alias r else rc_Model r),
               ev_InputTokens = rc_InputTokens r, ev_OutputTokens = rc_OutputTokens r,
               ev_ReasoningTokens = rc_ReasoningTokens r, ev_CachedTokens = rc_CachedTokens r,
               ev_TotalTokens = rc_TotalTokens r,
               ev_StatusCode = (if rc_FailStatusCode r = 0 \<and> \<not> rc_Failed r then 200 else rc_FailStatusCode r),
               ev_Error = rc_FailBody r, ev_LatencyMS = Milliseconds (rc_Latency r), ev_TTFTMS = Milliseconds (rc_TTFT r),
               ev_Failed = rc_Failed r\<rparr>)"

section \<open>The buffered plugin\<close>

definition usageQueueCapacity :: nat where "usageQueueCapacity = 1024"
definition usageBatchSize :: nat where "usageBatchSize = 100"

text \<open>\<^verbatim>\<open>BatchEventWriter\<close>, with the optional method of \<^verbatim>\<open>APIKeyLastUsedUpdater\<close>.\<close>

record 'w writer =
  wr_InsertBatch :: "UsageEvent list \<Rightarrow> 'w \<Rightarrow> unit result \<times> 'w"
  wr_Touch :: "(int list \<Rightarrow> 'w \<Rightarrow> unit result \<times> 'w) option"

record BufferedPlugin =
  bp_queue :: "UsageEvent list"
  bp_closed :: bool
  bp_done :: bool
  bp_batch :: "UsageEvent list"

definition NewBufferedPlugin :: "'w writer option \<Rightarrow> BufferedPlugin" where
  "NewBufferedPlugin wr = \<lparr>bp_queue = [], bp_closed = False, bp_done = (wr = None), bp_batch = []\<rparr>"

definition HandleUsage :: "'w writer option \<Rightarrow> sdk_Record \<Rightarrow> BufferedPlugin \<Rightarrow> BufferedPlugin" where
  "HandleUsage wr r p =
     (if wr = None then p
      else (case usageEventFromRecord r of
              Inl _ \<Rightarrow> p
            | Inr event \<Rightarrow>
                (if bp_closed p then p
                 else if length (bp_queue p) < usageQueueCapacity then p\<lparr>bp_queue := bp_queue p @ [event]\<rparr>
                 else p)))"

text \<open>
  \<open>Close\<close> marks the plugin closed once and then waits; \<open>Close_returns\<close> is the set of values its second
  part can return in a state, empty while it blocks.
\<close>

definition Close_once :: "BufferedPlugin \<Rightarrow> BufferedPlugin" where
  "Close_once p = p\<lparr>bp_closed := True\<rparr>"

definition Close_returns :: "bool \<Rightarrow> BufferedPlugin \<Rightarrow> unit result set" where
  "Close_returns cancelled p =
     (if bp_done p then {Inr ()} else {}) \<union> (if cancelled then {Inl (ErrMsg ''context canceled'')} else {})"

definition QueueDepth :: "BufferedPlugin option \<Rightarrow> int" where
  "QueueDepth p = (case p of None \<Rightarrow> 0 | Some p \<Rightarrow> int (length (bp_queue p)))"

definition apiKeyIDs :: "UsageEvent list \<Rightarrow> int list" where
  "apiKeyIDs events = sort (remdups (filter (\<lambda>i. i > 0) (List.map_filter ev_APIKeyID events)))"

text \<open>The closure \<open>flush\<close> of the writer loop: what it does to the world; the batch is empty afterwards.\<close>

definition flush_write :: "'w writer \<Rightarrow> UsageEvent list \<Rightarrow> 'w \<Rightarrow> 'w" where
  "flush_write wr batch w =
     (if batch = [] then w
      else (case wr_InsertBatch wr batch w of
              (Inl _, w1) \<Rightarrow> w1
            | (Inr _, w1) \<Rightarrow>
                (case wr_Touch wr of
                   None \<Rightarrow> w1
                 | Some touch \<Rightarrow> snd (touch (apiKeyIDs batch) w1))))"

definition flush :: "'w writer \<Rightarrow> BufferedPlugin \<times> 'w \<Rightarrow> BufferedPlugin \<times> 'w" where
  "flush wr s = (case s of (p, w) \<Rightarrow> (p\<lparr>bp_batch := []\<rparr>, flush_write wr (bp_batch p) w))"

text \<open>One turn of the writer loop, by the branch taken. A finished loop takes no turn, and the receive branch blocks on an open empty channel.\<close>

definition run_receive :: "'w writer \<Rightarrow> BufferedPlugin \<times> 'w \<Rightarrow> BufferedPlugin \<times> 'w" where
  "run_receive wr s =
     (case s of (p, w) \<Rightarrow>
        if bp_done p then (p, w)
        else (case bp_queue p of
                [] \<Rightarrow> (if bp_closed p then (case flush wr (p, w) of (p1, w1) \<Rightarrow> (p1\<lparr>bp_done := True\<rparr>, w1)) else (p, w))
              | event # rest \<Rightarrow>
                  (let p1 = p\<lparr>bp_queue := rest, bp_batch := bp_batch p @ [event]\<rparr>
                   in if length (bp_batch p1) = usageBatchSize then flush wr (p1, w) else (p1, w))))"

definition run_tick :: "'w writer \<Rightarrow> BufferedPlugin \<times> 'w \<Rightarrow> BufferedPlugin \<times> 'w" where
  "run_tick wr s = (case s of (p, w) \<Rightarrow> if bp_done p then (p, w) else flush wr (p, w))"

section \<open>The direct plugin and the hook\<close>

definition Plugin_HandleUsage :: "(UsageEvent \<Rightarrow> 'w \<Rightarrow> unit result \<times> 'w) option \<Rightarrow> sdk_Record \<Rightarrow> 'w \<Rightarrow> 'w" where
  "Plugin_HandleUsage writer r w =
     (case writer of
        None \<Rightarrow> w
      | Some insert_event \<Rightarrow>
          (case usageEventFromRecord r of Inl _ \<Rightarrow> w | Inr event \<Rightarrow> snd (insert_event event w)))"

record Hook =
  authRegistered :: u64
  authUpdated :: u64
  results :: u64
  succeeded :: u64
  failed :: u64

definition NewHook :: Hook where
  "NewHook = \<lparr>authRegistered = 0, authUpdated = 0, results = 0, succeeded = 0, failed = 0\<rparr>"

definition OnAuthRegistered :: "Hook \<Rightarrow> Hook" where
  "OnAuthRegistered h = h\<lparr>authRegistered := authRegistered h + 1\<rparr>"

definition OnAuthUpdated :: "Hook \<Rightarrow> Hook" where
  "OnAuthUpdated h = h\<lparr>authUpdated := authUpdated h + 1\<rparr>"

definition OnResult :: "bool \<Rightarrow> Hook \<Rightarrow> Hook" where
  "OnResult success h =
     (let h1 = h\<lparr>results := results h + 1\<rparr>
      in if success then h1\<lparr>succeeded := succeeded h1 + 1\<rparr> else h1\<lparr>failed := failed h1 + 1\<rparr>)"

definition Snapshot :: "Hook option \<Rightarrow> Hook" where
  "Snapshot h = (case h of None \<Rightarrow> NewHook | Some h \<Rightarrow> h)"

section \<open>Runs\<close>

datatype plugin_act = Handle sdk_Record | CloseCall | Receive | Tick

fun plugin_step :: "'w writer \<Rightarrow> plugin_act \<Rightarrow> BufferedPlugin \<times> 'w \<Rightarrow> BufferedPlugin \<times> 'w" where
  "plugin_step wr (Handle r) (p, w) = (HandleUsage (Some wr) r p, w)"
| "plugin_step wr CloseCall (p, w) = (Close_once p, w)"
| "plugin_step wr Receive s = run_receive wr s"
| "plugin_step wr Tick s = run_tick wr s"

definition plugin_run :: "'w writer \<Rightarrow> plugin_act list \<Rightarrow> BufferedPlugin \<times> 'w \<Rightarrow> BufferedPlugin \<times> 'w" where
  "plugin_run wr acts s = fold (plugin_step wr) acts s"

text \<open>
  The specification of a run is a queue of unbounded patience: which events the calls put in, and which
  batches the writer takes out. Neither looks at the writer or the world.
\<close>

definition taken_in :: "plugin_act \<Rightarrow> BufferedPlugin \<Rightarrow> UsageEvent list" where
  "taken_in act p =
     (case act of
        Handle r \<Rightarrow>
          (case usageEventFromRecord r of
             Inl _ \<Rightarrow> []
           | Inr event \<Rightarrow> if \<not> bp_closed p \<and> length (bp_queue p) < usageQueueCapacity then [event] else [])
      | _ \<Rightarrow> [])"

definition handed_out :: "plugin_act \<Rightarrow> BufferedPlugin \<Rightarrow> UsageEvent list list" where
  "handed_out act p =
     (if bp_done p then []
      else (case act of
              Receive \<Rightarrow>
                (case bp_queue p of
                   [] \<Rightarrow> if bp_closed p \<and> bp_batch p \<noteq> [] then [bp_batch p] else []
                 | e # q \<Rightarrow> if length (bp_batch p) + 1 = usageBatchSize then [bp_batch p @ [e]] else [])
            | Tick \<Rightarrow> if bp_batch p \<noteq> [] then [bp_batch p] else []
            | _ \<Rightarrow> []))"

definition plugin_next :: "plugin_act \<Rightarrow> BufferedPlugin \<Rightarrow> BufferedPlugin" where
  "plugin_next act p = fst (plugin_step \<lparr>wr_InsertBatch = \<lambda>_ _. (Inr (), ()), wr_Touch = None\<rparr> act (p, ()))"

fun accepted :: "plugin_act list \<Rightarrow> BufferedPlugin \<Rightarrow> UsageEvent list" where
  "accepted [] p = []"
| "accepted (a # acts) p = taken_in a p @ accepted acts (plugin_next a p)"

fun batches :: "plugin_act list \<Rightarrow> BufferedPlugin \<Rightarrow> UsageEvent list list" where
  "batches [] p = []"
| "batches (a # acts) p = handed_out a p @ batches acts (plugin_next a p)"

definition write_all :: "'w writer \<Rightarrow> UsageEvent list list \<Rightarrow> 'w \<Rightarrow> 'w" where
  "write_all wr bs w = fold (flush_write wr) bs w"

lemma write_all_simps [simp]:
  "write_all wr [] w = w" "write_all wr (b # bs) w = write_all wr bs (flush_write wr b w)"
  "write_all wr (bs @ cs) w = write_all wr cs (write_all wr bs w)"
  by (simp_all add: write_all_def)

lemma flush_write_empty [simp]: "flush_write wr [] w = w"
  by (simp add: flush_write_def)

lemmas step_defs = HandleUsage_def Close_once_def run_receive_def run_tick_def flush_def taken_in_def handed_out_def plugin_next_def

lemma plugin_step_world: "plugin_step wr a (p, w) = (plugin_next a p, write_all wr (handed_out a p) w)"
  by (cases a) (auto simp: step_defs Let_def split: list.splits sum.splits)

lemma plugin_run_world:
  "plugin_run wr acts (p, w) = (fold plugin_next acts p, write_all wr (batches acts p) w)"
  by (induction acts arbitrary: p w) (simp_all add: plugin_run_def plugin_step_world)

text \<open>The invariant of the plugin: the bounds of queue and batch, and what a finished writer leaves.\<close>

definition wf_plugin :: "BufferedPlugin \<Rightarrow> bool" where
  "wf_plugin p = (length (bp_queue p) \<le> usageQueueCapacity \<and> length (bp_batch p) < usageBatchSize \<and>
     (bp_done p \<longrightarrow> bp_closed p \<and> bp_queue p = [] \<and> bp_batch p = []))"

lemma wf_plugin_next: "wf_plugin p \<Longrightarrow> wf_plugin (plugin_next a p)"
  by (cases a) (auto simp: wf_plugin_def step_defs usageBatchSize_def Let_def split: list.splits sum.splits)

lemma wf_plugin_run: "wf_plugin p \<Longrightarrow> wf_plugin (fold plugin_next acts p)"
  by (induction acts arbitrary: p) (simp_all add: wf_plugin_next)

lemma wf_NewBufferedPlugin [simp]: "wf_plugin (NewBufferedPlugin (Some wr))"
  by (simp add: wf_plugin_def NewBufferedPlugin_def usageBatchSize_def)

lemma step_conserves:
  "wf_plugin p \<Longrightarrow> concat (handed_out a p) @ bp_batch (plugin_next a p) @ bp_queue (plugin_next a p)
     = bp_batch p @ bp_queue p @ taken_in a p"
  by (cases a) (auto simp: wf_plugin_def step_defs Let_def split: list.splits sum.splits)

lemma run_conserves:
  "wf_plugin p \<Longrightarrow> concat (batches acts p) @ bp_batch (fold plugin_next acts p) @ bp_queue (fold plugin_next acts p)
     = bp_batch p @ bp_queue p @ accepted acts p"
proof (induction acts arbitrary: p)
  case (Cons a acts)
  from Cons.IH [OF wf_plugin_next [OF Cons.prems, of a]]
    arg_cong [OF step_conserves [OF Cons.prems, of a], of "\<lambda>xs. xs @ accepted acts (plugin_next a p)"]
  show ?case by simp
qed simp

lemma accepted_append: "accepted (as @ bs) p = accepted as p @ accepted bs (fold plugin_next as p)"
  by (induction as arbitrary: p) simp_all

lemma batches_bounded: "wf_plugin p \<Longrightarrow> list_all (\<lambda>b. 0 < length b \<and> length b \<le> usageBatchSize) (batches acts p)"
proof (induction acts arbitrary: p)
  case (Cons a acts)
  have "list_all (\<lambda>b. 0 < length b \<and> length b \<le> usageBatchSize) (handed_out a p)"
    using Cons.prems by (cases a) (auto simp: wf_plugin_def handed_out_def split: list.splits)
  with Cons.IH [OF wf_plugin_next [OF Cons.prems, of a]] show ?case by simp
qed simp

text \<open>Once closed, every receive of the writer brings the end nearer.\<close>

definition remaining :: "BufferedPlugin \<Rightarrow> nat" where
  "remaining p = (if bp_done p then 0 else length (bp_queue p) + 1)"

definition receives :: "plugin_act list \<Rightarrow> nat" where
  "receives acts = length (filter (\<lambda>a. a = Receive) acts)"

lemma closed_next: "bp_closed p \<Longrightarrow> bp_closed (plugin_next a p)"
  by (cases a) (auto simp: step_defs Let_def split: list.splits sum.splits)

lemma remaining_next:
  "bp_closed p \<Longrightarrow> remaining (plugin_next a p) \<le> remaining p - (if a = Receive then 1 else 0)"
  by (cases a) (auto simp: remaining_def step_defs Let_def split: list.splits sum.splits)

lemma closed_drains:
  "bp_closed p \<Longrightarrow> remaining (fold plugin_next acts p) \<le> remaining p - receives acts"
proof (induction acts arbitrary: p)
  case (Cons a acts)
  from Cons.IH [OF closed_next [OF Cons.prems, of a]] remaining_next [OF Cons.prems, of a]
  show ?case by (auto simp: receives_def)
qed (simp add: receives_def)

lemma closed_accepts_nothing: "bp_closed p \<Longrightarrow> accepted acts p = []"
proof (induction acts arbitrary: p)
  case (Cons a acts)
  with closed_next [OF Cons.prems, of a] show ?case by (cases a) (simp_all add: taken_in_def split: sum.splits)
qed simp

text \<open>
  C15. Between the requests and the database no usage event is lost, duplicated or reordered, and memory
  stays bounded. In every interleaving of calls, timer ticks and turns of the writer, the batches handed
  to the writer so far, followed by the pending batch and the queue, are exactly the accepted events in
  order; every batch has between 1 and 100 events; at most 1024 events wait in the queue, which is
  what the gauge reports; and an event is refused only when it is invalid, the plugin is closed or 1024 wait.
\<close>

theorem usage_buffer_conserves_events:
  "let p0 = NewBufferedPlugin (Some wr) in
   case plugin_run wr acts (p0, w) of (p, w') \<Rightarrow>
      w' = write_all wr (batches acts p0) w \<and>
      concat (batches acts p0) @ bp_batch p @ bp_queue p = accepted acts p0 \<and>
      list_all (\<lambda>b. 0 < length b \<and> length b \<le> 100) (batches acts p0) \<and>
      0 \<le> QueueDepth (Some p) \<and> QueueDepth (Some p) \<le> 1024 \<and> length (bp_batch p) < 100 \<and>
      accepted (acts @ [Handle r]) p0 = accepted acts p0 @
        (case usageEventFromRecord r of
           Inl _ \<Rightarrow> []
         | Inr event \<Rightarrow> if bp_closed p \<or> 1024 \<le> QueueDepth (Some p) then [] else [event])"
proof -
  let ?new = "NewBufferedPlugin (Some wr)"
  let ?p = "fold plugin_next acts ?new"
  have wf: "wf_plugin ?new" "wf_plugin ?p" by (simp_all add: wf_plugin_run)
  have "bp_batch ?new = []" "bp_queue ?new = []" by (simp_all add: NewBufferedPlugin_def)
  with run_conserves [OF wf(1), of acts] batches_bounded [OF wf(1), of acts] wf(2) show ?thesis
    by (simp add: plugin_run_world wf_plugin_def usageQueueCapacity_def usageBatchSize_def QueueDepth_def accepted_append taken_in_def
        Let_def
        not_less split: sum.splits)
qed

section \<open>Delivery\<close>

text \<open>What the plugin expects of a store of events: a batch that is valid when the store is ready is appended.\<close>

locale event_store =
  fixes wr :: "'w writer" and stored :: "'w \<Rightarrow> UsageEvent list" and ready :: "'w \<Rightarrow> bool" and valid :: "UsageEvent \<Rightarrow> bool"
  assumes write_stored: "ready w \<Longrightarrow> b \<noteq> [] \<Longrightarrow> list_all valid b \<Longrightarrow> stored (flush_write wr b w) = stored w @ b"
    and write_ready: "ready w \<Longrightarrow> b \<noteq> [] \<Longrightarrow> list_all valid b \<Longrightarrow> ready (flush_write wr b w)"
begin

lemma write_all_stored:
  "ready w \<Longrightarrow> list_all (\<lambda>b. 0 < length b) bs \<Longrightarrow> list_all valid (concat bs) \<Longrightarrow>
   stored (write_all wr bs w) = stored w @ concat bs \<and> ready (write_all wr bs w)"
proof (induction bs arbitrary: w)
  case (Cons b bs)
  then have "b \<noteq> []" "list_all valid b" by auto
  with Cons write_stored [of w b] write_ready [of w b] show ?case by simp
qed simp

lemma shutdown_delivers:
  assumes "wf_plugin p" "bp_batch p = []" "bp_queue p = []" and "ready w" and "list_all valid (accepted acts p)"
    and "remaining (fold plugin_next acts p) \<le> receives later"
    and run: "plugin_run wr (acts @ CloseCall # later) (p, w) = (p', w')"
  shows "bp_done p' \<and> stored w' = stored w @ accepted acts p"
proof -
  let ?all = "acts @ CloseCall # later" and ?p1 = "fold plugin_next acts p"
  let ?p2 = "plugin_next CloseCall ?p1"
  have p': "p' = fold plugin_next later ?p2" "w' = write_all wr (batches ?all p) w"
    using run by (simp_all add: plugin_run_world)
  have closed: "bp_closed ?p2" "remaining ?p2 = remaining ?p1" by (simp_all add: step_defs remaining_def)
  have "remaining p' = 0" unfolding p'(1) using closed_drains [OF closed(1), of later] closed(2) assms(6) by simp
  then have done_p': "bp_done p'" by (simp add: remaining_def split: if_splits)
  have acc: "accepted ?all p = accepted acts p" using closed_accepts_nothing [OF closed(1)] by (simp add: accepted_append taken_in_def)
  have "wf_plugin p'" unfolding p'(1) by (intro wf_plugin_run wf_plugin_next assms(1))
  then have "bp_batch p' = []" "bp_queue p' = []" using done_p' by (simp_all add: wf_plugin_def)
  then have c: "concat (batches ?all p) = accepted acts p"
    using run_conserves [OF assms(1), of ?all] assms(2,3) acc p'(1) by simp
  have "list_all (\<lambda>b. 0 < length b) (batches ?all p)"
    using batches_bounded [OF assms(1), of ?all] by (auto simp: list.pred_set)
  from write_all_stored [OF assms(4) this] c assms(5) done_p' p'(2) show ?thesis by simp
qed

end

text \<open>The writer of the program is the usage event repository.\<close>

definition repository_writer :: "world writer" where
  "repository_writer = \<lparr>wr_InsertBatch = InsertBatch, wr_Touch = Some TouchAPIKeysLastUsed\<rparr>"

definition stored_events :: "world \<Rightarrow> UsageEvent list" where
  "stored_events w = map row_event (usage_events (w_db w))"

text \<open>
  The repository can take the events of \<open>E\<close>: no connection is lost, a partition covers the clock until
  the last scripted delay has passed, and the events are in range and refer to existing rows.
\<close>

definition horizon :: "world \<Rightarrow> instant" where
  "horizon w = w_clock w + int (sum_list (w_delays w))"

definition storable :: "UsageEvent \<Rightarrow> database \<Rightarrow> bool" where
  "storable ev d = (case usageEventParams ev of Inl _ \<Rightarrow> False | Inr p \<Rightarrow> references_ok p d)"

definition repository_ready :: "UsageEvent set \<Rightarrow> world \<Rightarrow> bool" where
  "repository_ready E w =
     (w_faults w = [] \<and> (\<exists>(a, b) \<in> set (usage_partitions (w_db w)). a \<le> w_clock w \<and> horizon w < b) \<and>
      (\<forall>ev \<in> E. storable ev (w_db w)))"

lemma horizon_advance [simp]: "horizon (advance w) = horizon w" "w_clock w \<le> horizon w"
  by (auto simp: horizon_def advance_def split: list.splits)

lemma horizon_db [simp]: "horizon (w\<lparr>w_db := d\<rparr>) = horizon w"
  by (simp add: horizon_def)

lemma storable_cong:
  "users d' = users d \<Longrightarrow> map k_id (api_keys d') = map k_id (api_keys d) \<Longrightarrow> upstream_accounts d' = upstream_accounts d \<Longrightarrow>
   storable ev d' = storable ev d"
  unfolding storable_def by (auto simp: references_ok_cong [of d' d] split: sum.splits)

lemma repository_ready_step:
  assumes "repository_ready E w" and "users d = users (w_db w)" "map k_id (api_keys d) = map k_id (api_keys (w_db w))"
    "upstream_accounts d = upstream_accounts (w_db w)" "usage_partitions d = usage_partitions (w_db w)"
  shows "repository_ready E ((advance w)\<lparr>w_db := d\<rparr>)"
proof -
  from assms(1) obtain a b where ab: "(a, b) \<in> set (usage_partitions (w_db w))" "a \<le> w_clock w" "horizon w < b"
    by (auto simp: repository_ready_def)
  then have "a \<le> w_clock (advance w)" using advance_mono [of w] by linarith
  with ab assms storable_cong [of d "w_db w"] show ?thesis by (auto simp: repository_ready_def)
qed

lemma batchParams_storable:
  "list_all (\<lambda>ev. storable ev d) evs \<Longrightarrow> \<exists>ps. batchParams evs = Inr ps \<and> list_all (\<lambda>p. references_ok p d) ps"
  by (induction evs) (auto simp: storable_def split: sum.splits)

lemma InsertBatch_ready:
  assumes "repository_ready E w" and "b \<noteq> []" and "list_all (\<lambda>ev. ev \<in> E) b"
  shows "\<exists>w'. InsertBatch b w = (Inr (), w') \<and> stored_events w' = stored_events w @ b \<and> repository_ready E w'"
proof -
  have "list_all (\<lambda>ev. storable ev (w_db w)) b"
    using assms(1,3) unfolding list.pred_set repository_ready_def by blast
  from batchParams_storable [OF this] obtain ps where ps: "batchParams b = Inr ps" "list_all (\<lambda>p. references_ok p (w_db w)) ps"
    by blast
  let ?d = "(w_db w)\<lparr>usage_events := usage_events (w_db w) @ batch_rows ps (usage_seq (w_db w)) (w_clock (advance w)),
       usage_seq := usage_seq (w_db w) + int (length ps)\<rparr>"
  have f: "w_faults w = []" using assms(1) by (simp add: repository_ready_def)
  have "has_partition (w_clock (advance w)) (w_db w)"
  proof -
    from assms(1) obtain a c where "(a, c) \<in> set (usage_partitions (w_db w))" "a \<le> w_clock w" "horizon w < c"
      by (auto simp: repository_ready_def)
    moreover have "w_clock w \<le> w_clock (advance w)" "w_clock (advance w) \<le> horizon w"
      using advance_mono [of w] horizon_advance(2) [of "advance w"] by simp_all
    ultimately show ?thesis unfolding has_partition_def list_ex_iff by (intro bexI [of _ "(a, c)"]) simp_all
  qed
  then have "insertable ps (w_clock (advance w)) (w_db w)" using ps(2) by (simp add: insertable_def)
  with InsertUsageEvents_eq [of ps "advance w" "w_db w"] have "run_query (InsertUsageEvents ps) w = (Inr (), (advance w)\<lparr>w_db := ?d\<rparr>)"
    using f by (simp add: run_query_no_fault)
  with ps(1) assms(2) have "InsertBatch b w = (Inr (), (advance w)\<lparr>w_db := ?d\<rparr>)" by (simp add: InsertBatch_def)
  moreover have "repository_ready E ((advance w)\<lparr>w_db := ?d\<rparr>)" by (rule repository_ready_step [OF assms(1)]) simp_all
  ultimately show ?thesis using batchParams_ok [OF ps(1)] by (simp add: stored_events_def)
qed

lemma Touch_ready:
  assumes "repository_ready E w"
  shows "stored_events (snd (TouchAPIKeysLastUsed ids w)) = stored_events w \<and> repository_ready E (snd (TouchAPIKeysLastUsed ids w))"
proof (cases "ids = []")
  case False
  have f: "w_faults w = []" using assms by (simp add: repository_ready_def)
  obtain d where d: "TouchAPIKeysLastUsed_q ids (advance w) (w_db w) = (Inr (), d)"
    "usage_events d = usage_events (w_db w)" "users d = users (w_db w)" "map k_id (api_keys d) = map k_id (api_keys (w_db w))"
    "upstream_accounts d = upstream_accounts (w_db w)" "usage_partitions d = usage_partitions (w_db w)"
    by (auto simp: TouchAPIKeysLastUsed_q_def map_update_where_key)
  with False f have "snd (TouchAPIKeysLastUsed ids w) = (advance w)\<lparr>w_db := d\<rparr>"
    by (simp add: TouchAPIKeysLastUsed_def run_query_no_fault)
  with repository_ready_step [OF assms d(3-6)] d(2) show ?thesis by (simp add: stored_events_def)
qed (use assms in \<open>simp add: TouchAPIKeysLastUsed_def\<close>)

lemma repository_flush:
  assumes "repository_ready E w" and "b \<noteq> []" and "list_all (\<lambda>ev. ev \<in> E) b"
  shows "stored_events (flush_write repository_writer b w) = stored_events w @ b \<and>
     repository_ready E (flush_write repository_writer b w)"
proof -
  from InsertBatch_ready [OF assms] obtain w' where w': "InsertBatch b w = (Inr (), w')" "stored_events w' = stored_events w @ b"
    "repository_ready E w'" by blast
  with Touch_ready [OF w'(3), of "apiKeyIDs b"] assms(2) show ?thesis by (simp add: flush_write_def repository_writer_def)
qed

interpretation repo: event_store repository_writer stored_events "repository_ready E" "\<lambda>ev. ev \<in> E" for E
  by unfold_locales (use repository_flush in blast)+


definition sample_record :: sdk_Record where
  "sample_record = \<lparr>rc_APIKey = ''cliproxy:v1:1:2'', rc_AuthID = [], rc_Provider = ''codex'', rc_Model = ''m'', rc_Alias = [],
     rc_InputTokens = 3, rc_OutputTokens = 4, rc_ReasoningTokens = 0, rc_CachedTokens = 0, rc_TotalTokens = 7,
     rc_FailStatusCode = 0, rc_FailBody = [], rc_Failed = False, rc_Latency = 5000000, rc_TTFT = 2000000\<rparr>"


end
