(* ===== verification/Selector.thy ===== *)
theory Selector
  imports Model_Overrides Core_Auth_Store
begin

text \<open>
  \<^verbatim>\<open>internal/auth/selector/selector.go\<close>: the allow-list of models in front of the account selection of the
  SDK. The selector caches the list of overrides for five seconds in a Go slice. A slice is an array of
  an explicit heap with a length; \<open>append(s.cache[:0], overrides...)\<close> writes into the same array when the
  new list fits, and into a new array (with some spare capacity, a parameter) when it does not.

  The scan of \<open>providerForModel\<close> runs after the lock is released. \<open>scan\<close> takes the heap at the time of each
  read, so that both the undisturbed scan (the heap never changes) and the scan during refreshes by other
  requests are instances.
\<close>

section \<open>State\<close>

definition overrideCacheTTL :: duration where "overrideCacheTTL = 5 * second"

record slice =
  sl_array :: nat
  sl_len :: nat

type_synonym override_heap = "ModelOverride list list"

record Selector =
  sel_heap :: override_heap
  sel_cache :: slice
  sel_expiresAt :: instant

text \<open>The nil slice is the empty array at address 0.\<close>

definition Selector_New :: Selector where
  "Selector_New = \<lparr>sel_heap = [[]], sel_cache = \<lparr>sl_array = 0, sl_len = 0\<rparr>, sel_expiresAt = zero_time\<rparr>"

definition slice_elems :: "override_heap \<Rightarrow> slice \<Rightarrow> ModelOverride list" where
  "slice_elems h s = take (sl_len s) (h ! sl_array s)"

definition append_reset :: "ModelOverride list \<Rightarrow> ModelOverride list \<Rightarrow> override_heap \<Rightarrow> slice \<Rightarrow> override_heap \<times> slice" where
  "append_reset spare xs h s =
     (if length xs \<le> length (h ! sl_array s)
      then (h[sl_array s := xs @ drop (length xs) (h ! sl_array s)], s\<lparr>sl_len := length xs\<rparr>)
      else (h @ [xs @ spare], \<lparr>sl_array = length h, sl_len = length xs\<rparr>))"

section \<open>Operations\<close>

type_synonym override_lister = "world \<Rightarrow> ModelOverride list result \<times> world"

definition listOverrides ::
  "override_lister \<Rightarrow> ModelOverride list \<Rightarrow> Selector \<Rightarrow> world \<Rightarrow> slice result \<times> Selector \<times> world" where
  "listOverrides lister spare s w =
     (let refresh = (\<lambda>w.
            case lister w of
              (Inl e, w1) \<Rightarrow> (Inl e, s, w1)
            | (Inr overrides, w1) \<Rightarrow>
                (case append_reset spare overrides (sel_heap s) (sel_cache s) of
                   (h, c) \<Rightarrow>
                     (case time_Now w1 of
                        (now, w2) \<Rightarrow> (Inr c, \<lparr>sel_heap = h, sel_cache = c, sel_expiresAt = now + overrideCacheTTL\<rparr>, w2))))
      in if sel_expiresAt s = zero_time then refresh w
         else (case time_Now w of
                 (now, w1) \<Rightarrow> if now < sel_expiresAt s then (Inr (sel_cache s), s, w1) else refresh w1))"

text \<open>The loop over the slice: element \<open>i\<close> is read when the heap is \<open>h i\<close>.\<close>

function scan :: "(nat \<Rightarrow> override_heap) \<Rightarrow> slice \<Rightarrow> string \<Rightarrow> nat \<Rightarrow> string result" where
  "scan h c model i =
     (if i < sl_len c
      then (let override = h i ! sl_array c ! i
            in if ov_ModelAlias override \<noteq> model then scan h c model (i + 1)
               else if \<not> ov_Enabled override then Inl (ErrMsg ''model is disabled'')
               else Inr (ov_Provider override))
      else Inl (ErrMsg ''model is not allowed''))"
  by pat_completeness auto
termination by (relation "measure (\<lambda>(h, c, model, i). sl_len c - i)") auto

definition scan_slice :: "(nat \<Rightarrow> override_heap) \<Rightarrow> slice \<Rightarrow> string \<Rightarrow> string \<Rightarrow> string result" where
  "scan_slice h c provider model = (if sl_len c = 0 then Inr provider else scan h c model 0)"

definition providerForModel ::
  "override_lister option \<Rightarrow> ModelOverride list \<Rightarrow> string \<Rightarrow> string \<Rightarrow> Selector \<Rightarrow> world \<Rightarrow> string result \<times> Selector \<times> world" where
  "providerForModel lister spare provider model s w =
     (case lister of
        None \<Rightarrow> (Inr provider, s, w)
      | Some l \<Rightarrow>
          (case listOverrides l spare s w of
             (Inl e, s1, w1) \<Rightarrow> (Inl (Wrapf ''list model overrides'' e), s1, w1)
           | (Inr c, s1, w1) \<Rightarrow> (scan_slice (\<lambda>_. sel_heap s1) c provider model, s1, w1)))"

definition filterByProvider :: "Auth option list \<Rightarrow> string \<Rightarrow> Auth option list" where
  "filterByProvider auths provider =
     (if provider = [] then auths
      else filter (\<lambda>a. case a of None \<Rightarrow> False | Some auth \<Rightarrow> au_Provider auth = provider) auths)"

text \<open>The selector of the SDK, \<^verbatim>\<open>coreauth.FillFirstSelector\<close>: provider, model, candidates.\<close>

type_synonym sdk_selector = "string \<Rightarrow> string \<Rightarrow> Auth option list \<Rightarrow> Auth option result"

definition Pick ::
  "override_lister option \<Rightarrow> sdk_selector \<Rightarrow> ModelOverride list \<Rightarrow> string \<Rightarrow> string \<Rightarrow> Auth option list \<Rightarrow> Selector \<Rightarrow> world
   \<Rightarrow> Auth option result \<times> Selector \<times> world" where
  "Pick lister fallback spare provider model auths s w =
     (case providerForModel lister spare provider model s w of
        (Inl e, s1, w1) \<Rightarrow> (Inl e, s1, w1)
      | (Inr target, s1, w1) \<Rightarrow>
          (let candidates = filterByProvider auths target
           in if candidates = [] then (Inl (ErrMsg ''pick auth for provider: no candidates''), s1, w1)
              else (fallback target model candidates, s1, w1)))"

declare scan.simps [simp del]

section \<open>The undisturbed scan\<close>

text \<open>What the allow-list says of a model: an empty list allows everything, otherwise the first entry of the model decides.\<close>

definition decide :: "ModelOverride list \<Rightarrow> string \<Rightarrow> string \<Rightarrow> string result" where
  "decide overrides provider model =
     (if overrides = [] then Inr provider
      else (case find (\<lambda>o'. ov_ModelAlias o' = model) overrides of
              None \<Rightarrow> Inl (ErrMsg ''model is not allowed'')
            | Some o' \<Rightarrow> if ov_Enabled o' then Inr (ov_Provider o') else Inl (ErrMsg ''model is disabled'')))"

definition wf_slice :: "override_heap \<Rightarrow> slice \<Rightarrow> bool" where
  "wf_slice h c = (sl_array c < length h \<and> sl_len c \<le> length (h ! sl_array c))"

lemma scan_find:
  "wf_slice h c \<Longrightarrow> i \<le> sl_len c \<Longrightarrow> scan (\<lambda>_. h) c model i =
    (case find (\<lambda>o'. ov_ModelAlias o' = model) (drop i (slice_elems h c)) of
       None \<Rightarrow> Inl (ErrMsg ''model is not allowed'')
     | Some o' \<Rightarrow> if ov_Enabled o' then Inr (ov_Provider o') else Inl (ErrMsg ''model is disabled''))"
proof (induction "\<lambda>_ :: nat. h" c model i rule: scan.induct)
  case (1 c model i)
  have len: "length (slice_elems h c) = sl_len c" using 1 by (auto simp: slice_elems_def wf_slice_def)
  show ?case
  proof (cases "i < sl_len c")
    case True
    then have "drop i (slice_elems h c) = h ! sl_array c ! i # drop (i + 1) (slice_elems h c)"
      using len Cons_nth_drop_Suc [of i "slice_elems h c"] by (simp add: slice_elems_def)
    with 1 True show ?thesis by (subst scan.simps) (simp add: Let_def)
  next
    case False
    with 1 len show ?thesis by (subst scan.simps) simp
  qed
qed

lemma scan_slice_decide:
  assumes "wf_slice h c"
  shows "scan_slice (\<lambda>_. h) c provider model = decide (slice_elems h c) provider model"
  using scan_find [OF assms, of 0] assms by (auto simp: scan_slice_def decide_def slice_elems_def wf_slice_def)

lemma append_reset_ok:
  assumes "wf_slice h c" and "append_reset spare xs h c = (h', c')"
  shows "wf_slice h' c' \<and> slice_elems h' c' = xs"
  using assms by (auto simp: append_reset_def wf_slice_def slice_elems_def split: if_splits)

section \<open>Freshness\<close>

text \<open>
  The runs of a selector. Besides the selector and the world, \<open>sel_run\<close> keeps the log of the successful
  fetches, latest first: the clock when the query was sent, the clock when its result was stored, and
  the list. Between two picks the world may change in any way that does not turn the clock back.
\<close>

type_synonym fetch_log = "(instant \<times> instant \<times> ModelOverride list) list"

definition fetch_of :: "override_lister \<Rightarrow> Selector \<Rightarrow> world \<Rightarrow> fetch_log" where
  "fetch_of lister s w =
     (let log = (\<lambda>w. case lister w of (Inl e, w1) \<Rightarrow> [] | (Inr xs, w1) \<Rightarrow> [(w_clock w, fst (time_Now w1), xs)])
      in if sel_expiresAt s = zero_time then log w
         else (case time_Now w of (now, w1) \<Rightarrow> if now < sel_expiresAt s then [] else log w1))"

inductive sel_run :: "override_lister \<Rightarrow> sdk_selector \<Rightarrow> fetch_log \<Rightarrow> Selector \<Rightarrow> world \<Rightarrow> bool"
  for lister :: override_lister and fallback :: sdk_selector where
  start: "sel_run lister fallback [] Selector_New w"
| pick: "sel_run lister fallback fs s w \<Longrightarrow> Pick (Some lister) fallback spare provider model auths s w = (r, s', w') \<Longrightarrow>
     sel_run lister fallback (fetch_of lister s w @ fs) s' w'"
| other: "sel_run lister fallback fs s w \<Longrightarrow> w_clock w \<le> w_clock w' \<Longrightarrow> sel_run lister fallback fs s w'"

text \<open>The cache always holds the latest fetched list, until five seconds after it was stored.\<close>

definition cache_is :: "fetch_log \<Rightarrow> Selector \<Rightarrow> bool" where
  "cache_is fs s =
     (wf_slice (sel_heap s) (sel_cache s) \<and>
      (case fs of
         [] \<Rightarrow> sel_expiresAt s = zero_time
       | (t0, t1, xs) # _ \<Rightarrow> slice_elems (sel_heap s) (sel_cache s) = xs \<and> sel_expiresAt s = t1 + overrideCacheTTL))"

lemma listOverrides_cases:
  assumes "cache_is fs s" and "listOverrides lister spare s w = (r, s', w')"
  shows "cache_is (fetch_of lister s w @ fs) s' \<and>
    (case r of
       Inl e \<Rightarrow> fetch_of lister s w = []
     | Inr c \<Rightarrow> c = sel_cache s' \<and> (\<exists>t0 t1 rest. fetch_of lister s w @ fs = (t0, t1, slice_elems (sel_heap s') c) # rest \<and>
           w_clock w' < t1 + overrideCacheTTL))"
proof -
  let ?log = "\<lambda>w. case lister w of (Inl e, w1) \<Rightarrow> [] | (Inr xs, w1) \<Rightarrow> [(w_clock w, fst (time_Now w1), xs)]"
  let ?fetch = "\<lambda>w. case lister w of
      (Inl e, w1) \<Rightarrow> (Inl e, s, w1)
    | (Inr overrides, w1) \<Rightarrow>
        (case append_reset spare overrides (sel_heap s) (sel_cache s) of
           (h, c) \<Rightarrow>
             (case time_Now w1 of
                (now, w2) \<Rightarrow> (Inr c, \<lparr>sel_heap = h, sel_cache = c, sel_expiresAt = now + overrideCacheTTL\<rparr>, w2)))"
  have refresh: "cache_is (?log v @ fs) s' \<and>
      (case r of
         Inl e \<Rightarrow> ?log v = []
       | Inr c \<Rightarrow> c = sel_cache s' \<and> (\<exists>t0 t1 rest. ?log v @ fs = (t0, t1, slice_elems (sel_heap s') c) # rest \<and> w_clock w' < t1 + overrideCacheTTL))"
    if "?fetch v = (r, s', w')"
    for v
  proof (cases "lister v")
    case (Pair x w1)
    show ?thesis
    proof (cases x)
      case (Inl e)
      with Pair that assms(1) show ?thesis by auto
    next
      case (Inr xs)
      obtain h c where hc: "append_reset spare xs (sel_heap s) (sel_cache s) = (h, c)" by fastforce
      have "wf_slice (sel_heap s) (sel_cache s)" using assms(1) by (simp add: cache_is_def)
      from append_reset_ok [OF this hc] that Pair Inr hc show ?thesis
        by (auto simp: cache_is_def time_Now_def Let_def overrideCacheTTL_def)
    qed
  qed
  show ?thesis
  proof (cases "sel_expiresAt s = zero_time")
    case True
    then have log: "fetch_of lister s w = ?log w" and "?fetch w = (r, s', w')"
      using assms(2) by (simp_all add: fetch_of_def listOverrides_def Let_def)
    then show ?thesis unfolding log by (intro refresh)
  next
    case False
    show ?thesis
    proof (cases "w_clock (advance w) < sel_expiresAt s")
      case hit: True
      with False assms have "r = Inr (sel_cache s)" "s' = s" "w' = advance w"
        by (auto simp: listOverrides_def time_Now_def Let_def)
      with hit False assms(1) show ?thesis by (auto simp: fetch_of_def cache_is_def time_Now_def Let_def split: list.splits)
    next
      case miss: False
      with False have log: "fetch_of lister s w = ?log (advance w)" and "?fetch (advance w) = (r, s', w')"
        using assms(2) by (simp_all add: fetch_of_def listOverrides_def time_Now_def Let_def)
      then show ?thesis unfolding log by (intro refresh)
    qed
  qed
qed

lemma providerForModel_reference:
  assumes "cache_is fs s" and "providerForModel (Some lister) spare provider model s w = (r, s', w')"
  shows "cache_is (fetch_of lister s w @ fs) s' \<and>
    ((\<exists>e. r = Inl (Wrapf ''list model overrides'' e) \<and> fetch_of lister s w = []) \<or>
     (\<exists>t0 t1 xs rest. fetch_of lister s w @ fs = (t0, t1, xs) # rest \<and> w_clock w' < t1 + overrideCacheTTL \<and>
        r = decide xs provider model))"
proof -
  obtain x s1 w1 where l: "listOverrides lister spare s w = (x, s1, w1)" by (cases "listOverrides lister spare s w") auto
  note c = listOverrides_cases [OF assms(1) l]
  show ?thesis
  proof (cases x)
    case (Inl e)
    with l c assms(2) show ?thesis by (auto simp: providerForModel_def)
  next
    case (Inr sl)
    then have "scan_slice (\<lambda>_. sel_heap s1) sl provider model = decide (slice_elems (sel_heap s1) sl) provider model"
      using c by (intro scan_slice_decide) (auto simp: cache_is_def)
    with Inr l c assms(2) show ?thesis by (auto simp: providerForModel_def)
  qed
qed

lemma Pick_selector: "Pick l f spare provider model auths s w = (r, s', w') \<Longrightarrow>
   \<exists>x. providerForModel l spare provider model s w = (x, s', w') \<and>
     r = (case x of Inl e \<Rightarrow> Inl e
          | Inr target \<Rightarrow>
              if filterByProvider auths target = [] then Inl (ErrMsg ''pick auth for provider: no candidates'')
              else f target model (filterByProvider auths target))"
  by (cases "providerForModel l spare provider model s w") (auto simp: Pick_def Let_def split: sum.splits if_splits)

lemma sel_run_cache: "sel_run lister fallback fs s w \<Longrightarrow> cache_is fs s"
proof (induction rule: sel_run.induct)
  case (start w)
  show ?case by (simp add: cache_is_def Selector_New_def wf_slice_def)
next
  case (pick fs s w spare provider model auths r s' w')
  from Pick_selector [OF pick.hyps(2)] obtain x where "providerForModel (Some lister) spare provider model s w = (x, s', w')" by blast
  from providerForModel_reference [OF pick.IH this] show ?case by blast
qed

text \<open>What the SDK selector documents: it returns one of the candidates it was given.\<close>

definition fallback_contract :: "sdk_selector \<Rightarrow> bool" where
  "fallback_contract f = (\<forall>provider model auths a. f provider model auths = Inr (Some a) \<longrightarrow> Some a \<in> set auths)"


definition first_candidate :: sdk_selector where
  "first_candidate provider model auths = (case auths of [] \<Rightarrow> Inl (ErrMsg ''no auth'') | a # _ \<Rightarrow> Inr a)"

definition gpt_row :: model_override_row where
  "gpt_row = \<lparr>mo_id = 1, mo_provider = ''codex'', mo_model_alias = ''gpt'', mo_upstream_model = ''gpt-5'', mo_enabled = True, mo_config = None\<rparr>"

definition override_world :: world where
  "override_world = start_world (empty_db\<lparr>model_overrides := [gpt_row]\<rparr>) 0"


section \<open>Refreshes during a scan\<close>

text \<open>The heap and the cache after other requests refreshed the list, one after the other.\<close>

definition refresh_all :: "ModelOverride list \<Rightarrow> ModelOverride list list \<Rightarrow> override_heap \<Rightarrow> slice \<Rightarrow> override_heap \<times> slice" where
  "refresh_all spare fetched h c = fold (\<lambda>xs (h, c). append_reset spare xs h c) fetched (h, c)"

lemma refresh_all_element:
  assumes "sl_array c < length h" and "a < length h" and "j < length (h ! a)"
  shows "a < length (fst (refresh_all spare fetched h c)) \<and> j < length (fst (refresh_all spare fetched h c) ! a) \<and>
    fst (refresh_all spare fetched h c) ! a ! j \<in> {h ! a ! j} \<union> \<Union> (set ` set fetched)"
  using assms
proof (induction fetched arbitrary: h c)
  case (Cons xs fetched)
  obtain h1 c1 where r: "append_reset spare xs h c = (h1, c1)" by fastforce
  have "sl_array c1 < length h1 \<and> a < length h1 \<and> j < length (h1 ! a) \<and> h1 ! a ! j \<in> {h ! a ! j} \<union> set xs"
    using r Cons.prems by (cases "a = sl_array c") (auto simp: append_reset_def nth_append split: if_splits)
  with Cons.IH [of c1 h1] r show ?case by (auto simp: refresh_all_def)
qed (simp add: refresh_all_def)

lemma scan_ok_element:
  "scan h c model i = Inr target \<Longrightarrow>
   \<exists>j < sl_len c. ov_ModelAlias (h j ! sl_array c ! j) = model \<and> ov_Enabled (h j ! sl_array c ! j) \<and> ov_Provider (h j ! sl_array c ! j) = target"
proof (induction h c model i rule: scan.induct)
  case (1 h c model i)
  from 1(2) show ?case
    by (subst (asm) scan.simps) (use 1(1) in \<open>auto simp: Let_def split: if_splits\<close>)
qed

text \<open>
  A scan that other requests disturb by refreshing the cache never grants what no list grants. Whatever
  refreshes happen between its reads, a provider it returns is named for the model by an enabled entry
  of the list it started with or of a list fetched meanwhile (or that list was empty and the requested
  provider stands).
\<close>

theorem disturbed_scan_grants_are_justified:
  assumes "wf_slice h0 c" and "\<forall>i. \<exists>n. h i = fst (refresh_all spare (take n fetched) h0 c)"
    and "scan_slice h c provider model = Inr target"
  shows "(slice_elems h0 c = [] \<and> target = provider) \<or>
    (\<exists>o' \<in> set (slice_elems h0 c) \<union> \<Union> (set ` set fetched). ov_ModelAlias o' = model \<and> ov_Enabled o' \<and> ov_Provider o' = target)"
proof (cases "sl_len c = 0")
  case True
  with assms(3) show ?thesis by (simp add: scan_slice_def slice_elems_def)
next
  case False
  with assms(3) have "scan h c model 0 = Inr target" by (simp add: scan_slice_def)
  from scan_ok_element [OF this] obtain j where j: "j < sl_len c" "ov_ModelAlias (h j ! sl_array c ! j) = model"
    "ov_Enabled (h j ! sl_array c ! j)" "ov_Provider (h j ! sl_array c ! j) = target" by blast
  from assms(2) obtain n where n: "h j = fst (refresh_all spare (take n fetched) h0 c)" by blast
  have wf: "sl_array c < length h0" "j < length (h0 ! sl_array c)" using assms(1) j(1) by (auto simp: wf_slice_def)
  let ?o = "h j ! sl_array c ! j"
  have "?o \<in> {h0 ! sl_array c ! j} \<union> \<Union> (set ` set (take n fetched))"
    unfolding n using refresh_all_element [OF wf(1) wf(1) wf(2)] by (rule conjunct2 [OF conjunct2])
  moreover have "h0 ! sl_array c ! j \<in> set (slice_elems h0 c)"
    using j(1) wf(2) by (auto simp: slice_elems_def in_set_conv_nth intro!: exI [of _ j])
  moreover have "\<Union> (set ` set (take n fetched)) \<subseteq> \<Union> (set ` set fetched)"
    using set_take_subset [of n fetched] by (intro Union_mono image_mono)
  ultimately have "?o \<in> set (slice_elems h0 c) \<union> \<Union> (set ` set fetched)" by (auto simp del: Union_iff)
  with j show ?thesis by blast
qed

definition entry :: "string \<Rightarrow> ModelOverride" where
  "entry model = \<lparr>ov_ID = 1, ov_Provider = ''codex'', ov_ModelAlias = model, ov_UpstreamModel = model, ov_Enabled = True, ov_Config = None\<rparr>"

definition two_models :: "override_heap" where
  "two_models = [[entry ''a'', entry ''b'']]"

definition two_slice :: slice where
  "two_slice = \<lparr>sl_array = 0, sl_len = 2\<rparr>"

theorem disturbed_scan_grants_are_justified_witness:
  "scan_slice (\<lambda>i. if i = 0 then two_models else fst (refresh_all [] [[entry ''c'', entry ''d'']] two_models two_slice))
     two_slice ''x'' ''d'' = Inr ''codex'' \<and>
   (\<exists>o' \<in> {entry ''a'', entry ''b'', entry ''c'', entry ''d''}. ov_ModelAlias o' = ''d'')"
proof -
  let ?h = "\<lambda>i :: nat. if i = 0 then two_models else fst (refresh_all [] [[entry ''c'', entry ''d'']] two_models two_slice)"
  have wf: "wf_slice two_models two_slice" by code_simp
  have h: "\<forall>i. \<exists>n. ?h i = fst (refresh_all [] (take n [[entry ''c'', entry ''d'']]) two_models two_slice)"
  proof
    fix i show "\<exists>n. ?h i = fst (refresh_all [] (take n [[entry ''c'', entry ''d'']]) two_models two_slice)"
      by (rule exI [of _ "if i = 0 then 0 else 1"]) (simp add: refresh_all_def)
  qed
  have s: "scan_slice ?h two_slice ''x'' ''d'' = Inr ''codex''" by code_simp
  have e: "slice_elems two_models two_slice = [entry ''a'', entry ''b'']" by (simp add: slice_elems_def two_models_def two_slice_def)
  from disturbed_scan_grants_are_justified [OF wf h s] e s show ?thesis by auto
qed

text \<open>
  But a disturbed scan can refuse what every list grants. The cache holds the models \<open>a\<close> and \<open>b\<close>; while a
  request for \<open>b\<close> scans it, another request stores the new list \<open>b\<close>, \<open>c\<close> into the same array. The scan reads
  \<open>a\<close> from the old list and \<open>c\<close> from the new one and reports that \<open>b\<close> is not allowed, although both lists
  allow it.
\<close>

theorem disturbed_scan_refuses_allowed_model:
  "let new = [entry ''b'', entry ''c''];
       during = (\<lambda>i. if i = 0 then two_models else fst (append_reset [] new two_models two_slice))
   in decide (slice_elems two_models two_slice) ''x'' ''b'' = Inr ''codex'' \<and>
      decide new ''x'' ''b'' = Inr ''codex'' \<and>
      snd (append_reset [] new two_models two_slice) = two_slice \<and>
      scan_slice during two_slice ''x'' ''b'' = Inl (ErrMsg ''model is not allowed'')"
  by code_simp

end
