(* ===== verification/Watchers.thy ===== *)
theory Watchers
  imports Core_Auth_Store
begin

text \<open>
  \<^verbatim>\<open>internal/watcher\<close>: leader election over a PostgreSQL advisory lock, the periodic cleanup of expired
  sessions on the leader, and the poller that restarts a replica when the upstream accounts changed.

  The lock is a session-level lock of one key: every connection has the number of times it holds it. The
  runner loop is a machine whose states are the places where \<open>Run\<close> waits for something; an event is what
  it waited for.
\<close>

section \<open>The advisory lock\<close>

type_synonym conn = nat

record lock_server =
  held :: "conn \<Rightarrow> nat"

definition pg_try_advisory_lock :: "conn set \<Rightarrow> conn \<Rightarrow> lock_server \<Rightarrow> bool \<times> lock_server" where
  "pg_try_advisory_lock conns c srv =
     (if \<exists>c' \<in> conns. c' \<noteq> c \<and> held srv c' > 0 then (False, srv)
      else (True, srv\<lparr>held := (held srv)(c := held srv c + 1)\<rparr>))"

definition pg_advisory_unlock :: "conn \<Rightarrow> lock_server \<Rightarrow> bool \<times> lock_server" where
  "pg_advisory_unlock c srv =
     (if held srv c > 0 then (True, srv\<lparr>held := (held srv)(c := held srv c - 1)\<rparr>) else (False, srv))"

text \<open>The end of a connection releases what it holds.\<close>

definition session_end :: "conn \<Rightarrow> lock_server \<Rightarrow> lock_server" where
  "session_end c srv = srv\<lparr>held := (held srv)(c := 0)\<rparr>"

text \<open>
  \<open>TryLock\<close> on the connection \<open>c\<close> of the pool: the pool may fail to give a connection, and the query may
  fail, in which case the driver closes the connection.
\<close>

datatype lock_io = AcquireFails | QueryFails | QueryRuns

definition TryLock :: "conn set \<Rightarrow> lock_io \<Rightarrow> conn \<Rightarrow> lock_server \<Rightarrow> conn option result \<times> lock_server" where
  "TryLock conns io c srv =
     (case io of
        AcquireFails \<Rightarrow> (Inl (ErrMsg ''acquire advisory lock connection''), srv)
      | QueryFails \<Rightarrow> (Inl (ErrMsg ''try advisory lock''), session_end c srv)
      | QueryRuns \<Rightarrow>
          (case pg_try_advisory_lock conns c srv of
             (acquired, srv1) \<Rightarrow> (Inr (if acquired then Some c else None), srv1)))"

text \<open>\<open>Release\<close>: unless the unlock query ran and reported success, the connection is closed. \<open>close_ok\<close> is the outcome of closing.\<close>

definition Lease_Release :: "bool \<Rightarrow> bool \<Rightarrow> conn \<Rightarrow> lock_server \<Rightarrow> unit result \<times> lock_server" where
  "Lease_Release query_ok close_ok c srv =
     (if \<not> query_ok then (Inl (ErrMsg ''unlock advisory lock''), session_end c srv)
      else (case pg_advisory_unlock c srv of
              (released, srv1) \<Rightarrow>
                (if released then (Inr (), srv1)
                 else (Inl (ErrMsg (if close_ok then ''advisory lock was not held''
                                    else ''advisory lock was not held and connection close failed'')), session_end c srv1))))"

section \<open>The leader runner\<close>

datatype runner = RTry | RJob conn | RRelease conn | RWait | RStopped

datatype leader_event =
    Ctx_done
  | Tried lock_io conn
  | Job_returned
  | Released bool bool
  | Retry_timer

fun leader_step :: "conn set \<Rightarrow> leader_event \<Rightarrow> runner \<times> lock_server \<Rightarrow> runner \<times> lock_server" where
  "leader_step conns Ctx_done (RTry, srv) = (RStopped, srv)"
| "leader_step conns (Tried io c) (RTry, srv) =
     (case TryLock conns io c srv of
        (Inl _, srv1) \<Rightarrow> (RWait, srv1)
      | (Inr None, srv1) \<Rightarrow> (RWait, srv1)
      | (Inr (Some lease), srv1) \<Rightarrow> (RJob lease, srv1))"
| "leader_step conns Job_returned (RJob c, srv) = (RRelease c, srv)"
| "leader_step conns (Released query_ok close_ok) (RRelease c, srv) = (RWait, snd (Lease_Release query_ok close_ok c srv))"
| "leader_step conns Retry_timer (RWait, srv) = (RTry, srv)"
| "leader_step conns Ctx_done (RWait, srv) = (RStopped, srv)"
| "leader_step conns _ s = s"

definition leader_start :: "duration \<Rightarrow> runner" where
  "leader_start retryInterval = (if retryInterval \<le> 0 then RStopped else RTry)"

section \<open>Session cleanup\<close>

text \<open>
  \<open>Run\<close> of the cleanup for a script of what the loop receives: \<open>True\<close> is a tick, \<open>False\<close> the end of the
  context. \<open>cleanup\<close> ignores its errors (they are logged).
\<close>

definition cleanup :: "(world \<Rightarrow> int result \<times> world) \<Rightarrow> world \<Rightarrow> world" where
  "cleanup delete_expired w = snd (delete_expired w)"

fun cleanup_loop :: "(world \<Rightarrow> int result \<times> world) \<Rightarrow> bool list \<Rightarrow> world \<Rightarrow> world" where
  "cleanup_loop del [] w = w"
| "cleanup_loop del (False # _) w = w"
| "cleanup_loop del (True # evs) w = cleanup_loop del evs (cleanup del w)"

definition Cleanup_Run :: "(world \<Rightarrow> int result \<times> world) option \<Rightarrow> duration \<Rightarrow> bool list \<Rightarrow> world \<Rightarrow> world" where
  "Cleanup_Run cleaner interval evs w =
     (case cleaner of
        None \<Rightarrow> w
      | Some del \<Rightarrow> if interval \<le> 0 then w else cleanup_loop del evs (cleanup del w))"

section \<open>The revision poller\<close>

record RevisionPoller =
  rp_name :: string
  rp_interval :: duration
  rp_jitter :: duration

text \<open>
  What \<open>Run\<close> receives: a tick (the reader is asked then), the end of the context, or the end of the jitter
  pause. The outcome says whether it returned and whether it called \<open>shutdown\<close>.
\<close>

datatype poll_event = Poll_tick | Poll_ctx_done | Poll_jitter_over

datatype poll_state = Polling int | Pausing | Returned bool

definition poll_step ::
  "RevisionPoller \<Rightarrow> (string \<Rightarrow> world \<Rightarrow> int result \<times> world) \<Rightarrow> poll_event \<Rightarrow> poll_state \<times> world \<Rightarrow> poll_state \<times> world" where
  "poll_step p reader ev s =
     (case s of
        (Polling baseline, w) \<Rightarrow>
          (case ev of
             Poll_ctx_done \<Rightarrow> (Returned False, w)
           | Poll_tick \<Rightarrow>
               (case reader (rp_name p) w of
                  (Inl _, w1) \<Rightarrow> (Polling baseline, w1)
                | (Inr v, w1) \<Rightarrow>
                    (if v = baseline then (Polling baseline, w1)
                     else if rp_jitter p > 0 then (Pausing, w1)
                     else (Returned True, w1)))
           | Poll_jitter_over \<Rightarrow> (Polling baseline, w))
      | (Pausing, w) \<Rightarrow>
          (case ev of
             Poll_ctx_done \<Rightarrow> (Returned False, w)
           | Poll_jitter_over \<Rightarrow> (Returned True, w)
           | Poll_tick \<Rightarrow> (Pausing, w))
      | (Returned b, w) \<Rightarrow> (Returned b, w))"

definition poll_start ::
  "RevisionPoller \<Rightarrow> (string \<Rightarrow> world \<Rightarrow> int result \<times> world) option \<Rightarrow> world \<Rightarrow> poll_state \<times> world" where
  "poll_start p reader w =
     (case reader of
        None \<Rightarrow> (Returned False, w)
      | Some get \<Rightarrow>
          (if rp_interval p \<le> 0 then (Returned False, w)
           else (case get (rp_name p) w of
                   (Inl _, w1) \<Rightarrow> (Returned False, w1)
                 | (Inr baseline, w1) \<Rightarrow> (Polling baseline, w1))))"

section \<open>Mutual exclusion\<close>

text \<open>
  The replicas with the server. A replica takes a connection that nobody uses; a connection may be lost at
  any time, which the server notices by itself.
\<close>

record cluster =
  cl_run :: "nat \<Rightarrow> runner"
  cl_srv :: lock_server
  cl_lost :: "conn set"

fun leased :: "runner \<Rightarrow> conn option" where
  "leased (RJob c) = Some c"
| "leased (RRelease c) = Some c"
| "leased _ = None"

definition event_ok :: "conn set \<Rightarrow> cluster \<Rightarrow> leader_event \<Rightarrow> bool" where
  "event_ok conns cl ev =
     (case ev of Tried io c \<Rightarrow> c \<in> conns \<and> c \<notin> cl_lost cl \<and> (\<forall>r. leased (cl_run cl r) \<noteq> Some c) | _ \<Rightarrow> True)"

inductive leader_reach :: "conn set \<Rightarrow> cluster \<Rightarrow> bool" for conns :: "conn set" where
  start: "leader_reach conns \<lparr>cl_run = (\<lambda>r. leader_start (interval r)), cl_srv = \<lparr>held = (\<lambda>_. 0)\<rparr>, cl_lost = {}\<rparr>"
| step: "leader_reach conns cl \<Longrightarrow> event_ok conns cl ev \<Longrightarrow> leader_step conns ev (cl_run cl r, cl_srv cl) = (x, srv) \<Longrightarrow>
     leader_reach conns (cl\<lparr>cl_run := (cl_run cl)(r := x), cl_srv := srv\<rparr>)"
| lost: "leader_reach conns cl \<Longrightarrow>
     leader_reach conns (cl\<lparr>cl_srv := session_end c (cl_srv cl), cl_lost := insert c (cl_lost cl)\<rparr>)"

definition leader_inv :: "conn set \<Rightarrow> cluster \<Rightarrow> bool" where
  "leader_inv conns cl =
     ((\<forall>r r' c. leased (cl_run cl r) = Some c \<and> leased (cl_run cl r') = Some c \<longrightarrow> r = r') \<and>
      (\<forall>r c. leased (cl_run cl r) = Some c \<longrightarrow> c \<in> conns \<and> (c \<notin> cl_lost cl \<longrightarrow> held (cl_srv cl) c = 1)) \<and>
      (\<forall>c. held (cl_srv cl) c > 0 \<longrightarrow> held (cl_srv cl) c = 1 \<and> c \<notin> cl_lost cl \<and> (\<exists>r. leased (cl_run cl r) = Some c)) \<and>
      (\<forall>c c'. held (cl_srv cl) c > 0 \<and> held (cl_srv cl) c' > 0 \<longrightarrow> c = c'))"

lemma leader_inv_unchanged:
  assumes "leader_inv conns cl" and "leased x = leased (cl_run cl r)"
  shows "leader_inv conns (cl\<lparr>cl_run := (cl_run cl)(r := x), cl_srv := cl_srv cl\<rparr>)"
proof -
  have "leased (((cl_run cl)(r := x)) q) = leased (cl_run cl q)" for q using assms(2) by simp
  with assms(1) show ?thesis by (simp add: leader_inv_def)
qed

lemma leader_invD:
  assumes "leader_inv conns cl"
  shows "\<And>r r' c. leased (cl_run cl r) = Some c \<Longrightarrow> leased (cl_run cl r') = Some c \<Longrightarrow> r = r'"
    and "\<And>r c. leased (cl_run cl r) = Some c \<Longrightarrow> c \<in> conns"
    and "\<And>r c. leased (cl_run cl r) = Some c \<Longrightarrow> c \<notin> cl_lost cl \<Longrightarrow> held (cl_srv cl) c = 1"
    and "\<And>c. held (cl_srv cl) c > 0 \<Longrightarrow> held (cl_srv cl) c = 1 \<and> c \<notin> cl_lost cl \<and> (\<exists>r. leased (cl_run cl r) = Some c)"
    and "\<And>c c'. held (cl_srv cl) c > 0 \<Longrightarrow> held (cl_srv cl) c' > 0 \<Longrightarrow> c = c'"
  using assms unfolding leader_inv_def by blast+

lemma leader_inv_free:
  assumes inv: "leader_inv conns cl" and l: "leased (cl_run cl r) = None \<or> leased (cl_run cl r) = Some c" and x: "leased x = None"
    and c: "\<And>q. q \<noteq> r \<Longrightarrow> leased (cl_run cl q) \<noteq> Some c"
  shows "leader_inv conns (cl\<lparr>cl_run := (cl_run cl)(r := x), cl_srv := session_end c (cl_srv cl)\<rparr>)"
proof -
  note I = leader_invD [OF inv]
  let ?next = "cl\<lparr>cl_run := (cl_run cl)(r := x), cl_srv := session_end c (cl_srv cl)\<rparr>"
  have q: "leased (cl_run ?next q) = Some d \<longleftrightarrow> q \<noteq> r \<and> leased (cl_run cl q) = Some d" for q d
    using x by auto
  have h: "held (cl_srv ?next) d = (if d = c then 0 else held (cl_srv cl) d)" for d by (simp add: session_end_def)
  have lost: "cl_lost ?next = cl_lost cl" by simp
  have other: "\<exists>q. q \<noteq> r \<and> leased (cl_run cl q) = Some d" if "d \<noteq> c" "held (cl_srv cl) d > 0" for d
  proof -
    from I(4) [OF that(2)] obtain q where "leased (cl_run cl q) = Some d" by blast
    moreover from this l that(1) have "q \<noteq> r" by auto
    ultimately show ?thesis by blast
  qed
  show ?thesis unfolding leader_inv_def q h lost
  proof (intro conjI allI impI)
    fix p p' d assume "(p \<noteq> r \<and> leased (cl_run cl p) = Some d) \<and> p' \<noteq> r \<and> leased (cl_run cl p') = Some d"
    then show "p = p'" using I(1) by blast
  next
    fix p d assume "p \<noteq> r \<and> leased (cl_run cl p) = Some d"
    then show "d \<in> conns" using I(2) by blast
  next
    fix p d assume "p \<noteq> r \<and> leased (cl_run cl p) = Some d" "d \<notin> cl_lost cl"
    then show "(if d = c then 0 else held (cl_srv cl) d) = 1" using I(3) c [of p] by auto
  next
    fix d assume "0 < (if d = c then 0 else held (cl_srv cl) d)"
    then have "d \<noteq> c" "0 < held (cl_srv cl) d" by (simp_all split: if_splits)
    with I(4) [of d] other [of d]
    show "(if d = c then 0 else held (cl_srv cl) d) = 1" "d \<notin> cl_lost cl" "\<exists>q. q \<noteq> r \<and> leased (cl_run cl q) = Some d"
      by simp_all
  next
    fix d e assume "0 < (if d = c then 0 else held (cl_srv cl) d) \<and> 0 < (if e = c then 0 else held (cl_srv cl) e)"
    then show "d = e" using I(5) [of d e] by (simp split: if_splits)
  qed
qed

lemma leader_inv_lock:
  assumes inv: "leader_inv conns cl" and r: "leased (cl_run cl r) = None" and c: "c \<in> conns" "c \<notin> cl_lost cl"
    "\<And>q. leased (cl_run cl q) \<noteq> Some c" and lock: "pg_try_advisory_lock conns c (cl_srv cl) = (True, srv)"
  shows "leader_inv conns (cl\<lparr>cl_run := (cl_run cl)(r := RJob c), cl_srv := srv\<rparr>)"
proof -
  note I = leader_invD [OF inv]
  have zero: "held (cl_srv cl) d = 0" for d
  proof (rule ccontr)
    assume d: "held (cl_srv cl) d \<noteq> 0"
    then obtain q where q: "leased (cl_run cl q) = Some d" using I(4) [of d] by auto
    then have "d \<in> conns" "d \<noteq> c" using I(2) c(3) by auto
    with lock d show False by (auto simp: pg_try_advisory_lock_def split: if_splits)
  qed
  let ?next = "cl\<lparr>cl_run := (cl_run cl)(r := RJob c), cl_srv := srv\<rparr>"
  have h: "held (cl_srv ?next) d = (if d = c then 1 else 0)" for d
    using lock zero by (auto simp: pg_try_advisory_lock_def split: if_splits)
  have lost': "cl_lost ?next = cl_lost cl" by simp
  have q: "leased (cl_run ?next q) = Some d \<longleftrightarrow> (if q = r then d = c else leased (cl_run cl q) = Some d)" for q d by auto
  have lost: "d \<in> cl_lost cl" if "leased (cl_run cl q) = Some d" for q d using I(3) [OF that] zero [of d] by auto
  show ?thesis unfolding leader_inv_def q h lost'
    using I(1,2) c lost by (intro conjI allI impI) (auto split: if_splits)
qed

lemma leader_step_cases:
  assumes "leader_step conns ev (p, srv) = (x, srv')"
  obtains (same) "srv' = srv" "leased x = leased p"
  | (closed) io c where "ev = Tried io c" "leased p = None" "leased x = None" "srv' = session_end c srv"
  | (locked) io c where "ev = Tried io c" "leased p = None" "x = RJob c" "pg_try_advisory_lock conns c srv = (True, srv')"
  | (released) c where "p = RRelease c" "leased x = None" "srv' = session_end c srv \<or> held srv c > 0 \<and> srv' = snd (pg_advisory_unlock c srv)"
proof (cases "(conns, ev, p, srv)" rule: leader_step.cases)
  case (2 _ io c _)
  show thesis
  proof (cases io)
    case AcquireFails
    with 2 assms show thesis by (intro same) (auto simp: TryLock_def)
  next
    case QueryFails
    with 2 assms show thesis by (intro closed [of io c]) (auto simp: TryLock_def)
  next
    case QueryRuns
    with 2 assms show thesis
      by (auto simp: TryLock_def pg_try_advisory_lock_def split: if_splits intro: same locked [of io c])
  qed
next
  case (4 _ query_ok close_ok c srv1)
  with assms show thesis
    by (intro released [of c]) (auto simp: Lease_Release_def pg_advisory_unlock_def split: if_splits)
qed (use assms in \<open>auto intro: same\<close>)

lemma leader_reach_inv: "leader_reach conns cl \<Longrightarrow> leader_inv conns cl"
proof (induction rule: leader_reach.induct)
  case (start interval)
  have "leased (leader_start d) = None" for d by (simp add: leader_start_def)
  then show ?case by (simp add: leader_inv_def)
next
  case (lost cl c)
  then show ?case by (auto simp: leader_inv_def session_end_def split: if_splits)
next
  case (step cl ev r x srv)
  note I = leader_invD [OF step.IH]
  from step.hyps(3) show ?case
  proof (cases rule: leader_step_cases)
    case same
    with step.IH leader_inv_unchanged show ?thesis by simp
  next
    case (closed io c)
    with step.hyps(2) step.IH show ?thesis by (auto simp: event_ok_def intro: leader_inv_free)
  next
    case (locked io c)
    with step.hyps(2) step.IH show ?thesis by (auto simp: event_ok_def intro: leader_inv_lock)
  next
    case (released c)
    have l: "leased (cl_run cl r) = Some c" using released(1) by simp
    have "srv = session_end c (cl_srv cl)"
      using released(3)
    proof
      assume a: "held (cl_srv cl) c > 0 \<and> srv = snd (pg_advisory_unlock c (cl_srv cl))"
      then have "held (cl_srv cl) c = 1" using I(4) by blast
      with a show ?thesis by (simp add: pg_advisory_unlock_def session_end_def)
    qed
    moreover have "leased (cl_run cl q) \<noteq> Some c" if "q \<noteq> r" for q using I(1) l that by blast
    ultimately show ?thesis using leader_inv_free [OF step.IH] l released(2) by blast
  qed
qed

text \<open>
  C18. At most one replica is the leader. In every reachable state of any number of replicas, if two different
  replicas run the job, then one of them has lost the connection that held the lock; and the lock never
  leaks: whoever holds it holds it once, on a live connection, and is a replica that runs the job or is
  about to release it.
\<close>

theorem leader_mutual_exclusion:
  assumes "leader_reach conns cl"
  shows "(\<forall>r r' c c'. cl_run cl r = RJob c \<and> cl_run cl r' = RJob c' \<and> r \<noteq> r' \<longrightarrow> c \<in> cl_lost cl \<or> c' \<in> cl_lost cl) \<and>
     (\<forall>c. held (cl_srv cl) c > 0 \<longrightarrow> held (cl_srv cl) c = 1 \<and> c \<notin> cl_lost cl \<and> (\<exists>r. cl_run cl r = RJob c \<or> cl_run cl r = RRelease c))"
proof -
  note I = leader_invD [OF leader_reach_inv [OF assms]]
  have "c \<in> cl_lost cl \<or> c' \<in> cl_lost cl" if "cl_run cl r = RJob c" "cl_run cl r' = RJob c'" "r \<noteq> r'" for r r' c c'
  proof (rule ccontr)
    assume "\<not> ?thesis"
    with that have "held (cl_srv cl) c = 1" "held (cl_srv cl) c' = 1" using I(3) [of r c] I(3) [of r' c'] by auto
    then have "c = c'" using I(5) by simp
    with that I(1) [of r c r'] show False by simp
  qed
  moreover have "\<exists>r. cl_run cl r = RJob c \<or> cl_run cl r = RRelease c" if "leased (cl_run cl q) = Some c" for q c
    using that by (cases "cl_run cl q") auto
  moreover have "held (cl_srv cl) c = 1 \<and> c \<notin> cl_lost cl \<and> (\<exists>q. leased (cl_run cl q) = Some c)" if "held (cl_srv cl) c > 0" for c
    using I(4) [OF that] .
  ultimately show ?thesis by (intro conjI allI impI) metis+
qed

theorem leader_mutual_exclusion_witness:
  "\<exists>cl. leader_reach {0, 1} cl \<and> cl_run cl 0 = RJob 0 \<and> cl_run cl 1 = RJob 1 \<and> 0 \<in> cl_lost cl \<and> 1 \<notin> cl_lost cl"
proof -
  let ?conns = "{0, 1} :: conn set"
  let ?one = "\<lparr>held = (\<lambda>_. 0)(0 := 1)\<rparr>" and ?two = "\<lparr>held = (\<lambda>_. 0)(0 := 0, 1 := 1)\<rparr>"
  let ?start = "\<lparr>cl_run = (\<lambda>r. leader_start second), cl_srv = \<lparr>held = (\<lambda>_. 0)\<rparr>, cl_lost = {}\<rparr>"
  let ?led = "?start\<lparr>cl_run := (cl_run ?start)(0 := RJob 0), cl_srv := ?one\<rparr>"
  let ?cut = "?led\<lparr>cl_srv := session_end 0 (cl_srv ?led), cl_lost := insert 0 (cl_lost ?led)\<rparr>"
  let ?split = "?cut\<lparr>cl_run := (cl_run ?cut)(1 := RJob 1), cl_srv := ?two\<rparr>"
  have try_start: "leader_start second = RTry" by (simp add: leader_start_def second_def)
  have "leader_reach ?conns ?led"
    by (rule leader_reach.step [OF leader_reach.start, of _ _ "Tried QueryRuns 0"])
      (simp_all add: event_ok_def try_start TryLock_def pg_try_advisory_lock_def)
  then have "leader_reach ?conns ?cut" by (rule leader_reach.lost)
  then have reach: "leader_reach ?conns ?split"
    by (rule leader_reach.step [where ev = "Tried QueryRuns 1"])
      (simp_all add: event_ok_def try_start TryLock_def pg_try_advisory_lock_def session_end_def)
  have run: "cl_run ?split 0 = RJob 0" "cl_run ?split 1 = RJob 1" "1 \<notin> cl_lost ?split" by simp_all
  with leader_mutual_exclusion [OF reach] have "0 \<in> cl_lost ?split" by (metis zero_neq_one)
  with reach run show ?thesis by blast
qed

section \<open>Restarts\<close>

lemma Core_Save_revision:
  assumes "Core_Save K G valid True audit (Some k) (Some auth) w = (Inr i, w')"
  obtains v where "revision_of (w_db w) UpstreamAccountsRevision = Some v"
    "revision_of (w_db w') UpstreamAccountsRevision = Some (v + 1)"
proof -
  obtain pr w1 where pr: "prepareSave K G k auth w = (pr, w1)" by fastforce
  with assms obtain p where p: "pr = Inr p" by (cases pr) (auto simp: Core_Save_def)
  from prepareSave_ok [OF pr [unfolded p]] have db: "w_db w1 = w_db w" by blast
  from assms pr p have "in_tx (Wrapf ''begin save upstream account'') (Wrapf ''commit save upstream account'')
      (saveInTx valid p audit) w1 = (Inr i, w')" by (simp add: Core_Save_def)
  then obtain w2 w3 where w: "w_db w2 = w_db w1" "saveInTx valid p audit w2 = (Inr i, w3)" "w_db w' = w_db w3" by (rule in_tx_ok)
  from saveInTx_ok [OF w(2)] obtain v where "revision_of (w_db w2) UpstreamAccountsRevision = Some v"
    "revision_of (w_db w3) UpstreamAccountsRevision = Some (v + 1)" by blast
  with that db w show thesis by simp
qed

lemma Revision_Get_no_fault:
  "w_faults w = [] \<Longrightarrow> revision_of (w_db w) name = Some v \<Longrightarrow> Revision_Get name w = (Inr v, advance w)"
  by (cases "advance w") (auto simp: Revision_Get_def run_query_no_fault GetRuntimeRevision_def revision_of_def
      split: option.splits dest!: arg_cong [where f = w_db])

text \<open>
  C17. A saved account makes every polling replica restart, and nothing else does. Let a poller have read the
  baseline. If an account was saved since, and the revision never went back, then the next readable tick
  ends, after the jitter pause if there is one, in a call of \<open>shutdown\<close>; if the revision is still the
  baseline the poller keeps polling.
\<close>

theorem saved_account_restarts_replicas:
  assumes "poll_start p (Some Revision_Get) w0 = (Polling baseline, w1)" and "rp_name p = UpstreamAccountsRevision"
    and "revision_of (w_db w2) UpstreamAccountsRevision = Some v2" and "baseline \<le> v2"
    and "Core_Save K G valid True audit (Some k) (Some auth) w2 = (Inr i, w3)"
    and "revision_of (w_db w3) UpstreamAccountsRevision = Some v3"
    and "revision_of (w_db w4) UpstreamAccountsRevision = Some v4" and "v3 \<le> v4" and "w_faults w4 = []"
  shows "fst (fold (poll_step p Revision_Get) [Poll_tick, Poll_jitter_over] (Polling baseline, w4)) = Returned True \<and>
     poll_step p Revision_Get Poll_tick (Polling v4, w4) = (Polling v4, advance w4)"
proof -
  from Core_Save_revision [OF assms(5)] assms(3,6) have "v3 = v2 + 1" by fastforce
  with assms(4,8) have "v4 \<noteq> baseline" by simp
  with Revision_Get_no_fault [OF assms(9,7)] assms(2) show ?thesis by (simp add: poll_step_def)
qed

theorem saved_account_restarts_replicas_witness:
  "\<exists>w1 w3 i. let p = \<lparr>rp_name = UpstreamAccountsRevision, rp_interval = 3 * second, rp_jitter = 15 * second\<rparr> in
     poll_start p (Some Revision_Get) account_world = (Polling 7, w1) \<and>
     Core_Save toy_sdk toy_aead (\<lambda>_. True) True None (Some old_ring) (Some sample_auth) w1 = (Inr i, w3) \<and>
     fst (fold (poll_step p Revision_Get) [Poll_tick, Poll_jitter_over] (Polling 7, w3)) = Returned True"
proof -
  let ?p = "\<lparr>rp_name = UpstreamAccountsRevision, rp_interval = 3 * second, rp_jitter = 15 * second\<rparr>"
  let ?start = "poll_start ?p (Some Revision_Get) account_world"
  let ?save = "Core_Save toy_sdk toy_aead (\<lambda>_. True) True None (Some old_ring) (Some sample_auth) (snd ?start)"
  have "fst ?start = Polling 7" by code_simp
  then have start: "?start = (Polling 7, snd ?start)" by (metis prod.collapse)
  have "is_ok (fst ?save)" by code_simp
  then obtain i w3 where save: "?save = (Inr i, w3)" by (metis is_ok_conv prod.collapse)
  have w3: "w3 = snd ?save" using save by simp
  have r: "revision_of (w_db (snd ?start)) UpstreamAccountsRevision = Some 7" "revision_of (w_db w3) UpstreamAccountsRevision = Some 8"
    "w_faults w3 = []" unfolding w3 by code_simp+
  have name: "rp_name ?p = UpstreamAccountsRevision" by simp
  from saved_account_restarts_replicas [OF start name r(1) order_refl save r(2) r(2) order_refl r(3)] start save
  show ?thesis unfolding Let_def by blast
qed

text \<open>
  A poller whose first read fails gives up for good: \<open>Run\<close> returns at once, and from then on no change of
  the revision makes the replica restart, however long it lives.
\<close>

theorem poller_gives_up_after_failed_start:
  "let p = \<lparr>rp_name = UpstreamAccountsRevision, rp_interval = 3 * second, rp_jitter = 15 * second\<rparr>;
       s = poll_start p (Some Revision_Get) (account_world\<lparr>w_faults := [True]\<rparr>)
   in fst s = Returned False \<and> fst (fold (poll_step p Revision_Get) evs s) = Returned False"
proof -
  let ?p = "\<lparr>rp_name = UpstreamAccountsRevision, rp_interval = 3 * second, rp_jitter = 15 * second\<rparr>"
  have start: "fst (poll_start ?p (Some Revision_Get) (account_world\<lparr>w_faults := [True]\<rparr>)) = Returned False" by code_simp
  have "fst (fold (poll_step ?p Revision_Get) evs s) = Returned False" if "fst s = Returned False" for s
    using that
  proof (induction evs arbitrary: s)
    case (Cons ev evs)
    from Cons.prems have "fst (poll_step ?p Revision_Get ev s) = Returned False" by (cases s) (simp add: poll_step_def)
    with Cons.IH show ?case by simp
  qed simp
  with start show ?thesis by (simp add: Let_def)
qed

section \<open>Cleanup\<close>

text \<open>Whatever fails, the cleanup removes only expired sessions and touches nothing else.\<close>

lemma cleanup_keeps_live:
  "\<exists>t \<le> w_clock (cleanup DeleteExpired w). w_db (cleanup DeleteExpired w) = w_db w \<or>
     w_db (cleanup DeleteExpired w) = (w_db w)\<lparr>sessions := filter (\<lambda>s. t < s_expires_at s) (sessions (w_db w))\<rparr>"
proof -
  obtain r w1 where q: "run_query DeleteExpiredSessions w = (r, w1)" by fastforce
  then have c: "cleanup DeleteExpired w = w1" by (cases r) (simp_all add: cleanup_def DeleteExpired_def)
  from q show ?thesis
  proof (cases rule: run_query_cases)
    case (failed e)
    with c show ?thesis by auto
  next
    case (ran w2)
    with c show ?thesis
      by (intro exI [of _ "w_clock w2"]) (auto simp: DeleteExpiredSessions_def Let_def delete_where_def not_le)
  qed
qed

lemma cleanup_loop_sessions:
  "set (sessions (w_db (cleanup_loop DeleteExpired evs w))) \<subseteq> set (sessions (w_db w)) \<and>
   (\<forall>s \<in> set (sessions (w_db w)). w_clock (cleanup_loop DeleteExpired evs w) < s_expires_at s \<longrightarrow>
      s \<in> set (sessions (w_db (cleanup_loop DeleteExpired evs w)))) \<and> w_clock w \<le> w_clock (cleanup_loop DeleteExpired evs w)"
proof (induction DeleteExpired evs w rule: cleanup_loop.induct)
  case (3 evs w)
  obtain r w1 where q: "run_query DeleteExpiredSessions w = (r, w1)" by fastforce
  then have "cleanup DeleteExpired w = w1" by (cases r) (simp_all add: cleanup_def DeleteExpired_def)
  with run_query_clock [OF q] have mono: "w_clock w \<le> w_clock (cleanup DeleteExpired w)" by simp
  from cleanup_keeps_live [of w] obtain t where t: "t \<le> w_clock (cleanup DeleteExpired w)"
    "sessions (w_db (cleanup DeleteExpired w)) = sessions (w_db w) \<or>
     sessions (w_db (cleanup DeleteExpired w)) = filter (\<lambda>s. t < s_expires_at s) (sessions (w_db w))" by force
  then have "set (sessions (w_db (cleanup DeleteExpired w))) \<subseteq> set (sessions (w_db w))"
    "\<forall>s \<in> set (sessions (w_db w)). w_clock (cleanup DeleteExpired w) < s_expires_at s \<longrightarrow> s \<in> set (sessions (w_db (cleanup DeleteExpired w)))"
    by auto
  with 3 mono show ?case unfolding cleanup_loop.simps by (meson order.strict_trans1 order_trans subsetD subsetI)
qed auto

end
