(* ===== verification/Redaction.thy ===== *)
theory Redaction
  imports Go_Strings
begin

text \<open>
  \<^verbatim>\<open>internal/observability/logging.go\<close>: the log handler that removes credentials. An attribute is a key with
  a value; a value is a plain one (kept as text), a group of attributes, or a \<^verbatim>\<open>LogValuer\<close> whose method
  returns another value. The wrapped handler is known by the calls it received: \<open>next_handler\<close> is the
  sequence of its \<^verbatim>\<open>WithAttrs\<close> and \<^verbatim>\<open>WithGroup\<close> calls.
\<close>

section \<open>Attributes of log records\<close>

datatype log_value =
    VPlain string
  | VGroup "(string \<times> log_value) list"
  | VLogValuer log_value

type_synonym attr = "string \<times> log_value"

text \<open>\<^verbatim>\<open>Value.Resolve\<close> of \<^verbatim>\<open>log/slog\<close> follows at most a hundred \<^verbatim>\<open>LogValuer\<close>s.\<close>

fun resolve_upto :: "nat \<Rightarrow> log_value \<Rightarrow> log_value" where
  "resolve_upto (Suc n) (VLogValuer v) = resolve_upto n v"
| "resolve_upto 0 v = VPlain ''LogValue called too many times''"
| "resolve_upto (Suc n) v = v"

definition Resolve :: "log_value \<Rightarrow> log_value" where
  "Resolve v = resolve_upto 100 v"

section \<open>The redacting handler\<close>

definition RedactedValue :: string where "RedactedValue = ''[REDACTED]''"

definition sensitive_fragments :: "string list" where
  "sensitive_fragments = [''password'', ''secret'', ''token'', ''credential'', ''authorization'', ''api_key'', ''apikey'']"

definition isSensitiveKey :: "string \<Rightarrow> bool" where
  "isSensitiveKey key = list_ex (\<lambda>fragment. Contains (ToLower key) fragment) sensitive_fragments"

lemma size_resolve_upto: "resolve_upto n v = VGroup g \<Longrightarrow> size (VGroup g) \<le> size v"
  by (induction n v rule: resolve_upto.induct) auto

lemma size_group_member: "(k, x) \<in> set g \<Longrightarrow> size x < size (VGroup g)"
  by (induction g) auto

lemma size_resolved_member: "Resolve v = VGroup g \<Longrightarrow> a \<in> set g \<Longrightarrow> size (snd a) < size v"
  using size_resolve_upto [of 100 v g] size_group_member [of "fst a" "snd a" g] by (simp add: Resolve_def)

function redactAttr :: "attr \<Rightarrow> attr" where
  "redactAttr (key, v) =
     (if isSensitiveKey key then (key, VPlain RedactedValue)
      else (case Resolve v of
              VGroup g \<Rightarrow> (key, VGroup (map redactAttr g))
            | value \<Rightarrow> (key, value)))"
  by pat_completeness auto
termination by (relation "measure (\<lambda>a. size (snd a))") (auto dest: size_resolved_member)

declare redactAttr.simps [simp del]

text \<open>The calls a handler received since it was created: those that derive a handler, and the records handled.\<close>

datatype derivation = WithAttrs_call "attr list" | WithGroup_call string

record slog_record =
  sr_Level :: int
  sr_Message :: string
  sr_Attrs :: "attr list"

type_synonym next_handler = "derivation list"

record redactingHandler =
  rh_next :: next_handler

definition NewRedactingHandler :: "next_handler \<Rightarrow> redactingHandler" where
  "NewRedactingHandler n = \<lparr>rh_next = n\<rparr>"

text \<open>What the next handler is asked to handle, and in which derived state.\<close>

definition redacting_Handle :: "redactingHandler \<Rightarrow> slog_record \<Rightarrow> next_handler \<times> slog_record" where
  "redacting_Handle h r = (rh_next h, r\<lparr>sr_Attrs := map redactAttr (sr_Attrs r)\<rparr>)"

definition redacting_WithAttrs :: "redactingHandler \<Rightarrow> attr list \<Rightarrow> redactingHandler" where
  "redacting_WithAttrs h attrs = \<lparr>rh_next = rh_next h @ [WithAttrs_call (map redactAttr attrs)]\<rparr>"

definition redacting_WithGroup :: "redactingHandler \<Rightarrow> string \<Rightarrow> redactingHandler" where
  "redacting_WithGroup h name = \<lparr>rh_next = rh_next h @ [WithGroup_call name]\<rparr>"

fun redacting_derive :: "redactingHandler \<Rightarrow> derivation \<Rightarrow> redactingHandler" where
  "redacting_derive h (WithAttrs_call attrs) = redacting_WithAttrs h attrs"
| "redacting_derive h (WithGroup_call name) = redacting_WithGroup h name"

section \<open>What is printed\<close>

text \<open>
  The leaves of an attribute as a handler prints them: the path of keys with the plain value at its end.
  \<open>printed\<close> resolves values the way every handler does.
\<close>

function printed :: "attr \<Rightarrow> (string list \<times> string) list" where
  "printed (key, v) =
     (case Resolve v of
        VPlain s \<Rightarrow> [([key], s)]
      | VGroup g \<Rightarrow> map (\<lambda>(path, s). (key # path, s)) (concat (map printed g))
      | VLogValuer _ \<Rightarrow> [])"
  by pat_completeness auto
termination by (relation "measure (\<lambda>a. size (snd a))") (auto dest: size_resolved_member)

declare printed.simps [simp del]

definition sensitive_path :: "string list \<Rightarrow> bool" where
  "sensitive_path path = list_ex isSensitiveKey path"

fun derived_attrs :: "next_handler \<Rightarrow> attr list" where
  "derived_attrs [] = []"
| "derived_attrs (WithAttrs_call attrs # ds) = attrs @ derived_attrs ds"
| "derived_attrs (WithGroup_call _ # ds) = derived_attrs ds"

lemma resolve_upto_resolved: "resolve_upto n v = VLogValuer x \<Longrightarrow> False"
  by (induction n v rule: resolve_upto.induct) auto

lemma Resolve_not_valuer [simp]: "Resolve v \<noteq> VLogValuer x"
  using resolve_upto_resolved by (auto simp: Resolve_def)

lemma Resolve_idem [simp]: "Resolve (VPlain s) = VPlain s" "Resolve (VGroup g) = VGroup g"
  by (simp_all add: Resolve_def numeral_eq_Suc)

lemma Resolve_cases: obtains s where "Resolve v = VPlain s" | g where "Resolve v = VGroup g"
  by (cases "Resolve v") auto

lemma printed_redacted_sensitive:
  "(path, s) \<in> set (printed (redactAttr a)) \<Longrightarrow> sensitive_path path \<Longrightarrow> s = RedactedValue"
proof (induction a arbitrary: path s rule: redactAttr.induct)
  case (1 key v)
  show ?case
  proof (cases "isSensitiveKey key")
    case True
    with 1(2) show ?thesis by (simp add: redactAttr.simps printed.simps)
  next
    case False
    show ?thesis
    proof (cases rule: Resolve_cases [of v])
      case (1 s')
      with False \<open>(path, s) \<in> _\<close> \<open>sensitive_path path\<close> show ?thesis
        by (simp add: redactAttr.simps printed.simps sensitive_path_def)
    next
      case (2 g)
      with False \<open>(path, s) \<in> _\<close> obtain rest b where b: "b \<in> set g" "(rest, s) \<in> set (printed (redactAttr b))" "path = key # rest"
        by (auto simp: redactAttr.simps [of key] printed.simps [of key])
      with False \<open>sensitive_path path\<close> have "sensitive_path rest" by (simp add: sensitive_path_def)
      with 1(1) [OF False 2 b(1) b(2)] show ?thesis by blast
    qed
  qed
qed

lemma printed_redacted_public:
  "filter (\<lambda>(path, _). \<not> sensitive_path path) (printed (redactAttr a)) = filter (\<lambda>(path, _). \<not> sensitive_path path) (printed a)"
proof (induction a rule: redactAttr.induct)
  case (1 key v)
  show ?case
  proof (cases "isSensitiveKey key")
    case True
    then have "\<not> list_ex (\<lambda>(path, _). \<not> sensitive_path path) (printed (key, v))"
      by (auto simp: printed.simps sensitive_path_def list_ex_iff split: log_value.splits)
    then have "filter (\<lambda>(path, _). \<not> sensitive_path path) (printed (key, v)) = []"
      by (auto simp: filter_empty_conv list_ex_iff)
    with True show ?thesis by (simp add: redactAttr.simps printed.simps [of key "VPlain _"] sensitive_path_def)
  next
    case False
    show ?thesis
    proof (cases rule: Resolve_cases [of v])
      case (1 s)
      with False show ?thesis by (simp add: redactAttr.simps printed.simps)
    next
      case (2 g)
      have keep: "filter (\<lambda>(path, _). \<not> sensitive_path path) (map (\<lambda>(path, s). (key # path, s)) ls)
          = map (\<lambda>(path, s). (key # path, s)) (filter (\<lambda>(path, _). \<not> sensitive_path path) ls)" for ls :: "(string list \<times> string) list"
        using False by (induction ls) (auto simp: sensitive_path_def)
      have "map (\<lambda>b. filter (\<lambda>(path, _). \<not> sensitive_path path) (printed (redactAttr b))) g
          = map (\<lambda>b. filter (\<lambda>(path, _). \<not> sensitive_path path) (printed b)) g"
        using 1(1) [OF False 2] by simp
      with False 2 show ?thesis
        by (simp add: redactAttr.simps [of key] printed.simps [of key] keep filter_concat comp_def cong: map_cong)
    qed
  qed
qed


end
