(* ===== verification/Observability.thy ===== *)
theory Observability
  imports Http_Edge Redaction Usage_Buffer Api_Keys
begin

text \<open>
  What the program reports about itself: \<^verbatim>\<open>internal/metrics/registry.go\<close>, \<^verbatim>\<open>internal/httpapi/tracing.go\<close>,
  \<^verbatim>\<open>request_logging.go\<close>, \<^verbatim>\<open>metrics.go\<close> and \<^verbatim>\<open>openapi.go\<close>, and the stack of middleware that \<^verbatim>\<open>main\<close> installs. The
  exporters of Prometheus and OpenTelemetry are not modelled, only what they are given. The state of a
  request is \<open>seen \<times> world\<close>; \<open>seen_user\<close> is the key \<^verbatim>\<open>ContextUserID\<close> of the Gin context of the current request.
  \<open>full\<close> is \<^verbatim>\<open>c.FullPath()\<close>, the template of the matched route or the empty string.
\<close>

section \<open>Collectors\<close>

text \<open>A sample of a collector; the conversion of counters to \<^verbatim>\<open>float64\<close> is exact up to \<open>2 ^ 53\<close>.\<close>

record sample =
  sm_name :: string
  sm_labels :: "string list"
  sm_value :: int

definition cacheCollector_Collect :: "Stats option \<Rightarrow> sample list" where
  "cacheCollector_Collect provider =
     (let stats = (case provider of None \<Rightarrow> \<lparr>Hits = 0, Misses = 0\<rparr> | Some s \<Rightarrow> s)
      in [\<lparr>sm_name = ''cliproxy_cache_lookups_total'', sm_labels = [''api_key_auth'', ''hit''], sm_value = uint (Hits stats)\<rparr>,
          \<lparr>sm_name = ''cliproxy_cache_lookups_total'', sm_labels = [''api_key_auth'', ''miss''], sm_value = uint (Misses stats)\<rparr>])"

definition upstreamCollector_Collect :: "Hook option \<Rightarrow> sample list" where
  "upstreamCollector_Collect hook =
     (let snapshot = Snapshot hook
      in [\<lparr>sm_name = ''cliproxy_upstream_results_total'', sm_labels = [''success''], sm_value = uint (succeeded snapshot)\<rparr>,
          \<lparr>sm_name = ''cliproxy_upstream_results_total'', sm_labels = [''failure''], sm_value = uint (failed snapshot)\<rparr>,
          \<lparr>sm_name = ''cliproxy_upstream_auth_lifecycle_total'', sm_labels = [''registered''], sm_value = uint (authRegistered snapshot)\<rparr>,
          \<lparr>sm_name = ''cliproxy_upstream_auth_lifecycle_total'', sm_labels = [''updated''], sm_value = uint (authUpdated snapshot)\<rparr>])"

text \<open>What \<^verbatim>\<open>pgxpool.Stat\<close> reports.\<close>

record pool_stat =
  ps_AcquiredConns :: int
  ps_IdleConns :: int
  ps_TotalConns :: int
  ps_MaxConns :: int
  ps_AcquireCount :: int
  ps_CanceledAcquireCount :: int

definition dbPoolCollector_Collect :: "pool_stat option \<Rightarrow> sample list" where
  "dbPoolCollector_Collect pool =
     (case pool of
        None \<Rightarrow> []
      | Some stats \<Rightarrow>
          [\<lparr>sm_name = ''cliproxy_db_pool_connections'', sm_labels = [''acquired''], sm_value = ps_AcquiredConns stats\<rparr>,
           \<lparr>sm_name = ''cliproxy_db_pool_connections'', sm_labels = [''idle''], sm_value = ps_IdleConns stats\<rparr>,
           \<lparr>sm_name = ''cliproxy_db_pool_connections'', sm_labels = [''total''], sm_value = ps_TotalConns stats\<rparr>,
           \<lparr>sm_name = ''cliproxy_db_pool_connections'', sm_labels = [''max''], sm_value = ps_MaxConns stats\<rparr>,
           \<lparr>sm_name = ''cliproxy_db_pool_acquires_total'', sm_labels = [''acquired''], sm_value = ps_AcquireCount stats\<rparr>,
           \<lparr>sm_name = ''cliproxy_db_pool_acquires_total'', sm_labels = [''cancelled''], sm_value = ps_CanceledAcquireCount stats\<rparr>])"

text \<open>The vectors of the registry: a counter for each method, path and status, and the observed durations for each method and path.\<close>

record Registry =
  requests :: "string \<times> string \<times> string \<Rightarrow> nat"
  latency :: "string \<times> string \<Rightarrow> duration list"

definition NewRegistry :: Registry where
  "NewRegistry = \<lparr>requests = (\<lambda>_. 0), latency = (\<lambda>_. [])\<rparr>"

text \<open>The collectors that \<open>NewRegistry\<close> registers besides the vectors, on the objects it was given.\<close>

definition registry_Collect ::
  "pool_stat option \<Rightarrow> Hook option \<Rightarrow> BufferedPlugin option \<Rightarrow> Stats option \<Rightarrow> sample list" where
  "registry_Collect pool hook queue cacheStats =
     upstreamCollector_Collect hook @ cacheCollector_Collect cacheStats @
     [\<lparr>sm_name = ''cliproxy_usage_queue_depth'', sm_labels = [], sm_value = QueueDepth queue\<rparr>] @ dbPoolCollector_Collect pool"

text \<open>\<open>expose\<close> is \<^verbatim>\<open>promhttp.HandlerFor\<close>.\<close>

definition registry_Handler :: "(Registry \<Rightarrow> 's edge_handler) \<Rightarrow> Registry option \<Rightarrow> 's edge_handler" where
  "registry_Handler expose r = (case r of None \<Rightarrow> (\<lambda>rq ctx h s. (404, h, s)) | Some r \<Rightarrow> expose r)"

section \<open>Routes of documentation and metrics\<close>

definition MetricsRouterConfigurator :: "'s edge_handler option \<Rightarrow> (string \<times> string \<times> 's edge_handler) list" where
  "MetricsRouterConfigurator handler = (case handler of None \<Rightarrow> [] | Some h \<Rightarrow> [(''GET'', ''/metrics'', h)])"

definition OpenAPIRouterConfigurator :: "'s edge_handler \<Rightarrow> 's edge_handler \<Rightarrow> (string \<times> string \<times> 's edge_handler) list" where
  "OpenAPIRouterConfigurator document docsHandler =
     [(''GET'', ''/openapi.json'', document), (''GET'', ''/docs'', docsHandler), (''GET'', ''/docs/*path'', docsHandler)]"

definition SystemRouterConfigurator :: "bool \<Rightarrow> (string \<times> string \<times> world edge_handler) list" where
  "SystemRouterConfigurator pinger = [(''GET'', ''/healthz'', healthz), (''GET'', ''/readyz'', readyz pinger)]"

section \<open>Middleware\<close>

datatype attribute = AString string string | AInt string int

record span =
  sp_Name :: string
  sp_Attributes :: "attribute list"
  sp_Status :: "string option"

record seen =
  seen_registry :: "Registry option"
  seen_spans :: "span list"
  seen_log :: "(next_handler \<times> slog_record) list"
  seen_user :: "int option"

definition route_path :: "string \<Rightarrow> string" where
  "route_path full = (if full = [] then ''unmatched'' else full)"

text \<open>\<^verbatim>\<open>http.StatusText\<close> on the statuses of errors of the server.\<close>

definition StatusText :: "int \<Rightarrow> string" where
  "StatusText status =
     (if status = 500 then ''Internal Server Error'' else if status = 501 then ''Not Implemented''
      else if status = 502 then ''Bad Gateway'' else if status = 503 then ''Service Unavailable''
      else if status = 504 then ''Gateway Timeout'' else if status = 505 then ''HTTP Version Not Supported''
      else if status = 506 then ''Variant Also Negotiates'' else if status = 507 then ''Insufficient Storage''
      else if status = 508 then ''Loop Detected'' else if status = 510 then ''Not Extended''
      else if status = 511 then ''Network Authentication Required'' else [])"

definition TracingMiddleware :: "string \<Rightarrow> (seen \<times> world) edge_handler \<Rightarrow> (seen \<times> world) edge_handler" where
  "TracingMiddleware full next rq ctx h s =
     (case next rq ctx h s of
        (status, h1, o1, w1) \<Rightarrow>
          (let path = route_path full;
               span = \<lparr>sp_Name = ''HTTP '' @ rq_Method rq @ '' '' @ path,
                       sp_Attributes = [AString ''http.request.method'' (rq_Method rq), AString ''http.route'' path,
                          AInt ''http.response.status_code'' status] @
                          (case seen_user o1 of None \<Rightarrow> [] | Some i \<Rightarrow> [AInt ''user.id'' i]),
                       sp_Status = (if 500 \<le> status then Some (StatusText status) else None)\<rparr>
           in (status, h1, o1\<lparr>seen_spans := seen_spans o1 @ [span]\<rparr>, w1)))"

definition millisecond :: duration where "millisecond = 1000000"

definition RequestLogger :: "redactingHandler option \<Rightarrow> string \<Rightarrow> (seen \<times> world) edge_handler \<Rightarrow> (seen \<times> world) edge_handler" where
  "RequestLogger logger full next rq ctx h s =
     (case s of (o0, w0) \<Rightarrow>
        (case time_Now w0 of (startedAt, w1) \<Rightarrow>
           (case next rq ctx h (o0, w1) of
              (status, h1, o1, w2) \<Rightarrow>
                (case time_Now w2 of (now, w3) \<Rightarrow>
                   (let attrs = [(''method'', VPlain (rq_Method rq)), (''path'', VPlain (route_path full)),
                          (''status'', VPlain (FormatInt status)), (''duration_ms'', VPlain (FormatInt ((now - startedAt) div millisecond)))] @
                          (if ctx \<noteq> [] then [(''request_id'', VPlain ctx)] else []) @
                          (case seen_user o1 of None \<Rightarrow> [] | Some i \<Rightarrow> [(''user_id'', VPlain (FormatInt i))]);
                        record = \<lparr>sr_Level = 0, sr_Message = ''http request completed'', sr_Attrs = attrs\<rparr>
                    in (status, h1,
                        (case logger of
                           None \<Rightarrow> o1
                         | Some l \<Rightarrow> o1\<lparr>seen_log := seen_log o1 @ [redacting_Handle l record]\<rparr>), w3))))))"

definition registry_Middleware :: "string \<Rightarrow> (seen \<times> world) edge_handler \<Rightarrow> (seen \<times> world) edge_handler" where
  "registry_Middleware full next rq ctx h s =
     (case s of (o0, w0) \<Rightarrow>
        (case seen_registry o0 of
           None \<Rightarrow> next rq ctx h s
         | Some _ \<Rightarrow>
             (case time_Now w0 of (startedAt, w1) \<Rightarrow>
                (case next rq ctx h (o0, w1) of
                   (status, h1, o1, w2) \<Rightarrow>
                     (case time_Now w2 of (now, w3) \<Rightarrow>
                        (let path = route_path full; method = rq_Method rq; k = (method, path, FormatInt status)
                         in (status, h1,
                             o1\<lparr>seen_registry := map_option (\<lambda>r. r\<lparr>requests := (requests r)(k := requests r k + 1),
                                  latency := (latency r)((method, path) := latency r (method, path) @ [now - startedAt])\<rparr>)
                                (seen_registry o1)\<rparr>, w3)))))))"

text \<open>The stack in the order of \<^verbatim>\<open>main\<close>. Gin starts every request with a fresh context.\<close>

definition newRequestID_seen :: "seen \<times> world \<Rightarrow> string result \<times> seen \<times> world" where
  "newRequestID_seen s = (case s of (o0, w) \<Rightarrow> case newRequestID w of (x, w1) \<Rightarrow> (x, o0, w1))"

definition server_stack ::
  "string list \<Rightarrow> redactingHandler option \<Rightarrow> string \<Rightarrow> (seen \<times> world) edge_handler \<Rightarrow> (seen \<times> world) edge_handler" where
  "server_stack origins logger full next rq ctx h s =
     (case s of (o0, w) \<Rightarrow>
        RequestIDMiddleware newRequestID_seen
          (TracingMiddleware full (RequestLogger logger full (NewCORSMiddleware origins (registry_Middleware full next))))
          rq ctx h (o0\<lparr>seen_user := None\<rparr>, w))"

section \<open>The three records agree\<close>

text \<open>What the routes promise: they do not touch what the middleware records.\<close>

definition quiet :: "(seen \<times> world) edge_handler \<Rightarrow> bool" where
  "quiet next = (\<forall>rq ctx h o0 w. case next rq ctx h (o0, w) of (_, _, o1, _) \<Rightarrow>
     seen_registry o1 = seen_registry o0 \<and> seen_spans o1 = seen_spans o0 \<and> seen_log o1 = seen_log o0)"

lemma quietD:
  "quiet next \<Longrightarrow> next rq ctx h (o0, w) = (status, h1, o1, w1) \<Longrightarrow>
   seen_registry o1 = seen_registry o0 \<and> seen_spans o1 = seen_spans o0 \<and> seen_log o1 = seen_log o0"
  by (fastforce simp: quiet_def split: prod.splits)

definition counted :: "string \<times> string \<times> string \<Rightarrow> duration \<Rightarrow> Registry \<Rightarrow> Registry" where
  "counted k d r = (case k of (m, p, st) \<Rightarrow>
     r\<lparr>requests := (requests r)(k := requests r k + 1), latency := (latency r)((m, p) := latency r (m, p) @ [d])\<rparr>)"

lemma registry_Middleware_counts:
  assumes "quiet next" and "registry_Middleware full next rq ctx h (o0, w) = (status, h1, o1, w1)" and "seen_registry o0 = Some r"
  shows "seen_spans o1 = seen_spans o0 \<and> seen_log o1 = seen_log o0 \<and>
    (\<exists>d. seen_registry o1 = Some (counted (rq_Method rq, route_path full, FormatInt status) d r))"
  using assms(2,3)
  by (auto simp: registry_Middleware_def counted_def Let_def time_Now_def split: prod.splits dest!: quietD [OF assms(1)])

lemma cors_seen:
  assumes "quiet next" and "seen_registry o0 = Some r"
    and "NewCORSMiddleware origins (registry_Middleware full next) rq ctx h (o0, w) = (status, h1, o1, w1)"
  shows "seen_spans o1 = seen_spans o0 \<and> seen_log o1 = seen_log o0 \<and>
    ((rq_Method rq = ''OPTIONS'' \<and> seen_registry o1 = Some r) \<or>
     (\<exists>d. seen_registry o1 = Some (counted (rq_Method rq, route_path full, FormatInt status) d r)))"
proof -
  from assms(3) consider (passed) h0 where "registry_Middleware full next rq ctx h0 (o0, w) = (status, h1, o1, w1)"
    | (aborted) "preflight rq" "o1 = o0" by (auto simp: NewCORSMiddleware_def Let_def split: if_splits)
  then show ?thesis
  proof cases
    case passed
    from registry_Middleware_counts [OF assms(1) passed assms(2)] show ?thesis by blast
  next
    case aborted
    with assms(2) show ?thesis by (simp add: preflight_def)
  qed
qed

definition log_labels :: "next_handler \<times> slog_record \<Rightarrow> log_value list" where
  "log_labels e = map snd (take 3 (sr_Attrs (snd e)))"

lemma plain_attrs_kept:
  "redactAttr (''method'', VPlain v) = (''method'', VPlain v)" "redactAttr (''path'', VPlain v) = (''path'', VPlain v)"
  "redactAttr (''status'', VPlain v) = (''status'', VPlain v)"
proof -
  have "\<not> isSensitiveKey ''method''" "\<not> isSensitiveKey ''path''" "\<not> isSensitiveKey ''status''" by code_simp+
  then show "redactAttr (''method'', VPlain v) = (''method'', VPlain v)" "redactAttr (''path'', VPlain v) = (''path'', VPlain v)"
    "redactAttr (''status'', VPlain v) = (''status'', VPlain v)"
    by (simp_all add: redactAttr.simps)
qed

text \<open>One request leaves one span and one line of the log, and one count unless it is a preflight that the CORS middleware answers.\<close>

lemma server_stack_once:
  assumes "quiet next" and "seen_registry o0 = Some r"
    and "server_stack origins (Some l) full next rq ctx h (o0, w) = (status, h1, o1, w1)"
  shows "(status = 500 \<and> seen_registry o1 = Some r \<and> seen_spans o1 = seen_spans o0 \<and> seen_log o1 = seen_log o0) \<or>
    ((\<exists>sp. seen_spans o1 = seen_spans o0 @ [sp] \<and> sp_Name sp = ''HTTP '' @ rq_Method rq @ '' '' @ route_path full) \<and>
     (\<exists>e. seen_log o1 = seen_log o0 @ [e] \<and> log_labels e = map VPlain [rq_Method rq, route_path full, FormatInt status]) \<and>
     (\<exists>r1. seen_registry o1 = Some r1 \<and> ((rq_Method rq = ''OPTIONS'' \<and> r1 = r) \<or>
        (\<exists>d. r1 = counted (rq_Method rq, route_path full, FormatInt status) d r))))"
proof -
  let ?in = "TracingMiddleware full (RequestLogger (Some l) full (NewCORSMiddleware origins (registry_Middleware full next)))"
  let ?o = "o0\<lparr>seen_user := None\<rparr>"
  from assms(3) consider (failed) "status = 500" "o1 = ?o"
    | (passed) i h0 w0 where "?in rq i h0 (?o, w0) = (status, h1, o1, w1)"
    by (auto simp: server_stack_def RequestIDMiddleware_def newRequestID_seen_def Let_def split: if_splits prod.splits sum.splits)
  then show ?thesis
  proof cases
    case failed
    with assms(2) show ?thesis by simp
  next
    case passed
    obtain st h2 o2 w2 where c: "NewCORSMiddleware origins (registry_Middleware full next) rq i h0 (?o, advance w0) = (st, h2, o2, w2)"
      by (metis prod_cases4)
    from assms(2) have "seen_registry ?o = Some r" by simp
    note k = cors_seen [OF assms(1) this c]
    from passed c k show ?thesis
      by (auto simp: TracingMiddleware_def RequestLogger_def time_Now_def Let_def redacting_Handle_def log_labels_def plain_attrs_kept)
  qed
qed

fun serve_all ::
  "string list \<Rightarrow> redactingHandler option \<Rightarrow> (string \<Rightarrow> (seen \<times> world) edge_handler) \<Rightarrow> (string \<times> Request) list \<Rightarrow> seen \<times> world \<Rightarrow> seen \<times> world" where
  "serve_all origins logger routes [] s = s"
| "serve_all origins logger routes ((full, rq) # rest) s =
     serve_all origins logger routes rest (snd (snd (server_stack origins logger full (routes full) rq [] [] s)))"

definition log_count :: "seen \<Rightarrow> string list \<Rightarrow> nat" where
  "log_count o0 labels = length (filter (\<lambda>e. take (length labels) (log_labels e) = map VPlain labels) (seen_log o0))"

definition accounted :: "seen \<Rightarrow> Registry \<Rightarrow> string \<Rightarrow> string \<Rightarrow> string \<Rightarrow> bool" where
  "accounted o0 r m p st =
     (if m = ''OPTIONS'' then requests r (m, p, st) \<le> log_count o0 [m, p, st] \<and> length (latency r (m, p)) \<le> log_count o0 [m, p]
      else requests r (m, p, st) = log_count o0 [m, p, st] \<and> length (latency r (m, p)) = log_count o0 [m, p])"

definition records_agree :: "seen \<Rightarrow> bool" where
  "records_agree o0 =
     (\<exists>r. seen_registry o0 = Some r \<and> length (seen_spans o0) = length (seen_log o0) \<and> (\<forall>m p st. accounted o0 r m p st))"

lemma records_agree_step:
  assumes "quiet next" and "records_agree o0" and "server_stack origins (Some l) full next rq [] [] (o0, w) = (status, h1, o1, w1)"
  shows "records_agree o1"
proof -
  from assms(2) obtain r where r: "seen_registry o0 = Some r" "length (seen_spans o0) = length (seen_log o0)" "\<And>m p st. accounted o0 r m p st"
    by (auto simp: records_agree_def)
  let ?k = "(rq_Method rq, route_path full, FormatInt status)"
  from server_stack_once [OF assms(1) r(1) assms(3)] consider
    (unseen) "seen_registry o1 = Some r" "seen_spans o1 = seen_spans o0" "seen_log o1 = seen_log o0"
  | (seen) sp e r1 where "seen_spans o1 = seen_spans o0 @ [sp]" "seen_log o1 = seen_log o0 @ [e]"
      "log_labels e = map VPlain [rq_Method rq, route_path full, FormatInt status]" "seen_registry o1 = Some r1"
      "(rq_Method rq = ''OPTIONS'' \<and> r1 = r) \<or> (\<exists>d. r1 = counted ?k d r)"
    by blast
  then show ?thesis
  proof cases
    case unseen
    then have "log_count o1 ls = log_count o0 ls" for ls by (simp add: log_count_def)
    then have "accounted o1 r m p st = accounted o0 r m p st" for m p st by (simp add: accounted_def)
    with r(3) have "accounted o1 r m p st" for m p st by simp
    moreover have "length (seen_spans o1) = length (seen_log o1)" using unseen r(2) by simp
    ultimately show ?thesis unfolding records_agree_def using unseen(1) by blast
  next
    case seen
    have cnt: "log_count o1 ls = log_count o0 ls + (if take (length ls) (log_labels e) = map VPlain ls then 1 else 0)" for ls
      using seen(2) by (simp add: log_count_def)
    have "accounted o1 r1 m p st" for m p st
      using seen(3,5) r(3) [of m p st] by (auto simp: accounted_def cnt counted_def)
    with seen(1,2,4) r(2) show ?thesis by (auto simp: records_agree_def)
  qed
qed

text \<open>
  C36. The metrics, the log and the traces of a server agree. However many requests it has served since its start,
  through routes that leave these records alone: there is one span for each line of the request log; and for every
  method other than \<^verbatim>\<open>OPTIONS\<close>, every path and status, the counter \<^verbatim>\<open>http_requests_total\<close> is the number of
  lines with that method, path and status, and the histogram of durations has one observation for each line with that
  method and path. For \<^verbatim>\<open>OPTIONS\<close> the counters are lower bounds, because the CORS middleware answers preflights
  before they are counted.
\<close>

theorem metrics_agree_with_the_log:
  assumes "\<forall>full. quiet (routes full)"
    and "serve_all origins (Some l) routes reqs (\<lparr>seen_registry = Some NewRegistry, seen_spans = [], seen_log = [], seen_user = None\<rparr>, w) = (o1, w1)"
  shows "\<exists>r. seen_registry o1 = Some r \<and> length (seen_spans o1) = length (seen_log o1) \<and>
     (\<forall>m p st. if m = ''OPTIONS'' then requests r (m, p, st) \<le> log_count o1 [m, p, st] \<and> length (latency r (m, p)) \<le> log_count o1 [m, p]
       else requests r (m, p, st) = log_count o1 [m, p, st] \<and> length (latency r (m, p)) = log_count o1 [m, p])"
proof -
  have "records_agree o0 \<Longrightarrow> serve_all origins (Some l) routes reqs (o0, w) = (o1, w1) \<Longrightarrow> records_agree o1" for o0
  proof (induction reqs arbitrary: o0 w)
    case (Cons x reqs)
    obtain full rq where x: "x = (full, rq)" by fastforce
    obtain status h o2 w2 where st: "server_stack origins (Some l) full (routes full) rq [] [] (o0, w) = (status, h, o2, w2)"
      by (metis prod_cases4)
    from records_agree_step [OF _ Cons.prems(1) st] assms(1) have "records_agree o2" by simp
    with Cons.IH Cons.prems(2) st x show ?case by simp
  qed simp
  moreover have "records_agree \<lparr>seen_registry = Some NewRegistry, seen_spans = [], seen_log = [], seen_user = None\<rparr>"
    by (auto simp: records_agree_def accounted_def log_count_def NewRegistry_def)
  ultimately have "records_agree o1" using assms(2) by blast
  then show ?thesis unfolding records_agree_def accounted_def .
qed

definition two_requests :: "seen \<times> world" where
  "two_requests = serve_all [''https://ui''] (Some (NewRedactingHandler [])) (\<lambda>_. healthz) [(''/healthz'', browser_request), (''/api/v1/me'', browser_request)]
     (\<lparr>seen_registry = Some NewRegistry, seen_spans = [], seen_log = [], seen_user = None\<rparr>, start_world empty_db 0)"

theorem metrics_agree_with_the_log_witness:
  "\<exists>r. seen_registry (fst two_requests) = Some r \<and> requests r (''GET'', ''/api/v1/me'', ''200'') = 1 \<and> requests r (''GET'', ''/healthz'', ''200'') = 1"
proof -
  obtain o1 w1 where run: "two_requests = (o1, w1)" by fastforce
  have o1: "fst two_requests = o1" unfolding run by (rule fst_conv)
  have q: "\<forall>full. quiet ((\<lambda>_. healthz) full)" by (simp add: quiet_def healthz_def)
  have "log_count (fst two_requests) [''GET'', ''/api/v1/me'', ''200''] = 1" "log_count (fst two_requests) [''GET'', ''/healthz'', ''200''] = 1"
    by code_simp+
  moreover from metrics_agree_with_the_log [OF q run [unfolded two_requests_def]] obtain r where "seen_registry o1 = Some r"
    and all: "\<forall>m p st. if m = ''OPTIONS'' then requests r (m, p, st) \<le> log_count o1 [m, p, st] \<and> length (latency r (m, p)) \<le> log_count o1 [m, p]
       else requests r (m, p, st) = log_count o1 [m, p, st] \<and> length (latency r (m, p)) = log_count o1 [m, p]" by blast
  moreover have "requests r (''GET'', p, st) = log_count o1 [''GET'', p, st]" for p st
    using all [THEN spec, of "''GET''", THEN spec, of p, THEN spec, of st] by simp
  ultimately show ?thesis unfolding o1 by (intro exI [of _ r]) simp
qed

end
