(* ===== verification/Startup.thy ===== *)
theory Startup
  imports Configuration Keyring Watchers
begin

text \<open>
  The life of the process: \<open>run\<close> and \<open>shutdownService\<close> of \<^verbatim>\<open>cmd/cliproxy/main.go\<close> and \<open>OpenPool\<close> of
  \<^verbatim>\<open>internal/store/pool.go\<close>. The libraries are parameters: the PostgreSQL driver (\<open>pool_lib\<close>), the JSON decoder of
  the keyring, and the service of the SDK, known by the errors that \<^verbatim>\<open>Build\<close>, \<^verbatim>\<open>Run\<close> and \<^verbatim>\<open>Shutdown\<close> return.
  \<open>run\<close> gives its result and the sequence of its actions, the deferred calls at the end in reverse order.
\<close>

section \<open>The actions of a process\<close>

datatype act =
    Pool_opened
  | Pool_closed
  | Token_store_registered
  | Registry_hook_set
  | Access_provider_exclusive
  | Poller_started
  | Leader_started
  | Usage_plugin_started
  | Service_built
  | Usage_plugin_registered
  | Service_run
  | Service_shutdown
  | Usage_plugin_closed
  | Signals_stopped

record pool_lib =
  pl_ParseConfig :: "string \<Rightarrow> (string \<times> string) list result"
  pl_NewWithConfig :: "(string \<times> string) list \<Rightarrow> unit result"
  pl_Ping :: "unit result"

definition OpenPool :: "pool_lib \<Rightarrow> string \<Rightarrow> unit result \<times> act list" where
  "OpenPool P dsn =
     (if TrimSpace dsn = [] then (Inl (Wrapf ''database DSN'' ErrInvalidInput), [])
      else (case pl_ParseConfig P dsn of
              Inl e \<Rightarrow> (Inl (Wrapf ''parse database config'' e), [])
            | Inr params \<Rightarrow>
                (case pl_NewWithConfig P ((''application_name'', ''cliproxy'') # filter (\<lambda>(k, _). k \<noteq> ''application_name'') params) of
                   Inl e \<Rightarrow> (Inl (Wrapf ''create database pool'' e), [])
                 | Inr _ \<Rightarrow>
                     (case pl_Ping P of
                        Inl e \<Rightarrow> (Inl (Wrapf ''ping database'' e), [Pool_opened, Pool_closed])
                      | Inr _ \<Rightarrow> (Inr (), [Pool_opened])))))"

definition ErrCanceled :: gerror where "ErrCanceled = ErrMsg ''context canceled''"

record process =
  pr_startup :: startup
  pr_pool :: pool_lib
  pr_unmarshal :: "string \<Rightarrow> (string \<times> string) list option"
  pr_Build :: "sdk_Config \<Rightarrow> unit result"
  pr_Run :: "gerror option"
  pr_Shutdown :: "gerror option"

text \<open>The end of \<open>run\<close>: \<^verbatim>\<open>service.Run\<close>, then \<open>shutdownService\<close>.\<close>

definition serve_process :: "process \<Rightarrow> unit result \<times> act list" where
  "serve_process P =
     ((case pr_Run P of
         Some e \<Rightarrow>
           (if \<not> errors_Is e ErrCanceled then Inl (Wrapf ''run SDK service'' e)
            else (case pr_Shutdown P of Some e2 \<Rightarrow> Inl (Wrapf ''shutdown SDK service'' e2) | None \<Rightarrow> Inr ()))
       | None \<Rightarrow> (case pr_Shutdown P of Some e2 \<Rightarrow> Inl (Wrapf ''shutdown SDK service'' e2) | None \<Rightarrow> Inr ())),
      [Service_run, Service_shutdown])"

text \<open>The body of \<open>run\<close> after the configuration: result, actions, and the deferred calls, the latest first.\<close>

definition run_process :: "process \<Rightarrow> Config \<Rightarrow> unit result \<times> act list \<times> act list" where
  "run_process P c =
     (let env = su_env (pr_startup P)
      in case OpenPool (pr_pool P) (cfg_DSN c) of
           (Inl e, acts) \<Rightarrow> (Inl (Wrapf ''connect database'' e), acts, [Signals_stopped])
         | (Inr _, acts) \<Rightarrow>
             (case NewKeyringFromBase64 (pr_unmarshal P) (cfg_KeyVersion c) (Getenv env ''CLIPROXY_ENCRYPTION_KEY'')
                     (Getenv env ''CLIPROXY_ENCRYPTION_PREVIOUS_KEYS'') of
                Inl e \<Rightarrow> (Inl (Wrapf ''create encryption keyring'' e), acts, [Pool_closed, Signals_stopped])
              | Inr _ \<Rightarrow>
                  (let acts = acts @ [Token_store_registered, Registry_hook_set, Access_provider_exclusive, Poller_started, Leader_started]
                   in case SDKConfig (Some c) of
                        Inl e \<Rightarrow> (Inl (Wrapf ''build SDK config'' e), acts, [Pool_closed, Signals_stopped])
                      | Inr sdkCfg \<Rightarrow>
                          (let acts = acts @ [Usage_plugin_started]; defers = [Usage_plugin_closed, Pool_closed, Signals_stopped]
                           in case pr_Build P sdkCfg of
                                Inl e \<Rightarrow> (Inl (Wrapf ''build SDK service'' e), acts, defers)
                              | Inr _ \<Rightarrow>
                                  (case serve_process P of
                                     (x, served) \<Rightarrow> (x, acts @ [Service_built, Usage_plugin_registered] @ served, defers))))))"

definition run :: "process \<Rightarrow> unit result \<times> act list" where
  "run P =
     (case run_config (pr_startup P) of
        Inl e \<Rightarrow> (Inl e, [])
      | Inr (c, _) \<Rightarrow> (case run_process P c of (x, acts, defers) \<Rightarrow> (x, acts @ defers)))"

section \<open>Order of the actions\<close>

text \<open>\<open>precedes a b xs\<close>: every \<open>b\<close> has an \<open>a\<close> before it.\<close>

fun precedes :: "'a \<Rightarrow> 'a \<Rightarrow> 'a list \<Rightarrow> bool" where
  "precedes a b [] = True"
| "precedes a b (x # xs) = (if x = a then True else if x = b then False else precedes a b xs)"

definition followed_by :: "'a \<Rightarrow> 'a \<Rightarrow> 'a list \<Rightarrow> bool" where
  "followed_by a b xs = precedes b a (rev xs)"

lemma OpenPool_acts:
  "OpenPool L dsn = (x, acts) \<Longrightarrow> acts = (case x of Inr _ \<Rightarrow> [Pool_opened] | Inl _ \<Rightarrow> acts) \<and> (acts = [] \<or> acts = [Pool_opened] \<or> acts = [Pool_opened, Pool_closed]) \<and>
     (is_ok x \<longleftrightarrow> acts = [Pool_opened])"
  by (auto simp: OpenPool_def split: if_splits sum.splits)


text \<open>A process whose database and service work.\<close>

definition good_process :: process where
  "good_process = \<lparr>pr_startup = (env_startup ''admin'')\<lparr>su_env := (\<lambda>k. if k = ''CLIPROXY_DB_DSN'' then Some ''postgres://db''
         else if k = ''CLIPROXY_ENCRYPTION_KEY'' then Some (replicate 43 (CHR ''A'') @ ''='') else su_env (env_startup ''admin'') k)\<rparr>,
     pr_pool = \<lparr>pl_ParseConfig = (\<lambda>_. Inr []), pl_NewWithConfig = (\<lambda>_. Inr ()), pl_Ping = Inr ()\<rparr>,
     pr_unmarshal = (\<lambda>_. None), pr_Build = (\<lambda>_. Inr ()), pr_Run = Some ErrCanceled, pr_Shutdown = None\<rparr>"


section \<open>The deferred calls and the leader\<close>

text \<open>
  When \<open>run\<close> returns, its deferred calls are executed while the goroutine of the leader still runs. Closing the pool
  waits until every connection was given back; the leader gives its connection back when its job returns, and the
  job, the clean-up of sessions, returns when the context has ended. The context ends with a signal, or with
  \<^verbatim>\<open>stop\<close>, which is the deferred call \<open>Signals_stopped\<close>. With an ended context no connection is acquired any more.
\<close>

record exiting =
  ex_defers :: "act list"
  ex_ctx :: bool
  ex_runner :: runner
  ex_server :: lock_server

fun leader_may :: "bool \<Rightarrow> leader_event \<Rightarrow> bool" where
  "leader_may ctx Ctx_done = ctx"
| "leader_may ctx Job_returned = ctx"
| "leader_may ctx (Tried io c) = (\<not> ctx \<or> io = AcquireFails)"
| "leader_may ctx (Released _ _) = True"
| "leader_may ctx Retry_timer = True"

inductive exit_step :: "conn set \<Rightarrow> bool \<Rightarrow> exiting \<Rightarrow> exiting \<Rightarrow> bool" for conns signals where
  exit_plugin: "ex_defers s = Usage_plugin_closed # ds \<Longrightarrow> exit_step conns signals s (s\<lparr>ex_defers := ds\<rparr>)"
| exit_pool: "ex_defers s = Pool_closed # ds \<Longrightarrow> leased (ex_runner s) = None \<Longrightarrow> exit_step conns signals s (s\<lparr>ex_defers := ds\<rparr>)"
| exit_stop: "ex_defers s = Signals_stopped # ds \<Longrightarrow> exit_step conns signals s (s\<lparr>ex_defers := ds, ex_ctx := True\<rparr>)"
| exit_signal: "signals \<Longrightarrow> exit_step conns signals s (s\<lparr>ex_ctx := True\<rparr>)"
| exit_leader: "leader_may (ex_ctx s) ev \<Longrightarrow> leader_step conns ev (ex_runner s, ex_server s) = (x, srv) \<Longrightarrow>
     exit_step conns signals s (s\<lparr>ex_runner := x, ex_server := srv\<rparr>)"

abbreviation exit_steps where "exit_steps conns signals \<equiv> (exit_step conns signals)\<^sup>*\<^sup>*"

lemma run_process_defers:
  "run_process P c = (x, acts, defers) \<Longrightarrow> Leader_started \<in> set acts \<Longrightarrow>
   defers = [Pool_closed, Signals_stopped] \<or> defers = [Usage_plugin_closed, Pool_closed, Signals_stopped]"
  by (cases "OpenPool (pr_pool P) (cfg_DSN c)")
    (auto simp: run_process_def Let_def dest!: OpenPool_acts split: sum.splits prod.splits)

lemma leading_stays:
  assumes "leader_may False ev" and "leader_step conns ev (RJob c, srv) = (x, srv')"
  shows "x = RJob c"
  using assms by (cases ev) auto

lemma waiting_step:
  assumes "exit_step conns False s s'" and "\<not> ex_ctx s" and "ex_runner s = RJob c"
    and "ex_defers s = [Pool_closed, Signals_stopped] \<or> ex_defers s = [Usage_plugin_closed, Pool_closed, Signals_stopped]"
  shows "\<not> ex_ctx s' \<and> ex_runner s' = RJob c \<and>
    (ex_defers s' = [Pool_closed, Signals_stopped] \<or> ex_defers s' = [Usage_plugin_closed, Pool_closed, Signals_stopped])"
  using assms by (cases rule: exit_step.cases) (auto simp: leading_stays)


text \<open>How much is left to do.\<close>

fun leader_rank :: "runner \<Rightarrow> nat" where
  "leader_rank (RJob _) = 2"
| "leader_rank (RRelease _) = 1"
| "leader_rank _ = 0"

definition exit_rank :: "exiting \<Rightarrow> nat" where
  "exit_rank s = length (ex_defers s) + leader_rank (ex_runner s)"

lemma ended_leader_rank:
  "leader_may True ev \<Longrightarrow> leader_step conns ev (x, srv) = (x', srv') \<Longrightarrow> leader_rank x' \<le> leader_rank x"
  by (cases ev; cases x) (auto simp: TryLock_def)

lemma ended_step:
  assumes "exit_step conns signals s s'" and "ex_ctx s"
  shows "ex_ctx s' \<and> exit_rank s' \<le> exit_rank s"
  using assms by (cases rule: exit_step.cases) (auto simp: exit_rank_def ended_leader_rank)

definition closing :: "act list \<Rightarrow> bool" where
  "closing ds = (set ds \<subseteq> {Usage_plugin_closed, Pool_closed, Signals_stopped})"

lemma closing_step: "exit_step conns signals s s' \<Longrightarrow> closing (ex_defers s) \<Longrightarrow> closing (ex_defers s')"
  by (erule exit_step.cases) (auto simp: closing_def)

lemma ended_main:
  assumes "closing (ex_defers s)" and "ex_defers s \<noteq> []" and "leased (ex_runner s) = None"
  obtains s' where "exit_step conns signals s s'" "exit_rank s' < exit_rank s"
proof -
  from assms(1,2) obtain d ds where d: "ex_defers s = d # ds" "d = Usage_plugin_closed \<or> d = Pool_closed \<or> d = Signals_stopped"
    by (cases "ex_defers s") (auto simp: closing_def)
  with assms(3) have "\<exists>s'. exit_step conns signals s s' \<and> exit_rank s' < exit_rank s"
    by (elim disjE) (auto intro!: exI exit_plugin exit_pool exit_stop simp: exit_rank_def)
  then show thesis using that by blast
qed

lemma ended_progress:
  assumes "ex_ctx s" and "closing (ex_defers s)" and "ex_defers s \<noteq> []"
  obtains s' where "exit_step conns signals s s'" "exit_rank s' < exit_rank s"
proof (cases "ex_runner s")
  case (RJob c)
  with assms(1) exit_leader [of s Job_returned conns "RRelease c" "ex_server s" signals] show thesis
    by (intro that) (auto simp: exit_rank_def)
next
  case (RRelease c)
  with exit_leader [of s "Released True True" conns RWait "snd (Lease_Release True True c (ex_server s))" signals] show thesis
    by (intro that) (auto simp: exit_rank_def)
next
  case other: RTry
  show thesis by (rule ended_main [OF assms(2,3)]) (use other that in auto)
next
  case other: RWait
  show thesis by (rule ended_main [OF assms(2,3)]) (use other that in auto)
next
  case other: RStopped
  show thesis by (rule ended_main [OF assms(2,3)]) (use other that in auto)
qed


text \<open>A service that cannot listen on its port.\<close>

definition bad_process :: process where
  "bad_process = good_process\<lparr>pr_Run := Some (ErrMsg ''listen: address already in use'')\<rparr>"

definition good_config :: Config where
  "good_config = (case run_config (pr_startup good_process) of Inr (c, _) \<Rightarrow> c | Inl _ \<Rightarrow> Default)"

lemma bad_process_run:
  "Leader_started \<in> set (fst (snd (run_process bad_process good_config)))" "\<not> is_ok (fst (run_process bad_process good_config))"
  by code_simp+



end
