(* ===== verification/Openapi_Projection.thy ===== *)
theory Openapi_Projection
  imports Prelude
begin

text \<open>
  \<^verbatim>\<open>cmd/openapiogen\<close>: the projection of the OpenAPI 3.1 document that the code generator understands. A document
  is what the YAML decoder makes of it; a map is an association list with distinct keys (the order of a Go map
  is not observable), a scalar that is not a string is kept as its text. Reading and writing the files is not modelled.
\<close>

datatype yaml = Str string | Scalar string | Seq "yaml list" | Mapping "(string \<times> yaml) list"

definition put :: "string \<Rightarrow> yaml \<Rightarrow> (string \<times> yaml) list \<Rightarrow> (string \<times> yaml) list" where
  "put k v m = (k, v) # filter (\<lambda>(k', _). k' \<noteq> k) m"

definition del :: "string \<Rightarrow> (string \<times> yaml) list \<Rightarrow> (string \<times> yaml) list" where
  "del k m = filter (\<lambda>(k', _). k' \<noteq> k) m"

text \<open>The loop over the entries of \<open>type\<close>: \<open>None\<close> when one of them is not a string, else whether \<open>null\<close> is among them and the others.\<close>

fun split_types :: "yaml list \<Rightarrow> (bool \<times> string list) option" where
  "split_types [] = Some (False, [])"
| "split_types (Str name # items) =
     (case split_types items of
        None \<Rightarrow> None
      | Some (hasNull, nonNull) \<Rightarrow> if name = ''null'' then Some (True, nonNull) else Some (hasNull, name # nonNull))"
| "split_types (_ # items) = None"

definition variant :: "string \<Rightarrow> string \<Rightarrow> (string \<times> yaml) list \<Rightarrow> yaml" where
  "variant ty kw schema =
     Mapping ((''type'', Str ty) # (case map_of schema kw of None \<Rightarrow> [] | Some v \<Rightarrow> [(kw, v)]))"

definition normalizeUnionType :: "(string \<times> yaml) list \<Rightarrow> (string \<times> yaml) list" where
  "normalizeUnionType schema =
     (case map_of schema ''type'' of
        Some (Seq types) \<Rightarrow>
          (case split_types types of
             None \<Rightarrow> schema
           | Some (hasNull, nonNull) \<Rightarrow>
               (if \<not> hasNull then schema
                else if length nonNull = 1 then put ''nullable'' (Scalar ''true'') (put ''type'' (Str (hd nonNull)) schema)
                else if nonNull = [''object'', ''array''] then
                  put ''nullable'' (Scalar ''true'')
                    (put ''oneOf'' (Seq [variant ''object'' ''additionalProperties'' schema, variant ''array'' ''items'' schema])
                      (del ''type'' (del ''items'' (del ''additionalProperties'' schema))))
                else schema))
      | _ \<Rightarrow> schema)"

fun normalizeForOgen :: "yaml \<Rightarrow> yaml" where
  "normalizeForOgen (Seq items) = Seq (map normalizeForOgen items)"
| "normalizeForOgen (Mapping entries) = Mapping (normalizeUnionType (map (\<lambda>(k, v). (k, normalizeForOgen v)) entries))"
| "normalizeForOgen (Str s) = Str s"
| "normalizeForOgen (Scalar s) = Scalar s"

section \<open>The projection is stable\<close>

lemma map_of_put [simp]: "map_of (put k v m) k' = (if k' = k then Some v else map_of m k')"
  by (induction m) (auto simp: put_def)

lemma map_of_del [simp]: "map_of (del k m) k' = (if k' = k then None else map_of m k')"
  by (induction m) (auto simp: del_def)

definition normal :: "yaml \<Rightarrow> bool" where "normal v = (normalizeForOgen v = v)"

lemma normal_Mapping_iff:
  "list_all (\<lambda>(k, v). normal v) m \<Longrightarrow> normal (Mapping m) \<longleftrightarrow> normalizeUnionType m = m"
proof -
  assume "list_all (\<lambda>(k, v). normal v) m"
  then have "map (\<lambda>(k, v). (k, normalizeForOgen v)) m = m" by (induction m) (auto simp: normal_def)
  then show ?thesis by (simp add: normal_def)
qed

lemma normal_entries: "list_all (\<lambda>(k, v). normal v) m \<Longrightarrow> map_of m k = Some v \<Longrightarrow> normal v"
  by (induction m) (auto split: if_splits)

lemma union_keeps_normal:
  assumes "list_all (\<lambda>(k, v). normal v) m"
  shows "list_all (\<lambda>(k, v). normal v) (normalizeUnionType m)" and "normalizeUnionType (normalizeUnionType m) = normalizeUnionType m"
proof -
  have base: "normal (Str s)" "normal (Scalar s)" for s by (simp_all add: normal_def)
  have vr: "normal (variant ty kw m)" for ty kw
    using normal_entries [OF assms] by (auto simp: variant_def normal_def normalizeUnionType_def split: option.split)
  have rest: "list_all (\<lambda>(k, v). normal v) (put k v m')" if "normal v" and "list_all (\<lambda>(k, v). normal v) m'" for k v m'
    using that by (auto simp: put_def list_all_iff)
  have dels: "list_all (\<lambda>(k, v). normal v) (del k m')" if "list_all (\<lambda>(k, v). normal v) m'" for k m'
    using that by (auto simp: del_def list_all_iff)
  have sq: "normal (Seq [a, b])" if "normal a" "normal b" for a b using that by (simp add: normal_def)
  show "list_all (\<lambda>(k, v). normal v) (normalizeUnionType m)"
    unfolding normalizeUnionType_def
    by (auto split: option.split yaml.split intro!: assms rest dels base sq vr)
  show "normalizeUnionType (normalizeUnionType m) = normalizeUnionType m"
    by (auto simp: normalizeUnionType_def split: option.splits yaml.splits)
qed

lemma normalize_normal: "normal (normalizeForOgen v)"
proof (induction v rule: normalizeForOgen.induct)
  case (1 items)
  then show ?case by (simp add: normal_def)
next
  case (2 entries)
  let ?m = "map (\<lambda>(k, v). (k, normalizeForOgen v)) entries"
  from 2 have n: "list_all (\<lambda>(k, v). normal v) ?m" by (auto simp: list_all_iff)
  from union_keeps_normal [OF n] normal_Mapping_iff [of "normalizeUnionType ?m"] show ?case by simp
qed (simp_all add: normal_def)

section \<open>The projection admits the same values\<close>

text \<open>
  Which JSON types a schema admits: \<open>type\<close> is a name or a list of names, \<open>nullable\<close> adds null, and the value must match
  a variant of \<open>oneOf\<close>.
\<close>

fun type_admits :: "yaml option \<Rightarrow> string \<Rightarrow> bool" where
  "type_admits None t = True"
| "type_admits (Some (Str s)) t = (t = s)"
| "type_admits (Some (Seq items)) t = list_ex (\<lambda>i. i = Str t) items"
| "type_admits (Some _) t = False"

definition variants_admit :: "yaml option \<Rightarrow> string \<Rightarrow> bool" where
  "variants_admit one_of t =
     (case one_of of
        Some (Seq vs) \<Rightarrow> list_ex (\<lambda>v. case v of Mapping m \<Rightarrow> type_admits (map_of m ''type'') t | _ \<Rightarrow> False) vs
      | _ \<Rightarrow> True)"

definition admits :: "(string \<times> yaml) list \<Rightarrow> string \<Rightarrow> bool" where
  "admits m t =
     ((map_of m ''nullable'' = Some (Scalar ''true'') \<and> t = ''null'') \<or>
      (type_admits (map_of m ''type'') t \<and> variants_admit (map_of m ''oneOf'') t))"

lemma split_types_admits:
  "split_types items = Some (hasNull, nonNull) \<Longrightarrow>
   list_ex (\<lambda>i. i = Str t) items \<longleftrightarrow> (hasNull \<and> t = ''null'') \<or> t \<in> set nonNull"
  by (induction items arbitrary: hasNull nonNull rule: split_types.induct) (auto split: option.splits prod.splits if_splits)

lemma union_admits:
  assumes "map_of m ''oneOf'' = None" and "map_of m ''nullable'' = None"
  shows "admits (normalizeUnionType m) t \<longleftrightarrow> admits m t"
proof (cases "\<exists>types nonNull. map_of m ''type'' = Some (Seq types) \<and> split_types types = Some (True, nonNull)")
  case True
  then obtain types nonNull where f: "map_of m ''type'' = Some (Seq types)" "split_types types = Some (True, nonNull)" by blast
  from split_types_admits [OF f(2), of t] f(1) assms have a: "admits m t \<longleftrightarrow> t = ''null'' \<or> t \<in> set nonNull"
    by (simp add: admits_def variants_admit_def)
  consider (one) ty where "nonNull = [ty]" | (two) "nonNull = [''object'', ''array'']"
    | (other) "length nonNull \<noteq> 1" "nonNull \<noteq> [''object'', ''array'']" by (metis length_0_conv length_Suc_conv One_nat_def)
  then show ?thesis
  proof cases
    case one
    with f assms a show ?thesis by (auto simp: normalizeUnionType_def admits_def variants_admit_def)
  next
    case two
    with f assms a show ?thesis by (auto simp: normalizeUnionType_def admits_def variants_admit_def variant_def)
  next
    case other
    with f have "normalizeUnionType m = m" by (auto simp: normalizeUnionType_def)
    then show ?thesis by simp
  qed
next
  case False
  then have "normalizeUnionType m = m"
    by (auto simp: normalizeUnionType_def split: option.splits yaml.splits)
  then show ?thesis by simp
qed

lemma union_other_keys:
  assumes "k \<notin> {''type'', ''nullable'', ''oneOf'', ''items'', ''additionalProperties''}"
  shows "map_of (normalizeUnionType m) k = map_of m k"
  using assms by (auto simp: normalizeUnionType_def split: option.splits yaml.splits)



text \<open>A \<open>oneOf\<close> that the schema had is overwritten: a type it excluded becomes admitted.\<close>

lemma projection_overwrites_one_of:
  "\<not> admits [(''type'', Seq [Str ''object'', Str ''array'', Str ''null'']), (''oneOf'', Seq [Mapping [(''type'', Str ''array'')]])] ''object'' \<and>
   admits (normalizeUnionType [(''type'', Seq [Str ''object'', Str ''array'', Str ''null'']), (''oneOf'', Seq [Mapping [(''type'', Str ''array'')]])]) ''object''"
  by code_simp

end
