(* ===== verification/Openapi_Router.thy ===== *)
theory Openapi_Router
  imports Http_Api Observability
begin

text \<open>
  \<^verbatim>\<open>internal/openapi/ogen/oas_router_gen.go\<close>: the router that \<^verbatim>\<open>ogen\<close> generates from the OpenAPI document. Its code is a
  tree of \<^verbatim>\<open>switch\<close> statements on the next byte of the path; here the tree is data, with one definition for each part
  of the tree and the statements of the code in their order, and the meaning of the statements is given once. The
  two functions \<open>ServeHTTP\<close> and \<open>FindPath\<close> have trees of their own in the code and here. The normalisation of escaped
  paths (a library of \<^verbatim>\<open>ogen\<close>) and \<^verbatim>\<open>url.PathUnescape\<close> are parameters; the summaries of routes are left out.
\<close>

section \<open>Statements\<close>

text \<open>
  The statements on the rest \<^verbatim>\<open>elem\<close> of the path: take a parameter up to a byte, take the rest as the last parameter, leave
  the enclosing \<^verbatim>\<open>switch\<close> if nothing is left, serve if nothing is left, and branch on the next byte. A case cuts its
  prefix; the flag says that it puts \<^verbatim>\<open>elem\<close> back at its end (\<^verbatim>\<open>elem = origElem\<close>).
\<close>

datatype 'l stmt =
    Param nat char
  | LeafParam nat
  | EmptyBreak
  | EmptyServe 'l
  | Switch "'l rcase list"
and 'l rcase = Case string bool "'l stmt list"

text \<open>A statement list ends by serving, by reaching its end, or by a \<^verbatim>\<open>break\<close>; then the code after the \<^verbatim>\<open>switch\<close> goes on.\<close>

datatype 'l progress = Served 'l "string list" | Fell string "string list" | Broke string "string list"

fun run_stmts :: "'l stmt list \<Rightarrow> string \<Rightarrow> string list \<Rightarrow> 'l progress"
  and run_cases :: "'l rcase list \<Rightarrow> string \<Rightarrow> string list \<Rightarrow> 'l progress" where
  "run_stmts [] elem args = Fell elem args"
| "run_stmts (Param i c # ss) elem args = run_stmts ss (dropWhile (\<lambda>x. x \<noteq> c) elem) (args[i := takeWhile (\<lambda>x. x \<noteq> c) elem])"
| "run_stmts (LeafParam i # ss) elem args =
     (if CHR ''/'' \<in> set elem then Broke elem args else run_stmts ss [] (args[i := elem]))"
| "run_stmts (EmptyBreak # ss) elem args = (if elem = [] then Broke elem args else run_stmts ss elem args)"
| "run_stmts (EmptyServe l # ss) elem args = (if elem = [] then Served l args else run_stmts ss elem args)"
| "run_stmts (Switch cs # ss) elem args =
     (case run_cases cs elem args of
        Served l a \<Rightarrow> Served l a
      | Fell e a \<Rightarrow> run_stmts ss e a
      | Broke e a \<Rightarrow> run_stmts ss e a)"
| "run_cases [] elem args = Fell elem args"
| "run_cases (Case p restores body # cs) elem args =
     (if elem = [] \<or> hd elem \<noteq> hd p then run_cases cs elem args
      else if \<not> HasPrefix elem p then Broke elem args
      else (case run_stmts body (drop (length p) elem) args of
              Served l a \<Rightarrow> Served l a
            | Fell e a \<Rightarrow> Fell (if restores then elem else e) a
            | Broke e a \<Rightarrow> Broke e a))"

section \<open>The tree of \<open>ServeHTTP\<close>\<close>

text \<open>A leaf: for each method the operation and the number of arguments, and what \<^verbatim>\<open>notAllowed\<close> is given for the others.\<close>

record serve_leaf =
  sl_methods :: "(string \<times> string \<times> nat) list"
  sl_allowedMethods :: string
  sl_allowedHeaders :: "(string \<times> string) list"
  sl_acceptPost :: string
  sl_acceptPatch :: string

abbreviation serve_leaf where
  "serve_leaf ms allowed hs post patch \<equiv>
     \<lparr>sl_methods = ms, sl_allowedMethods = allowed, sl_allowedHeaders = hs, sl_acceptPost = post, sl_acceptPatch = patch\<rparr>"

definition serve_api_v1_admin_accounts :: "serve_leaf rcase" where
  "serve_api_v1_admin_accounts =
    Case ''accounts/'' False
      [Param 0 (CHR ''/''),
       EmptyBreak,
       Switch [
        Case ''/'' False
        [EmptyBreak,
         Switch [
          Case ''quota'' False
          [EmptyServe (serve_leaf [(''GET'', ''GetUpstreamAccountQuota'', 1)] ''GET'' [] [] [])],
          Case ''test'' False
          [EmptyServe (serve_leaf [(''POST'', ''TestUpstreamAccount'', 1)] ''POST'' [] [] [])]]]]]"

definition serve_api_v1_admin_keys :: "serve_leaf rcase" where
  "serve_api_v1_admin_keys =
    Case ''keys'' False
      [EmptyServe (serve_leaf [(''GET'', ''ListAllAPIKeys'', 0)] ''GET'' [] [] [])]"

definition serve_api_v1_admin_models :: "serve_leaf rcase" where
  "serve_api_v1_admin_models =
    Case ''models'' False
      [EmptyServe (serve_leaf [(''GET'', ''ListModelOverrides'', 0)] ''GET'' [] [] []),
       Switch [
        Case ''/'' False
        [LeafParam 0,
         EmptyServe (serve_leaf [(''DELETE'', ''DeleteModelOverride'', 1), (''PUT'', ''UpsertModelOverride'', 1)] ''DELETE,PUT'' [(''PUT'', ''Content-Type'')] [] [])]]]"

definition serve_api_v1_admin_oauth_accounts :: "serve_leaf rcase" where
  "serve_api_v1_admin_oauth_accounts =
    Case ''accounts/'' False
      [Param 0 (CHR ''/''),
       EmptyBreak,
       Switch [
        Case ''/export'' False
        [EmptyServe (serve_leaf [(''GET'', ''ExportOAuthCredential'', 1)] ''GET'' [] [] [])]]]"

definition serve_api_v1_admin_oauth_import :: "serve_leaf rcase" where
  "serve_api_v1_admin_oauth_import =
    Case ''import'' False
      [EmptyServe (serve_leaf [(''POST'', ''ImportOAuthCredential'', 0)] ''POST'' [(''POST'', ''Content-Type'')] ''application/json,multipart/form-data'' [])]"

definition serve_api_v1_admin_oauth_sessions :: "serve_leaf rcase" where
  "serve_api_v1_admin_oauth_sessions =
    Case ''sessions'' False
      [EmptyServe (serve_leaf [(''GET'', ''ListPendingOAuthSessions'', 0)] ''GET'' [] [] []),
       Switch [
        Case ''/'' False
        [LeafParam 0,
         EmptyServe (serve_leaf [(''DELETE'', ''CancelOAuthSession'', 1), (''GET'', ''GetOAuthSession'', 1)] ''DELETE,GET'' [] [] [])]]]"

definition serve_api_v1_admin_oauth :: "serve_leaf rcase" where
  "serve_api_v1_admin_oauth =
    Case ''oauth/'' False
      [EmptyBreak,
       Switch [serve_api_v1_admin_oauth_accounts, serve_api_v1_admin_oauth_import, serve_api_v1_admin_oauth_sessions]]"

definition serve_api_v1_admin_providers_keys :: "serve_leaf rcase" where
  "serve_api_v1_admin_providers_keys =
    Case ''providers/keys'' False
      [EmptyServe (serve_leaf [(''POST'', ''CreateProviderAPIKeys'', 0)] ''POST'' [(''POST'', ''Content-Type'')] ''application/json'' [])]"

definition serve_api_v1_admin_users :: "serve_leaf rcase" where
  "serve_api_v1_admin_users =
    Case ''users'' False
      [EmptyServe (serve_leaf [(''GET'', ''ListUsers'', 0)] ''GET'' [] [] []),
       Switch [
        Case ''/'' False
        [LeafParam 0,
         EmptyServe (serve_leaf [(''PATCH'', ''SetUserStatus'', 1)] ''PATCH'' [(''PATCH'', ''Content-Type'')] [] ''application/json'')]]]"

definition serve_api_v1_admin :: "serve_leaf rcase" where
  "serve_api_v1_admin =
    Case ''admin/'' False
      [EmptyBreak,
       Switch [serve_api_v1_admin_accounts, serve_api_v1_admin_keys, serve_api_v1_admin_models, serve_api_v1_admin_oauth, serve_api_v1_admin_providers_keys, serve_api_v1_admin_users]]"

definition serve_api_v1_log :: "serve_leaf rcase" where
  "serve_api_v1_log =
    Case ''log'' False
      [EmptyBreak,
       Switch [
        Case ''in'' False
        [EmptyServe (serve_leaf [(''POST'', ''Login'', 0)] ''POST'' [(''POST'', ''Content-Type'')] ''application/json'' [])],
        Case ''out'' False
        [EmptyServe (serve_leaf [(''POST'', ''Logout'', 0)] ''POST'' [] [] [])]]]"

definition serve_api_v1_me :: "serve_leaf rcase" where
  "serve_api_v1_me =
    Case ''me'' False
      [EmptyServe (serve_leaf [(''GET'', ''GetCurrentUser'', 0)] ''GET'' [] [] []),
       Switch [
        Case ''/'' False
        [EmptyBreak,
         Switch [
          Case ''keys'' False
          [EmptyServe (serve_leaf [(''GET'', ''ListMyAPIKeys'', 0), (''POST'', ''CreateMyAPIKey'', 0)] ''GET,POST'' [(''POST'', ''Content-Type'')] ''application/json'' []),
           Switch [
            Case ''/'' False
            [LeafParam 0,
             EmptyServe (serve_leaf [(''DELETE'', ''RevokeMyAPIKey'', 1)] ''DELETE'' [] [] [])]]],
          Case ''usage'' False
          [EmptyServe (serve_leaf [(''GET'', ''GetMyUsage'', 0)] ''GET'' [] [] [])]]]]]"

definition serve_api_v1 :: "serve_leaf rcase" where
  "serve_api_v1 =
    Case ''api/v1/'' False
      [EmptyBreak,
       Switch [serve_api_v1_admin, serve_api_v1_log, serve_api_v1_me]]"

definition serve_backend_api_codex :: "serve_leaf rcase" where
  "serve_backend_api_codex =
    Case ''backend-api/codex/'' False
      [EmptyBreak,
       Switch [
        Case ''alpha/search'' False
        [EmptyServe (serve_leaf [(''POST'', ''ProxyCodexAlphaSearch'', 0)] ''POST'' [(''POST'', ''Authorization'')] [] [])],
        Case ''responses'' False
        [EmptyServe (serve_leaf [(''GET'', ''ProxyCodexResponsesWebsocket'', 0), (''POST'', ''ProxyCodexResponses'', 0)] ''GET,POST'' [(''GET'', ''Authorization''), (''POST'', ''Authorization'')] [] []),
         Switch [
          Case ''/compact'' False
          [EmptyServe (serve_leaf [(''POST'', ''ProxyCodexResponsesCompact'', 0)] ''POST'' [(''POST'', ''Authorization'')] [] [])]]]]]"

definition serve_docs :: "serve_leaf rcase" where
  "serve_docs =
    Case ''docs'' False
      [EmptyServe (serve_leaf [(''GET'', ''Docs'', 0)] ''GET'' [] [] [])]"

definition serve_healthz :: "serve_leaf rcase" where
  "serve_healthz =
    Case ''healthz'' False
      [EmptyServe (serve_leaf [(''GET'', ''Healthz'', 0)] ''GET'' [] [] [])]"

definition serve_metrics :: "serve_leaf rcase" where
  "serve_metrics =
    Case ''metrics'' False
      [EmptyServe (serve_leaf [(''GET'', ''Metrics'', 0)] ''GET'' [] [] [])]"

definition serve_opena :: "serve_leaf rcase" where
  "serve_opena =
    Case ''opena'' False
      [EmptyBreak,
       Switch [
        Case ''i/v1/videos'' False
        [EmptyServe (serve_leaf [(''POST'', ''ProxyOpenAIVideosCreate'', 0)] ''POST'' [(''POST'', ''Authorization'')] [] []),
         Switch [
          Case ''/'' False
          [Param 0 (CHR ''/''),
           EmptyServe (serve_leaf [(''GET'', ''ProxyOpenAIVideosRetrieve'', 1)] ''GET'' [(''GET'', ''Authorization'')] [] []),
           Switch [
            Case ''/content'' False
            [EmptyServe (serve_leaf [(''GET'', ''ProxyOpenAIVideosContent'', 1)] ''GET'' [(''GET'', ''Authorization'')] [] [])]]]]],
        Case ''pi.json'' False
        [EmptyServe (serve_leaf [(''GET'', ''OpenapiJson'', 0)] ''GET'' [] [] [])]]]"

definition serve_readyz :: "serve_leaf rcase" where
  "serve_readyz =
    Case ''readyz'' False
      [EmptyServe (serve_leaf [(''GET'', ''Readyz'', 0)] ''GET'' [] [] [])]"

definition serve_v1_alpha_search :: "serve_leaf rcase" where
  "serve_v1_alpha_search =
    Case ''alpha/search'' False
      [EmptyServe (serve_leaf [(''POST'', ''ProxyAlphaSearch'', 0)] ''POST'' [(''POST'', ''Authorization'')] [] [])]"

definition serve_v1_c :: "serve_leaf rcase" where
  "serve_v1_c =
    Case ''c'' False
      [EmptyBreak,
       Switch [
        Case ''hat/completions'' False
        [EmptyServe (serve_leaf [(''POST'', ''ProxyChatCompletions'', 0)] ''POST'' [(''POST'', ''Authorization'')] [] [])],
        Case ''ompletions'' False
        [EmptyServe (serve_leaf [(''POST'', ''ProxyCompletions'', 0)] ''POST'' [(''POST'', ''Authorization'')] [] [])]]]"

definition serve_v1_images :: "serve_leaf rcase" where
  "serve_v1_images =
    Case ''images/'' False
      [EmptyBreak,
       Switch [
        Case ''edits'' False
        [EmptyServe (serve_leaf [(''POST'', ''ProxyImageEdits'', 0)] ''POST'' [(''POST'', ''Authorization'')] [] [])],
        Case ''generations'' False
        [EmptyServe (serve_leaf [(''POST'', ''ProxyImageGenerations'', 0)] ''POST'' [(''POST'', ''Authorization'')] [] [])]]]"

definition serve_v1_m :: "serve_leaf rcase" where
  "serve_v1_m =
    Case ''m'' False
      [EmptyBreak,
       Switch [
        Case ''essages'' False
        [EmptyServe (serve_leaf [(''POST'', ''ProxyMessages'', 0)] ''POST'' [(''POST'', ''Authorization'')] [] []),
         Switch [
          Case ''/count_tokens'' False
          [EmptyServe (serve_leaf [(''POST'', ''ProxyMessagesCountTokens'', 0)] ''POST'' [(''POST'', ''Authorization'')] [] [])]]],
        Case ''odels'' False
        [EmptyServe (serve_leaf [(''GET'', ''ProxyModels'', 0)] ''GET'' [(''GET'', ''Authorization'')] [] [])]]]"

definition serve_v1_responses :: "serve_leaf rcase" where
  "serve_v1_responses =
    Case ''responses'' False
      [EmptyServe (serve_leaf [(''GET'', ''ProxyResponsesWebsocket'', 0), (''POST'', ''ProxyResponses'', 0)] ''GET,POST'' [(''GET'', ''Authorization''), (''POST'', ''Authorization'')] [] []),
       Switch [
        Case ''/compact'' False
        [EmptyServe (serve_leaf [(''POST'', ''ProxyResponsesCompact'', 0)] ''POST'' [(''POST'', ''Authorization'')] [] [])]]]"

definition serve_v1_videos_slash :: "serve_leaf rcase" where
  "serve_v1_videos_slash =
    Case ''/'' False
      [EmptyBreak,
       Switch [
        Case ''e'' True
        [EmptyBreak,
         Switch [
          Case ''dits'' False
          [EmptyServe (serve_leaf [(''POST'', ''ProxyXAIVideoEdits'', 0)] ''POST'' [(''POST'', ''Authorization'')] [] [])],
          Case ''xtensions'' False
          [EmptyServe (serve_leaf [(''POST'', ''ProxyXAIVideoExtensions'', 0)] ''POST'' [(''POST'', ''Authorization'')] [] [])]]],
        Case ''generations'' True
        [EmptyServe (serve_leaf [(''POST'', ''ProxyXAIVideoGenerations'', 0)] ''POST'' [(''POST'', ''Authorization'')] [] [])]],
       LeafParam 0,
       EmptyServe (serve_leaf [(''GET'', ''ProxyXAIVideoRetrieve'', 1)] ''GET'' [(''GET'', ''Authorization'')] [] [])]"

definition serve_v1_videos :: "serve_leaf rcase" where
  "serve_v1_videos =
    Case ''videos'' False
      [EmptyServe (serve_leaf [(''POST'', ''ProxyXAIVideos'', 0)] ''POST'' [(''POST'', ''Authorization'')] [] []),
       Switch [serve_v1_videos_slash]]"

definition serve_v1_slash :: "serve_leaf rcase" where
  "serve_v1_slash =
    Case ''/'' False
      [EmptyBreak,
       Switch [serve_v1_alpha_search, serve_v1_c, serve_v1_images, serve_v1_m, serve_v1_responses, serve_v1_videos]]"

definition serve_v1beta :: "serve_leaf rcase" where
  "serve_v1beta =
    Case ''beta/'' False
      [EmptyBreak,
       Switch [
        Case ''interactions'' False
        [EmptyServe (serve_leaf [(''POST'', ''ProxyGeminiInteractions'', 0)] ''POST'' [(''POST'', ''Authorization'')] [] [])],
        Case ''models'' False
        [EmptyServe (serve_leaf [(''GET'', ''ProxyGeminiModels'', 0)] ''GET'' [(''GET'', ''Authorization'')] [] []),
         Switch [
          Case ''/'' False
          [Param 0 (CHR '':''),
           EmptyBreak,
           Switch [
            Case '':'' False
            [LeafParam 1,
             EmptyServe (serve_leaf [(''GET'', ''ProxyGeminiModelActionGet'', 2), (''POST'', ''ProxyGeminiModelActionPost'', 2)] ''GET,POST'' [(''GET'', ''Authorization''), (''POST'', ''Authorization'')] [] [])]]]]]]]"

definition serve_v1 :: "serve_leaf rcase" where
  "serve_v1 =
    Case ''v1'' False
      [EmptyBreak,
       Switch [serve_v1_slash, serve_v1beta]]"

definition serve_root :: "serve_leaf rcase" where
  "serve_root =
    Case ''/'' False
      [EmptyBreak,
       Switch [serve_api_v1, serve_backend_api_codex, serve_docs, serve_healthz, serve_metrics, serve_opena, serve_readyz, serve_v1]]"

lemmas serve_tree_defs = serve_api_v1_admin_accounts_def serve_api_v1_admin_keys_def serve_api_v1_admin_models_def
  serve_api_v1_admin_oauth_accounts_def serve_api_v1_admin_oauth_import_def
  serve_api_v1_admin_oauth_sessions_def serve_api_v1_admin_oauth_def serve_api_v1_admin_providers_keys_def
  serve_api_v1_admin_users_def serve_api_v1_admin_def serve_api_v1_log_def serve_api_v1_me_def serve_api_v1_def
  serve_backend_api_codex_def serve_docs_def serve_healthz_def serve_metrics_def serve_opena_def
  serve_readyz_def serve_v1_alpha_search_def serve_v1_c_def serve_v1_images_def serve_v1_m_def
  serve_v1_responses_def serve_v1_videos_slash_def serve_v1_videos_def serve_v1_slash_def serve_v1beta_def
  serve_v1_def serve_root_def

section \<open>The tree of \<open>FindPath\<close>\<close>

record Route =
  ro_name :: string
  ro_operationID :: string
  ro_operationGroup :: string
  ro_pathPattern :: string
  ro_count :: nat

abbreviation route_of where
  "route_of name i grp pat n \<equiv> \<lparr>ro_name = name, ro_operationID = i, ro_operationGroup = grp, ro_pathPattern = pat, ro_count = n\<rparr>"

definition find_api_v1_admin_accounts :: "(string \<times> Route) list rcase" where
  "find_api_v1_admin_accounts =
    Case ''accounts/'' False
      [Param 0 (CHR ''/''),
       EmptyBreak,
       Switch [
        Case ''/'' False
        [EmptyBreak,
         Switch [
          Case ''quota'' False
          [EmptyServe [(''GET'', route_of ''GetUpstreamAccountQuota'' ''getUpstreamAccountQuota'' [] ''/api/v1/admin/accounts/{accountID}/quota'' 1)]],
          Case ''test'' False
          [EmptyServe [(''POST'', route_of ''TestUpstreamAccount'' ''testUpstreamAccount'' [] ''/api/v1/admin/accounts/{accountID}/test'' 1)]]]]]]"

definition find_api_v1_admin_keys :: "(string \<times> Route) list rcase" where
  "find_api_v1_admin_keys =
    Case ''keys'' False
      [EmptyServe [(''GET'', route_of ''ListAllAPIKeys'' ''listAllAPIKeys'' [] ''/api/v1/admin/keys'' 0)]]"

definition find_api_v1_admin_models :: "(string \<times> Route) list rcase" where
  "find_api_v1_admin_models =
    Case ''models'' False
      [EmptyServe [(''GET'', route_of ''ListModelOverrides'' ''listModelOverrides'' [] ''/api/v1/admin/models'' 0)],
       Switch [
        Case ''/'' False
        [LeafParam 0,
         EmptyServe [(''DELETE'', route_of ''DeleteModelOverride'' ''deleteModelOverride'' [] ''/api/v1/admin/models/{modelAlias}'' 1), (''PUT'', route_of ''UpsertModelOverride'' ''upsertModelOverride'' [] ''/api/v1/admin/models/{modelAlias}'' 1)]]]]"

definition find_api_v1_admin_oauth_accounts :: "(string \<times> Route) list rcase" where
  "find_api_v1_admin_oauth_accounts =
    Case ''accounts/'' False
      [Param 0 (CHR ''/''),
       EmptyBreak,
       Switch [
        Case ''/export'' False
        [EmptyServe [(''GET'', route_of ''ExportOAuthCredential'' ''exportOAuthCredential'' [] ''/api/v1/admin/oauth/accounts/{accountID}/export'' 1)]]]]"

definition find_api_v1_admin_oauth_import :: "(string \<times> Route) list rcase" where
  "find_api_v1_admin_oauth_import =
    Case ''import'' False
      [EmptyServe [(''POST'', route_of ''ImportOAuthCredential'' ''importOAuthCredential'' [] ''/api/v1/admin/oauth/import'' 0)]]"

definition find_api_v1_admin_oauth_sessions :: "(string \<times> Route) list rcase" where
  "find_api_v1_admin_oauth_sessions =
    Case ''sessions'' False
      [EmptyServe [(''GET'', route_of ''ListPendingOAuthSessions'' ''listPendingOAuthSessions'' [] ''/api/v1/admin/oauth/sessions'' 0)],
       Switch [
        Case ''/'' False
        [LeafParam 0,
         EmptyServe [(''DELETE'', route_of ''CancelOAuthSession'' ''cancelOAuthSession'' [] ''/api/v1/admin/oauth/sessions/{state}'' 1), (''GET'', route_of ''GetOAuthSession'' ''getOAuthSession'' [] ''/api/v1/admin/oauth/sessions/{state}'' 1)]]]]"

definition find_api_v1_admin_oauth :: "(string \<times> Route) list rcase" where
  "find_api_v1_admin_oauth =
    Case ''oauth/'' False
      [EmptyBreak,
       Switch [find_api_v1_admin_oauth_accounts, find_api_v1_admin_oauth_import, find_api_v1_admin_oauth_sessions]]"

definition find_api_v1_admin_providers_keys :: "(string \<times> Route) list rcase" where
  "find_api_v1_admin_providers_keys =
    Case ''providers/keys'' False
      [EmptyServe [(''POST'', route_of ''CreateProviderAPIKeys'' ''createProviderAPIKeys'' [] ''/api/v1/admin/providers/keys'' 0)]]"

definition find_api_v1_admin_users :: "(string \<times> Route) list rcase" where
  "find_api_v1_admin_users =
    Case ''users'' False
      [EmptyServe [(''GET'', route_of ''ListUsers'' ''listUsers'' [] ''/api/v1/admin/users'' 0)],
       Switch [
        Case ''/'' False
        [LeafParam 0,
         EmptyServe [(''PATCH'', route_of ''SetUserStatus'' ''setUserStatus'' [] ''/api/v1/admin/users/{userID}'' 1)]]]]"

definition find_api_v1_admin :: "(string \<times> Route) list rcase" where
  "find_api_v1_admin =
    Case ''admin/'' False
      [EmptyBreak,
       Switch [find_api_v1_admin_accounts, find_api_v1_admin_keys, find_api_v1_admin_models, find_api_v1_admin_oauth, find_api_v1_admin_providers_keys, find_api_v1_admin_users]]"

definition find_api_v1_log :: "(string \<times> Route) list rcase" where
  "find_api_v1_log =
    Case ''log'' False
      [EmptyBreak,
       Switch [
        Case ''in'' False
        [EmptyServe [(''POST'', route_of ''Login'' ''login'' [] ''/api/v1/login'' 0)]],
        Case ''out'' False
        [EmptyServe [(''POST'', route_of ''Logout'' ''logout'' [] ''/api/v1/logout'' 0)]]]]"

definition find_api_v1_me :: "(string \<times> Route) list rcase" where
  "find_api_v1_me =
    Case ''me'' False
      [EmptyServe [(''GET'', route_of ''GetCurrentUser'' ''getCurrentUser'' [] ''/api/v1/me'' 0)],
       Switch [
        Case ''/'' False
        [EmptyBreak,
         Switch [
          Case ''keys'' False
          [EmptyServe [(''GET'', route_of ''ListMyAPIKeys'' ''listMyAPIKeys'' [] ''/api/v1/me/keys'' 0), (''POST'', route_of ''CreateMyAPIKey'' ''createMyAPIKey'' [] ''/api/v1/me/keys'' 0)],
           Switch [
            Case ''/'' False
            [LeafParam 0,
             EmptyServe [(''DELETE'', route_of ''RevokeMyAPIKey'' ''revokeMyAPIKey'' [] ''/api/v1/me/keys/{keyID}'' 1)]]]],
          Case ''usage'' False
          [EmptyServe [(''GET'', route_of ''GetMyUsage'' ''getMyUsage'' [] ''/api/v1/me/usage'' 0)]]]]]]"

definition find_api_v1 :: "(string \<times> Route) list rcase" where
  "find_api_v1 =
    Case ''api/v1/'' False
      [EmptyBreak,
       Switch [find_api_v1_admin, find_api_v1_log, find_api_v1_me]]"

definition find_backend_api_codex :: "(string \<times> Route) list rcase" where
  "find_backend_api_codex =
    Case ''backend-api/codex/'' False
      [EmptyBreak,
       Switch [
        Case ''alpha/search'' False
        [EmptyServe [(''POST'', route_of ''ProxyCodexAlphaSearch'' ''proxyCodexAlphaSearch'' [] ''/backend-api/codex/alpha/search'' 0)]],
        Case ''responses'' False
        [EmptyServe [(''GET'', route_of ''ProxyCodexResponsesWebsocket'' ''proxyCodexResponsesWebsocket'' [] ''/backend-api/codex/responses'' 0), (''POST'', route_of ''ProxyCodexResponses'' ''proxyCodexResponses'' [] ''/backend-api/codex/responses'' 0)],
         Switch [
          Case ''/compact'' False
          [EmptyServe [(''POST'', route_of ''ProxyCodexResponsesCompact'' ''proxyCodexResponsesCompact'' [] ''/backend-api/codex/responses/compact'' 0)]]]]]]"

definition find_docs :: "(string \<times> Route) list rcase" where
  "find_docs =
    Case ''docs'' False
      [EmptyServe [(''GET'', route_of ''Docs'' ''docs'' [] ''/docs'' 0)]]"

definition find_healthz :: "(string \<times> Route) list rcase" where
  "find_healthz =
    Case ''healthz'' False
      [EmptyServe [(''GET'', route_of ''Healthz'' ''healthz'' [] ''/healthz'' 0)]]"

definition find_metrics :: "(string \<times> Route) list rcase" where
  "find_metrics =
    Case ''metrics'' False
      [EmptyServe [(''GET'', route_of ''Metrics'' ''metrics'' [] ''/metrics'' 0)]]"

definition find_opena :: "(string \<times> Route) list rcase" where
  "find_opena =
    Case ''opena'' False
      [EmptyBreak,
       Switch [
        Case ''i/v1/videos'' False
        [EmptyServe [(''POST'', route_of ''ProxyOpenAIVideosCreate'' ''proxyOpenAIVideosCreate'' [] ''/openai/v1/videos'' 0)],
         Switch [
          Case ''/'' False
          [Param 0 (CHR ''/''),
           EmptyServe [(''GET'', route_of ''ProxyOpenAIVideosRetrieve'' ''proxyOpenAIVideosRetrieve'' [] ''/openai/v1/videos/{video_id}'' 1)],
           Switch [
            Case ''/content'' False
            [EmptyServe [(''GET'', route_of ''ProxyOpenAIVideosContent'' ''proxyOpenAIVideosContent'' [] ''/openai/v1/videos/{video_id}/content'' 1)]]]]]],
        Case ''pi.json'' False
        [EmptyServe [(''GET'', route_of ''OpenapiJson'' ''openapiJson'' [] ''/openapi.json'' 0)]]]]"

definition find_readyz :: "(string \<times> Route) list rcase" where
  "find_readyz =
    Case ''readyz'' False
      [EmptyServe [(''GET'', route_of ''Readyz'' ''readyz'' [] ''/readyz'' 0)]]"

definition find_v1_alpha_search :: "(string \<times> Route) list rcase" where
  "find_v1_alpha_search =
    Case ''alpha/search'' False
      [EmptyServe [(''POST'', route_of ''ProxyAlphaSearch'' ''proxyAlphaSearch'' [] ''/v1/alpha/search'' 0)]]"

definition find_v1_c :: "(string \<times> Route) list rcase" where
  "find_v1_c =
    Case ''c'' False
      [EmptyBreak,
       Switch [
        Case ''hat/completions'' False
        [EmptyServe [(''POST'', route_of ''ProxyChatCompletions'' ''proxyChatCompletions'' [] ''/v1/chat/completions'' 0)]],
        Case ''ompletions'' False
        [EmptyServe [(''POST'', route_of ''ProxyCompletions'' ''proxyCompletions'' [] ''/v1/completions'' 0)]]]]"

definition find_v1_images :: "(string \<times> Route) list rcase" where
  "find_v1_images =
    Case ''images/'' False
      [EmptyBreak,
       Switch [
        Case ''edits'' False
        [EmptyServe [(''POST'', route_of ''ProxyImageEdits'' ''proxyImageEdits'' [] ''/v1/images/edits'' 0)]],
        Case ''generations'' False
        [EmptyServe [(''POST'', route_of ''ProxyImageGenerations'' ''proxyImageGenerations'' [] ''/v1/images/generations'' 0)]]]]"

definition find_v1_m :: "(string \<times> Route) list rcase" where
  "find_v1_m =
    Case ''m'' False
      [EmptyBreak,
       Switch [
        Case ''essages'' False
        [EmptyServe [(''POST'', route_of ''ProxyMessages'' ''proxyMessages'' [] ''/v1/messages'' 0)],
         Switch [
          Case ''/count_tokens'' False
          [EmptyServe [(''POST'', route_of ''ProxyMessagesCountTokens'' ''proxyMessagesCountTokens'' [] ''/v1/messages/count_tokens'' 0)]]]],
        Case ''odels'' False
        [EmptyServe [(''GET'', route_of ''ProxyModels'' ''proxyModels'' [] ''/v1/models'' 0)]]]]"

definition find_v1_responses :: "(string \<times> Route) list rcase" where
  "find_v1_responses =
    Case ''responses'' False
      [EmptyServe [(''GET'', route_of ''ProxyResponsesWebsocket'' ''proxyResponsesWebsocket'' [] ''/v1/responses'' 0), (''POST'', route_of ''ProxyResponses'' ''proxyResponses'' [] ''/v1/responses'' 0)],
       Switch [
        Case ''/compact'' False
        [EmptyServe [(''POST'', route_of ''ProxyResponsesCompact'' ''proxyResponsesCompact'' [] ''/v1/responses/compact'' 0)]]]]"

definition find_v1_videos_slash :: "(string \<times> Route) list rcase" where
  "find_v1_videos_slash =
    Case ''/'' False
      [EmptyBreak,
       Switch [
        Case ''e'' True
        [EmptyBreak,
         Switch [
          Case ''dits'' False
          [EmptyServe [(''POST'', route_of ''ProxyXAIVideoEdits'' ''proxyXAIVideoEdits'' [] ''/v1/videos/edits'' 0)]],
          Case ''xtensions'' False
          [EmptyServe [(''POST'', route_of ''ProxyXAIVideoExtensions'' ''proxyXAIVideoExtensions'' [] ''/v1/videos/extensions'' 0)]]]],
        Case ''generations'' True
        [EmptyServe [(''POST'', route_of ''ProxyXAIVideoGenerations'' ''proxyXAIVideoGenerations'' [] ''/v1/videos/generations'' 0)]]],
       LeafParam 0,
       EmptyServe [(''GET'', route_of ''ProxyXAIVideoRetrieve'' ''proxyXAIVideoRetrieve'' [] ''/v1/videos/{request_id}'' 1)]]"

definition find_v1_videos :: "(string \<times> Route) list rcase" where
  "find_v1_videos =
    Case ''videos'' False
      [EmptyServe [(''POST'', route_of ''ProxyXAIVideos'' ''proxyXAIVideos'' [] ''/v1/videos'' 0)],
       Switch [find_v1_videos_slash]]"

definition find_v1_slash :: "(string \<times> Route) list rcase" where
  "find_v1_slash =
    Case ''/'' False
      [EmptyBreak,
       Switch [find_v1_alpha_search, find_v1_c, find_v1_images, find_v1_m, find_v1_responses, find_v1_videos]]"

definition find_v1beta :: "(string \<times> Route) list rcase" where
  "find_v1beta =
    Case ''beta/'' False
      [EmptyBreak,
       Switch [
        Case ''interactions'' False
        [EmptyServe [(''POST'', route_of ''ProxyGeminiInteractions'' ''proxyGeminiInteractions'' [] ''/v1beta/interactions'' 0)]],
        Case ''models'' False
        [EmptyServe [(''GET'', route_of ''ProxyGeminiModels'' ''proxyGeminiModels'' [] ''/v1beta/models'' 0)],
         Switch [
          Case ''/'' False
          [Param 0 (CHR '':''),
           EmptyBreak,
           Switch [
            Case '':'' False
            [LeafParam 1,
             EmptyServe [(''GET'', route_of ''ProxyGeminiModelActionGet'' ''proxyGeminiModelActionGet'' [] ''/v1beta/models/{model}:{action}'' 2), (''POST'', route_of ''ProxyGeminiModelActionPost'' ''proxyGeminiModelActionPost'' [] ''/v1beta/models/{model}:{action}'' 2)]]]]]]]]"

definition find_v1 :: "(string \<times> Route) list rcase" where
  "find_v1 =
    Case ''v1'' False
      [EmptyBreak,
       Switch [find_v1_slash, find_v1beta]]"

definition find_root :: "(string \<times> Route) list rcase" where
  "find_root =
    Case ''/'' False
      [EmptyBreak,
       Switch [find_api_v1, find_backend_api_codex, find_docs, find_healthz, find_metrics, find_opena, find_readyz, find_v1]]"

lemmas find_tree_defs = find_api_v1_admin_accounts_def find_api_v1_admin_keys_def find_api_v1_admin_models_def
  find_api_v1_admin_oauth_accounts_def find_api_v1_admin_oauth_import_def find_api_v1_admin_oauth_sessions_def
  find_api_v1_admin_oauth_def find_api_v1_admin_providers_keys_def find_api_v1_admin_users_def
  find_api_v1_admin_def find_api_v1_log_def find_api_v1_me_def find_api_v1_def find_backend_api_codex_def
  find_docs_def find_healthz_def find_metrics_def find_opena_def find_readyz_def find_v1_alpha_search_def
  find_v1_c_def find_v1_images_def find_v1_m_def find_v1_responses_def find_v1_videos_slash_def
  find_v1_videos_def find_v1_slash_def find_v1beta_def find_v1_def find_root_def

section \<open>The router\<close>

record url =
  url_Path :: string
  url_RawPath :: string

datatype routed = Not_found | Not_allowed serve_leaf | Dispatch string "string list" bool

definition cutPrefix :: "string \<Rightarrow> string \<Rightarrow> string option" where
  "cutPrefix pre path = (if pre = [] then Some path else if \<not> HasPrefix path pre then None else Some (drop (length pre) path))"

text \<open>The path to route and whether it is escaped.\<close>

definition routed_path :: "(string \<Rightarrow> string option) \<Rightarrow> url \<Rightarrow> string \<times> bool" where
  "routed_path canon u =
     (if url_RawPath u = [] then (url_Path u, False)
      else (case canon (url_RawPath u) of
              None \<Rightarrow> (url_Path u, False)
            | Some e \<Rightarrow> (e, CHR ''%'' \<in> set e)))"

definition ServeHTTP :: "(string \<Rightarrow> string option) \<Rightarrow> string \<Rightarrow> string \<Rightarrow> url \<Rightarrow> routed" where
  "ServeHTTP canon pre method u =
     (case routed_path canon u of
        (path, escaped) \<Rightarrow>
          (case cutPrefix pre path of
             None \<Rightarrow> Not_found
           | Some elem \<Rightarrow>
               (if elem = [] then Not_found
                else (case run_stmts [EmptyBreak, Switch [serve_root]] elem [[], []] of
                        Served l args \<Rightarrow>
                          (case map_of (sl_methods l) method of
                             None \<Rightarrow> Not_allowed l
                           | Some (operation, n) \<Rightarrow> Dispatch operation (take n args) escaped)
                      | _ \<Rightarrow> Not_found))))"

definition FindPath ::
  "(string \<Rightarrow> string option) \<Rightarrow> (string \<Rightarrow> string option) \<Rightarrow> string \<Rightarrow> string \<Rightarrow> url \<Rightarrow> (Route \<times> string list) option" where
  "FindPath canon unescape pre method u =
     (case cutPrefix pre (fst (routed_path canon u)) of
        None \<Rightarrow> None
      | Some elem \<Rightarrow>
          (case run_stmts [EmptyBreak, Switch [find_root]] elem [[], []] of
             Served l args \<Rightarrow>
               map_option (\<lambda>r. (r, map (\<lambda>a. if url_RawPath u = [] then a else case unescape a of None \<Rightarrow> a | Some b \<Rightarrow> b) (take (ro_count r) args)))
                 (map_of l method)
           | _ \<Rightarrow> None))"

definition FindRoute :: "(string \<Rightarrow> string option) \<Rightarrow> (string \<Rightarrow> string option) \<Rightarrow> string \<Rightarrow> string \<Rightarrow> string \<Rightarrow> (Route \<times> string list) option" where
  "FindRoute canon unescape pre method path = FindPath canon unescape pre method \<lparr>url_Path = path, url_RawPath = []\<rparr>"

text \<open>\<^verbatim>\<open>strings.ToUpper\<close> on ASCII.\<close>

definition upper_char :: "char \<Rightarrow> char" where
  "upper_char c = (if 97 \<le> (of_char c :: nat) \<and> (of_char c :: nat) \<le> 122 then char_of ((of_char c :: nat) - 32) else c)"

definition ToUpper :: "string \<Rightarrow> string" where
  "ToUpper = map upper_char"

text \<open>\<^verbatim>\<open>notAllowed\<close> of \<^verbatim>\<open>oas_cfg_gen.go\<close> without a handler of its own (\<^verbatim>\<open>MethodNotAllowed\<close> is nil).\<close>

definition notAllowed :: "Request \<Rightarrow> serve_leaf \<Rightarrow> headers \<Rightarrow> int \<times> headers" where
  "notAllowed rq l h =
     (let isOptions = (rq_Method rq = ''OPTIONS'');
          h1 = (if isOptions
                then (let h = Header_Set ''Access-Control-Allow-Methods'' (sl_allowedMethods l) h;
                          m = Values_Get (rq_Header rq) ''Access-Control-Request-Method'';
                          h = (if m \<noteq> [] then (case map_of (sl_allowedHeaders l) (ToUpper m) of
                                 None \<Rightarrow> h | Some v \<Rightarrow> Header_Set ''Access-Control-Allow-Headers'' v h) else h);
                          h = (if sl_acceptPost l \<noteq> [] then Header_Set ''Accept-Post'' (sl_acceptPost l) h else h)
                      in if sl_acceptPatch l \<noteq> [] then Header_Set ''Accept-Patch'' (sl_acceptPatch l) h else h)
                else h)
      in if isOptions then (204, h1) else (405, Header_Set ''Allow'' (sl_allowedMethods l) h1))"

section \<open>The two trees are the same\<close>

lemma run_map:
  "run_stmts (map (map_stmt f) ss) elem args = map_progress f (run_stmts ss elem args)"
  "run_cases (map (map_rcase f) cs) elem args = map_progress f (run_cases cs elem args)"
  by (induction ss elem args and cs elem args rule: run_stmts_run_cases.induct) (auto split: progress.splits)

definition find_operations :: "(string \<times> Route) list \<Rightarrow> (string \<times> string \<times> nat) list" where
  "find_operations l = map (\<lambda>(m, r). (m, ro_name r, ro_count r)) l"

lemma trees_agree: "map_rcase sl_methods serve_root = map_rcase find_operations find_root"
  by (simp add: serve_tree_defs find_tree_defs find_operations_def)

lemma map_of_operations: "map_of (find_operations l) m = map_option (\<lambda>r. (ro_name r, ro_count r)) (map_of l m)"
  by (induction l) (auto simp: find_operations_def)

lemma runs_agree:
  "map_progress sl_methods (run_stmts [EmptyBreak, Switch [serve_root]] elem args) =
   map_progress find_operations (run_stmts [EmptyBreak, Switch [find_root]] elem args)"
  using run_map(1) [of sl_methods "[EmptyBreak, Switch [serve_root]]" elem args]
    run_map(1) [of find_operations "[EmptyBreak, Switch [find_root]]" elem args] trees_agree by simp

text \<open>
  The two functions of the generated router agree: for every method and every path, \<open>ServeHTTP\<close> calls an operation
  with some arguments exactly if \<open>FindRoute\<close> reports that operation with these arguments.
\<close>

theorem find_route_agrees_with_serve:
  "(\<exists>r. FindRoute canon unescape pre method path = Some (r, args) \<and> ro_name r = operation) \<longleftrightarrow>
   ServeHTTP canon pre method \<lparr>url_Path = path, url_RawPath = []\<rparr> = Dispatch operation args False"
proof (cases "cutPrefix pre path")
  case None
  then show ?thesis by (simp add: FindRoute_def FindPath_def ServeHTTP_def routed_path_def)
next
  case (Some elem)
  note defs = Some FindRoute_def FindPath_def ServeHTTP_def routed_path_def
  let ?s = "run_stmts [EmptyBreak, Switch [serve_root]] elem [[], []]"
  let ?f = "run_stmts [EmptyBreak, Switch [find_root]] elem [[], []]"
  note agree = runs_agree [of elem "[[], []]"]
  show ?thesis
  proof (cases "elem = []")
    case True
    then show ?thesis by (simp add: defs)
  next
    case False
    show ?thesis
    proof (cases ?f)
      case (Served l a)
      with agree obtain l' where s: "?s = Served l' a" "sl_methods l' = find_operations l" by (cases ?s) auto
      with Served False show ?thesis by (cases "map_of l method") (auto simp: defs map_of_operations simp del: run_stmts.simps)
    next
      case (Fell e a)
      with agree obtain e' a' where "?s = Fell e' a'" by (cases ?s) auto
      with Fell False show ?thesis by (simp add: defs del: run_stmts.simps)
    next
      case (Broke e a)
      with agree obtain e' a' where "?s = Broke e' a'" by (cases ?s) auto
      with Broke False show ?thesis by (simp add: defs del: run_stmts.simps)
    qed
  qed
qed

section \<open>Paths and templates\<close>

fun stmts_leaves :: "'l stmt list \<Rightarrow> 'l list" and cases_leaves :: "'l rcase list \<Rightarrow> 'l list" where
  "stmts_leaves [] = []"
| "stmts_leaves (EmptyServe l # ss) = l # stmts_leaves ss"
| "stmts_leaves (Switch cs # ss) = cases_leaves cs @ stmts_leaves ss"
| "stmts_leaves (Param _ _ # ss) = stmts_leaves ss"
| "stmts_leaves (LeafParam _ # ss) = stmts_leaves ss"
| "stmts_leaves (EmptyBreak # ss) = stmts_leaves ss"
| "cases_leaves [] = []"
| "cases_leaves (Case _ _ body # cs) = stmts_leaves body @ cases_leaves cs"

text \<open>A template: its bytes and the numbers of its parameters.\<close>

datatype ptok = PChar char | PPar nat

function pattern_toks :: "nat \<Rightarrow> string \<Rightarrow> ptok list" where
  "pattern_toks k [] = []"
| "pattern_toks k (c # cs) =
     (if c = CHR ''{'' then PPar k # pattern_toks (Suc k) (drop 1 (dropWhile (\<lambda>x. x \<noteq> CHR ''}'') cs))
      else PChar c # pattern_toks k cs)"
  by pat_completeness auto
termination
  by (relation "measure (\<lambda>(_, s). length s)") (auto simp: less_Suc_eq_le intro: order_trans [OF diff_le_self length_dropWhile_le])

definition fill_tok :: "string list \<Rightarrow> ptok \<Rightarrow> string" where
  "fill_tok args t = (case t of PChar c \<Rightarrow> [c] | PPar i \<Rightarrow> args ! i)"

definition fill :: "string list \<Rightarrow> ptok list \<Rightarrow> string" where
  "fill args toks = concat (map (fill_tok args) toks)"

lemma fill_simps [simp]:
  "fill args [] = []" "fill args (t # ts) = fill_tok args t @ fill args ts" "fill args (ts @ us) = fill args ts @ fill args us"
  "fill args (map PChar p) = p"
  by (simp_all add: fill_def) (induction p, simp_all add: fill_tok_def)

lemma nth_update_other: "args[i := x] ! j \<noteq> args ! j \<Longrightarrow> i = j"
  by (metis nth_list_update_neq)

lemma fill_other: "PPar i \<notin> set ts \<Longrightarrow> fill (args[i := x]) ts = fill args ts"
  by (induction ts) (auto simp: fill_tok_def split: ptok.splits dest: nth_update_other)

lemma fill_take: "list_all (\<lambda>t. case t of PChar _ \<Rightarrow> True | PPar i \<Rightarrow> i < n) ts \<Longrightarrow> fill (take n args) ts = fill args ts"
  by (induction ts) (auto simp: fill_tok_def split: ptok.splits)

text \<open>
  A tree in which the templates of the leaves are those that the statements read. After a \<^verbatim>\<open>switch\<close> the rest of the path may
  be lost; the leaves there are the routes that are \<open>exempt\<close>.
\<close>

definition exempt_leaf :: "string \<Rightarrow> (string \<times> Route) list \<Rightarrow> bool" where
  "exempt_leaf exempt l = list_all (\<lambda>x. ro_name (snd x) = exempt) l"

fun templates_ok :: "string \<Rightarrow> ptok list \<Rightarrow> (string \<times> Route) list stmt list \<Rightarrow> bool"
  and templates_ok_cases :: "string \<Rightarrow> ptok list \<Rightarrow> (string \<times> Route) list rcase list \<Rightarrow> bool" where
  "templates_ok ex acc [] = True"
| "templates_ok ex acc (Param i c # ss) = (i < 2 \<and> PPar i \<notin> set acc \<and> templates_ok ex (acc @ [PPar i]) ss)"
| "templates_ok ex acc (LeafParam i # ss) = (i < 2 \<and> PPar i \<notin> set acc \<and> templates_ok ex (acc @ [PPar i]) ss)"
| "templates_ok ex acc (EmptyBreak # ss) = templates_ok ex acc ss"
| "templates_ok ex acc (EmptyServe l # ss) =
     (list_all (\<lambda>x. pattern_toks 0 (ro_pathPattern (snd x)) = acc \<and>
        list_all (\<lambda>t. case t of PChar _ \<Rightarrow> True | PPar i \<Rightarrow> i < ro_count (snd x)) acc) l \<and> templates_ok ex acc ss)"
| "templates_ok ex acc (Switch cs # ss) = (list_all (exempt_leaf ex) (stmts_leaves ss) \<and> templates_ok_cases ex acc cs)"
| "templates_ok_cases ex acc [] = True"
| "templates_ok_cases ex acc (Case p restores body # cs) =
     (p \<noteq> [] \<and> templates_ok ex (acc @ map PChar p) body \<and> templates_ok_cases ex acc cs)"

definition served_ok :: "string \<Rightarrow> string \<Rightarrow> (string \<times> Route) list \<Rightarrow> string list \<Rightarrow> bool" where
  "served_ok ex path l args =
     (\<forall>x \<in> set l. ro_name (snd x) = ex \<or> fill (take (ro_count (snd x)) args) (pattern_toks 0 (ro_pathPattern (snd x))) = path)"

lemma served_leaf:
  "run_stmts ss elem args = Served l args' \<Longrightarrow> l \<in> set (stmts_leaves ss)"
  "run_cases cs elem args = Served l args' \<Longrightarrow> l \<in> set (cases_leaves cs)"
  by (induction ss elem args and cs elem args rule: run_stmts_run_cases.induct) (auto split: if_splits progress.splits)

lemma exempt_served: "run_stmts ss elem args = Served l args' \<Longrightarrow> list_all (exempt_leaf ex) (stmts_leaves ss) \<Longrightarrow> served_ok ex path l args'"
  by (drule served_leaf) (auto simp: list_all_iff exempt_leaf_def served_ok_def)

lemma templates_sound:
  "run_stmts ss elem args = Served l args' \<Longrightarrow> templates_ok ex acc ss \<Longrightarrow> length args = 2 \<Longrightarrow> served_ok ex (fill args acc @ elem) l args'"
  "run_cases cs elem args = Served l args' \<Longrightarrow> templates_ok_cases ex acc cs \<Longrightarrow> length args = 2 \<Longrightarrow> served_ok ex (fill args acc @ elem) l args'"
proof (induction ss elem args and cs elem args arbitrary: acc and acc rule: run_stmts_run_cases.induct)
  case (2 i c ss elem args)
  from 2(1) [of "acc @ [PPar i]"] 2(2-4) show ?case by (simp add: fill_other fill_tok_def)
next
  case (3 i ss elem args)
  from 3(1) [of "acc @ [PPar i]"] 3(2-4) show ?case by (simp add: fill_other fill_tok_def split: if_splits)
next
  case (5 l0 ss elem args)
  then show ?case by (auto simp: served_ok_def list_all_iff fill_take split: if_splits)
next
  case (6 cs ss elem args)
  from 6(4) consider "run_cases cs elem args = Served l args'" | e a where "run_stmts ss e a = Served l args'"
    by (auto split: progress.splits)
  then show ?case
  proof cases
    case 1
    with 6(1) 6(5,6) show ?thesis by auto
  next
    case 2
    from exempt_served [OF this] 6(5) show ?thesis by simp
  qed
next
  case (8 p restores body cs elem args)
  show ?case
  proof (cases "elem = [] \<or> hd elem \<noteq> hd p")
    case True
    with 8(1) 8(3-5) show ?thesis by simp
  next
    case False
    with 8(3) have pre: "HasPrefix elem p" and r: "run_stmts body (drop (length p) elem) args = Served l args'"
      by (auto split: if_splits progress.splits)
    from pre have "elem = p @ drop (length p) elem" by (auto simp: HasPrefix_def prefix_def)
    with 8(2) [OF False _ r, of "acc @ map PChar p"] pre 8(4,5) show ?thesis by (metis append.assoc fill_simps(3,4) templates_ok_cases.simps(2))
  qed
qed (auto split: if_splits)

lemma find_tree_templates: "templates_ok ''ProxyXAIVideoRetrieve'' [] [EmptyBreak, Switch [find_root]]"
  by code_simp

text \<open>
  A route is only found for a path that its template describes: if \<open>FindRoute\<close> answers a path with a route and
  arguments, filling the arguments into the template of the route gives the path. The one route left out is that of
  \<^verbatim>\<open>GET /v1/videos/{request_id}\<close>, for which \<open>video_identifier_is_lost\<close> shows the opposite.
\<close>

theorem found_route_fits_the_path:
  assumes "FindRoute canon unescape [] method path = Some (r, args)" and "ro_name r \<noteq> ''ProxyXAIVideoRetrieve''"
  shows "fill args (pattern_toks 0 (ro_pathPattern r)) = path"
proof -
  let ?run = "run_stmts [EmptyBreak, Switch [find_root]] path [[], []]"
  from assms(1) obtain l a where run: "?run = Served l a" "map_of l method = Some r" "args = take (ro_count r) a"
    by (auto simp: FindRoute_def FindPath_def routed_path_def cutPrefix_def simp del: run_stmts.simps split: progress.splits)
  from templates_sound(1) [OF run(1) find_tree_templates] have "served_ok ''ProxyXAIVideoRetrieve'' path l a" by simp
  with map_of_SomeD [OF run(2)] run(3) assms(2) show ?thesis by (auto simp: served_ok_def)
qed

theorem found_route_fits_the_path_witness:
  "FindRoute Some Some [] ''DELETE'' ''/api/v1/me/keys/7'' =
     Some (route_of ''RevokeMyAPIKey'' ''revokeMyAPIKey'' [] ''/api/v1/me/keys/{keyID}'' 1, [''7'']) \<and>
   fill [''7''] (pattern_toks 0 ''/api/v1/me/keys/{keyID}'') = ''/api/v1/me/keys/7''"
proof -
  have f: "FindRoute Some Some [] ''DELETE'' ''/api/v1/me/keys/7'' =
     Some (route_of ''RevokeMyAPIKey'' ''revokeMyAPIKey'' [] ''/api/v1/me/keys/{keyID}'' 1, [''7''])" by code_simp
  from found_route_fits_the_path [OF f] f show ?thesis by simp
qed

text \<open>\<^verbatim>\<open>GET /v1/videos/e\<close>: the \<^verbatim>\<open>break\<close> after the prefix leaves \<^verbatim>\<open>elem\<close> cut, and the identifier is reported empty.\<close>

lemma video_identifier_is_lost:
  "map_option (\<lambda>(r, args). (ro_name r, args)) (FindRoute Some Some [] ''GET'' ''/v1/videos/e'') = Some (''ProxyXAIVideoRetrieve'', [[]])"
  "map_option (\<lambda>(r, args). (ro_name r, args)) (FindRoute Some Some [] ''GET'' ''/v1/videos/f'') = Some (''ProxyXAIVideoRetrieve'', [''f''])"
  by code_simp+

section \<open>The document and the routes of the program\<close>

text \<open>The routes of the document: the leaves of the tree.\<close>

definition document_routes :: "(string \<times> Route) list" where
  "document_routes = concat (cases_leaves [find_root])"


text \<open>The run of a tree on a template instead of a path: a parameter ends at the end of the template or at the byte that ends it in the tree.\<close>

fun template_stmts :: "'l stmt list \<Rightarrow> ptok list \<Rightarrow> 'l option"
  and template_cases :: "'l rcase list \<Rightarrow> ptok list \<Rightarrow> 'l option" where
  "template_stmts [] ts = None"
| "template_stmts (Param i c # ss) ts =
     (case ts of PPar j # rest \<Rightarrow> if i = j \<and> PPar j \<notin> set rest \<and> (rest = [] \<or> hd rest = PChar c) \<and> (c = CHR ''/'' \<or> c = CHR '':'')
                                  then template_stmts ss rest else None
               | _ \<Rightarrow> None)"
| "template_stmts (LeafParam i # ss) ts = (if ts = [PPar i] then template_stmts ss [] else None)"
| "template_stmts (EmptyBreak # ss) ts = (case ts of PChar c # rest \<Rightarrow> template_stmts ss ts | _ \<Rightarrow> None)"
| "template_stmts (EmptyServe l # ss) ts =
     (case ts of [] \<Rightarrow> Some l | PChar c # rest \<Rightarrow> template_stmts ss ts | _ \<Rightarrow> None)"
| "template_stmts (Switch cs # ss) ts = template_cases cs ts"
| "template_cases [] ts = None"
| "template_cases (Case p restores body # cs) ts =
     (case ts of
        PChar c # rest \<Rightarrow>
          (if c \<noteq> hd p then template_cases cs ts
           else if take (length p) ts = map PChar p then template_stmts body (drop (length p) ts) else None)
      | _ \<Rightarrow> None)"

text \<open>Values of parameters: none of the bytes that end a parameter.\<close>

definition plain_values :: "string list \<Rightarrow> bool" where
  "plain_values vals = list_all (\<lambda>v. CHR ''/'' \<notin> set v \<and> CHR '':'' \<notin> set v) vals"

definition reads :: "string list \<Rightarrow> ptok list \<Rightarrow> string list \<Rightarrow> string list \<Rightarrow> bool" where
  "reads vals ts args args' = (length args' = length args \<and> (\<forall>j. args' ! j = (if PPar j \<in> set ts then vals ! j else args ! j)))"

lemma reads_nil [simp]: "reads vals [] args args"
  by (simp add: reads_def)

lemma param_ends:
  assumes "c \<notin> set v" and "rest = [] \<or> hd rest = PChar c"
  shows "takeWhile (\<lambda>x. x \<noteq> c) (v @ fill vals rest) = v" "dropWhile (\<lambda>x. x \<noteq> c) (v @ fill vals rest) = fill vals rest"
proof -
  have "fill vals rest = [] \<or> hd (fill vals rest) = c \<and> fill vals rest \<noteq> []"
    using assms(2) by (cases rest) (auto simp: fill_tok_def)
  then obtain ys where "fill vals rest = [] \<or> fill vals rest = c # ys" by (cases "fill vals rest") auto
  moreover have "\<And>x. x \<in> set v \<Longrightarrow> x \<noteq> c" using assms(1) by auto
  ultimately show "takeWhile (\<lambda>x. x \<noteq> c) (v @ fill vals rest) = v" "dropWhile (\<lambda>x. x \<noteq> c) (v @ fill vals rest) = fill vals rest"
    by (auto simp: takeWhile_append2 dropWhile_append2)
qed

lemma template_run:
  "template_stmts ss ts = Some l \<Longrightarrow> plain_values vals \<Longrightarrow> list_all (\<lambda>t. case t of PPar j \<Rightarrow> j < length vals \<and> j < length args | _ \<Rightarrow> True) ts \<Longrightarrow>
   \<exists>args'. run_stmts ss (fill vals ts) args = Served l args' \<and> reads vals ts args args'"
  "template_cases cs ts = Some l \<Longrightarrow> plain_values vals \<Longrightarrow> list_all (\<lambda>t. case t of PPar j \<Rightarrow> j < length vals \<and> j < length args | _ \<Rightarrow> True) ts \<Longrightarrow>
   \<exists>args'. run_cases cs (fill vals ts) args = Served l args' \<and> reads vals ts args args'"
proof (induction ss ts and cs ts arbitrary: args and args rule: template_stmts_template_cases.induct)
  case (2 i c ss ts)
  from 2(2) obtain rest where ts: "ts = PPar i # rest" "PPar i \<notin> set rest" "rest = [] \<or> hd rest = PChar c" "c = CHR ''/'' \<or> c = CHR '':''"
    "template_stmts ss rest = Some l" by (auto split: list.splits ptok.splits if_splits)
  have v: "c \<notin> set (vals ! i)" "i < length args" using 2(3,4) ts by (auto simp: plain_values_def list_all_length)
  from 2(1) [of "PPar i" rest i "args[i := vals ! i]"] ts 2(3,4) obtain a
    where "run_stmts ss (fill vals rest) (args[i := vals ! i]) = Served l a" "reads vals rest (args[i := vals ! i]) a" by auto
  with ts v param_ends [OF v(1) ts(3), of vals] show ?case by (auto simp: fill_tok_def reads_def nth_list_update)
next
  case (3 i ss ts)
  from 3(2) have ts: "ts = [PPar i]" "template_stmts ss [] = Some l" by (auto split: if_splits)
  have v: "CHR ''/'' \<notin> set (vals ! i)" "i < length args" using 3(3,4) ts by (auto simp: plain_values_def list_all_length)
  from 3(1) [of "args[i := vals ! i]"] ts 3(3,4) obtain a
    where "run_stmts ss [] (args[i := vals ! i]) = Served l a" "reads vals [] (args[i := vals ! i]) a" by auto
  with ts v show ?case by (auto simp: fill_tok_def reads_def nth_list_update)
next
  case (4 ss ts)
  then show ?case by (auto simp: fill_tok_def split: list.splits ptok.splits)
next
  case (5 l0 ss ts)
  then show ?case by (cases ts) (auto simp: fill_tok_def split: list.splits ptok.splits)
next
  case (6 cs ss ts)
  then show ?case by fastforce
next
  case (8 p restores body cs ts)
  from 8(3) obtain c rest where ts: "ts = PChar c # rest" by (auto split: list.splits ptok.splits)
  show ?case
  proof (cases "c = hd p")
    case False
    with 8(1) [OF ts] 8(3-5) ts show ?thesis by (auto simp: fill_tok_def)
  next
    case True
    with 8(3) ts have t: "take (length p) ts = map PChar p" "template_stmts body (drop (length p) ts) = Some l" by (auto split: if_splits)
    then have split: "ts = map PChar p @ drop (length p) ts" by (metis append_take_drop_id)
    have "list_all (\<lambda>t. case t of PPar j \<Rightarrow> j < length vals \<and> j < length args | _ \<Rightarrow> True) (drop (length p) ts)"
      using 8(5) by (auto simp: list_all_iff dest: in_set_dropD)
    with 8(2) [OF ts] t True ts 8(4) obtain a
      where a: "run_stmts body (fill vals (drop (length p) ts)) args = Served l a" "reads vals (drop (length p) ts) args a" by auto
    have f: "fill vals ts = p @ fill vals (drop (length p) ts)" by (subst split) simp
    have r: "reads vals ts args a" using a(2) by (subst split) (auto simp: reads_def)
    have n: "fill vals ts \<noteq> []" "hd (fill vals ts) = hd p" using ts True by (auto simp: fill_tok_def)
    from f have "HasPrefix (fill vals ts) p" "drop (length p) (fill vals ts) = fill vals (drop (length p) ts)" by (simp_all add: HasPrefix_def)
    with n a(1) r show ?thesis by simp
  qed
qed auto

lemma document_templates_read:
  "list_all (\<lambda>(m, r). let ts = pattern_toks 0 (ro_pathPattern r) in
      ro_name r = ''ProxyXAIVideoRetrieve'' \<or>
      (ro_count r \<le> 2 \<and> filter (\<lambda>t. case t of PPar _ \<Rightarrow> True | _ \<Rightarrow> False) ts = map PPar [0..<ro_count r] \<and>
       (case template_stmts [EmptyBreak, Switch [find_root]] ts of None \<Rightarrow> False | Some l \<Rightarrow> map_of l m = Some r))) document_routes"
  by code_simp


text \<open>
  Every address that the document describes is routed, and the arguments come back as they were written. For every
  operation of the document except \<^verbatim>\<open>GET /v1/videos/{request_id}\<close>, and for all values of its parameters without the bytes
  slash and colon: the path made of the template and the values is answered by \<open>FindRoute\<close> with this operation and these values.
\<close>

theorem documented_paths_are_routed:
  assumes "(m, r) \<in> set document_routes" and "ro_name r \<noteq> ''ProxyXAIVideoRetrieve''"
    and "length vals = ro_count r" and "plain_values vals"
  shows "FindRoute canon unescape [] m (fill vals (pattern_toks 0 (ro_pathPattern r))) = Some (r, vals)"
proof -
  define ts where "ts = pattern_toks 0 (ro_pathPattern r)"
  from document_templates_read assms(1,2) obtain l where
    l: "ro_count r \<le> 2" "filter (\<lambda>t. case t of PPar _ \<Rightarrow> True | _ \<Rightarrow> False) ts = map PPar [0..<ro_count r]"
       "template_stmts [EmptyBreak, Switch [find_root]] ts = Some l" "map_of l m = Some r"
    unfolding list_all_iff ts_def by (fastforce simp: Let_def simp del: template_stmts.simps split: option.splits)
  have pars: "PPar j \<in> set ts \<longleftrightarrow> j < ro_count r" for j
  proof -
    have "PPar j \<in> set ts \<longleftrightarrow> PPar j \<in> set (filter (\<lambda>t. case t of PPar _ \<Rightarrow> True | _ \<Rightarrow> False) ts)" by simp
    then show ?thesis unfolding l(2) by auto
  qed
  have "case t of PPar j \<Rightarrow> j < length vals \<and> j < length [[] :: string, []] | _ \<Rightarrow> True" if "t \<in> set ts" for t
  proof (cases t)
    case (PPar j)
    with that pars [of j] l(1) assms(3) show ?thesis by simp
  qed simp
  then have "list_all (\<lambda>t. case t of PPar j \<Rightarrow> j < length vals \<and> j < length [[] :: string, []] | _ \<Rightarrow> True) ts" by (simp add: list_all_iff)
  from template_run(1) [OF l(3) assms(4) this] obtain a
    where a: "run_stmts [EmptyBreak, Switch [find_root]] (fill vals ts) [[], []] = Served l a" "reads vals ts [[], []] a" by blast
  have "take (ro_count r) a = vals"
    using a(2) assms(3) l(1) by (intro nth_equalityI) (simp_all add: reads_def pars)
  with a(1) l(4) show ?thesis
    by (simp add: FindRoute_def FindPath_def routed_path_def cutPrefix_def ts_def del: run_stmts.simps)
qed

theorem documented_paths_are_routed_witness:
  "map_option (\<lambda>(r, args). (ro_name r, args)) (FindRoute Some Some [] ''PATCH'' ''/api/v1/admin/users/12'') = Some (''SetUserStatus'', [''12''])"
proof -
  let ?r = "route_of ''SetUserStatus'' ''setUserStatus'' [] ''/api/v1/admin/users/{userID}'' 1"
  have "list_ex (\<lambda>x. x = (''PATCH'', ?r)) document_routes" by code_simp
  then have "(''PATCH'', ?r) \<in> set document_routes" by (simp add: list_ex_iff)
  from documented_paths_are_routed [OF this, of "[''12'']" Some Some]
  have "FindRoute Some Some [] ''PATCH'' (fill [''12''] (pattern_toks 0 ''/api/v1/admin/users/{userID}'')) = Some (?r, [''12''])"
    by (simp add: plain_values_def)
  moreover have "fill [''12''] (pattern_toks 0 ''/api/v1/admin/users/{userID}'') = ''/api/v1/admin/users/12''" by code_simp
  ultimately show ?thesis by simp
qed

text \<open>The templates of Gin in the notation of the document.\<close>

function openapi_pattern :: "string \<Rightarrow> string" where
  "openapi_pattern [] = []"
| "openapi_pattern (c # cs) =
     (if c = CHR '':'' then CHR ''{'' # takeWhile (\<lambda>x. x \<noteq> CHR ''/'') cs @ CHR ''}'' # openapi_pattern (dropWhile (\<lambda>x. x \<noteq> CHR ''/'') cs)
      else c # openapi_pattern cs)"
  by pat_completeness auto
termination
  by (relation "measure length") (auto simp: less_Suc_eq_le intro: length_dropWhile_le)

text \<open>The paths that the proxy library serves, not this program.\<close>

definition proxy_path :: "string \<Rightarrow> bool" where
  "proxy_path p = (HasPrefix p ''/v1/'' \<or> HasPrefix p ''/v1beta/'' \<or> HasPrefix p ''/openai/'' \<or> HasPrefix p ''/backend-api/'')"

text \<open>The routes that the program registers, in the order of \<^verbatim>\<open>main.go\<close>.\<close>

definition program_routes :: "world edge_handler \<Rightarrow> world edge_handler \<Rightarrow> world edge_handler \<Rightarrow> mounts \<Rightarrow> (string \<times> string) list" where
  "program_routes metricsHandler document docsHandler m =
     map (\<lambda>(me, p, _). (me, p)) (SystemRouterConfigurator True @ MetricsRouterConfigurator (Some metricsHandler) @
                               OpenAPIRouterConfigurator document docsHandler) @
     map (\<lambda>rt. (rt_method rt, rt_pattern rt)) (RouterConfigurator m)"

lemma main_patterns:
  "program_routes metricsHandler document docsHandler (main_mounts E login secure source pk at qu oc) =
   [(''GET'', ''/healthz''), (''GET'', ''/readyz''), (''GET'', ''/metrics''), (''GET'', ''/openapi.json''), (''GET'', ''/docs''), (''GET'', ''/docs/*path''),
    (''POST'', ''/api/v1/login''), (''POST'', ''/api/v1/logout''), (''GET'', ''/api/v1/me''),
    (''GET'', ''/api/v1/me/keys''), (''POST'', ''/api/v1/me/keys''), (''DELETE'', ''/api/v1/me/keys/:keyID''), (''GET'', ''/api/v1/me/usage''),
    (''GET'', ''/api/v1/admin/users''), (''PATCH'', ''/api/v1/admin/users/:userID''), (''GET'', ''/api/v1/admin/keys''),
    (''GET'', ''/api/v1/admin/oauth/sessions''), (''GET'', ''/api/v1/admin/oauth/sessions/:state''), (''DELETE'', ''/api/v1/admin/oauth/sessions/:state''),
    (''POST'', ''/api/v1/admin/providers/keys''), (''POST'', ''/api/v1/admin/accounts/:accountID/test''), (''GET'', ''/api/v1/admin/accounts/:accountID/quota''),
    (''GET'', ''/api/v1/admin/oauth/accounts/:accountID/export''), (''POST'', ''/api/v1/admin/oauth/import''),
    (''PUT'', ''/api/v1/admin/models/:modelAlias''), (''DELETE'', ''/api/v1/admin/models/:modelAlias''), (''GET'', ''/api/v1/admin/models'')]"
  by (simp add: program_routes_def SystemRouterConfigurator_def MetricsRouterConfigurator_def OpenAPIRouterConfigurator_def
      RouterConfigurator_def main_mounts_def mount1_def Let_def)


end
