(* ===== verification/Openapi_Json.thy ===== *)
theory Openapi_Json
  imports Go_Strings "HOL-Library.Word" "HOL-Library.AList"
begin

text \<open>
  \<^verbatim>\<open>internal/openapi/ogen/oas_json_gen.go\<close>: the JSON codecs that \<^verbatim>\<open>ogen\<close> generates from the OpenAPI document. The code has one
  \<^verbatim>\<open>Encode\<close> and one \<^verbatim>\<open>Decode\<close> method for every type of the document, written out in a few patterns; here every type is a
  definition that lists the statements of its two methods in their order, with the names, bits and masks of the code, and
  the meaning of the statements is given once. The library \<^verbatim>\<open>jx\<close> is modelled on the JSON value instead of its text; the
  formats of times, addresses and floating-point numbers are parameters.
\<close>

unbundle bit_operations_syntax

section \<open>JSON and Go values\<close>

datatype json =
    JNull
  | JBool bool
  | JInt int
  | JDec string
  | JStr string
  | JArr "json list"
  | JObj "member list"
and member = Member string json

fun member_name :: "member \<Rightarrow> string" where "member_name (Member k _) = k"

text \<open>
  A value of a generated Go type. The entries of a map are in the order in which \<^verbatim>\<open>range\<close> visits them. An optional value that is not set is \<open>VUnset\<close>, a nullable one that is null \<open>VNull\<close>; a
  raw value without bytes is \<open>VRaw None\<close>; \<open>VZero\<close> is the zero value of any other type, such as a nil slice or map, or a field that \<^verbatim>\<open>Decode\<close> has not reached yet. The flag of a
  sum says that it is the variant for arrays.
\<close>

datatype gval =
    VStr string
  | VInt int
  | VBool bool
  | VFloat int
  | VTime int
  | VURI string
  | VRaw "json option"
  | VNull
  | VUnset
  | VZero
  | VArr "gval list"
  | VMap "(string \<times> gval) list"
  | VStruct "(string \<times> gval) list"
  | VSum bool gval

record formats =
  dt_format :: "int \<Rightarrow> string"
  dt_parse :: "string \<Rightarrow> int option"
  uri_format :: "string \<Rightarrow> string"
  uri_parse :: "string \<Rightarrow> string option"
  fl_format :: "int \<Rightarrow> json"
  fl_parse :: "json \<Rightarrow> int option"

text \<open>
  The statements of the two methods of a type: when and under which name \<^verbatim>\<open>encodeFields\<close> writes a field; and for each \<^verbatim>\<open>case\<close> of \<^verbatim>\<open>Decode\<close>
  the bit of \<^verbatim>\<open>requiredBitSet\<close> that it sets, if any, and the field. An object type also has the array of its names and its masks.
\<close>

datatype ewhen = Always | If_Set | If_Nonempty

datatype scalar =
    SStr
  | SInt64
  | SInt
  | SBool
  | SFloat
  | SDateTime
  | SURI
  | SRaw
  | SEnum "string list"

datatype codec =
    CScalar scalar
  | COpt codec
  | COptNil codec
  | CArr codec
  | CMap string codec
  | CSum codec codec
  | CAlias codec
  | CObj string "efield list" "dfield list" "string list" "8 word list"
and efield = EField ewhen string string codec
and dfield = DField string "(nat \<times> nat) option" string codec

abbreviation CStr where "CStr \<equiv> CScalar SStr"
abbreviation CInt64 where "CInt64 \<equiv> CScalar SInt64"
abbreviation CInt where "CInt \<equiv> CScalar SInt"
abbreviation CBool where "CBool \<equiv> CScalar SBool"
abbreviation CFloat where "CFloat \<equiv> CScalar SFloat"
abbreviation CDateTime where "CDateTime \<equiv> CScalar SDateTime"
abbreviation CURI where "CURI \<equiv> CScalar SURI"
abbreviation CRaw where "CRaw \<equiv> CScalar SRaw"
abbreviation CEnum where "CEnum cs \<equiv> CScalar (SEnum cs)"

fun d_name :: "dfield \<Rightarrow> string" where "d_name (DField k _ _ _) = k"
fun d_bit :: "dfield \<Rightarrow> (nat \<times> nat) option" where "d_bit (DField _ b _ _) = b"
fun d_go :: "dfield \<Rightarrow> string" where "d_go (DField _ _ g _) = g"
fun d_codec :: "dfield \<Rightarrow> codec" where "d_codec (DField _ _ _ c) = c"

datatype json_error =
    Wrong_type
  | Wrong_format
  | In_field string json_error
  | In_type string json_error
  | Missing "string list"

section \<open>Encoding\<close>

fun written :: "ewhen \<Rightarrow> gval \<Rightarrow> bool" where
  "written Always v = True"
| "written If_Set v = (v \<noteq> VUnset)"
| "written If_Nonempty v = (v \<noteq> VRaw None)"

text \<open>\<^verbatim>\<open>Encode\<close>; no result means that the bytes are not JSON (an empty raw value in an array or a map) or the value is not of the type.\<close>

definition encode_scalar :: "formats \<Rightarrow> scalar \<Rightarrow> gval \<Rightarrow> json option" where
  "encode_scalar F x v =
     (case x of
        SStr \<Rightarrow> (case v of VStr s \<Rightarrow> Some (JStr s) | _ \<Rightarrow> None)
      | SInt64 \<Rightarrow> (case v of VInt i \<Rightarrow> Some (JInt i) | _ \<Rightarrow> None)
      | SInt \<Rightarrow> (case v of VInt i \<Rightarrow> Some (JInt i) | _ \<Rightarrow> None)
      | SBool \<Rightarrow> (case v of VBool b \<Rightarrow> Some (JBool b) | _ \<Rightarrow> None)
      | SFloat \<Rightarrow> (case v of VFloat f \<Rightarrow> Some (fl_format F f) | _ \<Rightarrow> None)
      | SDateTime \<Rightarrow> (case v of VTime t \<Rightarrow> Some (JStr (dt_format F t)) | _ \<Rightarrow> None)
      | SURI \<Rightarrow> (case v of VURI u \<Rightarrow> Some (JStr (uri_format F u)) | _ \<Rightarrow> None)
      | SRaw \<Rightarrow> (case v of VRaw j \<Rightarrow> j | _ \<Rightarrow> None)
      | SEnum cs \<Rightarrow> (case v of VStr s \<Rightarrow> Some (JStr s) | _ \<Rightarrow> None))"

function encode :: "formats \<Rightarrow> codec \<Rightarrow> gval \<Rightarrow> json option"
  and encode_fields :: "formats \<Rightarrow> efield list \<Rightarrow> (string \<times> gval) list \<Rightarrow> member list option"
  and encode_all :: "formats \<Rightarrow> codec \<Rightarrow> gval list \<Rightarrow> json list option"
  and encode_map :: "formats \<Rightarrow> codec \<Rightarrow> (string \<times> gval) list \<Rightarrow> member list option" where
  "encode F (CScalar x) v = encode_scalar F x v"
| "encode F (COpt c) v = (if v = VUnset then None else encode F c v)"
| "encode F (COptNil c) v = (if v = VUnset then None else if v = VNull then Some JNull else encode F c v)"
| "encode F (CArr c) v = (case v of VArr vs \<Rightarrow> map_option JArr (encode_all F c vs) | VZero \<Rightarrow> Some (JArr []) | _ \<Rightarrow> None)"
| "encode F (CMap n c) v = (case v of VMap kvs \<Rightarrow> map_option JObj (encode_map F c kvs) | VZero \<Rightarrow> Some (JObj []) | _ \<Rightarrow> None)"
| "encode F (CSum ca co) v = (case v of VSum arr x \<Rightarrow> if arr then encode F ca x else encode F co x | _ \<Rightarrow> None)"
| "encode F (CAlias c) v = encode F c v"
| "encode F (CObj n es ds ns ms) v = (case v of VStruct fs \<Rightarrow> map_option JObj (encode_fields F es fs) | _ \<Rightarrow> None)"
| "encode_fields F [] fs = Some []"
| "encode_fields F (EField wh k g c # es) fs =
     (case map_of fs g of
        None \<Rightarrow> None
      | Some v \<Rightarrow>
          (if \<not> written wh v then encode_fields F es fs
           else (case encode F c v of
                   None \<Rightarrow> None
                 | Some j \<Rightarrow> map_option (Cons (Member k j)) (encode_fields F es fs))))"
| "encode_all F c [] = Some []"
| "encode_all F c (v # vs) = (case encode F c v of None \<Rightarrow> None | Some j \<Rightarrow> map_option (Cons j) (encode_all F c vs))"
| "encode_map F c [] = Some []"
| "encode_map F c ((k, v) # kvs) =
     (case encode F c v of None \<Rightarrow> None | Some j \<Rightarrow> map_option (Cons (Member k j)) (encode_map F c kvs))"
  by pat_completeness auto
termination
  by (relation "inv_image (less_than <*lex*> less_than) (\<lambda>x. case x of
       Inl (Inl (F :: formats, c, v)) \<Rightarrow> (size c, 0)
     | Inl (Inr (F, es, fs)) \<Rightarrow> (size_list size es, 0)
     | Inr (Inl (F, c, vs)) \<Rightarrow> (size c, Suc (length vs))
     | Inr (Inr (F, c, kvs)) \<Rightarrow> (size c, Suc (length kvs)))") auto

section \<open>Decoding\<close>

text \<open>\<^verbatim>\<open>bits.OnesCount8\<close>, \<^verbatim>\<open>bits.TrailingZeros8\<close>, and the loop that collects the bits of the missed fields.\<close>

definition OnesCount8 :: "8 word \<Rightarrow> nat" where
  "OnesCount8 x = length (filter (bit x) [0..<8])"

definition TrailingZeros8 :: "8 word \<Rightarrow> nat" where
  "TrailingZeros8 x = length (takeWhile (\<lambda>i. \<not> bit x i) [0..<8])"

fun missed_bits :: "nat \<Rightarrow> 8 word \<Rightarrow> nat list" where
  "missed_bits 0 result = []"
| "missed_bits (Suc missed) result =
     (let bitIdx = TrailingZeros8 result in bitIdx # missed_bits missed (result AND NOT (push_bit bitIdx 1)))"

definition field_name :: "string list \<Rightarrow> nat \<Rightarrow> string" where
  "field_name names fieldIdx = (if fieldIdx < length names then names ! fieldIdx else FormatInt (int fieldIdx))"

text \<open>The check for required fields: \<open>i\<close> is the index of the first mask.\<close>

fun check_required :: "string list \<Rightarrow> nat \<Rightarrow> 8 word list \<Rightarrow> 8 word list \<Rightarrow> string list" where
  "check_required names i requiredBitSet [] = []"
| "check_required names i [] (mk # masks) = []"
| "check_required names i (b # requiredBitSet) (mk # masks) =
     (let result = (b AND mk) XOR mk
      in map (\<lambda>bitIdx. field_name names (i * 8 + bitIdx)) (missed_bits (OnesCount8 result) result) @
         check_required names (Suc i) requiredBitSet masks)"

definition set_required :: "(nat \<times> nat) option \<Rightarrow> 8 word list \<Rightarrow> 8 word list" where
  "set_required b bits = (case b of None \<Rightarrow> bits | Some (i, n) \<Rightarrow> bits[i := bits ! i OR push_bit n 1])"

fun zero_value :: "codec \<Rightarrow> gval" where
  "zero_value (COpt c) = VUnset"
| "zero_value (COptNil c) = VUnset"
| "zero_value (CScalar SRaw) = VRaw None"
| "zero_value _ = VZero"

definition zero_struct :: "dfield list \<Rightarrow> (string \<times> gval) list" where
  "zero_struct ds = map (\<lambda>d. (d_go d, zero_value (d_codec d))) ds"

definition put_field :: "string \<Rightarrow> gval \<Rightarrow> (string \<times> gval) list \<Rightarrow> (string \<times> gval) list" where
  "put_field g v fs = map (\<lambda>(g', v'). (g', if g' = g then v else v')) fs"

definition int64 :: "int \<Rightarrow> bool" where
  "int64 i = (- max_int64 - 1 \<le> i \<and> i \<le> max_int64)"

definition decode_scalar :: "formats \<Rightarrow> scalar \<Rightarrow> json \<Rightarrow> json_error + gval" where
  "decode_scalar F x j =
     (case x of
        SStr \<Rightarrow> (case j of JStr s \<Rightarrow> Inr (VStr s) | _ \<Rightarrow> Inl Wrong_type)
      | SInt64 \<Rightarrow> (case j of JInt i \<Rightarrow> if int64 i then Inr (VInt i) else Inl Wrong_format | _ \<Rightarrow> Inl Wrong_type)
      | SInt \<Rightarrow> (case j of JInt i \<Rightarrow> if int64 i then Inr (VInt i) else Inl Wrong_format | _ \<Rightarrow> Inl Wrong_type)
      | SBool \<Rightarrow> (case j of JBool b \<Rightarrow> Inr (VBool b) | _ \<Rightarrow> Inl Wrong_type)
      | SFloat \<Rightarrow> (case fl_parse F j of Some f \<Rightarrow> Inr (VFloat f) | None \<Rightarrow> Inl Wrong_format)
      | SDateTime \<Rightarrow>
          (case j of JStr s \<Rightarrow> (case dt_parse F s of Some t \<Rightarrow> Inr (VTime t) | None \<Rightarrow> Inl Wrong_format) | _ \<Rightarrow> Inl Wrong_type)
      | SURI \<Rightarrow>
          (case j of JStr s \<Rightarrow> (case uri_parse F s of Some u \<Rightarrow> Inr (VURI u) | None \<Rightarrow> Inl Wrong_format) | _ \<Rightarrow> Inl Wrong_type)
      | SRaw \<Rightarrow> Inr (VRaw (Some j))
      | SEnum cs \<Rightarrow> (case j of JStr s \<Rightarrow> Inr (VStr s) | _ \<Rightarrow> Inl Wrong_type))"

text \<open>\<^verbatim>\<open>Decode\<close>. A map keeps the last value of a key; an object type skips unknown members.\<close>

function decode :: "formats \<Rightarrow> codec \<Rightarrow> json \<Rightarrow> json_error + gval"
  and decode_members :: "formats \<Rightarrow> dfield list \<Rightarrow> member list \<Rightarrow> (string \<times> gval) list \<times> 8 word list
     \<Rightarrow> json_error + ((string \<times> gval) list \<times> 8 word list)"
  and decode_all :: "formats \<Rightarrow> codec \<Rightarrow> json list \<Rightarrow> json_error + gval list"
  and decode_map :: "formats \<Rightarrow> codec \<Rightarrow> member list \<Rightarrow> (string \<times> gval) list \<Rightarrow> json_error + (string \<times> gval) list" where
  "decode F (CScalar x) j = decode_scalar F x j"
| "decode F (COpt c) j = decode F c j"
| "decode F (COptNil c) j = (if j = JNull then Inr VNull else decode F c j)"
| "decode F (CArr c) j = (case j of JArr js \<Rightarrow> map_sum id VArr (decode_all F c js) | _ \<Rightarrow> Inl Wrong_type)"
| "decode F (CMap n c) j =
     (case j of JObj ms \<Rightarrow> map_sum (In_type n) VMap (decode_map F c ms []) | _ \<Rightarrow> Inl (In_type n Wrong_type))"
| "decode F (CSum ca co) j =
     (case j of
        JArr _ \<Rightarrow> map_sum id (VSum True) (decode F ca j)
      | JObj _ \<Rightarrow> map_sum id (VSum False) (decode F co j)
      | _ \<Rightarrow> Inl Wrong_type)"
| "decode F (CAlias c) j = map_sum (In_type ''alias'') id (decode F c j)"
| "decode F (CObj n es ds ns masks) j =
     (case j of
        JObj ms \<Rightarrow>
          (case decode_members F ds ms (zero_struct ds, replicate (length masks) 0) of
             Inl e \<Rightarrow> Inl (In_type n e)
           | Inr (fs, bits) \<Rightarrow>
               (let failures = check_required ns 0 bits masks
                in if failures \<noteq> [] then Inl (Missing failures) else Inr (VStruct fs)))
      | _ \<Rightarrow> Inl (In_type n Wrong_type))"
| "decode_members F ds [] st = Inr st"
| "decode_members F ds (Member k j # ms) st =
     (case st of
        (fs, bits) \<Rightarrow>
          (case find (\<lambda>d. d_name d = k) ds of
             None \<Rightarrow> decode_members F ds ms (fs, bits)
           | Some d \<Rightarrow>
               (case decode F (d_codec d) j of
                  Inl e \<Rightarrow> Inl (In_field k e)
                | Inr v \<Rightarrow> decode_members F ds ms (put_field (d_go d) v fs, set_required (d_bit d) bits))))"
| "decode_all F c [] = Inr []"
| "decode_all F c (j # js) =
     (case decode F c j of Inl e \<Rightarrow> Inl e | Inr v \<Rightarrow> map_sum id (Cons v) (decode_all F c js))"
| "decode_map F c [] m = Inr m"
| "decode_map F c (Member k j # ms) m =
     (case decode F c j of Inl e \<Rightarrow> Inl (In_field k e) | Inr v \<Rightarrow> decode_map F c ms (AList.update k v m))"
  by pat_completeness auto
termination
  by (relation "inv_image (less_than <*lex*> less_than) (\<lambda>x. case x of
       Inl (Inl (F :: formats, c, j)) \<Rightarrow> (size j, size c)
     | Inl (Inr (F, ds, ms, st)) \<Rightarrow> (size_list size ms, 0)
     | Inr (Inl (F, c, js)) \<Rightarrow> (size_list size js, size c)
     | Inr (Inr (F, c, ms, m)) \<Rightarrow> (size_list size ms, size c))") auto

section \<open>Agreement of the two methods\<close>

text \<open>
  What the generated code of a type has to satisfy: the cases of \<^verbatim>\<open>Decode\<close> are the fields that \<^verbatim>\<open>encodeFields\<close> writes, in the
  order of the names; the bit of a case is its index, and the masks have the bits of the fields that are always written.
\<close>

fun plain :: "codec \<Rightarrow> bool" where
  "plain (COpt c) = False"
| "plain (COptNil c) = False"
| "plain (CAlias c) = plain c"
| "plain _ = True"

fun not_null :: "codec \<Rightarrow> bool" where
  "not_null (CScalar x) = (x \<noteq> SRaw \<and> x \<noteq> SFloat)"
| "not_null (CAlias c) = not_null c"
| "not_null (CSum ca co) = (not_null ca \<and> not_null co)"
| "not_null (COpt c) = False"
| "not_null (COptNil c) = False"
| "not_null _ = True"

fun same_field :: "efield \<Rightarrow> dfield \<Rightarrow> bool" where
  "same_field (EField wh k g c) (DField k' b g' c') =
     (k = k' \<and> g = g' \<and> c = c' \<and>
      (case wh of Always \<Rightarrow> b \<noteq> None \<and> plain c
       | If_Set \<Rightarrow> b = None \<and> (case c of COpt _ \<Rightarrow> True | COptNil _ \<Rightarrow> True | _ \<Rightarrow> False)
       | If_Nonempty \<Rightarrow> b = None \<and> c = CScalar SRaw))"

definition seen_bit :: "8 word list \<Rightarrow> nat \<Rightarrow> bool" where
  "seen_bit bits idx = (idx < 8 * length bits \<and> bit (bits ! (idx div 8)) (idx mod 8))"

definition bits_ok :: "dfield list \<Rightarrow> 8 word list \<Rightarrow> bool" where
  "bits_ok ds masks =
     list_all (\<lambda>idx. if seen_bit masks idx then idx < length ds \<and> d_bit (ds ! idx) = Some (idx div 8, idx mod 8)
                     else idx < length ds \<longrightarrow> d_bit (ds ! idx) = None) [0..<length ds + 8 * length masks]"

fun wf_codec :: "codec \<Rightarrow> bool"
  and wf_dfields :: "dfield list \<Rightarrow> bool" where
  "wf_codec (CScalar x) = True"
| "wf_codec (COpt c) = (plain c \<and> wf_codec c)"
| "wf_codec (COptNil c) = (plain c \<and> not_null c \<and> wf_codec c)"
| "wf_codec (CArr c) = (plain c \<and> wf_codec c)"
| "wf_codec (CMap n c) = (plain c \<and> wf_codec c)"
| "wf_codec (CSum ca co) = ((case ca of CArr _ \<Rightarrow> True | _ \<Rightarrow> False) \<and> (case co of CMap _ _ \<Rightarrow> True | CObj _ _ _ _ _ \<Rightarrow> True | _ \<Rightarrow> False) \<and> wf_codec ca \<and> wf_codec co)"
| "wf_codec (CAlias c) = (plain c \<and> wf_codec c)"
| "wf_codec (CObj n es ds ns masks) =
     (list_all2 same_field es ds \<and> distinct (map d_name ds) \<and> distinct (map d_go ds) \<and> ns = map d_name ds \<and> bits_ok ds masks \<and> wf_dfields ds)"
| "wf_dfields [] = True"
| "wf_dfields (DField k b g c # ds) = (wf_codec c \<and> wf_dfields ds)"

subsection \<open>The check for required fields\<close>

lemma first_missed_bit:
  fixes x :: "8 word"
  assumes "filter (bit x) [0..<8] = b # bs"
  shows "TrailingZeros8 x = b" and "filter (bit (x AND NOT (push_bit b 1))) [0..<8] = bs"
proof -
  obtain us vs where split: "[0..<8] = us @ b # vs" "\<forall>u \<in> set us. \<not> bit x u" "bit x b" "bs = filter (bit x) vs"
    using assms by (auto simp: filter_eq_Cons_iff)
  have len: "length us < 8" using arg_cong [OF split(1), of length] by simp
  have "b = [0..<8] ! length us" using split(1) by simp
  also have "\<dots> = length us" using nth_upt [of 0 "length us" 8] len by simp
  finally have b: "b = length us" .
  have "takeWhile (\<lambda>i. \<not> bit x i) [0..<8] = us" using split by (simp add: takeWhile_append)
  with b show "TrailingZeros8 x = b" by (simp add: TrailingZeros8_def)
  have "b < 8" using b len by simp
  have d: "b \<notin> set us" "b \<notin> set vs" using distinct_upt [of 0 8] unfolding split(1) by auto
  have "filter (bit (x AND NOT (push_bit b 1))) vs = filter (bit x) vs"
    using d(2) by (intro filter_cong) (auto simp: bit_simps dest: bit_imp_le_length)
  moreover have "filter (bit (x AND NOT (push_bit b 1))) us = []" using split(2) by (simp add: filter_empty_conv bit_simps)
  moreover have "\<not> bit (x AND NOT (push_bit b 1)) b" by (simp add: bit_simps)
  ultimately show "filter (bit (x AND NOT (push_bit b 1))) [0..<8] = bs" unfolding split(1) by (simp add: split(4))
qed

lemma missed_bits_filter: "missed_bits (OnesCount8 x) x = filter (bit x) [0..<8]"
proof (induction "OnesCount8 x" arbitrary: x)
  case 0
  then show ?case by (simp add: OnesCount8_def)
next
  case (Suc n)
  then obtain b bs where f: "filter (bit x) [0..<8] = b # bs" by (cases "filter (bit x) [0..<8]") (simp_all add: OnesCount8_def)
  note first = first_missed_bit [OF f]
  have "n = OnesCount8 (x AND NOT (push_bit b 1))" using Suc.hyps(2) f first(2) by (simp add: OnesCount8_def del: upt_rec_numeral)
  with Suc.hyps(1) [OF this] first f show ?case by (simp add: Suc.hyps(2) [symmetric] Let_def del: upt_rec_numeral)
qed

lemma upt_8: "[8 * i..<8 * Suc i] = map (\<lambda>b. i * 8 + b) [0..<8]"
  by (rule nth_equalityI) auto

lemma check_required_filter:
  "length bits = length masks \<Longrightarrow>
   check_required names i (drop i bits) (drop i masks) =
   map (field_name names) (filter (\<lambda>idx. seen_bit masks idx \<and> \<not> seen_bit bits idx) [8 * i..<8 * length masks])"
proof (induction "length masks - i" arbitrary: i)
  case 0
  then show ?case by simp
next
  case (Suc n)
  then have i: "i < length masks" "i < length bits" by simp_all
  then have d: "drop i bits = bits ! i # drop (Suc i) bits" "drop i masks = masks ! i # drop (Suc i) masks" by (simp_all add: Cons_nth_drop_Suc)
  let ?x = "(bits ! i AND masks ! i) XOR masks ! i"
  have x: "bit ?x b \<longleftrightarrow> seen_bit masks (i * 8 + b) \<and> \<not> seen_bit bits (i * 8 + b)" if "b < 8" for b
    using that i by (auto simp: seen_bit_def bit_simps)
  have "[8 * i..<8 * length masks] = map (\<lambda>b. i * 8 + b) [0..<8] @ [8 * Suc i..<8 * length masks]"
    using i(1) upt_8 [of i] upt_add_eq_append [of "8 * i" "8 * Suc i" "8 * (length masks - Suc i)"] by (simp add: algebra_simps)
  moreover have "check_required names (Suc i) (drop (Suc i) bits) (drop (Suc i) masks) =
      map (field_name names) (filter (\<lambda>idx. seen_bit masks idx \<and> \<not> seen_bit bits idx) [8 * Suc i..<8 * length masks])"
    using Suc by (intro Suc.hyps) auto
  moreover have "filter (bit ?x) [0..<8] = filter (\<lambda>b. seen_bit masks (i * 8 + b) \<and> \<not> seen_bit bits (i * 8 + b)) [0..<8]"
    using x by (intro filter_cong) auto
  ultimately show ?case by (simp add: d missed_bits_filter Let_def filter_map comp_def del: drop_Suc upt_Suc)
qed

text \<open>The bits after the members.\<close>

definition touched :: "dfield list \<Rightarrow> member list \<Rightarrow> nat \<Rightarrow> bool" where
  "touched ds ms idx = (\<exists>m \<in> set ms. \<exists>d. find (\<lambda>d. d_name d = member_name m) ds = Some d \<and> d_bit d = Some (idx div 8, idx mod 8))"

lemma set_required_bit:
  assumes "idx < 8 * length bits" and "\<And>i n. b = Some (i, n) \<Longrightarrow> n < 8"
  shows "seen_bit (set_required b bits) idx \<longleftrightarrow> seen_bit bits idx \<or> b = Some (idx div 8, idx mod 8)"
proof (cases b)
  case (Some p)
  obtain i n where p: "p = (i, n)" by fastforce
  have "idx div 8 < length bits" "n < 8" using assms Some p by auto
  with Some p show ?thesis
    by (cases "i = idx div 8") (auto simp: set_required_def seen_bit_def nth_list_update bit_simps)
qed (simp add: set_required_def)

lemma length_set_required [simp]: "length (set_required b bits) = length bits"
  by (simp add: set_required_def split: option.splits prod.splits)

lemma decode_members_bits:
  assumes "decode_members F ds ms (fs, bits) = Inr (fs', bits')" and "\<And>d i n. d \<in> set ds \<Longrightarrow> d_bit d = Some (i, n) \<Longrightarrow> n < 8"
  shows "length bits' = length bits \<and> (\<forall>idx < 8 * length bits. seen_bit bits' idx \<longleftrightarrow> seen_bit bits idx \<or> touched ds ms idx)"
  using assms(1)
proof (induction ms arbitrary: fs bits)
  case (Cons m ms)
  obtain k j where m: "m = Member k j" by (cases m)
  show ?case
  proof (cases "find (\<lambda>d. d_name d = k) ds")
    case None
    with Cons.prems m Cons.IH show ?thesis by (auto simp: touched_def)
  next
    case (Some d)
    with Cons.prems m obtain v where "decode_members F ds ms (put_field (d_go d) v fs, set_required (d_bit d) bits) = Inr (fs', bits')"
      by (auto split: sum.splits)
    note ih = Cons.IH [OF this]
    have "d \<in> set ds" using Some by (auto simp: find_Some_iff)
    then have "seen_bit (set_required (d_bit d) bits) idx \<longleftrightarrow> seen_bit bits idx \<or> d_bit d = Some (idx div 8, idx mod 8)"
      if "idx < 8 * length bits" for idx using that assms(2) by (intro set_required_bit) auto
    with ih Some m show ?thesis by (auto simp: touched_def)
  qed
qed (simp add: touched_def)

lemma bits_okD: "bits_ok ds masks \<Longrightarrow> idx < length ds \<Longrightarrow> d_bit (ds ! idx) = (if seen_bit masks idx then Some (idx div 8, idx mod 8) else None)"
  by (auto simp: bits_ok_def list_all_iff)

lemma bits_ok_outside:
  assumes "bits_ok ds masks" and "seen_bit masks idx"
  shows "idx < length ds" and "idx < 8 * length masks"
proof -
  show "idx < 8 * length masks" using assms(2) by (simp add: seen_bit_def)
  with assms show "idx < length ds" by (auto simp: bits_ok_def list_all_iff split: if_splits)
qed

lemma bits_ok_small: "bits_ok ds masks \<Longrightarrow> d \<in> set ds \<Longrightarrow> d_bit d = Some (i, n) \<Longrightarrow> n < 8"
  by (auto simp: in_set_conv_nth bits_okD split: if_splits)

lemma map_nth_filter: "map (\<lambda>i. f (xs ! i)) (filter (\<lambda>i. P (xs ! i)) [0..<length xs]) = map f (filter P xs)"
proof (induction xs rule: rev_induct)
  case (snoc x xs)
  have "filter (\<lambda>i. P ((xs @ [x]) ! i)) [0..<length xs] = filter (\<lambda>i. P (xs ! i)) [0..<length xs]"
    by (intro filter_cong) (auto simp: nth_append)
  moreover have "map (\<lambda>i. f ((xs @ [x]) ! i)) (filter (\<lambda>i. P (xs ! i)) [0..<length xs]) = map (\<lambda>i. f (xs ! i)) (filter (\<lambda>i. P (xs ! i)) [0..<length xs])"
    by (intro map_cong) (auto simp: nth_append)
  ultimately show ?case using snoc by simp
qed simp

definition absent :: "dfield list \<Rightarrow> member list \<Rightarrow> string list" where
  "absent ds ms = [d_name d. d \<leftarrow> ds, d_bit d \<noteq> None \<and> d_name d \<notin> member_name ` set ms]"

lemma absent_filter: "absent ds ms = map d_name (filter (\<lambda>d. d_bit d \<noteq> None \<and> d_name d \<notin> member_name ` set ms) ds)"
  unfolding absent_def by (induction ds) auto

lemma find_distinct: "distinct (map f xs) \<Longrightarrow> x \<in> set xs \<Longrightarrow> find (\<lambda>y. f y = f x) xs = Some x"
proof (induction xs)
  case (Cons a xs)
  then show ?case by (cases "x = a") (auto simp: image_iff)
qed simp

lemma touched_present:
  assumes "bits_ok ds masks" and "distinct (map d_name ds)" and "idx < length ds" and "seen_bit masks idx"
  shows "touched ds ms idx \<longleftrightarrow> d_name (ds ! idx) \<in> member_name ` set ms"
proof
  assume "touched ds ms idx"
  then obtain m d where m: "m \<in> set ms" "find (\<lambda>d. d_name d = member_name m) ds = Some d" "d_bit d = Some (idx div 8, idx mod 8)"
    by (auto simp: touched_def)
  then obtain j where j: "j < length ds" "d = ds ! j" "d_name d = member_name m" by (auto simp: find_Some_iff)
  with bits_okD [OF assms(1) j(1)] m(3) have "j div 8 = idx div 8 \<and> j mod 8 = idx mod 8" by (auto split: if_splits)
  then have "j = idx" by (metis div_mult_mod_eq)
  with j m(1) show "d_name (ds ! idx) \<in> member_name ` set ms" by auto
next
  assume "d_name (ds ! idx) \<in> member_name ` set ms"
  then obtain m where m: "m \<in> set ms" "member_name m = d_name (ds ! idx)" by auto
  have "ds ! idx \<in> set ds" using assms(3) by simp
  with find_distinct [OF assms(2) this] m bits_okD [OF assms(1,3)] assms(4) show "touched ds ms idx"
    unfolding touched_def by (intro bexI [of _ m]) auto
qed

lemma filter_upt_outside: "n \<le> N \<Longrightarrow> (\<And>i. n \<le> i \<Longrightarrow> \<not> P i) \<Longrightarrow> filter P [0..<N] = filter P [0..<n]"
  using upt_add_eq_append [of 0 n "N - n"] by (simp add: filter_empty_conv)

lemma check_required_absent:
  assumes wf: "bits_ok ds masks" "distinct (map d_name ds)" and "ns = map d_name ds"
    and run: "decode_members F ds ms (zero_struct ds, replicate (length masks) 0) = Inr (fs, bits)"
  shows "check_required ns 0 bits masks = absent ds ms"
proof -
  let ?Q = "\<lambda>d. d_bit d \<noteq> None \<and> d_name d \<notin> member_name ` set ms"
  have b: "length bits = length masks \<and>
      (\<forall>idx < 8 * length masks. seen_bit bits idx \<longleftrightarrow> seen_bit (replicate (length masks) 0) idx \<or> touched ds ms idx)"
    using decode_members_bits [OF run] bits_ok_small [OF wf(1)] by simp
  have zero: "\<not> seen_bit (replicate (length masks) 0) idx" for idx
    by (simp add: seen_bit_def less_mult_imp_div_less mult.commute)
  have key: "seen_bit masks idx \<and> \<not> seen_bit bits idx \<longleftrightarrow> idx < length ds \<and> ?Q (ds ! idx)" for idx
    using b zero bits_ok_outside [OF wf(1), of idx] bits_okD [OF wf(1), of idx] touched_present [OF wf, of idx] by (auto split: if_splits)
  let ?N = "length ds + 8 * length masks"
  have "filter (\<lambda>idx. seen_bit masks idx \<and> \<not> seen_bit bits idx) [0..<8 * length masks] =
      filter (\<lambda>idx. seen_bit masks idx \<and> \<not> seen_bit bits idx) [0..<?N]"
    by (intro filter_upt_outside [symmetric]) (auto simp: seen_bit_def [of masks])
  also have "\<dots> = filter (\<lambda>idx. idx < length ds \<and> ?Q (ds ! idx)) [0..<?N]" by (simp only: key)
  also have "\<dots> = filter (\<lambda>idx. idx < length ds \<and> ?Q (ds ! idx)) [0..<length ds]" by (rule filter_upt_outside) auto
  also have "\<dots> = filter (\<lambda>idx. ?Q (ds ! idx)) [0..<length ds]" by (intro filter_cong refl) simp
  finally have "check_required ns 0 bits masks = map (field_name ns) (filter (\<lambda>idx. ?Q (ds ! idx)) [0..<length ds])"
    using check_required_filter [of bits masks ns 0] b by simp
  also have "\<dots> = map (\<lambda>idx. d_name (ds ! idx)) (filter (\<lambda>idx. ?Q (ds ! idx)) [0..<length ds])"
    using assms(3) by (intro map_cong) (auto simp: field_name_def)
  also have "\<dots> = absent ds ms" unfolding absent_filter by (rule map_nth_filter)
  finally show ?thesis .
qed

section \<open>Round trip\<close>

text \<open>
  The values of a type: the fields of a struct in their order, an optional field set or not, the keys of a map distinct, 64-bit
  integers in range, and times, addresses and numbers that survive their formats (the format of times drops fractions of a second).
\<close>

definition typed_scalar :: "formats \<Rightarrow> scalar \<Rightarrow> gval \<Rightarrow> bool" where
  "typed_scalar F x v =
     (case x of
        SStr \<Rightarrow> (case v of VStr s \<Rightarrow> True | _ \<Rightarrow> False)
      | SInt64 \<Rightarrow> (case v of VInt i \<Rightarrow> int64 i | _ \<Rightarrow> False)
      | SInt \<Rightarrow> (case v of VInt i \<Rightarrow> int64 i | _ \<Rightarrow> False)
      | SBool \<Rightarrow> (case v of VBool b \<Rightarrow> True | _ \<Rightarrow> False)
      | SFloat \<Rightarrow> (case v of VFloat f \<Rightarrow> fl_parse F (fl_format F f) = Some f | _ \<Rightarrow> False)
      | SDateTime \<Rightarrow> (case v of VTime t \<Rightarrow> dt_parse F (dt_format F t) = Some t | _ \<Rightarrow> False)
      | SURI \<Rightarrow> (case v of VURI u \<Rightarrow> uri_parse F (uri_format F u) = Some u | _ \<Rightarrow> False)
      | SRaw \<Rightarrow> (case v of VRaw j \<Rightarrow> j \<noteq> None | _ \<Rightarrow> False)
      | SEnum cs \<Rightarrow> (case v of VStr s \<Rightarrow> True | _ \<Rightarrow> False))"

function typed :: "formats \<Rightarrow> codec \<Rightarrow> gval \<Rightarrow> bool"
  and typed_fields :: "formats \<Rightarrow> efield list \<Rightarrow> (string \<times> gval) list \<Rightarrow> bool" where
  "typed F (CScalar x) v = typed_scalar F x v"
| "typed F (COpt c) v = typed F c v"
| "typed F (COptNil c) v = (v = VNull \<or> typed F c v)"
| "typed F (CArr c) v = (case v of VArr vs \<Rightarrow> list_all (typed F c) vs | _ \<Rightarrow> False)"
| "typed F (CMap n c) v = (case v of VMap kvs \<Rightarrow> distinct (map fst kvs) \<and> list_all (\<lambda>kv. typed F c (snd kv)) kvs | _ \<Rightarrow> False)"
| "typed F (CSum ca co) v = (case v of VSum arr x \<Rightarrow> if arr then typed F ca x else typed F co x | _ \<Rightarrow> False)"
| "typed F (CAlias c) v = typed F c v"
| "typed F (CObj n es ds ns ms) v = (case v of VStruct fs \<Rightarrow> typed_fields F es fs | _ \<Rightarrow> False)"
| "typed_fields F [] fs = (fs = [])"
| "typed_fields F (EField wh k g c # es) fs =
     (case fs of [] \<Rightarrow> False | (g', v) # r \<Rightarrow> g' = g \<and> (\<not> written wh v \<or> typed F c v) \<and> typed_fields F es r)"
  by pat_completeness auto
termination
  by (relation "measure (\<lambda>x. case x of Inl (F :: formats, c, v) \<Rightarrow> size c | Inr (F, es, fs) \<Rightarrow> size_list size es)") auto

text \<open>\<open>carries F c\<close>: every value of the type is written, and read back as it was.\<close>

definition carries :: "formats \<Rightarrow> codec \<Rightarrow> bool" where
  "carries F c = (\<forall>v. typed F c v \<longrightarrow> (\<exists>j. encode F c v = Some j \<and> decode F c j = Inr v))"

lemma carriesE:
  assumes "carries F c" and "typed F c v"
  obtains j where "encode F c v = Some j" and "decode F c j = Inr v"
  using assms by (auto simp: carries_def)

lemma carries_scalar: "carries F (CScalar x)"
  unfolding carries_def
proof (intro allI impI)
  fix v assume "typed F (CScalar x) v"
  then show "\<exists>j. encode F (CScalar x) v = Some j \<and> decode F (CScalar x) j = Inr v"
    by (cases x; cases v) (auto simp: typed_scalar_def encode_scalar_def decode_scalar_def)
qed

lemma carries_all:
  assumes "carries F c"
  shows "list_all (typed F c) vs \<Longrightarrow> \<exists>js. encode_all F c vs = Some js \<and> decode_all F c js = Inr vs"
proof (induction vs)
  case (Cons v vs)
  then obtain js where "encode_all F c vs = Some js" "decode_all F c js = Inr vs" by auto
  with carriesE [OF assms] Cons.prems show ?case by fastforce
qed simp

lemma update_fresh: "k \<notin> set (map fst m) \<Longrightarrow> AList.update k v m = m @ [(k, v)]"
  by (induction m) auto

lemma carries_map:
  assumes "carries F c"
  shows "list_all (\<lambda>kv. typed F c (snd kv)) kvs \<Longrightarrow> distinct (map fst (m @ kvs)) \<Longrightarrow>
    \<exists>ms. encode_map F c kvs = Some ms \<and> decode_map F c ms m = Inr (m @ kvs)"
proof (induction kvs arbitrary: m)
  case (Cons kv kvs)
  obtain k v where kv: "kv = (k, v)" by fastforce
  obtain j where j: "encode F c v = Some j" "decode F c j = Inr v" using carriesE [OF assms, of v] Cons.prems(1) kv by auto
  obtain ms where ms: "encode_map F c kvs = Some ms" "decode_map F c ms (m @ [(k, v)]) = Inr ((m @ [(k, v)]) @ kvs)"
    using Cons.IH [of "m @ [(k, v)]"] Cons.prems kv by auto
  have "AList.update k v m = m @ [(k, v)]" using Cons.prems(2) kv by (intro update_fresh) auto
  with j ms kv show ?case by (intro exI [of _ "Member k j # ms"]) simp
qed simp

lemma typed_scalar_plain: "typed_scalar F x v \<Longrightarrow> v \<noteq> VUnset \<and> v \<noteq> VNull"
  by (cases x; cases v) (auto simp: typed_scalar_def)

lemma typed_plain: "plain c \<Longrightarrow> typed F c v \<Longrightarrow> v \<noteq> VUnset \<and> v \<noteq> VNull"
  by (induction c rule: plain.induct) (auto dest: typed_scalar_plain split: gval.splits)

lemma encode_not_null: "not_null c \<Longrightarrow> encode F c v \<noteq> Some JNull"
proof (induction c arbitrary: v rule: not_null.induct)
  case (1 x)
  then show ?case by (cases x; cases v) (auto simp: encode_scalar_def)
qed (auto split: gval.splits)

subsection \<open>Objects\<close>

lemma typed_fields_names: "list_all2 same_field es ds \<Longrightarrow> typed_fields F es fs \<Longrightarrow> map fst fs = map d_go ds"
proof (induction es ds arbitrary: fs rule: list_all2_induct)
  case (Cons e es d ds)
  then show ?case by (cases e; cases d) (auto split: list.splits)
qed simp

lemma put_field_fresh: "g \<notin> set (map fst fs) \<Longrightarrow> put_field g v fs = fs"
  by (induction fs) (auto simp: put_field_def)

lemma put_field_here:
  "g \<notin> set (map fst pre) \<Longrightarrow> g \<notin> set (map fst post) \<Longrightarrow> put_field g v (pre @ (g, z) # post) = pre @ (g, v) # post"
  using put_field_fresh [of g pre v] put_field_fresh [of g post v] by (simp add: put_field_def)

lemma not_written_zero: "same_field (EField wh k g c) d \<Longrightarrow> \<not> written wh v \<Longrightarrow> v = zero_value c \<and> d_bit d = None"
  by (cases d; cases wh) (auto split: codec.splits)

lemma carries_fields:
  assumes "distinct (map d_name ds)" and "distinct (map d_go ds)"
  shows "list_all2 same_field es2 ds2 \<Longrightarrow> ds = ds1 @ ds2 \<Longrightarrow> map fst fs1 = map d_go ds1 \<Longrightarrow> typed_fields F es2 fs2 \<Longrightarrow>
    (\<And>wh k g c. EField wh k g c \<in> set es2 \<Longrightarrow> carries F c) \<Longrightarrow>
    \<exists>ms bits'. encode_fields F es2 (fs1 @ fs2) = Some ms \<and>
      decode_members F ds ms (fs1 @ zero_struct ds2, bits) = Inr (fs1 @ fs2, bits') \<and>
      (\<forall>d \<in> set ds2. d_bit d \<noteq> None \<longrightarrow> d_name d \<in> member_name ` set ms)"
proof (induction es2 ds2 arbitrary: ds1 fs1 fs2 bits rule: list_all2_induct)
  case Nil
  then show ?case by (simp add: zero_struct_def)
next
  case (Cons e es2 d ds2)
  obtain wh k g c where e: "e = EField wh k g c" by (cases e)
  with Cons.hyps(1) obtain b where d: "d = DField k b g c" by (cases d) auto
  from Cons.prems(3) e obtain v r where fs2: "fs2 = (g, v) # r" "\<not> written wh v \<or> typed F c v" "typed_fields F es2 r"
    by (auto split: list.splits)
  have names: "map fst r = map d_go ds2" using typed_fields_names [OF Cons.hyps(2) fs2(3)] .
  have fresh: "g \<notin> set (map fst fs1)" "g \<notin> set (map fst r)" "g \<notin> set (map fst (zero_struct ds2))"
    using assms(2) Cons.prems(1,2) d names by (auto simp: zero_struct_def)
  have v: "map_of (fs1 @ fs2) g = Some v" using fresh fs2(1) by (auto simp: map_add_Some_iff map_of_eq_None_iff)
  have ih: "\<exists>ms bits'. encode_fields F es2 (fs1 @ fs2) = Some ms \<and>
      decode_members F ds ms (fs1 @ (g, v) # zero_struct ds2, bits) = Inr (fs1 @ fs2, bits') \<and>
      (\<forall>d \<in> set ds2. d_bit d \<noteq> None \<longrightarrow> d_name d \<in> member_name ` set ms)" for bits
    using Cons.IH [of "ds1 @ [d]" "fs1 @ [(g, v)]" r bits] Cons.prems(1,2,4) d fs2 by (simp del: member_name.simps) blast
  have zero: "zero_struct (d # ds2) = (g, zero_value c) # zero_struct ds2" using d by (simp add: zero_struct_def)
  show ?case
  proof (cases "written wh v")
    case False
    with not_written_zero [of wh k g c d v] Cons.hyps(1) e have "v = zero_value c" "d_bit d = None" by auto
    with ih [of bits] v e zero False show ?thesis by (auto simp del: member_name.simps)
  next
    case True
    with fs2(2) Cons.prems(4) [of wh k g c] e obtain j where j: "encode F c v = Some j" "decode F c j = Inr v"
      by (auto elim: carriesE)
    have "find (\<lambda>d'. d_name d' = k) ds = Some d" using find_distinct [OF assms(1), of d] Cons.prems(1) d by simp
    moreover obtain ms bits' where ms: "encode_fields F es2 (fs1 @ fs2) = Some ms"
        "decode_members F ds ms (fs1 @ (g, v) # zero_struct ds2, set_required b bits) = Inr (fs1 @ fs2, bits')"
        "\<forall>d \<in> set ds2. d_bit d \<noteq> None \<longrightarrow> d_name d \<in> member_name ` set ms" using ih [of "set_required b bits"] by blast
    ultimately show ?thesis using j e d v True zero put_field_here [OF fresh(1,3), of v]
      by (intro exI [of _ "Member k j # ms"] exI [of _ bits']) auto
  qed
qed

lemma carries_object:
  assumes "wf_codec (CObj n es ds ns masks)" and "\<And>wh k g c. EField wh k g c \<in> set es \<Longrightarrow> carries F c"
  shows "carries F (CObj n es ds ns masks)"
  unfolding carries_def
proof (intro allI impI)
  fix v assume "typed F (CObj n es ds ns masks) v"
  then obtain fs where fs: "v = VStruct fs" "typed_fields F es fs" by (auto split: gval.splits)
  have wf: "list_all2 same_field es ds" "distinct (map d_name ds)" "distinct (map d_go ds)" "ns = map d_name ds" "bits_ok ds masks"
    using assms(1) by auto
  obtain ms bits where ms: "encode_fields F es fs = Some ms"
      "decode_members F ds ms (zero_struct ds, replicate (length masks) 0) = Inr (fs, bits)"
      "\<forall>d \<in> set ds. d_bit d \<noteq> None \<longrightarrow> d_name d \<in> member_name ` set ms"
    using carries_fields [OF wf(2,3,1), of "[]" "[]" F fs "replicate (length masks) 0"] assms(2) fs(2) by auto
  have "absent ds ms = []" using ms(3) by (auto simp: absent_filter filter_empty_conv)
  then have "check_required ns 0 bits masks = []" using check_required_absent [OF wf(5,2,4) ms(2)] by simp
  with ms fs(1) show "\<exists>j. encode F (CObj n es ds ns masks) v = Some j \<and> decode F (CObj n es ds ns masks) j = Inr v" by auto
qed

lemma carries_nullable:
  assumes "carries F c" and "plain c" and "not_null c"
  shows "carries F (COptNil c)"
  unfolding carries_def
proof (intro allI impI)
  fix v assume t: "typed F (COptNil c) v"
  show "\<exists>j. encode F (COptNil c) v = Some j \<and> decode F (COptNil c) j = Inr v"
  proof (cases "v = VNull")
    case False
    with t have "typed F c v" by simp
    then obtain j where "encode F c v = Some j" "decode F c j = Inr v" using carriesE [OF assms(1)] by blast
    moreover have "v \<noteq> VUnset" using typed_plain [OF assms(2) \<open>typed F c v\<close>] by simp
    ultimately show ?thesis using False encode_not_null [OF assms(3), of F v] by auto
  qed simp
qed

lemma carries_sum:
  assumes "carries F (CArr c)" and "carries F co" and "case co of CMap _ _ \<Rightarrow> True | CObj _ _ _ _ _ \<Rightarrow> True | _ \<Rightarrow> False"
  shows "carries F (CSum (CArr c) co)"
  unfolding carries_def
proof (intro allI impI)
  fix v assume "typed F (CSum (CArr c) co) v"
  then obtain arr x where v: "v = VSum arr x" and t: "if arr then typed F (CArr c) x else typed F co x" by (auto split: gval.splits)
  obtain j where j: "encode F (CSum (CArr c) co) v = Some j" "decode F (if arr then CArr c else co) j = Inr x"
      "encode F (if arr then CArr c else co) x = Some j"
    using t v assms(1,2) by (auto elim!: carriesE split: if_splits)
  have "if arr then \<exists>js. j = JArr js else \<exists>ms. j = JObj ms"
    using j(3) assms(3) by (auto split: if_splits codec.splits gval.splits)
  then show "\<exists>j. encode F (CSum (CArr c) co) v = Some j \<and> decode F (CSum (CArr c) co) j = Inr v"
    using j(1,2) v by (intro exI [of _ j]) (auto split: if_splits)
qed

lemma size_field: "EField wh k g c \<in> set es \<Longrightarrow> size c < size_list size es"
  by (induction es) auto

lemma wf_dfields_codec: "list_all2 same_field es ds \<Longrightarrow> wf_dfields ds \<Longrightarrow> EField wh k g c \<in> set es \<Longrightarrow> wf_codec c"
proof (induction es ds rule: list_all2_induct)
  case (Cons e es d ds)
  then show ?case by (cases e; cases d) auto
qed simp

theorem wf_carries: "wf_codec c \<Longrightarrow> carries F c"
proof (induction c rule: measure_induct_rule [of size])
  case (less c)
  show ?case
  proof (cases c)
    case (CScalar x)
    then show ?thesis by (simp add: carries_scalar)
  next
    case (COpt c')
    with less have "carries F c'" "plain c'" by auto
    with COpt show ?thesis by (auto simp: carries_def dest: typed_plain)
  next
    case (COptNil c')
    with less have "carries F c'" "plain c'" "not_null c'" by auto
    with COptNil show ?thesis by (simp add: carries_nullable)
  next
    case (CArr c')
    with less have "carries F c'" by auto
    with CArr show ?thesis unfolding carries_def [of F c] by (auto split: gval.splits dest!: carries_all)
  next
    case (CMap n c')
    with less have "carries F c'" by auto
    with CMap show ?thesis unfolding carries_def [of F c] by (auto split: gval.splits dest!: carries_map [where m = "[]"])
  next
    case (CSum ca co)
    with less have "carries F ca" "carries F co" by auto
    with CSum less.prems carries_sum [of F _ co] show ?thesis by (auto split: codec.splits)
  next
    case (CAlias c')
    with less have "carries F c'" by auto
    with CAlias show ?thesis by (fastforce simp: carries_def)
  next
    case (CObj n es ds ns masks)
    have "carries F c'" if "EField wh k g c' \<in> set es" for wh k g c'
      using less.IH [of c'] less.prems CObj size_field [OF that] wf_dfields_codec [of es ds wh k g c'] that by auto
    with CObj less.prems show ?thesis by (intro carries_object [of n es ds ns masks F, folded CObj]) auto
  qed
qed

section \<open>What an object type accepts\<close>

text \<open>A field that is present and of its type.\<close>

fun member_ok :: "formats \<Rightarrow> dfield list \<Rightarrow> member \<Rightarrow> bool" where
  "member_ok F ds (Member k j) = (case find (\<lambda>d. d_name d = k) ds of None \<Rightarrow> True | Some d \<Rightarrow> \<not> isl (decode F (d_codec d) j))"

lemma decode_members_ok: "\<not> isl (decode_members F ds ms st) \<longleftrightarrow> list_all (member_ok F ds) ms"
proof (induction ms arbitrary: st)
  case (Cons m ms)
  obtain k j where m: "m = Member k j" by (cases m)
  obtain fs bits where st: "st = (fs, bits)" by fastforce
  show ?case using Cons.IH by (auto simp: m st split: option.splits sum.splits)
qed simp

lemma decode_object:
  assumes "wf_codec (CObj n es ds ns masks)"
  shows "if list_all (member_ok F ds) ms
    then if absent ds ms = [] then \<exists>fs. decode F (CObj n es ds ns masks) (JObj ms) = Inr (VStruct fs)
         else decode F (CObj n es ds ns masks) (JObj ms) = Inl (Missing (absent ds ms))
    else \<exists>e. decode F (CObj n es ds ns masks) (JObj ms) = Inl (In_type n e)"
proof -
  have wf: "distinct (map d_name ds)" "ns = map d_name ds" "bits_ok ds masks" using assms by auto
  let ?run = "decode_members F ds ms (zero_struct ds, replicate (length masks) 0)"
  show ?thesis
  proof (cases ?run)
    case (Inl e)
    then have "\<not> list_all (member_ok F ds) ms" using decode_members_ok [of F ds ms "(zero_struct ds, replicate (length masks) 0)"] by simp
    with Inl show ?thesis by auto
  next
    case (Inr st)
    obtain fs bits where st: "st = (fs, bits)" by fastforce
    have "list_all (member_ok F ds) ms" using Inr decode_members_ok [of F ds ms "(zero_struct ds, replicate (length masks) 0)"] by simp
    with Inr st check_required_absent [OF wf(3,1,2)] show ?thesis by auto
  qed
qed

end
