(* ===== verification/Openapi_Types.thy ===== *)
theory Openapi_Types
  imports Openapi_Json
begin

text \<open>
  \<^verbatim>\<open>internal/openapi/ogen/oas_json_gen.go\<close>: the types of the OpenAPI document, with the statements of their \<^verbatim>\<open>Encode\<close> and \<^verbatim>\<open>Decode\<close>
  methods. The generated code passes the lemmas of \<open>Openapi_Json\<close>: the two methods of every type agree, so every value is read
  back as it was written.
\<close>

section \<open>Types\<close>

definition json_APIKeyStatus :: codec where
  "json_APIKeyStatus =
    CEnum [''active'', ''revoked'']"

definition json_APIKeyScope0 :: codec where
  "json_APIKeyScope0 =
    CMap ''APIKeyScope0'' CRaw"

definition json_APIKeyScope :: codec where
  "json_APIKeyScope =
    CSum (CArr CRaw) json_APIKeyScope0"

definition json_OptNilAPIKeyScope :: codec where
  "json_OptNilAPIKeyScope =
    COptNil json_APIKeyScope"

definition json_OptNilDateTime :: codec where
  "json_OptNilDateTime =
    COptNil CDateTime"

definition json_APIKey :: codec where
  "json_APIKey =
    CObj ''APIKey''
     [EField Always ''created_at'' ''CreatedAt'' CDateTime,
      EField If_Set ''expires_at'' ''ExpiresAt'' json_OptNilDateTime,
      EField Always ''id'' ''ID'' CInt64,
      EField If_Set ''last_used_at'' ''LastUsedAt'' json_OptNilDateTime,
      EField Always ''name'' ''Name'' CStr,
      EField Always ''prefix'' ''Prefix'' CStr,
      EField If_Set ''scope'' ''Scope'' json_OptNilAPIKeyScope,
      EField Always ''status'' ''Status'' json_APIKeyStatus]
     [DField ''created_at'' (Some (0, 0)) ''CreatedAt'' CDateTime,
      DField ''expires_at'' None ''ExpiresAt'' json_OptNilDateTime,
      DField ''id'' (Some (0, 2)) ''ID'' CInt64,
      DField ''last_used_at'' None ''LastUsedAt'' json_OptNilDateTime,
      DField ''name'' (Some (0, 4)) ''Name'' CStr,
      DField ''prefix'' (Some (0, 5)) ''Prefix'' CStr,
      DField ''scope'' None ''Scope'' json_OptNilAPIKeyScope,
      DField ''status'' (Some (0, 7)) ''Status'' json_APIKeyStatus]
     [''created_at'', ''expires_at'', ''id'', ''last_used_at'', ''name'', ''prefix'', ''scope'', ''status'']
     [0xB5]"

definition json_APIKeyListResponse :: codec where
  "json_APIKeyListResponse =
    CObj ''APIKeyListResponse''
     [EField Always ''data'' ''Data'' (CArr json_APIKey)]
     [DField ''data'' (Some (0, 0)) ''Data'' (CArr json_APIKey)]
     [''data'']
     [1]"

definition json_OptDateTime :: codec where
  "json_OptDateTime =
    COpt CDateTime"

definition json_OptFloat64 :: codec where
  "json_OptFloat64 =
    COpt CFloat"

definition json_OptString :: codec where
  "json_OptString =
    COpt CStr"

definition json_AntigravityCredits :: codec where
  "json_AntigravityCredits =
    CObj ''AntigravityCredits''
     [EField Always ''available'' ''Available'' CBool,
      EField If_Set ''credit_amount'' ''CreditAmount'' json_OptFloat64,
      EField Always ''known'' ''Known'' CBool,
      EField If_Set ''min_credit_amount'' ''MinCreditAmount'' json_OptFloat64,
      EField If_Set ''paid_tier_id'' ''PaidTierID'' json_OptString,
      EField If_Set ''updated_at'' ''UpdatedAt'' json_OptDateTime]
     [DField ''available'' (Some (0, 0)) ''Available'' CBool,
      DField ''credit_amount'' None ''CreditAmount'' json_OptFloat64,
      DField ''known'' (Some (0, 2)) ''Known'' CBool,
      DField ''min_credit_amount'' None ''MinCreditAmount'' json_OptFloat64,
      DField ''paid_tier_id'' None ''PaidTierID'' json_OptString,
      DField ''updated_at'' None ''UpdatedAt'' json_OptDateTime]
     [''available'', ''credit_amount'', ''known'', ''min_credit_amount'', ''paid_tier_id'', ''updated_at'']
     [5]"

definition json_OptAntigravityCredits :: codec where
  "json_OptAntigravityCredits =
    COpt json_AntigravityCredits"

definition json_OptInt :: codec where
  "json_OptInt =
    COpt CInt"

definition json_UpstreamQuota :: codec where
  "json_UpstreamQuota =
    CObj ''UpstreamQuota''
     [EField If_Set ''backoff_level'' ''BackoffLevel'' json_OptInt,
      EField Always ''exceeded'' ''Exceeded'' CBool,
      EField If_Set ''next_recover_at'' ''NextRecoverAt'' json_OptDateTime,
      EField If_Set ''reason'' ''Reason'' json_OptString,
      EField Always ''unknown'' ''Unknown'' CBool]
     [DField ''backoff_level'' None ''BackoffLevel'' json_OptInt,
      DField ''exceeded'' (Some (0, 1)) ''Exceeded'' CBool,
      DField ''next_recover_at'' None ''NextRecoverAt'' json_OptDateTime,
      DField ''reason'' None ''Reason'' json_OptString,
      DField ''unknown'' (Some (0, 4)) ''Unknown'' CBool]
     [''backoff_level'', ''exceeded'', ''next_recover_at'', ''reason'', ''unknown'']
     [0x12]"

definition json_AccountQuotaResponse :: codec where
  "json_AccountQuotaResponse =
    CObj ''AccountQuotaResponse''
     [EField Always ''account_id'' ''AccountID'' CStr,
      EField If_Set ''antigravity_credits'' ''AntigravityCredits'' json_OptAntigravityCredits,
      EField If_Set ''expires_at'' ''ExpiresAt'' json_OptDateTime,
      EField Always ''provider'' ''Provider'' CStr,
      EField Always ''quota'' ''Quota'' json_UpstreamQuota]
     [DField ''account_id'' (Some (0, 0)) ''AccountID'' CStr,
      DField ''antigravity_credits'' None ''AntigravityCredits'' json_OptAntigravityCredits,
      DField ''expires_at'' None ''ExpiresAt'' json_OptDateTime,
      DField ''provider'' (Some (0, 3)) ''Provider'' CStr,
      DField ''quota'' (Some (0, 4)) ''Quota'' json_UpstreamQuota]
     [''account_id'', ''antigravity_credits'', ''expires_at'', ''provider'', ''quota'']
     [0x19]"

definition json_AccountTestResponseMethod :: codec where
  "json_AccountTestResponseMethod =
    CEnum [''refresh'', ''http_probe'']"

definition json_AccountTestResponse :: codec where
  "json_AccountTestResponse =
    CObj ''AccountTestResponse''
     [EField If_Set ''error'' ''Error'' json_OptString,
      EField If_Set ''expires_at'' ''ExpiresAt'' json_OptDateTime,
      EField If_Set ''last_refreshed_at'' ''LastRefreshedAt'' json_OptDateTime,
      EField Always ''method'' ''Method'' json_AccountTestResponseMethod,
      EField Always ''quota'' ''Quota'' json_UpstreamQuota,
      EField If_Set ''status_code'' ''StatusCode'' json_OptInt,
      EField Always ''valid'' ''Valid'' CBool]
     [DField ''error'' None ''Error'' json_OptString,
      DField ''expires_at'' None ''ExpiresAt'' json_OptDateTime,
      DField ''last_refreshed_at'' None ''LastRefreshedAt'' json_OptDateTime,
      DField ''method'' (Some (0, 3)) ''Method'' json_AccountTestResponseMethod,
      DField ''quota'' (Some (0, 4)) ''Quota'' json_UpstreamQuota,
      DField ''status_code'' None ''StatusCode'' json_OptInt,
      DField ''valid'' (Some (0, 6)) ''Valid'' CBool]
     [''error'', ''expires_at'', ''last_refreshed_at'', ''method'', ''quota'', ''status_code'', ''valid'']
     [0x58]"

definition json_AdminAPIKeyOwnerIdentitySource :: codec where
  "json_AdminAPIKeyOwnerIdentitySource =
    CEnum [''ldap'', ''static'']"

definition json_AdminAPIKeyOwnerStatus :: codec where
  "json_AdminAPIKeyOwnerStatus =
    CEnum [''active'', ''blocked'']"

definition json_AdminAPIKeyStatus :: codec where
  "json_AdminAPIKeyStatus =
    CEnum [''active'', ''revoked'']"

definition json_AdminAPIKeyScope0 :: codec where
  "json_AdminAPIKeyScope0 =
    CMap ''AdminAPIKeyScope0'' CRaw"

definition json_AdminAPIKeyScope :: codec where
  "json_AdminAPIKeyScope =
    CSum (CArr CRaw) json_AdminAPIKeyScope0"

definition json_OptNilAdminAPIKeyScope :: codec where
  "json_OptNilAdminAPIKeyScope =
    COptNil json_AdminAPIKeyScope"

definition json_AdminAPIKey :: codec where
  "json_AdminAPIKey =
    CObj ''AdminAPIKey''
     [EField Always ''created_at'' ''CreatedAt'' CDateTime,
      EField If_Set ''expires_at'' ''ExpiresAt'' json_OptNilDateTime,
      EField Always ''id'' ''ID'' CInt64,
      EField If_Set ''last_used_at'' ''LastUsedAt'' json_OptNilDateTime,
      EField Always ''name'' ''Name'' CStr,
      EField Always ''prefix'' ''Prefix'' CStr,
      EField If_Set ''scope'' ''Scope'' json_OptNilAdminAPIKeyScope,
      EField Always ''status'' ''Status'' json_AdminAPIKeyStatus,
      EField Always ''owner_identity_source'' ''OwnerIdentitySource'' json_AdminAPIKeyOwnerIdentitySource,
      EField Always ''owner_status'' ''OwnerStatus'' json_AdminAPIKeyOwnerStatus,
      EField Always ''owner_username'' ''OwnerUsername'' CStr,
      EField Always ''user_id'' ''UserID'' CInt64]
     [DField ''created_at'' (Some (0, 0)) ''CreatedAt'' CDateTime,
      DField ''expires_at'' None ''ExpiresAt'' json_OptNilDateTime,
      DField ''id'' (Some (0, 2)) ''ID'' CInt64,
      DField ''last_used_at'' None ''LastUsedAt'' json_OptNilDateTime,
      DField ''name'' (Some (0, 4)) ''Name'' CStr,
      DField ''prefix'' (Some (0, 5)) ''Prefix'' CStr,
      DField ''scope'' None ''Scope'' json_OptNilAdminAPIKeyScope,
      DField ''status'' (Some (0, 7)) ''Status'' json_AdminAPIKeyStatus,
      DField ''owner_identity_source'' (Some (1, 0)) ''OwnerIdentitySource'' json_AdminAPIKeyOwnerIdentitySource,
      DField ''owner_status'' (Some (1, 1)) ''OwnerStatus'' json_AdminAPIKeyOwnerStatus,
      DField ''owner_username'' (Some (1, 2)) ''OwnerUsername'' CStr,
      DField ''user_id'' (Some (1, 3)) ''UserID'' CInt64]
     [''created_at'', ''expires_at'', ''id'', ''last_used_at'', ''name'', ''prefix'', ''scope'', ''status'', ''owner_identity_source'', ''owner_status'', ''owner_username'', ''user_id'']
     [0xB5, 0x0F]"

definition json_AdminAPIKeyListResponse :: codec where
  "json_AdminAPIKeyListResponse =
    CObj ''AdminAPIKeyListResponse''
     [EField Always ''data'' ''Data'' (CArr json_AdminAPIKey)]
     [DField ''data'' (Some (0, 0)) ''Data'' (CArr json_AdminAPIKey)]
     [''data'']
     [1]"

definition json_AdminUserIdentitySource :: codec where
  "json_AdminUserIdentitySource =
    CEnum [''ldap'', ''static'']"

definition json_AdminUserRole :: codec where
  "json_AdminUserRole =
    CEnum [''user'', ''admin'']"

definition json_AdminUserStatus :: codec where
  "json_AdminUserStatus =
    CEnum [''active'', ''blocked'']"

definition json_AdminUser :: codec where
  "json_AdminUser =
    CObj ''AdminUser''
     [EField Always ''created_at'' ''CreatedAt'' CDateTime,
      EField Always ''email'' ''Email'' CStr,
      EField Always ''id'' ''ID'' CInt64,
      EField Always ''identity_source'' ''IdentitySource'' json_AdminUserIdentitySource,
      EField Always ''role'' ''Role'' json_AdminUserRole,
      EField Always ''status'' ''Status'' json_AdminUserStatus,
      EField Always ''updated_at'' ''UpdatedAt'' CDateTime,
      EField Always ''username'' ''Username'' CStr]
     [DField ''created_at'' (Some (0, 0)) ''CreatedAt'' CDateTime,
      DField ''email'' (Some (0, 1)) ''Email'' CStr,
      DField ''id'' (Some (0, 2)) ''ID'' CInt64,
      DField ''identity_source'' (Some (0, 3)) ''IdentitySource'' json_AdminUserIdentitySource,
      DField ''role'' (Some (0, 4)) ''Role'' json_AdminUserRole,
      DField ''status'' (Some (0, 5)) ''Status'' json_AdminUserStatus,
      DField ''updated_at'' (Some (0, 6)) ''UpdatedAt'' CDateTime,
      DField ''username'' (Some (0, 7)) ''Username'' CStr]
     [''created_at'', ''email'', ''id'', ''identity_source'', ''role'', ''status'', ''updated_at'', ''username'']
     [0xFF]"

definition json_AdminUserListResponse :: codec where
  "json_AdminUserListResponse =
    CObj ''AdminUserListResponse''
     [EField Always ''data'' ''Data'' (CArr json_AdminUser)]
     [DField ''data'' (Some (0, 0)) ''Data'' (CArr json_AdminUser)]
     [''data'']
     [1]"

definition json_CreateAPIKeyRequestScope0 :: codec where
  "json_CreateAPIKeyRequestScope0 =
    CMap ''CreateAPIKeyRequestScope0'' CRaw"

definition json_CreateAPIKeyRequestScope :: codec where
  "json_CreateAPIKeyRequestScope =
    CSum (CArr CRaw) json_CreateAPIKeyRequestScope0"

definition json_OptNilCreateAPIKeyRequestScope :: codec where
  "json_OptNilCreateAPIKeyRequestScope =
    COptNil json_CreateAPIKeyRequestScope"

definition json_CreateAPIKeyRequest :: codec where
  "json_CreateAPIKeyRequest =
    CObj ''CreateAPIKeyRequest''
     [EField If_Set ''expires_at'' ''ExpiresAt'' json_OptNilDateTime,
      EField If_Set ''name'' ''Name'' json_OptString,
      EField If_Set ''scope'' ''Scope'' json_OptNilCreateAPIKeyRequestScope]
     [DField ''expires_at'' None ''ExpiresAt'' json_OptNilDateTime,
      DField ''name'' None ''Name'' json_OptString,
      DField ''scope'' None ''Scope'' json_OptNilCreateAPIKeyRequestScope]
     [''expires_at'', ''name'', ''scope'']
     []"

definition json_CreateAPIKeyResponse :: codec where
  "json_CreateAPIKeyResponse =
    CObj ''CreateAPIKeyResponse''
     [EField Always ''api_key'' ''APIKey'' json_APIKey,
      EField Always ''key'' ''Key'' CStr]
     [DField ''api_key'' (Some (0, 0)) ''APIKey'' json_APIKey,
      DField ''key'' (Some (0, 1)) ''Key'' CStr]
     [''api_key'', ''key'']
     [3]"

definition json_OptURI :: codec where
  "json_OptURI =
    COpt CURI"

definition json_ProviderAPIKeyAccount :: codec where
  "json_ProviderAPIKeyAccount =
    CObj ''ProviderAPIKeyAccount''
     [EField Always ''api_key'' ''APIKey'' CStr,
      EField If_Set ''base_url'' ''BaseURL'' json_OptURI,
      EField If_Set ''label'' ''Label'' json_OptString,
      EField Always ''provider'' ''Provider'' CStr]
     [DField ''api_key'' (Some (0, 0)) ''APIKey'' CStr,
      DField ''base_url'' None ''BaseURL'' json_OptURI,
      DField ''label'' None ''Label'' json_OptString,
      DField ''provider'' (Some (0, 3)) ''Provider'' CStr]
     [''api_key'', ''base_url'', ''label'', ''provider'']
     [9]"

definition json_CreateProviderKeysRequest :: codec where
  "json_CreateProviderKeysRequest =
    CObj ''CreateProviderKeysRequest''
     [EField Always ''accounts'' ''Accounts'' (CArr json_ProviderAPIKeyAccount)]
     [DField ''accounts'' (Some (0, 0)) ''Accounts'' (CArr json_ProviderAPIKeyAccount)]
     [''accounts'']
     [1]"

definition json_CurrentUserResponseRole :: codec where
  "json_CurrentUserResponseRole =
    CEnum [''user'', ''admin'']"

definition json_CurrentUserResponse :: codec where
  "json_CurrentUserResponse =
    CObj ''CurrentUserResponse''
     [EField Always ''role'' ''Role'' json_CurrentUserResponseRole,
      EField Always ''user_id'' ''UserID'' CInt64]
     [DField ''role'' (Some (0, 0)) ''Role'' json_CurrentUserResponseRole,
      DField ''user_id'' (Some (0, 1)) ''UserID'' CInt64]
     [''role'', ''user_id'']
     [3]"

definition json_ErrorError :: codec where
  "json_ErrorError =
    CObj ''ErrorError''
     [EField If_Set ''code'' ''Code'' json_OptString,
      EField Always ''message'' ''Message'' CStr,
      EField If_Set ''type'' ''Type'' json_OptString]
     [DField ''code'' None ''Code'' json_OptString,
      DField ''message'' (Some (0, 1)) ''Message'' CStr,
      DField ''type'' None ''Type'' json_OptString]
     [''code'', ''message'', ''type'']
     [2]"

definition json_Error :: codec where
  "json_Error =
    CObj ''Error''
     [EField Always ''error'' ''Error'' json_ErrorError]
     [DField ''error'' (Some (0, 0)) ''Error'' json_ErrorError]
     [''error'']
     [1]"

definition json_ImportedOAuthCredential :: codec where
  "json_ImportedOAuthCredential =
    CObj ''ImportedOAuthCredential''
     [EField Always ''email'' ''Email'' CStr,
      EField Always ''id'' ''ID'' CStr,
      EField Always ''provider'' ''Provider'' CStr]
     [DField ''email'' (Some (0, 0)) ''Email'' CStr,
      DField ''id'' (Some (0, 1)) ''ID'' CStr,
      DField ''provider'' (Some (0, 2)) ''Provider'' CStr]
     [''email'', ''id'', ''provider'']
     [7]"

definition json_LoginRequest :: codec where
  "json_LoginRequest =
    CObj ''LoginRequest''
     [EField Always ''password'' ''Password'' CStr,
      EField Always ''username'' ''Username'' CStr]
     [DField ''password'' (Some (0, 0)) ''Password'' CStr,
      DField ''username'' (Some (0, 1)) ''Username'' CStr]
     [''password'', ''username'']
     [3]"

definition json_LoginResponseRole :: codec where
  "json_LoginResponseRole =
    CEnum [''user'', ''admin'']"

definition json_LoginResponse :: codec where
  "json_LoginResponse =
    CObj ''LoginResponse''
     [EField Always ''expires_at'' ''ExpiresAt'' CDateTime,
      EField Always ''role'' ''Role'' json_LoginResponseRole,
      EField Always ''user_id'' ''UserID'' CInt64]
     [DField ''expires_at'' (Some (0, 0)) ''ExpiresAt'' CDateTime,
      DField ''role'' (Some (0, 1)) ''Role'' json_LoginResponseRole,
      DField ''user_id'' (Some (0, 2)) ''UserID'' CInt64]
     [''expires_at'', ''role'', ''user_id'']
     [7]"

definition json_ModelOverride :: codec where
  "json_ModelOverride =
    CObj ''ModelOverride''
     [EField If_Nonempty ''config'' ''Config'' CRaw,
      EField Always ''enabled'' ''Enabled'' CBool,
      EField Always ''id'' ''ID'' CInt64,
      EField Always ''model_alias'' ''ModelAlias'' CStr,
      EField Always ''provider'' ''Provider'' CStr,
      EField Always ''upstream_model'' ''UpstreamModel'' CStr]
     [DField ''config'' None ''Config'' CRaw,
      DField ''enabled'' (Some (0, 1)) ''Enabled'' CBool,
      DField ''id'' (Some (0, 2)) ''ID'' CInt64,
      DField ''model_alias'' (Some (0, 3)) ''ModelAlias'' CStr,
      DField ''provider'' (Some (0, 4)) ''Provider'' CStr,
      DField ''upstream_model'' (Some (0, 5)) ''UpstreamModel'' CStr]
     [''config'', ''enabled'', ''id'', ''model_alias'', ''provider'', ''upstream_model'']
     [0x3E]"

definition json_ModelOverrideListResponse :: codec where
  "json_ModelOverrideListResponse =
    CObj ''ModelOverrideListResponse''
     [EField Always ''data'' ''Data'' (CArr json_ModelOverride)]
     [DField ''data'' (Some (0, 0)) ''Data'' (CArr json_ModelOverride)]
     [''data'']
     [1]"

definition json_OAuthCredentialAttributes :: codec where
  "json_OAuthCredentialAttributes =
    CMap ''OAuthCredentialAttributes'' CStr"

definition json_OAuthCredentialMetadata :: codec where
  "json_OAuthCredentialMetadata =
    CMap ''OAuthCredentialMetadata'' CRaw"

definition json_OptBool :: codec where
  "json_OptBool =
    COpt CBool"

definition json_OAuthCredential :: codec where
  "json_OAuthCredential =
    CObj ''OAuthCredential''
     [EField Always ''attributes'' ''Attributes'' json_OAuthCredentialAttributes,
      EField If_Set ''created_at'' ''CreatedAt'' json_OptDateTime,
      EField If_Set ''disabled'' ''Disabled'' json_OptBool,
      EField If_Set ''id'' ''ID'' json_OptString,
      EField If_Set ''label'' ''Label'' json_OptString,
      EField If_Set ''last_refreshed_at'' ''LastRefreshedAt'' json_OptDateTime,
      EField Always ''metadata'' ''Metadata'' json_OAuthCredentialMetadata,
      EField If_Set ''next_refresh_after'' ''NextRefreshAfter'' json_OptDateTime,
      EField Always ''provider'' ''Provider'' CStr,
      EField If_Set ''proxy_url'' ''ProxyURL'' json_OptString,
      EField If_Set ''status'' ''Status'' json_OptString,
      EField If_Set ''updated_at'' ''UpdatedAt'' json_OptDateTime]
     [DField ''attributes'' (Some (0, 0)) ''Attributes'' json_OAuthCredentialAttributes,
      DField ''created_at'' None ''CreatedAt'' json_OptDateTime,
      DField ''disabled'' None ''Disabled'' json_OptBool,
      DField ''id'' None ''ID'' json_OptString,
      DField ''label'' None ''Label'' json_OptString,
      DField ''last_refreshed_at'' None ''LastRefreshedAt'' json_OptDateTime,
      DField ''metadata'' (Some (0, 6)) ''Metadata'' json_OAuthCredentialMetadata,
      DField ''next_refresh_after'' None ''NextRefreshAfter'' json_OptDateTime,
      DField ''provider'' (Some (1, 0)) ''Provider'' CStr,
      DField ''proxy_url'' None ''ProxyURL'' json_OptString,
      DField ''status'' None ''Status'' json_OptString,
      DField ''updated_at'' None ''UpdatedAt'' json_OptDateTime]
     [''attributes'', ''created_at'', ''disabled'', ''id'', ''label'', ''last_refreshed_at'', ''metadata'', ''next_refresh_after'', ''provider'', ''proxy_url'', ''status'', ''updated_at'']
     [0x41, 1]"

definition json_OAuthSessionFlowType :: codec where
  "json_OAuthSessionFlowType =
    CEnum [''callback'', ''device'']"

definition json_OAuthSessionStatus :: codec where
  "json_OAuthSessionStatus =
    CEnum [''pending'', ''completed'', ''error'', ''cancelled'']"

definition json_OAuthSession :: codec where
  "json_OAuthSession =
    CObj ''OAuthSession''
     [EField If_Set ''auth_id'' ''AuthID'' json_OptString,
      EField Always ''created_at'' ''CreatedAt'' CDateTime,
      EField If_Set ''error_message'' ''ErrorMessage'' json_OptString,
      EField Always ''expires_at'' ''ExpiresAt'' CDateTime,
      EField Always ''flow_type'' ''FlowType'' json_OAuthSessionFlowType,
      EField Always ''provider'' ''Provider'' CStr,
      EField Always ''state'' ''State'' CStr,
      EField Always ''status'' ''Status'' json_OAuthSessionStatus,
      EField Always ''updated_at'' ''UpdatedAt'' CDateTime,
      EField If_Set ''user_code'' ''UserCode'' json_OptString]
     [DField ''auth_id'' None ''AuthID'' json_OptString,
      DField ''created_at'' (Some (0, 1)) ''CreatedAt'' CDateTime,
      DField ''error_message'' None ''ErrorMessage'' json_OptString,
      DField ''expires_at'' (Some (0, 3)) ''ExpiresAt'' CDateTime,
      DField ''flow_type'' (Some (0, 4)) ''FlowType'' json_OAuthSessionFlowType,
      DField ''provider'' (Some (0, 5)) ''Provider'' CStr,
      DField ''state'' (Some (0, 6)) ''State'' CStr,
      DField ''status'' (Some (0, 7)) ''Status'' json_OAuthSessionStatus,
      DField ''updated_at'' (Some (1, 0)) ''UpdatedAt'' CDateTime,
      DField ''user_code'' None ''UserCode'' json_OptString]
     [''auth_id'', ''created_at'', ''error_message'', ''expires_at'', ''flow_type'', ''provider'', ''state'', ''status'', ''updated_at'', ''user_code'']
     [0xFA, 1]"

definition json_OAuthSessionListResponse :: codec where
  "json_OAuthSessionListResponse =
    CObj ''OAuthSessionListResponse''
     [EField Always ''data'' ''Data'' (CArr json_OAuthSession)]
     [DField ''data'' (Some (0, 0)) ''Data'' (CArr json_OAuthSession)]
     [''data'']
     [1]"

definition json_OpenapiJsonOK :: codec where
  "json_OpenapiJsonOK =
    CObj ''OpenapiJsonOK''
     []
     []
     []
     []"

definition json_ProviderAPIKey :: codec where
  "json_ProviderAPIKey =
    CObj ''ProviderAPIKey''
     [EField Always ''id'' ''ID'' CStr,
      EField If_Set ''label'' ''Label'' json_OptString,
      EField Always ''provider'' ''Provider'' CStr]
     [DField ''id'' (Some (0, 0)) ''ID'' CStr,
      DField ''label'' None ''Label'' json_OptString,
      DField ''provider'' (Some (0, 2)) ''Provider'' CStr]
     [''id'', ''label'', ''provider'']
     [5]"

definition json_ProviderAPIKeyListResponse :: codec where
  "json_ProviderAPIKeyListResponse =
    CObj ''ProviderAPIKeyListResponse''
     [EField Always ''data'' ''Data'' (CArr json_ProviderAPIKey)]
     [DField ''data'' (Some (0, 0)) ''Data'' (CArr json_ProviderAPIKey)]
     [''data'']
     [1]"

definition json_SetUserStatusRequestStatus :: codec where
  "json_SetUserStatusRequestStatus =
    CEnum [''active'', ''blocked'']"

definition json_SetUserStatusRequest :: codec where
  "json_SetUserStatusRequest =
    CObj ''SetUserStatusRequest''
     [EField Always ''status'' ''Status'' json_SetUserStatusRequestStatus]
     [DField ''status'' (Some (0, 0)) ''Status'' json_SetUserStatusRequestStatus]
     [''status'']
     [1]"

definition json_UpsertModelOverrideRequest :: codec where
  "json_UpsertModelOverrideRequest =
    CObj ''UpsertModelOverrideRequest''
     [EField If_Nonempty ''config'' ''Config'' CRaw,
      EField Always ''enabled'' ''Enabled'' CBool,
      EField Always ''provider'' ''Provider'' CStr,
      EField Always ''upstream_model'' ''UpstreamModel'' CStr]
     [DField ''config'' None ''Config'' CRaw,
      DField ''enabled'' (Some (0, 1)) ''Enabled'' CBool,
      DField ''provider'' (Some (0, 2)) ''Provider'' CStr,
      DField ''upstream_model'' (Some (0, 3)) ''UpstreamModel'' CStr]
     [''config'', ''enabled'', ''provider'', ''upstream_model'']
     [0x0E]"

definition json_UsageAPIKeySummary :: codec where
  "json_UsageAPIKeySummary =
    CObj ''UsageAPIKeySummary''
     [EField Always ''api_key_id'' ''APIKeyID'' CInt64,
      EField Always ''failed_request_count'' ''FailedRequestCount'' CInt64,
      EField Always ''request_count'' ''RequestCount'' CInt64,
      EField Always ''total_tokens'' ''TotalTokens'' CInt64]
     [DField ''api_key_id'' (Some (0, 0)) ''APIKeyID'' CInt64,
      DField ''failed_request_count'' (Some (0, 1)) ''FailedRequestCount'' CInt64,
      DField ''request_count'' (Some (0, 2)) ''RequestCount'' CInt64,
      DField ''total_tokens'' (Some (0, 3)) ''TotalTokens'' CInt64]
     [''api_key_id'', ''failed_request_count'', ''request_count'', ''total_tokens'']
     [0x0F]"

definition json_UsageModelSummary :: codec where
  "json_UsageModelSummary =
    CObj ''UsageModelSummary''
     [EField Always ''failed_request_count'' ''FailedRequestCount'' CInt64,
      EField Always ''model'' ''Model'' CStr,
      EField Always ''request_count'' ''RequestCount'' CInt64,
      EField Always ''total_tokens'' ''TotalTokens'' CInt64]
     [DField ''failed_request_count'' (Some (0, 0)) ''FailedRequestCount'' CInt64,
      DField ''model'' (Some (0, 1)) ''Model'' CStr,
      DField ''request_count'' (Some (0, 2)) ''RequestCount'' CInt64,
      DField ''total_tokens'' (Some (0, 3)) ''TotalTokens'' CInt64]
     [''failed_request_count'', ''model'', ''request_count'', ''total_tokens'']
     [0x0F]"

definition json_UsageResponse :: codec where
  "json_UsageResponse =
    CObj ''UsageResponse''
     [EField Always ''by_api_key'' ''ByAPIKey'' (CArr json_UsageAPIKeySummary),
      EField Always ''by_model'' ''ByModel'' (CArr json_UsageModelSummary),
      EField Always ''cached_tokens'' ''CachedTokens'' CInt64,
      EField Always ''failed_request_count'' ''FailedRequestCount'' CInt64,
      EField Always ''from'' ''From'' CDateTime,
      EField Always ''input_tokens'' ''InputTokens'' CInt64,
      EField Always ''output_tokens'' ''OutputTokens'' CInt64,
      EField Always ''reasoning_tokens'' ''ReasoningTokens'' CInt64,
      EField Always ''request_count'' ''RequestCount'' CInt64,
      EField Always ''to'' ''To'' CDateTime,
      EField Always ''total_tokens'' ''TotalTokens'' CInt64]
     [DField ''by_api_key'' (Some (0, 0)) ''ByAPIKey'' (CArr json_UsageAPIKeySummary),
      DField ''by_model'' (Some (0, 1)) ''ByModel'' (CArr json_UsageModelSummary),
      DField ''cached_tokens'' (Some (0, 2)) ''CachedTokens'' CInt64,
      DField ''failed_request_count'' (Some (0, 3)) ''FailedRequestCount'' CInt64,
      DField ''from'' (Some (0, 4)) ''From'' CDateTime,
      DField ''input_tokens'' (Some (0, 5)) ''InputTokens'' CInt64,
      DField ''output_tokens'' (Some (0, 6)) ''OutputTokens'' CInt64,
      DField ''reasoning_tokens'' (Some (0, 7)) ''ReasoningTokens'' CInt64,
      DField ''request_count'' (Some (1, 0)) ''RequestCount'' CInt64,
      DField ''to'' (Some (1, 1)) ''To'' CDateTime,
      DField ''total_tokens'' (Some (1, 2)) ''TotalTokens'' CInt64]
     [''by_api_key'', ''by_model'', ''cached_tokens'', ''failed_request_count'', ''from'', ''input_tokens'', ''output_tokens'', ''reasoning_tokens'', ''request_count'', ''to'', ''total_tokens'']
     [0xFF, 7]"

section \<open>Errors of the operations\<close>

text \<open>Each response with an error has a type of its own, an alias of \<open>Error\<close>.\<close>

definition json_CreateMyAPIKeyBadRequest :: codec where
  "json_CreateMyAPIKeyBadRequest = CAlias json_Error"

definition json_CreateMyAPIKeyInternalServerError :: codec where
  "json_CreateMyAPIKeyInternalServerError = CAlias json_Error"

definition json_CreateMyAPIKeyUnauthorized :: codec where
  "json_CreateMyAPIKeyUnauthorized = CAlias json_Error"

definition json_CreateProviderAPIKeysBadRequest :: codec where
  "json_CreateProviderAPIKeysBadRequest = CAlias json_Error"

definition json_CreateProviderAPIKeysForbidden :: codec where
  "json_CreateProviderAPIKeysForbidden = CAlias json_Error"

definition json_CreateProviderAPIKeysInternalServerError :: codec where
  "json_CreateProviderAPIKeysInternalServerError = CAlias json_Error"

definition json_CreateProviderAPIKeysUnauthorized :: codec where
  "json_CreateProviderAPIKeysUnauthorized = CAlias json_Error"

definition json_ExportOAuthCredentialBadRequest :: codec where
  "json_ExportOAuthCredentialBadRequest = CAlias json_Error"

definition json_ExportOAuthCredentialForbidden :: codec where
  "json_ExportOAuthCredentialForbidden = CAlias json_Error"

definition json_ExportOAuthCredentialInternalServerError :: codec where
  "json_ExportOAuthCredentialInternalServerError = CAlias json_Error"

definition json_ExportOAuthCredentialNotFound :: codec where
  "json_ExportOAuthCredentialNotFound = CAlias json_Error"

definition json_ExportOAuthCredentialUnauthorized :: codec where
  "json_ExportOAuthCredentialUnauthorized = CAlias json_Error"

definition json_GetMyUsageBadRequest :: codec where
  "json_GetMyUsageBadRequest = CAlias json_Error"

definition json_GetMyUsageInternalServerError :: codec where
  "json_GetMyUsageInternalServerError = CAlias json_Error"

definition json_GetMyUsageUnauthorized :: codec where
  "json_GetMyUsageUnauthorized = CAlias json_Error"

definition json_GetUpstreamAccountQuotaForbidden :: codec where
  "json_GetUpstreamAccountQuotaForbidden = CAlias json_Error"

definition json_GetUpstreamAccountQuotaInternalServerError :: codec where
  "json_GetUpstreamAccountQuotaInternalServerError = CAlias json_Error"

definition json_GetUpstreamAccountQuotaNotFound :: codec where
  "json_GetUpstreamAccountQuotaNotFound = CAlias json_Error"

definition json_GetUpstreamAccountQuotaUnauthorized :: codec where
  "json_GetUpstreamAccountQuotaUnauthorized = CAlias json_Error"

definition json_ImportOAuthCredentialBadRequest :: codec where
  "json_ImportOAuthCredentialBadRequest = CAlias json_Error"

definition json_ImportOAuthCredentialConflict :: codec where
  "json_ImportOAuthCredentialConflict = CAlias json_Error"

definition json_ImportOAuthCredentialForbidden :: codec where
  "json_ImportOAuthCredentialForbidden = CAlias json_Error"

definition json_ImportOAuthCredentialInternalServerError :: codec where
  "json_ImportOAuthCredentialInternalServerError = CAlias json_Error"

definition json_ImportOAuthCredentialRequestEntityTooLarge :: codec where
  "json_ImportOAuthCredentialRequestEntityTooLarge = CAlias json_Error"

definition json_ImportOAuthCredentialUnauthorized :: codec where
  "json_ImportOAuthCredentialUnauthorized = CAlias json_Error"

definition json_ImportOAuthCredentialUnsupportedMediaType :: codec where
  "json_ImportOAuthCredentialUnsupportedMediaType = CAlias json_Error"

definition json_ListAllAPIKeysForbidden :: codec where
  "json_ListAllAPIKeysForbidden = CAlias json_Error"

definition json_ListAllAPIKeysInternalServerError :: codec where
  "json_ListAllAPIKeysInternalServerError = CAlias json_Error"

definition json_ListAllAPIKeysUnauthorized :: codec where
  "json_ListAllAPIKeysUnauthorized = CAlias json_Error"

definition json_ListMyAPIKeysInternalServerError :: codec where
  "json_ListMyAPIKeysInternalServerError = CAlias json_Error"

definition json_ListMyAPIKeysUnauthorized :: codec where
  "json_ListMyAPIKeysUnauthorized = CAlias json_Error"

definition json_ListPendingOAuthSessionsForbidden :: codec where
  "json_ListPendingOAuthSessionsForbidden = CAlias json_Error"

definition json_ListPendingOAuthSessionsUnauthorized :: codec where
  "json_ListPendingOAuthSessionsUnauthorized = CAlias json_Error"

definition json_ListUsersForbidden :: codec where
  "json_ListUsersForbidden = CAlias json_Error"

definition json_ListUsersInternalServerError :: codec where
  "json_ListUsersInternalServerError = CAlias json_Error"

definition json_ListUsersUnauthorized :: codec where
  "json_ListUsersUnauthorized = CAlias json_Error"

definition json_LoginBadRequest :: codec where
  "json_LoginBadRequest = CAlias json_Error"

definition json_LoginForbidden :: codec where
  "json_LoginForbidden = CAlias json_Error"

definition json_LoginInternalServerError :: codec where
  "json_LoginInternalServerError = CAlias json_Error"

definition json_LoginUnauthorized :: codec where
  "json_LoginUnauthorized = CAlias json_Error"

definition json_ProxyAlphaSearchBadRequest :: codec where
  "json_ProxyAlphaSearchBadRequest = CAlias json_Error"

definition json_ProxyAlphaSearchInternalServerError :: codec where
  "json_ProxyAlphaSearchInternalServerError = CAlias json_Error"

definition json_ProxyAlphaSearchUnauthorized :: codec where
  "json_ProxyAlphaSearchUnauthorized = CAlias json_Error"

definition json_ProxyChatCompletionsBadRequest :: codec where
  "json_ProxyChatCompletionsBadRequest = CAlias json_Error"

definition json_ProxyChatCompletionsInternalServerError :: codec where
  "json_ProxyChatCompletionsInternalServerError = CAlias json_Error"

definition json_ProxyChatCompletionsUnauthorized :: codec where
  "json_ProxyChatCompletionsUnauthorized = CAlias json_Error"

definition json_ProxyCodexAlphaSearchBadRequest :: codec where
  "json_ProxyCodexAlphaSearchBadRequest = CAlias json_Error"

definition json_ProxyCodexAlphaSearchInternalServerError :: codec where
  "json_ProxyCodexAlphaSearchInternalServerError = CAlias json_Error"

definition json_ProxyCodexAlphaSearchUnauthorized :: codec where
  "json_ProxyCodexAlphaSearchUnauthorized = CAlias json_Error"

definition json_ProxyCodexResponsesBadRequest :: codec where
  "json_ProxyCodexResponsesBadRequest = CAlias json_Error"

definition json_ProxyCodexResponsesCompactBadRequest :: codec where
  "json_ProxyCodexResponsesCompactBadRequest = CAlias json_Error"

definition json_ProxyCodexResponsesCompactInternalServerError :: codec where
  "json_ProxyCodexResponsesCompactInternalServerError = CAlias json_Error"

definition json_ProxyCodexResponsesCompactUnauthorized :: codec where
  "json_ProxyCodexResponsesCompactUnauthorized = CAlias json_Error"

definition json_ProxyCodexResponsesInternalServerError :: codec where
  "json_ProxyCodexResponsesInternalServerError = CAlias json_Error"

definition json_ProxyCodexResponsesUnauthorized :: codec where
  "json_ProxyCodexResponsesUnauthorized = CAlias json_Error"

definition json_ProxyCodexResponsesWebsocketBadRequest :: codec where
  "json_ProxyCodexResponsesWebsocketBadRequest = CAlias json_Error"

definition json_ProxyCodexResponsesWebsocketInternalServerError :: codec where
  "json_ProxyCodexResponsesWebsocketInternalServerError = CAlias json_Error"

definition json_ProxyCodexResponsesWebsocketUnauthorized :: codec where
  "json_ProxyCodexResponsesWebsocketUnauthorized = CAlias json_Error"

definition json_ProxyCompletionsBadRequest :: codec where
  "json_ProxyCompletionsBadRequest = CAlias json_Error"

definition json_ProxyCompletionsInternalServerError :: codec where
  "json_ProxyCompletionsInternalServerError = CAlias json_Error"

definition json_ProxyCompletionsUnauthorized :: codec where
  "json_ProxyCompletionsUnauthorized = CAlias json_Error"

definition json_ProxyGeminiInteractionsBadRequest :: codec where
  "json_ProxyGeminiInteractionsBadRequest = CAlias json_Error"

definition json_ProxyGeminiInteractionsInternalServerError :: codec where
  "json_ProxyGeminiInteractionsInternalServerError = CAlias json_Error"

definition json_ProxyGeminiInteractionsUnauthorized :: codec where
  "json_ProxyGeminiInteractionsUnauthorized = CAlias json_Error"

definition json_ProxyGeminiModelActionGetBadRequest :: codec where
  "json_ProxyGeminiModelActionGetBadRequest = CAlias json_Error"

definition json_ProxyGeminiModelActionGetInternalServerError :: codec where
  "json_ProxyGeminiModelActionGetInternalServerError = CAlias json_Error"

definition json_ProxyGeminiModelActionGetUnauthorized :: codec where
  "json_ProxyGeminiModelActionGetUnauthorized = CAlias json_Error"

definition json_ProxyGeminiModelActionPostBadRequest :: codec where
  "json_ProxyGeminiModelActionPostBadRequest = CAlias json_Error"

definition json_ProxyGeminiModelActionPostInternalServerError :: codec where
  "json_ProxyGeminiModelActionPostInternalServerError = CAlias json_Error"

definition json_ProxyGeminiModelActionPostUnauthorized :: codec where
  "json_ProxyGeminiModelActionPostUnauthorized = CAlias json_Error"

definition json_ProxyGeminiModelsBadRequest :: codec where
  "json_ProxyGeminiModelsBadRequest = CAlias json_Error"

definition json_ProxyGeminiModelsInternalServerError :: codec where
  "json_ProxyGeminiModelsInternalServerError = CAlias json_Error"

definition json_ProxyGeminiModelsUnauthorized :: codec where
  "json_ProxyGeminiModelsUnauthorized = CAlias json_Error"

definition json_ProxyImageEditsBadRequest :: codec where
  "json_ProxyImageEditsBadRequest = CAlias json_Error"

definition json_ProxyImageEditsInternalServerError :: codec where
  "json_ProxyImageEditsInternalServerError = CAlias json_Error"

definition json_ProxyImageEditsUnauthorized :: codec where
  "json_ProxyImageEditsUnauthorized = CAlias json_Error"

definition json_ProxyImageGenerationsBadRequest :: codec where
  "json_ProxyImageGenerationsBadRequest = CAlias json_Error"

definition json_ProxyImageGenerationsInternalServerError :: codec where
  "json_ProxyImageGenerationsInternalServerError = CAlias json_Error"

definition json_ProxyImageGenerationsUnauthorized :: codec where
  "json_ProxyImageGenerationsUnauthorized = CAlias json_Error"

definition json_ProxyMessagesBadRequest :: codec where
  "json_ProxyMessagesBadRequest = CAlias json_Error"

definition json_ProxyMessagesCountTokensBadRequest :: codec where
  "json_ProxyMessagesCountTokensBadRequest = CAlias json_Error"

definition json_ProxyMessagesCountTokensInternalServerError :: codec where
  "json_ProxyMessagesCountTokensInternalServerError = CAlias json_Error"

definition json_ProxyMessagesCountTokensUnauthorized :: codec where
  "json_ProxyMessagesCountTokensUnauthorized = CAlias json_Error"

definition json_ProxyMessagesInternalServerError :: codec where
  "json_ProxyMessagesInternalServerError = CAlias json_Error"

definition json_ProxyMessagesUnauthorized :: codec where
  "json_ProxyMessagesUnauthorized = CAlias json_Error"

definition json_ProxyModelsInternalServerError :: codec where
  "json_ProxyModelsInternalServerError = CAlias json_Error"

definition json_ProxyModelsUnauthorized :: codec where
  "json_ProxyModelsUnauthorized = CAlias json_Error"

definition json_ProxyOpenAIVideosContentBadRequest :: codec where
  "json_ProxyOpenAIVideosContentBadRequest = CAlias json_Error"

definition json_ProxyOpenAIVideosContentInternalServerError :: codec where
  "json_ProxyOpenAIVideosContentInternalServerError = CAlias json_Error"

definition json_ProxyOpenAIVideosContentNotFound :: codec where
  "json_ProxyOpenAIVideosContentNotFound = CAlias json_Error"

definition json_ProxyOpenAIVideosContentUnauthorized :: codec where
  "json_ProxyOpenAIVideosContentUnauthorized = CAlias json_Error"

definition json_ProxyOpenAIVideosCreateBadRequest :: codec where
  "json_ProxyOpenAIVideosCreateBadRequest = CAlias json_Error"

definition json_ProxyOpenAIVideosCreateInternalServerError :: codec where
  "json_ProxyOpenAIVideosCreateInternalServerError = CAlias json_Error"

definition json_ProxyOpenAIVideosCreateUnauthorized :: codec where
  "json_ProxyOpenAIVideosCreateUnauthorized = CAlias json_Error"

definition json_ProxyOpenAIVideosRetrieveBadRequest :: codec where
  "json_ProxyOpenAIVideosRetrieveBadRequest = CAlias json_Error"

definition json_ProxyOpenAIVideosRetrieveInternalServerError :: codec where
  "json_ProxyOpenAIVideosRetrieveInternalServerError = CAlias json_Error"

definition json_ProxyOpenAIVideosRetrieveNotFound :: codec where
  "json_ProxyOpenAIVideosRetrieveNotFound = CAlias json_Error"

definition json_ProxyOpenAIVideosRetrieveUnauthorized :: codec where
  "json_ProxyOpenAIVideosRetrieveUnauthorized = CAlias json_Error"

definition json_ProxyResponsesBadRequest :: codec where
  "json_ProxyResponsesBadRequest = CAlias json_Error"

definition json_ProxyResponsesCompactBadRequest :: codec where
  "json_ProxyResponsesCompactBadRequest = CAlias json_Error"

definition json_ProxyResponsesCompactInternalServerError :: codec where
  "json_ProxyResponsesCompactInternalServerError = CAlias json_Error"

definition json_ProxyResponsesCompactUnauthorized :: codec where
  "json_ProxyResponsesCompactUnauthorized = CAlias json_Error"

definition json_ProxyResponsesInternalServerError :: codec where
  "json_ProxyResponsesInternalServerError = CAlias json_Error"

definition json_ProxyResponsesUnauthorized :: codec where
  "json_ProxyResponsesUnauthorized = CAlias json_Error"

definition json_ProxyResponsesWebsocketBadRequest :: codec where
  "json_ProxyResponsesWebsocketBadRequest = CAlias json_Error"

definition json_ProxyResponsesWebsocketInternalServerError :: codec where
  "json_ProxyResponsesWebsocketInternalServerError = CAlias json_Error"

definition json_ProxyResponsesWebsocketUnauthorized :: codec where
  "json_ProxyResponsesWebsocketUnauthorized = CAlias json_Error"

definition json_ProxyXAIVideoEditsBadRequest :: codec where
  "json_ProxyXAIVideoEditsBadRequest = CAlias json_Error"

definition json_ProxyXAIVideoEditsInternalServerError :: codec where
  "json_ProxyXAIVideoEditsInternalServerError = CAlias json_Error"

definition json_ProxyXAIVideoEditsUnauthorized :: codec where
  "json_ProxyXAIVideoEditsUnauthorized = CAlias json_Error"

definition json_ProxyXAIVideoExtensionsBadRequest :: codec where
  "json_ProxyXAIVideoExtensionsBadRequest = CAlias json_Error"

definition json_ProxyXAIVideoExtensionsInternalServerError :: codec where
  "json_ProxyXAIVideoExtensionsInternalServerError = CAlias json_Error"

definition json_ProxyXAIVideoExtensionsUnauthorized :: codec where
  "json_ProxyXAIVideoExtensionsUnauthorized = CAlias json_Error"

definition json_ProxyXAIVideoGenerationsBadRequest :: codec where
  "json_ProxyXAIVideoGenerationsBadRequest = CAlias json_Error"

definition json_ProxyXAIVideoGenerationsInternalServerError :: codec where
  "json_ProxyXAIVideoGenerationsInternalServerError = CAlias json_Error"

definition json_ProxyXAIVideoGenerationsUnauthorized :: codec where
  "json_ProxyXAIVideoGenerationsUnauthorized = CAlias json_Error"

definition json_ProxyXAIVideoRetrieveBadRequest :: codec where
  "json_ProxyXAIVideoRetrieveBadRequest = CAlias json_Error"

definition json_ProxyXAIVideoRetrieveInternalServerError :: codec where
  "json_ProxyXAIVideoRetrieveInternalServerError = CAlias json_Error"

definition json_ProxyXAIVideoRetrieveNotFound :: codec where
  "json_ProxyXAIVideoRetrieveNotFound = CAlias json_Error"

definition json_ProxyXAIVideoRetrieveUnauthorized :: codec where
  "json_ProxyXAIVideoRetrieveUnauthorized = CAlias json_Error"

definition json_ProxyXAIVideosBadRequest :: codec where
  "json_ProxyXAIVideosBadRequest = CAlias json_Error"

definition json_ProxyXAIVideosInternalServerError :: codec where
  "json_ProxyXAIVideosInternalServerError = CAlias json_Error"

definition json_ProxyXAIVideosUnauthorized :: codec where
  "json_ProxyXAIVideosUnauthorized = CAlias json_Error"

definition json_RevokeMyAPIKeyBadRequest :: codec where
  "json_RevokeMyAPIKeyBadRequest = CAlias json_Error"

definition json_RevokeMyAPIKeyInternalServerError :: codec where
  "json_RevokeMyAPIKeyInternalServerError = CAlias json_Error"

definition json_RevokeMyAPIKeyNotFound :: codec where
  "json_RevokeMyAPIKeyNotFound = CAlias json_Error"

definition json_RevokeMyAPIKeyUnauthorized :: codec where
  "json_RevokeMyAPIKeyUnauthorized = CAlias json_Error"

definition json_SetUserStatusBadRequest :: codec where
  "json_SetUserStatusBadRequest = CAlias json_Error"

definition json_SetUserStatusForbidden :: codec where
  "json_SetUserStatusForbidden = CAlias json_Error"

definition json_SetUserStatusInternalServerError :: codec where
  "json_SetUserStatusInternalServerError = CAlias json_Error"

definition json_SetUserStatusNotFound :: codec where
  "json_SetUserStatusNotFound = CAlias json_Error"

definition json_SetUserStatusUnauthorized :: codec where
  "json_SetUserStatusUnauthorized = CAlias json_Error"

definition json_TestUpstreamAccountBadRequest :: codec where
  "json_TestUpstreamAccountBadRequest = CAlias json_Error"

definition json_TestUpstreamAccountForbidden :: codec where
  "json_TestUpstreamAccountForbidden = CAlias json_Error"

definition json_TestUpstreamAccountInternalServerError :: codec where
  "json_TestUpstreamAccountInternalServerError = CAlias json_Error"

definition json_TestUpstreamAccountNotFound :: codec where
  "json_TestUpstreamAccountNotFound = CAlias json_Error"

definition json_TestUpstreamAccountUnauthorized :: codec where
  "json_TestUpstreamAccountUnauthorized = CAlias json_Error"

section \<open>All types\<close>

definition document_types :: "codec list" where
  "document_types =
    [json_APIKeyStatus, json_APIKeyScope0, json_APIKeyScope, json_OptNilAPIKeyScope, json_OptNilDateTime, json_APIKey,
     json_APIKeyListResponse, json_OptDateTime, json_OptFloat64, json_OptString, json_AntigravityCredits,
     json_OptAntigravityCredits, json_OptInt, json_UpstreamQuota, json_AccountQuotaResponse, json_AccountTestResponseMethod,
     json_AccountTestResponse, json_AdminAPIKeyOwnerIdentitySource, json_AdminAPIKeyOwnerStatus, json_AdminAPIKeyStatus,
     json_AdminAPIKeyScope0, json_AdminAPIKeyScope, json_OptNilAdminAPIKeyScope, json_AdminAPIKey, json_AdminAPIKeyListResponse,
     json_AdminUserIdentitySource, json_AdminUserRole, json_AdminUserStatus, json_AdminUser, json_AdminUserListResponse,
     json_CreateAPIKeyRequestScope0, json_CreateAPIKeyRequestScope, json_OptNilCreateAPIKeyRequestScope,
     json_CreateAPIKeyRequest, json_CreateAPIKeyResponse, json_OptURI, json_ProviderAPIKeyAccount,
     json_CreateProviderKeysRequest, json_CurrentUserResponseRole, json_CurrentUserResponse, json_ErrorError, json_Error,
     json_ImportedOAuthCredential, json_LoginRequest, json_LoginResponseRole, json_LoginResponse, json_ModelOverride,
     json_ModelOverrideListResponse, json_OAuthCredentialAttributes, json_OAuthCredentialMetadata, json_OptBool,
     json_OAuthCredential, json_OAuthSessionFlowType, json_OAuthSessionStatus, json_OAuthSession, json_OAuthSessionListResponse,
     json_OpenapiJsonOK, json_ProviderAPIKey, json_ProviderAPIKeyListResponse, json_SetUserStatusRequestStatus,
     json_SetUserStatusRequest, json_UpsertModelOverrideRequest, json_UsageAPIKeySummary, json_UsageModelSummary,
     json_UsageResponse]"

definition error_types :: "codec list" where
  "error_types =
    [json_CreateMyAPIKeyBadRequest, json_CreateMyAPIKeyInternalServerError, json_CreateMyAPIKeyUnauthorized,
     json_CreateProviderAPIKeysBadRequest, json_CreateProviderAPIKeysForbidden, json_CreateProviderAPIKeysInternalServerError,
     json_CreateProviderAPIKeysUnauthorized, json_ExportOAuthCredentialBadRequest, json_ExportOAuthCredentialForbidden,
     json_ExportOAuthCredentialInternalServerError, json_ExportOAuthCredentialNotFound, json_ExportOAuthCredentialUnauthorized,
     json_GetMyUsageBadRequest, json_GetMyUsageInternalServerError, json_GetMyUsageUnauthorized,
     json_GetUpstreamAccountQuotaForbidden, json_GetUpstreamAccountQuotaInternalServerError,
     json_GetUpstreamAccountQuotaNotFound, json_GetUpstreamAccountQuotaUnauthorized, json_ImportOAuthCredentialBadRequest,
     json_ImportOAuthCredentialConflict, json_ImportOAuthCredentialForbidden, json_ImportOAuthCredentialInternalServerError,
     json_ImportOAuthCredentialRequestEntityTooLarge, json_ImportOAuthCredentialUnauthorized,
     json_ImportOAuthCredentialUnsupportedMediaType, json_ListAllAPIKeysForbidden, json_ListAllAPIKeysInternalServerError,
     json_ListAllAPIKeysUnauthorized, json_ListMyAPIKeysInternalServerError, json_ListMyAPIKeysUnauthorized,
     json_ListPendingOAuthSessionsForbidden, json_ListPendingOAuthSessionsUnauthorized, json_ListUsersForbidden,
     json_ListUsersInternalServerError, json_ListUsersUnauthorized, json_LoginBadRequest, json_LoginForbidden,
     json_LoginInternalServerError, json_LoginUnauthorized, json_ProxyAlphaSearchBadRequest,
     json_ProxyAlphaSearchInternalServerError, json_ProxyAlphaSearchUnauthorized, json_ProxyChatCompletionsBadRequest,
     json_ProxyChatCompletionsInternalServerError, json_ProxyChatCompletionsUnauthorized, json_ProxyCodexAlphaSearchBadRequest,
     json_ProxyCodexAlphaSearchInternalServerError, json_ProxyCodexAlphaSearchUnauthorized, json_ProxyCodexResponsesBadRequest,
     json_ProxyCodexResponsesCompactBadRequest, json_ProxyCodexResponsesCompactInternalServerError,
     json_ProxyCodexResponsesCompactUnauthorized, json_ProxyCodexResponsesInternalServerError,
     json_ProxyCodexResponsesUnauthorized, json_ProxyCodexResponsesWebsocketBadRequest,
     json_ProxyCodexResponsesWebsocketInternalServerError, json_ProxyCodexResponsesWebsocketUnauthorized,
     json_ProxyCompletionsBadRequest, json_ProxyCompletionsInternalServerError, json_ProxyCompletionsUnauthorized,
     json_ProxyGeminiInteractionsBadRequest, json_ProxyGeminiInteractionsInternalServerError,
     json_ProxyGeminiInteractionsUnauthorized, json_ProxyGeminiModelActionGetBadRequest,
     json_ProxyGeminiModelActionGetInternalServerError, json_ProxyGeminiModelActionGetUnauthorized,
     json_ProxyGeminiModelActionPostBadRequest, json_ProxyGeminiModelActionPostInternalServerError,
     json_ProxyGeminiModelActionPostUnauthorized, json_ProxyGeminiModelsBadRequest, json_ProxyGeminiModelsInternalServerError,
     json_ProxyGeminiModelsUnauthorized, json_ProxyImageEditsBadRequest, json_ProxyImageEditsInternalServerError,
     json_ProxyImageEditsUnauthorized, json_ProxyImageGenerationsBadRequest, json_ProxyImageGenerationsInternalServerError,
     json_ProxyImageGenerationsUnauthorized, json_ProxyMessagesBadRequest, json_ProxyMessagesCountTokensBadRequest,
     json_ProxyMessagesCountTokensInternalServerError, json_ProxyMessagesCountTokensUnauthorized,
     json_ProxyMessagesInternalServerError, json_ProxyMessagesUnauthorized, json_ProxyModelsInternalServerError,
     json_ProxyModelsUnauthorized, json_ProxyOpenAIVideosContentBadRequest, json_ProxyOpenAIVideosContentInternalServerError,
     json_ProxyOpenAIVideosContentNotFound, json_ProxyOpenAIVideosContentUnauthorized, json_ProxyOpenAIVideosCreateBadRequest,
     json_ProxyOpenAIVideosCreateInternalServerError, json_ProxyOpenAIVideosCreateUnauthorized,
     json_ProxyOpenAIVideosRetrieveBadRequest, json_ProxyOpenAIVideosRetrieveInternalServerError,
     json_ProxyOpenAIVideosRetrieveNotFound, json_ProxyOpenAIVideosRetrieveUnauthorized, json_ProxyResponsesBadRequest,
     json_ProxyResponsesCompactBadRequest, json_ProxyResponsesCompactInternalServerError,
     json_ProxyResponsesCompactUnauthorized, json_ProxyResponsesInternalServerError, json_ProxyResponsesUnauthorized,
     json_ProxyResponsesWebsocketBadRequest, json_ProxyResponsesWebsocketInternalServerError,
     json_ProxyResponsesWebsocketUnauthorized, json_ProxyXAIVideoEditsBadRequest, json_ProxyXAIVideoEditsInternalServerError,
     json_ProxyXAIVideoEditsUnauthorized, json_ProxyXAIVideoExtensionsBadRequest,
     json_ProxyXAIVideoExtensionsInternalServerError, json_ProxyXAIVideoExtensionsUnauthorized,
     json_ProxyXAIVideoGenerationsBadRequest, json_ProxyXAIVideoGenerationsInternalServerError,
     json_ProxyXAIVideoGenerationsUnauthorized, json_ProxyXAIVideoRetrieveBadRequest,
     json_ProxyXAIVideoRetrieveInternalServerError, json_ProxyXAIVideoRetrieveNotFound, json_ProxyXAIVideoRetrieveUnauthorized,
     json_ProxyXAIVideosBadRequest, json_ProxyXAIVideosInternalServerError, json_ProxyXAIVideosUnauthorized,
     json_RevokeMyAPIKeyBadRequest, json_RevokeMyAPIKeyInternalServerError, json_RevokeMyAPIKeyNotFound,
     json_RevokeMyAPIKeyUnauthorized, json_SetUserStatusBadRequest, json_SetUserStatusForbidden,
     json_SetUserStatusInternalServerError, json_SetUserStatusNotFound, json_SetUserStatusUnauthorized,
     json_TestUpstreamAccountBadRequest, json_TestUpstreamAccountForbidden, json_TestUpstreamAccountInternalServerError,
     json_TestUpstreamAccountNotFound, json_TestUpstreamAccountUnauthorized]"

lemmas json_type_defs = json_APIKeyStatus_def json_APIKeyScope0_def json_APIKeyScope_def json_OptNilAPIKeyScope_def json_OptNilDateTime_def json_APIKey_def json_APIKeyListResponse_def json_OptDateTime_def json_OptFloat64_def json_OptString_def json_AntigravityCredits_def json_OptAntigravityCredits_def json_OptInt_def json_UpstreamQuota_def json_AccountQuotaResponse_def json_AccountTestResponseMethod_def json_AccountTestResponse_def json_AdminAPIKeyOwnerIdentitySource_def json_AdminAPIKeyOwnerStatus_def json_AdminAPIKeyStatus_def json_AdminAPIKeyScope0_def json_AdminAPIKeyScope_def json_OptNilAdminAPIKeyScope_def json_AdminAPIKey_def json_AdminAPIKeyListResponse_def json_AdminUserIdentitySource_def json_AdminUserRole_def json_AdminUserStatus_def json_AdminUser_def json_AdminUserListResponse_def json_CreateAPIKeyRequestScope0_def json_CreateAPIKeyRequestScope_def json_OptNilCreateAPIKeyRequestScope_def json_CreateAPIKeyRequest_def json_CreateAPIKeyResponse_def json_OptURI_def json_ProviderAPIKeyAccount_def json_CreateProviderKeysRequest_def json_CurrentUserResponseRole_def json_CurrentUserResponse_def json_ErrorError_def json_Error_def json_ImportedOAuthCredential_def json_LoginRequest_def json_LoginResponseRole_def json_LoginResponse_def json_ModelOverride_def json_ModelOverrideListResponse_def json_OAuthCredentialAttributes_def json_OAuthCredentialMetadata_def json_OptBool_def json_OAuthCredential_def json_OAuthSessionFlowType_def json_OAuthSessionStatus_def json_OAuthSession_def json_OAuthSessionListResponse_def json_OpenapiJsonOK_def json_ProviderAPIKey_def json_ProviderAPIKeyListResponse_def json_SetUserStatusRequestStatus_def json_SetUserStatusRequest_def json_UpsertModelOverrideRequest_def json_UsageAPIKeySummary_def json_UsageModelSummary_def json_UsageResponse_def

lemma document_types_wf: "list_all wf_codec document_types"
  by code_simp

lemma error_type_alias: "list_all (\<lambda>c. c = CAlias json_Error) error_types"
  by (simp add: error_types_def json_CreateMyAPIKeyBadRequest_def json_CreateMyAPIKeyInternalServerError_def json_CreateMyAPIKeyUnauthorized_def json_CreateProviderAPIKeysBadRequest_def json_CreateProviderAPIKeysForbidden_def json_CreateProviderAPIKeysInternalServerError_def json_CreateProviderAPIKeysUnauthorized_def json_ExportOAuthCredentialBadRequest_def json_ExportOAuthCredentialForbidden_def json_ExportOAuthCredentialInternalServerError_def json_ExportOAuthCredentialNotFound_def json_ExportOAuthCredentialUnauthorized_def json_GetMyUsageBadRequest_def json_GetMyUsageInternalServerError_def json_GetMyUsageUnauthorized_def json_GetUpstreamAccountQuotaForbidden_def json_GetUpstreamAccountQuotaInternalServerError_def json_GetUpstreamAccountQuotaNotFound_def json_GetUpstreamAccountQuotaUnauthorized_def json_ImportOAuthCredentialBadRequest_def json_ImportOAuthCredentialConflict_def json_ImportOAuthCredentialForbidden_def json_ImportOAuthCredentialInternalServerError_def json_ImportOAuthCredentialRequestEntityTooLarge_def json_ImportOAuthCredentialUnauthorized_def json_ImportOAuthCredentialUnsupportedMediaType_def json_ListAllAPIKeysForbidden_def json_ListAllAPIKeysInternalServerError_def json_ListAllAPIKeysUnauthorized_def json_ListMyAPIKeysInternalServerError_def json_ListMyAPIKeysUnauthorized_def json_ListPendingOAuthSessionsForbidden_def json_ListPendingOAuthSessionsUnauthorized_def json_ListUsersForbidden_def json_ListUsersInternalServerError_def json_ListUsersUnauthorized_def json_LoginBadRequest_def json_LoginForbidden_def json_LoginInternalServerError_def json_LoginUnauthorized_def json_ProxyAlphaSearchBadRequest_def json_ProxyAlphaSearchInternalServerError_def json_ProxyAlphaSearchUnauthorized_def json_ProxyChatCompletionsBadRequest_def json_ProxyChatCompletionsInternalServerError_def json_ProxyChatCompletionsUnauthorized_def json_ProxyCodexAlphaSearchBadRequest_def json_ProxyCodexAlphaSearchInternalServerError_def json_ProxyCodexAlphaSearchUnauthorized_def json_ProxyCodexResponsesBadRequest_def json_ProxyCodexResponsesCompactBadRequest_def json_ProxyCodexResponsesCompactInternalServerError_def json_ProxyCodexResponsesCompactUnauthorized_def json_ProxyCodexResponsesInternalServerError_def json_ProxyCodexResponsesUnauthorized_def json_ProxyCodexResponsesWebsocketBadRequest_def json_ProxyCodexResponsesWebsocketInternalServerError_def json_ProxyCodexResponsesWebsocketUnauthorized_def json_ProxyCompletionsBadRequest_def json_ProxyCompletionsInternalServerError_def json_ProxyCompletionsUnauthorized_def json_ProxyGeminiInteractionsBadRequest_def json_ProxyGeminiInteractionsInternalServerError_def json_ProxyGeminiInteractionsUnauthorized_def json_ProxyGeminiModelActionGetBadRequest_def json_ProxyGeminiModelActionGetInternalServerError_def json_ProxyGeminiModelActionGetUnauthorized_def json_ProxyGeminiModelActionPostBadRequest_def json_ProxyGeminiModelActionPostInternalServerError_def json_ProxyGeminiModelActionPostUnauthorized_def json_ProxyGeminiModelsBadRequest_def json_ProxyGeminiModelsInternalServerError_def json_ProxyGeminiModelsUnauthorized_def json_ProxyImageEditsBadRequest_def json_ProxyImageEditsInternalServerError_def json_ProxyImageEditsUnauthorized_def json_ProxyImageGenerationsBadRequest_def json_ProxyImageGenerationsInternalServerError_def json_ProxyImageGenerationsUnauthorized_def json_ProxyMessagesBadRequest_def json_ProxyMessagesCountTokensBadRequest_def json_ProxyMessagesCountTokensInternalServerError_def json_ProxyMessagesCountTokensUnauthorized_def json_ProxyMessagesInternalServerError_def json_ProxyMessagesUnauthorized_def json_ProxyModelsInternalServerError_def json_ProxyModelsUnauthorized_def json_ProxyOpenAIVideosContentBadRequest_def json_ProxyOpenAIVideosContentInternalServerError_def json_ProxyOpenAIVideosContentNotFound_def json_ProxyOpenAIVideosContentUnauthorized_def json_ProxyOpenAIVideosCreateBadRequest_def json_ProxyOpenAIVideosCreateInternalServerError_def json_ProxyOpenAIVideosCreateUnauthorized_def json_ProxyOpenAIVideosRetrieveBadRequest_def json_ProxyOpenAIVideosRetrieveInternalServerError_def json_ProxyOpenAIVideosRetrieveNotFound_def json_ProxyOpenAIVideosRetrieveUnauthorized_def json_ProxyResponsesBadRequest_def json_ProxyResponsesCompactBadRequest_def json_ProxyResponsesCompactInternalServerError_def json_ProxyResponsesCompactUnauthorized_def json_ProxyResponsesInternalServerError_def json_ProxyResponsesUnauthorized_def json_ProxyResponsesWebsocketBadRequest_def json_ProxyResponsesWebsocketInternalServerError_def json_ProxyResponsesWebsocketUnauthorized_def json_ProxyXAIVideoEditsBadRequest_def json_ProxyXAIVideoEditsInternalServerError_def json_ProxyXAIVideoEditsUnauthorized_def json_ProxyXAIVideoExtensionsBadRequest_def json_ProxyXAIVideoExtensionsInternalServerError_def json_ProxyXAIVideoExtensionsUnauthorized_def json_ProxyXAIVideoGenerationsBadRequest_def json_ProxyXAIVideoGenerationsInternalServerError_def json_ProxyXAIVideoGenerationsUnauthorized_def json_ProxyXAIVideoRetrieveBadRequest_def json_ProxyXAIVideoRetrieveInternalServerError_def json_ProxyXAIVideoRetrieveNotFound_def json_ProxyXAIVideoRetrieveUnauthorized_def json_ProxyXAIVideosBadRequest_def json_ProxyXAIVideosInternalServerError_def json_ProxyXAIVideosUnauthorized_def json_RevokeMyAPIKeyBadRequest_def json_RevokeMyAPIKeyInternalServerError_def json_RevokeMyAPIKeyNotFound_def json_RevokeMyAPIKeyUnauthorized_def json_SetUserStatusBadRequest_def json_SetUserStatusForbidden_def json_SetUserStatusInternalServerError_def json_SetUserStatusNotFound_def json_SetUserStatusUnauthorized_def json_TestUpstreamAccountBadRequest_def json_TestUpstreamAccountForbidden_def json_TestUpstreamAccountInternalServerError_def json_TestUpstreamAccountNotFound_def json_TestUpstreamAccountUnauthorized_def)

lemma generated_type_wf:
  assumes "c \<in> set document_types \<union> set error_types"
  shows "wf_codec c"
proof -
  have "wf_codec json_Error" and "plain json_Error" by code_simp+
  with assms document_types_wf error_type_alias show ?thesis by (auto simp: list_all_iff)
qed

end
