(* ===== verification/Openapi_Validators.thy ===== *)
theory Openapi_Validators
  imports Openapi_Types
begin

text \<open>
  \<^verbatim>\<open>internal/openapi/ogen/oas_validators_gen.go\<close>: the \<^verbatim>\<open>Validate\<close> methods of the types. As for the codecs, a definition lists the
  checks of one method and the meaning of the checks is given once. The checks of the library \<^verbatim>\<open>validate\<close> (lengths and ranges)
  are parameters.
\<close>

section \<open>Checks\<close>

datatype check =
    CkEnum "string list"
  | CkSum
  | CkOpt check
  | CkArr "(nat \<times> nat) option" "check option"
  | CkString nat
  | CkInt "int option" "int option"
  | CkFloat
  | CkFields "(string \<times> string \<times> check) list"

record checks =
  v_String :: "nat \<Rightarrow> string \<Rightarrow> bool"
  v_Int :: "int option \<Rightarrow> int option \<Rightarrow> int \<Rightarrow> bool"
  v_Float :: "int \<Rightarrow> bool"
  v_Array :: "nat \<times> nat \<Rightarrow> nat \<Rightarrow> bool"

datatype invalid =
    Invalid_value
  | Nil_value
  | Of_library string
  | Invalid_fields "(string \<times> invalid) list"

text \<open>
  \<^verbatim>\<open>Validate\<close>: no error is \<open>None\<close>. The checks of the fields all run and their errors are collected in order, those of the
  elements of a slice under their index.
\<close>

function validate :: "checks \<Rightarrow> check \<Rightarrow> gval \<Rightarrow> invalid option"
  and validate_fields :: "checks \<Rightarrow> (string \<times> string \<times> check) list \<Rightarrow> (string \<times> gval) list \<Rightarrow> (string \<times> invalid) list"
  and validate_elems :: "checks \<Rightarrow> check \<Rightarrow> nat \<Rightarrow> gval list \<Rightarrow> (string \<times> invalid) list" where
  "validate K (CkEnum cs) v = (case v of VStr s \<Rightarrow> if s \<in> set cs then None else Some Invalid_value | _ \<Rightarrow> Some Invalid_value)"
| "validate K CkSum v = (case v of VSum arr x \<Rightarrow> if arr \<and> x = VZero then Some Nil_value else None | _ \<Rightarrow> Some Invalid_value)"
| "validate K (CkOpt c) v = (if v = VUnset \<or> v = VNull then None else validate K c v)"
| "validate K (CkArr len el) v =
     (case v of
        VArr vs \<Rightarrow>
          (if (case len of Some l \<Rightarrow> \<not> v_Array K l (length vs) | None \<Rightarrow> False) then Some (Of_library ''array'')
           else (case el of
                   None \<Rightarrow> None
                 | Some c \<Rightarrow> (let failures = validate_elems K c 0 vs in if failures = [] then None else Some (Invalid_fields failures))))
      | _ \<Rightarrow> Some Nil_value)"
| "validate K (CkString n) v = (case v of VStr s \<Rightarrow> if v_String K n s then None else Some (Of_library ''string'') | _ \<Rightarrow> Some Invalid_value)"
| "validate K (CkInt lo hi) v = (case v of VInt i \<Rightarrow> if v_Int K lo hi i then None else Some (Of_library ''int'') | _ \<Rightarrow> Some Invalid_value)"
| "validate K CkFloat v = (case v of VFloat f \<Rightarrow> if v_Float K f then None else Some (Of_library ''float'') | _ \<Rightarrow> Some Invalid_value)"
| "validate K (CkFields fs) v =
     (case v of
        VStruct vs \<Rightarrow> (let failures = validate_fields K fs vs in if failures = [] then None else Some (Invalid_fields failures))
      | _ \<Rightarrow> Some Nil_value)"
| "validate_fields K [] vs = []"
| "validate_fields K ((k, g, c) # fs) vs =
     (case map_of vs g of
        None \<Rightarrow> [(k, Nil_value)]
      | Some v \<Rightarrow> (case validate K c v of None \<Rightarrow> [] | Some e \<Rightarrow> [(k, e)])) @ validate_fields K fs vs"
| "validate_elems K c i [] = []"
| "validate_elems K c i (v # vs) =
     (case validate K c v of None \<Rightarrow> [] | Some e \<Rightarrow> [(''['' @ FormatInt (int i) @ '']'', e)]) @ validate_elems K c (Suc i) vs"
  by pat_completeness auto
termination
  by (relation "inv_image (less_than <*lex*> less_than) (\<lambda>x. case x of
       Inl (K :: checks, c, v) \<Rightarrow> (size c, 0)
     | Inr (Inl (K, fs, vs)) \<Rightarrow> (size_list (size_prod (\<lambda>x. 0) (size_prod (\<lambda>x. 0) size)) fs, 0)
     | Inr (Inr (K, c, i, vs)) \<Rightarrow> (size c, Suc (length vs)))") auto

lemma validate_elems_ok: "validate_elems K c i vs = [] \<longleftrightarrow> list_all (\<lambda>v. validate K c v = None) vs"
  by (induction vs arbitrary: i) (auto split: option.splits)

lemma validate_fields_ok:
  "validate_fields K fs vs = [] \<longleftrightarrow> list_all (\<lambda>(k, g, c). \<exists>v. map_of vs g = Some v \<and> validate K c v = None) fs"
  by (induction fs) (auto split: option.splits)

section \<open>The methods\<close>

definition validate_APIKeyScope :: check where
  "validate_APIKeyScope =
    CkSum"

definition validate_APIKeyStatus :: check where
  "validate_APIKeyStatus =
    CkEnum [''active'', ''revoked'']"

definition validate_APIKey :: check where
  "validate_APIKey =
    CkFields
     [(''scope'', ''Scope'', CkOpt validate_APIKeyScope),
      (''status'', ''Status'', validate_APIKeyStatus)]"

definition validate_APIKeyListResponse :: check where
  "validate_APIKeyListResponse =
    CkFields
     [(''data'', ''Data'', CkArr None (Some validate_APIKey))]"

definition validate_AntigravityCredits :: check where
  "validate_AntigravityCredits =
    CkFields
     [(''credit_amount'', ''CreditAmount'', CkOpt CkFloat),
      (''min_credit_amount'', ''MinCreditAmount'', CkOpt CkFloat)]"

definition validate_UpstreamQuota :: check where
  "validate_UpstreamQuota =
    CkFields
     [(''backoff_level'', ''BackoffLevel'', CkOpt (CkInt (Some 0) None))]"

definition validate_AccountQuotaResponse :: check where
  "validate_AccountQuotaResponse =
    CkFields
     [(''antigravity_credits'', ''AntigravityCredits'', CkOpt validate_AntigravityCredits),
      (''quota'', ''Quota'', validate_UpstreamQuota)]"

definition validate_AccountTestResponseMethod :: check where
  "validate_AccountTestResponseMethod =
    CkEnum [''refresh'', ''http_probe'']"

definition validate_AccountTestResponse :: check where
  "validate_AccountTestResponse =
    CkFields
     [(''method'', ''Method'', validate_AccountTestResponseMethod),
      (''quota'', ''Quota'', validate_UpstreamQuota),
      (''status_code'', ''StatusCode'', CkOpt (CkInt (Some 100) (Some 599)))]"

definition validate_AdminAPIKeyOwnerIdentitySource :: check where
  "validate_AdminAPIKeyOwnerIdentitySource =
    CkEnum [''ldap'', ''static'']"

definition validate_AdminAPIKeyOwnerStatus :: check where
  "validate_AdminAPIKeyOwnerStatus =
    CkEnum [''active'', ''blocked'']"

definition validate_AdminAPIKeyScope :: check where
  "validate_AdminAPIKeyScope =
    CkSum"

definition validate_AdminAPIKeyStatus :: check where
  "validate_AdminAPIKeyStatus =
    CkEnum [''active'', ''revoked'']"

definition validate_AdminAPIKey :: check where
  "validate_AdminAPIKey =
    CkFields
     [(''scope'', ''Scope'', CkOpt validate_AdminAPIKeyScope),
      (''status'', ''Status'', validate_AdminAPIKeyStatus),
      (''owner_identity_source'', ''OwnerIdentitySource'', validate_AdminAPIKeyOwnerIdentitySource),
      (''owner_status'', ''OwnerStatus'', validate_AdminAPIKeyOwnerStatus)]"

definition validate_AdminAPIKeyListResponse :: check where
  "validate_AdminAPIKeyListResponse =
    CkFields
     [(''data'', ''Data'', CkArr None (Some validate_AdminAPIKey))]"

definition validate_AdminUserIdentitySource :: check where
  "validate_AdminUserIdentitySource =
    CkEnum [''ldap'', ''static'']"

definition validate_AdminUserRole :: check where
  "validate_AdminUserRole =
    CkEnum [''user'', ''admin'']"

definition validate_AdminUserStatus :: check where
  "validate_AdminUserStatus =
    CkEnum [''active'', ''blocked'']"

definition validate_AdminUser :: check where
  "validate_AdminUser =
    CkFields
     [(''identity_source'', ''IdentitySource'', validate_AdminUserIdentitySource),
      (''role'', ''Role'', validate_AdminUserRole),
      (''status'', ''Status'', validate_AdminUserStatus)]"

definition validate_AdminUserListResponse :: check where
  "validate_AdminUserListResponse =
    CkFields
     [(''data'', ''Data'', CkArr None (Some validate_AdminUser))]"

definition validate_CreateAPIKeyRequestScope :: check where
  "validate_CreateAPIKeyRequestScope =
    CkSum"

definition validate_CreateAPIKeyRequest :: check where
  "validate_CreateAPIKeyRequest =
    CkFields
     [(''scope'', ''Scope'', CkOpt validate_CreateAPIKeyRequestScope)]"

definition validate_CreateAPIKeyResponse :: check where
  "validate_CreateAPIKeyResponse =
    CkFields
     [(''api_key'', ''APIKey'', validate_APIKey)]"

definition validate_ProviderAPIKeyAccount :: check where
  "validate_ProviderAPIKeyAccount =
    CkFields
     [(''api_key'', ''APIKey'', CkString 1),
      (''provider'', ''Provider'', CkString 1)]"

definition validate_CreateProviderKeysRequest :: check where
  "validate_CreateProviderKeysRequest =
    CkFields
     [(''accounts'', ''Accounts'', CkArr (Some (1, 100)) (Some validate_ProviderAPIKeyAccount))]"

definition validate_CurrentUserResponseRole :: check where
  "validate_CurrentUserResponseRole =
    CkEnum [''user'', ''admin'']"

definition validate_CurrentUserResponse :: check where
  "validate_CurrentUserResponse =
    CkFields
     [(''role'', ''Role'', validate_CurrentUserResponseRole)]"

definition validate_LoginRequest :: check where
  "validate_LoginRequest =
    CkFields
     [(''password'', ''Password'', CkString 1),
      (''username'', ''Username'', CkString 1)]"

definition validate_LoginResponseRole :: check where
  "validate_LoginResponseRole =
    CkEnum [''user'', ''admin'']"

definition validate_LoginResponse :: check where
  "validate_LoginResponse =
    CkFields
     [(''role'', ''Role'', validate_LoginResponseRole)]"

definition validate_LoginResponseHeaders :: check where
  "validate_LoginResponseHeaders =
    CkFields
     [(''Response'', ''Response'', validate_LoginResponse)]"

definition validate_ModelOverrideListResponse :: check where
  "validate_ModelOverrideListResponse =
    CkFields
     [(''data'', ''Data'', CkArr None None)]"

definition validate_OAuthSessionFlowType :: check where
  "validate_OAuthSessionFlowType =
    CkEnum [''callback'', ''device'']"

definition validate_OAuthSessionStatus :: check where
  "validate_OAuthSessionStatus =
    CkEnum [''pending'', ''completed'', ''error'', ''cancelled'']"

definition validate_OAuthSession :: check where
  "validate_OAuthSession =
    CkFields
     [(''flow_type'', ''FlowType'', validate_OAuthSessionFlowType),
      (''status'', ''Status'', validate_OAuthSessionStatus)]"

definition validate_OAuthSessionListResponse :: check where
  "validate_OAuthSessionListResponse =
    CkFields
     [(''data'', ''Data'', CkArr None (Some validate_OAuthSession))]"

definition validate_ProviderAPIKeyListResponse :: check where
  "validate_ProviderAPIKeyListResponse =
    CkFields
     [(''data'', ''Data'', CkArr None None)]"

definition validate_SetUserStatusRequestStatus :: check where
  "validate_SetUserStatusRequestStatus =
    CkEnum [''active'', ''blocked'']"

definition validate_SetUserStatusRequest :: check where
  "validate_SetUserStatusRequest =
    CkFields
     [(''status'', ''Status'', validate_SetUserStatusRequestStatus)]"

definition validate_UsageResponse :: check where
  "validate_UsageResponse =
    CkFields
     [(''by_api_key'', ''ByAPIKey'', CkArr None None),
      (''by_model'', ''ByModel'', CkArr None None)]"

section \<open>Enumerations\<close>

text \<open>
  The codecs let any string pass as a value of an enumeration; it is \<^verbatim>\<open>Validate\<close> that keeps foreign values out. \<open>enums_ok c v\<close>: all
  enumerations in the value have one of the constants of their type. \<open>guards c ck\<close>: the checks reach every enumeration of the type.
\<close>

function enums_ok :: "codec \<Rightarrow> gval \<Rightarrow> bool"
  and enums_ok_fields :: "dfield list \<Rightarrow> (string \<times> gval) list \<Rightarrow> bool" where
  "enums_ok (CScalar x) v = (case x of SEnum cs \<Rightarrow> (case v of VStr s \<Rightarrow> s \<in> set cs | _ \<Rightarrow> False) | _ \<Rightarrow> True)"
| "enums_ok (COpt c) v = (v = VUnset \<or> enums_ok c v)"
| "enums_ok (COptNil c) v = (v = VUnset \<or> v = VNull \<or> enums_ok c v)"
| "enums_ok (CArr c) v = (case v of VArr vs \<Rightarrow> list_all (enums_ok c) vs | _ \<Rightarrow> True)"
| "enums_ok (CMap n c) v = (case v of VMap kvs \<Rightarrow> list_all (\<lambda>kv. enums_ok c (snd kv)) kvs | _ \<Rightarrow> True)"
| "enums_ok (CSum ca co) v = (case v of VSum arr x \<Rightarrow> if arr then enums_ok ca x else enums_ok co x | _ \<Rightarrow> True)"
| "enums_ok (CAlias c) v = enums_ok c v"
| "enums_ok (CObj n es ds ns ms) v = (case v of VStruct fs \<Rightarrow> enums_ok_fields ds fs | _ \<Rightarrow> True)"
| "enums_ok_fields [] fs = True"
| "enums_ok_fields (DField k b g c # ds) fs =
     ((case map_of fs g of None \<Rightarrow> True | Some v \<Rightarrow> enums_ok c v) \<and> enums_ok_fields ds fs)"
  by pat_completeness auto
termination
  by (relation "measure (\<lambda>x. case x of Inl (c, v) \<Rightarrow> size c | Inr (ds, fs) \<Rightarrow> size_list size ds)") auto

function enum_free :: "codec \<Rightarrow> bool"
  and enum_free_fields :: "dfield list \<Rightarrow> bool" where
  "enum_free (CScalar x) = (case x of SEnum cs \<Rightarrow> False | _ \<Rightarrow> True)"
| "enum_free (COpt c) = enum_free c"
| "enum_free (COptNil c) = enum_free c"
| "enum_free (CArr c) = enum_free c"
| "enum_free (CMap n c) = enum_free c"
| "enum_free (CSum ca co) = (enum_free ca \<and> enum_free co)"
| "enum_free (CAlias c) = enum_free c"
| "enum_free (CObj n es ds ns ms) = enum_free_fields ds"
| "enum_free_fields [] = True"
| "enum_free_fields (DField k b g c # ds) = (enum_free c \<and> enum_free_fields ds)"
  by pat_completeness auto
termination
  by (relation "measure (\<lambda>x. case x of Inl c \<Rightarrow> size c | Inr ds \<Rightarrow> size_list size ds)") auto

lemma enum_free_ok: "enum_free c \<Longrightarrow> enums_ok c v" "enum_free_fields ds \<Longrightarrow> enums_ok_fields ds fs"
  by (induction c v and ds fs rule: enums_ok_enums_ok_fields.induct)
    (auto simp: list_all_iff split: gval.splits scalar.splits option.splits)

function guards :: "codec \<Rightarrow> check \<Rightarrow> bool"
  and guards_fields :: "dfield list \<Rightarrow> (string \<times> string \<times> check) list \<Rightarrow> bool" where
  "guards (CScalar x) ck = (case x of SEnum cs \<Rightarrow> (case ck of CkEnum cs' \<Rightarrow> set cs' \<subseteq> set cs | _ \<Rightarrow> False) | _ \<Rightarrow> True)"
| "guards (COpt c) ck = enum_free c"
| "guards (COptNil c) ck = (enum_free c \<or> (case ck of CkOpt ck' \<Rightarrow> plain c \<and> guards c ck' | _ \<Rightarrow> False))"
| "guards (CArr c) ck = (enum_free c \<or> (case ck of CkArr len (Some ck') \<Rightarrow> guards c ck' | _ \<Rightarrow> False))"
| "guards (CMap n c) ck = enum_free c"
| "guards (CSum ca co) ck = (enum_free ca \<and> enum_free co)"
| "guards (CAlias c) ck = guards c ck"
| "guards (CObj n es ds ns ms) ck = (case ck of CkFields fs \<Rightarrow> guards_fields ds fs | _ \<Rightarrow> enum_free_fields ds)"
| "guards_fields [] fs = True"
| "guards_fields (DField k b g c # ds) fs =
     ((enum_free c \<or> (case find (\<lambda>(k', g', ck). g' = g) fs of None \<Rightarrow> False | Some (k', g', ck) \<Rightarrow> guards c ck)) \<and> guards_fields ds fs)"
  by pat_completeness auto
termination
  by (relation "measure (\<lambda>x. case x of Inl (c, ck) \<Rightarrow> size c | Inr (ds, fs) \<Rightarrow> size_list size ds)") auto

lemma guards_sound:
  "guards c ck \<Longrightarrow> validate K ck v = None \<Longrightarrow> enums_ok c v"
  "guards_fields ds fs \<Longrightarrow> validate_fields K fs vs = [] \<Longrightarrow> enums_ok_fields ds vs"
proof (induction c ck and ds fs arbitrary: v and vs rule: guards_guards_fields.induct)
  case (1 x ck)
  then show ?case by (auto split: scalar.splits check.splits gval.splits if_splits)
next
  case (2 c ck)
  then show ?case by (simp add: enum_free_ok)
next
  case (3 c ck)
  then show ?case by (auto simp: enum_free_ok split: check.splits if_splits)
next
  case (4 c ck)
  then show ?case
    by (auto simp: enum_free_ok validate_elems_ok list_all_iff Let_def split: check.splits option.splits gval.splits if_splits)
next
  case (5 n c ck)
  then show ?case by (auto simp: enum_free_ok list_all_iff split: gval.splits)
next
  case (6 ca co ck)
  then show ?case by (auto simp: enum_free_ok split: gval.splits)
next
  case (8 n es ds ns ms ck)
  then show ?case by (cases ck; cases v) (auto simp: enum_free_ok Let_def split: if_splits)
next
  case (10 k b g c ds fs)
  from 10(3) have rest: "enums_ok_fields ds vs" using 10(2,4) by simp
  show ?case
  proof (cases "enum_free c")
    case False
    with 10(3) obtain k' g' ck where f: "find (\<lambda>(k', g', ck). g' = g) fs = Some (k', g', ck)" "guards c ck" by (auto split: option.splits)
    then have "(k', g, ck) \<in> set fs" by (auto simp: find_Some_iff in_set_conv_nth)
    with 10(4) obtain v where "map_of vs g = Some v" "validate K ck v = None" by (auto simp: validate_fields_ok list_all_iff)
    with 10(1) [OF f(1) refl refl f(2)] rest show ?thesis by auto
  qed (use rest in \<open>auto simp: enum_free_ok split: option.splits\<close>)
qed simp_all

end
