(* ===== verification/Openapi_Wire.thy ===== *)
theory Openapi_Wire
  imports Openapi_Validators Openapi_Router
begin

text \<open>
  The messages between the generated client and the generated server (\<^verbatim>\<open>internal/openapi/ogen\<close>) and the code that writes and reads
  them: parameters, request bodies, responses. \<^verbatim>\<open>mime.ParseMediaType\<close> is modelled; the libraries \<^verbatim>\<open>ogen/uri\<close>, \<^verbatim>\<open>ogen/conv\<close> and
  \<^verbatim>\<open>ogen/http\<close> are the parameters \<open>ogen_lib\<close>. The statements of the generated functions are data, one definition each in \<open>Openapi_Operations\<close>.
\<close>

section \<open>Media types\<close>

definition tspecials :: string where
  "tspecials = ''()<>@,;:/[]?='' @ [CHR 0x22, CHR 0x5C]"

definition is_token_char :: "char \<Rightarrow> bool" where
  "is_token_char c = (0x20 < (of_char c :: nat) \<and> (of_char c :: nat) < 0x7F \<and> c \<notin> set tspecials)"

definition consumeToken :: "string \<Rightarrow> string \<times> string" where
  "consumeToken v = (takeWhile is_token_char v, dropWhile is_token_char v)"

fun quoted :: "string \<Rightarrow> string \<Rightarrow> (string \<times> string) option" where
  "quoted buffer [] = None"
| "quoted buffer [r] = (if r = CHR 0x22 then Some (buffer, []) else None)"
| "quoted buffer (r # s # rest) =
     (if r = CHR 0x22 then Some (buffer, s # rest)
      else if r = CHR 0x5C \<and> s \<in> set tspecials then quoted (buffer @ [s]) rest
      else if r = CHR 0x0D \<or> r = CHR 0x0A then None
      else quoted (buffer @ [r]) (s # rest))"

definition consumeValue :: "string \<Rightarrow> string \<times> string" where
  "consumeValue v =
     (case v of
        [] \<Rightarrow> ([], [])
      | r # rest \<Rightarrow> if r \<noteq> CHR 0x22 then consumeToken v else (case quoted [] rest of None \<Rightarrow> ([], v) | Some p \<Rightarrow> p))"

text \<open>\<^verbatim>\<open>consumeMediaParam\<close>: no parameter is \<open>None\<close>.\<close>

definition consumeMediaParam :: "string \<Rightarrow> (string \<times> string \<times> string) option" where
  "consumeMediaParam v =
     (case trim_left v of
        [] \<Rightarrow> None
      | c # rest \<Rightarrow>
          (if c \<noteq> CHR '';'' then None
           else (case consumeToken (trim_left rest) of
                   (param, rest) \<Rightarrow>
                     (if param = [] then None
                      else (case trim_left rest of
                              [] \<Rightarrow> None
                            | e # rest \<Rightarrow>
                                (if e \<noteq> CHR ''='' then None
                                 else (case consumeValue (trim_left rest) of
                                         (value, rest2) \<Rightarrow>
                                           (if value = [] \<and> rest2 = trim_left rest then None else Some (ToLower param, value, rest2)))))))))"

lemma trim_left_shorter: "length (trim_left s) \<le> length s"
proof (induction s rule: trim_left.induct)
  case (1 s)
  then show ?case by (cases "find (\<lambda>r. prefix r s) space_runes") (auto simp: trim_left.simps [of s] intro: order_trans)
qed

lemma quoted_shorter: "quoted b v = Some (x, rest) \<Longrightarrow> length rest \<le> length v"
  by (induction b v rule: quoted.induct) (auto split: if_splits)

lemma consumeToken_shorter: "consumeToken v = (x, rest) \<Longrightarrow> length rest \<le> length v"
  by (auto simp: consumeToken_def length_dropWhile_le)

lemma consumeValue_shorter: "consumeValue v = (x, rest) \<Longrightarrow> length rest \<le> length v"
  by (auto simp: consumeValue_def split: list.splits if_splits option.splits dest: consumeToken_shorter quoted_shorter)

lemma consumeMediaParam_shorter:
  assumes "consumeMediaParam v = Some (k, x, rest)"
  shows "length rest < length v"
proof -
  from assms obtain r1 p r2 e r3 where r: "trim_left v = CHR '';'' # r1" "consumeToken (trim_left r1) = (p, r2)" "trim_left r2 = e # r3"
      "consumeValue (trim_left r3) = (x, rest)"
    by (auto simp: consumeMediaParam_def split: list.splits if_splits prod.splits)
  have "length rest \<le> length r3" using consumeValue_shorter [OF r(4)] trim_left_shorter [of r3] by simp
  also have "\<dots> < length (trim_left r2)" by (simp add: r(3))
  also have "\<dots> \<le> length r1" using trim_left_shorter [of r2] consumeToken_shorter [OF r(2)] trim_left_shorter [of r1] by simp
  also have "\<dots> < length (trim_left v)" by (simp add: r(1))
  also have "\<dots> \<le> length v" by (rule trim_left_shorter)
  finally show ?thesis .
qed

text \<open>The loop over the parameters; it only matters here whether it ends without an error.\<close>

function media_params_ok :: "(string \<times> string) list \<Rightarrow> string \<Rightarrow> bool" where
  "media_params_ok params v =
     (if trim_left v = [] then True
      else (case consumeMediaParam (trim_left v) of
              None \<Rightarrow> TrimSpace (trim_left v) = '';''
            | Some (key, value, rest) \<Rightarrow>
                (case map_of params key of
                   Some value' \<Rightarrow> value' = value \<and> media_params_ok params rest
                 | None \<Rightarrow> media_params_ok ((key, value) # params) rest)))"
  by pat_completeness auto
termination
  by (relation "measure (\<lambda>(params, v). length v)")
    (auto dest!: consumeMediaParam_shorter intro: less_le_trans [OF _ trim_left_shorter])

declare media_params_ok.simps [simp del]

definition checkMediaTypeDisposition :: "string \<Rightarrow> bool" where
  "checkMediaTypeDisposition s =
     (case consumeToken s of
        (typ, rest) \<Rightarrow>
          typ \<noteq> [] \<and>
          (rest = [] \<or>
           hd rest = CHR ''/'' \<and> (case consumeToken (tl rest) of (subtype, rest) \<Rightarrow> subtype \<noteq> [] \<and> rest = [])))"

definition ParseMediaType :: "string \<Rightarrow> string option" where
  "ParseMediaType v =
     (let mediatype = TrimSpace (ToLower (takeWhile (\<lambda>c. c \<noteq> CHR '';'') v))
      in if checkMediaTypeDisposition mediatype \<and> media_params_ok [] (dropWhile (\<lambda>c. c \<noteq> CHR '';'') v) then Some mediatype else None)"

section \<open>Messages\<close>

text \<open>
  A body: JSON text, given by its value; other bytes; bytes that are no JSON text; the file parts of a form; or a connection that
  breaks while the body is read.
\<close>

datatype wire_body =
    Wb_json json
  | Wb_bytes string
  | Wb_malformed
  | Wb_form "(string \<times> (string \<times> string) list) list"
  | Wb_broken

record wire_response =
  ws_status :: nat
  ws_header :: headers
  ws_body :: wire_body

record wire_request =
  wq_method :: string
  wq_url :: url
  wq_query :: "(string \<times> string) list"
  wq_header :: headers
  wq_cookies :: "(string \<times> string) list"
  wq_length :: int
  wq_body :: wire_body

text \<open>A value of the interface type of an operation: the Go type, what it holds, and the header that a wrapper type carries.\<close>

datatype payload = No_payload | Value gval | Data wire_body

datatype gres = Gres string payload "string option"

datatype greq = Greq string gval | Greq_file string "string \<times> string"

datatype ptype = Pt_string | Pt_int64 | Pt_datetime

text \<open>
  The libraries: \<^verbatim>\<open>conv\<close> between values and texts; the encoders and decoders of \<^verbatim>\<open>uri\<close> for a path, a query and a header, and
  \<^verbatim>\<open>AddPathParts\<close>; \<^verbatim>\<open>url.PathUnescape\<close>; \<^verbatim>\<open>ht.NewRequest\<close>, and what it takes as the length of a body; the part of a form for a file, the
  boundary of the form, and whether the server can open and close the file.
\<close>

record ogen_lib =
  ol_text :: "ptype \<Rightarrow> gval \<Rightarrow> string"
  ol_value :: "ptype \<Rightarrow> string \<Rightarrow> gval option"
  ol_path_encode :: "string \<Rightarrow> string option"
  ol_path_decode :: "string \<Rightarrow> string option"
  ol_query_encode :: "string \<Rightarrow> string option"
  ol_query_decode :: "string \<Rightarrow> string option"
  ol_header_encode :: "string \<Rightarrow> string option"
  ol_header_decode :: "string \<Rightarrow> string option"
  ol_add_path :: "url \<Rightarrow> string list \<Rightarrow> url"
  ol_unescape :: "string \<Rightarrow> string option"
  ol_request_ok :: "string \<Rightarrow> url \<Rightarrow> bool"
  ol_length :: "wire_body \<Rightarrow> int"
  ol_write_file :: "string \<times> string \<Rightarrow> (string \<times> string) option"
  ol_boundary :: string
  ol_open_file :: "string \<times> string \<Rightarrow> bool"
  ol_close_files :: "wire_request \<Rightarrow> bool"

definition json_body :: "formats \<Rightarrow> codec \<Rightarrow> gval \<Rightarrow> wire_body" where
  "json_body F c v = (case encode F c v of None \<Rightarrow> Wb_malformed | Some j \<Rightarrow> Wb_json j)"

text \<open>\<^verbatim>\<open>io.ReadAll\<close>, \<^verbatim>\<open>Decode\<close>, the test for trailing data, and \<^verbatim>\<open>Validate\<close> if the type has one.\<close>

datatype body_error =
    Media_type
  | Content_type string
  | Body_required
  | Read_body
  | Not_json
  | Decode_body json_error
  | Validate_body invalid
  | Parse_form
  | Field_required string
  | Open_file string
  | Decode_header string
  | Unexpected_status nat

definition read_json :: "formats \<Rightarrow> checks \<Rightarrow> codec \<Rightarrow> check option \<Rightarrow> wire_body \<Rightarrow> body_error + gval" where
  "read_json F K c ck b =
     (case b of
        Wb_broken \<Rightarrow> Inl Read_body
      | Wb_json j \<Rightarrow>
          (case decode F c j of
             Inl e \<Rightarrow> Inl (Decode_body e)
           | Inr v \<Rightarrow>
               (case ck of
                  None \<Rightarrow> Inr v
                | Some k \<Rightarrow> (case validate K k v of None \<Rightarrow> Inr v | Some e \<Rightarrow> Inl (Validate_body e))))
      | _ \<Rightarrow> Inl Not_json)"

section \<open>Parameters\<close>

datatype param_in = In_path nat | In_query

text \<open>A parameter: its name, where it is (with the index of its argument), the Go field, the conversion, and a minimum.\<close>

datatype parameter = Parameter string param_in string ptype "int option"

fun p_name :: "parameter \<Rightarrow> string" where "p_name (Parameter n _ _ _ _) = n"
fun p_in :: "parameter \<Rightarrow> param_in" where "p_in (Parameter _ l _ _ _) = l"
fun p_go :: "parameter \<Rightarrow> string" where "p_go (Parameter _ _ g _ _) = g"
fun p_type :: "parameter \<Rightarrow> ptype" where "p_type (Parameter _ _ _ t _) = t"

datatype param_error = Unescape_path | Param_required | Decode_value | Convert_value | Param_range

definition in_range :: "checks \<Rightarrow> int option \<Rightarrow> gval \<Rightarrow> bool" where
  "in_range K lo v = (case lo of None \<Rightarrow> True | Some m \<Rightarrow> validate K (CkInt (Some m) None) v = None)"

fun decode_param :: "ogen_lib \<Rightarrow> checks \<Rightarrow> string list \<Rightarrow> bool \<Rightarrow> (string \<times> string) list \<Rightarrow> parameter \<Rightarrow> param_error + gval" where
  "decode_param L K args argsEscaped query (Parameter name (In_path i) g ty lo) =
     (case (if argsEscaped then ol_unescape L (args ! i) else Some (args ! i)) of
        None \<Rightarrow> Inl Unescape_path
      | Some param \<Rightarrow>
          (if param = [] then Inl Param_required
           else (case ol_path_decode L param of
                   None \<Rightarrow> Inl Decode_value
                 | Some val \<Rightarrow>
                     (case ol_value L ty val of
                        None \<Rightarrow> Inl Convert_value
                      | Some c \<Rightarrow> if in_range K lo c then Inr c else Inl Param_range))))"
| "decode_param L K args argsEscaped query (Parameter name In_query g ty lo) =
     (case map_of query name of
        None \<Rightarrow> Inr VUnset
      | Some t \<Rightarrow>
          (case ol_query_decode L t of
             None \<Rightarrow> Inl Decode_value
           | Some val \<Rightarrow> (case ol_value L ty val of None \<Rightarrow> Inl Convert_value | Some c \<Rightarrow> Inr c)))"

text \<open>\<^verbatim>\<open>decodeXParams\<close>: the first error ends it.\<close>

fun decode_params ::
  "ogen_lib \<Rightarrow> checks \<Rightarrow> string list \<Rightarrow> bool \<Rightarrow> (string \<times> string) list \<Rightarrow> parameter list \<Rightarrow> (string \<times> param_error) + (string \<times> gval) list" where
  "decode_params L K args esc query [] = Inr []"
| "decode_params L K args esc query (p # ps) =
     (case decode_param L K args esc query p of
        Inl e \<Rightarrow> Inl (p_name p, e)
      | Inr v \<Rightarrow> map_sum id (Cons (p_go p, v)) (decode_params L K args esc query ps))"

text \<open>The map of parameters that a middleware sees, and \<^verbatim>\<open>unpackXParams\<close>, which panics if a path parameter is gone.\<close>

fun param_key :: "parameter \<Rightarrow> string \<times> string" where
  "param_key (Parameter n (In_path _) _ _ _) = (n, ''path'')"
| "param_key (Parameter n In_query _ _ _) = (n, ''query'')"

definition pack_params :: "parameter list \<Rightarrow> (string \<times> gval) list \<Rightarrow> ((string \<times> string) \<times> gval) list" where
  "pack_params ps fs = map (\<lambda>p. (param_key p, the (map_of fs (p_go p)))) ps"

fun unpack_params :: "parameter list \<Rightarrow> ((string \<times> string) \<times> gval) list \<Rightarrow> (string \<times> gval) list option" where
  "unpack_params [] packed = Some []"
| "unpack_params (p # ps) packed =
     (case map_of packed (param_key p) of
        Some v \<Rightarrow> map_option (Cons (p_go p, v)) (unpack_params ps packed)
      | None \<Rightarrow> if p_in p = In_query then map_option (Cons (p_go p, VUnset)) (unpack_params ps packed) else None)"

section \<open>Request bodies\<close>

datatype req_case = Rq_json string codec "check option" | Rq_file string string

text \<open>\<^verbatim>\<open>decodeXRequest\<close>; the flag of the result says that there are files to close.\<close>

definition decode_json_request :: "formats \<Rightarrow> checks \<Rightarrow> string \<Rightarrow> codec \<Rightarrow> check option \<Rightarrow> wire_request \<Rightarrow> body_error + greq \<times> bool" where
  "decode_json_request F K t c ck r =
     (if wq_length r = 0 then Inl Body_required
      else if wq_body r = Wb_bytes [] then Inl Body_required
      else map_sum id (\<lambda>v. (Greq t v, False)) (read_json F K c ck (wq_body r)))"

definition decode_file_request :: "ogen_lib \<Rightarrow> string \<Rightarrow> string \<Rightarrow> wire_request \<Rightarrow> body_error + greq \<times> bool" where
  "decode_file_request L t field r =
     (if wq_length r = 0 then Inl Body_required
      else (case wq_body r of
              Wb_form parts \<Rightarrow>
                (case map_of parts field of
                   Some (fh # _) \<Rightarrow> if ol_open_file L fh then Inr (Greq_file t fh, True) else Inl (Open_file field)
                 | _ \<Rightarrow> Inl (Field_required field))
            | _ \<Rightarrow> Inl Parse_form))"

fun decode_request_as :: "ogen_lib \<Rightarrow> formats \<Rightarrow> checks \<Rightarrow> req_case list \<Rightarrow> string \<Rightarrow> wire_request \<Rightarrow> body_error + greq \<times> bool" where
  "decode_request_as L F K [] ct r = Inl (Content_type ct)"
| "decode_request_as L F K (Rq_json t c ck # cs) ct r =
     (if ct = ''application/json'' then decode_json_request F K t c ck r else decode_request_as L F K cs ct r)"
| "decode_request_as L F K (Rq_file t field # cs) ct r =
     (if ct = ''multipart/form-data'' then decode_file_request L t field r else decode_request_as L F K cs ct r)"

definition decode_request :: "ogen_lib \<Rightarrow> formats \<Rightarrow> checks \<Rightarrow> req_case list \<Rightarrow> wire_request \<Rightarrow> body_error + greq \<times> bool" where
  "decode_request L F K cs r =
     (case ParseMediaType (Values_Get (wq_header r) ''Content-Type'') of
        None \<Rightarrow> Inl Media_type
      | Some ct \<Rightarrow> decode_request_as L F K cs ct r)"

text \<open>\<^verbatim>\<open>encodeXRequest\<close>: the body and the content type that are put into the request.\<close>

datatype eq_case = Eq_json string codec | Eq_file string string

fun encode_request :: "ogen_lib \<Rightarrow> formats \<Rightarrow> eq_case list \<Rightarrow> greq \<Rightarrow> (wire_body \<times> string) option" where
  "encode_request L F [] q = None"
| "encode_request L F (Eq_json t c # cs) q =
     (case q of
        Greq t' v \<Rightarrow> if t' = t then Some (json_body F c v, ''application/json'') else encode_request L F cs q
      | Greq_file _ _ \<Rightarrow> encode_request L F cs q)"
| "encode_request L F (Eq_file t field # cs) q =
     (case q of
        Greq_file t' f \<Rightarrow>
          (if t' = t
           then Some (case ol_write_file L f of None \<Rightarrow> Wb_broken | Some part \<Rightarrow> Wb_form [(field, [part])],
                      ''multipart/form-data; boundary='' @ ol_boundary L)
           else encode_request L F cs q)
      | Greq _ _ \<Rightarrow> encode_request L F cs q)"

section \<open>Responses\<close>

datatype enc_body = Enc_none | Enc_json codec | Enc_copy

text \<open>A case of \<^verbatim>\<open>encodeXResponse\<close>: the type, \<^verbatim>\<open>Content-Type\<close>, the header of a wrapper, the status, whether the span is marked, and the body.\<close>

datatype enc_case = Enc_case string "string option" "string option" nat bool enc_body

datatype enc_error = Unexpected_response_type string | Encode_header string | Write_response

fun encode_payload :: "formats \<Rightarrow> enc_body \<Rightarrow> payload \<Rightarrow> wire_body option" where
  "encode_payload F Enc_none p = (if p = No_payload then Some (Wb_bytes []) else None)"
| "encode_payload F (Enc_json c) p = (case p of Value v \<Rightarrow> Some (json_body F c v) | _ \<Rightarrow> None)"
| "encode_payload F Enc_copy p = (case p of Data b \<Rightarrow> Some b | _ \<Rightarrow> None)"

fun encode_header :: "ogen_lib \<Rightarrow> string option \<Rightarrow> string option \<Rightarrow> headers \<Rightarrow> enc_error + headers" where
  "encode_header L None v h = Inr h"
| "encode_header L (Some k) None h = Inr (Header_Set ''Access-Control-Expose-Headers'' k h)"
| "encode_header L (Some k) (Some v) h =
     (case ol_header_encode L v of
        None \<Rightarrow> Inl (Encode_header k)
      | Some t \<Rightarrow> Inr (Header_Set k t (Header_Set ''Access-Control-Expose-Headers'' k h)))"

fun encode_response_case :: "ogen_lib \<Rightarrow> formats \<Rightarrow> enc_case \<Rightarrow> gres \<Rightarrow> enc_error + wire_response \<times> bool" where
  "encode_response_case L F (Enc_case t ctype hdr status span b) (Gres t' p h) =
     (case encode_header L hdr h (case ctype of None \<Rightarrow> [] | Some c \<Rightarrow> Header_Set ''Content-Type'' c []) of
        Inl e \<Rightarrow> Inl e
      | Inr hs \<Rightarrow>
          (case encode_payload F b p of
             None \<Rightarrow> Inl (Unexpected_response_type t')
           | Some body \<Rightarrow> Inr (\<lparr>ws_status = status, ws_header = hs, ws_body = body\<rparr>, span)))"

fun ec_type :: "enc_case \<Rightarrow> string" where "ec_type (Enc_case t _ _ _ _ _) = t"

definition encode_response :: "ogen_lib \<Rightarrow> formats \<Rightarrow> enc_case list \<Rightarrow> gres \<Rightarrow> enc_error + wire_response \<times> bool" where
  "encode_response L F cs r =
     (case r of
        Gres t _ _ \<Rightarrow>
          (case find (\<lambda>c. ec_type c = t) cs of
             None \<Rightarrow> Inl (Unexpected_response_type t)
           | Some c \<Rightarrow> encode_response_case L F c r))"

text \<open>A case of \<^verbatim>\<open>decodeXResponse\<close>: the status, the content type it wants, the type, the header, and the body.\<close>

datatype dec_body = Dec_none | Dec_json codec "check option" | Dec_data

datatype dec_case = Dec_case nat "string option" string "string option" dec_body

fun dc_status :: "dec_case \<Rightarrow> nat" where "dc_status (Dec_case s _ _ _ _) = s"

definition decode_header :: "ogen_lib \<Rightarrow> string option \<Rightarrow> headers \<Rightarrow> body_error + string option" where
  "decode_header L hdr h =
     (case hdr of
        None \<Rightarrow> Inr None
      | Some k \<Rightarrow>
          (case map_of h k of
             None \<Rightarrow> Inr None
           | Some t \<Rightarrow> (case ol_header_decode L t of None \<Rightarrow> Inl (Decode_header k) | Some v \<Rightarrow> Inr (Some v))))"

fun decode_payload :: "formats \<Rightarrow> checks \<Rightarrow> dec_body \<Rightarrow> wire_body \<Rightarrow> body_error + payload" where
  "decode_payload F K Dec_none b = Inr No_payload"
| "decode_payload F K (Dec_json c ck) b = map_sum id Value (read_json F K c ck b)"
| "decode_payload F K Dec_data b = (if b = Wb_broken then Inl Read_body else Inr (Data b))"

fun decode_response_case :: "ogen_lib \<Rightarrow> formats \<Rightarrow> checks \<Rightarrow> dec_case \<Rightarrow> wire_response \<Rightarrow> body_error + gres" where
  "decode_response_case L F K (Dec_case status ctype t hdr b) r =
     (case (case ctype of
              None \<Rightarrow> Inr ()
            | Some want \<Rightarrow>
                (case ParseMediaType (Values_Get (ws_header r) ''Content-Type'') of
                   None \<Rightarrow> Inl Media_type
                 | Some ct \<Rightarrow> if ct = want then Inr () else Inl (Content_type ct))) of
        Inl e \<Rightarrow> Inl e
      | Inr _ \<Rightarrow>
          (case decode_payload F K b (ws_body r) of
             Inl e \<Rightarrow> Inl e
           | Inr p \<Rightarrow> map_sum id (Gres t p) (decode_header L hdr (ws_header r))))"

definition decode_response :: "ogen_lib \<Rightarrow> formats \<Rightarrow> checks \<Rightarrow> dec_case list \<Rightarrow> wire_response \<Rightarrow> body_error + gres" where
  "decode_response L F K cs r =
     (case find (\<lambda>c. dc_status c = ws_status r) cs of
        None \<Rightarrow> Inl (Unexpected_status (ws_status r))
      | Some c \<Rightarrow> decode_response_case L F K c r)"

end
