(* ===== verification/Openapi_Rpc.thy ===== *)
theory Openapi_Rpc
  imports Openapi_Wire
begin

text \<open>
  The generated server (\<^verbatim>\<open>oas_handlers_gen.go\<close>, \<^verbatim>\<open>oas_security_gen.go\<close>) and client (\<^verbatim>\<open>oas_client_gen.go\<close>): what a handler does with a
  request, what a method of the client does with its arguments, and what is recorded about both. The statements of an operation are
  data; the lemmas are about an operation whose two sides agree.
\<close>

section \<open>Security\<close>

datatype scheme = BearerApiKey | SessionCookie

fun scheme_name :: "scheme \<Rightarrow> string" where
  "scheme_name BearerApiKey = ''BearerApiKey''"
| "scheme_name SessionCookie = ''SessionCookie''"

datatype security_error = Skip_security | Refused string

text \<open>\<^verbatim>\<open>findAuthorization\<close>: the first value of the header with the scheme.\<close>

fun find_auth :: "string \<Rightarrow> string list \<Rightarrow> string option" where
  "find_auth pre [] = None"
| "find_auth pre (vv # v) =
     (case SplitN2 CHR '' '' vv of
        [scheme, val] \<Rightarrow> if EqualFold scheme pre then Some val else find_auth pre v
      | _ \<Rightarrow> find_auth pre v)"

definition findAuthorization :: "headers \<Rightarrow> string \<Rightarrow> string option" where
  "findAuthorization h pre = find_auth pre (map snd (filter (\<lambda>(k, _). k = ''Authorization'') h))"

section \<open>The server\<close>

datatype server_error =
    Security_error string string
  | Security_unsatisfied
  | Params_error string param_error
  | Request_error body_error
  | Internal_error string
  | Encode_error enc_error

type_synonym packed = "((string \<times> string) \<times> gval) list"

text \<open>
  The server: the handlers of the two schemes, the operations (with the context \<^verbatim>\<open>ctx\<close>), the middleware, the error handler, the answers
  for unknown paths and methods, and whether the response can be written.
\<close>

record 'c ogen_server =
  os_context :: "wire_request \<Rightarrow> 'c"
  os_bearer :: "'c \<Rightarrow> string \<Rightarrow> string \<Rightarrow> security_error + 'c"
  os_cookie :: "'c \<Rightarrow> string \<Rightarrow> string \<Rightarrow> security_error + 'c"
  os_operation :: "'c \<Rightarrow> string \<Rightarrow> (string \<times> gval) list \<Rightarrow> greq option \<Rightarrow> string + gres"
  os_middleware :: "('c \<Rightarrow> string \<Rightarrow> greq option \<Rightarrow> packed \<Rightarrow> ('c \<Rightarrow> greq option \<Rightarrow> packed \<Rightarrow> string + gres) \<Rightarrow> string + gres) option"
  os_error :: "'c \<Rightarrow> server_error \<Rightarrow> wire_response"
  os_not_found :: "wire_request \<Rightarrow> wire_response"
  os_not_allowed :: "wire_request \<Rightarrow> serve_leaf \<Rightarrow> wire_response"
  os_write_ok :: "wire_request \<Rightarrow> bool"

text \<open>\<^verbatim>\<open>securityBearerApiKey\<close> and \<^verbatim>\<open>securitySessionCookie\<close>: an error, no result, or the new context.\<close>

definition answer_security :: "security_error + 'c \<Rightarrow> string + 'c option" where
  "answer_security a = (case a of Inl Skip_security \<Rightarrow> Inr None | Inl (Refused e) \<Rightarrow> Inl e | Inr c \<Rightarrow> Inr (Some c))"

definition server_securityBearerApiKey :: "'c ogen_server \<Rightarrow> 'c \<Rightarrow> string \<Rightarrow> wire_request \<Rightarrow> string + 'c option" where
  "server_securityBearerApiKey S ctx operation r =
     (case findAuthorization (wq_header r) ''Bearer'' of
        None \<Rightarrow> Inr None
      | Some token \<Rightarrow> answer_security (os_bearer S ctx operation token))"

definition server_securitySessionCookie :: "'c ogen_server \<Rightarrow> 'c \<Rightarrow> string \<Rightarrow> wire_request \<Rightarrow> string + 'c option" where
  "server_securitySessionCookie S ctx operation r =
     (case map_of (wq_cookies r) ''cliproxy_session'' of
        None \<Rightarrow> Inr None
      | Some val \<Rightarrow> answer_security (os_cookie S ctx operation val))"

fun server_security :: "scheme \<Rightarrow> 'c ogen_server \<Rightarrow> 'c \<Rightarrow> string \<Rightarrow> wire_request \<Rightarrow> string + 'c option" where
  "server_security BearerApiKey = server_securityBearerApiKey"
| "server_security SessionCookie = server_securitySessionCookie"

text \<open>The block of a handler that checks the schemes of the operation, with the bit of each, and then the requirements.\<close>

fun check_schemes ::
  "'c ogen_server \<Rightarrow> string \<Rightarrow> wire_request \<Rightarrow> (scheme \<times> nat) list \<Rightarrow> 8 word \<Rightarrow> 'c \<Rightarrow> (string \<times> server_error \<times> 'c) + 8 word \<times> 'c" where
  "check_schemes S operation r [] satisfied ctx = Inr (satisfied, ctx)"
| "check_schemes S operation r ((sch, b) # schs) satisfied ctx =
     (case server_security sch S ctx operation r of
        Inl e \<Rightarrow> Inl (''Security:'' @ scheme_name sch, Security_error (scheme_name sch) e, ctx)
      | Inr None \<Rightarrow> check_schemes S operation r schs satisfied ctx
      | Inr (Some sctx) \<Rightarrow> check_schemes S operation r schs (satisfied OR push_bit b 1) sctx)"

definition requirement_ok :: "8 word list \<Rightarrow> 8 word \<Rightarrow> bool" where
  "requirement_ok requirements satisfied = list_ex (\<lambda>mk. satisfied AND mk = mk) requirements"

type_synonym security_block = "((scheme \<times> nat) list \<times> 8 word list) option"

definition check_security ::
  "'c ogen_server \<Rightarrow> string \<Rightarrow> security_block \<Rightarrow> wire_request \<Rightarrow> 'c \<Rightarrow> (string \<times> server_error \<times> 'c) + 'c" where
  "check_security S operation block r ctx =
     (case block of
        None \<Rightarrow> Inr ctx
      | Some (schs, requirements) \<Rightarrow>
          (case check_schemes S operation r schs 0 ctx of
             Inl e \<Rightarrow> Inl e
           | Inr (satisfied, ctx) \<Rightarrow>
               if requirement_ok requirements satisfied then Inr ctx else Inl (''Security'', Security_unsatisfied, ctx)))"

text \<open>A handler: the labels of its telemetry, its security, parameters, body and response.\<close>

record server_op =
  so_name :: string
  so_id :: string
  so_method :: string
  so_route :: string
  so_security :: security_block
  so_params :: "parameter list option"
  so_request :: "req_case list option"
  so_response :: "enc_case list"

text \<open>
  What a handler leaves: the response on the wire, the recorded errors (stage, status at that time, span marked), whether the encoder marked the
  span, and the labels of the request counter.
\<close>

record served =
  sd_response :: wire_response
  sd_errors :: "(string \<times> nat \<times> bool) list"
  sd_span :: bool
  sd_count :: "string \<times> string \<times> string \<times> nat"

definition record_error :: "string \<Rightarrow> nat \<Rightarrow> string \<times> nat \<times> bool" where
  "record_error stage code = (stage, code, code < 100 \<or> code \<ge> 500)"

definition op_labels :: "server_op \<Rightarrow> nat \<Rightarrow> string \<times> string \<times> string \<times> nat" where
  "op_labels op code = (so_id op, so_method op, so_route op, code)"

text \<open>An early return: the error handler answers, then the deferred \<^verbatim>\<open>recordError\<close> and the stopwatch run.\<close>

definition fail_op :: "'c ogen_server \<Rightarrow> server_op \<Rightarrow> 'c \<Rightarrow> string \<Rightarrow> server_error \<Rightarrow> (string \<times> nat \<times> bool) list \<Rightarrow> served" where
  "fail_op S op ctx stage e closing =
     (let w = os_error S ctx e
      in \<lparr>sd_response = w, sd_errors = record_error stage (ws_status w) # closing, sd_span = False, sd_count = op_labels op (ws_status w)\<rparr>)"

text \<open>The deferred \<^verbatim>\<open>close\<close> of the request runs after the response, before the counter.\<close>

definition close_errors :: "ogen_lib \<Rightarrow> wire_request \<Rightarrow> bool \<Rightarrow> nat \<Rightarrow> (string \<times> nat \<times> bool) list" where
  "close_errors L r files code = (if files \<and> \<not> ol_close_files L r then [record_error ''CloseRequest'' code] else [])"

definition call_operation ::
  "'c ogen_server \<Rightarrow> server_op \<Rightarrow> 'c \<Rightarrow> (string \<times> gval) list \<Rightarrow> greq option \<Rightarrow> string + gres" where
  "call_operation S op ctx params request =
     (case os_middleware S of
        None \<Rightarrow> os_operation S ctx (so_name op) params request
      | Some m \<Rightarrow>
          m ctx (so_name op) request (case so_params op of None \<Rightarrow> [] | Some ps \<Rightarrow> pack_params ps params)
            (\<lambda>ctx request packed.
               case so_params op of
                 None \<Rightarrow> os_operation S ctx (so_name op) [] request
               | Some ps \<Rightarrow> (case unpack_params ps packed of
                               None \<Rightarrow> Inl ''panic''
                             | Some params \<Rightarrow> os_operation S ctx (so_name op) params request)))"

definition respond ::
  "ogen_lib \<Rightarrow> formats \<Rightarrow> 'c ogen_server \<Rightarrow> server_op \<Rightarrow> wire_request \<Rightarrow> 'c \<Rightarrow> bool \<Rightarrow> string + gres \<Rightarrow> served" where
  "respond L F S op r ctx files result =
     (case result of
        Inl e \<Rightarrow>
          (let w = os_error S ctx (Internal_error e)
           in fail_op S op ctx ''Internal'' (Internal_error e) (close_errors L r files (ws_status w)))
      | Inr response \<Rightarrow>
          (case encode_response L F (so_response op) response of
             Inl e \<Rightarrow>
               (let w = os_error S ctx (Encode_error e)
                in fail_op S op ctx ''EncodeResponse'' (Encode_error e) (close_errors L r files (ws_status w)))
           | Inr (w, span) \<Rightarrow>
               (if os_write_ok S r \<or> ws_body w = Wb_bytes []
                then \<lparr>sd_response = w, sd_errors = close_errors L r files (ws_status w), sd_span = span, sd_count = op_labels op (ws_status w)\<rparr>
                else (let code = ws_status (os_error S ctx (Encode_error Write_response))
                      in \<lparr>sd_response = w\<lparr>ws_body := Wb_broken\<rparr>, sd_errors = record_error ''EncodeResponse'' code # close_errors L r files code,
                          sd_span = span, sd_count = op_labels op code\<rparr>))))"

text \<open>\<^verbatim>\<open>handleXRequest\<close>.\<close>

definition handle ::
  "ogen_lib \<Rightarrow> formats \<Rightarrow> checks \<Rightarrow> 'c ogen_server \<Rightarrow> server_op \<Rightarrow> string list \<Rightarrow> bool \<Rightarrow> wire_request \<Rightarrow> served" where
  "handle L F K S op args argsEscaped r =
     (case check_security S (so_name op) (so_security op) r (os_context S r) of
        Inl (stage, e, ctx) \<Rightarrow> fail_op S op ctx stage e []
      | Inr ctx \<Rightarrow>
          (case (case so_params op of None \<Rightarrow> Inr [] | Some ps \<Rightarrow> decode_params L K args argsEscaped (wq_query r) ps) of
             Inl (name, e) \<Rightarrow> fail_op S op ctx ''DecodeParams'' (Params_error name e) []
           | Inr params \<Rightarrow>
               (case so_request op of
                  None \<Rightarrow> respond L F S op r ctx False (call_operation S op ctx params None)
                | Some cs \<Rightarrow>
                    (case decode_request L F K cs r of
                       Inl e \<Rightarrow> fail_op S op ctx ''DecodeRequest'' (Request_error e) []
                     | Inr (request, files) \<Rightarrow> respond L F S op r ctx files (call_operation S op ctx params (Some request))))))"

text \<open>The server behind the router.\<close>

definition serve_request ::
  "(string \<Rightarrow> string option) \<Rightarrow> server_op list \<Rightarrow> ogen_lib \<Rightarrow> formats \<Rightarrow> checks \<Rightarrow> 'c ogen_server \<Rightarrow> wire_request \<Rightarrow> wire_response" where
  "serve_request canon ops L F K S r =
     (case ServeHTTP canon [] (wq_method r) (wq_url r) of
        Not_found \<Rightarrow> os_not_found S r
      | Not_allowed l \<Rightarrow> os_not_allowed S r l
      | Dispatch name args escaped \<Rightarrow>
          (case find (\<lambda>op. so_name op = name) ops of
             None \<Rightarrow> os_not_found S r
           | Some op \<Rightarrow> sd_response (handle L F K S op args escaped r)))"

section \<open>The client\<close>

datatype path_part = Lit string | Path_par string string ptype

text \<open>A method of the client: the parts of the path, the parameters of the query, the body, the schemes, and the response.\<close>

record client_op =
  co_name :: string
  co_id :: string
  co_method :: string
  co_route :: string
  co_path :: "path_part list"
  co_query :: "(string \<times> string \<times> ptype) list option"
  co_request :: "eq_case list option"
  co_security :: security_block
  co_response :: "dec_case list"

record ogen_client =
  oc_url :: url
  oc_bearer :: "string \<Rightarrow> security_error + string"
  oc_cookie :: "string \<Rightarrow> security_error + string"
  oc_do :: "wire_request \<Rightarrow> wire_response option"

datatype client_error =
    Encode_path string
  | Encode_query string
  | Create_request
  | Encode_request
  | Security_source string
  | Security_not_satisfied
  | Do_request
  | Decode_response body_error

fun path_parts :: "ogen_lib \<Rightarrow> path_part list \<Rightarrow> (string \<times> gval) list \<Rightarrow> string + string list" where
  "path_parts L [] fs = Inr []"
| "path_parts L (Lit s # ps) fs = map_sum id (Cons s) (path_parts L ps fs)"
| "path_parts L (Path_par n g ty # ps) fs =
     (case ol_path_encode L (ol_text L ty (the (map_of fs g))) of
        None \<Rightarrow> Inl n
      | Some e \<Rightarrow> map_sum id (Cons e) (path_parts L ps fs))"

fun query_values :: "ogen_lib \<Rightarrow> (string \<times> string \<times> ptype) list \<Rightarrow> (string \<times> gval) list \<Rightarrow> string + (string \<times> string) list" where
  "query_values L [] fs = Inr []"
| "query_values L ((n, g, ty) # qs) fs =
     (let v = the (map_of fs g)
      in if v = VUnset then query_values L qs fs
         else (case ol_query_encode L (ol_text L ty v) of
                 None \<Rightarrow> Inl n
               | Some e \<Rightarrow> map_sum id (Cons (n, e)) (query_values L qs fs)))"

text \<open>\<^verbatim>\<open>http.Request.AddCookie\<close>: bytes that a cookie cannot carry are dropped from the value.\<close>

definition valid_cookie_byte :: "char \<Rightarrow> bool" where
  "valid_cookie_byte c =
     (0x20 \<le> (of_char c :: nat) \<and> (of_char c :: nat) < 0x7F \<and> c \<noteq> CHR 0x22 \<and> c \<noteq> CHR '';'' \<and> c \<noteq> CHR 0x5C)"

definition AddCookie :: "string \<Rightarrow> string \<Rightarrow> wire_request \<Rightarrow> wire_request" where
  "AddCookie name val r = r\<lparr>wq_cookies := wq_cookies r @ [(name, filter valid_cookie_byte val)]\<rparr>"

fun client_security :: "scheme \<Rightarrow> ogen_client \<Rightarrow> string \<Rightarrow> wire_request \<Rightarrow> security_error + wire_request" where
  "client_security BearerApiKey C operation r =
     map_sum id (\<lambda>token. r\<lparr>wq_header := Header_Set ''Authorization'' (''Bearer '' @ token) (wq_header r)\<rparr>) (oc_bearer C operation)"
| "client_security SessionCookie C operation r = map_sum id (\<lambda>key. AddCookie ''cliproxy_session'' key r) (oc_cookie C operation)"

fun client_schemes :: "ogen_client \<Rightarrow> string \<Rightarrow> (scheme \<times> nat) list \<Rightarrow> 8 word \<Rightarrow> wire_request \<Rightarrow> string + 8 word \<times> wire_request" where
  "client_schemes C operation [] satisfied r = Inr (satisfied, r)"
| "client_schemes C operation ((sch, b) # schs) satisfied r =
     (case client_security sch C operation r of
        Inr r \<Rightarrow> client_schemes C operation schs (satisfied OR push_bit b 1) r
      | Inl Skip_security \<Rightarrow> client_schemes C operation schs satisfied r
      | Inl (Refused e) \<Rightarrow> Inl (scheme_name sch))"

definition last_stage :: "security_block \<Rightarrow> string" where
  "last_stage block = (case block of Some (schs, _) \<Rightarrow> ''Security:'' @ scheme_name (fst (last schs)) | None \<Rightarrow> ''EncodeRequest'')"

definition add_security :: "ogen_client \<Rightarrow> string \<Rightarrow> security_block \<Rightarrow> wire_request \<Rightarrow> (string \<times> client_error) + wire_request" where
  "add_security C operation block r =
     (case block of
        None \<Rightarrow> Inr r
      | Some (schs, requirements) \<Rightarrow>
          (case client_schemes C operation schs 0 r of
             Inl n \<Rightarrow> Inl (''Security:'' @ n, Security_source n)
           | Inr (satisfied, r) \<Rightarrow> if requirement_ok requirements satisfied then Inr r else Inl (last_stage block, Security_not_satisfied)))"

definition build_query :: "ogen_lib \<Rightarrow> client_op \<Rightarrow> (string \<times> gval) list \<Rightarrow> string + (string \<times> string) list" where
  "build_query L op params = (case co_query op of None \<Rightarrow> Inr [] | Some qs \<Rightarrow> query_values L qs params)"

definition build_body :: "ogen_lib \<Rightarrow> formats \<Rightarrow> client_op \<Rightarrow> greq option \<Rightarrow> (wire_body \<times> headers) option" where
  "build_body L F op request =
     (case co_request op of
        None \<Rightarrow> Some (Wb_bytes [], [])
      | Some cs \<Rightarrow>
          (case request of
             None \<Rightarrow> None
           | Some q \<Rightarrow> map_option (\<lambda>(b, ct). (b, [(''Content-Type'', ct)])) (encode_request L F cs q)))"

text \<open>\<^verbatim>\<open>sendX\<close>: the result or the error with the stage that the span and the error counter get.\<close>

definition send ::
  "ogen_lib \<Rightarrow> formats \<Rightarrow> checks \<Rightarrow> ogen_client \<Rightarrow> client_op \<Rightarrow> (string \<times> gval) list \<Rightarrow> greq option \<Rightarrow> (string \<times> client_error) + gres" where
  "send L F K C op params request =
     (case path_parts L (co_path op) params of
        Inl n \<Rightarrow> Inl (''BuildURL'', Encode_path n)
      | Inr parts \<Rightarrow>
          (case build_query L op params of
             Inl n \<Rightarrow> Inl (''EncodeQueryParams'', Encode_query n)
           | Inr query \<Rightarrow>
               (let u = ol_add_path L (oc_url C) parts
                in if \<not> ol_request_ok L (co_method op) u then Inl (''EncodeRequest'', Create_request)
                   else (case build_body L F op request of
                           None \<Rightarrow> Inl (''EncodeRequest'', Encode_request)
                         | Some (body, hs) \<Rightarrow>
                             (case add_security C (co_name op) (co_security op)
                                     \<lparr>wq_method = co_method op, wq_url = u, wq_query = query, wq_header = hs, wq_cookies = [],
                                      wq_length = ol_length L body, wq_body = body\<rparr> of
                                Inl e \<Rightarrow> Inl e
                              | Inr r \<Rightarrow>
                                  (case oc_do C r of
                                     None \<Rightarrow> Inl (''SendRequest'', Do_request)
                                   | Some resp \<Rightarrow>
                                       (case decode_response L F K (co_response op) resp of
                                          Inl e \<Rightarrow> Inl (''DecodeResponse'', Decode_response e)
                                        | Inr res \<Rightarrow> Inr res)))))))"

end
