(* ===== verification/Openapi_Agreement.thy ===== *)
theory Openapi_Agreement
  imports Openapi_Rpc
begin

text \<open>
  An operation whose generated client and server agree: the same labels, path, parameters, bodies and responses. For such an operation the
  messages carry everything: what the client is given arrives at the operation of the server, and what that returns comes back.
\<close>

section \<open>Responses\<close>

fun dc_type :: "dec_case \<Rightarrow> string" where "dc_type (Dec_case _ _ t _ _) = t"

fun body_agree :: "enc_body \<Rightarrow> dec_body \<Rightarrow> bool" where
  "body_agree Enc_none Dec_none = True"
| "body_agree (Enc_json c) (Dec_json c' ck) = (c = c' \<and> wf_codec c)"
| "body_agree Enc_copy Dec_data = True"
| "body_agree _ _ = False"

fun case_agree :: "enc_case \<Rightarrow> dec_case \<Rightarrow> bool" where
  "case_agree (Enc_case t ctype hdr status span b) (Dec_case status' ctype' t' hdr' b') =
     (status = status' \<and> t = t' \<and> hdr = hdr' \<and> body_agree b b' \<and> hdr \<noteq> Some ''Content-Type'' \<and> hdr \<noteq> Some ''Access-Control-Expose-Headers'' \<and>
      (case ctype' of None \<Rightarrow> True | Some want \<Rightarrow> (case ctype of None \<Rightarrow> False | Some sent \<Rightarrow> ParseMediaType sent = Some want)))"

definition responses_agree :: "enc_case list \<Rightarrow> dec_case list \<Rightarrow> bool" where
  "responses_agree es ds = (distinct (map dc_status ds) \<and> distinct (map dc_type ds) \<and> list_all2 case_agree es ds)"

text \<open>The responses of an operation: the payload has the type of the case, and the header survives its format.\<close>

fun payload_ok :: "formats \<Rightarrow> enc_body \<Rightarrow> payload \<Rightarrow> bool" where
  "payload_ok F Enc_none p = (p = No_payload)"
| "payload_ok F (Enc_json c) p = (case p of Value v \<Rightarrow> typed F c v | _ \<Rightarrow> False)"
| "payload_ok F Enc_copy p = (case p of Data b \<Rightarrow> b \<noteq> Wb_broken | _ \<Rightarrow> False)"

definition header_ok :: "ogen_lib \<Rightarrow> string option \<Rightarrow> string option \<Rightarrow> bool" where
  "header_ok L hdr h =
     (case h of
        None \<Rightarrow> True
      | Some v \<Rightarrow> hdr \<noteq> None \<and> (case ol_header_encode L v of None \<Rightarrow> False | Some t \<Rightarrow> ol_header_decode L t = Some v))"

fun response_ok :: "ogen_lib \<Rightarrow> formats \<Rightarrow> enc_case list \<Rightarrow> gres \<Rightarrow> bool" where
  "response_ok L F es (Gres t p h) = list_ex (\<lambda>e. case e of Enc_case t' ctype hdr status span b \<Rightarrow> t' = t \<and> payload_ok F b p \<and> header_ok L hdr h) es"

text \<open>The check that the client runs on a response.\<close>

fun client_check :: "checks \<Rightarrow> dec_case list \<Rightarrow> gres \<Rightarrow> invalid option" where
  "client_check K ds (Gres t p h) =
     (case p of
        Value v \<Rightarrow>
          (case find (\<lambda>d. dc_type d = t) ds of
             Some (Dec_case _ _ _ _ (Dec_json _ (Some k))) \<Rightarrow> validate K k v
           | _ \<Rightarrow> None)
      | _ \<Rightarrow> None)"

lemma read_json_body:
  assumes "wf_codec c" and "typed F c v"
  shows "read_json F K c ck (json_body F c v) =
    (case ck of None \<Rightarrow> Inr v | Some k \<Rightarrow> (case validate K k v of None \<Rightarrow> Inr v | Some e \<Rightarrow> Inl (Validate_body e)))"
proof -
  obtain j where "encode F c v = Some j" "decode F c j = Inr v" using carriesE [OF wf_carries [OF assms(1)] assms(2)] .
  then show ?thesis by (simp add: read_json_def json_body_def)
qed

lemma find_by_key: "distinct (map f xs) \<Longrightarrow> x \<in> set xs \<Longrightarrow> f x = k \<Longrightarrow> find (\<lambda>y. f y = k) xs = Some x"
  using find_distinct [of f xs x] by simp

lemma case_round_trip:
  assumes "case_agree e d" and "ec_type e = t" and "case e of Enc_case t' ctype hdr status span b \<Rightarrow> payload_ok F b p \<and> header_ok L hdr h"
    and "find (\<lambda>d. dc_type d = t) ds = Some d"
  shows "\<exists>w span. encode_response_case L F e (Gres t p h) = Inr (w, span) \<and> ws_status w = dc_status d \<and> ws_body w \<noteq> Wb_broken \<and>
    decode_response_case L F K d w =
      (case client_check K ds (Gres t p h) of None \<Rightarrow> Inr (Gres t p h) | Some x \<Rightarrow> Inl (Validate_body x))"
proof -
  obtain ctype hdr status span b where e: "e = Enc_case t ctype hdr status span b" using assms(2) by (cases e) auto
  with assms(1) obtain ctype' b' where d: "d = Dec_case status ctype' t hdr b'" "body_agree b b'"
      "hdr \<noteq> Some ''Content-Type''" "hdr \<noteq> Some ''Access-Control-Expose-Headers''"
      "case ctype' of None \<Rightarrow> True | Some want \<Rightarrow> (case ctype of None \<Rightarrow> False | Some sent \<Rightarrow> ParseMediaType sent = Some want)"
    by (cases d) auto
  have ok: "payload_ok F b p" "header_ok L hdr h" using assms(3) e by auto
  let ?h0 = "case ctype of None \<Rightarrow> [] | Some c \<Rightarrow> Header_Set ''Content-Type'' c []"
  obtain hs where hs: "encode_header L hdr h ?h0 = Inr hs" "decode_header L hdr hs = Inr h" "map_of hs ''Content-Type'' = ctype"
  proof (cases hdr)
    case None
    with ok(2) have "h = None" by (auto simp: header_ok_def split: option.splits)
    with None that [of ?h0] show thesis by (auto simp: decode_header_def split: option.splits)
  next
    case (Some k)
    show thesis
    proof (cases h)
      case None
      with Some d(3,4) that [of "Header_Set ''Access-Control-Expose-Headers'' k ?h0"] show thesis
        by (auto simp: decode_header_def split: option.splits)
    next
      case (Some v)
      with ok(2) obtain t' where "ol_header_encode L v = Some t'" "ol_header_decode L t' = Some v"
        by (auto simp: header_ok_def split: option.splits)
      with Some \<open>hdr = Some k\<close> d(3,4) that [of "Header_Set k t' (Header_Set ''Access-Control-Expose-Headers'' k ?h0)"] show thesis
        by (auto simp: decode_header_def split: option.splits)
    qed
  qed
  obtain body where body: "encode_payload F b p = Some body" "body \<noteq> Wb_broken"
      "decode_payload F K b' body = (case client_check K ds (Gres t p h) of None \<Rightarrow> Inr p | Some x \<Rightarrow> Inl (Validate_body x))"
  proof (cases b)
    case Enc_none
    with ok(1) d(2) that [of "Wb_bytes []"] show thesis by (cases b') auto
  next
    case (Enc_json c)
    with ok(1) obtain v where v: "p = Value v" "typed F c v" by (auto split: payload.splits)
    from Enc_json d(2) obtain ck where b': "b' = Dec_json c ck" "wf_codec c" by (cases b') auto
    have "json_body F c v \<noteq> Wb_broken" by (auto simp: json_body_def split: option.splits)
    with that [of "json_body F c v"] v b' Enc_json assms(4) d(1) read_json_body [OF b'(2) v(2)] show thesis
      by (auto split: option.splits)
  next
    case Enc_copy
    with ok(1) obtain x where "p = Data x" "x \<noteq> Wb_broken" by (auto split: payload.splits)
    with Enc_copy d(2) that [of x] show thesis by (cases b') auto
  qed
  show ?thesis
    using hs body d(1,5) e by (auto simp: Values_Get_def split: option.splits)
qed

lemma response_round_trip:
  assumes "responses_agree es ds" and "response_ok L F es r"
  shows "\<exists>w span. encode_response L F es r = Inr (w, span) \<and> ws_body w \<noteq> Wb_broken \<and>
    decode_response L F K ds w = (case client_check K ds r of None \<Rightarrow> Inr r | Some x \<Rightarrow> Inl (Validate_body x))"
proof -
  obtain t p h where r: "r = Gres t p h" by (cases r)
  from assms(2) r obtain e where e0: "e \<in> set es"
      "case e of Enc_case t' ctype hdr status span b \<Rightarrow> t' = t \<and> payload_ok F b p \<and> header_ok L hdr h"
    by (auto simp: list_ex_iff)
  obtain ctype hdr status span b where "e = Enc_case t ctype hdr status span b" "payload_ok F b p" "header_ok L hdr h"
    using e0(2) by (cases e) auto
  with e0(1) have e: "e \<in> set es" "ec_type e = t" "case e of Enc_case t' ctype hdr status span b \<Rightarrow> payload_ok F b p \<and> header_ok L hdr h"
    by simp_all
  from assms(1) have agree: "distinct (map dc_status ds)" "distinct (map dc_type ds)" "list_all2 case_agree es ds"
    by (auto simp: responses_agree_def)
  have types: "map ec_type es = map dc_type ds"
  proof -
    have "ec_type e = dc_type d" if "case_agree e d" for e d using that by (cases e; cases d) auto
    with agree(3) show ?thesis by (auto simp: list_all2_conv_all_nth intro!: nth_equalityI)
  qed
  from e(1) obtain i where i: "i < length es" "es ! i = e" by (auto simp: in_set_conv_nth)
  let ?d = "ds ! i"
  have d: "?d \<in> set ds" "case_agree e ?d" using i agree(3) by (auto simp: list_all2_conv_all_nth)
  have "dc_type ?d = t" using d(2) e(2) by (cases e; cases ?d) auto
  then have found: "find (\<lambda>d. dc_type d = t) ds = Some ?d" using find_by_key [OF agree(2) d(1)] by simp
  have first: "find (\<lambda>c. ec_type c = t) es = Some e" using find_by_key [of ec_type es e t] types agree(2) e by simp
  from case_round_trip [OF d(2) e(2,3) found, of K] obtain w span where w: "encode_response_case L F e (Gres t p h) = Inr (w, span)"
      "ws_status w = dc_status ?d" "ws_body w \<noteq> Wb_broken"
      "decode_response_case L F K ?d w = (case client_check K ds (Gres t p h) of None \<Rightarrow> Inr (Gres t p h) | Some x \<Rightarrow> Inl (Validate_body x))"
    by blast
  have "find (\<lambda>c. dc_status c = ws_status w) ds = Some ?d" using find_by_key [OF agree(1) d(1)] w(2) by simp
  with w first r show ?thesis by (auto simp: encode_response_def decode_response_def)
qed

section \<open>Paths and parameters\<close>

fun part_toks :: "nat \<Rightarrow> path_part list \<Rightarrow> ptok list" where
  "part_toks i [] = []"
| "part_toks i (Lit s # ps) = map PChar s @ part_toks i ps"
| "part_toks i (Path_par n g ty # ps) = PPar i # part_toks (Suc i) ps"

fun path_pars :: "path_part list \<Rightarrow> (string \<times> string \<times> ptype) list" where
  "path_pars [] = []"
| "path_pars (Lit s # ps) = path_pars ps"
| "path_pars (Path_par n g ty # ps) = (n, g, ty) # path_pars ps"

definition is_path :: "parameter \<Rightarrow> bool" where
  "is_path p = (p_in p \<noteq> In_query)"

definition param_sig :: "parameter \<Rightarrow> string \<times> string \<times> ptype" where
  "param_sig p = (p_name p, p_go p, p_type p)"

definition params_agree :: "parameter list \<Rightarrow> path_part list \<Rightarrow> (string \<times> string \<times> ptype) list \<Rightarrow> bool" where
  "params_agree ps parts qs =
     (map param_sig (filter is_path ps) = path_pars parts \<and> map p_in (filter is_path ps) = map In_path [0..<length (path_pars parts)] \<and>
      map param_sig (filter (\<lambda>p. \<not> is_path p) ps) = qs \<and> distinct (map p_go ps) \<and> distinct (map fst qs))"

text \<open>A parameter that survives: the text of a path parameter needs no escape, and is read back; an optional query parameter is not set or read back.\<close>

fun param_carried :: "ogen_lib \<Rightarrow> checks \<Rightarrow> parameter \<Rightarrow> gval \<Rightarrow> bool" where
  "param_carried L K (Parameter n (In_path i) g ty lo) v =
     (let t = ol_text L ty v
      in t \<noteq> [] \<and> plain_values [t] \<and> ol_path_encode L t = Some t \<and> ol_path_decode L t = Some t \<and> ol_value L ty t = Some v \<and> in_range K lo v)"
| "param_carried L K (Parameter n In_query g ty lo) v =
     (v = VUnset \<or>
      (case ol_query_encode L (ol_text L ty v) of
         None \<Rightarrow> False
       | Some e \<Rightarrow> (case ol_query_decode L e of None \<Rightarrow> False | Some d \<Rightarrow> ol_value L ty d = Some v)))"

definition params_carried :: "ogen_lib \<Rightarrow> checks \<Rightarrow> parameter list \<Rightarrow> (string \<times> gval) list \<Rightarrow> bool" where
  "params_carried L K ps fs = list_all2 (\<lambda>p f. fst f = p_go p \<and> param_carried L K p (snd f)) ps fs"

definition path_values :: "ogen_lib \<Rightarrow> path_part list \<Rightarrow> (string \<times> gval) list \<Rightarrow> string list" where
  "path_values L parts fs = map (\<lambda>(n, g, ty). ol_text L ty (the (map_of fs g))) (path_pars parts)"

lemma path_parts_fill:
  assumes "\<And>t. t \<in> set (path_values L parts fs) \<Longrightarrow> ol_path_encode L t = Some t"
  shows "\<exists>xs. path_parts L parts fs = Inr xs \<and> concat xs = fill (pre @ path_values L parts fs) (part_toks (length pre) parts)"
  using assms
proof (induction parts arbitrary: pre rule: path_pars.induct)
  case (2 s ps)
  then show ?case by (fastforce simp: path_values_def)
next
  case (3 n g ty ps)
  let ?t = "ol_text L ty (the (map_of fs g))"
  have "path_values L (Path_par n g ty # ps) fs = ?t # path_values L ps fs" by (simp add: path_values_def)
  with 3(1) [of "pre @ [?t]"] 3(2) show ?case by (fastforce simp: fill_tok_def nth_append)
qed simp

lemma map_of_zip_fields:
  assumes "list_all2 (\<lambda>p f. fst f = p_go p \<and> Q p (snd f)) ps fs" and "distinct (map p_go ps)" and "p \<in> set ps"
  shows "\<exists>v. map_of fs (p_go p) = Some v \<and> Q p v"
  using assms
proof (induction rule: list_all2_induct)
  case (Cons p' ps f fs)
  show ?case
  proof (cases "p = p'")
    case False
    with Cons.prems have "p \<in> set ps" "p_go p \<noteq> p_go p'" by (auto simp: image_iff)
    with Cons show ?thesis by (cases f) auto
  qed (use Cons in \<open>cases f; auto\<close>)
qed simp

lemma path_param_form: "is_path p \<Longrightarrow> param_sig p = (n, g, ty) \<Longrightarrow> \<exists>i lo. p = Parameter n (In_path i) g ty lo"
  by (cases p rule: p_in.cases) (auto simp: is_path_def param_sig_def intro: param_in.exhaust)

lemma query_param_form: "\<not> is_path p \<Longrightarrow> param_sig p = (n, g, ty) \<Longrightarrow> \<exists>lo. p = Parameter n In_query g ty lo"
  by (cases p rule: p_in.cases) (auto simp: is_path_def param_sig_def)

lemma query_round_trip:
  assumes "distinct (map fst qs)"
    and "\<And>n g ty. (n, g, ty) \<in> set qs \<Longrightarrow> let v = the (map_of fs g) in v = VUnset \<or> (\<exists>e. ol_query_encode L (ol_text L ty v) = Some e)"
  shows "\<exists>kvs. query_values L qs fs = Inr kvs \<and> fst ` set kvs \<subseteq> fst ` set qs \<and>
    (\<forall>(n, g, ty) \<in> set qs. map_of kvs n =
       (let v = the (map_of fs g) in if v = VUnset then None else ol_query_encode L (ol_text L ty v)))"
  using assms
proof (induction qs)
  case (Cons x qs)
  obtain n g ty where x: "x = (n, g, ty)" by (cases x)
  from Cons obtain kvs where kvs: "query_values L qs fs = Inr kvs" "fst ` set kvs \<subseteq> fst ` set qs"
      "\<forall>(n, g, ty) \<in> set qs. map_of kvs n = (let v = the (map_of fs g) in if v = VUnset then None else ol_query_encode L (ol_text L ty v))"
    by fastforce
  have n: "n \<notin> fst ` set qs" using Cons.prems(1) x by auto
  have none: "map_of kvs n = None" using kvs(2) n by (auto simp: map_of_eq_None_iff)
  let ?v = "the (map_of fs g)"
  show ?case
  proof (cases "?v = VUnset")
    case True
    with kvs none x show ?thesis by (intro exI [of _ kvs]) (auto simp: Let_def)
  next
    case False
    then obtain e where e: "ol_query_encode L (ol_text L ty ?v) = Some e" using Cons.prems(2) [of n g ty] x by (auto simp: Let_def)
    have other: "map_of ((n, e) # kvs) n' = map_of kvs n'" if "(n', g', ty') \<in> set qs" for n' g' ty'
      using that n by (auto simp: image_iff)
    show ?thesis
    proof (intro exI conjI)
      show "query_values L (x # qs) fs = Inr ((n, e) # kvs)" using False e kvs(1) x by (simp add: Let_def)
      show "fst ` set ((n, e) # kvs) \<subseteq> fst ` set (x # qs)" using kvs(2) x by auto
      show "\<forall>(k, g, ty) \<in> set (x # qs). map_of ((n, e) # kvs) k =
          (let v = the (map_of fs g) in if v = VUnset then None else ol_query_encode L (ol_text L ty v))"
      proof (intro ballI)
        fix y assume y: "y \<in> set (x # qs)"
        obtain n' g' ty' where y': "y = (n', g', ty')" by (cases y)
        show "case y of (k, g, ty) \<Rightarrow> map_of ((n, e) # kvs) k =
            (let v = the (map_of fs g) in if v = VUnset then None else ol_query_encode L (ol_text L ty v))"
        proof (cases "y = x")
          case True
          with x e False show ?thesis by (simp add: Let_def)
        next
          case neq: False
          with y have "(n', g', ty') \<in> set qs" using y' by simp
          with kvs(3) other [OF this] y' show ?thesis by auto
        qed
      qed
    qed
  qed
qed simp

lemma decode_params_each:
  assumes "list_all2 (\<lambda>p f. fst f = p_go p \<and> decode_param L K args esc query p = Inr (snd f)) ps fs"
  shows "decode_params L K args esc query ps = Inr fs"
  using assms by (induction rule: list_all2_induct) auto

lemma params_arrive:
  assumes agree: "params_agree ps parts qs" and carried: "params_carried L K ps fs"
  shows "plain_values (path_values L parts fs)" and "length (path_values L parts fs) = length (path_pars parts)"
    and "\<exists>xs. path_parts L parts fs = Inr xs \<and> concat xs = fill (path_values L parts fs) (part_toks 0 parts)"
    and "\<exists>query. query_values L qs fs = Inr query \<and> decode_params L K (path_values L parts fs) False query ps = Inr fs"
proof -
  have a: "map param_sig (filter is_path ps) = path_pars parts" "map p_in (filter is_path ps) = map In_path [0..<length (path_pars parts)]"
      "map param_sig (filter (\<lambda>p. \<not> is_path p) ps) = qs" "distinct (map p_go ps)" "distinct (map fst qs)"
    using agree by (auto simp: params_agree_def)
  note get = map_of_zip_fields [OF carried [unfolded params_carried_def] a(4)]
  have path: "\<exists>p v i. p \<in> set ps \<and> p = Parameter n (In_path i) g ty (case p of Parameter _ _ _ _ lo \<Rightarrow> lo) \<and> map_of fs g = Some v \<and> param_carried L K p v"
    if sig: "(n, g, ty) \<in> set (path_pars parts)" for n g ty
  proof -
    from sig obtain p where p: "p \<in> set ps" "is_path p" "param_sig p = (n, g, ty)" unfolding a(1) [symmetric] by auto
    then obtain i lo where "p = Parameter n (In_path i) g ty lo" using path_param_form by blast
    with get [OF p(1)] p(1) show ?thesis by auto
  qed
  have vals: "t \<noteq> [] \<and> plain_values [t] \<and> ol_path_encode L t = Some t" if "t \<in> set (path_values L parts fs)" for t
  proof -
    from that obtain n g ty where "(n, g, ty) \<in> set (path_pars parts)" "t = ol_text L ty (the (map_of fs g))" by (auto simp: path_values_def)
    with path [of n g ty] show ?thesis by (metis (no_types, lifting) option.sel param_carried.simps(1))
  qed
  from vals show "plain_values (path_values L parts fs)" by (auto simp: plain_values_def list_all_iff)
  show "length (path_values L parts fs) = length (path_pars parts)" by (simp add: path_values_def)
  show "\<exists>xs. path_parts L parts fs = Inr xs \<and> concat xs = fill (path_values L parts fs) (part_toks 0 parts)"
    using path_parts_fill [of L parts fs "[]"] vals by simp
  have qok: "let v = the (map_of fs g) in v = VUnset \<or> (\<exists>e. ol_query_encode L (ol_text L ty v) = Some e)" if "(n, g, ty) \<in> set qs" for n g ty
  proof -
    from that obtain p where p: "p \<in> set ps" "\<not> is_path p" "param_sig p = (n, g, ty)" unfolding a(3) [symmetric] by auto
    then obtain lo where "p = Parameter n In_query g ty lo" using query_param_form by blast
    with get [OF p(1)] show ?thesis by (auto simp: Let_def split: option.splits)
  qed
  from query_round_trip [of qs fs L, OF a(5)] qok obtain query where query: "query_values L qs fs = Inr query"
      "\<forall>(n, g, ty) \<in> set qs. map_of query n = (let v = the (map_of fs g) in if v = VUnset then None else ol_query_encode L (ol_text L ty v))"
    by blast
  have each: "decode_param L K (path_values L parts fs) False query p = Inr v" if p: "p \<in> set ps" "map_of fs (p_go p) = Some v" "param_carried L K p v" for p v
  proof (cases p)
    case (Parameter n l g ty lo)
    show ?thesis
    proof (cases l)
      case (In_path i)
      have "p \<in> set (filter is_path ps)" using p(1) Parameter In_path by (simp add: is_path_def)
      then obtain k where k: "k < length (filter is_path ps)" "filter is_path ps ! k = p" by (metis in_set_conv_nth)
      have len: "length (filter is_path ps) = length (path_pars parts)" using arg_cong [OF a(1), of length] by simp
      have "In_path i = In_path k" using arg_cong [OF a(2), of "\<lambda>xs. xs ! k"] k len Parameter In_path by simp
      moreover have "path_pars parts ! k = (n, g, ty)" using arg_cong [OF a(1), of "\<lambda>xs. xs ! k"] k Parameter by (simp add: param_sig_def)
      ultimately have "path_values L parts fs ! i = ol_text L ty v" using k(1) len p(2) Parameter by (simp add: path_values_def)
      with p(3) Parameter In_path show ?thesis by (simp add: Let_def)
    next
      case In_query
      have "(n, g, ty) \<in> set qs" unfolding a(3) [symmetric] using p(1) Parameter In_query by (force simp: is_path_def param_sig_def)
      with query(2) p(2) Parameter have m: "map_of query n = (if v = VUnset then None else ol_query_encode L (ol_text L ty v))" by (auto simp: Let_def)
      show ?thesis
      proof (cases "v = VUnset")
        case False
        with p(3) Parameter In_query m show ?thesis by (auto split: option.splits)
      qed (use m Parameter In_query in simp)
    qed
  qed
  have "list_all2 (\<lambda>p f. fst f = p_go p \<and> decode_param L K (path_values L parts fs) False query p = Inr (snd f)) ps fs"
    unfolding list_all2_conv_all_nth
  proof (intro conjI allI impI)
    show len: "length ps = length fs" using carried by (simp add: params_carried_def list_all2_lengthD)
    fix i assume i: "i < length ps"
    with carried have f: "fst (fs ! i) = p_go (ps ! i)" "param_carried L K (ps ! i) (snd (fs ! i))" by (auto simp: params_carried_def list_all2_conv_all_nth)
    show "fst (fs ! i) = p_go (ps ! i)" by (rule f(1))
    have names: "map fst fs = map p_go ps" using carried by (intro nth_equalityI) (auto simp: params_carried_def list_all2_conv_all_nth)
    have "(p_go (ps ! i), snd (fs ! i)) \<in> set fs" using i len f(1) by (metis nth_mem prod.collapse)
    then have "map_of fs (p_go (ps ! i)) = Some (snd (fs ! i))" using names a(4) by (intro map_of_is_SomeI) simp_all
    with each [of "ps ! i"] i f(2) show "decode_param L K (path_values L parts fs) False query (ps ! i) = Inr (snd (fs ! i))" by simp
  qed
  with query(1) show "\<exists>query. query_values L qs fs = Inr query \<and> decode_params L K (path_values L parts fs) False query ps = Inr fs"
    by (auto intro: decode_params_each)
qed

section \<open>Security\<close>

definition single_scheme :: "security_block \<Rightarrow> bool" where
  "single_scheme block = (case block of None \<Rightarrow> True | Some (schs, requirements) \<Rightarrow> (\<exists>sch \<in> {BearerApiKey, SessionCookie}. schs = [(sch, 0)]) \<and> requirements = [1])"

text \<open>The client has a credential of the scheme, a cookie can carry it, and the server accepts it with the context \<open>ctx\<close>.\<close>

definition authorised :: "'c ogen_server \<Rightarrow> ogen_client \<Rightarrow> string \<Rightarrow> security_block \<Rightarrow> 'c \<Rightarrow> 'c \<Rightarrow> bool" where
  "authorised S C operation block ctx0 ctx =
     (case block of
        None \<Rightarrow> ctx = ctx0
      | Some (schs, _) \<Rightarrow>
          (case fst (hd schs) of
             BearerApiKey \<Rightarrow> (case oc_bearer C operation of Inl _ \<Rightarrow> False | Inr token \<Rightarrow> os_bearer S ctx0 operation token = Inr ctx)
           | SessionCookie \<Rightarrow>
               (case oc_cookie C operation of
                  Inl _ \<Rightarrow> False
                | Inr key \<Rightarrow> list_all valid_cookie_byte key \<and> os_cookie S ctx0 operation key = Inr ctx)))"

lemma find_bearer: "findAuthorization (Header_Set ''Authorization'' (''Bearer '' @ token) h) ''Bearer'' = Some token"
proof -
  have "SplitN2 CHR '' '' (''Bearer '' @ token) = [''Bearer'', token]" using SplitN2_append [of "CHR '' ''" "''Bearer''" token] by simp
  then show ?thesis by (simp add: findAuthorization_def Header_Set_def)
qed

lemma security_passes:
  assumes "single_scheme block" and "authorised S C operation block (os_context S r) ctx" and "wq_cookies r = []" and "\<And>r r'. os_context S r = os_context S r'"
  shows "\<exists>r'. add_security C operation block r = Inr r' \<and> check_security S operation block r' (os_context S r') = Inr ctx \<and>
    wq_method r' = wq_method r \<and> wq_url r' = wq_url r \<and> wq_query r' = wq_query r \<and> wq_length r' = wq_length r \<and> wq_body r' = wq_body r \<and>
    Values_Get (wq_header r') ''Content-Type'' = Values_Get (wq_header r) ''Content-Type''"
proof (cases block)
  case None
  with assms(2) show ?thesis by (simp add: add_security_def check_security_def authorised_def)
next
  case (Some b)
  with assms(1) consider (bearer) "b = ([(BearerApiKey, 0)], [1])" | (cookie) "b = ([(SessionCookie, 0)], [1])"
    by (cases b) (auto simp: single_scheme_def)
  then show ?thesis
  proof cases
    case bearer
    with assms(2) Some obtain token where t: "oc_bearer C operation = Inr token" "os_bearer S (os_context S r) operation token = Inr ctx"
      by (auto simp: authorised_def split: sum.splits)
    let ?r = "r\<lparr>wq_header := Header_Set ''Authorization'' (''Bearer '' @ token) (wq_header r)\<rparr>"
    have "os_context S ?r = os_context S r" by (rule assms(4))
    with bearer Some t show ?thesis
      by (intro exI [of _ ?r])
        (simp add: add_security_def check_security_def requirement_ok_def server_securityBearerApiKey_def find_bearer [simplified] answer_security_def Values_Get_def)
  next
    case cookie
    with assms(2) Some obtain key where t: "oc_cookie C operation = Inr key" "list_all valid_cookie_byte key" "os_cookie S (os_context S r) operation key = Inr ctx"
      by (auto simp: authorised_def split: sum.splits)
    then have f: "filter valid_cookie_byte key = key" by (auto simp: filter_id_conv list_all_iff)
    let ?r = "AddCookie ''cliproxy_session'' key r"
    have "os_context S ?r = os_context S r" by (rule assms(4))
    with cookie Some t f assms(3) show ?thesis
      by (intro exI [of _ ?r])
        (simp add: add_security_def check_security_def requirement_ok_def server_securitySessionCookie_def answer_security_def AddCookie_def)
  qed
qed

section \<open>Request bodies\<close>

fun request_case_agree :: "req_case \<Rightarrow> eq_case \<Rightarrow> bool" where
  "request_case_agree (Rq_json t c ck) (Eq_json t' c') = (t = t' \<and> c = c' \<and> wf_codec c)"
| "request_case_agree (Rq_file t f) (Eq_file t' f') = (t = t' \<and> f = f')"
| "request_case_agree _ _ = False"

definition requests_agree :: "req_case list \<Rightarrow> eq_case list \<Rightarrow> bool" where
  "requests_agree rs es =
     (list_all2 request_case_agree rs es \<and>
      (case rs of [Rq_json _ _ _] \<Rightarrow> True | [Rq_json _ _ _, Rq_file _ _] \<Rightarrow> True | _ \<Rightarrow> False))"

definition valid_for :: "checks \<Rightarrow> check option \<Rightarrow> gval \<Rightarrow> bool" where
  "valid_for K ck v = (case ck of None \<Rightarrow> True | Some k \<Rightarrow> validate K k v = None)"

text \<open>A request that survives: a valid value of the type of a JSON body, or a file that can be sent and opened.\<close>

fun request_ok :: "ogen_lib \<Rightarrow> formats \<Rightarrow> checks \<Rightarrow> req_case list \<Rightarrow> greq \<Rightarrow> bool" where
  "request_ok L F K rs (Greq t v) =
     list_ex (\<lambda>c. case c of Rq_json t' c ck \<Rightarrow> t' = t \<and> typed F c v \<and> valid_for K ck v | _ \<Rightarrow> False) rs"
| "request_ok L F K rs (Greq_file t f) =
     (list_ex (\<lambda>c. case c of Rq_file t' _ \<Rightarrow> t' = t | _ \<Rightarrow> False) rs \<and> ol_write_file L f = Some f \<and> ol_open_file L f \<and>
      ParseMediaType (''multipart/form-data; boundary='' @ ol_boundary L) = Some ''multipart/form-data'')"

definition lib_ok :: "ogen_lib \<Rightarrow> bool" where
  "lib_ok L = (\<forall>b. b \<noteq> Wb_bytes [] \<longrightarrow> ol_length L b \<noteq> 0)"

lemma parse_json_type: "ParseMediaType ''application/json'' = Some ''application/json''"
  by code_simp

lemma json_request_round_trip:
  assumes "wf_codec c" and "typed F c v" and "valid_for K ck v" and "wq_length r \<noteq> 0" and "wq_body r = json_body F c v"
  shows "decode_json_request F K t c ck r = Inr (Greq t v, False)"
proof -
  have "read_json F K c ck (json_body F c v) = Inr v"
    using read_json_body [OF assms(1,2), of K ck] assms(3) by (auto simp: valid_for_def split: option.splits)
  moreover have "json_body F c v \<noteq> Wb_bytes []" by (auto simp: json_body_def split: option.splits)
  ultimately show ?thesis using assms(4,5) by (simp add: decode_json_request_def)
qed

lemma request_round_trip:
  assumes "requests_agree rs es" and "request_ok L F K rs q" and "lib_ok L"
  shows "\<exists>b ct files. encode_request L F es q = Some (b, ct) \<and>
    (\<forall>r. wq_body r = b \<longrightarrow> wq_length r = ol_length L b \<longrightarrow> Values_Get (wq_header r) ''Content-Type'' = ct \<longrightarrow> decode_request L F K rs r = Inr (q, files))"
proof -
  from assms(1) obtain t c ck rest where rs: "rs = Rq_json t c ck # rest" "wf_codec c" "rest = [] \<or> (\<exists>t' f. rest = [Rq_file t' f])"
    "es = Eq_json t c # map (\<lambda>x. case x of Rq_file t' f \<Rightarrow> Eq_file t' f) rest"
    by (auto simp: requests_agree_def list_all2_Cons1 elim!: request_case_agree.elims split: list.splits req_case.splits)
  show ?thesis
  proof (cases q)
    case (Greq t' v)
    with assms(2) rs have v: "t' = t" "typed F c v" "valid_for K ck v" by auto
    have "ol_length L (json_body F c v) \<noteq> 0" using assms(3) by (auto simp: lib_ok_def json_body_def split: option.splits)
    with json_request_round_trip [OF rs(2) v(2,3)] v(1) Greq rs(1,4) show ?thesis
      by (intro exI [of _ "json_body F c v"] exI [of _ "''application/json''"] exI [of _ False]) (auto simp: decode_request_def parse_json_type)
  next
    case (Greq_file t' f)
    with assms(2) rs obtain field where f: "rest = [Rq_file t' field]" "ol_write_file L f = Some f" "ol_open_file L f"
        "ParseMediaType (''multipart/form-data; boundary='' @ ol_boundary L) = Some ''multipart/form-data''" by auto
    have "ol_length L (Wb_form [(field, [f])]) \<noteq> 0" using assms(3) by (auto simp: lib_ok_def)
    with f Greq_file rs(1,4) show ?thesis
      by (intro exI [of _ "Wb_form [(field, [f])]"] exI [of _ "''multipart/form-data; boundary='' @ ol_boundary L"] exI [of _ True])
        (auto simp: decode_request_def decode_file_request_def)
  qed
qed

section \<open>Calls\<close>

definition op_agree :: "server_op \<Rightarrow> client_op \<Rightarrow> bool" where
  "op_agree s c =
     (so_name s = co_name c \<and> so_id s = co_id c \<and> so_method s = co_method c \<and> so_route s = co_route c \<and>
      so_security s = co_security c \<and> single_scheme (so_security s) \<and>
      part_toks 0 (co_path c) = pattern_toks 0 (so_route s) \<and>
      params_agree (case so_params s of None \<Rightarrow> [] | Some ps \<Rightarrow> ps) (co_path c) (case co_query c of None \<Rightarrow> [] | Some qs \<Rightarrow> qs) \<and>
      (case so_request s of
         None \<Rightarrow> co_request c = None
       | Some rs \<Rightarrow> (case co_request c of None \<Rightarrow> False | Some es \<Rightarrow> requests_agree rs es)) \<and>
      responses_agree (so_response s) (co_response c))"

text \<open>The arguments of a call survive the way to the server.\<close>

definition call_ok :: "ogen_lib \<Rightarrow> formats \<Rightarrow> checks \<Rightarrow> server_op \<Rightarrow> (string \<times> gval) list \<Rightarrow> greq option \<Rightarrow> bool" where
  "call_ok L F K s params request =
     (params_carried L K (case so_params s of None \<Rightarrow> [] | Some ps \<Rightarrow> ps) params \<and>
      (case so_request s of
         None \<Rightarrow> request = None
       | Some rs \<Rightarrow> (case request of None \<Rightarrow> False | Some q \<Rightarrow> request_ok L F K rs q)))"

text \<open>\<^verbatim>\<open>AddPathParts\<close> appends the parts to the address of the server, and \<^verbatim>\<open>NewRequest\<close> takes it.\<close>

definition address_ok :: "ogen_lib \<Rightarrow> ogen_client \<Rightarrow> client_op \<Rightarrow> (string \<times> gval) list \<Rightarrow> bool" where
  "address_ok L C c params =
     (case path_parts L (co_path c) params of
        Inl _ \<Rightarrow> False
      | Inr parts \<Rightarrow>
          (let u = ol_add_path L (oc_url C) parts
           in url_Path u = concat parts \<and> url_RawPath u = [] \<and> ol_request_ok L (co_method c) u))"

text \<open>What the client makes of the result of the operation: the result itself, unless its own check refuses it; or its reading of what the error handler answers.\<close>

definition local_result ::
  "ogen_lib \<Rightarrow> formats \<Rightarrow> checks \<Rightarrow> 'c ogen_server \<Rightarrow> client_op \<Rightarrow> 'c \<Rightarrow> string + gres \<Rightarrow> (string \<times> client_error) + gres" where
  "local_result L F K S c ctx result =
     (case result of
        Inr r \<Rightarrow> (case client_check K (co_response c) r of None \<Rightarrow> Inr r | Some x \<Rightarrow> Inl (''DecodeResponse'', Decode_response (Validate_body x)))
      | Inl e \<Rightarrow>
          (case decode_response L F K (co_response c) (os_error S ctx (Internal_error e)) of
             Inl x \<Rightarrow> Inl (''DecodeResponse'', Decode_response x)
           | Inr r \<Rightarrow> Inr r))"

lemma respond_result:
  assumes "responses_agree (so_response s) (co_response c)" and "\<And>r'. result = Inr r' \<Longrightarrow> response_ok L F (so_response s) r'" and "os_write_ok S r"
  shows "(case decode_response L F K (co_response c) (sd_response (respond L F S s r ctx files result)) of
      Inl x \<Rightarrow> Inl (''DecodeResponse'', Decode_response x) | Inr res \<Rightarrow> Inr res) = local_result L F K S c ctx result"
proof (cases result)
  case (Inl e)
  then show ?thesis by (simp add: respond_def fail_op_def local_result_def Let_def)
next
  case (Inr r')
  from response_round_trip [OF assms(1) assms(2) [OF Inr], of K] obtain w span where
    "encode_response L F (so_response s) r' = Inr (w, span)"
    "decode_response L F K (co_response c) w = (case client_check K (co_response c) r' of None \<Rightarrow> Inr r' | Some x \<Rightarrow> Inl (Validate_body x))"
    by blast
  with Inr assms(3) show ?thesis by (simp add: respond_def local_result_def split: option.splits)
qed

text \<open>The body that the client builds is read by the server.\<close>

lemma body_arrives:
  assumes "case so_request s of None \<Rightarrow> co_request c = None | Some rs \<Rightarrow> (case co_request c of None \<Rightarrow> False | Some es \<Rightarrow> requests_agree rs es)"
    and "case so_request s of None \<Rightarrow> request = None | Some rs \<Rightarrow> (case request of None \<Rightarrow> False | Some q \<Rightarrow> request_ok L F K rs q)" and "lib_ok L"
  shows "\<exists>b hs. build_body L F c request = Some (b, hs) \<and>
    (\<forall>r. wq_body r = b \<longrightarrow> wq_length r = ol_length L b \<longrightarrow> Values_Get (wq_header r) ''Content-Type'' = Values_Get hs ''Content-Type'' \<longrightarrow>
       (case so_request s of None \<Rightarrow> request = None | Some rs \<Rightarrow> (\<exists>q files. request = Some q \<and> decode_request L F K rs r = Inr (q, files))))"
proof (cases "so_request s")
  case None
  with assms(1,2) show ?thesis by (simp add: build_body_def)
next
  case (Some rs)
  with assms(1,2) obtain es q where es: "co_request c = Some es" "requests_agree rs es" "request = Some q" "request_ok L F K rs q"
    by (auto split: option.splits)
  from request_round_trip [OF es(2,4) assms(3)] obtain b ct files where b: "encode_request L F es q = Some (b, ct)"
    "\<And>r. wq_body r = b \<Longrightarrow> wq_length r = ol_length L b \<Longrightarrow> Values_Get (wq_header r) ''Content-Type'' = ct \<Longrightarrow> decode_request L F K rs r = Inr (q, files)"
    by blast
  then have "build_body L F c request = Some (b, [(''Content-Type'', ct)])" using es by (simp add: build_body_def)
  with b(2) Some es(3) show ?thesis by (intro exI [of _ b] exI [of _ "[(''Content-Type'', ct)]"]) (auto simp: Values_Get_def)
qed

text \<open>
  A call through the client, the router and the server is a call of the operation: \<open>routed\<close> says that the router finds it for the path.
\<close>

theorem call_through:
  assumes agree: "op_agree s c" and found: "find (\<lambda>op. so_name op = so_name s) ops = Some s"
    and routed: "\<And>vals. length vals = length (path_pars (co_path c)) \<Longrightarrow> plain_values vals \<Longrightarrow>
      ServeHTTP canon [] (so_method s) \<lparr>url_Path = fill vals (pattern_toks 0 (so_route s)), url_RawPath = []\<rparr> = Dispatch (so_name s) vals False"
    and call: "call_ok L F K s params request" "lib_ok L" "address_ok L C c params"
    and auth: "authorised S C (so_name s) (so_security s) ctx0 ctx" "\<And>r. os_context S r = ctx0"
    and server: "os_middleware S = None" "\<And>r. os_write_ok S r" "oc_do C = (\<lambda>r. Some (serve_request canon ops L F K S r))"
    and result: "\<And>r'. os_operation S ctx (so_name s) params request = Inr r' \<Longrightarrow> response_ok L F (so_response s) r'"
  shows "send L F K C c params request = local_result L F K S c ctx (os_operation S ctx (so_name s) params request)"
proof -
  let ?ps = "case so_params s of None \<Rightarrow> [] | Some ps \<Rightarrow> ps" and ?qs = "case co_query c of None \<Rightarrow> [] | Some qs \<Rightarrow> qs"
  let ?vals = "path_values L (co_path c) params"
  have a: "so_name s = co_name c" "so_method s = co_method c" "so_security s = co_security c" "single_scheme (so_security s)"
      "part_toks 0 (co_path c) = pattern_toks 0 (so_route s)" "params_agree ?ps (co_path c) ?qs" "responses_agree (so_response s) (co_response c)"
      "case so_request s of None \<Rightarrow> co_request c = None | Some rs \<Rightarrow> (case co_request c of None \<Rightarrow> False | Some es \<Rightarrow> requests_agree rs es)"
    using agree unfolding op_agree_def by blast+
  have k: "params_carried L K ?ps params"
      "case so_request s of None \<Rightarrow> request = None | Some rs \<Rightarrow> (case request of None \<Rightarrow> False | Some q \<Rightarrow> request_ok L F K rs q)"
    using call(1) unfolding call_ok_def by blast+
  note arrive = params_arrive [OF a(6) k(1)]
  obtain parts where parts: "path_parts L (co_path c) params = Inr parts" "concat parts = fill ?vals (pattern_toks 0 (so_route s))"
    using arrive(3) a(5) by auto
  obtain query where query: "query_values L ?qs params = Inr query" "decode_params L K ?vals False query ?ps = Inr params" using arrive(4) by blast
  obtain b hs where b: "build_body L F c request = Some (b, hs)"
      "\<And>r. wq_body r = b \<Longrightarrow> wq_length r = ol_length L b \<Longrightarrow> Values_Get (wq_header r) ''Content-Type'' = Values_Get hs ''Content-Type'' \<Longrightarrow>
       (case so_request s of None \<Rightarrow> request = None | Some rs \<Rightarrow> (\<exists>q files. request = Some q \<and> decode_request L F K rs r = Inr (q, files)))"
    using body_arrives [OF a(8) k(2) call(2)] by blast
  let ?u = "ol_add_path L (oc_url C) parts"
  have u: "?u = \<lparr>url_Path = fill ?vals (pattern_toks 0 (so_route s)), url_RawPath = []\<rparr>" "ol_request_ok L (co_method c) ?u"
    using call(3) parts by (simp_all add: address_ok_def Let_def)
  let ?r0 = "\<lparr>wq_method = co_method c, wq_url = ?u, wq_query = query, wq_header = hs, wq_cookies = [], wq_length = ol_length L b, wq_body = b\<rparr>"
  obtain r where r: "add_security C (co_name c) (co_security c) ?r0 = Inr r" "check_security S (so_name s) (so_security s) r ctx0 = Inr ctx"
      "wq_method r = co_method c" "wq_url r = ?u" "wq_query r = query" "wq_length r = ol_length L b" "wq_body r = b"
      "Values_Get (wq_header r) ''Content-Type'' = Values_Get hs ''Content-Type''"
    using security_passes [OF a(4), of S C "so_name s" ?r0 ctx] auth a(1,3) by auto
  have params: "(case so_params s of None \<Rightarrow> Inr [] | Some ps \<Rightarrow> decode_params L K ?vals False (wq_query r) ps) = Inr params"
    using query(2) r(5) by (auto split: option.splits)
  have call_op: "call_operation S s ctx params q = os_operation S ctx (so_name s) params q" for q by (simp add: call_operation_def server(1))
  have handled: "\<exists>files. handle L F K S s ?vals False r = respond L F S s r ctx files (os_operation S ctx (so_name s) params request)"
  proof (cases "so_request s")
    case None
    with b(2) [OF r(7,6,8)] show ?thesis by (auto simp: handle_def auth(2) r(2) params call_op)
  next
    case (Some rs)
    with b(2) [OF r(7,6,8)] show ?thesis by (auto simp: handle_def auth(2) r(2) params call_op)
  qed
  then obtain files where files: "handle L F K S s ?vals False r = respond L F S s r ctx files (os_operation S ctx (so_name s) params request)" ..
  have "serve_request canon ops L F K S r = sd_response (handle L F K S s ?vals False r)"
    using routed [OF arrive(2,1)] found r(3,4) u(1) a(2) by (simp add: serve_request_def)
  with respond_result [OF a(7) result server(2), where files = files and K = K]
  have "(case decode_response L F K (co_response c) (serve_request canon ops L F K S r) of
      Inl x \<Rightarrow> Inl (''DecodeResponse'', Decode_response x) | Inr res \<Rightarrow> Inr res) =
    local_result L F K S c ctx (os_operation S ctx (so_name s) params request)" by (simp add: files)
  moreover have "build_query L c params = Inr query" using query(1) by (auto simp: build_query_def split: option.splits)
  ultimately show ?thesis using parts(1) u(2) b(1) r(1) by (simp add: send_def server(3) Let_def)
qed

end
