(* ===== verification/Openapi_Operations.thy ===== *)
theory Openapi_Operations
  imports Openapi_Agreement
begin

text \<open>
  The operations of the generated server and client in \<^verbatim>\<open>internal/openapi/ogen\<close>: for each operation the parameters (\<^verbatim>\<open>oas_parameters_gen.go\<close>),
  the bodies of requests (\<^verbatim>\<open>oas_request_decoders_gen.go\<close>, \<^verbatim>\<open>oas_request_encoders_gen.go\<close>) and responses (\<^verbatim>\<open>oas_response_encoders_gen.go\<close>,
  \<^verbatim>\<open>oas_response_decoders_gen.go\<close>), the handler (\<^verbatim>\<open>oas_handlers_gen.go\<close>) and the method of the client (\<^verbatim>\<open>oas_client_gen.go\<close>), with the
  statements of the code in their order. The summaries of the operations, which only a middleware sees, are left out.
\<close>

section \<open>Parameters\<close>

definition params_CancelOAuthSession :: "parameter list" where
  "params_CancelOAuthSession =
    [Parameter ''state'' (In_path 0) ''State'' Pt_string None]"

definition params_DeleteModelOverride :: "parameter list" where
  "params_DeleteModelOverride =
    [Parameter ''modelAlias'' (In_path 0) ''ModelAlias'' Pt_string None]"

definition params_ExportOAuthCredential :: "parameter list" where
  "params_ExportOAuthCredential =
    [Parameter ''accountID'' (In_path 0) ''AccountID'' Pt_string None]"

definition params_GetMyUsage :: "parameter list" where
  "params_GetMyUsage =
    [Parameter ''from'' In_query ''From'' Pt_datetime None,
     Parameter ''to'' In_query ''To'' Pt_datetime None]"

definition params_GetOAuthSession :: "parameter list" where
  "params_GetOAuthSession =
    [Parameter ''state'' (In_path 0) ''State'' Pt_string None]"

definition params_GetUpstreamAccountQuota :: "parameter list" where
  "params_GetUpstreamAccountQuota =
    [Parameter ''accountID'' (In_path 0) ''AccountID'' Pt_string None]"

definition params_ProxyGeminiModelActionGet :: "parameter list" where
  "params_ProxyGeminiModelActionGet =
    [Parameter ''model'' (In_path 0) ''Model'' Pt_string None,
     Parameter ''action'' (In_path 1) ''Action'' Pt_string None]"

definition params_ProxyGeminiModelActionPost :: "parameter list" where
  "params_ProxyGeminiModelActionPost =
    [Parameter ''model'' (In_path 0) ''Model'' Pt_string None,
     Parameter ''action'' (In_path 1) ''Action'' Pt_string None]"

definition params_ProxyOpenAIVideosContent :: "parameter list" where
  "params_ProxyOpenAIVideosContent =
    [Parameter ''video_id'' (In_path 0) ''VideoID'' Pt_string None]"

definition params_ProxyOpenAIVideosRetrieve :: "parameter list" where
  "params_ProxyOpenAIVideosRetrieve =
    [Parameter ''video_id'' (In_path 0) ''VideoID'' Pt_string None]"

definition params_ProxyXAIVideoRetrieve :: "parameter list" where
  "params_ProxyXAIVideoRetrieve =
    [Parameter ''request_id'' (In_path 0) ''RequestID'' Pt_string None]"

definition params_RevokeMyAPIKey :: "parameter list" where
  "params_RevokeMyAPIKey =
    [Parameter ''keyID'' (In_path 0) ''KeyID'' Pt_int64 (Some 1)]"

definition params_SetUserStatus :: "parameter list" where
  "params_SetUserStatus =
    [Parameter ''userID'' (In_path 0) ''UserID'' Pt_int64 (Some 1)]"

definition params_TestUpstreamAccount :: "parameter list" where
  "params_TestUpstreamAccount =
    [Parameter ''accountID'' (In_path 0) ''AccountID'' Pt_string None]"

definition params_UpsertModelOverride :: "parameter list" where
  "params_UpsertModelOverride =
    [Parameter ''modelAlias'' (In_path 0) ''ModelAlias'' Pt_string None]"

section \<open>Request bodies\<close>

definition decode_CreateMyAPIKeyRequest :: "req_case list" where
  "decode_CreateMyAPIKeyRequest = [Rq_json ''CreateAPIKeyRequest'' json_CreateAPIKeyRequest (Some validate_CreateAPIKeyRequest)]"

definition encode_CreateMyAPIKeyRequest :: "eq_case list" where
  "encode_CreateMyAPIKeyRequest = [Eq_json ''CreateAPIKeyRequest'' json_CreateAPIKeyRequest]"

definition decode_CreateProviderAPIKeysRequest :: "req_case list" where
  "decode_CreateProviderAPIKeysRequest = [Rq_json ''CreateProviderKeysRequest'' json_CreateProviderKeysRequest (Some validate_CreateProviderKeysRequest)]"

definition encode_CreateProviderAPIKeysRequest :: "eq_case list" where
  "encode_CreateProviderAPIKeysRequest = [Eq_json ''CreateProviderKeysRequest'' json_CreateProviderKeysRequest]"

definition decode_ImportOAuthCredentialRequest :: "req_case list" where
  "decode_ImportOAuthCredentialRequest = [Rq_json ''OAuthCredential'' json_OAuthCredential None, Rq_file ''ImportOAuthCredentialReqMultipartFormData'' ''file'']"

definition encode_ImportOAuthCredentialRequest :: "eq_case list" where
  "encode_ImportOAuthCredentialRequest = [Eq_json ''OAuthCredential'' json_OAuthCredential, Eq_file ''ImportOAuthCredentialReqMultipartFormData'' ''file'']"

definition decode_LoginRequest :: "req_case list" where
  "decode_LoginRequest = [Rq_json ''LoginRequest'' json_LoginRequest (Some validate_LoginRequest)]"

definition encode_LoginRequest :: "eq_case list" where
  "encode_LoginRequest = [Eq_json ''LoginRequest'' json_LoginRequest]"

definition decode_SetUserStatusRequest :: "req_case list" where
  "decode_SetUserStatusRequest = [Rq_json ''SetUserStatusRequest'' json_SetUserStatusRequest (Some validate_SetUserStatusRequest)]"

definition encode_SetUserStatusRequest :: "eq_case list" where
  "encode_SetUserStatusRequest = [Eq_json ''SetUserStatusRequest'' json_SetUserStatusRequest]"

definition decode_UpsertModelOverrideRequest :: "req_case list" where
  "decode_UpsertModelOverrideRequest = [Rq_json ''UpsertModelOverrideRequest'' json_UpsertModelOverrideRequest None]"

definition encode_UpsertModelOverrideRequest :: "eq_case list" where
  "encode_UpsertModelOverrideRequest = [Eq_json ''UpsertModelOverrideRequest'' json_UpsertModelOverrideRequest]"

section \<open>Responses\<close>

definition encode_CancelOAuthSessionResponse :: "enc_case list" where
  "encode_CancelOAuthSessionResponse =
    [Enc_case ''CancelOAuthSessionNoContent'' None None 204 False Enc_none,
     Enc_case ''CancelOAuthSessionNotFound'' None None 404 False Enc_none]"

definition decode_CancelOAuthSessionResponse :: "dec_case list" where
  "decode_CancelOAuthSessionResponse =
    [Dec_case 204 None ''CancelOAuthSessionNoContent'' None Dec_none,
     Dec_case 404 None ''CancelOAuthSessionNotFound'' None Dec_none]"

definition encode_CreateMyAPIKeyResponse :: "enc_case list" where
  "encode_CreateMyAPIKeyResponse =
    [Enc_case ''CreateAPIKeyResponse'' (Some ''application/json; charset=utf-8'') None 201 False (Enc_json json_CreateAPIKeyResponse),
     Enc_case ''CreateMyAPIKeyBadRequest'' (Some ''application/json; charset=utf-8'') None 400 False (Enc_json json_CreateMyAPIKeyBadRequest),
     Enc_case ''CreateMyAPIKeyUnauthorized'' (Some ''application/json; charset=utf-8'') None 401 False (Enc_json json_CreateMyAPIKeyUnauthorized),
     Enc_case ''CreateMyAPIKeyInternalServerError'' (Some ''application/json; charset=utf-8'') None 500 True (Enc_json json_CreateMyAPIKeyInternalServerError)]"

definition decode_CreateMyAPIKeyResponse :: "dec_case list" where
  "decode_CreateMyAPIKeyResponse =
    [Dec_case 201 (Some ''application/json'') ''CreateAPIKeyResponse'' None (Dec_json json_CreateAPIKeyResponse (Some validate_CreateAPIKeyResponse)),
     Dec_case 400 (Some ''application/json'') ''CreateMyAPIKeyBadRequest'' None (Dec_json json_CreateMyAPIKeyBadRequest None),
     Dec_case 401 (Some ''application/json'') ''CreateMyAPIKeyUnauthorized'' None (Dec_json json_CreateMyAPIKeyUnauthorized None),
     Dec_case 500 (Some ''application/json'') ''CreateMyAPIKeyInternalServerError'' None (Dec_json json_CreateMyAPIKeyInternalServerError None)]"

definition encode_CreateProviderAPIKeysResponse :: "enc_case list" where
  "encode_CreateProviderAPIKeysResponse =
    [Enc_case ''ProviderAPIKeyListResponse'' (Some ''application/json; charset=utf-8'') None 201 False (Enc_json json_ProviderAPIKeyListResponse),
     Enc_case ''CreateProviderAPIKeysBadRequest'' (Some ''application/json; charset=utf-8'') None 400 False (Enc_json json_CreateProviderAPIKeysBadRequest),
     Enc_case ''CreateProviderAPIKeysUnauthorized'' (Some ''application/json; charset=utf-8'') None 401 False (Enc_json json_CreateProviderAPIKeysUnauthorized),
     Enc_case ''CreateProviderAPIKeysForbidden'' (Some ''application/json; charset=utf-8'') None 403 False (Enc_json json_CreateProviderAPIKeysForbidden),
     Enc_case ''CreateProviderAPIKeysInternalServerError'' (Some ''application/json; charset=utf-8'') None 500 True (Enc_json json_CreateProviderAPIKeysInternalServerError)]"

definition decode_CreateProviderAPIKeysResponse :: "dec_case list" where
  "decode_CreateProviderAPIKeysResponse =
    [Dec_case 201 (Some ''application/json'') ''ProviderAPIKeyListResponse'' None (Dec_json json_ProviderAPIKeyListResponse (Some validate_ProviderAPIKeyListResponse)),
     Dec_case 400 (Some ''application/json'') ''CreateProviderAPIKeysBadRequest'' None (Dec_json json_CreateProviderAPIKeysBadRequest None),
     Dec_case 401 (Some ''application/json'') ''CreateProviderAPIKeysUnauthorized'' None (Dec_json json_CreateProviderAPIKeysUnauthorized None),
     Dec_case 403 (Some ''application/json'') ''CreateProviderAPIKeysForbidden'' None (Dec_json json_CreateProviderAPIKeysForbidden None),
     Dec_case 500 (Some ''application/json'') ''CreateProviderAPIKeysInternalServerError'' None (Dec_json json_CreateProviderAPIKeysInternalServerError None)]"

definition encode_DeleteModelOverrideResponse :: "enc_case list" where
  "encode_DeleteModelOverrideResponse =
    [Enc_case ''DeleteModelOverrideNoContent'' None None 204 False Enc_none]"

definition decode_DeleteModelOverrideResponse :: "dec_case list" where
  "decode_DeleteModelOverrideResponse =
    [Dec_case 204 None ''DeleteModelOverrideNoContent'' None Dec_none]"

definition encode_DocsResponse :: "enc_case list" where
  "encode_DocsResponse =
    [Enc_case ''DocsOK'' (Some ''text/html; charset=utf-8'') None 200 False Enc_copy]"

definition decode_DocsResponse :: "dec_case list" where
  "decode_DocsResponse =
    [Dec_case 200 (Some ''text/html'') ''DocsOK'' None Dec_data]"

definition encode_ExportOAuthCredentialResponse :: "enc_case list" where
  "encode_ExportOAuthCredentialResponse =
    [Enc_case ''OAuthCredentialHeaders'' (Some ''application/json; charset=utf-8'') (Some ''Content-Disposition'') 200 False (Enc_json json_OAuthCredential),
     Enc_case ''ExportOAuthCredentialBadRequest'' (Some ''application/json; charset=utf-8'') None 400 False (Enc_json json_ExportOAuthCredentialBadRequest),
     Enc_case ''ExportOAuthCredentialUnauthorized'' (Some ''application/json; charset=utf-8'') None 401 False (Enc_json json_ExportOAuthCredentialUnauthorized),
     Enc_case ''ExportOAuthCredentialForbidden'' (Some ''application/json; charset=utf-8'') None 403 False (Enc_json json_ExportOAuthCredentialForbidden),
     Enc_case ''ExportOAuthCredentialNotFound'' (Some ''application/json; charset=utf-8'') None 404 False (Enc_json json_ExportOAuthCredentialNotFound),
     Enc_case ''ExportOAuthCredentialInternalServerError'' (Some ''application/json; charset=utf-8'') None 500 True (Enc_json json_ExportOAuthCredentialInternalServerError)]"

definition decode_ExportOAuthCredentialResponse :: "dec_case list" where
  "decode_ExportOAuthCredentialResponse =
    [Dec_case 200 (Some ''application/json'') ''OAuthCredentialHeaders'' (Some ''Content-Disposition'') (Dec_json json_OAuthCredential None),
     Dec_case 400 (Some ''application/json'') ''ExportOAuthCredentialBadRequest'' None (Dec_json json_ExportOAuthCredentialBadRequest None),
     Dec_case 401 (Some ''application/json'') ''ExportOAuthCredentialUnauthorized'' None (Dec_json json_ExportOAuthCredentialUnauthorized None),
     Dec_case 403 (Some ''application/json'') ''ExportOAuthCredentialForbidden'' None (Dec_json json_ExportOAuthCredentialForbidden None),
     Dec_case 404 (Some ''application/json'') ''ExportOAuthCredentialNotFound'' None (Dec_json json_ExportOAuthCredentialNotFound None),
     Dec_case 500 (Some ''application/json'') ''ExportOAuthCredentialInternalServerError'' None (Dec_json json_ExportOAuthCredentialInternalServerError None)]"

definition encode_GetCurrentUserResponse :: "enc_case list" where
  "encode_GetCurrentUserResponse =
    [Enc_case ''CurrentUserResponse'' (Some ''application/json; charset=utf-8'') None 200 False (Enc_json json_CurrentUserResponse),
     Enc_case ''Error'' (Some ''application/json; charset=utf-8'') None 401 False (Enc_json json_Error)]"

definition decode_GetCurrentUserResponse :: "dec_case list" where
  "decode_GetCurrentUserResponse =
    [Dec_case 200 (Some ''application/json'') ''CurrentUserResponse'' None (Dec_json json_CurrentUserResponse (Some validate_CurrentUserResponse)),
     Dec_case 401 (Some ''application/json'') ''Error'' None (Dec_json json_Error None)]"

definition encode_GetMyUsageResponse :: "enc_case list" where
  "encode_GetMyUsageResponse =
    [Enc_case ''UsageResponse'' (Some ''application/json; charset=utf-8'') None 200 False (Enc_json json_UsageResponse),
     Enc_case ''GetMyUsageBadRequest'' (Some ''application/json; charset=utf-8'') None 400 False (Enc_json json_GetMyUsageBadRequest),
     Enc_case ''GetMyUsageUnauthorized'' (Some ''application/json; charset=utf-8'') None 401 False (Enc_json json_GetMyUsageUnauthorized),
     Enc_case ''GetMyUsageInternalServerError'' (Some ''application/json; charset=utf-8'') None 500 True (Enc_json json_GetMyUsageInternalServerError)]"

definition decode_GetMyUsageResponse :: "dec_case list" where
  "decode_GetMyUsageResponse =
    [Dec_case 200 (Some ''application/json'') ''UsageResponse'' None (Dec_json json_UsageResponse (Some validate_UsageResponse)),
     Dec_case 400 (Some ''application/json'') ''GetMyUsageBadRequest'' None (Dec_json json_GetMyUsageBadRequest None),
     Dec_case 401 (Some ''application/json'') ''GetMyUsageUnauthorized'' None (Dec_json json_GetMyUsageUnauthorized None),
     Dec_case 500 (Some ''application/json'') ''GetMyUsageInternalServerError'' None (Dec_json json_GetMyUsageInternalServerError None)]"

definition encode_GetOAuthSessionResponse :: "enc_case list" where
  "encode_GetOAuthSessionResponse =
    [Enc_case ''OAuthSession'' (Some ''application/json; charset=utf-8'') None 200 False (Enc_json json_OAuthSession),
     Enc_case ''GetOAuthSessionNotFound'' None None 404 False Enc_none]"

definition decode_GetOAuthSessionResponse :: "dec_case list" where
  "decode_GetOAuthSessionResponse =
    [Dec_case 200 (Some ''application/json'') ''OAuthSession'' None (Dec_json json_OAuthSession (Some validate_OAuthSession)),
     Dec_case 404 None ''GetOAuthSessionNotFound'' None Dec_none]"

definition encode_GetUpstreamAccountQuotaResponse :: "enc_case list" where
  "encode_GetUpstreamAccountQuotaResponse =
    [Enc_case ''AccountQuotaResponse'' (Some ''application/json; charset=utf-8'') None 200 False (Enc_json json_AccountQuotaResponse),
     Enc_case ''GetUpstreamAccountQuotaUnauthorized'' (Some ''application/json; charset=utf-8'') None 401 False (Enc_json json_GetUpstreamAccountQuotaUnauthorized),
     Enc_case ''GetUpstreamAccountQuotaForbidden'' (Some ''application/json; charset=utf-8'') None 403 False (Enc_json json_GetUpstreamAccountQuotaForbidden),
     Enc_case ''GetUpstreamAccountQuotaNotFound'' (Some ''application/json; charset=utf-8'') None 404 False (Enc_json json_GetUpstreamAccountQuotaNotFound),
     Enc_case ''GetUpstreamAccountQuotaInternalServerError'' (Some ''application/json; charset=utf-8'') None 500 True (Enc_json json_GetUpstreamAccountQuotaInternalServerError)]"

definition decode_GetUpstreamAccountQuotaResponse :: "dec_case list" where
  "decode_GetUpstreamAccountQuotaResponse =
    [Dec_case 200 (Some ''application/json'') ''AccountQuotaResponse'' None (Dec_json json_AccountQuotaResponse (Some validate_AccountQuotaResponse)),
     Dec_case 401 (Some ''application/json'') ''GetUpstreamAccountQuotaUnauthorized'' None (Dec_json json_GetUpstreamAccountQuotaUnauthorized None),
     Dec_case 403 (Some ''application/json'') ''GetUpstreamAccountQuotaForbidden'' None (Dec_json json_GetUpstreamAccountQuotaForbidden None),
     Dec_case 404 (Some ''application/json'') ''GetUpstreamAccountQuotaNotFound'' None (Dec_json json_GetUpstreamAccountQuotaNotFound None),
     Dec_case 500 (Some ''application/json'') ''GetUpstreamAccountQuotaInternalServerError'' None (Dec_json json_GetUpstreamAccountQuotaInternalServerError None)]"

definition encode_HealthzResponse :: "enc_case list" where
  "encode_HealthzResponse =
    [Enc_case ''HealthzOK'' (Some ''text/plain; charset=utf-8'') None 200 False Enc_copy]"

definition decode_HealthzResponse :: "dec_case list" where
  "decode_HealthzResponse =
    [Dec_case 200 (Some ''text/plain'') ''HealthzOK'' None Dec_data]"

definition encode_ImportOAuthCredentialResponse :: "enc_case list" where
  "encode_ImportOAuthCredentialResponse =
    [Enc_case ''ImportedOAuthCredential'' (Some ''application/json; charset=utf-8'') None 201 False (Enc_json json_ImportedOAuthCredential),
     Enc_case ''ImportOAuthCredentialBadRequest'' (Some ''application/json; charset=utf-8'') None 400 False (Enc_json json_ImportOAuthCredentialBadRequest),
     Enc_case ''ImportOAuthCredentialUnauthorized'' (Some ''application/json; charset=utf-8'') None 401 False (Enc_json json_ImportOAuthCredentialUnauthorized),
     Enc_case ''ImportOAuthCredentialForbidden'' (Some ''application/json; charset=utf-8'') None 403 False (Enc_json json_ImportOAuthCredentialForbidden),
     Enc_case ''ImportOAuthCredentialConflict'' (Some ''application/json; charset=utf-8'') None 409 False (Enc_json json_ImportOAuthCredentialConflict),
     Enc_case ''ImportOAuthCredentialRequestEntityTooLarge'' (Some ''application/json; charset=utf-8'') None 413 False (Enc_json json_ImportOAuthCredentialRequestEntityTooLarge),
     Enc_case ''ImportOAuthCredentialUnsupportedMediaType'' (Some ''application/json; charset=utf-8'') None 415 False (Enc_json json_ImportOAuthCredentialUnsupportedMediaType),
     Enc_case ''ImportOAuthCredentialInternalServerError'' (Some ''application/json; charset=utf-8'') None 500 True (Enc_json json_ImportOAuthCredentialInternalServerError)]"

definition decode_ImportOAuthCredentialResponse :: "dec_case list" where
  "decode_ImportOAuthCredentialResponse =
    [Dec_case 201 (Some ''application/json'') ''ImportedOAuthCredential'' None (Dec_json json_ImportedOAuthCredential None),
     Dec_case 400 (Some ''application/json'') ''ImportOAuthCredentialBadRequest'' None (Dec_json json_ImportOAuthCredentialBadRequest None),
     Dec_case 401 (Some ''application/json'') ''ImportOAuthCredentialUnauthorized'' None (Dec_json json_ImportOAuthCredentialUnauthorized None),
     Dec_case 403 (Some ''application/json'') ''ImportOAuthCredentialForbidden'' None (Dec_json json_ImportOAuthCredentialForbidden None),
     Dec_case 409 (Some ''application/json'') ''ImportOAuthCredentialConflict'' None (Dec_json json_ImportOAuthCredentialConflict None),
     Dec_case 413 (Some ''application/json'') ''ImportOAuthCredentialRequestEntityTooLarge'' None (Dec_json json_ImportOAuthCredentialRequestEntityTooLarge None),
     Dec_case 415 (Some ''application/json'') ''ImportOAuthCredentialUnsupportedMediaType'' None (Dec_json json_ImportOAuthCredentialUnsupportedMediaType None),
     Dec_case 500 (Some ''application/json'') ''ImportOAuthCredentialInternalServerError'' None (Dec_json json_ImportOAuthCredentialInternalServerError None)]"

definition encode_ListAllAPIKeysResponse :: "enc_case list" where
  "encode_ListAllAPIKeysResponse =
    [Enc_case ''AdminAPIKeyListResponse'' (Some ''application/json; charset=utf-8'') None 200 False (Enc_json json_AdminAPIKeyListResponse),
     Enc_case ''ListAllAPIKeysUnauthorized'' (Some ''application/json; charset=utf-8'') None 401 False (Enc_json json_ListAllAPIKeysUnauthorized),
     Enc_case ''ListAllAPIKeysForbidden'' (Some ''application/json; charset=utf-8'') None 403 False (Enc_json json_ListAllAPIKeysForbidden),
     Enc_case ''ListAllAPIKeysInternalServerError'' (Some ''application/json; charset=utf-8'') None 500 True (Enc_json json_ListAllAPIKeysInternalServerError)]"

definition decode_ListAllAPIKeysResponse :: "dec_case list" where
  "decode_ListAllAPIKeysResponse =
    [Dec_case 200 (Some ''application/json'') ''AdminAPIKeyListResponse'' None (Dec_json json_AdminAPIKeyListResponse (Some validate_AdminAPIKeyListResponse)),
     Dec_case 401 (Some ''application/json'') ''ListAllAPIKeysUnauthorized'' None (Dec_json json_ListAllAPIKeysUnauthorized None),
     Dec_case 403 (Some ''application/json'') ''ListAllAPIKeysForbidden'' None (Dec_json json_ListAllAPIKeysForbidden None),
     Dec_case 500 (Some ''application/json'') ''ListAllAPIKeysInternalServerError'' None (Dec_json json_ListAllAPIKeysInternalServerError None)]"

definition encode_ListModelOverridesResponse :: "enc_case list" where
  "encode_ListModelOverridesResponse =
    [Enc_case ''ModelOverrideListResponse'' (Some ''application/json; charset=utf-8'') None 200 False (Enc_json json_ModelOverrideListResponse)]"

definition decode_ListModelOverridesResponse :: "dec_case list" where
  "decode_ListModelOverridesResponse =
    [Dec_case 200 (Some ''application/json'') ''ModelOverrideListResponse'' None (Dec_json json_ModelOverrideListResponse (Some validate_ModelOverrideListResponse))]"

definition encode_ListMyAPIKeysResponse :: "enc_case list" where
  "encode_ListMyAPIKeysResponse =
    [Enc_case ''APIKeyListResponse'' (Some ''application/json; charset=utf-8'') None 200 False (Enc_json json_APIKeyListResponse),
     Enc_case ''ListMyAPIKeysUnauthorized'' (Some ''application/json; charset=utf-8'') None 401 False (Enc_json json_ListMyAPIKeysUnauthorized),
     Enc_case ''ListMyAPIKeysInternalServerError'' (Some ''application/json; charset=utf-8'') None 500 True (Enc_json json_ListMyAPIKeysInternalServerError)]"

definition decode_ListMyAPIKeysResponse :: "dec_case list" where
  "decode_ListMyAPIKeysResponse =
    [Dec_case 200 (Some ''application/json'') ''APIKeyListResponse'' None (Dec_json json_APIKeyListResponse (Some validate_APIKeyListResponse)),
     Dec_case 401 (Some ''application/json'') ''ListMyAPIKeysUnauthorized'' None (Dec_json json_ListMyAPIKeysUnauthorized None),
     Dec_case 500 (Some ''application/json'') ''ListMyAPIKeysInternalServerError'' None (Dec_json json_ListMyAPIKeysInternalServerError None)]"

definition encode_ListPendingOAuthSessionsResponse :: "enc_case list" where
  "encode_ListPendingOAuthSessionsResponse =
    [Enc_case ''OAuthSessionListResponse'' (Some ''application/json; charset=utf-8'') None 200 False (Enc_json json_OAuthSessionListResponse),
     Enc_case ''ListPendingOAuthSessionsUnauthorized'' (Some ''application/json; charset=utf-8'') None 401 False (Enc_json json_ListPendingOAuthSessionsUnauthorized),
     Enc_case ''ListPendingOAuthSessionsForbidden'' (Some ''application/json; charset=utf-8'') None 403 False (Enc_json json_ListPendingOAuthSessionsForbidden)]"

definition decode_ListPendingOAuthSessionsResponse :: "dec_case list" where
  "decode_ListPendingOAuthSessionsResponse =
    [Dec_case 200 (Some ''application/json'') ''OAuthSessionListResponse'' None (Dec_json json_OAuthSessionListResponse (Some validate_OAuthSessionListResponse)),
     Dec_case 401 (Some ''application/json'') ''ListPendingOAuthSessionsUnauthorized'' None (Dec_json json_ListPendingOAuthSessionsUnauthorized None),
     Dec_case 403 (Some ''application/json'') ''ListPendingOAuthSessionsForbidden'' None (Dec_json json_ListPendingOAuthSessionsForbidden None)]"

definition encode_ListUsersResponse :: "enc_case list" where
  "encode_ListUsersResponse =
    [Enc_case ''AdminUserListResponse'' (Some ''application/json; charset=utf-8'') None 200 False (Enc_json json_AdminUserListResponse),
     Enc_case ''ListUsersUnauthorized'' (Some ''application/json; charset=utf-8'') None 401 False (Enc_json json_ListUsersUnauthorized),
     Enc_case ''ListUsersForbidden'' (Some ''application/json; charset=utf-8'') None 403 False (Enc_json json_ListUsersForbidden),
     Enc_case ''ListUsersInternalServerError'' (Some ''application/json; charset=utf-8'') None 500 True (Enc_json json_ListUsersInternalServerError)]"

definition decode_ListUsersResponse :: "dec_case list" where
  "decode_ListUsersResponse =
    [Dec_case 200 (Some ''application/json'') ''AdminUserListResponse'' None (Dec_json json_AdminUserListResponse (Some validate_AdminUserListResponse)),
     Dec_case 401 (Some ''application/json'') ''ListUsersUnauthorized'' None (Dec_json json_ListUsersUnauthorized None),
     Dec_case 403 (Some ''application/json'') ''ListUsersForbidden'' None (Dec_json json_ListUsersForbidden None),
     Dec_case 500 (Some ''application/json'') ''ListUsersInternalServerError'' None (Dec_json json_ListUsersInternalServerError None)]"

definition encode_LoginResponse :: "enc_case list" where
  "encode_LoginResponse =
    [Enc_case ''LoginResponseHeaders'' (Some ''application/json; charset=utf-8'') (Some ''Set-Cookie'') 200 False (Enc_json json_LoginResponse),
     Enc_case ''LoginBadRequest'' (Some ''application/json; charset=utf-8'') None 400 False (Enc_json json_LoginBadRequest),
     Enc_case ''LoginUnauthorized'' (Some ''application/json; charset=utf-8'') None 401 False (Enc_json json_LoginUnauthorized),
     Enc_case ''LoginForbidden'' (Some ''application/json; charset=utf-8'') None 403 False (Enc_json json_LoginForbidden),
     Enc_case ''LoginInternalServerError'' (Some ''application/json; charset=utf-8'') None 500 True (Enc_json json_LoginInternalServerError)]"

definition decode_LoginResponse :: "dec_case list" where
  "decode_LoginResponse =
    [Dec_case 200 (Some ''application/json'') ''LoginResponseHeaders'' (Some ''Set-Cookie'') (Dec_json json_LoginResponse (Some validate_LoginResponse)),
     Dec_case 400 (Some ''application/json'') ''LoginBadRequest'' None (Dec_json json_LoginBadRequest None),
     Dec_case 401 (Some ''application/json'') ''LoginUnauthorized'' None (Dec_json json_LoginUnauthorized None),
     Dec_case 403 (Some ''application/json'') ''LoginForbidden'' None (Dec_json json_LoginForbidden None),
     Dec_case 500 (Some ''application/json'') ''LoginInternalServerError'' None (Dec_json json_LoginInternalServerError None)]"

definition encode_LogoutResponse :: "enc_case list" where
  "encode_LogoutResponse =
    [Enc_case ''LogoutNoContent'' None (Some ''Set-Cookie'') 204 False Enc_none]"

definition decode_LogoutResponse :: "dec_case list" where
  "decode_LogoutResponse =
    [Dec_case 204 None ''LogoutNoContent'' (Some ''Set-Cookie'') Dec_none]"

definition encode_MetricsResponse :: "enc_case list" where
  "encode_MetricsResponse =
    [Enc_case ''MetricsOK'' (Some ''text/plain; charset=utf-8'') None 200 False Enc_copy]"

definition decode_MetricsResponse :: "dec_case list" where
  "decode_MetricsResponse =
    [Dec_case 200 (Some ''text/plain'') ''MetricsOK'' None Dec_data]"

definition encode_OpenapiJsonResponse :: "enc_case list" where
  "encode_OpenapiJsonResponse =
    [Enc_case ''OpenapiJsonOK'' (Some ''application/json; charset=utf-8'') None 200 False (Enc_json json_OpenapiJsonOK)]"

definition decode_OpenapiJsonResponse :: "dec_case list" where
  "decode_OpenapiJsonResponse =
    [Dec_case 200 (Some ''application/json'') ''OpenapiJsonOK'' None (Dec_json json_OpenapiJsonOK None)]"

definition encode_ProxyAlphaSearchResponse :: "enc_case list" where
  "encode_ProxyAlphaSearchResponse =
    [Enc_case ''ProxyAlphaSearchOK'' None None 200 False Enc_none,
     Enc_case ''ProxyAlphaSearchBadRequest'' (Some ''application/json; charset=utf-8'') None 400 False (Enc_json json_ProxyAlphaSearchBadRequest),
     Enc_case ''ProxyAlphaSearchUnauthorized'' (Some ''application/json; charset=utf-8'') None 401 False (Enc_json json_ProxyAlphaSearchUnauthorized),
     Enc_case ''ProxyAlphaSearchInternalServerError'' (Some ''application/json; charset=utf-8'') None 500 True (Enc_json json_ProxyAlphaSearchInternalServerError)]"

definition decode_ProxyAlphaSearchResponse :: "dec_case list" where
  "decode_ProxyAlphaSearchResponse =
    [Dec_case 200 None ''ProxyAlphaSearchOK'' None Dec_none,
     Dec_case 400 (Some ''application/json'') ''ProxyAlphaSearchBadRequest'' None (Dec_json json_ProxyAlphaSearchBadRequest None),
     Dec_case 401 (Some ''application/json'') ''ProxyAlphaSearchUnauthorized'' None (Dec_json json_ProxyAlphaSearchUnauthorized None),
     Dec_case 500 (Some ''application/json'') ''ProxyAlphaSearchInternalServerError'' None (Dec_json json_ProxyAlphaSearchInternalServerError None)]"

definition encode_ProxyChatCompletionsResponse :: "enc_case list" where
  "encode_ProxyChatCompletionsResponse =
    [Enc_case ''ProxyChatCompletionsOK'' None None 200 False Enc_none,
     Enc_case ''ProxyChatCompletionsBadRequest'' (Some ''application/json; charset=utf-8'') None 400 False (Enc_json json_ProxyChatCompletionsBadRequest),
     Enc_case ''ProxyChatCompletionsUnauthorized'' (Some ''application/json; charset=utf-8'') None 401 False (Enc_json json_ProxyChatCompletionsUnauthorized),
     Enc_case ''ProxyChatCompletionsInternalServerError'' (Some ''application/json; charset=utf-8'') None 500 True (Enc_json json_ProxyChatCompletionsInternalServerError)]"

definition decode_ProxyChatCompletionsResponse :: "dec_case list" where
  "decode_ProxyChatCompletionsResponse =
    [Dec_case 200 None ''ProxyChatCompletionsOK'' None Dec_none,
     Dec_case 400 (Some ''application/json'') ''ProxyChatCompletionsBadRequest'' None (Dec_json json_ProxyChatCompletionsBadRequest None),
     Dec_case 401 (Some ''application/json'') ''ProxyChatCompletionsUnauthorized'' None (Dec_json json_ProxyChatCompletionsUnauthorized None),
     Dec_case 500 (Some ''application/json'') ''ProxyChatCompletionsInternalServerError'' None (Dec_json json_ProxyChatCompletionsInternalServerError None)]"

definition encode_ProxyCodexAlphaSearchResponse :: "enc_case list" where
  "encode_ProxyCodexAlphaSearchResponse =
    [Enc_case ''ProxyCodexAlphaSearchOK'' None None 200 False Enc_none,
     Enc_case ''ProxyCodexAlphaSearchBadRequest'' (Some ''application/json; charset=utf-8'') None 400 False (Enc_json json_ProxyCodexAlphaSearchBadRequest),
     Enc_case ''ProxyCodexAlphaSearchUnauthorized'' (Some ''application/json; charset=utf-8'') None 401 False (Enc_json json_ProxyCodexAlphaSearchUnauthorized),
     Enc_case ''ProxyCodexAlphaSearchInternalServerError'' (Some ''application/json; charset=utf-8'') None 500 True (Enc_json json_ProxyCodexAlphaSearchInternalServerError)]"

definition decode_ProxyCodexAlphaSearchResponse :: "dec_case list" where
  "decode_ProxyCodexAlphaSearchResponse =
    [Dec_case 200 None ''ProxyCodexAlphaSearchOK'' None Dec_none,
     Dec_case 400 (Some ''application/json'') ''ProxyCodexAlphaSearchBadRequest'' None (Dec_json json_ProxyCodexAlphaSearchBadRequest None),
     Dec_case 401 (Some ''application/json'') ''ProxyCodexAlphaSearchUnauthorized'' None (Dec_json json_ProxyCodexAlphaSearchUnauthorized None),
     Dec_case 500 (Some ''application/json'') ''ProxyCodexAlphaSearchInternalServerError'' None (Dec_json json_ProxyCodexAlphaSearchInternalServerError None)]"

definition encode_ProxyCodexResponsesResponse :: "enc_case list" where
  "encode_ProxyCodexResponsesResponse =
    [Enc_case ''ProxyCodexResponsesOK'' None None 200 False Enc_none,
     Enc_case ''ProxyCodexResponsesBadRequest'' (Some ''application/json; charset=utf-8'') None 400 False (Enc_json json_ProxyCodexResponsesBadRequest),
     Enc_case ''ProxyCodexResponsesUnauthorized'' (Some ''application/json; charset=utf-8'') None 401 False (Enc_json json_ProxyCodexResponsesUnauthorized),
     Enc_case ''ProxyCodexResponsesInternalServerError'' (Some ''application/json; charset=utf-8'') None 500 True (Enc_json json_ProxyCodexResponsesInternalServerError)]"

definition decode_ProxyCodexResponsesResponse :: "dec_case list" where
  "decode_ProxyCodexResponsesResponse =
    [Dec_case 200 None ''ProxyCodexResponsesOK'' None Dec_none,
     Dec_case 400 (Some ''application/json'') ''ProxyCodexResponsesBadRequest'' None (Dec_json json_ProxyCodexResponsesBadRequest None),
     Dec_case 401 (Some ''application/json'') ''ProxyCodexResponsesUnauthorized'' None (Dec_json json_ProxyCodexResponsesUnauthorized None),
     Dec_case 500 (Some ''application/json'') ''ProxyCodexResponsesInternalServerError'' None (Dec_json json_ProxyCodexResponsesInternalServerError None)]"

definition encode_ProxyCodexResponsesCompactResponse :: "enc_case list" where
  "encode_ProxyCodexResponsesCompactResponse =
    [Enc_case ''ProxyCodexResponsesCompactOK'' None None 200 False Enc_none,
     Enc_case ''ProxyCodexResponsesCompactBadRequest'' (Some ''application/json; charset=utf-8'') None 400 False (Enc_json json_ProxyCodexResponsesCompactBadRequest),
     Enc_case ''ProxyCodexResponsesCompactUnauthorized'' (Some ''application/json; charset=utf-8'') None 401 False (Enc_json json_ProxyCodexResponsesCompactUnauthorized),
     Enc_case ''ProxyCodexResponsesCompactInternalServerError'' (Some ''application/json; charset=utf-8'') None 500 True (Enc_json json_ProxyCodexResponsesCompactInternalServerError)]"

definition decode_ProxyCodexResponsesCompactResponse :: "dec_case list" where
  "decode_ProxyCodexResponsesCompactResponse =
    [Dec_case 200 None ''ProxyCodexResponsesCompactOK'' None Dec_none,
     Dec_case 400 (Some ''application/json'') ''ProxyCodexResponsesCompactBadRequest'' None (Dec_json json_ProxyCodexResponsesCompactBadRequest None),
     Dec_case 401 (Some ''application/json'') ''ProxyCodexResponsesCompactUnauthorized'' None (Dec_json json_ProxyCodexResponsesCompactUnauthorized None),
     Dec_case 500 (Some ''application/json'') ''ProxyCodexResponsesCompactInternalServerError'' None (Dec_json json_ProxyCodexResponsesCompactInternalServerError None)]"

definition encode_ProxyCodexResponsesWebsocketResponse :: "enc_case list" where
  "encode_ProxyCodexResponsesWebsocketResponse =
    [Enc_case ''ProxyCodexResponsesWebsocketSwitchingProtocols'' None None 101 False Enc_none,
     Enc_case ''ProxyCodexResponsesWebsocketOK'' None None 200 False Enc_none,
     Enc_case ''ProxyCodexResponsesWebsocketBadRequest'' (Some ''application/json; charset=utf-8'') None 400 False (Enc_json json_ProxyCodexResponsesWebsocketBadRequest),
     Enc_case ''ProxyCodexResponsesWebsocketUnauthorized'' (Some ''application/json; charset=utf-8'') None 401 False (Enc_json json_ProxyCodexResponsesWebsocketUnauthorized),
     Enc_case ''ProxyCodexResponsesWebsocketInternalServerError'' (Some ''application/json; charset=utf-8'') None 500 True (Enc_json json_ProxyCodexResponsesWebsocketInternalServerError)]"

definition decode_ProxyCodexResponsesWebsocketResponse :: "dec_case list" where
  "decode_ProxyCodexResponsesWebsocketResponse =
    [Dec_case 101 None ''ProxyCodexResponsesWebsocketSwitchingProtocols'' None Dec_none,
     Dec_case 200 None ''ProxyCodexResponsesWebsocketOK'' None Dec_none,
     Dec_case 400 (Some ''application/json'') ''ProxyCodexResponsesWebsocketBadRequest'' None (Dec_json json_ProxyCodexResponsesWebsocketBadRequest None),
     Dec_case 401 (Some ''application/json'') ''ProxyCodexResponsesWebsocketUnauthorized'' None (Dec_json json_ProxyCodexResponsesWebsocketUnauthorized None),
     Dec_case 500 (Some ''application/json'') ''ProxyCodexResponsesWebsocketInternalServerError'' None (Dec_json json_ProxyCodexResponsesWebsocketInternalServerError None)]"

definition encode_ProxyCompletionsResponse :: "enc_case list" where
  "encode_ProxyCompletionsResponse =
    [Enc_case ''ProxyCompletionsOK'' None None 200 False Enc_none,
     Enc_case ''ProxyCompletionsBadRequest'' (Some ''application/json; charset=utf-8'') None 400 False (Enc_json json_ProxyCompletionsBadRequest),
     Enc_case ''ProxyCompletionsUnauthorized'' (Some ''application/json; charset=utf-8'') None 401 False (Enc_json json_ProxyCompletionsUnauthorized),
     Enc_case ''ProxyCompletionsInternalServerError'' (Some ''application/json; charset=utf-8'') None 500 True (Enc_json json_ProxyCompletionsInternalServerError)]"

definition decode_ProxyCompletionsResponse :: "dec_case list" where
  "decode_ProxyCompletionsResponse =
    [Dec_case 200 None ''ProxyCompletionsOK'' None Dec_none,
     Dec_case 400 (Some ''application/json'') ''ProxyCompletionsBadRequest'' None (Dec_json json_ProxyCompletionsBadRequest None),
     Dec_case 401 (Some ''application/json'') ''ProxyCompletionsUnauthorized'' None (Dec_json json_ProxyCompletionsUnauthorized None),
     Dec_case 500 (Some ''application/json'') ''ProxyCompletionsInternalServerError'' None (Dec_json json_ProxyCompletionsInternalServerError None)]"

definition encode_ProxyGeminiInteractionsResponse :: "enc_case list" where
  "encode_ProxyGeminiInteractionsResponse =
    [Enc_case ''ProxyGeminiInteractionsOK'' None None 200 False Enc_none,
     Enc_case ''ProxyGeminiInteractionsBadRequest'' (Some ''application/json; charset=utf-8'') None 400 False (Enc_json json_ProxyGeminiInteractionsBadRequest),
     Enc_case ''ProxyGeminiInteractionsUnauthorized'' (Some ''application/json; charset=utf-8'') None 401 False (Enc_json json_ProxyGeminiInteractionsUnauthorized),
     Enc_case ''ProxyGeminiInteractionsInternalServerError'' (Some ''application/json; charset=utf-8'') None 500 True (Enc_json json_ProxyGeminiInteractionsInternalServerError)]"

definition decode_ProxyGeminiInteractionsResponse :: "dec_case list" where
  "decode_ProxyGeminiInteractionsResponse =
    [Dec_case 200 None ''ProxyGeminiInteractionsOK'' None Dec_none,
     Dec_case 400 (Some ''application/json'') ''ProxyGeminiInteractionsBadRequest'' None (Dec_json json_ProxyGeminiInteractionsBadRequest None),
     Dec_case 401 (Some ''application/json'') ''ProxyGeminiInteractionsUnauthorized'' None (Dec_json json_ProxyGeminiInteractionsUnauthorized None),
     Dec_case 500 (Some ''application/json'') ''ProxyGeminiInteractionsInternalServerError'' None (Dec_json json_ProxyGeminiInteractionsInternalServerError None)]"

definition encode_ProxyGeminiModelActionGetResponse :: "enc_case list" where
  "encode_ProxyGeminiModelActionGetResponse =
    [Enc_case ''ProxyGeminiModelActionGetOK'' None None 200 False Enc_none,
     Enc_case ''ProxyGeminiModelActionGetBadRequest'' (Some ''application/json; charset=utf-8'') None 400 False (Enc_json json_ProxyGeminiModelActionGetBadRequest),
     Enc_case ''ProxyGeminiModelActionGetUnauthorized'' (Some ''application/json; charset=utf-8'') None 401 False (Enc_json json_ProxyGeminiModelActionGetUnauthorized),
     Enc_case ''ProxyGeminiModelActionGetInternalServerError'' (Some ''application/json; charset=utf-8'') None 500 True (Enc_json json_ProxyGeminiModelActionGetInternalServerError)]"

definition decode_ProxyGeminiModelActionGetResponse :: "dec_case list" where
  "decode_ProxyGeminiModelActionGetResponse =
    [Dec_case 200 None ''ProxyGeminiModelActionGetOK'' None Dec_none,
     Dec_case 400 (Some ''application/json'') ''ProxyGeminiModelActionGetBadRequest'' None (Dec_json json_ProxyGeminiModelActionGetBadRequest None),
     Dec_case 401 (Some ''application/json'') ''ProxyGeminiModelActionGetUnauthorized'' None (Dec_json json_ProxyGeminiModelActionGetUnauthorized None),
     Dec_case 500 (Some ''application/json'') ''ProxyGeminiModelActionGetInternalServerError'' None (Dec_json json_ProxyGeminiModelActionGetInternalServerError None)]"

definition encode_ProxyGeminiModelActionPostResponse :: "enc_case list" where
  "encode_ProxyGeminiModelActionPostResponse =
    [Enc_case ''ProxyGeminiModelActionPostOK'' None None 200 False Enc_none,
     Enc_case ''ProxyGeminiModelActionPostBadRequest'' (Some ''application/json; charset=utf-8'') None 400 False (Enc_json json_ProxyGeminiModelActionPostBadRequest),
     Enc_case ''ProxyGeminiModelActionPostUnauthorized'' (Some ''application/json; charset=utf-8'') None 401 False (Enc_json json_ProxyGeminiModelActionPostUnauthorized),
     Enc_case ''ProxyGeminiModelActionPostInternalServerError'' (Some ''application/json; charset=utf-8'') None 500 True (Enc_json json_ProxyGeminiModelActionPostInternalServerError)]"

definition decode_ProxyGeminiModelActionPostResponse :: "dec_case list" where
  "decode_ProxyGeminiModelActionPostResponse =
    [Dec_case 200 None ''ProxyGeminiModelActionPostOK'' None Dec_none,
     Dec_case 400 (Some ''application/json'') ''ProxyGeminiModelActionPostBadRequest'' None (Dec_json json_ProxyGeminiModelActionPostBadRequest None),
     Dec_case 401 (Some ''application/json'') ''ProxyGeminiModelActionPostUnauthorized'' None (Dec_json json_ProxyGeminiModelActionPostUnauthorized None),
     Dec_case 500 (Some ''application/json'') ''ProxyGeminiModelActionPostInternalServerError'' None (Dec_json json_ProxyGeminiModelActionPostInternalServerError None)]"

definition encode_ProxyGeminiModelsResponse :: "enc_case list" where
  "encode_ProxyGeminiModelsResponse =
    [Enc_case ''ProxyGeminiModelsOK'' None None 200 False Enc_none,
     Enc_case ''ProxyGeminiModelsBadRequest'' (Some ''application/json; charset=utf-8'') None 400 False (Enc_json json_ProxyGeminiModelsBadRequest),
     Enc_case ''ProxyGeminiModelsUnauthorized'' (Some ''application/json; charset=utf-8'') None 401 False (Enc_json json_ProxyGeminiModelsUnauthorized),
     Enc_case ''ProxyGeminiModelsInternalServerError'' (Some ''application/json; charset=utf-8'') None 500 True (Enc_json json_ProxyGeminiModelsInternalServerError)]"

definition decode_ProxyGeminiModelsResponse :: "dec_case list" where
  "decode_ProxyGeminiModelsResponse =
    [Dec_case 200 None ''ProxyGeminiModelsOK'' None Dec_none,
     Dec_case 400 (Some ''application/json'') ''ProxyGeminiModelsBadRequest'' None (Dec_json json_ProxyGeminiModelsBadRequest None),
     Dec_case 401 (Some ''application/json'') ''ProxyGeminiModelsUnauthorized'' None (Dec_json json_ProxyGeminiModelsUnauthorized None),
     Dec_case 500 (Some ''application/json'') ''ProxyGeminiModelsInternalServerError'' None (Dec_json json_ProxyGeminiModelsInternalServerError None)]"

definition encode_ProxyImageEditsResponse :: "enc_case list" where
  "encode_ProxyImageEditsResponse =
    [Enc_case ''ProxyImageEditsOK'' None None 200 False Enc_none,
     Enc_case ''ProxyImageEditsBadRequest'' (Some ''application/json; charset=utf-8'') None 400 False (Enc_json json_ProxyImageEditsBadRequest),
     Enc_case ''ProxyImageEditsUnauthorized'' (Some ''application/json; charset=utf-8'') None 401 False (Enc_json json_ProxyImageEditsUnauthorized),
     Enc_case ''ProxyImageEditsInternalServerError'' (Some ''application/json; charset=utf-8'') None 500 True (Enc_json json_ProxyImageEditsInternalServerError)]"

definition decode_ProxyImageEditsResponse :: "dec_case list" where
  "decode_ProxyImageEditsResponse =
    [Dec_case 200 None ''ProxyImageEditsOK'' None Dec_none,
     Dec_case 400 (Some ''application/json'') ''ProxyImageEditsBadRequest'' None (Dec_json json_ProxyImageEditsBadRequest None),
     Dec_case 401 (Some ''application/json'') ''ProxyImageEditsUnauthorized'' None (Dec_json json_ProxyImageEditsUnauthorized None),
     Dec_case 500 (Some ''application/json'') ''ProxyImageEditsInternalServerError'' None (Dec_json json_ProxyImageEditsInternalServerError None)]"

definition encode_ProxyImageGenerationsResponse :: "enc_case list" where
  "encode_ProxyImageGenerationsResponse =
    [Enc_case ''ProxyImageGenerationsOK'' None None 200 False Enc_none,
     Enc_case ''ProxyImageGenerationsBadRequest'' (Some ''application/json; charset=utf-8'') None 400 False (Enc_json json_ProxyImageGenerationsBadRequest),
     Enc_case ''ProxyImageGenerationsUnauthorized'' (Some ''application/json; charset=utf-8'') None 401 False (Enc_json json_ProxyImageGenerationsUnauthorized),
     Enc_case ''ProxyImageGenerationsInternalServerError'' (Some ''application/json; charset=utf-8'') None 500 True (Enc_json json_ProxyImageGenerationsInternalServerError)]"

definition decode_ProxyImageGenerationsResponse :: "dec_case list" where
  "decode_ProxyImageGenerationsResponse =
    [Dec_case 200 None ''ProxyImageGenerationsOK'' None Dec_none,
     Dec_case 400 (Some ''application/json'') ''ProxyImageGenerationsBadRequest'' None (Dec_json json_ProxyImageGenerationsBadRequest None),
     Dec_case 401 (Some ''application/json'') ''ProxyImageGenerationsUnauthorized'' None (Dec_json json_ProxyImageGenerationsUnauthorized None),
     Dec_case 500 (Some ''application/json'') ''ProxyImageGenerationsInternalServerError'' None (Dec_json json_ProxyImageGenerationsInternalServerError None)]"

definition encode_ProxyMessagesResponse :: "enc_case list" where
  "encode_ProxyMessagesResponse =
    [Enc_case ''ProxyMessagesOK'' None None 200 False Enc_none,
     Enc_case ''ProxyMessagesBadRequest'' (Some ''application/json; charset=utf-8'') None 400 False (Enc_json json_ProxyMessagesBadRequest),
     Enc_case ''ProxyMessagesUnauthorized'' (Some ''application/json; charset=utf-8'') None 401 False (Enc_json json_ProxyMessagesUnauthorized),
     Enc_case ''ProxyMessagesInternalServerError'' (Some ''application/json; charset=utf-8'') None 500 True (Enc_json json_ProxyMessagesInternalServerError)]"

definition decode_ProxyMessagesResponse :: "dec_case list" where
  "decode_ProxyMessagesResponse =
    [Dec_case 200 None ''ProxyMessagesOK'' None Dec_none,
     Dec_case 400 (Some ''application/json'') ''ProxyMessagesBadRequest'' None (Dec_json json_ProxyMessagesBadRequest None),
     Dec_case 401 (Some ''application/json'') ''ProxyMessagesUnauthorized'' None (Dec_json json_ProxyMessagesUnauthorized None),
     Dec_case 500 (Some ''application/json'') ''ProxyMessagesInternalServerError'' None (Dec_json json_ProxyMessagesInternalServerError None)]"

definition encode_ProxyMessagesCountTokensResponse :: "enc_case list" where
  "encode_ProxyMessagesCountTokensResponse =
    [Enc_case ''ProxyMessagesCountTokensOK'' None None 200 False Enc_none,
     Enc_case ''ProxyMessagesCountTokensBadRequest'' (Some ''application/json; charset=utf-8'') None 400 False (Enc_json json_ProxyMessagesCountTokensBadRequest),
     Enc_case ''ProxyMessagesCountTokensUnauthorized'' (Some ''application/json; charset=utf-8'') None 401 False (Enc_json json_ProxyMessagesCountTokensUnauthorized),
     Enc_case ''ProxyMessagesCountTokensInternalServerError'' (Some ''application/json; charset=utf-8'') None 500 True (Enc_json json_ProxyMessagesCountTokensInternalServerError)]"

definition decode_ProxyMessagesCountTokensResponse :: "dec_case list" where
  "decode_ProxyMessagesCountTokensResponse =
    [Dec_case 200 None ''ProxyMessagesCountTokensOK'' None Dec_none,
     Dec_case 400 (Some ''application/json'') ''ProxyMessagesCountTokensBadRequest'' None (Dec_json json_ProxyMessagesCountTokensBadRequest None),
     Dec_case 401 (Some ''application/json'') ''ProxyMessagesCountTokensUnauthorized'' None (Dec_json json_ProxyMessagesCountTokensUnauthorized None),
     Dec_case 500 (Some ''application/json'') ''ProxyMessagesCountTokensInternalServerError'' None (Dec_json json_ProxyMessagesCountTokensInternalServerError None)]"

definition encode_ProxyModelsResponse :: "enc_case list" where
  "encode_ProxyModelsResponse =
    [Enc_case ''ProxyModelsOK'' None None 200 False Enc_none,
     Enc_case ''ProxyModelsUnauthorized'' (Some ''application/json; charset=utf-8'') None 401 False (Enc_json json_ProxyModelsUnauthorized),
     Enc_case ''ProxyModelsInternalServerError'' (Some ''application/json; charset=utf-8'') None 500 True (Enc_json json_ProxyModelsInternalServerError)]"

definition decode_ProxyModelsResponse :: "dec_case list" where
  "decode_ProxyModelsResponse =
    [Dec_case 200 None ''ProxyModelsOK'' None Dec_none,
     Dec_case 401 (Some ''application/json'') ''ProxyModelsUnauthorized'' None (Dec_json json_ProxyModelsUnauthorized None),
     Dec_case 500 (Some ''application/json'') ''ProxyModelsInternalServerError'' None (Dec_json json_ProxyModelsInternalServerError None)]"

definition encode_ProxyOpenAIVideosContentResponse :: "enc_case list" where
  "encode_ProxyOpenAIVideosContentResponse =
    [Enc_case ''ProxyOpenAIVideosContentOK'' None None 200 False Enc_none,
     Enc_case ''ProxyOpenAIVideosContentBadRequest'' (Some ''application/json; charset=utf-8'') None 400 False (Enc_json json_ProxyOpenAIVideosContentBadRequest),
     Enc_case ''ProxyOpenAIVideosContentUnauthorized'' (Some ''application/json; charset=utf-8'') None 401 False (Enc_json json_ProxyOpenAIVideosContentUnauthorized),
     Enc_case ''ProxyOpenAIVideosContentNotFound'' (Some ''application/json; charset=utf-8'') None 404 False (Enc_json json_ProxyOpenAIVideosContentNotFound),
     Enc_case ''ProxyOpenAIVideosContentInternalServerError'' (Some ''application/json; charset=utf-8'') None 500 True (Enc_json json_ProxyOpenAIVideosContentInternalServerError)]"

definition decode_ProxyOpenAIVideosContentResponse :: "dec_case list" where
  "decode_ProxyOpenAIVideosContentResponse =
    [Dec_case 200 None ''ProxyOpenAIVideosContentOK'' None Dec_none,
     Dec_case 400 (Some ''application/json'') ''ProxyOpenAIVideosContentBadRequest'' None (Dec_json json_ProxyOpenAIVideosContentBadRequest None),
     Dec_case 401 (Some ''application/json'') ''ProxyOpenAIVideosContentUnauthorized'' None (Dec_json json_ProxyOpenAIVideosContentUnauthorized None),
     Dec_case 404 (Some ''application/json'') ''ProxyOpenAIVideosContentNotFound'' None (Dec_json json_ProxyOpenAIVideosContentNotFound None),
     Dec_case 500 (Some ''application/json'') ''ProxyOpenAIVideosContentInternalServerError'' None (Dec_json json_ProxyOpenAIVideosContentInternalServerError None)]"

definition encode_ProxyOpenAIVideosCreateResponse :: "enc_case list" where
  "encode_ProxyOpenAIVideosCreateResponse =
    [Enc_case ''ProxyOpenAIVideosCreateOK'' None None 200 False Enc_none,
     Enc_case ''ProxyOpenAIVideosCreateBadRequest'' (Some ''application/json; charset=utf-8'') None 400 False (Enc_json json_ProxyOpenAIVideosCreateBadRequest),
     Enc_case ''ProxyOpenAIVideosCreateUnauthorized'' (Some ''application/json; charset=utf-8'') None 401 False (Enc_json json_ProxyOpenAIVideosCreateUnauthorized),
     Enc_case ''ProxyOpenAIVideosCreateInternalServerError'' (Some ''application/json; charset=utf-8'') None 500 True (Enc_json json_ProxyOpenAIVideosCreateInternalServerError)]"

definition decode_ProxyOpenAIVideosCreateResponse :: "dec_case list" where
  "decode_ProxyOpenAIVideosCreateResponse =
    [Dec_case 200 None ''ProxyOpenAIVideosCreateOK'' None Dec_none,
     Dec_case 400 (Some ''application/json'') ''ProxyOpenAIVideosCreateBadRequest'' None (Dec_json json_ProxyOpenAIVideosCreateBadRequest None),
     Dec_case 401 (Some ''application/json'') ''ProxyOpenAIVideosCreateUnauthorized'' None (Dec_json json_ProxyOpenAIVideosCreateUnauthorized None),
     Dec_case 500 (Some ''application/json'') ''ProxyOpenAIVideosCreateInternalServerError'' None (Dec_json json_ProxyOpenAIVideosCreateInternalServerError None)]"

definition encode_ProxyOpenAIVideosRetrieveResponse :: "enc_case list" where
  "encode_ProxyOpenAIVideosRetrieveResponse =
    [Enc_case ''ProxyOpenAIVideosRetrieveOK'' None None 200 False Enc_none,
     Enc_case ''ProxyOpenAIVideosRetrieveBadRequest'' (Some ''application/json; charset=utf-8'') None 400 False (Enc_json json_ProxyOpenAIVideosRetrieveBadRequest),
     Enc_case ''ProxyOpenAIVideosRetrieveUnauthorized'' (Some ''application/json; charset=utf-8'') None 401 False (Enc_json json_ProxyOpenAIVideosRetrieveUnauthorized),
     Enc_case ''ProxyOpenAIVideosRetrieveNotFound'' (Some ''application/json; charset=utf-8'') None 404 False (Enc_json json_ProxyOpenAIVideosRetrieveNotFound),
     Enc_case ''ProxyOpenAIVideosRetrieveInternalServerError'' (Some ''application/json; charset=utf-8'') None 500 True (Enc_json json_ProxyOpenAIVideosRetrieveInternalServerError)]"

definition decode_ProxyOpenAIVideosRetrieveResponse :: "dec_case list" where
  "decode_ProxyOpenAIVideosRetrieveResponse =
    [Dec_case 200 None ''ProxyOpenAIVideosRetrieveOK'' None Dec_none,
     Dec_case 400 (Some ''application/json'') ''ProxyOpenAIVideosRetrieveBadRequest'' None (Dec_json json_ProxyOpenAIVideosRetrieveBadRequest None),
     Dec_case 401 (Some ''application/json'') ''ProxyOpenAIVideosRetrieveUnauthorized'' None (Dec_json json_ProxyOpenAIVideosRetrieveUnauthorized None),
     Dec_case 404 (Some ''application/json'') ''ProxyOpenAIVideosRetrieveNotFound'' None (Dec_json json_ProxyOpenAIVideosRetrieveNotFound None),
     Dec_case 500 (Some ''application/json'') ''ProxyOpenAIVideosRetrieveInternalServerError'' None (Dec_json json_ProxyOpenAIVideosRetrieveInternalServerError None)]"

definition encode_ProxyResponsesResponse :: "enc_case list" where
  "encode_ProxyResponsesResponse =
    [Enc_case ''ProxyResponsesOK'' None None 200 False Enc_none,
     Enc_case ''ProxyResponsesBadRequest'' (Some ''application/json; charset=utf-8'') None 400 False (Enc_json json_ProxyResponsesBadRequest),
     Enc_case ''ProxyResponsesUnauthorized'' (Some ''application/json; charset=utf-8'') None 401 False (Enc_json json_ProxyResponsesUnauthorized),
     Enc_case ''ProxyResponsesInternalServerError'' (Some ''application/json; charset=utf-8'') None 500 True (Enc_json json_ProxyResponsesInternalServerError)]"

definition decode_ProxyResponsesResponse :: "dec_case list" where
  "decode_ProxyResponsesResponse =
    [Dec_case 200 None ''ProxyResponsesOK'' None Dec_none,
     Dec_case 400 (Some ''application/json'') ''ProxyResponsesBadRequest'' None (Dec_json json_ProxyResponsesBadRequest None),
     Dec_case 401 (Some ''application/json'') ''ProxyResponsesUnauthorized'' None (Dec_json json_ProxyResponsesUnauthorized None),
     Dec_case 500 (Some ''application/json'') ''ProxyResponsesInternalServerError'' None (Dec_json json_ProxyResponsesInternalServerError None)]"

definition encode_ProxyResponsesCompactResponse :: "enc_case list" where
  "encode_ProxyResponsesCompactResponse =
    [Enc_case ''ProxyResponsesCompactOK'' None None 200 False Enc_none,
     Enc_case ''ProxyResponsesCompactBadRequest'' (Some ''application/json; charset=utf-8'') None 400 False (Enc_json json_ProxyResponsesCompactBadRequest),
     Enc_case ''ProxyResponsesCompactUnauthorized'' (Some ''application/json; charset=utf-8'') None 401 False (Enc_json json_ProxyResponsesCompactUnauthorized),
     Enc_case ''ProxyResponsesCompactInternalServerError'' (Some ''application/json; charset=utf-8'') None 500 True (Enc_json json_ProxyResponsesCompactInternalServerError)]"

definition decode_ProxyResponsesCompactResponse :: "dec_case list" where
  "decode_ProxyResponsesCompactResponse =
    [Dec_case 200 None ''ProxyResponsesCompactOK'' None Dec_none,
     Dec_case 400 (Some ''application/json'') ''ProxyResponsesCompactBadRequest'' None (Dec_json json_ProxyResponsesCompactBadRequest None),
     Dec_case 401 (Some ''application/json'') ''ProxyResponsesCompactUnauthorized'' None (Dec_json json_ProxyResponsesCompactUnauthorized None),
     Dec_case 500 (Some ''application/json'') ''ProxyResponsesCompactInternalServerError'' None (Dec_json json_ProxyResponsesCompactInternalServerError None)]"

definition encode_ProxyResponsesWebsocketResponse :: "enc_case list" where
  "encode_ProxyResponsesWebsocketResponse =
    [Enc_case ''ProxyResponsesWebsocketSwitchingProtocols'' None None 101 False Enc_none,
     Enc_case ''ProxyResponsesWebsocketOK'' None None 200 False Enc_none,
     Enc_case ''ProxyResponsesWebsocketBadRequest'' (Some ''application/json; charset=utf-8'') None 400 False (Enc_json json_ProxyResponsesWebsocketBadRequest),
     Enc_case ''ProxyResponsesWebsocketUnauthorized'' (Some ''application/json; charset=utf-8'') None 401 False (Enc_json json_ProxyResponsesWebsocketUnauthorized),
     Enc_case ''ProxyResponsesWebsocketInternalServerError'' (Some ''application/json; charset=utf-8'') None 500 True (Enc_json json_ProxyResponsesWebsocketInternalServerError)]"

definition decode_ProxyResponsesWebsocketResponse :: "dec_case list" where
  "decode_ProxyResponsesWebsocketResponse =
    [Dec_case 101 None ''ProxyResponsesWebsocketSwitchingProtocols'' None Dec_none,
     Dec_case 200 None ''ProxyResponsesWebsocketOK'' None Dec_none,
     Dec_case 400 (Some ''application/json'') ''ProxyResponsesWebsocketBadRequest'' None (Dec_json json_ProxyResponsesWebsocketBadRequest None),
     Dec_case 401 (Some ''application/json'') ''ProxyResponsesWebsocketUnauthorized'' None (Dec_json json_ProxyResponsesWebsocketUnauthorized None),
     Dec_case 500 (Some ''application/json'') ''ProxyResponsesWebsocketInternalServerError'' None (Dec_json json_ProxyResponsesWebsocketInternalServerError None)]"

definition encode_ProxyXAIVideoEditsResponse :: "enc_case list" where
  "encode_ProxyXAIVideoEditsResponse =
    [Enc_case ''ProxyXAIVideoEditsOK'' None None 200 False Enc_none,
     Enc_case ''ProxyXAIVideoEditsBadRequest'' (Some ''application/json; charset=utf-8'') None 400 False (Enc_json json_ProxyXAIVideoEditsBadRequest),
     Enc_case ''ProxyXAIVideoEditsUnauthorized'' (Some ''application/json; charset=utf-8'') None 401 False (Enc_json json_ProxyXAIVideoEditsUnauthorized),
     Enc_case ''ProxyXAIVideoEditsInternalServerError'' (Some ''application/json; charset=utf-8'') None 500 True (Enc_json json_ProxyXAIVideoEditsInternalServerError)]"

definition decode_ProxyXAIVideoEditsResponse :: "dec_case list" where
  "decode_ProxyXAIVideoEditsResponse =
    [Dec_case 200 None ''ProxyXAIVideoEditsOK'' None Dec_none,
     Dec_case 400 (Some ''application/json'') ''ProxyXAIVideoEditsBadRequest'' None (Dec_json json_ProxyXAIVideoEditsBadRequest None),
     Dec_case 401 (Some ''application/json'') ''ProxyXAIVideoEditsUnauthorized'' None (Dec_json json_ProxyXAIVideoEditsUnauthorized None),
     Dec_case 500 (Some ''application/json'') ''ProxyXAIVideoEditsInternalServerError'' None (Dec_json json_ProxyXAIVideoEditsInternalServerError None)]"

definition encode_ProxyXAIVideoExtensionsResponse :: "enc_case list" where
  "encode_ProxyXAIVideoExtensionsResponse =
    [Enc_case ''ProxyXAIVideoExtensionsOK'' None None 200 False Enc_none,
     Enc_case ''ProxyXAIVideoExtensionsBadRequest'' (Some ''application/json; charset=utf-8'') None 400 False (Enc_json json_ProxyXAIVideoExtensionsBadRequest),
     Enc_case ''ProxyXAIVideoExtensionsUnauthorized'' (Some ''application/json; charset=utf-8'') None 401 False (Enc_json json_ProxyXAIVideoExtensionsUnauthorized),
     Enc_case ''ProxyXAIVideoExtensionsInternalServerError'' (Some ''application/json; charset=utf-8'') None 500 True (Enc_json json_ProxyXAIVideoExtensionsInternalServerError)]"

definition decode_ProxyXAIVideoExtensionsResponse :: "dec_case list" where
  "decode_ProxyXAIVideoExtensionsResponse =
    [Dec_case 200 None ''ProxyXAIVideoExtensionsOK'' None Dec_none,
     Dec_case 400 (Some ''application/json'') ''ProxyXAIVideoExtensionsBadRequest'' None (Dec_json json_ProxyXAIVideoExtensionsBadRequest None),
     Dec_case 401 (Some ''application/json'') ''ProxyXAIVideoExtensionsUnauthorized'' None (Dec_json json_ProxyXAIVideoExtensionsUnauthorized None),
     Dec_case 500 (Some ''application/json'') ''ProxyXAIVideoExtensionsInternalServerError'' None (Dec_json json_ProxyXAIVideoExtensionsInternalServerError None)]"

definition encode_ProxyXAIVideoGenerationsResponse :: "enc_case list" where
  "encode_ProxyXAIVideoGenerationsResponse =
    [Enc_case ''ProxyXAIVideoGenerationsOK'' None None 200 False Enc_none,
     Enc_case ''ProxyXAIVideoGenerationsBadRequest'' (Some ''application/json; charset=utf-8'') None 400 False (Enc_json json_ProxyXAIVideoGenerationsBadRequest),
     Enc_case ''ProxyXAIVideoGenerationsUnauthorized'' (Some ''application/json; charset=utf-8'') None 401 False (Enc_json json_ProxyXAIVideoGenerationsUnauthorized),
     Enc_case ''ProxyXAIVideoGenerationsInternalServerError'' (Some ''application/json; charset=utf-8'') None 500 True (Enc_json json_ProxyXAIVideoGenerationsInternalServerError)]"

definition decode_ProxyXAIVideoGenerationsResponse :: "dec_case list" where
  "decode_ProxyXAIVideoGenerationsResponse =
    [Dec_case 200 None ''ProxyXAIVideoGenerationsOK'' None Dec_none,
     Dec_case 400 (Some ''application/json'') ''ProxyXAIVideoGenerationsBadRequest'' None (Dec_json json_ProxyXAIVideoGenerationsBadRequest None),
     Dec_case 401 (Some ''application/json'') ''ProxyXAIVideoGenerationsUnauthorized'' None (Dec_json json_ProxyXAIVideoGenerationsUnauthorized None),
     Dec_case 500 (Some ''application/json'') ''ProxyXAIVideoGenerationsInternalServerError'' None (Dec_json json_ProxyXAIVideoGenerationsInternalServerError None)]"

definition encode_ProxyXAIVideoRetrieveResponse :: "enc_case list" where
  "encode_ProxyXAIVideoRetrieveResponse =
    [Enc_case ''ProxyXAIVideoRetrieveOK'' None None 200 False Enc_none,
     Enc_case ''ProxyXAIVideoRetrieveBadRequest'' (Some ''application/json; charset=utf-8'') None 400 False (Enc_json json_ProxyXAIVideoRetrieveBadRequest),
     Enc_case ''ProxyXAIVideoRetrieveUnauthorized'' (Some ''application/json; charset=utf-8'') None 401 False (Enc_json json_ProxyXAIVideoRetrieveUnauthorized),
     Enc_case ''ProxyXAIVideoRetrieveNotFound'' (Some ''application/json; charset=utf-8'') None 404 False (Enc_json json_ProxyXAIVideoRetrieveNotFound),
     Enc_case ''ProxyXAIVideoRetrieveInternalServerError'' (Some ''application/json; charset=utf-8'') None 500 True (Enc_json json_ProxyXAIVideoRetrieveInternalServerError)]"

definition decode_ProxyXAIVideoRetrieveResponse :: "dec_case list" where
  "decode_ProxyXAIVideoRetrieveResponse =
    [Dec_case 200 None ''ProxyXAIVideoRetrieveOK'' None Dec_none,
     Dec_case 400 (Some ''application/json'') ''ProxyXAIVideoRetrieveBadRequest'' None (Dec_json json_ProxyXAIVideoRetrieveBadRequest None),
     Dec_case 401 (Some ''application/json'') ''ProxyXAIVideoRetrieveUnauthorized'' None (Dec_json json_ProxyXAIVideoRetrieveUnauthorized None),
     Dec_case 404 (Some ''application/json'') ''ProxyXAIVideoRetrieveNotFound'' None (Dec_json json_ProxyXAIVideoRetrieveNotFound None),
     Dec_case 500 (Some ''application/json'') ''ProxyXAIVideoRetrieveInternalServerError'' None (Dec_json json_ProxyXAIVideoRetrieveInternalServerError None)]"

definition encode_ProxyXAIVideosResponse :: "enc_case list" where
  "encode_ProxyXAIVideosResponse =
    [Enc_case ''ProxyXAIVideosOK'' None None 200 False Enc_none,
     Enc_case ''ProxyXAIVideosBadRequest'' (Some ''application/json; charset=utf-8'') None 400 False (Enc_json json_ProxyXAIVideosBadRequest),
     Enc_case ''ProxyXAIVideosUnauthorized'' (Some ''application/json; charset=utf-8'') None 401 False (Enc_json json_ProxyXAIVideosUnauthorized),
     Enc_case ''ProxyXAIVideosInternalServerError'' (Some ''application/json; charset=utf-8'') None 500 True (Enc_json json_ProxyXAIVideosInternalServerError)]"

definition decode_ProxyXAIVideosResponse :: "dec_case list" where
  "decode_ProxyXAIVideosResponse =
    [Dec_case 200 None ''ProxyXAIVideosOK'' None Dec_none,
     Dec_case 400 (Some ''application/json'') ''ProxyXAIVideosBadRequest'' None (Dec_json json_ProxyXAIVideosBadRequest None),
     Dec_case 401 (Some ''application/json'') ''ProxyXAIVideosUnauthorized'' None (Dec_json json_ProxyXAIVideosUnauthorized None),
     Dec_case 500 (Some ''application/json'') ''ProxyXAIVideosInternalServerError'' None (Dec_json json_ProxyXAIVideosInternalServerError None)]"

definition encode_ReadyzResponse :: "enc_case list" where
  "encode_ReadyzResponse =
    [Enc_case ''ReadyzOK'' (Some ''text/plain; charset=utf-8'') None 200 False Enc_copy,
     Enc_case ''ReadyzServiceUnavailable'' (Some ''text/plain; charset=utf-8'') None 503 True Enc_copy]"

definition decode_ReadyzResponse :: "dec_case list" where
  "decode_ReadyzResponse =
    [Dec_case 200 (Some ''text/plain'') ''ReadyzOK'' None Dec_data,
     Dec_case 503 (Some ''text/plain'') ''ReadyzServiceUnavailable'' None Dec_data]"

definition encode_RevokeMyAPIKeyResponse :: "enc_case list" where
  "encode_RevokeMyAPIKeyResponse =
    [Enc_case ''RevokeMyAPIKeyNoContent'' None None 204 False Enc_none,
     Enc_case ''RevokeMyAPIKeyBadRequest'' (Some ''application/json; charset=utf-8'') None 400 False (Enc_json json_RevokeMyAPIKeyBadRequest),
     Enc_case ''RevokeMyAPIKeyUnauthorized'' (Some ''application/json; charset=utf-8'') None 401 False (Enc_json json_RevokeMyAPIKeyUnauthorized),
     Enc_case ''RevokeMyAPIKeyNotFound'' (Some ''application/json; charset=utf-8'') None 404 False (Enc_json json_RevokeMyAPIKeyNotFound),
     Enc_case ''RevokeMyAPIKeyInternalServerError'' (Some ''application/json; charset=utf-8'') None 500 True (Enc_json json_RevokeMyAPIKeyInternalServerError)]"

definition decode_RevokeMyAPIKeyResponse :: "dec_case list" where
  "decode_RevokeMyAPIKeyResponse =
    [Dec_case 204 None ''RevokeMyAPIKeyNoContent'' None Dec_none,
     Dec_case 400 (Some ''application/json'') ''RevokeMyAPIKeyBadRequest'' None (Dec_json json_RevokeMyAPIKeyBadRequest None),
     Dec_case 401 (Some ''application/json'') ''RevokeMyAPIKeyUnauthorized'' None (Dec_json json_RevokeMyAPIKeyUnauthorized None),
     Dec_case 404 (Some ''application/json'') ''RevokeMyAPIKeyNotFound'' None (Dec_json json_RevokeMyAPIKeyNotFound None),
     Dec_case 500 (Some ''application/json'') ''RevokeMyAPIKeyInternalServerError'' None (Dec_json json_RevokeMyAPIKeyInternalServerError None)]"

definition encode_SetUserStatusResponse :: "enc_case list" where
  "encode_SetUserStatusResponse =
    [Enc_case ''SetUserStatusNoContent'' None None 204 False Enc_none,
     Enc_case ''SetUserStatusBadRequest'' (Some ''application/json; charset=utf-8'') None 400 False (Enc_json json_SetUserStatusBadRequest),
     Enc_case ''SetUserStatusUnauthorized'' (Some ''application/json; charset=utf-8'') None 401 False (Enc_json json_SetUserStatusUnauthorized),
     Enc_case ''SetUserStatusForbidden'' (Some ''application/json; charset=utf-8'') None 403 False (Enc_json json_SetUserStatusForbidden),
     Enc_case ''SetUserStatusNotFound'' (Some ''application/json; charset=utf-8'') None 404 False (Enc_json json_SetUserStatusNotFound),
     Enc_case ''SetUserStatusInternalServerError'' (Some ''application/json; charset=utf-8'') None 500 True (Enc_json json_SetUserStatusInternalServerError)]"

definition decode_SetUserStatusResponse :: "dec_case list" where
  "decode_SetUserStatusResponse =
    [Dec_case 204 None ''SetUserStatusNoContent'' None Dec_none,
     Dec_case 400 (Some ''application/json'') ''SetUserStatusBadRequest'' None (Dec_json json_SetUserStatusBadRequest None),
     Dec_case 401 (Some ''application/json'') ''SetUserStatusUnauthorized'' None (Dec_json json_SetUserStatusUnauthorized None),
     Dec_case 403 (Some ''application/json'') ''SetUserStatusForbidden'' None (Dec_json json_SetUserStatusForbidden None),
     Dec_case 404 (Some ''application/json'') ''SetUserStatusNotFound'' None (Dec_json json_SetUserStatusNotFound None),
     Dec_case 500 (Some ''application/json'') ''SetUserStatusInternalServerError'' None (Dec_json json_SetUserStatusInternalServerError None)]"

definition encode_TestUpstreamAccountResponse :: "enc_case list" where
  "encode_TestUpstreamAccountResponse =
    [Enc_case ''AccountTestResponse'' (Some ''application/json; charset=utf-8'') None 200 False (Enc_json json_AccountTestResponse),
     Enc_case ''TestUpstreamAccountBadRequest'' (Some ''application/json; charset=utf-8'') None 400 False (Enc_json json_TestUpstreamAccountBadRequest),
     Enc_case ''TestUpstreamAccountUnauthorized'' (Some ''application/json; charset=utf-8'') None 401 False (Enc_json json_TestUpstreamAccountUnauthorized),
     Enc_case ''TestUpstreamAccountForbidden'' (Some ''application/json; charset=utf-8'') None 403 False (Enc_json json_TestUpstreamAccountForbidden),
     Enc_case ''TestUpstreamAccountNotFound'' (Some ''application/json; charset=utf-8'') None 404 False (Enc_json json_TestUpstreamAccountNotFound),
     Enc_case ''TestUpstreamAccountInternalServerError'' (Some ''application/json; charset=utf-8'') None 500 True (Enc_json json_TestUpstreamAccountInternalServerError)]"

definition decode_TestUpstreamAccountResponse :: "dec_case list" where
  "decode_TestUpstreamAccountResponse =
    [Dec_case 200 (Some ''application/json'') ''AccountTestResponse'' None (Dec_json json_AccountTestResponse (Some validate_AccountTestResponse)),
     Dec_case 400 (Some ''application/json'') ''TestUpstreamAccountBadRequest'' None (Dec_json json_TestUpstreamAccountBadRequest None),
     Dec_case 401 (Some ''application/json'') ''TestUpstreamAccountUnauthorized'' None (Dec_json json_TestUpstreamAccountUnauthorized None),
     Dec_case 403 (Some ''application/json'') ''TestUpstreamAccountForbidden'' None (Dec_json json_TestUpstreamAccountForbidden None),
     Dec_case 404 (Some ''application/json'') ''TestUpstreamAccountNotFound'' None (Dec_json json_TestUpstreamAccountNotFound None),
     Dec_case 500 (Some ''application/json'') ''TestUpstreamAccountInternalServerError'' None (Dec_json json_TestUpstreamAccountInternalServerError None)]"

definition encode_UpsertModelOverrideResponse :: "enc_case list" where
  "encode_UpsertModelOverrideResponse =
    [Enc_case ''ModelOverride'' (Some ''application/json; charset=utf-8'') None 200 False (Enc_json json_ModelOverride)]"

definition decode_UpsertModelOverrideResponse :: "dec_case list" where
  "decode_UpsertModelOverrideResponse =
    [Dec_case 200 (Some ''application/json'') ''ModelOverride'' None (Dec_json json_ModelOverride None)]"

section \<open>Handlers and client methods\<close>

definition handle_CancelOAuthSession :: server_op where
  "handle_CancelOAuthSession =
     \<lparr>so_name = ''CancelOAuthSession'', so_id = ''cancelOAuthSession'', so_method = ''DELETE'', so_route = ''/api/v1/admin/oauth/sessions/{state}'',
      so_security = (Some ([(SessionCookie, 0)], [1])), so_params = (Some params_CancelOAuthSession),
      so_request = None, so_response = encode_CancelOAuthSessionResponse\<rparr>"

definition send_CancelOAuthSession :: client_op where
  "send_CancelOAuthSession =
     \<lparr>co_name = ''CancelOAuthSession'', co_id = ''cancelOAuthSession'', co_method = ''DELETE'', co_route = ''/api/v1/admin/oauth/sessions/{state}'',
      co_path = [Lit ''/api/v1/admin/oauth/sessions/'', Path_par ''state'' ''State'' Pt_string],
      co_query = None, co_request = None,
      co_security = (Some ([(SessionCookie, 0)], [1])), co_response = decode_CancelOAuthSessionResponse\<rparr>"

definition handle_CreateMyAPIKey :: server_op where
  "handle_CreateMyAPIKey =
     \<lparr>so_name = ''CreateMyAPIKey'', so_id = ''createMyAPIKey'', so_method = ''POST'', so_route = ''/api/v1/me/keys'',
      so_security = (Some ([(SessionCookie, 0)], [1])), so_params = None,
      so_request = (Some decode_CreateMyAPIKeyRequest), so_response = encode_CreateMyAPIKeyResponse\<rparr>"

definition send_CreateMyAPIKey :: client_op where
  "send_CreateMyAPIKey =
     \<lparr>co_name = ''CreateMyAPIKey'', co_id = ''createMyAPIKey'', co_method = ''POST'', co_route = ''/api/v1/me/keys'',
      co_path = [Lit ''/api/v1/me/keys''],
      co_query = None, co_request = (Some encode_CreateMyAPIKeyRequest),
      co_security = (Some ([(SessionCookie, 0)], [1])), co_response = decode_CreateMyAPIKeyResponse\<rparr>"

definition handle_CreateProviderAPIKeys :: server_op where
  "handle_CreateProviderAPIKeys =
     \<lparr>so_name = ''CreateProviderAPIKeys'', so_id = ''createProviderAPIKeys'', so_method = ''POST'', so_route = ''/api/v1/admin/providers/keys'',
      so_security = (Some ([(SessionCookie, 0)], [1])), so_params = None,
      so_request = (Some decode_CreateProviderAPIKeysRequest), so_response = encode_CreateProviderAPIKeysResponse\<rparr>"

definition send_CreateProviderAPIKeys :: client_op where
  "send_CreateProviderAPIKeys =
     \<lparr>co_name = ''CreateProviderAPIKeys'', co_id = ''createProviderAPIKeys'', co_method = ''POST'', co_route = ''/api/v1/admin/providers/keys'',
      co_path = [Lit ''/api/v1/admin/providers/keys''],
      co_query = None, co_request = (Some encode_CreateProviderAPIKeysRequest),
      co_security = (Some ([(SessionCookie, 0)], [1])), co_response = decode_CreateProviderAPIKeysResponse\<rparr>"

definition handle_DeleteModelOverride :: server_op where
  "handle_DeleteModelOverride =
     \<lparr>so_name = ''DeleteModelOverride'', so_id = ''deleteModelOverride'', so_method = ''DELETE'', so_route = ''/api/v1/admin/models/{modelAlias}'',
      so_security = (Some ([(SessionCookie, 0)], [1])), so_params = (Some params_DeleteModelOverride),
      so_request = None, so_response = encode_DeleteModelOverrideResponse\<rparr>"

definition send_DeleteModelOverride :: client_op where
  "send_DeleteModelOverride =
     \<lparr>co_name = ''DeleteModelOverride'', co_id = ''deleteModelOverride'', co_method = ''DELETE'', co_route = ''/api/v1/admin/models/{modelAlias}'',
      co_path = [Lit ''/api/v1/admin/models/'', Path_par ''modelAlias'' ''ModelAlias'' Pt_string],
      co_query = None, co_request = None,
      co_security = (Some ([(SessionCookie, 0)], [1])), co_response = decode_DeleteModelOverrideResponse\<rparr>"

definition handle_Docs :: server_op where
  "handle_Docs =
     \<lparr>so_name = ''Docs'', so_id = ''docs'', so_method = ''GET'', so_route = ''/docs'',
      so_security = None, so_params = None,
      so_request = None, so_response = encode_DocsResponse\<rparr>"

definition send_Docs :: client_op where
  "send_Docs =
     \<lparr>co_name = ''Docs'', co_id = ''docs'', co_method = ''GET'', co_route = ''/docs'',
      co_path = [Lit ''/docs''],
      co_query = None, co_request = None,
      co_security = None, co_response = decode_DocsResponse\<rparr>"

definition handle_ExportOAuthCredential :: server_op where
  "handle_ExportOAuthCredential =
     \<lparr>so_name = ''ExportOAuthCredential'', so_id = ''exportOAuthCredential'', so_method = ''GET'', so_route = ''/api/v1/admin/oauth/accounts/{accountID}/export'',
      so_security = (Some ([(SessionCookie, 0)], [1])), so_params = (Some params_ExportOAuthCredential),
      so_request = None, so_response = encode_ExportOAuthCredentialResponse\<rparr>"

definition send_ExportOAuthCredential :: client_op where
  "send_ExportOAuthCredential =
     \<lparr>co_name = ''ExportOAuthCredential'', co_id = ''exportOAuthCredential'', co_method = ''GET'', co_route = ''/api/v1/admin/oauth/accounts/{accountID}/export'',
      co_path = [Lit ''/api/v1/admin/oauth/accounts/'', Path_par ''accountID'' ''AccountID'' Pt_string, Lit ''/export''],
      co_query = None, co_request = None,
      co_security = (Some ([(SessionCookie, 0)], [1])), co_response = decode_ExportOAuthCredentialResponse\<rparr>"

definition handle_GetCurrentUser :: server_op where
  "handle_GetCurrentUser =
     \<lparr>so_name = ''GetCurrentUser'', so_id = ''getCurrentUser'', so_method = ''GET'', so_route = ''/api/v1/me'',
      so_security = (Some ([(SessionCookie, 0)], [1])), so_params = None,
      so_request = None, so_response = encode_GetCurrentUserResponse\<rparr>"

definition send_GetCurrentUser :: client_op where
  "send_GetCurrentUser =
     \<lparr>co_name = ''GetCurrentUser'', co_id = ''getCurrentUser'', co_method = ''GET'', co_route = ''/api/v1/me'',
      co_path = [Lit ''/api/v1/me''],
      co_query = None, co_request = None,
      co_security = (Some ([(SessionCookie, 0)], [1])), co_response = decode_GetCurrentUserResponse\<rparr>"

definition handle_GetMyUsage :: server_op where
  "handle_GetMyUsage =
     \<lparr>so_name = ''GetMyUsage'', so_id = ''getMyUsage'', so_method = ''GET'', so_route = ''/api/v1/me/usage'',
      so_security = (Some ([(SessionCookie, 0)], [1])), so_params = (Some params_GetMyUsage),
      so_request = None, so_response = encode_GetMyUsageResponse\<rparr>"

definition send_GetMyUsage :: client_op where
  "send_GetMyUsage =
     \<lparr>co_name = ''GetMyUsage'', co_id = ''getMyUsage'', co_method = ''GET'', co_route = ''/api/v1/me/usage'',
      co_path = [Lit ''/api/v1/me/usage''],
      co_query = (Some [(''from'', ''From'', Pt_datetime), (''to'', ''To'', Pt_datetime)]), co_request = None,
      co_security = (Some ([(SessionCookie, 0)], [1])), co_response = decode_GetMyUsageResponse\<rparr>"

definition handle_GetOAuthSession :: server_op where
  "handle_GetOAuthSession =
     \<lparr>so_name = ''GetOAuthSession'', so_id = ''getOAuthSession'', so_method = ''GET'', so_route = ''/api/v1/admin/oauth/sessions/{state}'',
      so_security = (Some ([(SessionCookie, 0)], [1])), so_params = (Some params_GetOAuthSession),
      so_request = None, so_response = encode_GetOAuthSessionResponse\<rparr>"

definition send_GetOAuthSession :: client_op where
  "send_GetOAuthSession =
     \<lparr>co_name = ''GetOAuthSession'', co_id = ''getOAuthSession'', co_method = ''GET'', co_route = ''/api/v1/admin/oauth/sessions/{state}'',
      co_path = [Lit ''/api/v1/admin/oauth/sessions/'', Path_par ''state'' ''State'' Pt_string],
      co_query = None, co_request = None,
      co_security = (Some ([(SessionCookie, 0)], [1])), co_response = decode_GetOAuthSessionResponse\<rparr>"

definition handle_GetUpstreamAccountQuota :: server_op where
  "handle_GetUpstreamAccountQuota =
     \<lparr>so_name = ''GetUpstreamAccountQuota'', so_id = ''getUpstreamAccountQuota'', so_method = ''GET'', so_route = ''/api/v1/admin/accounts/{accountID}/quota'',
      so_security = (Some ([(SessionCookie, 0)], [1])), so_params = (Some params_GetUpstreamAccountQuota),
      so_request = None, so_response = encode_GetUpstreamAccountQuotaResponse\<rparr>"

definition send_GetUpstreamAccountQuota :: client_op where
  "send_GetUpstreamAccountQuota =
     \<lparr>co_name = ''GetUpstreamAccountQuota'', co_id = ''getUpstreamAccountQuota'', co_method = ''GET'', co_route = ''/api/v1/admin/accounts/{accountID}/quota'',
      co_path = [Lit ''/api/v1/admin/accounts/'', Path_par ''accountID'' ''AccountID'' Pt_string, Lit ''/quota''],
      co_query = None, co_request = None,
      co_security = (Some ([(SessionCookie, 0)], [1])), co_response = decode_GetUpstreamAccountQuotaResponse\<rparr>"

definition handle_Healthz :: server_op where
  "handle_Healthz =
     \<lparr>so_name = ''Healthz'', so_id = ''healthz'', so_method = ''GET'', so_route = ''/healthz'',
      so_security = None, so_params = None,
      so_request = None, so_response = encode_HealthzResponse\<rparr>"

definition send_Healthz :: client_op where
  "send_Healthz =
     \<lparr>co_name = ''Healthz'', co_id = ''healthz'', co_method = ''GET'', co_route = ''/healthz'',
      co_path = [Lit ''/healthz''],
      co_query = None, co_request = None,
      co_security = None, co_response = decode_HealthzResponse\<rparr>"

definition handle_ImportOAuthCredential :: server_op where
  "handle_ImportOAuthCredential =
     \<lparr>so_name = ''ImportOAuthCredential'', so_id = ''importOAuthCredential'', so_method = ''POST'', so_route = ''/api/v1/admin/oauth/import'',
      so_security = (Some ([(SessionCookie, 0)], [1])), so_params = None,
      so_request = (Some decode_ImportOAuthCredentialRequest), so_response = encode_ImportOAuthCredentialResponse\<rparr>"

definition send_ImportOAuthCredential :: client_op where
  "send_ImportOAuthCredential =
     \<lparr>co_name = ''ImportOAuthCredential'', co_id = ''importOAuthCredential'', co_method = ''POST'', co_route = ''/api/v1/admin/oauth/import'',
      co_path = [Lit ''/api/v1/admin/oauth/import''],
      co_query = None, co_request = (Some encode_ImportOAuthCredentialRequest),
      co_security = (Some ([(SessionCookie, 0)], [1])), co_response = decode_ImportOAuthCredentialResponse\<rparr>"

definition handle_ListAllAPIKeys :: server_op where
  "handle_ListAllAPIKeys =
     \<lparr>so_name = ''ListAllAPIKeys'', so_id = ''listAllAPIKeys'', so_method = ''GET'', so_route = ''/api/v1/admin/keys'',
      so_security = (Some ([(SessionCookie, 0)], [1])), so_params = None,
      so_request = None, so_response = encode_ListAllAPIKeysResponse\<rparr>"

definition send_ListAllAPIKeys :: client_op where
  "send_ListAllAPIKeys =
     \<lparr>co_name = ''ListAllAPIKeys'', co_id = ''listAllAPIKeys'', co_method = ''GET'', co_route = ''/api/v1/admin/keys'',
      co_path = [Lit ''/api/v1/admin/keys''],
      co_query = None, co_request = None,
      co_security = (Some ([(SessionCookie, 0)], [1])), co_response = decode_ListAllAPIKeysResponse\<rparr>"

definition handle_ListModelOverrides :: server_op where
  "handle_ListModelOverrides =
     \<lparr>so_name = ''ListModelOverrides'', so_id = ''listModelOverrides'', so_method = ''GET'', so_route = ''/api/v1/admin/models'',
      so_security = (Some ([(SessionCookie, 0)], [1])), so_params = None,
      so_request = None, so_response = encode_ListModelOverridesResponse\<rparr>"

definition send_ListModelOverrides :: client_op where
  "send_ListModelOverrides =
     \<lparr>co_name = ''ListModelOverrides'', co_id = ''listModelOverrides'', co_method = ''GET'', co_route = ''/api/v1/admin/models'',
      co_path = [Lit ''/api/v1/admin/models''],
      co_query = None, co_request = None,
      co_security = (Some ([(SessionCookie, 0)], [1])), co_response = decode_ListModelOverridesResponse\<rparr>"

definition handle_ListMyAPIKeys :: server_op where
  "handle_ListMyAPIKeys =
     \<lparr>so_name = ''ListMyAPIKeys'', so_id = ''listMyAPIKeys'', so_method = ''GET'', so_route = ''/api/v1/me/keys'',
      so_security = (Some ([(SessionCookie, 0)], [1])), so_params = None,
      so_request = None, so_response = encode_ListMyAPIKeysResponse\<rparr>"

definition send_ListMyAPIKeys :: client_op where
  "send_ListMyAPIKeys =
     \<lparr>co_name = ''ListMyAPIKeys'', co_id = ''listMyAPIKeys'', co_method = ''GET'', co_route = ''/api/v1/me/keys'',
      co_path = [Lit ''/api/v1/me/keys''],
      co_query = None, co_request = None,
      co_security = (Some ([(SessionCookie, 0)], [1])), co_response = decode_ListMyAPIKeysResponse\<rparr>"

definition handle_ListPendingOAuthSessions :: server_op where
  "handle_ListPendingOAuthSessions =
     \<lparr>so_name = ''ListPendingOAuthSessions'', so_id = ''listPendingOAuthSessions'', so_method = ''GET'', so_route = ''/api/v1/admin/oauth/sessions'',
      so_security = (Some ([(SessionCookie, 0)], [1])), so_params = None,
      so_request = None, so_response = encode_ListPendingOAuthSessionsResponse\<rparr>"

definition send_ListPendingOAuthSessions :: client_op where
  "send_ListPendingOAuthSessions =
     \<lparr>co_name = ''ListPendingOAuthSessions'', co_id = ''listPendingOAuthSessions'', co_method = ''GET'', co_route = ''/api/v1/admin/oauth/sessions'',
      co_path = [Lit ''/api/v1/admin/oauth/sessions''],
      co_query = None, co_request = None,
      co_security = (Some ([(SessionCookie, 0)], [1])), co_response = decode_ListPendingOAuthSessionsResponse\<rparr>"

definition handle_ListUsers :: server_op where
  "handle_ListUsers =
     \<lparr>so_name = ''ListUsers'', so_id = ''listUsers'', so_method = ''GET'', so_route = ''/api/v1/admin/users'',
      so_security = (Some ([(SessionCookie, 0)], [1])), so_params = None,
      so_request = None, so_response = encode_ListUsersResponse\<rparr>"

definition send_ListUsers :: client_op where
  "send_ListUsers =
     \<lparr>co_name = ''ListUsers'', co_id = ''listUsers'', co_method = ''GET'', co_route = ''/api/v1/admin/users'',
      co_path = [Lit ''/api/v1/admin/users''],
      co_query = None, co_request = None,
      co_security = (Some ([(SessionCookie, 0)], [1])), co_response = decode_ListUsersResponse\<rparr>"

definition handle_Login :: server_op where
  "handle_Login =
     \<lparr>so_name = ''Login'', so_id = ''login'', so_method = ''POST'', so_route = ''/api/v1/login'',
      so_security = None, so_params = None,
      so_request = (Some decode_LoginRequest), so_response = encode_LoginResponse\<rparr>"

definition send_Login :: client_op where
  "send_Login =
     \<lparr>co_name = ''Login'', co_id = ''login'', co_method = ''POST'', co_route = ''/api/v1/login'',
      co_path = [Lit ''/api/v1/login''],
      co_query = None, co_request = (Some encode_LoginRequest),
      co_security = None, co_response = decode_LoginResponse\<rparr>"

definition handle_Logout :: server_op where
  "handle_Logout =
     \<lparr>so_name = ''Logout'', so_id = ''logout'', so_method = ''POST'', so_route = ''/api/v1/logout'',
      so_security = None, so_params = None,
      so_request = None, so_response = encode_LogoutResponse\<rparr>"

definition send_Logout :: client_op where
  "send_Logout =
     \<lparr>co_name = ''Logout'', co_id = ''logout'', co_method = ''POST'', co_route = ''/api/v1/logout'',
      co_path = [Lit ''/api/v1/logout''],
      co_query = None, co_request = None,
      co_security = None, co_response = decode_LogoutResponse\<rparr>"

definition handle_Metrics :: server_op where
  "handle_Metrics =
     \<lparr>so_name = ''Metrics'', so_id = ''metrics'', so_method = ''GET'', so_route = ''/metrics'',
      so_security = None, so_params = None,
      so_request = None, so_response = encode_MetricsResponse\<rparr>"

definition send_Metrics :: client_op where
  "send_Metrics =
     \<lparr>co_name = ''Metrics'', co_id = ''metrics'', co_method = ''GET'', co_route = ''/metrics'',
      co_path = [Lit ''/metrics''],
      co_query = None, co_request = None,
      co_security = None, co_response = decode_MetricsResponse\<rparr>"

definition handle_OpenapiJson :: server_op where
  "handle_OpenapiJson =
     \<lparr>so_name = ''OpenapiJson'', so_id = ''openapiJson'', so_method = ''GET'', so_route = ''/openapi.json'',
      so_security = None, so_params = None,
      so_request = None, so_response = encode_OpenapiJsonResponse\<rparr>"

definition send_OpenapiJson :: client_op where
  "send_OpenapiJson =
     \<lparr>co_name = ''OpenapiJson'', co_id = ''openapiJson'', co_method = ''GET'', co_route = ''/openapi.json'',
      co_path = [Lit ''/openapi.json''],
      co_query = None, co_request = None,
      co_security = None, co_response = decode_OpenapiJsonResponse\<rparr>"

definition handle_ProxyAlphaSearch :: server_op where
  "handle_ProxyAlphaSearch =
     \<lparr>so_name = ''ProxyAlphaSearch'', so_id = ''proxyAlphaSearch'', so_method = ''POST'', so_route = ''/v1/alpha/search'',
      so_security = (Some ([(BearerApiKey, 0)], [1])), so_params = None,
      so_request = None, so_response = encode_ProxyAlphaSearchResponse\<rparr>"

definition send_ProxyAlphaSearch :: client_op where
  "send_ProxyAlphaSearch =
     \<lparr>co_name = ''ProxyAlphaSearch'', co_id = ''proxyAlphaSearch'', co_method = ''POST'', co_route = ''/v1/alpha/search'',
      co_path = [Lit ''/v1/alpha/search''],
      co_query = None, co_request = None,
      co_security = (Some ([(BearerApiKey, 0)], [1])), co_response = decode_ProxyAlphaSearchResponse\<rparr>"

definition handle_ProxyChatCompletions :: server_op where
  "handle_ProxyChatCompletions =
     \<lparr>so_name = ''ProxyChatCompletions'', so_id = ''proxyChatCompletions'', so_method = ''POST'', so_route = ''/v1/chat/completions'',
      so_security = (Some ([(BearerApiKey, 0)], [1])), so_params = None,
      so_request = None, so_response = encode_ProxyChatCompletionsResponse\<rparr>"

definition send_ProxyChatCompletions :: client_op where
  "send_ProxyChatCompletions =
     \<lparr>co_name = ''ProxyChatCompletions'', co_id = ''proxyChatCompletions'', co_method = ''POST'', co_route = ''/v1/chat/completions'',
      co_path = [Lit ''/v1/chat/completions''],
      co_query = None, co_request = None,
      co_security = (Some ([(BearerApiKey, 0)], [1])), co_response = decode_ProxyChatCompletionsResponse\<rparr>"

definition handle_ProxyCodexAlphaSearch :: server_op where
  "handle_ProxyCodexAlphaSearch =
     \<lparr>so_name = ''ProxyCodexAlphaSearch'', so_id = ''proxyCodexAlphaSearch'', so_method = ''POST'', so_route = ''/backend-api/codex/alpha/search'',
      so_security = (Some ([(BearerApiKey, 0)], [1])), so_params = None,
      so_request = None, so_response = encode_ProxyCodexAlphaSearchResponse\<rparr>"

definition send_ProxyCodexAlphaSearch :: client_op where
  "send_ProxyCodexAlphaSearch =
     \<lparr>co_name = ''ProxyCodexAlphaSearch'', co_id = ''proxyCodexAlphaSearch'', co_method = ''POST'', co_route = ''/backend-api/codex/alpha/search'',
      co_path = [Lit ''/backend-api/codex/alpha/search''],
      co_query = None, co_request = None,
      co_security = (Some ([(BearerApiKey, 0)], [1])), co_response = decode_ProxyCodexAlphaSearchResponse\<rparr>"

definition handle_ProxyCodexResponses :: server_op where
  "handle_ProxyCodexResponses =
     \<lparr>so_name = ''ProxyCodexResponses'', so_id = ''proxyCodexResponses'', so_method = ''POST'', so_route = ''/backend-api/codex/responses'',
      so_security = (Some ([(BearerApiKey, 0)], [1])), so_params = None,
      so_request = None, so_response = encode_ProxyCodexResponsesResponse\<rparr>"

definition send_ProxyCodexResponses :: client_op where
  "send_ProxyCodexResponses =
     \<lparr>co_name = ''ProxyCodexResponses'', co_id = ''proxyCodexResponses'', co_method = ''POST'', co_route = ''/backend-api/codex/responses'',
      co_path = [Lit ''/backend-api/codex/responses''],
      co_query = None, co_request = None,
      co_security = (Some ([(BearerApiKey, 0)], [1])), co_response = decode_ProxyCodexResponsesResponse\<rparr>"

definition handle_ProxyCodexResponsesCompact :: server_op where
  "handle_ProxyCodexResponsesCompact =
     \<lparr>so_name = ''ProxyCodexResponsesCompact'', so_id = ''proxyCodexResponsesCompact'', so_method = ''POST'', so_route = ''/backend-api/codex/responses/compact'',
      so_security = (Some ([(BearerApiKey, 0)], [1])), so_params = None,
      so_request = None, so_response = encode_ProxyCodexResponsesCompactResponse\<rparr>"

definition send_ProxyCodexResponsesCompact :: client_op where
  "send_ProxyCodexResponsesCompact =
     \<lparr>co_name = ''ProxyCodexResponsesCompact'', co_id = ''proxyCodexResponsesCompact'', co_method = ''POST'', co_route = ''/backend-api/codex/responses/compact'',
      co_path = [Lit ''/backend-api/codex/responses/compact''],
      co_query = None, co_request = None,
      co_security = (Some ([(BearerApiKey, 0)], [1])), co_response = decode_ProxyCodexResponsesCompactResponse\<rparr>"

definition handle_ProxyCodexResponsesWebsocket :: server_op where
  "handle_ProxyCodexResponsesWebsocket =
     \<lparr>so_name = ''ProxyCodexResponsesWebsocket'', so_id = ''proxyCodexResponsesWebsocket'', so_method = ''GET'', so_route = ''/backend-api/codex/responses'',
      so_security = (Some ([(BearerApiKey, 0)], [1])), so_params = None,
      so_request = None, so_response = encode_ProxyCodexResponsesWebsocketResponse\<rparr>"

definition send_ProxyCodexResponsesWebsocket :: client_op where
  "send_ProxyCodexResponsesWebsocket =
     \<lparr>co_name = ''ProxyCodexResponsesWebsocket'', co_id = ''proxyCodexResponsesWebsocket'', co_method = ''GET'', co_route = ''/backend-api/codex/responses'',
      co_path = [Lit ''/backend-api/codex/responses''],
      co_query = None, co_request = None,
      co_security = (Some ([(BearerApiKey, 0)], [1])), co_response = decode_ProxyCodexResponsesWebsocketResponse\<rparr>"

definition handle_ProxyCompletions :: server_op where
  "handle_ProxyCompletions =
     \<lparr>so_name = ''ProxyCompletions'', so_id = ''proxyCompletions'', so_method = ''POST'', so_route = ''/v1/completions'',
      so_security = (Some ([(BearerApiKey, 0)], [1])), so_params = None,
      so_request = None, so_response = encode_ProxyCompletionsResponse\<rparr>"

definition send_ProxyCompletions :: client_op where
  "send_ProxyCompletions =
     \<lparr>co_name = ''ProxyCompletions'', co_id = ''proxyCompletions'', co_method = ''POST'', co_route = ''/v1/completions'',
      co_path = [Lit ''/v1/completions''],
      co_query = None, co_request = None,
      co_security = (Some ([(BearerApiKey, 0)], [1])), co_response = decode_ProxyCompletionsResponse\<rparr>"

definition handle_ProxyGeminiInteractions :: server_op where
  "handle_ProxyGeminiInteractions =
     \<lparr>so_name = ''ProxyGeminiInteractions'', so_id = ''proxyGeminiInteractions'', so_method = ''POST'', so_route = ''/v1beta/interactions'',
      so_security = (Some ([(BearerApiKey, 0)], [1])), so_params = None,
      so_request = None, so_response = encode_ProxyGeminiInteractionsResponse\<rparr>"

definition send_ProxyGeminiInteractions :: client_op where
  "send_ProxyGeminiInteractions =
     \<lparr>co_name = ''ProxyGeminiInteractions'', co_id = ''proxyGeminiInteractions'', co_method = ''POST'', co_route = ''/v1beta/interactions'',
      co_path = [Lit ''/v1beta/interactions''],
      co_query = None, co_request = None,
      co_security = (Some ([(BearerApiKey, 0)], [1])), co_response = decode_ProxyGeminiInteractionsResponse\<rparr>"

definition handle_ProxyGeminiModelActionGet :: server_op where
  "handle_ProxyGeminiModelActionGet =
     \<lparr>so_name = ''ProxyGeminiModelActionGet'', so_id = ''proxyGeminiModelActionGet'', so_method = ''GET'', so_route = ''/v1beta/models/{model}:{action}'',
      so_security = (Some ([(BearerApiKey, 0)], [1])), so_params = (Some params_ProxyGeminiModelActionGet),
      so_request = None, so_response = encode_ProxyGeminiModelActionGetResponse\<rparr>"

definition send_ProxyGeminiModelActionGet :: client_op where
  "send_ProxyGeminiModelActionGet =
     \<lparr>co_name = ''ProxyGeminiModelActionGet'', co_id = ''proxyGeminiModelActionGet'', co_method = ''GET'', co_route = ''/v1beta/models/{model}:{action}'',
      co_path = [Lit ''/v1beta/models/'', Path_par ''model'' ''Model'' Pt_string, Lit '':'', Path_par ''action'' ''Action'' Pt_string],
      co_query = None, co_request = None,
      co_security = (Some ([(BearerApiKey, 0)], [1])), co_response = decode_ProxyGeminiModelActionGetResponse\<rparr>"

definition handle_ProxyGeminiModelActionPost :: server_op where
  "handle_ProxyGeminiModelActionPost =
     \<lparr>so_name = ''ProxyGeminiModelActionPost'', so_id = ''proxyGeminiModelActionPost'', so_method = ''POST'', so_route = ''/v1beta/models/{model}:{action}'',
      so_security = (Some ([(BearerApiKey, 0)], [1])), so_params = (Some params_ProxyGeminiModelActionPost),
      so_request = None, so_response = encode_ProxyGeminiModelActionPostResponse\<rparr>"

definition send_ProxyGeminiModelActionPost :: client_op where
  "send_ProxyGeminiModelActionPost =
     \<lparr>co_name = ''ProxyGeminiModelActionPost'', co_id = ''proxyGeminiModelActionPost'', co_method = ''POST'', co_route = ''/v1beta/models/{model}:{action}'',
      co_path = [Lit ''/v1beta/models/'', Path_par ''model'' ''Model'' Pt_string, Lit '':'', Path_par ''action'' ''Action'' Pt_string],
      co_query = None, co_request = None,
      co_security = (Some ([(BearerApiKey, 0)], [1])), co_response = decode_ProxyGeminiModelActionPostResponse\<rparr>"

definition handle_ProxyGeminiModels :: server_op where
  "handle_ProxyGeminiModels =
     \<lparr>so_name = ''ProxyGeminiModels'', so_id = ''proxyGeminiModels'', so_method = ''GET'', so_route = ''/v1beta/models'',
      so_security = (Some ([(BearerApiKey, 0)], [1])), so_params = None,
      so_request = None, so_response = encode_ProxyGeminiModelsResponse\<rparr>"

definition send_ProxyGeminiModels :: client_op where
  "send_ProxyGeminiModels =
     \<lparr>co_name = ''ProxyGeminiModels'', co_id = ''proxyGeminiModels'', co_method = ''GET'', co_route = ''/v1beta/models'',
      co_path = [Lit ''/v1beta/models''],
      co_query = None, co_request = None,
      co_security = (Some ([(BearerApiKey, 0)], [1])), co_response = decode_ProxyGeminiModelsResponse\<rparr>"

definition handle_ProxyImageEdits :: server_op where
  "handle_ProxyImageEdits =
     \<lparr>so_name = ''ProxyImageEdits'', so_id = ''proxyImageEdits'', so_method = ''POST'', so_route = ''/v1/images/edits'',
      so_security = (Some ([(BearerApiKey, 0)], [1])), so_params = None,
      so_request = None, so_response = encode_ProxyImageEditsResponse\<rparr>"

definition send_ProxyImageEdits :: client_op where
  "send_ProxyImageEdits =
     \<lparr>co_name = ''ProxyImageEdits'', co_id = ''proxyImageEdits'', co_method = ''POST'', co_route = ''/v1/images/edits'',
      co_path = [Lit ''/v1/images/edits''],
      co_query = None, co_request = None,
      co_security = (Some ([(BearerApiKey, 0)], [1])), co_response = decode_ProxyImageEditsResponse\<rparr>"

definition handle_ProxyImageGenerations :: server_op where
  "handle_ProxyImageGenerations =
     \<lparr>so_name = ''ProxyImageGenerations'', so_id = ''proxyImageGenerations'', so_method = ''POST'', so_route = ''/v1/images/generations'',
      so_security = (Some ([(BearerApiKey, 0)], [1])), so_params = None,
      so_request = None, so_response = encode_ProxyImageGenerationsResponse\<rparr>"

definition send_ProxyImageGenerations :: client_op where
  "send_ProxyImageGenerations =
     \<lparr>co_name = ''ProxyImageGenerations'', co_id = ''proxyImageGenerations'', co_method = ''POST'', co_route = ''/v1/images/generations'',
      co_path = [Lit ''/v1/images/generations''],
      co_query = None, co_request = None,
      co_security = (Some ([(BearerApiKey, 0)], [1])), co_response = decode_ProxyImageGenerationsResponse\<rparr>"

definition handle_ProxyMessages :: server_op where
  "handle_ProxyMessages =
     \<lparr>so_name = ''ProxyMessages'', so_id = ''proxyMessages'', so_method = ''POST'', so_route = ''/v1/messages'',
      so_security = (Some ([(BearerApiKey, 0)], [1])), so_params = None,
      so_request = None, so_response = encode_ProxyMessagesResponse\<rparr>"

definition send_ProxyMessages :: client_op where
  "send_ProxyMessages =
     \<lparr>co_name = ''ProxyMessages'', co_id = ''proxyMessages'', co_method = ''POST'', co_route = ''/v1/messages'',
      co_path = [Lit ''/v1/messages''],
      co_query = None, co_request = None,
      co_security = (Some ([(BearerApiKey, 0)], [1])), co_response = decode_ProxyMessagesResponse\<rparr>"

definition handle_ProxyMessagesCountTokens :: server_op where
  "handle_ProxyMessagesCountTokens =
     \<lparr>so_name = ''ProxyMessagesCountTokens'', so_id = ''proxyMessagesCountTokens'', so_method = ''POST'', so_route = ''/v1/messages/count_tokens'',
      so_security = (Some ([(BearerApiKey, 0)], [1])), so_params = None,
      so_request = None, so_response = encode_ProxyMessagesCountTokensResponse\<rparr>"

definition send_ProxyMessagesCountTokens :: client_op where
  "send_ProxyMessagesCountTokens =
     \<lparr>co_name = ''ProxyMessagesCountTokens'', co_id = ''proxyMessagesCountTokens'', co_method = ''POST'', co_route = ''/v1/messages/count_tokens'',
      co_path = [Lit ''/v1/messages/count_tokens''],
      co_query = None, co_request = None,
      co_security = (Some ([(BearerApiKey, 0)], [1])), co_response = decode_ProxyMessagesCountTokensResponse\<rparr>"

definition handle_ProxyModels :: server_op where
  "handle_ProxyModels =
     \<lparr>so_name = ''ProxyModels'', so_id = ''proxyModels'', so_method = ''GET'', so_route = ''/v1/models'',
      so_security = (Some ([(BearerApiKey, 0)], [1])), so_params = None,
      so_request = None, so_response = encode_ProxyModelsResponse\<rparr>"

definition send_ProxyModels :: client_op where
  "send_ProxyModels =
     \<lparr>co_name = ''ProxyModels'', co_id = ''proxyModels'', co_method = ''GET'', co_route = ''/v1/models'',
      co_path = [Lit ''/v1/models''],
      co_query = None, co_request = None,
      co_security = (Some ([(BearerApiKey, 0)], [1])), co_response = decode_ProxyModelsResponse\<rparr>"

definition handle_ProxyOpenAIVideosContent :: server_op where
  "handle_ProxyOpenAIVideosContent =
     \<lparr>so_name = ''ProxyOpenAIVideosContent'', so_id = ''proxyOpenAIVideosContent'', so_method = ''GET'', so_route = ''/openai/v1/videos/{video_id}/content'',
      so_security = (Some ([(BearerApiKey, 0)], [1])), so_params = (Some params_ProxyOpenAIVideosContent),
      so_request = None, so_response = encode_ProxyOpenAIVideosContentResponse\<rparr>"

definition send_ProxyOpenAIVideosContent :: client_op where
  "send_ProxyOpenAIVideosContent =
     \<lparr>co_name = ''ProxyOpenAIVideosContent'', co_id = ''proxyOpenAIVideosContent'', co_method = ''GET'', co_route = ''/openai/v1/videos/{video_id}/content'',
      co_path = [Lit ''/openai/v1/videos/'', Path_par ''video_id'' ''VideoID'' Pt_string, Lit ''/content''],
      co_query = None, co_request = None,
      co_security = (Some ([(BearerApiKey, 0)], [1])), co_response = decode_ProxyOpenAIVideosContentResponse\<rparr>"

definition handle_ProxyOpenAIVideosCreate :: server_op where
  "handle_ProxyOpenAIVideosCreate =
     \<lparr>so_name = ''ProxyOpenAIVideosCreate'', so_id = ''proxyOpenAIVideosCreate'', so_method = ''POST'', so_route = ''/openai/v1/videos'',
      so_security = (Some ([(BearerApiKey, 0)], [1])), so_params = None,
      so_request = None, so_response = encode_ProxyOpenAIVideosCreateResponse\<rparr>"

definition send_ProxyOpenAIVideosCreate :: client_op where
  "send_ProxyOpenAIVideosCreate =
     \<lparr>co_name = ''ProxyOpenAIVideosCreate'', co_id = ''proxyOpenAIVideosCreate'', co_method = ''POST'', co_route = ''/openai/v1/videos'',
      co_path = [Lit ''/openai/v1/videos''],
      co_query = None, co_request = None,
      co_security = (Some ([(BearerApiKey, 0)], [1])), co_response = decode_ProxyOpenAIVideosCreateResponse\<rparr>"

definition handle_ProxyOpenAIVideosRetrieve :: server_op where
  "handle_ProxyOpenAIVideosRetrieve =
     \<lparr>so_name = ''ProxyOpenAIVideosRetrieve'', so_id = ''proxyOpenAIVideosRetrieve'', so_method = ''GET'', so_route = ''/openai/v1/videos/{video_id}'',
      so_security = (Some ([(BearerApiKey, 0)], [1])), so_params = (Some params_ProxyOpenAIVideosRetrieve),
      so_request = None, so_response = encode_ProxyOpenAIVideosRetrieveResponse\<rparr>"

definition send_ProxyOpenAIVideosRetrieve :: client_op where
  "send_ProxyOpenAIVideosRetrieve =
     \<lparr>co_name = ''ProxyOpenAIVideosRetrieve'', co_id = ''proxyOpenAIVideosRetrieve'', co_method = ''GET'', co_route = ''/openai/v1/videos/{video_id}'',
      co_path = [Lit ''/openai/v1/videos/'', Path_par ''video_id'' ''VideoID'' Pt_string],
      co_query = None, co_request = None,
      co_security = (Some ([(BearerApiKey, 0)], [1])), co_response = decode_ProxyOpenAIVideosRetrieveResponse\<rparr>"

definition handle_ProxyResponses :: server_op where
  "handle_ProxyResponses =
     \<lparr>so_name = ''ProxyResponses'', so_id = ''proxyResponses'', so_method = ''POST'', so_route = ''/v1/responses'',
      so_security = (Some ([(BearerApiKey, 0)], [1])), so_params = None,
      so_request = None, so_response = encode_ProxyResponsesResponse\<rparr>"

definition send_ProxyResponses :: client_op where
  "send_ProxyResponses =
     \<lparr>co_name = ''ProxyResponses'', co_id = ''proxyResponses'', co_method = ''POST'', co_route = ''/v1/responses'',
      co_path = [Lit ''/v1/responses''],
      co_query = None, co_request = None,
      co_security = (Some ([(BearerApiKey, 0)], [1])), co_response = decode_ProxyResponsesResponse\<rparr>"

definition handle_ProxyResponsesCompact :: server_op where
  "handle_ProxyResponsesCompact =
     \<lparr>so_name = ''ProxyResponsesCompact'', so_id = ''proxyResponsesCompact'', so_method = ''POST'', so_route = ''/v1/responses/compact'',
      so_security = (Some ([(BearerApiKey, 0)], [1])), so_params = None,
      so_request = None, so_response = encode_ProxyResponsesCompactResponse\<rparr>"

definition send_ProxyResponsesCompact :: client_op where
  "send_ProxyResponsesCompact =
     \<lparr>co_name = ''ProxyResponsesCompact'', co_id = ''proxyResponsesCompact'', co_method = ''POST'', co_route = ''/v1/responses/compact'',
      co_path = [Lit ''/v1/responses/compact''],
      co_query = None, co_request = None,
      co_security = (Some ([(BearerApiKey, 0)], [1])), co_response = decode_ProxyResponsesCompactResponse\<rparr>"

definition handle_ProxyResponsesWebsocket :: server_op where
  "handle_ProxyResponsesWebsocket =
     \<lparr>so_name = ''ProxyResponsesWebsocket'', so_id = ''proxyResponsesWebsocket'', so_method = ''GET'', so_route = ''/v1/responses'',
      so_security = (Some ([(BearerApiKey, 0)], [1])), so_params = None,
      so_request = None, so_response = encode_ProxyResponsesWebsocketResponse\<rparr>"

definition send_ProxyResponsesWebsocket :: client_op where
  "send_ProxyResponsesWebsocket =
     \<lparr>co_name = ''ProxyResponsesWebsocket'', co_id = ''proxyResponsesWebsocket'', co_method = ''GET'', co_route = ''/v1/responses'',
      co_path = [Lit ''/v1/responses''],
      co_query = None, co_request = None,
      co_security = (Some ([(BearerApiKey, 0)], [1])), co_response = decode_ProxyResponsesWebsocketResponse\<rparr>"

definition handle_ProxyXAIVideoEdits :: server_op where
  "handle_ProxyXAIVideoEdits =
     \<lparr>so_name = ''ProxyXAIVideoEdits'', so_id = ''proxyXAIVideoEdits'', so_method = ''POST'', so_route = ''/v1/videos/edits'',
      so_security = (Some ([(BearerApiKey, 0)], [1])), so_params = None,
      so_request = None, so_response = encode_ProxyXAIVideoEditsResponse\<rparr>"

definition send_ProxyXAIVideoEdits :: client_op where
  "send_ProxyXAIVideoEdits =
     \<lparr>co_name = ''ProxyXAIVideoEdits'', co_id = ''proxyXAIVideoEdits'', co_method = ''POST'', co_route = ''/v1/videos/edits'',
      co_path = [Lit ''/v1/videos/edits''],
      co_query = None, co_request = None,
      co_security = (Some ([(BearerApiKey, 0)], [1])), co_response = decode_ProxyXAIVideoEditsResponse\<rparr>"

definition handle_ProxyXAIVideoExtensions :: server_op where
  "handle_ProxyXAIVideoExtensions =
     \<lparr>so_name = ''ProxyXAIVideoExtensions'', so_id = ''proxyXAIVideoExtensions'', so_method = ''POST'', so_route = ''/v1/videos/extensions'',
      so_security = (Some ([(BearerApiKey, 0)], [1])), so_params = None,
      so_request = None, so_response = encode_ProxyXAIVideoExtensionsResponse\<rparr>"

definition send_ProxyXAIVideoExtensions :: client_op where
  "send_ProxyXAIVideoExtensions =
     \<lparr>co_name = ''ProxyXAIVideoExtensions'', co_id = ''proxyXAIVideoExtensions'', co_method = ''POST'', co_route = ''/v1/videos/extensions'',
      co_path = [Lit ''/v1/videos/extensions''],
      co_query = None, co_request = None,
      co_security = (Some ([(BearerApiKey, 0)], [1])), co_response = decode_ProxyXAIVideoExtensionsResponse\<rparr>"

definition handle_ProxyXAIVideoGenerations :: server_op where
  "handle_ProxyXAIVideoGenerations =
     \<lparr>so_name = ''ProxyXAIVideoGenerations'', so_id = ''proxyXAIVideoGenerations'', so_method = ''POST'', so_route = ''/v1/videos/generations'',
      so_security = (Some ([(BearerApiKey, 0)], [1])), so_params = None,
      so_request = None, so_response = encode_ProxyXAIVideoGenerationsResponse\<rparr>"

definition send_ProxyXAIVideoGenerations :: client_op where
  "send_ProxyXAIVideoGenerations =
     \<lparr>co_name = ''ProxyXAIVideoGenerations'', co_id = ''proxyXAIVideoGenerations'', co_method = ''POST'', co_route = ''/v1/videos/generations'',
      co_path = [Lit ''/v1/videos/generations''],
      co_query = None, co_request = None,
      co_security = (Some ([(BearerApiKey, 0)], [1])), co_response = decode_ProxyXAIVideoGenerationsResponse\<rparr>"

definition handle_ProxyXAIVideoRetrieve :: server_op where
  "handle_ProxyXAIVideoRetrieve =
     \<lparr>so_name = ''ProxyXAIVideoRetrieve'', so_id = ''proxyXAIVideoRetrieve'', so_method = ''GET'', so_route = ''/v1/videos/{request_id}'',
      so_security = (Some ([(BearerApiKey, 0)], [1])), so_params = (Some params_ProxyXAIVideoRetrieve),
      so_request = None, so_response = encode_ProxyXAIVideoRetrieveResponse\<rparr>"

definition send_ProxyXAIVideoRetrieve :: client_op where
  "send_ProxyXAIVideoRetrieve =
     \<lparr>co_name = ''ProxyXAIVideoRetrieve'', co_id = ''proxyXAIVideoRetrieve'', co_method = ''GET'', co_route = ''/v1/videos/{request_id}'',
      co_path = [Lit ''/v1/videos/'', Path_par ''request_id'' ''RequestID'' Pt_string],
      co_query = None, co_request = None,
      co_security = (Some ([(BearerApiKey, 0)], [1])), co_response = decode_ProxyXAIVideoRetrieveResponse\<rparr>"

definition handle_ProxyXAIVideos :: server_op where
  "handle_ProxyXAIVideos =
     \<lparr>so_name = ''ProxyXAIVideos'', so_id = ''proxyXAIVideos'', so_method = ''POST'', so_route = ''/v1/videos'',
      so_security = (Some ([(BearerApiKey, 0)], [1])), so_params = None,
      so_request = None, so_response = encode_ProxyXAIVideosResponse\<rparr>"

definition send_ProxyXAIVideos :: client_op where
  "send_ProxyXAIVideos =
     \<lparr>co_name = ''ProxyXAIVideos'', co_id = ''proxyXAIVideos'', co_method = ''POST'', co_route = ''/v1/videos'',
      co_path = [Lit ''/v1/videos''],
      co_query = None, co_request = None,
      co_security = (Some ([(BearerApiKey, 0)], [1])), co_response = decode_ProxyXAIVideosResponse\<rparr>"

definition handle_Readyz :: server_op where
  "handle_Readyz =
     \<lparr>so_name = ''Readyz'', so_id = ''readyz'', so_method = ''GET'', so_route = ''/readyz'',
      so_security = None, so_params = None,
      so_request = None, so_response = encode_ReadyzResponse\<rparr>"

definition send_Readyz :: client_op where
  "send_Readyz =
     \<lparr>co_name = ''Readyz'', co_id = ''readyz'', co_method = ''GET'', co_route = ''/readyz'',
      co_path = [Lit ''/readyz''],
      co_query = None, co_request = None,
      co_security = None, co_response = decode_ReadyzResponse\<rparr>"

definition handle_RevokeMyAPIKey :: server_op where
  "handle_RevokeMyAPIKey =
     \<lparr>so_name = ''RevokeMyAPIKey'', so_id = ''revokeMyAPIKey'', so_method = ''DELETE'', so_route = ''/api/v1/me/keys/{keyID}'',
      so_security = (Some ([(SessionCookie, 0)], [1])), so_params = (Some params_RevokeMyAPIKey),
      so_request = None, so_response = encode_RevokeMyAPIKeyResponse\<rparr>"

definition send_RevokeMyAPIKey :: client_op where
  "send_RevokeMyAPIKey =
     \<lparr>co_name = ''RevokeMyAPIKey'', co_id = ''revokeMyAPIKey'', co_method = ''DELETE'', co_route = ''/api/v1/me/keys/{keyID}'',
      co_path = [Lit ''/api/v1/me/keys/'', Path_par ''keyID'' ''KeyID'' Pt_int64],
      co_query = None, co_request = None,
      co_security = (Some ([(SessionCookie, 0)], [1])), co_response = decode_RevokeMyAPIKeyResponse\<rparr>"

definition handle_SetUserStatus :: server_op where
  "handle_SetUserStatus =
     \<lparr>so_name = ''SetUserStatus'', so_id = ''setUserStatus'', so_method = ''PATCH'', so_route = ''/api/v1/admin/users/{userID}'',
      so_security = (Some ([(SessionCookie, 0)], [1])), so_params = (Some params_SetUserStatus),
      so_request = (Some decode_SetUserStatusRequest), so_response = encode_SetUserStatusResponse\<rparr>"

definition send_SetUserStatus :: client_op where
  "send_SetUserStatus =
     \<lparr>co_name = ''SetUserStatus'', co_id = ''setUserStatus'', co_method = ''PATCH'', co_route = ''/api/v1/admin/users/{userID}'',
      co_path = [Lit ''/api/v1/admin/users/'', Path_par ''userID'' ''UserID'' Pt_int64],
      co_query = None, co_request = (Some encode_SetUserStatusRequest),
      co_security = (Some ([(SessionCookie, 0)], [1])), co_response = decode_SetUserStatusResponse\<rparr>"

definition handle_TestUpstreamAccount :: server_op where
  "handle_TestUpstreamAccount =
     \<lparr>so_name = ''TestUpstreamAccount'', so_id = ''testUpstreamAccount'', so_method = ''POST'', so_route = ''/api/v1/admin/accounts/{accountID}/test'',
      so_security = (Some ([(SessionCookie, 0)], [1])), so_params = (Some params_TestUpstreamAccount),
      so_request = None, so_response = encode_TestUpstreamAccountResponse\<rparr>"

definition send_TestUpstreamAccount :: client_op where
  "send_TestUpstreamAccount =
     \<lparr>co_name = ''TestUpstreamAccount'', co_id = ''testUpstreamAccount'', co_method = ''POST'', co_route = ''/api/v1/admin/accounts/{accountID}/test'',
      co_path = [Lit ''/api/v1/admin/accounts/'', Path_par ''accountID'' ''AccountID'' Pt_string, Lit ''/test''],
      co_query = None, co_request = None,
      co_security = (Some ([(SessionCookie, 0)], [1])), co_response = decode_TestUpstreamAccountResponse\<rparr>"

definition handle_UpsertModelOverride :: server_op where
  "handle_UpsertModelOverride =
     \<lparr>so_name = ''UpsertModelOverride'', so_id = ''upsertModelOverride'', so_method = ''PUT'', so_route = ''/api/v1/admin/models/{modelAlias}'',
      so_security = (Some ([(SessionCookie, 0)], [1])), so_params = (Some params_UpsertModelOverride),
      so_request = (Some decode_UpsertModelOverrideRequest), so_response = encode_UpsertModelOverrideResponse\<rparr>"

definition send_UpsertModelOverride :: client_op where
  "send_UpsertModelOverride =
     \<lparr>co_name = ''UpsertModelOverride'', co_id = ''upsertModelOverride'', co_method = ''PUT'', co_route = ''/api/v1/admin/models/{modelAlias}'',
      co_path = [Lit ''/api/v1/admin/models/'', Path_par ''modelAlias'' ''ModelAlias'' Pt_string],
      co_query = None, co_request = (Some encode_UpsertModelOverrideRequest),
      co_security = (Some ([(SessionCookie, 0)], [1])), co_response = decode_UpsertModelOverrideResponse\<rparr>"

section \<open>All operations\<close>

definition operations :: "(server_op \<times> client_op) list" where
  "operations =
    [(handle_CancelOAuthSession, send_CancelOAuthSession), (handle_CreateMyAPIKey, send_CreateMyAPIKey),
     (handle_CreateProviderAPIKeys, send_CreateProviderAPIKeys), (handle_DeleteModelOverride, send_DeleteModelOverride),
     (handle_Docs, send_Docs), (handle_ExportOAuthCredential, send_ExportOAuthCredential), (handle_GetCurrentUser, send_GetCurrentUser),
     (handle_GetMyUsage, send_GetMyUsage), (handle_GetOAuthSession, send_GetOAuthSession),
     (handle_GetUpstreamAccountQuota, send_GetUpstreamAccountQuota), (handle_Healthz, send_Healthz),
     (handle_ImportOAuthCredential, send_ImportOAuthCredential), (handle_ListAllAPIKeys, send_ListAllAPIKeys),
     (handle_ListModelOverrides, send_ListModelOverrides), (handle_ListMyAPIKeys, send_ListMyAPIKeys),
     (handle_ListPendingOAuthSessions, send_ListPendingOAuthSessions), (handle_ListUsers, send_ListUsers), (handle_Login, send_Login),
     (handle_Logout, send_Logout), (handle_Metrics, send_Metrics), (handle_OpenapiJson, send_OpenapiJson),
     (handle_ProxyAlphaSearch, send_ProxyAlphaSearch), (handle_ProxyChatCompletions, send_ProxyChatCompletions),
     (handle_ProxyCodexAlphaSearch, send_ProxyCodexAlphaSearch), (handle_ProxyCodexResponses, send_ProxyCodexResponses),
     (handle_ProxyCodexResponsesCompact, send_ProxyCodexResponsesCompact),
     (handle_ProxyCodexResponsesWebsocket, send_ProxyCodexResponsesWebsocket), (handle_ProxyCompletions, send_ProxyCompletions),
     (handle_ProxyGeminiInteractions, send_ProxyGeminiInteractions), (handle_ProxyGeminiModelActionGet, send_ProxyGeminiModelActionGet),
     (handle_ProxyGeminiModelActionPost, send_ProxyGeminiModelActionPost), (handle_ProxyGeminiModels, send_ProxyGeminiModels),
     (handle_ProxyImageEdits, send_ProxyImageEdits), (handle_ProxyImageGenerations, send_ProxyImageGenerations),
     (handle_ProxyMessages, send_ProxyMessages), (handle_ProxyMessagesCountTokens, send_ProxyMessagesCountTokens),
     (handle_ProxyModels, send_ProxyModels), (handle_ProxyOpenAIVideosContent, send_ProxyOpenAIVideosContent),
     (handle_ProxyOpenAIVideosCreate, send_ProxyOpenAIVideosCreate), (handle_ProxyOpenAIVideosRetrieve, send_ProxyOpenAIVideosRetrieve),
     (handle_ProxyResponses, send_ProxyResponses), (handle_ProxyResponsesCompact, send_ProxyResponsesCompact),
     (handle_ProxyResponsesWebsocket, send_ProxyResponsesWebsocket), (handle_ProxyXAIVideoEdits, send_ProxyXAIVideoEdits),
     (handle_ProxyXAIVideoExtensions, send_ProxyXAIVideoExtensions), (handle_ProxyXAIVideoGenerations, send_ProxyXAIVideoGenerations),
     (handle_ProxyXAIVideoRetrieve, send_ProxyXAIVideoRetrieve), (handle_ProxyXAIVideos, send_ProxyXAIVideos),
     (handle_Readyz, send_Readyz), (handle_RevokeMyAPIKey, send_RevokeMyAPIKey), (handle_SetUserStatus, send_SetUserStatus),
     (handle_TestUpstreamAccount, send_TestUpstreamAccount), (handle_UpsertModelOverride, send_UpsertModelOverride)]"

subsection \<open>The two sides agree\<close>

lemma error_types_wf: "list_all wf_codec error_types"
  using generated_type_wf by (auto simp: list_all_iff)

lemmas type_wf = document_types_wf [unfolded document_types_def, simplified] error_types_wf [unfolded error_types_def, simplified]

lemma media_types:
  "ParseMediaType ''application/json; charset=utf-8'' = Some ''application/json''"
  "ParseMediaType ''text/plain; charset=utf-8'' = Some ''text/plain''"
  "ParseMediaType ''text/html; charset=utf-8'' = Some ''text/html''"
  by code_simp+

lemmas agree_simps = op_agree_def responses_agree_def params_agree_def requests_agree_def single_scheme_def is_path_def param_sig_def type_wf media_types

lemmas operation_defs = encode_CancelOAuthSessionResponse_def encode_CreateMyAPIKeyResponse_def encode_CreateProviderAPIKeysResponse_def
  encode_DeleteModelOverrideResponse_def encode_DocsResponse_def encode_ExportOAuthCredentialResponse_def encode_GetCurrentUserResponse_def
  encode_GetMyUsageResponse_def encode_GetOAuthSessionResponse_def encode_GetUpstreamAccountQuotaResponse_def encode_HealthzResponse_def
  encode_ImportOAuthCredentialResponse_def encode_ListAllAPIKeysResponse_def encode_ListModelOverridesResponse_def
  encode_ListMyAPIKeysResponse_def encode_ListPendingOAuthSessionsResponse_def encode_ListUsersResponse_def encode_LoginResponse_def
  encode_LogoutResponse_def encode_MetricsResponse_def encode_OpenapiJsonResponse_def encode_ProxyAlphaSearchResponse_def
  encode_ProxyChatCompletionsResponse_def encode_ProxyCodexAlphaSearchResponse_def encode_ProxyCodexResponsesResponse_def
  encode_ProxyCodexResponsesCompactResponse_def encode_ProxyCodexResponsesWebsocketResponse_def encode_ProxyCompletionsResponse_def
  encode_ProxyGeminiInteractionsResponse_def encode_ProxyGeminiModelActionGetResponse_def encode_ProxyGeminiModelActionPostResponse_def
  encode_ProxyGeminiModelsResponse_def encode_ProxyImageEditsResponse_def encode_ProxyImageGenerationsResponse_def
  encode_ProxyMessagesResponse_def encode_ProxyMessagesCountTokensResponse_def encode_ProxyModelsResponse_def
  encode_ProxyOpenAIVideosContentResponse_def encode_ProxyOpenAIVideosCreateResponse_def encode_ProxyOpenAIVideosRetrieveResponse_def
  encode_ProxyResponsesResponse_def encode_ProxyResponsesCompactResponse_def encode_ProxyResponsesWebsocketResponse_def
  encode_ProxyXAIVideoEditsResponse_def encode_ProxyXAIVideoExtensionsResponse_def encode_ProxyXAIVideoGenerationsResponse_def
  encode_ProxyXAIVideoRetrieveResponse_def encode_ProxyXAIVideosResponse_def encode_ReadyzResponse_def encode_RevokeMyAPIKeyResponse_def
  encode_SetUserStatusResponse_def encode_TestUpstreamAccountResponse_def encode_UpsertModelOverrideResponse_def
  decode_CancelOAuthSessionResponse_def decode_CreateMyAPIKeyResponse_def decode_CreateProviderAPIKeysResponse_def
  decode_DeleteModelOverrideResponse_def decode_DocsResponse_def decode_ExportOAuthCredentialResponse_def decode_GetCurrentUserResponse_def
  decode_GetMyUsageResponse_def decode_GetOAuthSessionResponse_def decode_GetUpstreamAccountQuotaResponse_def decode_HealthzResponse_def
  decode_ImportOAuthCredentialResponse_def decode_ListAllAPIKeysResponse_def decode_ListModelOverridesResponse_def
  decode_ListMyAPIKeysResponse_def decode_ListPendingOAuthSessionsResponse_def decode_ListUsersResponse_def decode_LoginResponse_def
  decode_LogoutResponse_def decode_MetricsResponse_def decode_OpenapiJsonResponse_def decode_ProxyAlphaSearchResponse_def
  decode_ProxyChatCompletionsResponse_def decode_ProxyCodexAlphaSearchResponse_def decode_ProxyCodexResponsesResponse_def
  decode_ProxyCodexResponsesCompactResponse_def decode_ProxyCodexResponsesWebsocketResponse_def decode_ProxyCompletionsResponse_def
  decode_ProxyGeminiInteractionsResponse_def decode_ProxyGeminiModelActionGetResponse_def decode_ProxyGeminiModelActionPostResponse_def
  decode_ProxyGeminiModelsResponse_def decode_ProxyImageEditsResponse_def decode_ProxyImageGenerationsResponse_def
  decode_ProxyMessagesResponse_def decode_ProxyMessagesCountTokensResponse_def decode_ProxyModelsResponse_def
  decode_ProxyOpenAIVideosContentResponse_def decode_ProxyOpenAIVideosCreateResponse_def decode_ProxyOpenAIVideosRetrieveResponse_def
  decode_ProxyResponsesResponse_def decode_ProxyResponsesCompactResponse_def decode_ProxyResponsesWebsocketResponse_def
  decode_ProxyXAIVideoEditsResponse_def decode_ProxyXAIVideoExtensionsResponse_def decode_ProxyXAIVideoGenerationsResponse_def
  decode_ProxyXAIVideoRetrieveResponse_def decode_ProxyXAIVideosResponse_def decode_ReadyzResponse_def decode_RevokeMyAPIKeyResponse_def
  decode_SetUserStatusResponse_def decode_TestUpstreamAccountResponse_def decode_UpsertModelOverrideResponse_def
  params_CancelOAuthSession_def params_DeleteModelOverride_def params_ExportOAuthCredential_def params_GetMyUsage_def
  params_GetOAuthSession_def params_GetUpstreamAccountQuota_def params_ProxyGeminiModelActionGet_def params_ProxyGeminiModelActionPost_def
  params_ProxyOpenAIVideosContent_def params_ProxyOpenAIVideosRetrieve_def params_ProxyXAIVideoRetrieve_def params_RevokeMyAPIKey_def
  params_SetUserStatus_def params_TestUpstreamAccount_def params_UpsertModelOverride_def decode_CreateMyAPIKeyRequest_def
  decode_CreateProviderAPIKeysRequest_def decode_ImportOAuthCredentialRequest_def decode_LoginRequest_def decode_SetUserStatusRequest_def
  decode_UpsertModelOverrideRequest_def encode_CreateMyAPIKeyRequest_def encode_CreateProviderAPIKeysRequest_def
  encode_ImportOAuthCredentialRequest_def encode_LoginRequest_def encode_SetUserStatusRequest_def encode_UpsertModelOverrideRequest_def
  handle_CancelOAuthSession_def handle_CreateMyAPIKey_def handle_CreateProviderAPIKeys_def handle_DeleteModelOverride_def handle_Docs_def
  handle_ExportOAuthCredential_def handle_GetCurrentUser_def handle_GetMyUsage_def handle_GetOAuthSession_def
  handle_GetUpstreamAccountQuota_def handle_Healthz_def handle_ImportOAuthCredential_def handle_ListAllAPIKeys_def
  handle_ListModelOverrides_def handle_ListMyAPIKeys_def handle_ListPendingOAuthSessions_def handle_ListUsers_def handle_Login_def
  handle_Logout_def handle_Metrics_def handle_OpenapiJson_def handle_ProxyAlphaSearch_def handle_ProxyChatCompletions_def
  handle_ProxyCodexAlphaSearch_def handle_ProxyCodexResponses_def handle_ProxyCodexResponsesCompact_def
  handle_ProxyCodexResponsesWebsocket_def handle_ProxyCompletions_def handle_ProxyGeminiInteractions_def handle_ProxyGeminiModelActionGet_def
  handle_ProxyGeminiModelActionPost_def handle_ProxyGeminiModels_def handle_ProxyImageEdits_def handle_ProxyImageGenerations_def
  handle_ProxyMessages_def handle_ProxyMessagesCountTokens_def handle_ProxyModels_def handle_ProxyOpenAIVideosContent_def
  handle_ProxyOpenAIVideosCreate_def handle_ProxyOpenAIVideosRetrieve_def handle_ProxyResponses_def handle_ProxyResponsesCompact_def
  handle_ProxyResponsesWebsocket_def handle_ProxyXAIVideoEdits_def handle_ProxyXAIVideoExtensions_def handle_ProxyXAIVideoGenerations_def
  handle_ProxyXAIVideoRetrieve_def handle_ProxyXAIVideos_def handle_Readyz_def handle_RevokeMyAPIKey_def handle_SetUserStatus_def
  handle_TestUpstreamAccount_def handle_UpsertModelOverride_def send_CancelOAuthSession_def send_CreateMyAPIKey_def
  send_CreateProviderAPIKeys_def send_DeleteModelOverride_def send_Docs_def send_ExportOAuthCredential_def send_GetCurrentUser_def
  send_GetMyUsage_def send_GetOAuthSession_def send_GetUpstreamAccountQuota_def send_Healthz_def send_ImportOAuthCredential_def
  send_ListAllAPIKeys_def send_ListModelOverrides_def send_ListMyAPIKeys_def send_ListPendingOAuthSessions_def send_ListUsers_def
  send_Login_def send_Logout_def send_Metrics_def send_OpenapiJson_def send_ProxyAlphaSearch_def send_ProxyChatCompletions_def
  send_ProxyCodexAlphaSearch_def send_ProxyCodexResponses_def send_ProxyCodexResponsesCompact_def send_ProxyCodexResponsesWebsocket_def
  send_ProxyCompletions_def send_ProxyGeminiInteractions_def send_ProxyGeminiModelActionGet_def send_ProxyGeminiModelActionPost_def
  send_ProxyGeminiModels_def send_ProxyImageEdits_def send_ProxyImageGenerations_def send_ProxyMessages_def send_ProxyMessagesCountTokens_def
  send_ProxyModels_def send_ProxyOpenAIVideosContent_def send_ProxyOpenAIVideosCreate_def send_ProxyOpenAIVideosRetrieve_def
  send_ProxyResponses_def send_ProxyResponsesCompact_def send_ProxyResponsesWebsocket_def send_ProxyXAIVideoEdits_def
  send_ProxyXAIVideoExtensions_def send_ProxyXAIVideoGenerations_def send_ProxyXAIVideoRetrieve_def send_ProxyXAIVideos_def send_Readyz_def
  send_RevokeMyAPIKey_def send_SetUserStatus_def send_TestUpstreamAccount_def send_UpsertModelOverride_def

lemma operations_agree: "list_all (\<lambda>(s, c). op_agree s c) operations"
  unfolding operations_def by (simp add: operation_defs agree_simps)

subsection \<open>Names and routes\<close>

definition operation_row :: "server_op \<times> client_op \<Rightarrow> string \<times> string \<times> string \<times> nat" where
  "operation_row sc = (so_name (fst sc), so_method (fst sc), so_route (fst sc), length (path_pars (co_path (snd sc))))"

definition route_row :: "string \<times> Route \<Rightarrow> string \<times> string \<times> string \<times> nat" where
  "route_row mr = (ro_name (snd mr), fst mr, ro_pathPattern (snd mr), ro_count (snd mr))"

definition operation_rows :: "(string \<times> string \<times> string \<times> nat) list" where
  "operation_rows =
    [(''CancelOAuthSession'', ''DELETE'', ''/api/v1/admin/oauth/sessions/{state}'', 1),
     (''CreateMyAPIKey'', ''POST'', ''/api/v1/me/keys'', 0),
     (''CreateProviderAPIKeys'', ''POST'', ''/api/v1/admin/providers/keys'', 0),
     (''DeleteModelOverride'', ''DELETE'', ''/api/v1/admin/models/{modelAlias}'', 1),
     (''Docs'', ''GET'', ''/docs'', 0),
     (''ExportOAuthCredential'', ''GET'', ''/api/v1/admin/oauth/accounts/{accountID}/export'', 1),
     (''GetCurrentUser'', ''GET'', ''/api/v1/me'', 0),
     (''GetMyUsage'', ''GET'', ''/api/v1/me/usage'', 0),
     (''GetOAuthSession'', ''GET'', ''/api/v1/admin/oauth/sessions/{state}'', 1),
     (''GetUpstreamAccountQuota'', ''GET'', ''/api/v1/admin/accounts/{accountID}/quota'', 1),
     (''Healthz'', ''GET'', ''/healthz'', 0),
     (''ImportOAuthCredential'', ''POST'', ''/api/v1/admin/oauth/import'', 0),
     (''ListAllAPIKeys'', ''GET'', ''/api/v1/admin/keys'', 0),
     (''ListModelOverrides'', ''GET'', ''/api/v1/admin/models'', 0),
     (''ListMyAPIKeys'', ''GET'', ''/api/v1/me/keys'', 0),
     (''ListPendingOAuthSessions'', ''GET'', ''/api/v1/admin/oauth/sessions'', 0),
     (''ListUsers'', ''GET'', ''/api/v1/admin/users'', 0),
     (''Login'', ''POST'', ''/api/v1/login'', 0),
     (''Logout'', ''POST'', ''/api/v1/logout'', 0),
     (''Metrics'', ''GET'', ''/metrics'', 0),
     (''OpenapiJson'', ''GET'', ''/openapi.json'', 0),
     (''ProxyAlphaSearch'', ''POST'', ''/v1/alpha/search'', 0),
     (''ProxyChatCompletions'', ''POST'', ''/v1/chat/completions'', 0),
     (''ProxyCodexAlphaSearch'', ''POST'', ''/backend-api/codex/alpha/search'', 0),
     (''ProxyCodexResponses'', ''POST'', ''/backend-api/codex/responses'', 0),
     (''ProxyCodexResponsesCompact'', ''POST'', ''/backend-api/codex/responses/compact'', 0),
     (''ProxyCodexResponsesWebsocket'', ''GET'', ''/backend-api/codex/responses'', 0),
     (''ProxyCompletions'', ''POST'', ''/v1/completions'', 0),
     (''ProxyGeminiInteractions'', ''POST'', ''/v1beta/interactions'', 0),
     (''ProxyGeminiModelActionGet'', ''GET'', ''/v1beta/models/{model}:{action}'', 2),
     (''ProxyGeminiModelActionPost'', ''POST'', ''/v1beta/models/{model}:{action}'', 2),
     (''ProxyGeminiModels'', ''GET'', ''/v1beta/models'', 0),
     (''ProxyImageEdits'', ''POST'', ''/v1/images/edits'', 0),
     (''ProxyImageGenerations'', ''POST'', ''/v1/images/generations'', 0),
     (''ProxyMessages'', ''POST'', ''/v1/messages'', 0),
     (''ProxyMessagesCountTokens'', ''POST'', ''/v1/messages/count_tokens'', 0),
     (''ProxyModels'', ''GET'', ''/v1/models'', 0),
     (''ProxyOpenAIVideosContent'', ''GET'', ''/openai/v1/videos/{video_id}/content'', 1),
     (''ProxyOpenAIVideosCreate'', ''POST'', ''/openai/v1/videos'', 0),
     (''ProxyOpenAIVideosRetrieve'', ''GET'', ''/openai/v1/videos/{video_id}'', 1),
     (''ProxyResponses'', ''POST'', ''/v1/responses'', 0),
     (''ProxyResponsesCompact'', ''POST'', ''/v1/responses/compact'', 0),
     (''ProxyResponsesWebsocket'', ''GET'', ''/v1/responses'', 0),
     (''ProxyXAIVideoEdits'', ''POST'', ''/v1/videos/edits'', 0),
     (''ProxyXAIVideoExtensions'', ''POST'', ''/v1/videos/extensions'', 0),
     (''ProxyXAIVideoGenerations'', ''POST'', ''/v1/videos/generations'', 0),
     (''ProxyXAIVideoRetrieve'', ''GET'', ''/v1/videos/{request_id}'', 1),
     (''ProxyXAIVideos'', ''POST'', ''/v1/videos'', 0),
     (''Readyz'', ''GET'', ''/readyz'', 0),
     (''RevokeMyAPIKey'', ''DELETE'', ''/api/v1/me/keys/{keyID}'', 1),
     (''SetUserStatus'', ''PATCH'', ''/api/v1/admin/users/{userID}'', 1),
     (''TestUpstreamAccount'', ''POST'', ''/api/v1/admin/accounts/{accountID}/test'', 1),
     (''UpsertModelOverride'', ''PUT'', ''/api/v1/admin/models/{modelAlias}'', 1)]"

lemma operations_rows: "map operation_row operations = operation_rows"
  by (simp add: operations_def operation_defs operation_row_def operation_rows_def)

lemma rows_distinct: "distinct (map fst operation_rows)"
  by code_simp

lemma rows_documented: "set operation_rows \<subseteq> set (map route_row document_routes)"
  by code_simp

lemma operation_found:
  assumes "(s, c) \<in> set operations"
  shows "find (\<lambda>op. so_name op = so_name s) (map fst operations) = Some s"
proof -
  have "map so_name (map fst operations) = map fst operation_rows"
    unfolding operations_rows [symmetric] by (simp add: operation_row_def)
  then have "distinct (map so_name (map fst operations))" using rows_distinct by simp
  moreover have "s \<in> set (map fst operations)" using assms by force
  ultimately show ?thesis by (rule find_distinct)
qed

lemma operation_routed:
  assumes "(s, c) \<in> set operations"
  obtains r where "(so_method s, r) \<in> set document_routes" "ro_name r = so_name s" "ro_pathPattern r = so_route s"
    "ro_count r = length (path_pars (co_path c))"
proof -
  have "operation_row (s, c) \<in> set (map route_row document_routes)"
    using assms rows_documented unfolding operations_rows [symmetric] by auto
  then obtain m r where "(m, r) \<in> set document_routes" "operation_row (s, c) = route_row (m, r)" by auto
  then show thesis by (intro that [of r]) (auto simp: operation_row_def route_row_def)
qed

lemma operation_dispatched:
  assumes "(s, c) \<in> set operations" and "so_name s \<noteq> ''ProxyXAIVideoRetrieve''"
    and "length vals = length (path_pars (co_path c))" and "plain_values vals"
  shows "ServeHTTP canon [] (so_method s) \<lparr>url_Path = fill vals (pattern_toks 0 (so_route s)), url_RawPath = []\<rparr> = Dispatch (so_name s) vals False"
proof -
  obtain r where r: "(so_method s, r) \<in> set document_routes" "ro_name r = so_name s" "ro_pathPattern r = so_route s"
    "ro_count r = length (path_pars (co_path c))" using operation_routed [OF assms(1)] .
  have "FindRoute canon Some [] (so_method s) (fill vals (pattern_toks 0 (so_route s))) = Some (r, vals)"
    using documented_paths_are_routed [OF r(1), of vals canon Some] assms(2-4) r by simp
  then show ?thesis using find_route_agrees_with_serve [of canon Some "[]" "so_method s" _ vals "so_name s"] r(2) by auto
qed

end
