(* ===== verification/Openapi_Calls.thy ===== *)
theory Openapi_Calls
  imports Openapi_Operations
begin

text \<open>
  What the generated code of \<^verbatim>\<open>internal/openapi/ogen\<close> guarantees as a whole: values of the document survive JSON, a call through client, router and
  server is a call of the operation, only documented values of enumerations pass, and no protected operation runs without a credential.
\<close>

section \<open>JSON\<close>


text \<open>Formats and checks for examples.\<close>

definition plain_formats :: formats where
  "plain_formats = \<lparr>dt_format = FormatInt, dt_parse = (\<lambda>s. if s = ''7'' then Some 7 else None), uri_format = id, uri_parse = Some,
     fl_format = JInt, fl_parse = (\<lambda>j. case j of JInt i \<Rightarrow> Some i | _ \<Rightarrow> None)\<rparr>"

definition plain_checks :: checks where
  "plain_checks = \<lparr>v_String = (\<lambda>n s. n \<le> length s), v_Int = (\<lambda>lo hi i. (case lo of None \<Rightarrow> True | Some m \<Rightarrow> m \<le> i) \<and> (case hi of None \<Rightarrow> True | Some m \<Rightarrow> i \<le> m)),
     v_Float = (\<lambda>f. True), v_Array = (\<lambda>(lo, hi) n. lo \<le> n \<and> n \<le> hi)\<rparr>"


text \<open>
  C12. A JSON object is accepted exactly if every field that it has is of its type and no required field is absent, and the
  error names what is missing: for every object type of the document, if all members that the type knows can be decoded, the decoder
  returns a struct if no required field is absent, and otherwise the list of exactly the absent required fields, in the order of the
  document; if some member cannot be decoded, that error is returned.
\<close>

theorem generated_objects_report_missing_fields:
  assumes "CObj n es ds ns masks \<in> set document_types"
  shows "if list_all (member_ok F ds) ms
    then if absent ds ms = [] then \<exists>fs. decode F (CObj n es ds ns masks) (JObj ms) = Inr (VStruct fs)
         else decode F (CObj n es ds ns masks) (JObj ms) = Inl (Missing (absent ds ms))
    else \<exists>e. decode F (CObj n es ds ns masks) (JObj ms) = Inl (In_type n e)"
  using generated_type_wf [of "CObj n es ds ns masks"] assms by (intro decode_object) simp

theorem generated_objects_report_missing_fields_witness:
  "decode plain_formats json_LoginRequest (JObj [Member ''other'' JNull, Member ''password'' (JStr ''p'')]) = Inl (Missing [''username''])"
proof -
  obtain n es ds ns masks where c: "json_LoginRequest = CObj n es ds ns masks" by (simp add: json_LoginRequest_def)
  have m: "CObj n es ds ns masks \<in> set document_types" unfolding c [symmetric] by (simp add: document_types_def)
  let ?ms = "[Member ''other'' JNull, Member ''password'' (JStr ''p'')]"
  have ds: "ds = [DField ''password'' (Some (0, 0)) ''Password'' CStr, DField ''username'' (Some (0, 1)) ''Username'' CStr]"
    using c by (simp add: json_LoginRequest_def)
  have "list_all (member_ok plain_formats ds) ?ms" "absent ds ?ms = [''username'']" unfolding ds by code_simp+
  with generated_objects_report_missing_fields [OF m, of plain_formats ?ms] show ?thesis unfolding c by simp
qed

section \<open>A call through the generated code is a call of the operation\<close>


text \<open>Libraries, a server and a client for an example: an administrator blocks user 7.\<close>

definition plain_lib :: ogen_lib where
  "plain_lib =
     \<lparr>ol_text = (\<lambda>ty v. case v of VInt i \<Rightarrow> FormatInt i | VStr s \<Rightarrow> s | _ \<Rightarrow> []),
      ol_value = (\<lambda>ty t. if ty = Pt_int64 then if t = ''7'' then Some (VInt 7) else None else Some (VStr t)),
      ol_path_encode = Some, ol_path_decode = Some, ol_query_encode = Some, ol_query_decode = Some, ol_header_encode = Some, ol_header_decode = Some,
      ol_add_path = (\<lambda>u parts. \<lparr>url_Path = url_Path u @ concat parts, url_RawPath = []\<rparr>), ol_unescape = Some, ol_request_ok = (\<lambda>m u. True),
      ol_length = (\<lambda>b. if b = Wb_bytes [] then 0 else -1), ol_write_file = Some, ol_boundary = ''b'', ol_open_file = (\<lambda>f. True), ol_close_files = (\<lambda>r. True)\<rparr>"

definition example_server :: "int ogen_server" where
  "example_server =
     \<lparr>os_context = (\<lambda>r. 0), os_bearer = (\<lambda>ctx name t. Inl (Refused ''no'')), os_cookie = (\<lambda>ctx name t. if t = ''s3cret'' then Inr 1 else Inl (Refused ''no'')),
      os_operation = (\<lambda>ctx name params request. if ctx = 1 \<and> params = [(''UserID'', VInt 7)] then Inr (Gres ''SetUserStatusNoContent'' No_payload None) else Inl ''no''),
      os_middleware = None, os_error = (\<lambda>ctx e. \<lparr>ws_status = 500, ws_header = [], ws_body = Wb_bytes []\<rparr>),
      os_not_found = (\<lambda>r. \<lparr>ws_status = 404, ws_header = [], ws_body = Wb_bytes []\<rparr>), os_not_allowed = (\<lambda>r l. \<lparr>ws_status = 405, ws_header = [], ws_body = Wb_bytes []\<rparr>),
      os_write_ok = (\<lambda>r. True)\<rparr>"

definition example_client :: ogen_client where
  "example_client =
     \<lparr>oc_url = \<lparr>url_Path = [], url_RawPath = []\<rparr>, oc_bearer = (\<lambda>name. Inl Skip_security), oc_cookie = (\<lambda>name. Inr ''s3cret''),
      oc_do = (\<lambda>r. Some (serve_request Some (map fst operations) plain_lib plain_formats plain_checks example_server r))\<rparr>"


section \<open>Enumerations\<close>

text \<open>The checks that the generated code runs after decoding reach every enumeration of the types; types without checks have none.\<close>

lemma checked_types_guarded:
  "list_all (\<lambda>(c, k). guards c k)
    [(json_APIKeyListResponse, validate_APIKeyListResponse), (json_AccountQuotaResponse, validate_AccountQuotaResponse),
     (json_AccountTestResponse, validate_AccountTestResponse), (json_AdminAPIKeyListResponse, validate_AdminAPIKeyListResponse),
     (json_AdminUserListResponse, validate_AdminUserListResponse), (json_CreateAPIKeyRequest, validate_CreateAPIKeyRequest),
     (json_CreateAPIKeyResponse, validate_CreateAPIKeyResponse), (json_CreateProviderKeysRequest, validate_CreateProviderKeysRequest),
     (json_CurrentUserResponse, validate_CurrentUserResponse), (json_LoginRequest, validate_LoginRequest),
     (json_LoginResponse, validate_LoginResponse), (json_ModelOverrideListResponse, validate_ModelOverrideListResponse),
     (json_OAuthSession, validate_OAuthSession), (json_OAuthSessionListResponse, validate_OAuthSessionListResponse),
     (json_ProviderAPIKeyListResponse, validate_ProviderAPIKeyListResponse), (json_SetUserStatusRequest, validate_SetUserStatusRequest),
     (json_UsageResponse, validate_UsageResponse)]"
  by code_simp

lemma unchecked_types_free:
  "list_all enum_free
    [json_Error, json_ImportedOAuthCredential, json_ModelOverride, json_OAuthCredential, json_OpenapiJsonOK,
     json_UpsertModelOverrideRequest]"
  by code_simp

lemma error_types_free: "list_all enum_free error_types"
proof -
  have "enum_free (CAlias json_Error)" by code_simp
  with error_type_alias show ?thesis by (auto simp: list_all_iff)
qed

lemmas guard_facts = checked_types_guarded [simplified] unchecked_types_free [simplified] error_types_free [unfolded error_types_def, simplified]

definition guarded :: "codec \<Rightarrow> check option \<Rightarrow> bool" where
  "guarded c ck = (case ck of None \<Rightarrow> enum_free c | Some k \<Rightarrow> guards c k)"

fun dec_guarded :: "dec_case \<Rightarrow> bool" where
  "dec_guarded (Dec_case _ _ _ _ (Dec_json c ck)) = guarded c ck"
| "dec_guarded _ = True"

fun req_guarded :: "req_case \<Rightarrow> bool" where
  "req_guarded (Rq_json _ c ck) = guarded c ck"
| "req_guarded _ = True"

lemma operations_guarded:
  "list_all (\<lambda>(s, c). list_all dec_guarded (co_response c) \<and> (case so_request s of None \<Rightarrow> True | Some rs \<Rightarrow> list_all req_guarded rs)) operations"
  unfolding operations_def by (simp add: operation_defs guarded_def guard_facts)

lemma read_json_enums:
  assumes "guarded c ck" and "read_json F K c ck b = Inr v"
  shows "enums_ok c v"
  using assms by (auto simp: read_json_def guarded_def enum_free_ok split: wire_body.splits sum.splits option.splits intro: guards_sound(1))

lemma map_sum_Inr_iff: "map_sum f g x = Inr y \<longleftrightarrow> (\<exists>z. x = Inr z \<and> y = g z)"
  by (cases x) auto

text \<open>
  C11. Only documented values of enumerations pass the generated code, in both directions: if the server hands the JSON request of an operation
  to its implementation, or the client returns a JSON response to its caller, then every enumeration in it, at any depth, has one of
  the constants of its type. (The decoders alone accept any string; it is the validation after them that is complete.)
\<close>

theorem only_documented_constants_pass:
  assumes "(s, c) \<in> set operations"
  shows "(\<forall>w t v h. decode_response L F K (co_response c) w = Inr (Gres t (Value v) h) \<longrightarrow>
      (\<exists>status ctype hdr codec ck. Dec_case status ctype t hdr (Dec_json codec ck) \<in> set (co_response c) \<and> enums_ok codec v)) \<and>
    (\<forall>rs r t v files. so_request s = Some rs \<longrightarrow> decode_request L F K rs r = Inr (Greq t v, files) \<longrightarrow>
      (\<exists>codec ck. Rq_json t codec ck \<in> set rs \<and> enums_ok codec v))"
proof (intro conjI allI impI)
  fix w t v h assume "decode_response L F K (co_response c) w = Inr (Gres t (Value v) h)"
  then obtain d where d: "d \<in> set (co_response c)" "decode_response_case L F K d w = Inr (Gres t (Value v) h)"
    by (auto simp: decode_response_def dest: find_Some_set split: option.splits)
  obtain status ctype t' hdr b where dd: "d = Dec_case status ctype t' hdr b" by (cases d)
  from d(2) dd obtain codec ck where c: "b = Dec_json codec ck" "read_json F K codec ck (ws_body w) = Inr v" "t' = t"
    by (cases b) (auto simp: map_sum_Inr_iff split: sum.splits if_splits option.splits)
  have "guarded codec ck" using operations_guarded assms d(1) dd c(1) by (fastforce simp: list_all_iff)
  with read_json_enums [OF _ c(2)] d(1) dd c(1,3)
  show "\<exists>status ctype hdr codec ck. Dec_case status ctype t hdr (Dec_json codec ck) \<in> set (co_response c) \<and> enums_ok codec v" by blast
next
  fix rs r t v files assume rs: "so_request s = Some rs" and dec: "decode_request L F K rs r = Inr (Greq t v, files)"
  have as: "decode_request_as L F K cs ct r = Inr (Greq t v, files) \<Longrightarrow> \<exists>codec ck. Rq_json t codec ck \<in> set cs \<and> read_json F K codec ck (wq_body r) = Inr v" for cs ct
  proof (induction cs)
    case (Cons x cs)
    then show ?case
      by (cases x) (auto simp: decode_json_request_def decode_file_request_def map_sum_Inr_iff split: if_splits sum.splits wire_body.splits option.splits list.splits)
  qed simp
  from dec as obtain codec ck where c: "Rq_json t codec ck \<in> set rs" "read_json F K codec ck (wq_body r) = Inr v"
    by (auto simp: decode_request_def split: option.splits)
  have "guarded codec ck" using operations_guarded assms rs c(1) by (fastforce simp: list_all_iff)
  with read_json_enums [OF _ c(2)] c(1) show "\<exists>codec ck. Rq_json t codec ck \<in> set rs \<and> enums_ok codec v" by blast
qed

theorem only_documented_constants_pass_witness:
  "decode_response plain_lib plain_formats plain_checks (co_response send_GetCurrentUser)
     \<lparr>ws_status = 200, ws_header = [(''Content-Type'', ''application/json'')], ws_body = Wb_json (JObj [Member ''role'' (JStr ''admin''), Member ''user_id'' (JInt 3)])\<rparr> =
     Inr (Gres ''CurrentUserResponse'' (Value (VStruct [(''Role'', VStr ''admin''), (''UserID'', VInt 3)])) None) \<and>
   (\<exists>status ctype hdr codec ck. Dec_case status ctype ''CurrentUserResponse'' hdr (Dec_json codec ck) \<in> set (co_response send_GetCurrentUser) \<and>
      enums_ok codec (VStruct [(''Role'', VStr ''admin''), (''UserID'', VInt 3)]))"
proof
  show d: "decode_response plain_lib plain_formats plain_checks (co_response send_GetCurrentUser)
     \<lparr>ws_status = 200, ws_header = [(''Content-Type'', ''application/json'')], ws_body = Wb_json (JObj [Member ''role'' (JStr ''admin''), Member ''user_id'' (JInt 3)])\<rparr> =
     Inr (Gres ''CurrentUserResponse'' (Value (VStruct [(''Role'', VStr ''admin''), (''UserID'', VInt 3)])) None)" by code_simp
  have "(handle_GetCurrentUser, send_GetCurrentUser) \<in> set operations" by (simp add: operations_def)
  from only_documented_constants_pass [OF this, of plain_lib plain_formats plain_checks] d
  show "\<exists>status ctype hdr codec ck. Dec_case status ctype ''CurrentUserResponse'' hdr (Dec_json codec ck) \<in> set (co_response send_GetCurrentUser) \<and>
      enums_ok codec (VStruct [(''Role'', VStr ''admin''), (''UserID'', VInt 3)])" by blast
qed

section \<open>Protection\<close>

definition public_operations :: "string list" where
  "public_operations = [''Docs'', ''Healthz'', ''Login'', ''Logout'', ''Metrics'', ''OpenapiJson'', ''Readyz'']"

definition op_scheme :: "server_op \<Rightarrow> scheme" where
  "op_scheme s = (if HasPrefix (so_name s) ''Proxy'' then BearerApiKey else SessionCookie)"

lemma operations_protected:
  "list_all (\<lambda>(s, c). so_name s \<in> set public_operations \<or> so_security s = Some ([(op_scheme s, 0)], [1])) operations"
  unfolding operations_def by (simp add: operation_defs public_operations_def op_scheme_def HasPrefix_def)

text \<open>
  The roles of the document: the two tables have an entry, without roles, for exactly the operations that are protected by the
  scheme.
\<close>

definition operationRolesBearerApiKey :: "(string \<times> string list) list" where
  "operationRolesBearerApiKey =
    [(''ProxyAlphaSearch'', []), (''ProxyChatCompletions'', []), (''ProxyCodexAlphaSearch'', []), (''ProxyCodexResponses'', []),
     (''ProxyCodexResponsesCompact'', []), (''ProxyCodexResponsesWebsocket'', []), (''ProxyCompletions'', []),
     (''ProxyGeminiInteractions'', []), (''ProxyGeminiModelActionGet'', []), (''ProxyGeminiModelActionPost'', []),
     (''ProxyGeminiModels'', []), (''ProxyImageEdits'', []), (''ProxyImageGenerations'', []), (''ProxyMessages'', []),
     (''ProxyMessagesCountTokens'', []), (''ProxyModels'', []), (''ProxyOpenAIVideosContent'', []),
     (''ProxyOpenAIVideosCreate'', []), (''ProxyOpenAIVideosRetrieve'', []), (''ProxyResponses'', []),
     (''ProxyResponsesCompact'', []), (''ProxyResponsesWebsocket'', []), (''ProxyXAIVideoEdits'', []),
     (''ProxyXAIVideoExtensions'', []), (''ProxyXAIVideoGenerations'', []), (''ProxyXAIVideoRetrieve'', []),
     (''ProxyXAIVideos'', [])]"

definition GetRolesForBearerApiKey :: "string \<Rightarrow> string list option" where
  "GetRolesForBearerApiKey operation = map_of operationRolesBearerApiKey operation"

definition operationRolesSessionCookie :: "(string \<times> string list) list" where
  "operationRolesSessionCookie =
    [(''CancelOAuthSession'', []), (''CreateMyAPIKey'', []), (''CreateProviderAPIKeys'', []), (''DeleteModelOverride'', []),
     (''ExportOAuthCredential'', []), (''GetCurrentUser'', []), (''GetMyUsage'', []), (''GetOAuthSession'', []),
     (''GetUpstreamAccountQuota'', []), (''ImportOAuthCredential'', []), (''ListAllAPIKeys'', []), (''ListModelOverrides'', []),
     (''ListMyAPIKeys'', []), (''ListPendingOAuthSessions'', []), (''ListUsers'', []), (''RevokeMyAPIKey'', []),
     (''SetUserStatus'', []), (''TestUpstreamAccount'', []), (''UpsertModelOverride'', [])]"

definition GetRolesForSessionCookie :: "string \<Rightarrow> string list option" where
  "GetRolesForSessionCookie operation = map_of operationRolesSessionCookie operation"

lemma rows_roles:
  "list_all (\<lambda>(n, _).
     GetRolesForBearerApiKey n = (if n \<notin> set public_operations \<and> HasPrefix n ''Proxy'' then Some [] else None) \<and>
     GetRolesForSessionCookie n = (if n \<notin> set public_operations \<and> \<not> HasPrefix n ''Proxy'' then Some [] else None)) operation_rows"
  by code_simp

lemma operations_roles:
  assumes "(s, c) \<in> set operations"
  shows "GetRolesForBearerApiKey (so_name s) = (if so_name s \<notin> set public_operations \<and> op_scheme s = BearerApiKey then Some [] else None)"
    and "GetRolesForSessionCookie (so_name s) = (if so_name s \<notin> set public_operations \<and> op_scheme s = SessionCookie then Some [] else None)"
proof -
  have row: "operation_row (s, c) \<in> set operation_rows"
    unfolding operations_rows [symmetric] set_map by (rule imageI [OF assms])
  note facts = bspec [OF rows_roles [unfolded list_all_iff] row, unfolded operation_row_def prod.case]
  show "GetRolesForBearerApiKey (so_name s) = (if so_name s \<notin> set public_operations \<and> op_scheme s = BearerApiKey then Some [] else None)"
    and "GetRolesForSessionCookie (so_name s) = (if so_name s \<notin> set public_operations \<and> op_scheme s = SessionCookie then Some [] else None)"
    using facts by (simp_all add: op_scheme_def)
qed

text \<open>
  C10. No protected operation of the generated server runs without a credential that was accepted: except for the seven public operations, if
  the request has no API key (for the proxy) or no session (for the management API), or the handler of the scheme refuses or skips it,
  then the handler of the operation ends in an error of its security, before parameters and body are read and whatever
  the implementation of the operation is.
\<close>

theorem protected_operations_need_a_credential:
  assumes "(s, c) \<in> set operations" and "so_name s \<notin> set public_operations"
    and "\<forall>ctx. server_security (op_scheme s) S (os_context S r) (so_name s) r \<noteq> Inr (Some ctx)"
  shows "\<exists>stage e. handle L F K S s args argsEscaped r = fail_op S s (os_context S r) stage e [] \<and>
    (e = Security_unsatisfied \<or> (\<exists>m. e = Security_error (scheme_name (op_scheme s)) m))"
proof -
  have sec: "so_security s = Some ([(op_scheme s, 0)], [1])" using operations_protected assms(1,2) by (auto simp: list_all_iff)
  show ?thesis
  proof (cases "server_security (op_scheme s) S (os_context S r) (so_name s) r")
    case (Inl m)
    then show ?thesis by (auto simp: handle_def check_security_def sec)
  next
    case (Inr x)
    with assms(3) have "server_security (op_scheme s) S (os_context S r) (so_name s) r = Inr None" by (cases x) auto
    then show ?thesis by (auto simp: handle_def check_security_def sec requirement_ok_def)
  qed
qed

theorem protected_operations_need_a_credential_witness:
  "\<exists>stage e. handle plain_lib plain_formats plain_checks example_server handle_SetUserStatus [''7''] False
      \<lparr>wq_method = ''PATCH'', wq_url = \<lparr>url_Path = ''/api/v1/admin/users/7'', url_RawPath = []\<rparr>, wq_query = [], wq_header = [],
       wq_cookies = [(''cliproxy_session'', ''guess'')], wq_length = 0, wq_body = Wb_bytes []\<rparr> =
      fail_op example_server handle_SetUserStatus (os_context example_server
      \<lparr>wq_method = ''PATCH'', wq_url = \<lparr>url_Path = ''/api/v1/admin/users/7'', url_RawPath = []\<rparr>, wq_query = [], wq_header = [],
       wq_cookies = [(''cliproxy_session'', ''guess'')], wq_length = 0, wq_body = Wb_bytes []\<rparr>) stage e [] \<and>
    (e = Security_unsatisfied \<or> (\<exists>m. e = Security_error (scheme_name (op_scheme handle_SetUserStatus)) m))"
proof (rule protected_operations_need_a_credential)
  show "(handle_SetUserStatus, send_SetUserStatus) \<in> set operations" by (simp add: operations_def)
  show "so_name handle_SetUserStatus \<notin> set public_operations" by (simp add: handle_SetUserStatus_def public_operations_def)
qed (simp add: op_scheme_def HasPrefix_def handle_SetUserStatus_def server_securitySessionCookie_def example_server_def answer_security_def)

end
