(* ===== verification/Openapi_Contract.thy ===== *)
theory Openapi_Contract
  imports Openapi_Calls Http_Theorems
begin

text \<open>
  The management API (\<^verbatim>\<open>internal/httpapi\<close>) against the client that is generated from the document: the JSON that Gin makes of the
  answers of the handlers, which answers every route can give, and what the client reads from them.
\<close>

section \<open>The answers as JSON\<close>

text \<open>
  \<^verbatim>\<open>encoding/json\<close> and \<^verbatim>\<open>net/http\<close>: the text of a time, the time that \<^verbatim>\<open>pgx\<close> makes of a date, the value of a \<^verbatim>\<open>json.RawMessage\<close> if its
  bytes are JSON, and the text of a cookie. Texts are UTF-8, as PostgreSQL keeps them.
\<close>

record go_json =
  gj_time :: "instant \<Rightarrow> string"
  gj_date :: "date \<Rightarrow> instant"
  gj_raw :: "string \<Rightarrow> json option"
  gj_cookie :: "cookie \<Rightarrow> string"

definition time_json :: "go_json \<Rightarrow> instant \<Rightarrow> json" where
  "time_json G t = JStr (gj_time G t)"

definition pointer_json :: "('a \<Rightarrow> json) \<Rightarrow> 'a option \<Rightarrow> json" where
  "pointer_json f p = (case p of None \<Rightarrow> JNull | Some x \<Rightarrow> f x)"

definition raw_json :: "go_json \<Rightarrow> string option \<Rightarrow> json option" where
  "raw_json G m = (case m of None \<Rightarrow> Some JNull | Some s \<Rightarrow> gj_raw G s)"

definition omitempty :: "string \<Rightarrow> string \<Rightarrow> member list" where
  "omitempty k s = (if s = [] then [] else [Member k (JStr s)])"

definition bytes_of :: "string \<Rightarrow> string option" where
  "bytes_of s = (if s = [] then None else Some s)"

definition data_json :: "('a \<Rightarrow> json option) \<Rightarrow> 'a list \<Rightarrow> json option" where
  "data_json f xs = map_option (\<lambda>js. JObj [Member ''data'' (JArr js)]) (those (map f xs))"

text \<open>The structs with their tags. A scope that is nil is the empty string of the model.\<close>

definition error_json :: "string \<Rightarrow> json" where
  "error_json m = JObj [Member ''error'' (JObj [Member ''message'' (JStr m)])]"

definition login_json :: "go_json \<Rightarrow> loginResponse \<Rightarrow> json" where
  "login_json G l = JObj [Member ''user_id'' (JInt (lg_UserID l)), Member ''role'' (JStr (lg_Role l)), Member ''expires_at'' (time_json G (lg_ExpiresAt l))]"

definition me_json :: "int \<Rightarrow> string option \<Rightarrow> json" where
  "me_json i role = JObj [Member ''role'' (pointer_json JStr role), Member ''user_id'' (JInt i)]"

definition key_json :: "go_json \<Rightarrow> apiKeyResponse \<Rightarrow> json option" where
  "key_json G k =
     map_option (\<lambda>scope. JObj
       [Member ''id'' (JInt (kr_ID k)), Member ''prefix'' (JStr (kr_Prefix k)), Member ''name'' (JStr (kr_Name k)),
        Member ''status'' (JStr (kr_Status k)), Member ''expires_at'' (pointer_json (\<lambda>d. time_json G (gj_date G d)) (kr_ExpiresAt k)),
        Member ''scope'' scope, Member ''last_used_at'' (pointer_json (time_json G) (kr_LastUsedAt k)),
        Member ''created_at'' (time_json G (kr_CreatedAt k))]) (raw_json G (bytes_of (kr_Scope k)))"

definition created_key_json :: "go_json \<Rightarrow> apiKeyResponse \<Rightarrow> string \<Rightarrow> json option" where
  "created_key_json G k plaintext = map_option (\<lambda>j. JObj [Member ''api_key'' j, Member ''key'' (JStr plaintext)]) (key_json G k)"

definition model_usage_json :: "UsageModelSummary \<Rightarrow> json" where
  "model_usage_json s =
     JObj [Member ''model'' (JStr (ms_Model s)), Member ''request_count'' (JInt (ms_RequestCount s)),
           Member ''failed_request_count'' (JInt (ms_FailedRequestCount s)), Member ''total_tokens'' (JInt (ms_TotalTokens s))]"

definition key_usage_json :: "UsageAPIKeySummary \<Rightarrow> json" where
  "key_usage_json s =
     JObj [Member ''api_key_id'' (JInt (ks_APIKeyID s)), Member ''request_count'' (JInt (ks_RequestCount s)),
           Member ''failed_request_count'' (JInt (ks_FailedRequestCount s)), Member ''total_tokens'' (JInt (ks_TotalTokens s))]"

definition usage_json :: "go_json \<Rightarrow> instant \<Rightarrow> instant \<Rightarrow> UsageSummary \<Rightarrow> json" where
  "usage_json G from to s =
     JObj [Member ''from'' (time_json G from), Member ''to'' (time_json G to),
           Member ''request_count'' (JInt (us_RequestCount s)), Member ''failed_request_count'' (JInt (us_FailedRequestCount s)),
           Member ''input_tokens'' (JInt (us_InputTokens s)), Member ''output_tokens'' (JInt (us_OutputTokens s)),
           Member ''reasoning_tokens'' (JInt (us_ReasoningTokens s)), Member ''cached_tokens'' (JInt (us_CachedTokens s)),
           Member ''total_tokens'' (JInt (us_TotalTokens s)),
           Member ''by_model'' (JArr (map model_usage_json (us_ByModel s))), Member ''by_api_key'' (JArr (map key_usage_json (us_ByAPIKey s)))]"

definition user_json :: "go_json \<Rightarrow> User \<Rightarrow> json" where
  "user_json G u =
     JObj [Member ''id'' (JInt (User_ID u)), Member ''username'' (JStr (User_Username u)), Member ''email'' (JStr (User_Email u)),
           Member ''role'' (JStr (User_Role u)), Member ''status'' (JStr (User_Status u)), Member ''identity_source'' (JStr (User_IdentitySource u)),
           Member ''created_at'' (time_json G (User_CreatedAt u)), Member ''updated_at'' (time_json G (User_UpdatedAt u))]"

definition admin_key_json :: "go_json \<Rightarrow> adminAPIKeyResponse \<Rightarrow> json option" where
  "admin_key_json G k =
     map_option (\<lambda>scope. JObj
       [Member ''id'' (JInt (kr_ID k)), Member ''user_id'' (JInt (akr_UserID k)), Member ''prefix'' (JStr (kr_Prefix k)), Member ''name'' (JStr (kr_Name k)),
        Member ''status'' (JStr (kr_Status k)), Member ''expires_at'' (pointer_json (\<lambda>d. time_json G (gj_date G d)) (kr_ExpiresAt k)),
        Member ''scope'' scope, Member ''last_used_at'' (pointer_json (time_json G) (kr_LastUsedAt k)),
        Member ''created_at'' (time_json G (kr_CreatedAt k)), Member ''owner_username'' (JStr (akr_OwnerUsername k)),
        Member ''owner_identity_source'' (JStr (akr_OwnerIdentitySource k)), Member ''owner_status'' (JStr (akr_OwnerStatus k))])
       (raw_json G (bytes_of (kr_Scope k)))"

definition oauth_json :: "go_json \<Rightarrow> oauthSessionResponse \<Rightarrow> json" where
  "oauth_json G s =
     JObj ([Member ''state'' (JStr (or_State s)), Member ''provider'' (JStr (or_Provider s)), Member ''flow_type'' (JStr (or_FlowType s)),
            Member ''status'' (JStr (or_Status s))] @ omitempty ''auth_id'' (or_AuthID s) @ omitempty ''error_message'' (or_ErrorMessage s) @
           omitempty ''user_code'' (or_UserCode s) @
           [Member ''expires_at'' (time_json G (or_ExpiresAt s)), Member ''created_at'' (time_json G (or_CreatedAt s)),
            Member ''updated_at'' (time_json G (or_UpdatedAt s))])"

definition model_json :: "go_json \<Rightarrow> ModelOverride \<Rightarrow> json option" where
  "model_json G v =
     map_option (\<lambda>config. JObj
       [Member ''id'' (JInt (ov_ID v)), Member ''provider'' (JStr (ov_Provider v)), Member ''model_alias'' (JStr (ov_ModelAlias v)),
        Member ''upstream_model'' (JStr (ov_UpstreamModel v)), Member ''enabled'' (JBool (ov_Enabled v)), Member ''config'' config])
       (raw_json G (ov_Config v))"

fun body_json :: "go_json \<Rightarrow> http_body \<Rightarrow> json option" where
  "body_json G (Body_error m) = Some (error_json m)"
| "body_json G (Body_login l) = Some (login_json G l)"
| "body_json G (Body_me i role) = Some (me_json i role)"
| "body_json G (Body_keys ks) = data_json (key_json G) ks"
| "body_json G (Body_created_key k plaintext) = created_key_json G k plaintext"
| "body_json G (Body_usage from to s) = Some (usage_json G from to s)"
| "body_json G (Body_users us) = data_json (\<lambda>u. Some (user_json G u)) us"
| "body_json G (Body_admin_keys ks) = data_json (admin_key_json G) ks"
| "body_json G (Body_oauth_session s) = Some (oauth_json G s)"
| "body_json G (Body_oauth_sessions ss) = data_json (\<lambda>s. Some (oauth_json G s)) ss"
| "body_json G (Body_model v) = model_json G v"
| "body_json G (Body_models vs) = data_json (model_json G) vs"
| "body_json G _ = None"

text \<open>\<^verbatim>\<open>c.JSON\<close>, \<^verbatim>\<open>c.AbortWithStatusJSON\<close> and \<^verbatim>\<open>c.Status\<close>. A value that cannot be encoded leaves an empty body.\<close>

definition gin_response :: "go_json \<Rightarrow> response \<Rightarrow> wire_response" where
  "gin_response G rs =
     \<lparr>ws_status = nat (rs_status rs),
      ws_header = (case rs_cookie rs of None \<Rightarrow> [] | Some c \<Rightarrow> [(''Set-Cookie'', gj_cookie G c)]) @
        (if rs_body rs = Body_none then [] else [(''Content-Type'', ''application/json; charset=utf-8'')]),
      ws_body = (case body_json G (rs_body rs) of None \<Rightarrow> Wb_bytes [] | Some j \<Rightarrow> Wb_json j)\<rparr>"

section \<open>What a route can answer\<close>

text \<open>The type of the document that a body is meant to be; \<^verbatim>\<open>Error\<close> for errors.\<close>

fun body_type :: "http_body \<Rightarrow> string" where
  "body_type Body_none = []"
| "body_type (Body_error m) = ''Error''"
| "body_type (Body_login l) = ''LoginResponse''"
| "body_type (Body_me i role) = ''CurrentUserResponse''"
| "body_type (Body_keys ks) = ''APIKeyListResponse''"
| "body_type (Body_created_key k plaintext) = ''CreateAPIKeyResponse''"
| "body_type (Body_usage from to s) = ''UsageResponse''"
| "body_type (Body_users us) = ''AdminUserListResponse''"
| "body_type (Body_admin_keys ks) = ''AdminAPIKeyListResponse''"
| "body_type (Body_oauth_session s) = ''OAuthSession''"
| "body_type (Body_oauth_sessions ss) = ''OAuthSessionListResponse''"
| "body_type (Body_model v) = ''ModelOverride''"
| "body_type (Body_models vs) = ''ModelOverrideListResponse''"
| "body_type (Body_other s) = ''other''"

type_synonym answer = "int \<times> string"

definition errors_of :: "int list \<Rightarrow> answer list" where
  "errors_of sts = map (\<lambda>st. (st, ''Error'')) sts"

definition route_answers :: "((string \<times> string) \<times> answer list) list" where
  "route_answers =
    [((''POST'', ''/api/v1/login''), (200, ''LoginResponse'') # errors_of [400, 401, 403, 500]),
     ((''POST'', ''/api/v1/logout''), [(204, [])]),
     ((''GET'', ''/api/v1/me''), (200, ''CurrentUserResponse'') # errors_of [401]),
     ((''GET'', ''/api/v1/me/keys''), (200, ''APIKeyListResponse'') # errors_of [401, 500]),
     ((''POST'', ''/api/v1/me/keys''), (201, ''CreateAPIKeyResponse'') # errors_of [400, 401, 500]),
     ((''DELETE'', ''/api/v1/me/keys/:keyID''), (204, []) # errors_of [400, 401, 404, 500]),
     ((''GET'', ''/api/v1/me/usage''), (200, ''UsageResponse'') # errors_of [400, 401, 500]),
     ((''GET'', ''/api/v1/admin/users''), (200, ''AdminUserListResponse'') # errors_of [401, 403, 500]),
     ((''PATCH'', ''/api/v1/admin/users/:userID''), (204, []) # errors_of [400, 401, 403, 404, 500]),
     ((''GET'', ''/api/v1/admin/keys''), (200, ''AdminAPIKeyListResponse'') # errors_of [401, 403, 500]),
     ((''GET'', ''/api/v1/admin/oauth/sessions''), (200, ''OAuthSessionListResponse'') # errors_of [401, 403, 500]),
     ((''GET'', ''/api/v1/admin/oauth/sessions/:state''), (200, ''OAuthSession'') # errors_of [401, 403, 404, 500]),
     ((''DELETE'', ''/api/v1/admin/oauth/sessions/:state''), (204, []) # errors_of [400, 401, 403, 404, 500]),
     ((''PUT'', ''/api/v1/admin/models/:modelAlias''), (200, ''ModelOverride'') # errors_of [400, 401, 403, 500]),
     ((''DELETE'', ''/api/v1/admin/models/:modelAlias''), (204, []) # errors_of [400, 401, 403, 404, 500]),
     ((''GET'', ''/api/v1/admin/models''), (200, ''ModelOverrideListResponse'') # errors_of [401, 403, 500])]"

definition gives :: "answer list \<Rightarrow> handler \<Rightarrow> bool" where
  "gives as h \<longleftrightarrow> (\<forall>c a w. (rs_status (fst (h c a w)), body_type (rs_body (fst (h c a w)))) \<in> set as)"

lemma gives_session: "(401, ''Error'') \<in> set as \<Longrightarrow> gives as h \<Longrightarrow> gives as (SessionMiddleware E h)"
  by (auto simp: gives_def SessionMiddleware_def writeError_def reply_def split: prod.splits sum.splits)

lemma gives_role: "(401, ''Error'') \<in> set as \<Longrightarrow> (403, ''Error'') \<in> set as \<Longrightarrow> gives as h \<Longrightarrow> gives as (RequireRole roles h)"
  by (auto simp: gives_def RequireRole_def writeError_def reply_def split: option.splits)

lemma gives_user: "(401, ''Error'') \<in> set as \<Longrightarrow> (500, ''Error'') \<in> set as \<Longrightarrow> (\<And>i. gives as (h i)) \<Longrightarrow> gives as (with_user h)"
  by (auto simp: gives_def with_user_def currentUserID_def writeError_def reply_def split: option.splits)

lemma gives_needs: "(500, ''Error'') \<in> set as \<Longrightarrow> gives as h \<Longrightarrow> gives as (needs E sv m h)"
  by (auto simp: gives_def needs_def writeError_def reply_def)

named_theorems gives_intros
lemmas [gives_intros] = gives_session gives_role gives_user gives_needs

lemmas answer_simps = gives_def writeError_def reply_def errors_of_def

lemma gives_login: "gives ((200, ''LoginResponse'') # errors_of [400, 401, 403, 500]) (Login_Handle E service secure)"
  by (auto simp: answer_simps Login_Handle_def split: option.splits sum.splits prod.splits)

lemma gives_logout: "gives [(204, [])] (LogoutHandler E source)"
  by (auto simp: answer_simps LogoutHandler_def Let_def split: option.splits prod.splits)

lemma gives_me: "gives ((200, ''CurrentUserResponse'') # errors_of [401]) CurrentUserHandler"
  by (auto simp: answer_simps CurrentUserHandler_def split: option.splits)

lemma gives_keys: "gives ((200, ''APIKeyListResponse'') # errors_of [401, 500]) (Keys_List_Handler E)"
  by (auto simp: answer_simps Keys_List_Handler_def split: option.splits sum.splits prod.splits)

lemma gives_create_key: "gives ((201, ''CreateAPIKeyResponse'') # errors_of [400, 401, 500]) (Keys_Create_Handler E)"
  unfolding Keys_Create_Handler_def
  by (intro gives_intros) (auto simp: answer_simps split: option.splits sum.splits prod.splits)

lemma gives_revoke_key: "gives ((204, []) # errors_of [400, 401, 404, 500]) (Keys_Revoke_Handler E)"
  unfolding Keys_Revoke_Handler_def
  by (intro gives_intros) (auto simp: answer_simps split: option.splits sum.splits prod.splits)

lemma gives_usage: "gives ((200, ''UsageResponse'') # errors_of [400, 401, 500]) (Usage_Get_Handler E)"
  unfolding Usage_Get_Handler_def
  by (intro gives_intros) (auto simp: answer_simps split: option.splits sum.splits prod.splits)

lemma gives_users: "gives ((200, ''AdminUserListResponse'') # errors_of [401, 403, 500]) (AdminUsers_List E)"
  unfolding AdminUsers_List_def
  by (intro gives_intros) (auto simp: answer_simps split: option.splits sum.splits prod.splits)

lemma gives_set_status: "gives ((204, []) # errors_of [400, 401, 403, 404, 500]) (AdminUsers_SetStatus E)"
  unfolding AdminUsers_SetStatus_def
  by (intro gives_intros) (auto simp: answer_simps split: option.splits sum.splits prod.splits)

lemma gives_admin_keys: "gives ((200, ''AdminAPIKeyListResponse'') # errors_of [401, 403, 500]) (AdminKeys_List E)"
  unfolding AdminKeys_List_def
  by (intro gives_intros) (auto simp: answer_simps split: option.splits sum.splits prod.splits)

lemma gives_oauth_list: "gives ((200, ''OAuthSessionListResponse'') # errors_of [401, 403, 500]) (AdminOAuth_ListPending E)"
  unfolding AdminOAuth_ListPending_def
  by (intro gives_intros) (auto simp: answer_simps split: option.splits sum.splits prod.splits)

lemma gives_oauth_get: "gives ((200, ''OAuthSession'') # errors_of [401, 403, 404, 500]) (AdminOAuth_Get E)"
  unfolding AdminOAuth_Get_def
  by (intro gives_intros) (auto simp: answer_simps split: option.splits sum.splits prod.splits)

lemma gives_oauth_cancel: "gives ((204, []) # errors_of [400, 401, 403, 404, 500]) (AdminOAuth_Cancel E)"
  unfolding AdminOAuth_Cancel_def
  by (intro gives_intros) (auto simp: answer_simps Let_def split: option.splits sum.splits prod.splits)

lemma gives_model: "gives ((200, ''ModelOverride'') # errors_of [400, 401, 403, 500]) (AdminModels_Upsert E)"
  unfolding AdminModels_Upsert_def
  by (intro gives_intros) (auto simp: answer_simps split: option.splits sum.splits prod.splits)

lemma gives_delete_model: "gives ((204, []) # errors_of [400, 401, 403, 404, 500]) (AdminModels_Delete E)"
  unfolding AdminModels_Delete_def
  by (intro gives_intros) (auto simp: answer_simps split: option.splits sum.splits prod.splits)

lemma gives_models: "gives ((200, ''ModelOverrideListResponse'') # errors_of [401, 403, 500]) (AdminModels_List E)"
  unfolding AdminModels_List_def
  by (intro gives_intros) (auto simp: answer_simps split: option.splits sum.splits prod.splits)

lemmas gives_handlers = gives_login gives_logout gives_me gives_keys gives_create_key gives_revoke_key gives_usage gives_users gives_set_status
  gives_admin_keys gives_oauth_list gives_oauth_get gives_oauth_cancel gives_model gives_delete_model gives_models

text \<open>The routes of the account handlers, which front the SDK.\<close>

definition account_routes :: "(string \<times> string) list" where
  "account_routes =
    [(''POST'', ''/api/v1/admin/providers/keys''), (''POST'', ''/api/v1/admin/accounts/:accountID/test''),
     (''GET'', ''/api/v1/admin/accounts/:accountID/quota''), (''GET'', ''/api/v1/admin/oauth/accounts/:accountID/export''),
     (''POST'', ''/api/v1/admin/oauth/import'')]"

definition route_ok :: "http_env \<Rightarrow> route \<Rightarrow> bool" where
  "route_ok E rt \<longleftrightarrow>
     (case map_of route_answers (rt_method rt, rt_pattern rt) of
        None \<Rightarrow> (rt_method rt, rt_pattern rt) \<in> set account_routes
      | Some as \<Rightarrow> gives as (run_chain E (rt_chain rt) (rt_handler rt)))"

lemma list_all_mount1: "list_all P (mount1 chain me p (Some h)) \<longleftrightarrow> P \<lparr>rt_method = me, rt_pattern = p, rt_chain = chain, rt_handler = h\<rparr>"
  by (simp add: mount1_def)

lemma main_routes_ok: "list_all (route_ok E) (RouterConfigurator (main_mounts E login secure source pk at qu oc))"
  unfolding RouterConfigurator_def main_mounts_def Let_def
  by (simp add: list_all_mount1 route_ok_def route_answers_def account_routes_def)
    (intro conjI; (intro gives_session gives_role gives_handlers)?; simp add: errors_of_def)

lemma route_gives:
  assumes "rt \<in> set (RouterConfigurator (main_mounts E login secure source pk at qu oc))" and "(rt_method rt, rt_pattern rt) \<notin> set account_routes"
    and "serve E rt rq params a w = (rs, a', w')"
  obtains as where "map_of route_answers (rt_method rt, rt_pattern rt) = Some as" "(rs_status rs, body_type (rs_body rs)) \<in> set as"
proof -
  have "route_ok E rt" using main_routes_ok assms(1) by (auto simp: list_all_iff)
  with assms(2) obtain as where as: "map_of route_answers (rt_method rt, rt_pattern rt) = Some as" "gives as (run_chain E (rt_chain rt) (rt_handler rt))"
    by (auto simp: route_ok_def split: option.splits)
  then have "(rs_status rs, body_type (rs_body rs)) \<in> set as"
    using assms(3) unfolding serve_def gives_def by (metis fst_conv)
  with as(1) show thesis ..
qed

section \<open>What the client reads\<close>

text \<open>The values of the generated types that a body stands for.\<close>

fun raw_members :: "member list \<Rightarrow> (string \<times> gval) list \<Rightarrow> (string \<times> gval) list" where
  "raw_members [] m = m"
| "raw_members (Member k j # ms) m = raw_members ms (AList.update k (VRaw (Some j)) m)"

fun scope_value :: "json \<Rightarrow> gval" where
  "scope_value (JArr js) = VSum True (VArr (map (\<lambda>j. VRaw (Some j)) js))"
| "scope_value (JObj ms) = VSum False (VMap (raw_members ms []))"
| "scope_value _ = VNull"

fun scope_ok :: "json \<Rightarrow> bool" where
  "scope_ok (JArr js) = True"
| "scope_ok (JObj ms) = True"
| "scope_ok JNull = True"
| "scope_ok _ = False"

definition pointer_value :: "('a \<Rightarrow> gval) \<Rightarrow> 'a option \<Rightarrow> gval" where
  "pointer_value f p = (case p of None \<Rightarrow> VNull | Some x \<Rightarrow> f x)"

definition set_value :: "string \<Rightarrow> gval" where
  "set_value s = (if s = [] then VUnset else VStr s)"

definition scope_of :: "go_json \<Rightarrow> string \<Rightarrow> gval" where
  "scope_of G s = scope_value (the (raw_json G (bytes_of s)))"

definition error_value :: "string \<Rightarrow> gval" where
  "error_value m = VStruct [(''Error'', VStruct [(''Code'', VUnset), (''Message'', VStr m), (''Type'', VUnset)])]"

definition login_value :: "loginResponse \<Rightarrow> gval" where
  "login_value l = VStruct [(''ExpiresAt'', VTime (lg_ExpiresAt l)), (''Role'', VStr (lg_Role l)), (''UserID'', VInt (lg_UserID l))]"

definition me_value :: "int \<Rightarrow> string option \<Rightarrow> gval" where
  "me_value i role = VStruct [(''Role'', VStr (the role)), (''UserID'', VInt i)]"

definition key_value :: "go_json \<Rightarrow> apiKeyResponse \<Rightarrow> gval" where
  "key_value G k = VStruct
     [(''CreatedAt'', VTime (kr_CreatedAt k)), (''ExpiresAt'', pointer_value (\<lambda>d. VTime (gj_date G d)) (kr_ExpiresAt k)), (''ID'', VInt (kr_ID k)),
      (''LastUsedAt'', pointer_value VTime (kr_LastUsedAt k)), (''Name'', VStr (kr_Name k)), (''Prefix'', VStr (kr_Prefix k)),
      (''Scope'', scope_of G (kr_Scope k)), (''Status'', VStr (kr_Status k))]"

definition created_key_value :: "go_json \<Rightarrow> apiKeyResponse \<Rightarrow> string \<Rightarrow> gval" where
  "created_key_value G k plaintext = VStruct [(''APIKey'', key_value G k), (''Key'', VStr plaintext)]"

definition model_usage_value :: "UsageModelSummary \<Rightarrow> gval" where
  "model_usage_value s = VStruct
     [(''FailedRequestCount'', VInt (ms_FailedRequestCount s)), (''Model'', VStr (ms_Model s)), (''RequestCount'', VInt (ms_RequestCount s)),
      (''TotalTokens'', VInt (ms_TotalTokens s))]"

definition key_usage_value :: "UsageAPIKeySummary \<Rightarrow> gval" where
  "key_usage_value s = VStruct
     [(''APIKeyID'', VInt (ks_APIKeyID s)), (''FailedRequestCount'', VInt (ks_FailedRequestCount s)), (''RequestCount'', VInt (ks_RequestCount s)),
      (''TotalTokens'', VInt (ks_TotalTokens s))]"

definition usage_value :: "instant \<Rightarrow> instant \<Rightarrow> UsageSummary \<Rightarrow> gval" where
  "usage_value from to s = VStruct
     [(''ByAPIKey'', VArr (map key_usage_value (us_ByAPIKey s))), (''ByModel'', VArr (map model_usage_value (us_ByModel s))),
      (''CachedTokens'', VInt (us_CachedTokens s)), (''FailedRequestCount'', VInt (us_FailedRequestCount s)), (''From'', VTime from),
      (''InputTokens'', VInt (us_InputTokens s)), (''OutputTokens'', VInt (us_OutputTokens s)), (''ReasoningTokens'', VInt (us_ReasoningTokens s)),
      (''RequestCount'', VInt (us_RequestCount s)), (''To'', VTime to), (''TotalTokens'', VInt (us_TotalTokens s))]"

definition user_value :: "User \<Rightarrow> gval" where
  "user_value u = VStruct
     [(''CreatedAt'', VTime (User_CreatedAt u)), (''Email'', VStr (User_Email u)), (''ID'', VInt (User_ID u)),
      (''IdentitySource'', VStr (User_IdentitySource u)), (''Role'', VStr (User_Role u)), (''Status'', VStr (User_Status u)),
      (''UpdatedAt'', VTime (User_UpdatedAt u)), (''Username'', VStr (User_Username u))]"

definition admin_key_value :: "go_json \<Rightarrow> adminAPIKeyResponse \<Rightarrow> gval" where
  "admin_key_value G k = VStruct
     [(''CreatedAt'', VTime (kr_CreatedAt k)), (''ExpiresAt'', pointer_value (\<lambda>d. VTime (gj_date G d)) (kr_ExpiresAt k)), (''ID'', VInt (kr_ID k)),
      (''LastUsedAt'', pointer_value VTime (kr_LastUsedAt k)), (''Name'', VStr (kr_Name k)), (''Prefix'', VStr (kr_Prefix k)),
      (''Scope'', scope_of G (kr_Scope k)), (''Status'', VStr (kr_Status k)), (''OwnerIdentitySource'', VStr (akr_OwnerIdentitySource k)),
      (''OwnerStatus'', VStr (akr_OwnerStatus k)), (''OwnerUsername'', VStr (akr_OwnerUsername k)), (''UserID'', VInt (akr_UserID k))]"

definition oauth_value :: "oauthSessionResponse \<Rightarrow> gval" where
  "oauth_value s = VStruct
     [(''AuthID'', set_value (or_AuthID s)), (''CreatedAt'', VTime (or_CreatedAt s)), (''ErrorMessage'', set_value (or_ErrorMessage s)),
      (''ExpiresAt'', VTime (or_ExpiresAt s)), (''FlowType'', VStr (or_FlowType s)), (''Provider'', VStr (or_Provider s)),
      (''State'', VStr (or_State s)), (''Status'', VStr (or_Status s)), (''UpdatedAt'', VTime (or_UpdatedAt s)), (''UserCode'', set_value (or_UserCode s))]"

definition model_value :: "go_json \<Rightarrow> ModelOverride \<Rightarrow> gval" where
  "model_value G v = VStruct
     [(''Config'', VRaw (raw_json G (ov_Config v))), (''Enabled'', VBool (ov_Enabled v)), (''ID'', VInt (ov_ID v)), (''ModelAlias'', VStr (ov_ModelAlias v)),
      (''Provider'', VStr (ov_Provider v)), (''UpstreamModel'', VStr (ov_UpstreamModel v))]"

definition data_value :: "('a \<Rightarrow> gval) \<Rightarrow> 'a list \<Rightarrow> gval" where
  "data_value f xs = VStruct [(''Data'', VArr (map f xs))]"

fun body_value :: "go_json \<Rightarrow> http_body \<Rightarrow> gval" where
  "body_value G (Body_error m) = error_value m"
| "body_value G (Body_login l) = login_value l"
| "body_value G (Body_me i role) = me_value i role"
| "body_value G (Body_keys ks) = data_value (key_value G) ks"
| "body_value G (Body_created_key k plaintext) = created_key_value G k plaintext"
| "body_value G (Body_usage from to s) = usage_value from to s"
| "body_value G (Body_users us) = data_value user_value us"
| "body_value G (Body_admin_keys ks) = data_value (admin_key_value G) ks"
| "body_value G (Body_oauth_session s) = oauth_value s"
| "body_value G (Body_oauth_sessions ss) = data_value oauth_value ss"
| "body_value G (Body_model v) = model_value G v"
| "body_value G (Body_models vs) = data_value (model_value G) vs"
| "body_value G _ = VZero"

text \<open>
  Bodies with values that the columns of the database can hold: 64-bit integers, the constants of the enumerations, and scopes and
  configurations that are JSON, the scope null, an object or an array.
\<close>

definition scope_in_document :: "go_json \<Rightarrow> string \<Rightarrow> bool" where
  "scope_in_document G s = (case raw_json G (bytes_of s) of None \<Rightarrow> False | Some j \<Rightarrow> scope_ok j)"

definition key_in_document :: "go_json \<Rightarrow> 'x apiKeyResponse_scheme \<Rightarrow> bool" where
  "key_in_document G k = (int64 (kr_ID k) \<and> kr_Status k \<in> {''active'', ''revoked''} \<and> scope_in_document G (kr_Scope k))"

definition admin_key_in_document :: "go_json \<Rightarrow> adminAPIKeyResponse \<Rightarrow> bool" where
  "admin_key_in_document G k =
     (key_in_document G k \<and> int64 (akr_UserID k) \<and> akr_OwnerIdentitySource k \<in> {''ldap'', ''static''} \<and> akr_OwnerStatus k \<in> {''active'', ''blocked''})"

definition usage_in_document :: "UsageSummary \<Rightarrow> bool" where
  "usage_in_document s =
     (int64 (us_RequestCount s) \<and> int64 (us_FailedRequestCount s) \<and> int64 (us_InputTokens s) \<and> int64 (us_OutputTokens s) \<and>
      int64 (us_ReasoningTokens s) \<and> int64 (us_CachedTokens s) \<and> int64 (us_TotalTokens s) \<and>
      list_all (\<lambda>m. int64 (ms_RequestCount m) \<and> int64 (ms_FailedRequestCount m) \<and> int64 (ms_TotalTokens m)) (us_ByModel s) \<and>
      list_all (\<lambda>k. int64 (ks_APIKeyID k) \<and> int64 (ks_RequestCount k) \<and> int64 (ks_FailedRequestCount k) \<and> int64 (ks_TotalTokens k)) (us_ByAPIKey s))"

definition user_in_document :: "User \<Rightarrow> bool" where
  "user_in_document u =
     (int64 (User_ID u) \<and> User_Role u \<in> {''user'', ''admin''} \<and> User_Status u \<in> {''active'', ''blocked''} \<and> User_IdentitySource u \<in> {''ldap'', ''static''})"

definition oauth_in_document :: "oauthSessionResponse \<Rightarrow> bool" where
  "oauth_in_document s = (or_FlowType s \<in> {''callback'', ''device''} \<and> or_Status s \<in> {''pending'', ''completed'', ''error'', ''cancelled''})"

definition model_in_document :: "go_json \<Rightarrow> ModelOverride \<Rightarrow> bool" where
  "model_in_document G v = (int64 (ov_ID v) \<and> raw_json G (ov_Config v) \<noteq> None)"

fun body_in_document :: "go_json \<Rightarrow> http_body \<Rightarrow> bool" where
  "body_in_document G (Body_login l) = (int64 (lg_UserID l) \<and> lg_Role l \<in> {''user'', ''admin''})"
| "body_in_document G (Body_me i role) = (int64 i \<and> role \<in> {Some ''user'', Some ''admin''})"
| "body_in_document G (Body_keys ks) = list_all (key_in_document G) ks"
| "body_in_document G (Body_created_key k plaintext) = key_in_document G k"
| "body_in_document G (Body_usage from to s) = usage_in_document s"
| "body_in_document G (Body_users us) = list_all user_in_document us"
| "body_in_document G (Body_admin_keys ks) = list_all (admin_key_in_document G) ks"
| "body_in_document G (Body_oauth_session s) = oauth_in_document s"
| "body_in_document G (Body_oauth_sessions ss) = list_all oauth_in_document ss"
| "body_in_document G (Body_model v) = model_in_document G v"
| "body_in_document G (Body_models vs) = list_all (model_in_document G) vs"
| "body_in_document G _ = True"

text \<open>The law of the formats: the parser of the client reads the times that \<^verbatim>\<open>encoding/json\<close> writes.\<close>

definition formats_agree :: "go_json \<Rightarrow> formats \<Rightarrow> bool" where
  "formats_agree G F \<longleftrightarrow> (\<forall>t. dt_parse F (gj_time G t) = Some t)"

lemmas decode_rules = zero_struct_def put_field_def set_required_def decode_scalar_def OnesCount8_def upt_rec numeral_eq_Suc
  time_json_def pointer_json_def pointer_value_def

lemma decode_error: "decode F json_Error (error_json m) = Inr (error_value m)"
  by (simp add: json_Error_def json_ErrorError_def error_json_def error_value_def json_OptString_def decode_rules)

lemma decode_login:
  assumes "formats_agree G F" and "int64 (lg_UserID l)"
  shows "decode F json_LoginResponse (login_json G l) = Inr (login_value l)"
  using assms by (simp add: formats_agree_def json_LoginResponse_def json_LoginResponseRole_def login_json_def login_value_def decode_rules)

lemma decode_me:
  assumes "int64 i" and "role \<noteq> None"
  shows "decode F json_CurrentUserResponse (me_json i role) = Inr (me_value i role)"
  using assms by (auto simp: json_CurrentUserResponse_def json_CurrentUserResponseRole_def me_json_def me_value_def decode_rules)

lemma decode_raw_all: "decode_all F CRaw js = Inr (map (\<lambda>j. VRaw (Some j)) js)"
  by (induction js) (simp_all add: decode_scalar_def)

lemma decode_raw_map: "decode_map F CRaw ms m = Inr (raw_members ms m)"
  by (induction ms m rule: raw_members.induct) (simp_all add: decode_scalar_def)

lemma decode_scope: "scope_ok j \<Longrightarrow> decode F (COptNil (CSum (CArr CRaw) (CMap n CRaw))) j = Inr (scope_value j)"
  by (cases j) (simp_all add: decode_raw_all decode_raw_map)

lemma scope_in_documentE:
  assumes "scope_in_document G s"
  obtains j where "raw_json G (bytes_of s) = Some j" "scope_ok j" "scope_of G s = scope_value j"
  using assms that by (auto simp: scope_in_document_def scope_of_def split: option.splits)

lemma decode_key:
  assumes "formats_agree G F" and "key_in_document G k"
  shows "\<exists>j. key_json G k = Some j \<and> decode F json_APIKey j = Inr (key_value G k)"
proof -
  obtain j where j: "raw_json G (bytes_of (kr_Scope k)) = Some j" "scope_ok j" "scope_of G (kr_Scope k) = scope_value j"
    using assms(2) scope_in_documentE unfolding key_in_document_def by metis
  have "decode F json_OptNilAPIKeyScope j = Inr (scope_value j)"
    unfolding json_OptNilAPIKeyScope_def json_APIKeyScope_def json_APIKeyScope0_def using j(2) by (rule decode_scope)
  with j assms show ?thesis
    by (cases "kr_ExpiresAt k"; cases "kr_LastUsedAt k")
      (simp_all add: formats_agree_def key_in_document_def json_APIKey_def json_OptNilDateTime_def json_APIKeyStatus_def key_json_def key_value_def decode_rules)
qed

lemma decode_created_key:
  assumes "formats_agree G F" and "key_in_document G k"
  shows "\<exists>j. created_key_json G k p = Some j \<and> decode F json_CreateAPIKeyResponse j = Inr (created_key_value G k p)"
proof -
  obtain j where "key_json G k = Some j" "decode F json_APIKey j = Inr (key_value G k)" using decode_key [OF assms] by blast
  then show ?thesis by (simp add: created_key_json_def created_key_value_def json_CreateAPIKeyResponse_def decode_rules)
qed

lemma decode_list:
  assumes "\<And>x. x \<in> set xs \<Longrightarrow> \<exists>j. f x = Some j \<and> decode F c j = Inr (v x)"
  shows "\<exists>js. those (map f xs) = Some js \<and> decode_all F c js = Inr (map v xs)"
  using assms
proof (induction xs)
  case (Cons x xs)
  obtain j where "f x = Some j" "decode F c j = Inr (v x)" using Cons.prems by auto
  moreover obtain js where "those (map f xs) = Some js" "decode_all F c js = Inr (map v xs)" using Cons by auto
  ultimately show ?case by simp
qed simp

lemma decode_data:
  assumes "\<And>x. x \<in> set xs \<Longrightarrow> \<exists>j. f x = Some j \<and> decode F c j = Inr (v x)"
  shows "\<exists>j. data_json f xs = Some j \<and>
    decode F (CObj n [EField Always ''data'' ''Data'' (CArr c)] [DField ''data'' (Some (0, 0)) ''Data'' (CArr c)] [''data''] [1]) j = Inr (data_value v xs)"
proof -
  obtain js where "those (map f xs) = Some js" "decode_all F c js = Inr (map v xs)" using decode_list [of xs f F c v, OF assms] by blast
  then show ?thesis by (simp add: data_json_def data_value_def decode_rules)
qed

lemma decode_model_usage:
  assumes "int64 (ms_RequestCount m)" and "int64 (ms_FailedRequestCount m)" and "int64 (ms_TotalTokens m)"
  shows "decode F json_UsageModelSummary (model_usage_json m) = Inr (model_usage_value m)"
  using assms by (simp add: json_UsageModelSummary_def model_usage_json_def model_usage_value_def decode_rules)

lemma decode_key_usage:
  assumes "int64 (ks_APIKeyID m)" and "int64 (ks_RequestCount m)" and "int64 (ks_FailedRequestCount m)" and "int64 (ks_TotalTokens m)"
  shows "decode F json_UsageAPIKeySummary (key_usage_json m) = Inr (key_usage_value m)"
  using assms by (simp add: json_UsageAPIKeySummary_def key_usage_json_def key_usage_value_def decode_rules)

lemma those_Some: "those (map (\<lambda>x. Some (f x)) xs) = Some (map f xs)"
  by (induction xs) simp_all

lemma decode_usage:
  assumes "formats_agree G F" and "usage_in_document s"
  shows "decode F json_UsageResponse (usage_json G from to s) = Inr (usage_value from to s)"
proof -
  have ms: "decode_all F json_UsageModelSummary (map model_usage_json (us_ByModel s)) = Inr (map model_usage_value (us_ByModel s))"
    using decode_list [of "us_ByModel s" "\<lambda>m. Some (model_usage_json m)" F json_UsageModelSummary model_usage_value] assms(2) decode_model_usage
    by (fastforce simp: usage_in_document_def list_all_iff those_Some)
  have ks: "decode_all F json_UsageAPIKeySummary (map key_usage_json (us_ByAPIKey s)) = Inr (map key_usage_value (us_ByAPIKey s))"
    using decode_list [of "us_ByAPIKey s" "\<lambda>m. Some (key_usage_json m)" F json_UsageAPIKeySummary key_usage_value] assms(2) decode_key_usage
    by (fastforce simp: usage_in_document_def list_all_iff those_Some)
  show ?thesis using assms
    by (simp add: formats_agree_def usage_in_document_def json_UsageResponse_def usage_json_def usage_value_def ms ks decode_rules)
qed

lemma decode_user:
  assumes "formats_agree G F" and "user_in_document u"
  shows "decode F json_AdminUser (user_json G u) = Inr (user_value u)"
  using assms by (simp add: formats_agree_def user_in_document_def json_AdminUser_def json_AdminUserIdentitySource_def json_AdminUserRole_def
      json_AdminUserStatus_def user_json_def user_value_def decode_rules)

lemma decode_admin_key:
  assumes "formats_agree G F" and "admin_key_in_document G k"
  shows "\<exists>j. admin_key_json G k = Some j \<and> decode F json_AdminAPIKey j = Inr (admin_key_value G k)"
proof -
  obtain j where j: "raw_json G (bytes_of (kr_Scope k)) = Some j" "scope_ok j" "scope_of G (kr_Scope k) = scope_value j"
    using assms(2) scope_in_documentE unfolding admin_key_in_document_def key_in_document_def by metis
  have "decode F json_OptNilAdminAPIKeyScope j = Inr (scope_value j)"
    unfolding json_OptNilAdminAPIKeyScope_def json_AdminAPIKeyScope_def json_AdminAPIKeyScope0_def using j(2) by (rule decode_scope)
  with j assms show ?thesis
    by (cases "kr_ExpiresAt k"; cases "kr_LastUsedAt k")
      (simp_all add: formats_agree_def admin_key_in_document_def key_in_document_def json_AdminAPIKey_def json_OptNilDateTime_def
        json_AdminAPIKeyStatus_def json_AdminAPIKeyOwnerIdentitySource_def json_AdminAPIKeyOwnerStatus_def admin_key_json_def admin_key_value_def decode_rules)
qed

lemma decode_oauth:
  assumes "formats_agree G F"
  shows "decode F json_OAuthSession (oauth_json G s) = Inr (oauth_value s)"
  using assms
  by (cases "or_AuthID s = []"; cases "or_ErrorMessage s = []"; cases "or_UserCode s = []")
    (simp_all add: formats_agree_def json_OAuthSession_def json_OptString_def json_OAuthSessionFlowType_def json_OAuthSessionStatus_def
      oauth_json_def oauth_value_def omitempty_def set_value_def decode_rules)

lemma decode_model:
  assumes "model_in_document G v"
  shows "\<exists>j. model_json G v = Some j \<and> decode F json_ModelOverride j = Inr (model_value G v)"
  using assms by (auto simp: model_in_document_def json_ModelOverride_def model_json_def model_value_def decode_rules)

text \<open>The validators of the client accept the values.\<close>

lemma scope_value_valid: "scope_ok j \<Longrightarrow> validate K (CkOpt CkSum) (scope_value j) = None"
  by (cases j) simp_all

lemma validate_key: "key_in_document G k \<Longrightarrow> validate K validate_APIKey (key_value G k) = None"
  using scope_value_valid [of _ K]
  by (auto elim!: scope_in_documentE simp: key_in_document_def validate_APIKey_def validate_APIKeyScope_def validate_APIKeyStatus_def key_value_def Let_def
      simp del: validate.simps(3))

lemma validate_admin_key: "admin_key_in_document G k \<Longrightarrow> validate K validate_AdminAPIKey (admin_key_value G k) = None"
  using scope_value_valid [of _ K]
  by (auto elim!: scope_in_documentE simp: admin_key_in_document_def key_in_document_def validate_AdminAPIKey_def validate_AdminAPIKeyScope_def
      validate_AdminAPIKeyStatus_def validate_AdminAPIKeyOwnerIdentitySource_def validate_AdminAPIKeyOwnerStatus_def admin_key_value_def Let_def
      simp del: validate.simps(3))

lemma validate_user: "user_in_document u \<Longrightarrow> validate K validate_AdminUser (user_value u) = None"
  by (auto simp: user_in_document_def validate_AdminUser_def validate_AdminUserIdentitySource_def validate_AdminUserRole_def
      validate_AdminUserStatus_def user_value_def Let_def)

lemma validate_oauth: "oauth_in_document s \<Longrightarrow> validate K validate_OAuthSession (oauth_value s) = None"
  by (auto simp: oauth_in_document_def validate_OAuthSession_def validate_OAuthSessionFlowType_def validate_OAuthSessionStatus_def
      oauth_value_def Let_def)

lemma validate_data:
  assumes "\<And>x. x \<in> set xs \<Longrightarrow> validate K ck (v x) = None"
  shows "validate K (CkFields [(''data'', ''Data'', CkArr None (Some ck))]) (data_value v xs) = None"
  using assms by (simp add: data_value_def Let_def validate_elems_ok list_all_iff)

text \<open>The codec and the validator that the client has for a type.\<close>

definition document_codec :: "string \<Rightarrow> (codec \<times> check option) option" where
  "document_codec = map_of
    [(''Error'', json_Error, None), (''LoginResponse'', json_LoginResponse, Some validate_LoginResponse),
     (''CurrentUserResponse'', json_CurrentUserResponse, Some validate_CurrentUserResponse),
     (''APIKeyListResponse'', json_APIKeyListResponse, Some validate_APIKeyListResponse),
     (''CreateAPIKeyResponse'', json_CreateAPIKeyResponse, Some validate_CreateAPIKeyResponse),
     (''UsageResponse'', json_UsageResponse, Some validate_UsageResponse),
     (''AdminUserListResponse'', json_AdminUserListResponse, Some validate_AdminUserListResponse),
     (''AdminAPIKeyListResponse'', json_AdminAPIKeyListResponse, Some validate_AdminAPIKeyListResponse),
     (''OAuthSession'', json_OAuthSession, Some validate_OAuthSession),
     (''OAuthSessionListResponse'', json_OAuthSessionListResponse, Some validate_OAuthSessionListResponse),
     (''ModelOverride'', json_ModelOverride, None), (''ModelOverrideListResponse'', json_ModelOverrideListResponse, Some validate_ModelOverrideListResponse)]"

definition reads_as :: "formats \<Rightarrow> checks \<Rightarrow> codec \<Rightarrow> check option \<Rightarrow> json option \<Rightarrow> gval \<Rightarrow> bool" where
  "reads_as F K c ck oj v \<longleftrightarrow> (\<exists>j. oj = Some j \<and> decode F c j = Inr v \<and> (case ck of None \<Rightarrow> True | Some k \<Rightarrow> validate K k v = None))"

lemma body_reads:
  assumes "formats_agree G F" and "body_in_document G b" and "document_codec (body_type b) = Some (c, ck)"
  shows "reads_as F K c ck (body_json G b) (body_value G b)"
proof (cases b)
  case (Body_error m)
  with assms(3) show ?thesis by (auto simp: document_codec_def reads_as_def decode_error)
next
  case (Body_login l)
  with assms show ?thesis
    by (auto simp: document_codec_def reads_as_def decode_login validate_LoginResponse_def validate_LoginResponseRole_def login_value_def Let_def)
next
  case (Body_me i role)
  with assms show ?thesis
    by (auto simp: document_codec_def reads_as_def decode_me validate_CurrentUserResponse_def validate_CurrentUserResponseRole_def me_value_def Let_def)
next
  case (Body_keys ks)
  with assms show ?thesis
    using decode_data [of ks "key_json G" F json_APIKey "key_value G" "''APIKeyListResponse''"] decode_key [OF assms(1)]
      validate_data [of ks K validate_APIKey "key_value G"] validate_key [of G _ K]
    by (auto simp: document_codec_def reads_as_def json_APIKeyListResponse_def validate_APIKeyListResponse_def list_all_iff)
next
  case (Body_created_key k p)
  with assms show ?thesis
    using decode_created_key [OF assms(1), of k p] validate_key [of G k K]
    by (auto simp: document_codec_def reads_as_def validate_CreateAPIKeyResponse_def created_key_value_def Let_def)
next
  case (Body_usage t0 t1 s)
  with assms show ?thesis
    by (auto simp: document_codec_def reads_as_def decode_usage validate_UsageResponse_def usage_value_def Let_def)
next
  case (Body_users us)
  with assms show ?thesis
    using decode_data [of us "\<lambda>u. Some (user_json G u)" F json_AdminUser user_value "''AdminUserListResponse''"] decode_user [OF assms(1)]
      validate_data [of us K validate_AdminUser user_value] validate_user [of _ K]
    by (auto simp: document_codec_def reads_as_def json_AdminUserListResponse_def validate_AdminUserListResponse_def list_all_iff)
next
  case (Body_admin_keys ks)
  with assms show ?thesis
    using decode_data [of ks "admin_key_json G" F json_AdminAPIKey "admin_key_value G" "''AdminAPIKeyListResponse''"] decode_admin_key [OF assms(1)]
      validate_data [of ks K validate_AdminAPIKey "admin_key_value G"] validate_admin_key [of G _ K]
    by (auto simp: document_codec_def reads_as_def json_AdminAPIKeyListResponse_def validate_AdminAPIKeyListResponse_def list_all_iff)
next
  case (Body_oauth_session s)
  with assms show ?thesis by (auto simp: document_codec_def reads_as_def decode_oauth validate_oauth)
next
  case (Body_oauth_sessions ss)
  with assms show ?thesis
    using decode_data [of ss "\<lambda>s. Some (oauth_json G s)" F json_OAuthSession oauth_value "''OAuthSessionListResponse''"] decode_oauth [OF assms(1)]
      validate_data [of ss K validate_OAuthSession oauth_value] validate_oauth [of _ K]
    by (auto simp: document_codec_def reads_as_def json_OAuthSessionListResponse_def validate_OAuthSessionListResponse_def list_all_iff)
next
  case (Body_model v)
  with assms show ?thesis using decode_model [of G v F] by (auto simp: document_codec_def reads_as_def)
next
  case (Body_models vs)
  with assms show ?thesis
    using decode_data [of vs "model_json G" F json_ModelOverride "model_value G" "''ModelOverrideListResponse''"] decode_model [of G _ F]
    by (auto simp: document_codec_def reads_as_def json_ModelOverrideListResponse_def validate_ModelOverrideListResponse_def list_all_iff data_value_def Let_def)
qed (use assms(3) in \<open>simp_all add: document_codec_def\<close>)

section \<open>Routes and operations\<close>

text \<open>The operation of the document for every route, and the decoder of the client for every answer that it can give.\<close>

definition contract_rows :: "((string \<times> string) \<times> answer list \<times> server_op \<times> client_op) list" where
  "contract_rows = map2 (\<lambda>(k, as) sc. (k, as, sc)) route_answers
    [(handle_Login, send_Login), (handle_Logout, send_Logout), (handle_GetCurrentUser, send_GetCurrentUser), (handle_ListMyAPIKeys, send_ListMyAPIKeys),
     (handle_CreateMyAPIKey, send_CreateMyAPIKey), (handle_RevokeMyAPIKey, send_RevokeMyAPIKey), (handle_GetMyUsage, send_GetMyUsage),
     (handle_ListUsers, send_ListUsers), (handle_SetUserStatus, send_SetUserStatus), (handle_ListAllAPIKeys, send_ListAllAPIKeys),
     (handle_ListPendingOAuthSessions, send_ListPendingOAuthSessions), (handle_GetOAuthSession, send_GetOAuthSession),
     (handle_CancelOAuthSession, send_CancelOAuthSession), (handle_UpsertModelOverride, send_UpsertModelOverride),
     (handle_DeleteModelOverride, send_DeleteModelOverride), (handle_ListModelOverrides, send_ListModelOverrides)]"

fun answer_read :: "dec_case list \<Rightarrow> answer \<Rightarrow> bool" where
  "answer_read cs (st, ty) =
     (case find (\<lambda>d. dc_status d = nat st) cs of
        None \<Rightarrow> True
      | Some (Dec_case _ ctype t hdr b) \<Rightarrow>
          (hdr = None \<or> hdr = Some ''Set-Cookie'') \<and>
          (if b = Dec_none then ctype = None \<and> (ty = [] \<or> ty = ''Error'')
           else ctype = Some ''application/json'' \<and> ty \<noteq> [] \<and>
             (case document_codec ty of None \<Rightarrow> False | Some (c, ck) \<Rightarrow> b = Dec_json c ck \<or> b = Dec_json (CAlias c) ck)))"

lemmas json_error_defs = json_LoginBadRequest_def json_LoginUnauthorized_def json_LoginForbidden_def json_LoginInternalServerError_def
  json_ListMyAPIKeysUnauthorized_def json_ListMyAPIKeysInternalServerError_def json_CreateMyAPIKeyBadRequest_def
  json_CreateMyAPIKeyUnauthorized_def json_CreateMyAPIKeyInternalServerError_def json_RevokeMyAPIKeyBadRequest_def
  json_RevokeMyAPIKeyUnauthorized_def json_RevokeMyAPIKeyNotFound_def json_RevokeMyAPIKeyInternalServerError_def
  json_GetMyUsageBadRequest_def json_GetMyUsageUnauthorized_def json_GetMyUsageInternalServerError_def json_ListUsersUnauthorized_def
  json_ListUsersForbidden_def json_ListUsersInternalServerError_def json_SetUserStatusBadRequest_def json_SetUserStatusUnauthorized_def
  json_SetUserStatusForbidden_def json_SetUserStatusNotFound_def json_SetUserStatusInternalServerError_def
  json_ListAllAPIKeysUnauthorized_def json_ListAllAPIKeysForbidden_def json_ListAllAPIKeysInternalServerError_def
  json_ListPendingOAuthSessionsUnauthorized_def json_ListPendingOAuthSessionsForbidden_def

lemma contract_answers: "map (\<lambda>(k, as, sc). (k, as)) contract_rows = route_answers"
  by (simp add: contract_rows_def route_answers_def)

lemma contract_operations: "list_all (\<lambda>(k, as, sc). sc \<in> set operations) contract_rows"
  by (simp add: contract_rows_def route_answers_def operations_def)

lemma contract_routes: "list_all (\<lambda>((m, p), as, s, c). so_method s = m \<and> so_route s = openapi_pattern p) contract_rows"
  by (simp add: contract_rows_def route_answers_def operation_defs)

lemma contract_read: "list_all (\<lambda>(k, as, s, c). list_all (answer_read (co_response c)) as) contract_rows"
  by (simp add: contract_rows_def route_answers_def operation_defs errors_of_def document_codec_def json_error_defs)

lemma operation_unique:
  assumes "(s, c) \<in> set operations" and "(s', c') \<in> set operations" and "so_method s = so_method s'" and "so_route s = so_route s'"
  shows "(s, c) = (s', c')"
proof -
  have rows: "distinct (map (\<lambda>(n, m, p, k). (m, p)) operation_rows)" by code_simp
  have "map (\<lambda>(n, m, p, k). (m, p)) operation_rows = map (\<lambda>(s, c). (so_method s, so_route s)) operations"
    unfolding operations_rows [symmetric] by (simp add: operation_row_def case_prod_unfold)
  with rows have "inj_on (\<lambda>(s, c). (so_method s, so_route s)) (set operations)" by (simp add: distinct_map)
  from inj_onD [OF this _ assms(1,2)] assms(3,4) show ?thesis by simp
qed

lemma route_decoders:
  assumes "map_of route_answers (m, p) = Some as" and "(s, c) \<in> set operations" and "so_method s = m" and "so_route s = openapi_pattern p"
  shows "list_all (answer_read (co_response c)) as"
proof -
  have "((m, p), as) \<in> set (map (\<lambda>(k, as, sc). (k, as)) contract_rows)"
    unfolding contract_answers using assms(1) by (rule map_of_SomeD)
  then obtain s' c' where row: "((m, p), as, s', c') \<in> set contract_rows" by auto
  have "(s', c') \<in> set operations" using contract_operations row unfolding list_all_iff by fastforce
  moreover have "so_method s' = m \<and> so_route s' = openapi_pattern p" using contract_routes row unfolding list_all_iff by fastforce
  ultimately have "(s, c) = (s', c')" using assms(2-4) by (intro operation_unique) simp_all
  moreover have "list_all (answer_read (co_response c')) as" using contract_read row unfolding list_all_iff by fastforce
  ultimately show ?thesis by simp
qed

lemma json_charset_type: "ParseMediaType ''application/json; charset=utf-8'' = Some ''application/json''"
  by code_simp

lemma reads_as_read:
  assumes "reads_as F K c ck oj v"
  obtains j where "oj = Some j" "read_json F K c ck (Wb_json j) = Inr v" "read_json F K (CAlias c) ck (Wb_json j) = Inr v"
  using assms that by (auto simp: reads_as_def read_json_def split: option.splits)

lemma header_read:
  assumes "\<And>k. ol_header_decode L (gj_cookie G k) \<noteq> None" and "hdr = None \<or> hdr = Some ''Set-Cookie''"
  obtains h where "decode_header L hdr (ws_header (gin_response G rs)) = Inr h"
proof -
  have cookie: "ol_header_decode L (gj_cookie G k) = Some (the (ol_header_decode L (gj_cookie G k)))" for k using assms(1) [of k] by auto
  have "\<exists>h. decode_header L hdr (ws_header (gin_response G rs)) = Inr h"
  proof (cases "rs_cookie rs")
    case None
    with assms(2) show ?thesis by (auto simp: decode_header_def gin_response_def)
  next
    case (Some k)
    with assms(2) cookie [of k] show ?thesis by (auto simp: decode_header_def gin_response_def split: option.splits)
  qed
  then show thesis using that by blast
qed

lemma answer_decoded:
  assumes "formats_agree G F" and "\<And>k. ol_header_decode L (gj_cookie G k) \<noteq> None" and "body_in_document G (rs_body rs)"
    and "answer_read cs (rs_status rs, body_type (rs_body rs))"
  shows "if nat (rs_status rs) \<in> dc_status ` set cs
    then \<exists>t p h. decode_response L F K cs (gin_response G rs) = Inr (Gres t p h) \<and>
      (p = Value (body_value G (rs_body rs)) \<or> p = No_payload \<and> body_type (rs_body rs) \<in> {[], ''Error''})
    else decode_response L F K cs (gin_response G rs) = Inl (Unexpected_status (nat (rs_status rs)))"
proof (cases "find (\<lambda>d. dc_status d = nat (rs_status rs)) cs")
  case None
  moreover from None have "nat (rs_status rs) \<notin> dc_status ` set cs" by (auto simp: find_None_iff)
  ultimately show ?thesis by (simp add: decode_response_def gin_response_def)
next
  case (Some d)
  obtain st ctype t hdr b where d: "d = Dec_case st ctype t hdr b" by (cases d)
  have documented: "nat (rs_status rs) \<in> dc_status ` set cs" using find_Some_set [OF Some] by force
  have "hdr = None \<or> hdr = Some ''Set-Cookie''" using assms(4) Some d by simp
  then obtain h where h: "decode_header L hdr (ws_header (gin_response G rs)) = Inr h" by (rule header_read [OF assms(2)])
  have dec: "decode_response L F K cs (gin_response G rs) = decode_response_case L F K d (gin_response G rs)"
    using Some by (simp add: decode_response_def gin_response_def)
  show ?thesis
  proof (cases "b = Dec_none")
    case True
    with assms(4) Some d h documented dec show ?thesis by auto
  next
    case False
    with assms(4) Some d obtain c ck where c: "ctype = Some ''application/json''" "body_type (rs_body rs) \<noteq> []"
      "document_codec (body_type (rs_body rs)) = Some (c, ck)" "b = Dec_json c ck \<or> b = Dec_json (CAlias c) ck"
      by (auto split: option.splits)
    obtain j where j: "body_json G (rs_body rs) = Some j" "read_json F K c ck (Wb_json j) = Inr (body_value G (rs_body rs))"
      "read_json F K (CAlias c) ck (Wb_json j) = Inr (body_value G (rs_body rs))"
      using reads_as_read [OF body_reads [OF assms(1,3) c(3), of K]] .
    have "rs_body rs \<noteq> Body_none" using c(2) by auto
    then have "Values_Get (ws_header (gin_response G rs)) ''Content-Type'' = ''application/json; charset=utf-8''"
      by (simp add: gin_response_def Values_Get_def split: option.splits)
    moreover have "decode_payload F K b (ws_body (gin_response G rs)) = Inr (Value (body_value G (rs_body rs)))"
      using c(4) j by (auto simp: gin_response_def)
    ultimately show ?thesis using h documented dec d c(1) by (simp add: json_charset_type)
  qed
qed

section \<open>The contract\<close>

text \<open>
  C7. The management API keeps the contract of the document. For every route of the program except those of the account handlers, every
  request and every state: if the status of the answer is one that the document lists for the operation, then the generated
  client reads the answer, and gets exactly the values that the handler has put into the body (or no value, where the document
  describes no body); otherwise it reports an unexpected status. The body must hold what its columns in the database can hold
  (\<open>body_in_document\<close>), and the client must be able to parse the times and the cookie.
\<close>

theorem api_keeps_the_contract:
  assumes "rt \<in> set (RouterConfigurator (main_mounts E login secure source pk at qu oc))" and "(rt_method rt, rt_pattern rt) \<notin> set account_routes"
    and "(s, c) \<in> set operations" and "so_method s = rt_method rt" and "so_route s = openapi_pattern (rt_pattern rt)"
    and "serve E rt rq params a w = (rs, a', w')"
    and "body_in_document G (rs_body rs)" and "formats_agree G F" and "\<And>k. ol_header_decode L (gj_cookie G k) \<noteq> None"
  shows "if nat (rs_status rs) \<in> dc_status ` set (co_response c)
    then \<exists>t p h. decode_response L F K (co_response c) (gin_response G rs) = Inr (Gres t p h) \<and>
      (p = Value (body_value G (rs_body rs)) \<or> p = No_payload \<and> body_type (rs_body rs) \<in> {[], ''Error''})
    else decode_response L F K (co_response c) (gin_response G rs) = Inl (Unexpected_status (nat (rs_status rs)))"
proof -
  obtain as where as: "map_of route_answers (rt_method rt, rt_pattern rt) = Some as" "(rs_status rs, body_type (rs_body rs)) \<in> set as"
    using route_gives [OF assms(1,2,6)] .
  have "answer_read (co_response c) (rs_status rs, body_type (rs_body rs))"
    using route_decoders [OF as(1) assms(3-5)] as(2) unfolding list_all_iff by (rule bspec)
  with assms(7-9) show ?thesis by (intro answer_decoded)
qed

text \<open>A user lists the keys of the example: times in unary, no scopes.\<close>

definition unary_json :: go_json where
  "unary_json = \<lparr>gj_time = (\<lambda>t. (if t < 0 then ''-'' else []) @ replicate (nat (abs t)) CHR ''1''), gj_date = (\<lambda>d. d), gj_raw = (\<lambda>s. None), gj_cookie = co_Value\<rparr>"

definition unary_formats :: formats where
  "unary_formats = plain_formats\<lparr>dt_format := gj_time unary_json,
     dt_parse := (\<lambda>s. case s of CHR ''-'' # ones \<Rightarrow> Some (- int (length ones)) | _ \<Rightarrow> Some (int (length s)))\<rparr>"

lemma unary_formats_agree: "formats_agree unary_json unary_formats"
proof -
  have "dt_parse unary_formats (gj_time unary_json t) = Some t" for t
    by (cases "nat (abs t)") (auto simp: unary_formats_def unary_json_def)
  then show ?thesis by (simp add: formats_agree_def)
qed

theorem api_keeps_the_contract_witness:
  "\<exists>rs a' w' t h. serve demo_env (demo_route ''GET'' ''/api/v1/me/keys'') (demo_request ''tok'' []) [] demo_app (start_world demo_db 5) = (rs, a', w') \<and>
     decode_response plain_lib unary_formats plain_checks (co_response send_ListMyAPIKeys) (gin_response unary_json rs) =
       Inr (Gres t (Value (body_value unary_json (rs_body rs))) h)"
proof -
  let ?rt = "demo_route ''GET'' ''/api/v1/me/keys''" and ?rq = "demo_request ''tok'' []" and ?w = "start_world demo_db 5"
  have "list_ex (\<lambda>rt. rt_method rt = ''GET'' \<and> rt_pattern rt = ''/api/v1/me/keys'') (RouterConfigurator demo_mounts)" by code_simp
  note m = demo_route_mounted [OF this, unfolded demo_mounts_def]
  have rt: "rt_method ?rt = ''GET''" by code_simp
  obtain rs a' w' where s: "serve demo_env ?rt ?rq [] demo_app ?w = (rs, a', w')" by (metis prod_cases3)
  have "case serve demo_env ?rt ?rq [] demo_app ?w of (rs, _) \<Rightarrow>
     rs_status rs = 200 \<and> body_type (rs_body rs) = ''APIKeyListResponse'' \<and> body_in_document unary_json (rs_body rs)" by code_simp
  with s have rs: "rs_status rs = 200" "body_type (rs_body rs) = ''APIKeyListResponse''" "body_in_document unary_json (rs_body rs)" by simp_all
  have op: "(handle_ListMyAPIKeys, send_ListMyAPIKeys) \<in> set operations" by (simp add: operations_def)
  have "(rt_method ?rt, rt_pattern ?rt) \<notin> set account_routes" "so_method handle_ListMyAPIKeys = rt_method ?rt"
    "so_route handle_ListMyAPIKeys = openapi_pattern (rt_pattern ?rt)"
    using m rt by (simp_all add: account_routes_def handle_ListMyAPIKeys_def)
  from api_keeps_the_contract [OF conjunct1 [OF m] this(1) op this(2,3) s rs(3) unary_formats_agree, of plain_lib plain_checks] rs(1,2) s
  show ?thesis by (force simp: plain_lib_def send_ListMyAPIKeys_def decode_ListMyAPIKeysResponse_def)
qed

text \<open>The statuses that the program can give and the document does not list.\<close>

definition undocumented :: "dec_case list \<Rightarrow> answer list \<Rightarrow> int list" where
  "undocumented cs as = filter (\<lambda>st. \<not> list_ex (\<lambda>d. dc_status d = nat st) cs) (map fst as)"

lemma undocumented_statuses:
  "filter (\<lambda>(n, sts). sts \<noteq> []) (map (\<lambda>(k, as, s, c). (so_name s, undocumented (co_response c) as)) contract_rows) =
    [(''ListPendingOAuthSessions'', [500]), (''GetOAuthSession'', [401, 403, 500]), (''CancelOAuthSession'', [400, 401, 403, 500]),
     (''UpsertModelOverride'', [400, 401, 403, 500]), (''DeleteModelOverride'', [400, 401, 403, 404, 500]), (''ListModelOverrides'', [401, 403, 500])]"
  by (simp add: contract_rows_def route_answers_def operation_defs errors_of_def undocumented_def)

text \<open>For example, a request without a session to delete a model: the client cannot read the refusal.\<close>

lemma refusal_is_undocumented:
  "decode_response L F K (co_response send_DeleteModelOverride)
     (gin_response G (fst (serve demo_env (demo_route ''DELETE'' ''/api/v1/admin/models/:modelAlias'') (demo_request ''nobody'' []) [(''modelAlias'', ''m'')]
        demo_app (start_world demo_db 5)))) = Inl (Unexpected_status 401)"
proof -
  have "rs_status (fst (serve demo_env (demo_route ''DELETE'' ''/api/v1/admin/models/:modelAlias'') (demo_request ''nobody'' []) [(''modelAlias'', ''m'')]
        demo_app (start_world demo_db 5))) = 401" by code_simp
  then show ?thesis by (simp add: decode_response_def gin_response_def send_DeleteModelOverride_def decode_DeleteModelOverrideResponse_def)
qed

end
