(* ===== verification/Spec2Isabelle.thy ===== *)
theory Spec2Isabelle
  imports Http_Theorems Http_Edge Upstream_Admin Key_Interleaving Cookie_Interleaving Usage_Buffer Selector Watchers Redaction
    Observability Startup Openapi_Projection Openapi_Router Openapi_Contract
begin

text \<open>
  Verification development of CLIProxyNew, the business layer around the proxy CLIProxyAPI: users log in through
  LDAP or a static identity and get a session cookie; they create API keys with which clients call the
  proxy; administrators block users, manage upstream accounts and the list of allowed models; usage is written to
  PostgreSQL. Several replicas of the program run on one database.

  \<^bold>\<open>Method.\<close> The Go code is translated into HOL functions by hand, one definition per Go function, in the order of the
  code. A function that touches the outside takes the world and returns it: the database (the tables of the
  migrations as lists of records, with the constraints that the statements run into), a clock that
  moves by a scripted amount at every call, scripted faults of the database, and scripted random bytes. A Go error is the
  left side of a sum. SQL statements are functions from the database to a result and a database, \<open>run_query\<close> is one
  statement, \<open>in_tx\<close> a transaction with its rollback. Pointers that may be nil are options; receivers of repositories are
  not nil, since the program constructs them all. Third-party code is a parameter with its documented contract as a
  named hypothesis, and every such contract has a toy instance in a witness: bcrypt and SHA-256 (\<open>crypto\<close>), AES-GCM
  (\<open>aead\<close>), the LDAP server (\<open>directory\<close>), the SDK (\<open>sdk\<close>, \<open>manager\<close>, \<open>executor\<close>), the YAML decoder, URL parser and JSON
  binding.

  \<^bold>\<open>Theories and what they model.\<close>
  \<^item> \<open>Prelude\<close>, \<open>Go_Strings\<close>, \<open>Base64\<close>: errors and \<^verbatim>\<open>errors.Is\<close>, time, updates of tables; \<^verbatim>\<open>strings\<close>, \<^verbatim>\<open>strconv\<close>,
    \<^verbatim>\<open>encoding/base64\<close>.
  \<^item> \<open>Ttl_Cache\<close> (\<^verbatim>\<open>internal/cache/ttl.go\<close>): every method; the locale \<open>expiring_cache\<close> states what the two clients of the cache
    rely on and is interpreted on the model.
  \<^item> \<open>Database\<close>, \<open>Users_Repo\<close>, \<open>Sessions_Repo\<close>, \<open>Api_Keys\<close>, \<open>Oauth_Sessions\<close>, \<open>Model_Overrides\<close>, \<open>Core_Auth_Store\<close>, \<open>Usage_Events\<close>
    (\<^verbatim>\<open>internal/store\<close>, its generated queries in \<^verbatim>\<open>dbgen\<close>, \<^verbatim>\<open>internal/modelregistry\<close>): rows, statements and repositories; the API key repository
    with its caches of candidates and of verified keys.
  \<^item> \<open>Hidden_State\<close> (\<^verbatim>\<open>coreauth_store.go\<close>): the reflective scan of a token storage for state that JSON would lose, over a
    model of Go values: structs, pointers, slices and maps that may share and be cyclic.
  \<^item> \<open>Keyring\<close> (\<^verbatim>\<open>internal/security/keyring.go\<close>): encryption with versioned keys.
  \<^item> \<open>Access_Provider\<close> (\<^verbatim>\<open>internal/access\<close>): from a request of a client to the principal of an API key.
  \<^item> \<open>Identity\<close> (\<^verbatim>\<open>internal/auth/identity\<close>, \<^verbatim>\<open>internal/auth/ldap\<close>): providers, login service, cookie authenticator.
  \<^item> \<open>Configuration\<close>, \<open>Startup\<close> (\<^verbatim>\<open>internal/config\<close>, \<^verbatim>\<open>cmd/cliproxy/main.go\<close>, \<^verbatim>\<open>internal/store/pool.go\<close>): from file and environment to the
    identity provider; then the whole of \<^verbatim>\<open>run\<close> as the list of its actions and deferred calls.
  \<^item> \<open>Http_Edge\<close>, \<open>Http_Api\<close>, \<open>Upstream_Admin\<close> (\<^verbatim>\<open>internal/httpapi\<close>, \<^verbatim>\<open>internal/auth/testing\<close>): middleware, handlers and routes of the
    management API, the handlers of upstream accounts, the account checker.
  \<^item> \<open>Usage_Buffer\<close> (\<^verbatim>\<open>internal/usage\<close>), \<open>Selector\<close> (\<^verbatim>\<open>internal/auth/selector\<close>), \<open>Watchers\<close> (\<^verbatim>\<open>internal/watcher\<close>), \<open>Redaction\<close>
    (\<^verbatim>\<open>internal/observability\<close>): the concurrent parts as step systems, and the redaction of log attributes.
  \<^item> \<open>Observability\<close> (\<^verbatim>\<open>internal/metrics\<close>, \<^verbatim>\<open>tracing.go\<close>, \<^verbatim>\<open>request_logging.go\<close>, \<^verbatim>\<open>metrics.go\<close>, \<^verbatim>\<open>openapi.go\<close>, \<^verbatim>\<open>system.go\<close>): collectors,
    the middleware that counts, traces and logs requests, in the order \<^verbatim>\<open>main.go\<close> stacks them, and the routes outside the
    management API.
  \<^item> \<open>Interleaving\<close>, \<open>Key_Interleaving\<close>, \<open>Cookie_Interleaving\<close>: the calls of the API key repository and of the session
    authenticator broken up into atomic steps, run by goroutines on many replicas.
  \<^item> \<open>Openapi_Projection\<close> (\<^verbatim>\<open>cmd/openapiogen\<close>): the projection of the OpenAPI document. \<open>Openapi_Router\<close> (\<^verbatim>\<open>oas_router_gen.go\<close>): the generated
    router, its two trees of \<^verbatim>\<open>switch\<close> statements as data, and the meaning of the statements.
  \<^item> The other code that ogen generates from the document (\<^verbatim>\<open>internal/openapi/ogen\<close>), in the same way: what the statements of a type or an operation
    are is data, one definition for each generated function, and what they mean is defined once. \<open>Openapi_Json\<close>, \<open>Openapi_Types\<close>
    (\<^verbatim>\<open>oas_json_gen.go\<close>): \<^verbatim>\<open>Encode\<close> and \<^verbatim>\<open>Decode\<close> of 65 types and 137 error responses, with the bit sets of required fields as 8-bit words.
    \<open>Openapi_Validators\<close> (\<^verbatim>\<open>oas_validators_gen.go\<close>). \<open>Openapi_Wire\<close>: messages, media types, parameters, request and response codecs. \<open>Openapi_Rpc\<close>
    (\<^verbatim>\<open>oas_handlers_gen.go\<close>, \<^verbatim>\<open>oas_client_gen.go\<close>, \<^verbatim>\<open>oas_security_gen.go\<close>): security, handlers, methods of the client. \<open>Openapi_Operations\<close>: the
    53 operations. \<open>Openapi_Agreement\<close>: when the two sides of an operation agree, and what follows from it. \<open>Openapi_Calls\<close>: the theorems.
  \<^item> \<open>Openapi_Contract\<close> (\<^verbatim>\<open>internal/httpapi\<close> against \<^verbatim>\<open>internal/openapi/ogen\<close>): the JSON of the bodies of the management API, by the tags of its
    structs, the answers that each route can give, and the decoders of the generated client.

  \<^bold>\<open>What is shown.\<close>
  \<^item> API keys. \<open>Api_Keys_Safety\<close> describes a replica as steps (requests, key management, and anything the rest of the
    system does to the database within a rely condition) and proves, once, in the locale \<open>replica_safety\<close>, that a
    property of accepted keys survives all of them. \<open>Api_Keys_Theorems\<close> and \<open>Api_Keys_Genuine\<close> interpret it: a revoked key is refused
    at once where it was revoked and after two times to live plus one call elsewhere (and a run shows that one time to
    live is not enough); every accepted key was created through the store and presented with its own secret; keys of
    a blocked user are refused. \<open>Access_Provider\<close> lifts this to requests and classifies every outcome.
  \<^item> Interleavings. These runs make one call after the other. The locale \<open>interleaving\<close> proves for any service that what every atomic
    step keeps holds in all executions of a cluster; the locales \<open>interleaved_keys\<close> and \<open>interleaved_cookies\<close> are sublocales of it,
    each interpreted three times. Revoked keys die within \<open>2 \<cdot> (TTL + \<delta>)\<close>, keys of blocked users and logged-out cookies within
    \<open>TTL + \<delta>\<close>, and only genuine keys are accepted, whatever the interleaving. Two executions show that a revocation and a logout that
    overtake a call do not take effect at once. Undisturbed steps compute the calls of the sequential model.
  \<^item> Sessions. \<open>Session_Cookies\<close> does the same for cookies in the locale \<open>cookie_safety\<close>: blocking and logging out take effect at
    once on the replica, expiry within one time to live. \<open>Login_Theorems\<close>: a login leaves exactly the session its cookie
    opens, a blocked user gets none, and a run in which a blocked LDAP user gets around it by letter case.
  \<^item> The management API. \<open>Http_Theorems\<close>: the guards of all routes, the immediate effect of blocking over HTTP, and
    that users reach only their own keys. \<open>Http_Edge\<close>: CORS and request IDs. \<open>Upstream_Admin\<close>: export is audited,
    import is guarded, the verdict of an account test. \<open>Configuration\<close>: no static identity in production.
  \<^item> Storage. Status changes, overrides and accounts are atomic with their audit records; accounts read back through any later
    keyring; sealed values open only under their key version; an OAuth flow settles once; batches of usage events are stored
    completely or not at all, and summaries count exactly.
  \<^item> Concurrency. The usage buffer refines a queue, and shutdown delivers every accepted event (the locale \<open>event_store\<close>,
    interpreted on the repository); the selector decides as a reference function on a list that is younger than its time
    to live; at most one replica with a live lock connection runs the leader job; a saved account makes the pollers restart.
  \<^item> The process. Whatever fails, \<open>run\<close> closes what it opened in the right order; a replica that is told to stop gets through its deferred
    calls; a replica that leads and fails by itself does not. Metrics, spans and log lines count the same requests.
  \<^item> The scan for hidden state terminates on cyclic values and reports exactly what JSON would lose.
  \<^item> The TTL cache is equivalent to a function of the history of its calls; the OpenAPI projection is idempotent and
    admits the same JSON types. The routes of the program are the operations of the document, and the generated router finds every
    path of the document with its arguments; its two functions agree.
  \<^item> The generated server and client. Every type of the document survives JSON, and the decoder of an object reports exactly the required
    fields that are absent. The two sides of every operation agree, so that a call through the client, the router and the server
    returns what the operation returns. No enumeration holds a constant outside the document on either side, and a protected operation is not
    reached without an accepted credential. These follow from general lemmas about codecs and operations that are well formed
    (\<open>wf_codec\<close>, \<open>guards\<close>, \<open>op_agree\<close>), and that the generated ones are is evaluated.
  \<^item> The contract. The generated client reads every answer of the management API that has a documented status, value by value; the
    statuses that handlers give and the document does not list are enumerated.

  \<^bold>\<open>Bounds.\<close> There is no fuel: loops over requests, candidates, rows and parts are structural recursion, the helpers of
    \<^verbatim>\<open>strings\<close> have measures, the scan for hidden state has a lexicographic measure (what is not yet visited, the size of the value), and the background loops are
    relations or functions on explicit sequences of events. Counters of the cache and the
    hook are 64-bit words; IDs and key versions are integers whose bounds are written out where the code checks them. The time of a call
    is bounded by a parameter \<open>\<delta>\<close> in the statements about windows.

  \<^bold>\<open>Not modelled.\<close> Of the generated code: the structs with their getters and setters (their fields are those of the codecs), the interfaces
  and options, and the summaries in the telemetry; the libraries \<^verbatim>\<open>jx\<close>, \<^verbatim>\<open>uri\<close>, \<^verbatim>\<open>conv\<close>, \<^verbatim>\<open>validate\<close> and \<^verbatim>\<open>net/http\<close> are parameters
  (\<open>formats\<close>, \<open>checks\<close>, \<open>ogen_lib\<close>), and JSON is modelled by its values, not by its text. The exporters of Prometheus and OpenTelemetry, the
  building and running of the SDK service, the conversion of the OpenAPI document from YAML to JSON: calls of libraries. The JSON of the
  responses of the account handlers: a body is the value that the handler hands to the encoder. Scheduling within a handler: handlers are atomic on the state of a replica except where a theory says otherwise
  (\<open>Key_Interleaving\<close>, \<open>Cookie_Interleaving\<close>, \<open>Selector\<close>, \<open>Usage_Buffer\<close>, \<open>Watchers\<close>, \<open>Startup\<close>).
\<close>

end
